(* ===== verification/Prelude.thy ===== *)
theory Prelude
  imports Complex_Main "HOL-Library.Word" "HOL-Library.Multiset"
begin

text \<open>
  Vocabulary shared by every component theory: Go's 64-bit \<open>int\<close>, fallible stateful
  procedures (a Go method that mutates its receiver and returns \<open>(value, error)\<close>), invariants
  of such procedures, ordering of slices by a \<open>less\<close> function (\<open>sort.Slice\<close>), and finite
  tables kept as lists of rows.
\<close>

named_theorems proc_simps \<open>evaluation of procedures\<close>
named_theorems keeps_intros \<open>composition of invariant-preservation facts\<close>

section \<open>Machine integers\<close>

text \<open>
  Go's \<open>int\<close> is 64 bits wide on every platform the program is built for. A value is kept as
  an \<open>int\<close> inside the range; an operation that can leave the range is written with
  \<open>wrap64\<close>, the two's complement wrap-around of a 64-bit word.
\<close>

definition go_max_int :: int where
  "go_max_int = 2 ^ 63 - 1"

definition go_min_int :: int where
  "go_min_int = - (2 ^ 63)"

definition int_range :: "int \<Rightarrow> bool" where
  "int_range x \<longleftrightarrow> go_min_int \<le> x \<and> x \<le> go_max_int"

definition wrap64 :: "int \<Rightarrow> int" where
  "wrap64 x = sint (word_of_int x :: 64 word)"

lemma wrap64_id [simp]: "int_range x \<Longrightarrow> wrap64 x = x"
  by (simp add: wrap64_def int_range_def go_min_int_def go_max_int_def sint_sbintrunc'
      signed_take_bit_int_eq_self)

lemma wrap64_range: "int_range (wrap64 x)"
proof -
  have "- (2 ^ 63) \<le> sint (word_of_int x :: 64 word)"
    using sint_greater_eq[of "word_of_int x :: 64 word"] by simp
  moreover have "sint (word_of_int x :: 64 word) < 2 ^ 63"
    using sint_less[of "word_of_int x :: 64 word"] by simp
  ultimately show ?thesis
    by (simp add: wrap64_def int_range_def go_min_int_def go_max_int_def)
qed

text \<open>Truncating division, as Go's \<open>/\<close> on integers; division by zero panics in Go, so every use
  in the models is guarded.\<close>

definition go_div :: "int \<Rightarrow> int \<Rightarrow> int" where
  "go_div a b = sgn a * sgn b * (\<bar>a\<bar> div \<bar>b\<bar>)"

section \<open>Procedures: state, error or value\<close>

text \<open>
  A Go method that may fail and mutates state is a function from the state to the error or the
  value and the state it leaves behind. A failing call keeps what it did before the failure, as
  Go code does.
\<close>

type_synonym ('s, 'e, 'a) procedure = "'s \<Rightarrow> ('e + 'a) \<times> 's"

definition retP :: "'a \<Rightarrow> ('s, 'e, 'a) procedure" where
  [proc_simps]: "retP x = (\<lambda>s. (Inr x, s))"

definition failP :: "'e \<Rightarrow> ('s, 'e, 'a) procedure" where
  [proc_simps]: "failP e = (\<lambda>s. (Inl e, s))"

definition bindP ::
  "('s, 'e, 'a) procedure \<Rightarrow> ('a \<Rightarrow> ('s, 'e, 'b) procedure) \<Rightarrow> ('s, 'e, 'b) procedure" where
  "bindP m f = (\<lambda>s. case m s of (Inl e, s') \<Rightarrow> (Inl e, s') | (Inr x, s') \<Rightarrow> f x s')"

definition readP :: "('s \<Rightarrow> 'a) \<Rightarrow> ('s, 'e, 'a) procedure" where
  [proc_simps]: "readP f = (\<lambda>s. (Inr (f s), s))"

definition writeP :: "('s \<Rightarrow> 's) \<Rightarrow> ('s, 'e, unit) procedure" where
  [proc_simps]: "writeP f = (\<lambda>s. (Inr (), f s))"

definition tryP :: "('s, 'e, 'a) procedure \<Rightarrow> ('s, 'd, 'e + 'a) procedure" where
  [proc_simps]: "tryP m = (\<lambda>s. case m s of (r, s') \<Rightarrow> (Inr r, s'))"

definition liftP :: "'e + 'a \<Rightarrow> ('s, 'e, 'a) procedure" where
  [proc_simps]: "liftP r = (\<lambda>s. (r, s))"

primrec forP :: "'x list \<Rightarrow> ('x \<Rightarrow> ('s, 'e, unit) procedure) \<Rightarrow> ('s, 'e, unit) procedure" where
  "forP [] f = retP ()"
| "forP (x # xs) f = bindP (f x) (\<lambda>_. forP xs f)"

lemma bindP_run [proc_simps]:
  "bindP m f s = (case m s of (r, s') \<Rightarrow> (case r of Inl e \<Rightarrow> (Inl e, s') | Inr x \<Rightarrow> f x s'))"
  by (simp add: bindP_def split: prod.splits sum.splits)

lemma bindP_ret [simp]: "bindP (retP x) f = f x"
  by (simp add: bindP_def retP_def)

lemma bindP_fail [simp]: "bindP (failP e) f = failP e"
  by (simp add: bindP_def failP_def)

lemma bindP_assoc: "bindP (bindP m f) g = bindP m (\<lambda>x. bindP (f x) g)"
  by (auto simp: bindP_def fun_eq_iff split: prod.splits sum.splits)

lemma bindP_InrE:
  assumes "bindP m f s = (Inr y, t)"
  obtains x u where "m s = (Inr x, u)" and "f x u = (Inr y, t)"
  using assms by (auto simp: bindP_def split: prod.splits sum.splits)

lemma bindP_cases:
  assumes "bindP m f s = (r, t)"
  obtains (fails) e where "m s = (Inl e, t)" and "r = Inl e"
  | (continues) x u where "m s = (Inr x, u)" and "f x u = (r, t)"
  using assms by (auto simp: bindP_def split: prod.splits sum.splits)

text \<open>The outcome of a concrete run, from the evaluation of what it returns.\<close>

lemma run_value: "map_sum (\<lambda>_. ()) f (fst p) = Inr y \<Longrightarrow> \<exists>a. p = (Inr a, snd p) \<and> f a = y"
  by (cases p; cases "fst p") auto

lemma run_error: "map_sum id (\<lambda>_. ()) (fst p) = Inl e \<Longrightarrow> p = (Inl e, snd p)"
  by (cases p; cases "fst p") auto

subsection \<open>Invariants of procedures\<close>

definition keeps :: "('s \<Rightarrow> bool) \<Rightarrow> ('s, 'e, 'a) procedure \<Rightarrow> bool" where
  "keeps I m \<longleftrightarrow> (\<forall>s. I s \<longrightarrow> I (snd (m s)))"

lemma keepsD: "keeps I m \<Longrightarrow> I s \<Longrightarrow> m s = (r, t) \<Longrightarrow> I t"
  by (force simp: keeps_def)

lemma keepsI: "(\<And>s r t. I s \<Longrightarrow> m s = (r, t) \<Longrightarrow> I t) \<Longrightarrow> keeps I m"
  by (auto simp: keeps_def) (metis prod.collapse)

lemma keeps_ret [keeps_intros]: "keeps I (retP x)"
  by (simp add: keeps_def retP_def)

lemma keeps_fail [keeps_intros]: "keeps I (failP e)"
  by (simp add: keeps_def failP_def)

lemma keeps_read [keeps_intros]: "keeps I (readP f)"
  by (simp add: keeps_def readP_def)

lemma keeps_lift [keeps_intros]: "keeps I (liftP r)"
  by (simp add: keeps_def liftP_def)

lemma keeps_try [keeps_intros]: "keeps I m \<Longrightarrow> keeps I (tryP m)"
  by (simp add: keeps_def tryP_def split: prod.splits) (metis snd_conv)

lemma keeps_bind [keeps_intros]:
  "keeps I m \<Longrightarrow> (\<And>x. keeps I (f x)) \<Longrightarrow> keeps I (bindP m f)"
  by (rule keepsI) (auto elim!: bindP_cases dest: keepsD)

lemma keeps_for [keeps_intros]: "(\<And>x. x \<in> set xs \<Longrightarrow> keeps I (f x)) \<Longrightarrow> keeps I (forP xs f)"
  by (induction xs) (auto intro: keeps_intros)

lemma keeps_if [keeps_intros]:
  "(b \<Longrightarrow> keeps I m) \<Longrightarrow> (\<not> b \<Longrightarrow> keeps I n) \<Longrightarrow> keeps I (if b then m else n)"
  by simp

lemma keeps_option [keeps_intros]:
  "keeps I m \<Longrightarrow> (\<And>x. keeps I (f x)) \<Longrightarrow> keeps I (case z of None \<Rightarrow> m | Some x \<Rightarrow> f x)"
  by (simp split: option.splits)

lemma keeps_sum [keeps_intros]:
  "(\<And>e. keeps I (g e)) \<Longrightarrow> (\<And>x. keeps I (f x)) \<Longrightarrow> keeps I (case z of Inl e \<Rightarrow> g e | Inr x \<Rightarrow> f x)"
  by (simp split: sum.splits)

lemma keeps_prod [keeps_intros]:
  "(\<And>x y. keeps I (f x y)) \<Longrightarrow> keeps I (case z of (x, y) \<Rightarrow> f x y)"
  by (simp split: prod.splits)

section \<open>Tables\<close>

text \<open>
  A table with a key is a list of rows; \<open>upsert\<close> is
  \<open>INSERT ... ON CONFLICT (key) DO UPDATE\<close>, with the row that replaces an existing one given
  by a function of the old row.
\<close>

fun upsert :: "('r \<Rightarrow> 'k) \<Rightarrow> ('r \<Rightarrow> 'r) \<Rightarrow> 'r \<Rightarrow> 'r list \<Rightarrow> 'r list" where
  "upsert key f new [] = [new]"
| "upsert key f new (r # rs) = (if key r = key new then f r # rs else r # upsert key f new rs)"

definition lookup_row :: "('r \<Rightarrow> 'k) \<Rightarrow> 'k \<Rightarrow> 'r list \<Rightarrow> 'r option" where
  "lookup_row key k rs = find (\<lambda>r. key r = k) rs"

lemma lookup_row_simps [simp]:
  "lookup_row key k [] = None"
  "lookup_row key k (r # rs) = (if key r = k then Some r else lookup_row key k rs)"
  by (simp_all add: lookup_row_def)

lemma lookup_row_Some: "lookup_row key k rs = Some r \<Longrightarrow> r \<in> set rs \<and> key r = k"
  by (induction rs) (auto split: if_splits)

lemma lookup_row_None: "lookup_row key k rs = None \<longleftrightarrow> k \<notin> key ` set rs"
  by (induction rs) auto

lemma lookup_row_distinct: "distinct (map key rs) \<Longrightarrow> r \<in> set rs \<Longrightarrow> lookup_row key (key r) rs = Some r"
  by (induction rs) (auto simp: image_iff)

lemma lookup_row_upsert:
  assumes "\<And>r. key r = key new \<Longrightarrow> key (f r) = key new"
  shows "lookup_row key k (upsert key f new rs) =
    (if k = key new then Some (case lookup_row key k rs of None \<Rightarrow> new | Some r \<Rightarrow> f r)
     else lookup_row key k rs)"
  by (induction rs) (auto simp: assms)

lemma keys_upsert:
  assumes "\<And>r. key r = key new \<Longrightarrow> key (f r) = key new"
  shows "key ` set (upsert key f new rs) = insert (key new) (key ` set rs)"
  by (induction rs) (auto simp: assms)

lemma distinct_upsert:
  assumes "\<And>r. key r = key new \<Longrightarrow> key (f r) = key new"
  shows "distinct (map key rs) \<Longrightarrow> distinct (map key (upsert key f new rs))"
proof (induction rs)
  case Nil
  then show ?case by simp
next
  case (Cons r rs)
  have "key ` set (upsert key f new rs) = insert (key new) (key ` set rs)"
    by (rule keys_upsert) (rule assms)
  with Cons show ?case by (auto simp: assms)
qed

section \<open>Ordering by a less function\<close>

text \<open>
  \<open>sort.Slice\<close> orders a slice by a \<open>less\<close> function. It is not stable: the order among
  elements neither of which is less than the other is unspecified. The model inserts from the
  right, one admissible outcome; the theorems use only what holds of each outcome, that the
  result is a rearrangement and is ordered.
\<close>

fun insort_less :: "('a \<Rightarrow> 'a \<Rightarrow> bool) \<Rightarrow> 'a \<Rightarrow> 'a list \<Rightarrow> 'a list" where
  "insort_less lt x [] = [x]"
| "insort_less lt x (y # ys) = (if lt y x then y # insort_less lt x ys else x # y # ys)"

definition sort_slice :: "('a \<Rightarrow> 'a \<Rightarrow> bool) \<Rightarrow> 'a list \<Rightarrow> 'a list" where
  "sort_slice lt xs = foldr (insort_less lt) xs []"

lemma sort_slice_simps [simp]:
  "sort_slice lt [] = []"
  "sort_slice lt (x # xs) = insort_less lt x (sort_slice lt xs)"
  by (simp_all add: sort_slice_def)

lemma mset_insort_less [simp]: "mset (insort_less lt x xs) = add_mset x (mset xs)"
  by (induction xs) auto

lemma mset_sort_slice [simp]: "mset (sort_slice lt xs) = mset xs"
  by (induction xs) auto

lemma set_sort_slice [simp]: "set (sort_slice lt xs) = set xs"
  by (metis mset_sort_slice set_mset_mset)

lemma length_sort_slice [simp]: "length (sort_slice lt xs) = length xs"
  by (metis mset_sort_slice size_mset)

text \<open>The interface \<open>sort.Slice\<close> asks of its \<open>less\<close> argument: a strict weak order.\<close>

locale strict_weak =
  fixes lt :: "'a \<Rightarrow> 'a \<Rightarrow> bool"
  assumes asym: "lt x y \<Longrightarrow> \<not> lt y x"
    and negtrans: "\<not> lt x y \<Longrightarrow> \<not> lt y z \<Longrightarrow> \<not> lt x z"
begin

lemma sorted_insort_less:
  "sorted_wrt (\<lambda>x y. \<not> lt y x) xs \<Longrightarrow> sorted_wrt (\<lambda>x y. \<not> lt y x) (insort_less lt x xs)"
proof (induction xs)
  case Nil
  then show ?case by simp
next
  case (Cons y ys)
  show ?case
  proof (cases "lt y x")
    case True
    have "set (insort_less lt x ys) = insert x (set ys)"
      by (metis mset_insort_less set_mset_add_mset_insert set_mset_mset)
    with Cons True show ?thesis by (auto dest: asym)
  next
    case False
    then have "\<not> lt z x" if "z \<in> set ys" for z
      using Cons.prems that negtrans[of z y x] by auto
    with Cons False show ?thesis by auto
  qed
qed

lemma sorted_sort_slice: "sorted_wrt (\<lambda>x y. \<not> lt y x) (sort_slice lt xs)"
  by (induction xs) (auto intro: sorted_insort_less)

lemma sort_slice_nth: "i < j \<Longrightarrow> j < length xs \<Longrightarrow> \<not> lt (sort_slice lt xs ! j) (sort_slice lt xs ! i)"
  using sorted_sort_slice[of xs] by (simp add: sorted_wrt_iff_nth_less)

end

interpretation less_key: strict_weak "\<lambda>x y. (f x :: 'b :: linorder) < f y" for f
  by unfold_locales auto

end
