(* ===== verification/Go_Lib.thy ===== *)
theory Go_Lib
  imports Prelude
begin

text \<open>
  What the program uses of Go's \<open>strings\<close>, \<open>strconv\<close> and (on Unix) \<open>path/filepath\<close>
  packages. A Go string is a sequence of bytes, here a list of \<open>char\<close>. Case conversion is
  the ASCII one: bytes outside ASCII are left alone. The last section proves what the path
  handling of the server rests on: a path that \<open>filepath.IsLocal\<close> accepts, joined to a
  directory, stays below that directory.
\<close>

section \<open>Strings\<close>

definition code :: "char \<Rightarrow> nat" where
  "code c = of_char c"

definition lower_char :: "char \<Rightarrow> char" where
  "lower_char c = (if 65 \<le> code c \<and> code c \<le> 90 then char_of (code c + 32) else c)"

definition to_lower :: "string \<Rightarrow> string" where
  "to_lower s = map lower_char s"

fun has_prefix :: "string \<Rightarrow> string \<Rightarrow> bool" where
  "has_prefix s [] = True"
| "has_prefix [] (p # ps) = False"
| "has_prefix (c # s) (p # ps) = (c = p \<and> has_prefix s ps)"

definition has_suffix :: "string \<Rightarrow> string \<Rightarrow> bool" where
  "has_suffix s p = has_prefix (rev s) (rev p)"

fun contains :: "string \<Rightarrow> string \<Rightarrow> bool" where
  "contains [] p = (p = [])"
| "contains (c # s) p = (has_prefix (c # s) p \<or> contains s p)"

definition trim_suffix :: "string \<Rightarrow> string \<Rightarrow> string" where
  "trim_suffix s p = (if has_suffix s p then take (length s - length p) s else s)"

text \<open>\<open>strings.Split(s, sep)\<close> for a one-byte separator.\<close>

fun split_on :: "char \<Rightarrow> string \<Rightarrow> string list" where
  "split_on d [] = [[]]"
| "split_on d (c # s) =
     (if c = d then [] # split_on d s
      else (case split_on d s of [] \<Rightarrow> [[c]] | w # ws \<Rightarrow> (c # w) # ws))"

text \<open>\<open>strings.Cut(s, sep)\<close> for a one-byte separator: the text before and after its first
  occurrence.\<close>

fun cut_on :: "char \<Rightarrow> string \<Rightarrow> string \<times> string \<times> bool" where
  "cut_on d [] = ([], [], False)"
| "cut_on d (c # s) =
     (if c = d then ([], s, True) else (case cut_on d s of (a, b, ok) \<Rightarrow> (c # a, b, ok)))"

definition is_space :: "char \<Rightarrow> bool" where
  "is_space c \<longleftrightarrow> code c \<in> {9, 10, 11, 12, 13, 32}"

definition trim_space :: "string \<Rightarrow> string" where
  "trim_space s = rev (dropWhile is_space (rev (dropWhile is_space s)))"

fun join_with :: "char \<Rightarrow> string list \<Rightarrow> string" where
  "join_with d [] = []"
| "join_with d [w] = w"
| "join_with d (w # v # ws) = w @ d # join_with d (v # ws)"

text \<open>\<open>strings.Replace(s, old, new, 1)\<close>; an empty \<open>old\<close> matches at the start.\<close>

fun replace_first :: "string \<Rightarrow> string \<Rightarrow> string \<Rightarrow> string" where
  "replace_first [] old new = (if old = [] then new else [])"
| "replace_first (c # s) old new =
     (if has_prefix (c # s) old then new @ drop (length old) (c # s)
      else c # replace_first s old new)"

text \<open>Go compares strings bytewise.\<close>

fun string_less :: "string \<Rightarrow> string \<Rightarrow> bool" where
  "string_less a [] = False"
| "string_less [] (y # ys) = True"
| "string_less (x # xs) (y # ys) = (code x < code y \<or> x = y \<and> string_less xs ys)"

lemma code_eq_iff [simp]: "code x = code y \<longleftrightarrow> x = y"
  by (simp add: code_def)

lemma string_less_irrefl [simp]: "\<not> string_less a a"
  by (induction a) auto

lemma string_less_trans: "string_less a b \<Longrightarrow> string_less b c \<Longrightarrow> string_less a c"
proof (induction a b arbitrary: c rule: string_less.induct)
  case (3 x xs y ys)
  then show ?case by (cases c) auto
qed (auto elim: string_less.elims)

lemma string_less_linear: "string_less a b \<or> a = b \<or> string_less b a"
proof (induction a b rule: string_less.induct)
  case (3 x xs y ys)
  then show ?case using less_linear[of "code x" "code y"] by auto
qed (auto simp: neq_Nil_conv elim: string_less.elims)

interpretation str: strict_weak string_less
proof
  show "string_less x y \<Longrightarrow> \<not> string_less y x" for x y
    using string_less_trans[of x y x] by auto
  show "\<not> string_less x y \<Longrightarrow> \<not> string_less y z \<Longrightarrow> \<not> string_less x z" for x y z
    using string_less_linear[of x y] string_less_linear[of y z] string_less_trans by metis
qed

lemma has_prefix_iff: "has_prefix s p \<longleftrightarrow> (\<exists>t. s = p @ t)"
  by (induction s p rule: has_prefix.induct) auto

lemma has_suffix_iff: "has_suffix s p \<longleftrightarrow> (\<exists>t. s = t @ p)"
  by (auto simp: has_suffix_def has_prefix_iff) (metis rev_append rev_rev_ident)

lemma contains_iff: "contains s p \<longleftrightarrow> (\<exists>a b. s = a @ p @ b)"
proof (induction s)
  case Nil
  then show ?case by auto
next
  case (Cons c s)
  show ?case
  proof
    assume "contains (c # s) p"
    then consider "has_prefix (c # s) p" | "contains s p" by auto
    then show "\<exists>a b. c # s = a @ p @ b"
    proof cases
      case 1
      then show ?thesis by (metis append_Nil has_prefix_iff)
    next
      case 2
      then show ?thesis by (metis Cons.IH append_Cons)
    qed
  next
    assume "\<exists>a b. c # s = a @ p @ b"
    then obtain a b where ab: "c # s = a @ p @ b" by blast
    show "contains (c # s) p"
    proof (cases a)
      case Nil
      with ab have "has_prefix (c # s) p" by (auto simp: has_prefix_iff)
      then show ?thesis by simp
    next
      case (Cons d a')
      with ab have "s = a' @ p @ b" by simp
      with Cons.IH show ?thesis by auto
    qed
  qed
qed

lemma trim_suffix_append [simp]: "trim_suffix (s @ p) p = s"
  by (simp add: trim_suffix_def has_suffix_iff)

lemma split_on_nonempty [simp]: "split_on d s \<noteq> []"
  by (induction s) (auto split: list.splits)

lemma join_with_Cons_first: "join_with d ((c # w) # ws) = c # join_with d (w # ws)"
  by (cases ws) auto

lemma join_split_on: "join_with d (split_on d s) = s"
proof (induction s)
  case Nil
  then show ?case by simp
next
  case (Cons c s)
  then show ?case
    by (cases "split_on d s"; cases "tl (split_on d s)")
      (auto split: list.splits simp: join_with_Cons_first)
qed

lemma split_on_free: "w \<in> set (split_on d s) \<Longrightarrow> d \<notin> set w"
  by (induction s arbitrary: w) (auto split: list.splits if_splits)

lemma split_on_append: "split_on d (s @ d # t) = split_on d s @ split_on d t"
  by (induction s) (auto split: list.splits)

lemma split_on_atom: "d \<notin> set w \<Longrightarrow> split_on d w = [w]"
  by (induction w) auto

lemma split_join_on: "ws \<noteq> [] \<Longrightarrow> \<forall>w\<in>set ws. d \<notin> set w \<Longrightarrow> split_on d (join_with d ws) = ws"
  by (induction ws rule: join_with.induct) (auto simp: split_on_append split_on_atom)

lemma cut_on_found: "cut_on d s = (a, b, True) \<Longrightarrow> s = a @ d # b \<and> d \<notin> set a"
  by (induction s arbitrary: a) (auto split: if_splits prod.splits)

section \<open>Numbers\<close>

definition is_digit :: "char \<Rightarrow> bool" where
  "is_digit c \<longleftrightarrow> 48 \<le> code c \<and> code c \<le> 57"

definition digits_value :: "string \<Rightarrow> nat" where
  "digits_value s = foldl (\<lambda>n c. 10 * n + (code c - 48)) 0 s"

text \<open>\<open>strconv.Atoi\<close>: an optional sign and at least one decimal digit, within the 64-bit
  range.\<close>

definition atoi :: "string \<Rightarrow> int option" where
  "atoi s =
    (let (neg, ds) = (case s of [] \<Rightarrow> (False, [])
        | c # r \<Rightarrow> if c = CHR ''-'' then (True, r) else if c = CHR ''+'' then (False, r) else (False, s))
     in if ds \<noteq> [] \<and> list_all is_digit ds
        then (let v = (if neg then - int (digits_value ds) else int (digits_value ds))
              in if int_range v then Some v else None)
        else None)"

fun nat_digits :: "nat \<Rightarrow> string" where
  "nat_digits n = (if n < 10 then [char_of (48 + n)] else nat_digits (n div 10) @ [char_of (48 + n mod 10)])"

declare nat_digits.simps [simp del]

lemma digits_value_snoc: "digits_value (s @ [c]) = 10 * digits_value s + (code c - 48)"
  by (simp add: digits_value_def)

lemma digits_value_nat_digits: "digits_value (nat_digits n) = n"
proof (induction n rule: nat_digits.induct)
  case (1 n)
  show ?case
  proof (cases "n < 10")
    case True
    then show ?thesis
      by (simp add: nat_digits.simps[of n] digits_value_def code_def)
  next
    case False
    with 1 have "digits_value (nat_digits (n div 10)) = n div 10" by simp
    with False show ?thesis
      by (simp add: nat_digits.simps[of n] digits_value_snoc code_def)
  qed
qed

lemma nat_digits_inj: "nat_digits m = nat_digits n \<Longrightarrow> m = n"
  by (metis digits_value_nat_digits)

section \<open>Paths\<close>

definition sep :: char where
  "sep = CHR ''/''"

definition is_abs :: "string \<Rightarrow> bool" where
  "is_abs p = has_prefix p [sep]"

text \<open>\<open>filepath.Clean\<close> drops empty and \<open>.\<close> elements and lets \<open>..\<close> remove the element
  before it, unless there is none or that one is itself \<open>..\<close>.\<close>

definition dot :: string where "dot = [CHR ''.'']"
definition dotdot :: string where "dotdot = [CHR ''.'', CHR ''.'']"

lemma dots_simps [simp]: "dot \<noteq> []" "dotdot \<noteq> []" "dotdot \<noteq> dot" "dot \<noteq> dotdot"
  by (simp_all add: dot_def dotdot_def)

definition clean_step :: "bool \<Rightarrow> string list \<Rightarrow> string \<Rightarrow> string list" where
  "clean_step rooted acc w =
    (if w = [] \<or> w = dot then acc
     else if w = dotdot then
       (if acc \<noteq> [] \<and> last acc \<noteq> dotdot then butlast acc
        else if rooted then acc else acc @ [dotdot])
     else acc @ [w])"

definition clean_parts :: "bool \<Rightarrow> string list \<Rightarrow> string list" where
  "clean_parts rooted ws = foldl (clean_step rooted) [] ws"

definition path_parts :: "string \<Rightarrow> string list" where
  "path_parts p = clean_parts (is_abs p) (split_on sep p)"

definition render_path :: "bool \<Rightarrow> string list \<Rightarrow> string" where
  "render_path rooted ws =
    (if rooted then sep # join_with sep ws else if ws = [] then dot else join_with sep ws)"

definition clean_path :: "string \<Rightarrow> string" where
  "clean_path p = (if p = [] then dot else render_path (is_abs p) (path_parts p))"

text \<open>\<open>filepath.Join\<close> ignores empty elements and cleans what it joins.\<close>

definition join_path :: "string list \<Rightarrow> string" where
  "join_path es =
    (let ws = filter (\<lambda>w. w \<noteq> []) es in if ws = [] then [] else clean_path (join_with sep ws))"

text \<open>\<open>filepath.IsLocal\<close>: not empty, not absolute, and clean does not leave the directory.\<close>

definition is_local :: "string \<Rightarrow> bool" where
  "is_local p \<longleftrightarrow> p \<noteq> [] \<and> \<not> is_abs p \<and>
     (case path_parts p of [] \<Rightarrow> True | w # _ \<Rightarrow> w \<noteq> dotdot)"

text \<open>\<open>filepath.Split\<close> cuts after the last separator, \<open>filepath.Ext\<close> is the suffix from the
  last dot of the last element, \<open>filepath.Base\<close> and \<open>filepath.Dir\<close> as documented.\<close>

definition split_file :: "string \<Rightarrow> string \<times> string" where
  "split_file p =
    (let f = rev (takeWhile (\<lambda>c. c \<noteq> sep) (rev p)) in (take (length p - length f) p, f))"

definition file_ext :: "string \<Rightarrow> string" where
  "file_ext p =
    (let f = snd (split_file p); tail = takeWhile (\<lambda>c. c \<noteq> CHR ''.'') (rev f)
     in if length tail < length f then CHR ''.'' # rev tail else [])"

definition base_name :: "string \<Rightarrow> string" where
  "base_name p =
    (if p = [] then dot
     else (let q = rev (dropWhile (\<lambda>c. c = sep) (rev p))
           in if q = [] then [sep] else snd (split_file q)))"

definition dir_name :: "string \<Rightarrow> string" where
  "dir_name p = clean_path (fst (split_file p))"

text \<open>\<open>filepath.Rel\<close>: the common leading elements are dropped, each element of the base that is
  left becomes \<open>..\<close>; a base that is left with a \<open>..\<close> of its own has no answer.\<close>

fun drop_common :: "string list \<Rightarrow> string list \<Rightarrow> string list \<times> string list" where
  "drop_common (x # xs) (y # ys) = (if x = y then drop_common xs ys else (x # xs, y # ys))"
| "drop_common xs ys = (xs, ys)"

definition rel_path :: "string \<Rightarrow> string \<Rightarrow> string option" where
  "rel_path b t =
    (if clean_path b = clean_path t then Some dot
     else if is_abs b \<noteq> is_abs t then None
     else (case drop_common (path_parts b) (path_parts t) of
         (xs, ys) \<Rightarrow> if xs \<noteq> [] \<and> hd xs = dotdot then None
           else Some (join_with sep (replicate (length xs) dotdot @ ys))))"

lemma drop_common_append: "drop_common xs (xs @ ys) = ([], ys)"
  by (induction xs) (auto simp: neq_Nil_conv intro: drop_common.simps)

text \<open>A cleaned path below a root: once a relative path starts with \<open>..\<close> it stays so, and as
  long as it does not, cleaning below a root only extends the root.\<close>

lemma clean_step_dotdot:
  "acc \<noteq> [] \<Longrightarrow> hd acc = dotdot \<Longrightarrow>
     clean_step False acc w \<noteq> [] \<and> hd (clean_step False acc w) = dotdot"
  by (cases acc rule: rev_cases) (auto simp: clean_step_def butlast_append hd_append)

lemma clean_fold_dotdot:
  "acc \<noteq> [] \<Longrightarrow> hd acc = dotdot \<Longrightarrow>
     foldl (clean_step False) acc ws \<noteq> [] \<and> hd (foldl (clean_step False) acc ws) = dotdot"
  by (induction ws arbitrary: acc) (auto simp: clean_step_dotdot)

lemma clean_step_below:
  assumes "dotdot \<notin> set acc" and "dotdot \<notin> set rt"
    and "clean_step False acc w \<noteq> [] \<longrightarrow> hd (clean_step False acc w) \<noteq> dotdot"
  shows "clean_step True (rt @ acc) w = rt @ clean_step False acc w \<and>
    dotdot \<notin> set (clean_step False acc w)"
  using assms by (cases acc rule: rev_cases) (auto simp: clean_step_def butlast_append)

lemma clean_fold_below:
  assumes "dotdot \<notin> set rt" and "dotdot \<notin> set acc"
    and "foldl (clean_step False) acc ws \<noteq> [] \<longrightarrow> hd (foldl (clean_step False) acc ws) \<noteq> dotdot"
  shows "foldl (clean_step True) (rt @ acc) ws = rt @ foldl (clean_step False) acc ws \<and>
    dotdot \<notin> set (foldl (clean_step False) acc ws)"
  using assms
proof (induction ws arbitrary: acc)
  case Nil
  then show ?case by simp
next
  case (Cons w ws)
  have "clean_step False acc w \<noteq> [] \<longrightarrow> hd (clean_step False acc w) \<noteq> dotdot"
    using Cons.prems(3) clean_fold_dotdot[of "clean_step False acc w" ws] by auto
  with Cons.prems clean_step_below[of acc rt w] Cons.IH[of "clean_step False acc w"]
  show ?case by simp
qed

lemma clean_parts_rooted_free: "dotdot \<notin> set (clean_parts True ws)"
proof -
  have "dotdot \<notin> set acc \<Longrightarrow> dotdot \<notin> set (foldl (clean_step True) acc ws)" for acc
  proof (induction ws arbitrary: acc)
    case Nil
    then show ?case by simp
  next
    case (Cons w ws)
    have "dotdot \<notin> set (clean_step True acc w)"
      using Cons.prems
      by (cases acc rule: rev_cases) (auto simp: clean_step_def dest: in_set_butlastD)
    then show ?case by (simp add: Cons.IH)
  qed
  then show ?thesis by (simp add: clean_parts_def)
qed

lemma is_abs_append [simp]: "p \<noteq> [] \<Longrightarrow> is_abs (p @ q) = is_abs p"
  by (cases p) (auto simp: is_abs_def)

text \<open>The cleaned elements of a local path joined to an absolute directory: those of the
  directory followed by those of the path, none of which is \<open>..\<close>.\<close>

lemma join_path_local:
  assumes "is_abs rt" and "is_local p"
  shows "join_path [rt, p] = render_path True (path_parts rt @ path_parts p)"
    and "dotdot \<notin> set (path_parts p)"
proof -
  from assms have ne: "rt \<noteq> []" "p \<noteq> []" "\<not> is_abs p"
    by (auto simp: is_abs_def is_local_def)
  have loc: "path_parts p \<noteq> [] \<longrightarrow> hd (path_parts p) \<noteq> dotdot"
    using assms(2) by (auto simp: is_local_def split: list.splits)
  have *: "foldl (clean_step True) (clean_parts True (split_on sep rt)) (split_on sep p) =
      clean_parts True (split_on sep rt) @ path_parts p \<and> dotdot \<notin> set (path_parts p)"
    using clean_fold_below[of "clean_parts True (split_on sep rt)" "[]" "split_on sep p"] loc ne
    by (simp add: path_parts_def clean_parts_def[of False] clean_parts_rooted_free)
  then show "dotdot \<notin> set (path_parts p)" by blast
  have "join_path [rt, p] = clean_path (rt @ sep # p)"
    using ne by (simp add: join_path_def)
  also have "\<dots> = render_path True (path_parts (rt @ sep # p))"
    using ne assms(1) by (simp add: clean_path_def)
  also have "path_parts (rt @ sep # p) = path_parts rt @ path_parts p"
    using * assms(1) ne by (simp add: path_parts_def clean_parts_def split_on_append)
  finally show "join_path [rt, p] = render_path True (path_parts rt @ path_parts p)" .
qed

lemma split_file_append: "fst (split_file p) @ snd (split_file p) = p"
proof -
  let ?t = "takeWhile (\<lambda>c. c \<noteq> sep) (rev p)"
  have p: "p = rev (dropWhile (\<lambda>c. c \<noteq> sep) (rev p)) @ rev ?t"
    by (subst rev_append[symmetric], subst takeWhile_dropWhile_id) simp
  have "take (length q - length b) q @ b = q" if "q = a @ b" for q a b :: string
    using that by simp
  from this[OF p] have "take (length p - length (rev ?t)) p @ rev ?t = p" .
  then show ?thesis by (simp add: split_file_def Let_def)
qed

lemma split_file_free: "sep \<notin> set (snd (split_file p))"
  by (auto simp: split_file_def Let_def dest: set_takeWhileD)

lemma sep_dot: "sep \<notin> set dot"
  by (simp add: sep_def dot_def)

lemma base_name_free: "base_name p \<noteq> [sep] \<Longrightarrow> sep \<notin> set (base_name p)"
  by (auto simp: base_name_def Let_def split_file_free sep_dot split: if_splits)

lemma file_ext_free: "sep \<notin> set (file_ext p)"
proof -
  have "set (takeWhile (\<lambda>c. c \<noteq> CHR ''.'') (rev (snd (split_file p)))) \<subseteq> set (snd (split_file p))"
    by (auto dest: set_takeWhileD)
  then show ?thesis using split_file_free[of p] by (auto simp: file_ext_def Let_def sep_def)
qed

lemma nat_digits_set: "set (nat_digits n) \<subseteq> char_of ` {48..57::nat}"
proof (induction n rule: nat_digits.induct)
  case (1 n)
  show ?case
  proof (cases "n < 10")
    case True
    then show ?thesis by (auto simp: nat_digits.simps[of n] intro!: imageI)
  next
    case False
    with 1 have "set (nat_digits (n div 10)) \<subseteq> char_of ` {48..57::nat}" by simp
    moreover have "char_of (48 + n mod 10) \<in> (char_of ` {48..57::nat} :: char set)"
      by (intro imageI) simp
    ultimately show ?thesis using False by (simp add: nat_digits.simps[of n])
  qed
qed

lemma sep_nat_digits: "sep \<notin> set (nat_digits n)"
proof
  assume "sep \<in> set (nat_digits n)"
  then obtain k :: nat where k: "k \<in> {48..57}" "sep = char_of k" using nat_digits_set by blast
  moreover from k(1) have "code (char_of k) = k" by (simp add: code_def)
  ultimately have "code sep = k" by simp
  with k(1) show False by (simp add: code_def sep_def)
qed

lemma is_abs_dir: "is_abs p \<Longrightarrow> is_abs (fst (split_file p))"
proof -
  assume a: "is_abs p"
  have "fst (split_file p) \<noteq> []"
  proof
    assume "fst (split_file p) = []"
    then have "p = snd (split_file p)" using split_file_append[of p] by simp
    with split_file_free[of p] a show False by (cases p) (auto simp: is_abs_def)
  qed
  with a show ?thesis by (metis is_abs_append split_file_append)
qed

text \<open>Elements as cleaning leaves them below a root; rendering and parsing such a list is the
  identity.\<close>

definition plain_part :: "string \<Rightarrow> bool" where
  "plain_part w \<longleftrightarrow> w \<noteq> [] \<and> w \<noteq> dot \<and> w \<noteq> dotdot \<and> sep \<notin> set w"

lemma clean_parts_rooted_plain:
  assumes "\<forall>w\<in>set ws. sep \<notin> set w"
  shows "\<forall>w\<in>set (clean_parts True ws). plain_part w"
proof -
  have "\<forall>w\<in>set acc. plain_part w \<Longrightarrow> \<forall>w\<in>set ws. sep \<notin> set w \<Longrightarrow>
      \<forall>w\<in>set (foldl (clean_step True) acc ws). plain_part w" for acc
  proof (induction ws arbitrary: acc)
    case Nil
    then show ?case by simp
  next
    case (Cons w ws)
    have "\<forall>v\<in>set (clean_step True acc w). plain_part v"
      using Cons.prems
      by (auto simp: clean_step_def plain_part_def dest: in_set_butlastD)
    with Cons show ?case by simp
  qed
  from this[of "[]"] assms show ?thesis by (simp add: clean_parts_def)
qed

lemma path_parts_plain: "is_abs p \<Longrightarrow> \<forall>w\<in>set (path_parts p). plain_part w"
  unfolding path_parts_def
  using clean_parts_rooted_plain[of "split_on sep p"] split_on_free[of _ sep p] by auto

lemma clean_fold_plain:
  "\<forall>w\<in>set ws. plain_part w \<Longrightarrow> foldl (clean_step rooted) acc ws = acc @ ws"
  by (induction ws arbitrary: acc) (auto simp: clean_step_def plain_part_def)

lemma path_parts_render:
  assumes "\<forall>w\<in>set ws. plain_part w"
  shows "path_parts (render_path True ws) = ws"
proof (cases "ws = []")
  case True
  then show ?thesis
    by (simp add: render_path_def path_parts_def is_abs_def clean_parts_def clean_step_def)
next
  case False
  with assms have "split_on sep (join_with sep ws) = ws"
    by (intro split_join_on) (auto simp: plain_part_def)
  then have "split_on sep (render_path True ws) = [] # ws" by (simp add: render_path_def)
  moreover have "is_abs (render_path True ws)" by (simp add: render_path_def is_abs_def)
  moreover have "clean_parts True ([] # ws) = ws"
    using clean_fold_plain[OF assms, of True "[]"] by (simp add: clean_parts_def clean_step_def)
  ultimately show ?thesis by (simp add: path_parts_def)
qed

lemma is_abs_render [simp]: "is_abs (render_path True ws)"
  by (simp add: render_path_def is_abs_def)

lemma clean_path_abs: "is_abs p \<Longrightarrow> clean_path p = render_path True (path_parts p)"
  by (cases "p = []") (auto simp: clean_path_def is_abs_def)

lemma path_parts_clean: "is_abs p \<Longrightarrow> path_parts (clean_path p) = path_parts p"
  by (simp add: clean_path_abs path_parts_render path_parts_plain)

lemma plain_part_local: "plain_part w \<Longrightarrow> is_local w \<and> path_parts w = [w]"
proof -
  assume p: "plain_part w"
  then have "\<not> is_abs w" by (cases w) (auto simp: plain_part_def is_abs_def)
  moreover from p have "path_parts w = [w]"
    using clean_fold_plain[of "[w]" False "[]"] \<open>\<not> is_abs w\<close>
    by (simp add: path_parts_def clean_parts_def split_on_atom plain_part_def)
  ultimately show ?thesis using p by (simp add: is_local_def plain_part_def)
qed

lemma join_plain:
  assumes "is_abs d" and "plain_part w"
  shows "join_path [d, w] = render_path True (path_parts d @ [w])"
  using join_path_local(1)[OF assms(1), of w] plain_part_local[OF assms(2)] by simp

end
