(* ===== verification/Events.thy ===== *)
theory Events
  imports Go_Lib
begin

text \<open>
  The job model of \<open>model/model.go\<close> and the sorting helper \<open>helper/max/max.go\<close>: jobs, the log
  of task events each job carries, and the queries and appends on that log. The state of a job is
  its latest \<open>Job\<close> event; the scheduler and the repositories decide everything else from it.
\<close>

named_theorems event_simps \<open>unfolding of the event queries\<close>

section \<open>Data\<close>

type_synonym uuid = string

text \<open>A \<open>float64\<close>: a finite value (kept exactly) or one of the special values.\<close>

datatype float64 = Fin rat | NaN | PosInf | NegInf

text \<open>The string constants of \<open>NotificationType\<close> and \<open>NotificationStatus\<close>; a value read from
  a request may be any other string.\<close>

datatype notification_type =
  JobNotification | DownloadNotification | UploadNotification | MKVExtractNotification
| PGSNotification | FFMPEGSNotification | JobVerify | OtherNotification string

datatype notification_status =
  Queued | Assigned | Started | Completed | Canceled | Failed | OtherStatus string

record media_stream =
  ms_index :: int
  codec_type :: string
  codec_name :: string
  ms_width :: int
  ms_height :: int
  ms_language :: string
  ms_title :: string

record media_probe =
  duration_seconds :: float64
  streams :: "media_stream list"

record task_event =
  event_time :: int
  worker_name :: string
  job_id :: uuid
  event_id :: int
  notification_type :: notification_type
  status :: notification_status
  message :: string
  target_probe_of :: "media_probe option"

type_synonym task_events = "task_event list"

record job =
  source_path :: string
  target_path :: string
  jid :: uuid
  events :: task_events
  job_status :: "notification_status option"
  status_phase :: "notification_type option"
  status_message :: string
  last_update :: "int option"
  source_size :: int
  target_size :: int
  source_probe :: "media_probe option"
  target_probe :: "media_probe option"

record job_request =
  rq_source_probe :: "media_probe option"
  rq_source_path :: string
  force_completed :: bool
  force_failed :: bool
  force_canceled :: bool
  force_assigned :: bool
  rq_source_size :: int
  rq_target_path :: string

datatype task_progress_status = Progressing | DoneProgress | FailureProgress | OtherProgress string

record task_progress =
  pg_event_time :: int
  pg_worker_name :: string
  pg_job_id :: uuid
  progress_id :: string
  percent :: float64
  eta :: int
  pg_type :: notification_type
  pg_status :: task_progress_status

section \<open>Queries on the event log\<close>

definition is_assigned :: "task_event \<Rightarrow> bool" where
  "is_assigned e \<longleftrightarrow> notification_type e = JobNotification \<and> (status e = Assigned \<or> status e = Started)"

definition is_completed :: "task_event \<Rightarrow> bool" where
  "is_completed e \<longleftrightarrow> notification_type e = JobNotification \<and> status e = Completed"

text \<open>\<open>max.Max\<close> sorts its argument in place and returns the last element; the events keep that
  order afterwards, so the query returns the reordered log as well.\<close>

definition events_less :: "task_event \<Rightarrow> task_event \<Rightarrow> bool" where
  "events_less a b \<longleftrightarrow> event_id a < event_id b"

definition max_sort :: "task_events \<Rightarrow> task_event \<times> task_events" where
  "max_sort es = (let sorted = sort_slice events_less es in (last sorted, sorted))"

definition get_latest :: "task_events \<Rightarrow> task_event option \<times> task_events" where
  "get_latest es =
    (if es = [] then (None, es) else (case max_sort es of (e, es') \<Rightarrow> (Some e, es')))"

text \<open>The loop of \<open>GetLatestPerNotificationType\<close>: the running maximum starts at \<open>-1\<close> and only
  a larger identifier replaces it.\<close>

fun latest_per_type_loop ::
  "notification_type \<Rightarrow> int \<Rightarrow> task_event option \<Rightarrow> task_events \<Rightarrow> task_event option" where
  "latest_per_type_loop nt eid ret [] = ret"
| "latest_per_type_loop nt eid ret (e # es) =
     (if notification_type e = nt \<and> eid < event_id e
      then latest_per_type_loop nt (event_id e) (Some e) es
      else latest_per_type_loop nt eid ret es)"

definition get_latest_per_notification_type ::
  "notification_type \<Rightarrow> task_events \<Rightarrow> task_event option" where
  "get_latest_per_notification_type nt es = latest_per_type_loop nt (-1) None es"

text \<open>\<open>GetStatus\<close> dereferences the latest \<open>Job\<close> event: without one it panics, here \<open>None\<close>.\<close>

definition get_status :: "task_events \<Rightarrow> notification_status option" where
  "get_status es = map_option status (get_latest_per_notification_type JobNotification es)"

definition get_by_event_id :: "int \<Rightarrow> task_events \<Rightarrow> task_event option" where
  "get_by_event_id i es = find (\<lambda>e. event_id e = i) es"

definition filter_by ::
  "notification_type \<Rightarrow> notification_status \<Rightarrow> task_events \<Rightarrow> task_events" where
  "filter_by nt st es = filter (\<lambda>e. notification_type e = nt \<and> status e = st) es"

section \<open>Appending an event\<close>

definition add_event_complete ::
  "int \<Rightarrow> notification_type \<Rightarrow> notification_status \<Rightarrow> string \<Rightarrow> job \<Rightarrow> task_event \<times> job" where
  "add_event_complete now nt st msg v =
    (case get_latest (events v) of (latest, es) \<Rightarrow>
       let new_id = (case latest of None \<Rightarrow> 0 | Some e \<Rightarrow> wrap64 (event_id e + 1));
           new_event = \<lparr>event_time = now, worker_name = [], job_id = jid v, event_id = new_id,
             notification_type = nt, status = st, message = msg, target_probe_of = None\<rparr>
       in (new_event, v\<lparr>events := es @ [new_event]\<rparr>))"

definition add_event ::
  "int \<Rightarrow> notification_type \<Rightarrow> notification_status \<Rightarrow> job \<Rightarrow> task_event \<times> job" where
  "add_event now nt st v = add_event_complete now nt st [] v"

section \<open>Properties of the queries\<close>

interpretation ev: strict_weak events_less
  by unfold_locales (auto simp: events_less_def)

lemma last_sorted_max:
  assumes "es \<noteq> []" and "e \<in> set es"
  shows "event_id e \<le> event_id (last (sort_slice events_less es))"
proof -
  let ?s = "sort_slice events_less es"
  have ne: "?s \<noteq> []" using assms(1) by (metis length_0_conv length_sort_slice)
  obtain i where i: "i < length ?s" "?s ! i = e"
    using assms(2) by (metis in_set_conv_nth set_sort_slice)
  show ?thesis
  proof (cases "i = length ?s - 1")
    case True
    with i ne show ?thesis by (simp add: last_conv_nth)
  next
    case False
    with i have "i < length ?s - 1" by simp
    then have "\<not> events_less (?s ! (length ?s - 1)) (?s ! i)"
      using ev.sort_slice_nth[of i "length ?s - 1" es] ne by simp
    with i ne show ?thesis by (simp add: events_less_def last_conv_nth)
  qed
qed

lemma get_latest_Nil [simp]: "get_latest [] = (None, [])"
  by (simp add: get_latest_def)

lemma get_latest_props:
  assumes "es \<noteq> []"
  obtains e es' where "get_latest es = (Some e, es')" "mset es' = mset es" "e \<in> set es"
    "\<forall>x\<in>set es. event_id x \<le> event_id e" "es' \<noteq> []" "last es' = e"
proof -
  let ?s = "sort_slice events_less es"
  have ne: "?s \<noteq> []" using assms by (metis length_0_conv length_sort_slice)
  then have "last ?s \<in> set es" by (metis last_in_set set_sort_slice)
  with assms ne last_sorted_max[OF assms] show ?thesis
    by (intro that[of "last ?s" ?s]) (auto simp: get_latest_def max_sort_def Let_def)
qed

lemma latest_loop_keep:
  "\<forall>e\<in>set es. notification_type e = nt \<longrightarrow> event_id e \<le> eid \<Longrightarrow>
     latest_per_type_loop nt eid ret es = ret"
  by (induction es arbitrary: eid ret) auto

lemma latest_loop_found:
  "\<exists>e\<in>set es. notification_type e = nt \<and> eid < event_id e \<Longrightarrow>
     \<exists>x\<in>set es. latest_per_type_loop nt eid ret es = Some x \<and> notification_type x = nt \<and>
       eid < event_id x \<and> (\<forall>e\<in>set es. notification_type e = nt \<longrightarrow> event_id e \<le> event_id x)"
proof (induction es arbitrary: eid ret)
  case Nil
  then show ?case by simp
next
  case (Cons y ys)
  show ?case
  proof (cases "notification_type y = nt \<and> eid < event_id y")
    case taken: True
    show ?thesis
    proof (cases "\<exists>e\<in>set ys. notification_type e = nt \<and> event_id y < event_id e")
      case True
      from Cons.IH[OF this, of "Some y"] obtain x where
        x: "x \<in> set ys" "latest_per_type_loop nt (event_id y) (Some y) ys = Some x"
          "notification_type x = nt" "event_id y < event_id x"
          "\<forall>e\<in>set ys. notification_type e = nt \<longrightarrow> event_id e \<le> event_id x" by blast
      with taken show ?thesis by (intro bexI[of _ x]) auto
    next
      case False
      then have "latest_per_type_loop nt (event_id y) (Some y) ys = Some y"
        by (intro latest_loop_keep) (auto simp: not_less)
      with taken False show ?thesis by (auto simp: not_less)
    qed
  next
    case False
    with Cons.prems have "\<exists>e\<in>set ys. notification_type e = nt \<and> eid < event_id e" by auto
    from Cons.IH[OF this, of ret] obtain x where
      x: "x \<in> set ys" "latest_per_type_loop nt eid ret ys = Some x" "notification_type x = nt"
        "eid < event_id x" "\<forall>e\<in>set ys. notification_type e = nt \<longrightarrow> event_id e \<le> event_id x"
      by blast
    then show ?thesis using False by (intro bexI[of _ x]) auto
  qed
qed

text \<open>What the query means: the event of that type with the largest non-negative identifier.\<close>

lemma latest_per_type_Some:
  assumes "get_latest_per_notification_type nt es = Some e"
  shows "e \<in> set es \<and> notification_type e = nt \<and> 0 \<le> event_id e \<and>
    (\<forall>x\<in>set es. notification_type x = nt \<longrightarrow> event_id x \<le> event_id e)"
proof -
  have "\<exists>x\<in>set es. notification_type x = nt \<and> -1 < event_id x"
  proof (rule ccontr)
    assume "\<not> ?thesis"
    then have "\<forall>x\<in>set es. notification_type x = nt \<longrightarrow> event_id x \<le> -1"
      by (auto simp: not_less)
    from latest_loop_keep[OF this] assms show False
      by (simp add: get_latest_per_notification_type_def)
  qed
  from latest_loop_found[OF this, of None] assms show ?thesis
    by (auto simp: get_latest_per_notification_type_def)
qed

lemma latest_per_type_None:
  "get_latest_per_notification_type nt es = None \<longleftrightarrow>
    (\<forall>e\<in>set es. notification_type e = nt \<longrightarrow> event_id e < 0)"
proof
  assume n: "get_latest_per_notification_type nt es = None"
  show "\<forall>e\<in>set es. notification_type e = nt \<longrightarrow> event_id e < 0"
  proof (rule ccontr)
    assume "\<not> ?thesis"
    then have "\<exists>e\<in>set es. notification_type e = nt \<and> -1 < event_id e" by force
    from latest_loop_found[OF this, of None] n show False
      by (auto simp: get_latest_per_notification_type_def)
  qed
next
  assume "\<forall>e\<in>set es. notification_type e = nt \<longrightarrow> event_id e < 0"
  then have "\<forall>e\<in>set es. notification_type e = nt \<longrightarrow> event_id e \<le> -1" by force
  from latest_loop_keep[OF this] show "get_latest_per_notification_type nt es = None"
    by (simp add: get_latest_per_notification_type_def)
qed

section \<open>Dense logs\<close>

text \<open>
  A log is dense when its identifiers are \<open>0, 1, ..., n-1\<close>, each once, in any order. The
  repository accepts exactly the next one, so logs stay dense; on a dense log the latest event is
  unique and \<open>AddEvent\<close> yields the identifier the repository expects.
\<close>

definition dense_log :: "task_events \<Rightarrow> bool" where
  "dense_log es \<longleftrightarrow> mset (map event_id es) = mset (map int [0..<length es])"

lemma dense_log_mset: "mset es = mset es' \<Longrightarrow> dense_log es = dense_log es'"
  by (metis dense_log_def mset_eq_length mset_map)

lemma dense_log_map: "map event_id es = map event_id es' \<Longrightarrow> dense_log es = dense_log es'"
  unfolding dense_log_def by (metis length_map)

lemma dense_log_Nil [simp]: "dense_log []"
  by (simp add: dense_log_def)

lemma dense_log_snoc:
  "dense_log es \<Longrightarrow> event_id e = int (length es) \<Longrightarrow> dense_log (es @ [e])"
  by (simp add: dense_log_def)

lemma dense_log_ids:
  assumes "dense_log es"
  shows "event_id ` set es = int ` {..<length es}" and "distinct (map event_id es)"
proof -
  have "set (map event_id es) = set (map int [0..<length es])"
    using assms unfolding dense_log_def by (metis set_mset_mset)
  then show "event_id ` set es = int ` {..<length es}" by (simp add: atLeast0LessThan)
  have "distinct (map int [0..<length es])" by (simp add: distinct_map)
  then show "distinct (map event_id es)"
    using assms unfolding dense_log_def by (metis mset_eq_imp_distinct_iff)
qed

lemma dense_log_less:
  assumes "dense_log es" and "e \<in> set es"
  shows "0 \<le> event_id e \<and> event_id e < int (length es)"
proof -
  have "event_id e \<in> event_id ` set es" using assms(2) by blast
  then show ?thesis unfolding dense_log_ids(1)[OF assms(1)] by auto
qed

lemma dense_log_latest:
  assumes "dense_log es" and "es \<noteq> []"
  obtains e es' where "get_latest es = (Some e, es')" "mset es' = mset es" "e \<in> set es"
    "event_id e = int (length es) - 1"
proof -
  from get_latest_props[OF assms(2)] obtain e es' where
    g: "get_latest es = (Some e, es')" "mset es' = mset es" "e \<in> set es"
      "\<forall>x\<in>set es. event_id x \<le> event_id e" by metis
  have "event_id e \<in> int ` {..<length es}"
    using dense_log_ids(1)[OF assms(1)] g(3) by blast
  moreover have "int (length es) - 1 \<in> event_id ` set es"
  proof -
    have "int (length es) - 1 = int (length es - 1)" using assms(2) by (cases es) auto
    moreover have "length es - 1 \<in> {..<length es}" using assms(2) by auto
    ultimately show ?thesis using dense_log_ids(1)[OF assms(1)] by (metis image_eqI)
  qed
  then have "int (length es) - 1 \<le> event_id e" using g(4) by auto
  ultimately have "event_id e = int (length es) - 1" by auto
  then show ?thesis by (rule that[OF g(1,2,3)])
qed

lemma add_event_complete_props:
  assumes "dense_log (events v)" and "int (length (events v)) \<le> go_max_int"
  obtains e v' where "add_event_complete now nt st msg v = (e, v')"
    "event_id e = int (length (events v))" "job_id e = jid v" "notification_type e = nt"
    "status e = st" "message e = msg" "event_time e = now" "worker_name e = []"
    "mset (events v') = add_mset e (mset (events v))" "dense_log (events v')"
    "v' = v\<lparr>events := events v'\<rparr>" "last (events v') = e" "events v' \<noteq> []"
proof (cases "events v = []")
  case True
  then show ?thesis
    by (intro that[of "fst (add_event_complete now nt st msg v)"
          "snd (add_event_complete now nt st msg v)"])
      (auto simp: add_event_complete_def Let_def dense_log_def)
next
  case False
  from dense_log_latest[OF assms(1) False] obtain l es' where
    l: "get_latest (events v) = (Some l, es')" "mset es' = mset (events v)"
      "event_id l = int (length (events v)) - 1" by metis
  have len: "length es' = length (events v)" using l(2) by (metis size_mset)
  have "int_range (int (length (events v)))"
    using assms(2) by (simp add: int_range_def go_min_int_def)
  then have id: "wrap64 (int (length (events v))) = int (length (events v))" by simp
  have dense: "dense_log es'" using assms(1) dense_log_mset[OF l(2)] by simp
  show ?thesis
    by (rule that[OF prod.collapse[symmetric]])
      (auto simp: add_event_complete_def l id Let_def len dense_log_snoc[OF dense])
qed

end
