(* ===== verification/Settings.thy ===== *)
theory Settings
  imports Events
begin

text \<open>
  Worker capacity settings and worker commands (\<open>model/workerSettings.go\<close>,
  \<open>model/workerControl.go\<close>): either one legacy maximum or an atomic CPU/GPU pair, and the durable
  per-worker command that the dashboard sends. Go pointers to integers are options; the deep copies
  (\<open>Clone\<close>) are the identity on values.
\<close>

record worker_control =
  ctl_id :: string
  ctl_job_id :: string
  ctl_action :: string
  ctl_state :: string
  ctl_error :: string
  ctl_cpu_jobs :: "int option"
  ctl_gpu_jobs :: "int option"
  ctl_max_active_jobs :: "int option"

record worker_settings =
  control :: "worker_control option"
  max_active_jobs :: "int option"
  cpu_jobs :: "int option"
  gpu_jobs :: "int option"

record worker_control_ack =
  ack_id :: string
  ack_error :: string

datatype settings_error =
  ControlReadOnly | PairRequired | PairNegative | PairOverflow | MaxNegative

definition empty_settings :: worker_settings where
  "empty_settings = \<lparr>control = None, max_active_jobs = None, cpu_jobs = None, gpu_jobs = None\<rparr>"

definition independent :: "worker_settings \<Rightarrow> bool" where
  "independent s \<longleftrightarrow> cpu_jobs s \<noteq> None \<and> gpu_jobs s \<noteq> None"

definition total_jobs :: "worker_settings \<Rightarrow> settings_error + int" where
  "total_jobs s =
    (case (cpu_jobs s, gpu_jobs s) of
       (Some c, Some g) \<Rightarrow>
         if c < 0 \<or> g < 0 then Inl PairNegative
         else if wrap64 (go_max_int - g) < c then Inl PairOverflow
         else Inr (wrap64 (c + g))
     | _ \<Rightarrow> Inl PairNegative)"

definition validate_write :: "worker_settings \<Rightarrow> settings_error + unit" where
  "validate_write s =
    (if control s \<noteq> None then Inl ControlReadOnly
     else if cpu_jobs s \<noteq> None \<or> gpu_jobs s \<noteq> None then
       (if \<not> independent s \<or> max_active_jobs s \<noteq> None then Inl PairRequired
        else (case total_jobs s of Inl e \<Rightarrow> Inl e | Inr _ \<Rightarrow> Inr ()))
     else (case max_active_jobs s of
         None \<Rightarrow> Inl MaxNegative
       | Some m \<Rightarrow> if m < 0 then Inl MaxNegative else Inr ()))"

definition worker_actions :: "string list" where
  "worker_actions =
    [''pause-encodes'', ''resume-encodes'', ''stop-after-current'', ''resume-queue'',
     ''pause-job'', ''resume-job'']"

definition validate_worker_action :: "string \<Rightarrow> bool" where
  "validate_worker_action a \<longleftrightarrow> a \<in> set worker_actions"

definition control_settings :: "worker_control \<Rightarrow> worker_settings" where
  "control_settings c = \<lparr>control = None, max_active_jobs = ctl_max_active_jobs c,
     cpu_jobs = ctl_cpu_jobs c, gpu_jobs = ctl_gpu_jobs c\<rparr>"

section \<open>What a worker reports\<close>

text \<open>The telemetry of \<open>model/dashboard.go\<close> that the server acts on or shows; the sampled machine
  resources are not interpreted by any code modelled here and are left out.\<close>

record dashboard_progress =
  dp_id :: string
  dp_phase :: string
  dp_percent :: float64
  dp_eta_seconds :: float64
  dp_updated_at :: int
  dp_stale :: bool

record worker_job_runtime =
  wj_name :: string
  wj_can_pause :: bool
  wj_progress :: "dashboard_progress list"
  wj_id :: string
  wj_phase :: string
  wj_state :: string
  wj_individually_paused :: bool
  wj_paused_by_worker :: bool

record worker_runtime =
  rt_version :: string
  rt_control_version :: int
  rt_paused :: bool
  rt_ram_paused :: bool
  rt_pause_mode :: string
  rt_suspended_encodes :: int
  rt_finishing :: bool
  rt_draining :: bool
  rt_managed_profile :: bool
  rt_jobs :: "worker_job_runtime list"
  rt_capacity_version :: int
  rt_cpu_jobs :: int
  rt_gpu_jobs :: int
  rt_active_cpu_encodes :: int
  rt_active_gpu_encodes :: int
  rt_cpu_max_encodes :: int
  rt_gpu_max_encodes :: int
  rt_cpu_encoder :: string
  rt_gpu_encoder :: string
  rt_encoder :: string
  rt_kind :: string
  rt_accepting :: bool
  rt_within_schedule :: bool
  rt_active_jobs :: int
  rt_reserved_jobs :: int
  rt_max_active_jobs :: int
  rt_active_encodes :: int
  rt_max_encodes :: int

record worker =
  wk_name :: string
  wk_ip :: string
  wk_last_seen :: int
  wk_runtime :: "worker_runtime option"

section \<open>Facts about totals and validation\<close>

text \<open>Every integer of a settings value lies in the 64-bit range.\<close>

definition settings_range :: "worker_settings \<Rightarrow> bool" where
  "settings_range s \<longleftrightarrow> list_all (\<lambda>z. case z of None \<Rightarrow> True | Some x \<Rightarrow> int_range x)
     [max_active_jobs s, cpu_jobs s, gpu_jobs s]"

text \<open>The total is the mathematical sum exactly when no wrap-around can happen; the check
  \<open>cpu > max - gpu\<close> itself cannot wrap once the signs are checked.\<close>

lemma total_jobs_exact:
  assumes "cpu_jobs s = Some c" and "gpu_jobs s = Some g" and "int_range c" and "int_range g"
  shows "total_jobs s =
    (if c < 0 \<or> g < 0 then Inl PairNegative
     else if go_max_int < c + g then Inl PairOverflow else Inr (c + g))"
proof (cases "c < 0 \<or> g < 0")
  case True
  with assms show ?thesis by (simp add: total_jobs_def)
next
  case False
  then have "int_range (go_max_int - g)"
    using assms(4) by (simp add: int_range_def go_min_int_def go_max_int_def)
  moreover have "int_range (c + g)" if "c + g \<le> go_max_int"
    using that False by (simp add: int_range_def go_min_int_def)
  ultimately show ?thesis using assms False by (auto simp: total_jobs_def)
qed

lemma total_jobs_Inr_bounds:
  assumes "total_jobs s = Inr t" and "settings_range s"
  obtains c g where "cpu_jobs s = Some c" "gpu_jobs s = Some g" "0 \<le> c" "0 \<le> g" "t = c + g"
    "t \<le> go_max_int"
proof -
  from assms(1) obtain c g where cg: "cpu_jobs s = Some c" "gpu_jobs s = Some g"
    by (auto simp: total_jobs_def split: option.splits)
  with assms(2) have "int_range c" "int_range g" by (simp_all add: settings_range_def)
  from total_jobs_exact[OF cg this] assms(1) cg show ?thesis
    by (intro that[of c g]) (auto split: if_splits)
qed

lemma validate_write_cases:
  assumes "validate_write s = Inr ()" and "settings_range s"
  obtains (pair) c g where "cpu_jobs s = Some c" "gpu_jobs s = Some g" "max_active_jobs s = None"
      "0 \<le> c" "0 \<le> g" "c + g \<le> go_max_int" "total_jobs s = Inr (c + g)" "independent s"
  | (single) m where "cpu_jobs s = None" "gpu_jobs s = None" "max_active_jobs s = Some m"
      "0 \<le> m" "\<not> independent s"
proof (cases "cpu_jobs s = None \<and> gpu_jobs s = None")
  case True
  with assms(1) obtain m where "max_active_jobs s = Some m" "0 \<le> m"
    by (auto simp: validate_write_def independent_def split: option.splits if_splits)
  with True show ?thesis by (intro single[of m]) (simp_all add: independent_def)
next
  case False
  with assms(1) have i: "independent s" "max_active_jobs s = None"
    by (auto simp: validate_write_def split: if_splits)
  from False i assms(1) obtain t where t: "total_jobs s = Inr t"
    by (auto simp: validate_write_def split: if_splits sum.splits)
  from total_jobs_Inr_bounds[OF t assms(2)] i t show ?thesis by (metis pair)
qed

end
