(* ===== verification/Event_Log.thy ===== *)
theory Event_Log
  imports Settings
begin

text \<open>
  The interface between the scheduler and whatever stores the job events. \<open>event_log\<close> is what every
  repository promises of \<open>AddNewTaskEvent\<close>: success appends, failure leaves the log alone.
  \<open>checked_event_log\<close> adds what only the database-backed repository promises: an event is accepted
  only with the next identifier. The scheduler's reasoning about job states is done here once, for
  any store with these laws.
\<close>

locale event_log =
  fixes log_of :: "'s \<Rightarrow> uuid \<Rightarrow> task_events"
    and append_event :: "int \<Rightarrow> task_event \<Rightarrow> ('s, 'e, unit) procedure"
    and stamp :: "int \<Rightarrow> task_event \<Rightarrow> task_event"
  assumes append_ok: "append_event now e s = (Inr (), t) \<Longrightarrow>
      log_of t = (log_of s)(job_id e := log_of s (job_id e) @ [stamp now e])"
    and append_fails: "append_event now e s = (Inl x, t) \<Longrightarrow> log_of t = log_of s"
    and stamp_fields: "event_id (stamp now e) = event_id e \<and> job_id (stamp now e) = job_id e \<and>
      notification_type (stamp now e) = notification_type e \<and> status (stamp now e) = status e \<and>
      worker_name (stamp now e) = worker_name e \<and> message (stamp now e) = message e"
begin

text \<open>Logs only grow: whatever the outcome, each log is extended by at most one event.\<close>

lemma append_extends:
  assumes "append_event now e s = (r, t)"
  shows "\<exists>es. log_of t j = log_of s j @ es"
proof (cases r)
  case (Inl x)
  with assms append_fails show ?thesis by (metis append_Nil2)
next
  case (Inr u)
  with assms have "append_event now e s = (Inr (), t)" by simp
  from append_ok[OF this] show ?thesis by auto
qed

lemma append_other_job:
  assumes "append_event now e s = (r, t)" and "j \<noteq> job_id e"
  shows "log_of t j = log_of s j"
  using assms append_ok append_fails by (cases r) auto

end

locale checked_event_log = event_log log_of append_event stamp
  for log_of :: "'s \<Rightarrow> uuid \<Rightarrow> task_events"
    and append_event :: "int \<Rightarrow> task_event \<Rightarrow> ('s, 'e, unit) procedure"
    and stamp :: "int \<Rightarrow> task_event \<Rightarrow> task_event" +
  assumes append_checked: "append_event now e s = (Inr (), t) \<Longrightarrow> dense_log (log_of s (job_id e)) \<Longrightarrow>
      event_id e = int (length (log_of s (job_id e)))"
begin

definition dense_store :: "'s \<Rightarrow> bool" where
  "dense_store s \<longleftrightarrow> (\<forall>j. dense_log (log_of s j))"

lemma append_keeps_dense: "keeps dense_store (append_event now e)"
proof (rule keepsI)
  fix s r t
  assume d: "dense_store s" and a: "append_event now e s = (r, t)"
  show "dense_store t"
  proof (cases r)
    case (Inl x)
    with a append_fails d show ?thesis by (simp add: dense_store_def)
  next
    case (Inr u)
    with a have ok: "append_event now e s = (Inr (), t)" by simp
    from d have "dense_log (log_of s (job_id e))" by (simp add: dense_store_def)
    with append_checked[OF ok] have "dense_log (log_of s (job_id e) @ [stamp now e])"
      by (intro dense_log_snoc) (simp_all add: stamp_fields)
    with append_ok[OF ok] d show ?thesis by (auto simp: dense_store_def)
  qed
qed

text \<open>A second writer that computed the same next identifier loses: after a successful append of
  an identifier no further append of it to the same job succeeds.\<close>

lemma no_double_append:
  assumes "dense_store s" and "append_event now e s = (Inr (), t)"
    and "job_id e' = job_id e" and "event_id e' = event_id e"
  shows "append_event now' e' t \<noteq> (Inr (), u)"
proof
  assume a: "append_event now' e' t = (Inr (), u)"
  have "dense_store t" using keepsD[OF append_keeps_dense assms(1,2)] .
  then have "event_id e' = int (length (log_of t (job_id e')))"
    using append_checked[OF a] by (simp add: dense_store_def)
  moreover have "event_id e = int (length (log_of s (job_id e)))"
    using append_checked[OF assms(2)] assms(1) by (simp add: dense_store_def)
  ultimately show False using assms(3,4) append_ok[OF assms(2)] by simp
qed

text \<open>After a \<open>Job\<close> event is accepted, it is the one that decides the state of the job.\<close>

lemma append_decides_state:
  assumes "dense_store s" and "append_event now e s = (Inr (), t)"
    and "notification_type e = JobNotification"
  shows "get_latest_per_notification_type JobNotification (log_of t (job_id e)) =
    Some (stamp now e)"
proof -
  let ?l = "log_of s (job_id e)"
  have d: "dense_log ?l" using assms(1) by (simp add: dense_store_def)
  have id: "event_id e = int (length ?l)" using append_checked[OF assms(2) d] .
  have t: "log_of t (job_id e) = ?l @ [stamp now e]" using append_ok[OF assms(2)] by simp
  have lt: "event_id x < event_id (stamp now e)" if "x \<in> set ?l" for x
    using dense_log_less[OF d that] id by (simp add: stamp_fields)
  obtain x where x: "get_latest_per_notification_type JobNotification (?l @ [stamp now e]) = Some x"
    using latest_per_type_None[of JobNotification "?l @ [stamp now e]"] id assms(3)
    by (cases "get_latest_per_notification_type JobNotification (?l @ [stamp now e])")
      (auto simp: stamp_fields)
  from latest_per_type_Some[OF x] have "x = stamp now e"
    using lt assms(3) by (fastforce simp: stamp_fields)
  with x t show ?thesis by simp
qed

end

end
