(* ===== verification/Sql_Repository.thy ===== *)
theory Sql_Repository
  imports Event_Log
begin

text \<open>
  The database-backed repository (\<open>server/repository/repository.go\<close>, \<open>encoderSettings.go\<close>,
  \<open>workerControls.go\<close>, \<open>media.go\<close>) over the schema its migrations build
  (\<open>server/repository/resources/database\<close>). A table is the list of its rows in insertion order;
  primary keys, foreign keys, checks and the trigger that maintains \<open>job_status\<close> are part of the
  statements. Any statement may fail for reasons outside the program (connection, server): which
  ones fail is the list \<open>faults\<close>, consumed one entry per statement, so a theorem about all states
  covers a failure at every point. \<open>now\<close> is the clock reading of the call.
\<close>

section \<open>Tables\<close>

record job_row =
  jr_id :: uuid
  jr_source_path :: string
  jr_target_path :: string
  jr_source_size :: int
  jr_target_size :: int
  jr_source_probe :: "media_probe option"
  jr_target_probe :: "media_probe option"

record status_row =
  sr_event :: task_event
  sr_video_path :: "string option"

record progress_row =
  pr_progress_id :: string
  pr_type :: notification_type
  pr_job_id :: uuid
  pr_worker_name :: string
  pr_percent :: float64
  pr_eta :: int
  pr_last_update :: int

record settings_row =
  wr_name :: string
  wr_max :: int
  wr_cpu :: "int option"
  wr_gpu :: "int option"
  wr_resume_max :: "int option"
  wr_resume_cpu :: "int option"
  wr_resume_gpu :: "int option"

record probe_row =
  mr_root :: string
  mr_path :: string
  mr_size :: int
  mr_modified :: int
  mr_probe :: media_probe

record sql_db =
  jobs_t :: "job_row list"
  events_t :: "task_event list"
  status_t :: "status_row list"
  progress_t :: "progress_row list"
  workers_t :: "worker list"
  settings_t :: "settings_row list"
  controls_t :: "(string \<times> worker_control) list"
  probes_t :: "probe_row list"
  faults :: "bool list"

definition empty_db :: sql_db where
  "empty_db = \<lparr>jobs_t = [], events_t = [], status_t = [], progress_t = [], workers_t = [],
     settings_t = [], controls_t = [], probes_t = [], faults = []\<rparr>"

text \<open>The errors the server code distinguishes; \<open>DbFault\<close> is any failure of the database.\<close>

datatype server_error =
  DbFault | UniqueViolation | ForeignKeyViolation | CheckViolation | ErrElementNotFound
| EventIdMismatch int int | MarshalFailure | WorkerNameRequired | NegativeMaximum
| InvalidSettings settings_error
| ErrNoJobsAvailable | ErrJobNotFound | ErrStreamNotAllowed | ErrFileSkipped
| ErrInvalidWorkerSettings | ErrWorkerControlUnavailable
| AlreadyCompleted | IsFailed | AlreadyCanceled | UnknownState | NoJobStatus | NotReschedulable
| ContextDone | NonLocalPath | FileNotExist | FileExists | OtherFileError | ProbeFailed
| NoVideoStream | InvalidPath | MediaChanged | BelowMinimumSize | MetadataRequired
| UnknownEvent | NilDereference | InvalidJobId | ChecksumMissing

type_synonym 'a db_op = "(sql_db, server_error, 'a) procedure"

section \<open>Statements and transactions\<close>

definition statement :: "'a db_op \<Rightarrow> 'a db_op" where
  "statement m = (\<lambda>s. case faults s of
      [] \<Rightarrow> m s
    | b # fs \<Rightarrow> if b then (Inl DbFault, s\<lparr>faults := fs\<rparr>) else m (s\<lparr>faults := fs\<rparr>))"

text \<open>\<open>WithTransaction\<close>: begin, run, commit; any error, of the function or of the commit, leaves
  the tables as they were.\<close>

definition rollback_to :: "sql_db \<Rightarrow> sql_db \<Rightarrow> sql_db" where
  "rollback_to s0 s = s0\<lparr>faults := faults s\<rparr>"

definition with_transaction :: "'a db_op \<Rightarrow> 'a db_op" where
  "with_transaction fn = (\<lambda>s. case statement (retP ()) s of
      (Inl e, s1) \<Rightarrow> (Inl e, s1)
    | (Inr _, s1) \<Rightarrow> (case fn s1 of
        (Inl e, s2) \<Rightarrow> (Inl e, rollback_to s1 s2)
      | (Inr x, s2) \<Rightarrow> (case statement (retP ()) s2 of
          (Inl e, s3) \<Rightarrow> (Inl e, rollback_to s1 s3)
        | (Inr _, s3) \<Rightarrow> (Inr x, s3))))"

section \<open>Job events\<close>

definition store_event :: "int \<Rightarrow> task_event \<Rightarrow> task_event" where
  "store_event now e = e\<lparr>event_time := now, target_probe_of := None\<rparr>"

definition job_log :: "sql_db \<Rightarrow> uuid \<Rightarrow> task_events" where
  "job_log s j = filter (\<lambda>e. job_id e = j) (events_t s)"

text \<open>\<open>COALESCE(max(job_event_id), -1)\<close>.\<close>

definition max_event_id :: "task_events \<Rightarrow> int" where
  "max_event_id es = (case map event_id es of [] \<Rightarrow> -1 | i # is \<Rightarrow> fold max is i)"

definition job_row_of :: "sql_db \<Rightarrow> uuid \<Rightarrow> job_row option" where
  "job_row_of s j = lookup_row jr_id j (jobs_t s)"

text \<open>The trigger on \<open>job_events\<close> copies each inserted event into \<open>job_status\<close>.\<close>

definition status_key :: "status_row \<Rightarrow> uuid" where
  "status_key r = job_id (sr_event r)"

definition trigger_status :: "task_event \<Rightarrow> sql_db \<Rightarrow> sql_db" where
  "trigger_status e s =
    (let new = \<lparr>sr_event = e, sr_video_path = map_option jr_source_path (job_row_of s (job_id e))\<rparr>
     in s\<lparr>status_t := upsert status_key (\<lambda>_. new) new (status_t s)\<rparr>)"

definition insert_event :: "task_event \<Rightarrow> unit db_op" where
  "insert_event e = (\<lambda>s.
     if job_row_of s (job_id e) = None then (Inl ForeignKeyViolation, s)
     else if event_id e \<in> event_id ` set (job_log s (job_id e)) then (Inl UniqueViolation, s)
     else (Inr (), trigger_status e (s\<lparr>events_t := events_t s @ [e]\<rparr>)))"

definition add_new_task_event :: "int \<Rightarrow> task_event \<Rightarrow> unit db_op" where
  "add_new_task_event now e =
    bindP (statement (readP (\<lambda>s. max_event_id (job_log s (job_id e))))) (\<lambda>m.
      if m + 1 \<noteq> event_id e then failP (EventIdMismatch m (event_id e))
      else statement (insert_event (store_event now e)))"

section \<open>Reading jobs\<close>

text \<open>\<open>ORDER BY event_time\<close>, ascending or descending.\<close>

definition earlier :: "task_event \<Rightarrow> task_event \<Rightarrow> bool" where
  "earlier a b \<longleftrightarrow> event_time a < event_time b"

definition get_task_events :: "uuid \<Rightarrow> task_events db_op" where
  "get_task_events j = statement (readP (\<lambda>s. sort_slice earlier (job_log s j)))"

definition zero_time :: int where
  "zero_time = -62135596800 * 10 ^ 9"

text \<open>\<open>getJobStatus\<close>; its error is ignored by the callers, which then see the zero values.\<close>

definition get_job_status :: "uuid \<Rightarrow> task_event option db_op" where
  "get_job_status j = statement (readP (\<lambda>s. map_option sr_event (lookup_row status_key j (status_t s))))"

definition job_of_row :: "job_row \<Rightarrow> task_events \<Rightarrow> task_event option \<Rightarrow> job" where
  "job_of_row r es st = \<lparr>source_path = jr_source_path r, target_path = jr_target_path r,
     jid = jr_id r, events = es, job_status = map_option status st,
     status_phase = map_option notification_type st,
     status_message = (case st of None \<Rightarrow> [] | Some e \<Rightarrow> message e),
     last_update = Some (case st of None \<Rightarrow> zero_time | Some e \<Rightarrow> event_time e),
     source_size = jr_source_size r, target_size = jr_target_size r,
     source_probe = jr_source_probe r, target_probe = jr_target_probe r\<rparr>"

definition fill_job :: "job_row \<Rightarrow> job db_op" where
  "fill_job r = bindP (get_task_events (jr_id r)) (\<lambda>es.
     bindP (tryP (get_job_status (jr_id r))) (\<lambda>st.
       retP (job_of_row r es (case st of Inl _ \<Rightarrow> None | Inr z \<Rightarrow> z))))"

definition get_job :: "uuid \<Rightarrow> job db_op" where
  "get_job j = bindP (statement (readP (\<lambda>s. job_row_of s j))) (\<lambda>z.
     case z of None \<Rightarrow> failP ErrElementNotFound | Some r \<Rightarrow> fill_job r)"

definition get_job_by_path :: "string \<Rightarrow> job option db_op" where
  "get_job_by_path p = bindP (statement (readP (\<lambda>s. lookup_row jr_source_path p (jobs_t s)))) (\<lambda>z.
     case z of None \<Rightarrow> retP None | Some r \<Rightarrow> bindP (fill_job r) (\<lambda>j. retP (Some j)))"

text \<open>The inner join of \<open>jobs\<close> and \<open>job_status\<close>.\<close>

definition joined :: "sql_db \<Rightarrow> (job_row \<times> task_event) list" where
  "joined s = concat (map (\<lambda>r. case lookup_row status_key (jr_id r) (status_t s) of
      None \<Rightarrow> [] | Some t \<Rightarrow> [(r, sr_event t)]) (jobs_t s))"

definition get_jobs :: "job list db_op" where
  "get_jobs = statement (readP (\<lambda>s. map (\<lambda>(r, e). job_of_row r [] (Some e)) (joined s)))"

fun load_events :: "job list \<Rightarrow> job list db_op" where
  "load_events [] = retP []"
| "load_events (j # js) = bindP (get_task_events (jid j)) (\<lambda>es.
     bindP (load_events js) (\<lambda>js'. retP (j\<lparr>events := es\<rparr> # js')))"

definition get_jobs_by_status ::
  "notification_type \<Rightarrow> notification_status \<Rightarrow> job list db_op" where
  "get_jobs_by_status nt st =
    bindP (statement (readP (\<lambda>s. map (\<lambda>(r, e). job_of_row r [] (Some e))
        (sort_slice (\<lambda>a b. earlier (snd b) (snd a))
          (filter (\<lambda>(r, e). notification_type e = nt \<and> status e = st) (joined s)))))) load_events"

definition queued_rows :: "sql_db \<Rightarrow> task_event list" where
  "queued_rows s = sort_slice earlier (filter
     (\<lambda>e. notification_type e = JobNotification \<and> status e = Queued) (map sr_event (status_t s)))"

definition retrieve_queued_job :: "job db_op" where
  "retrieve_queued_job = bindP (statement (readP queued_rows)) (\<lambda>es.
     case es of [] \<Rightarrow> failP ErrElementNotFound | e # _ \<Rightarrow> get_job (job_id e))"

record queued_job =
  qj_id :: uuid
  qj_name :: string
  qj_size :: int
  qj_queued_at :: int

record queue_snapshot =
  qs_total :: int
  qs_jobs :: "queued_job list"


definition queue_order :: "job_row \<times> task_event \<Rightarrow> job_row \<times> task_event \<Rightarrow> bool" where
  "queue_order a b \<longleftrightarrow> earlier (snd a) (snd b) \<or>
     \<not> earlier (snd b) (snd a) \<and> string_less (jr_id (fst a)) (jr_id (fst b))"

definition list_queued_jobs :: "queue_snapshot db_op" where
  "list_queued_jobs = statement (readP (\<lambda>s.
     let rows = sort_slice queue_order
           (filter (\<lambda>(r, e). notification_type e = JobNotification \<and> status e = Queued) (joined s))
     in \<lparr>qs_total = int (length rows),
         qs_jobs = map (\<lambda>(r, e). \<lparr>qj_id = jr_id r, qj_name = base_name (jr_source_path r),
           qj_size = jr_source_size r, qj_queued_at = event_time e\<rparr>) (take 100 rows)\<rparr>))"

text \<open>\<open>getTimeoutJobs\<close>: the last \<open>Job\<close> event of each job, when it is an old assignment.\<close>

definition last_job_event :: "sql_db \<Rightarrow> task_event \<Rightarrow> bool" where
  "last_job_event s e \<longleftrightarrow> notification_type e = JobNotification \<and>
     list_all (\<lambda>x. job_id x = job_id e \<and> notification_type x = JobNotification \<longrightarrow>
       event_id x \<le> event_id e) (events_t s)"

definition get_timeout_jobs :: "int \<Rightarrow> int \<Rightarrow> task_events db_op" where
  "get_timeout_jobs now timeout = statement (readP (\<lambda>s.
     filter (\<lambda>e. last_job_event s e \<and> (status e = Assigned \<or> status e = Started) \<and>
       event_time e < now - timeout) (events_t s)))"

section \<open>Writing jobs\<close>

text \<open>\<open>json.Marshal\<close> refuses a probe whose duration is not finite.\<close>

definition marshal_probe :: "media_probe option \<Rightarrow> server_error + media_probe option" where
  "marshal_probe p = (case p of None \<Rightarrow> Inr None
     | Some m \<Rightarrow> (case duration_seconds m of Fin _ \<Rightarrow> Inr p | _ \<Rightarrow> Inl MarshalFailure))"

definition row_of_job :: "job \<Rightarrow> media_probe option \<Rightarrow> media_probe option \<Rightarrow> job_row" where
  "row_of_job v sp tp = \<lparr>jr_id = jid v, jr_source_path = source_path v,
     jr_target_path = target_path v, jr_source_size = source_size v,
     jr_target_size = target_size v, jr_source_probe = sp, jr_target_probe = tp\<rparr>"

definition add_job :: "job \<Rightarrow> unit db_op" where
  "add_job v = bindP (liftP (marshal_probe (source_probe v))) (\<lambda>sp.
     bindP (liftP (marshal_probe (target_probe v))) (\<lambda>tp.
       statement (\<lambda>s. if job_row_of s (jid v) \<noteq> None then (Inl UniqueViolation, s)
         else (Inr (), s\<lparr>jobs_t := jobs_t s @ [row_of_job v sp tp]\<rparr>))))"

definition update_job :: "job \<Rightarrow> unit db_op" where
  "update_job v = bindP (liftP (marshal_probe (source_probe v))) (\<lambda>sp.
     bindP (liftP (marshal_probe (target_probe v))) (\<lambda>tp.
       statement (writeP (\<lambda>s. s\<lparr>jobs_t :=
         map (\<lambda>r. if jr_id r = jid v then row_of_job v sp tp else r) (jobs_t s)\<rparr>))))"

section \<open>Progress\<close>

definition progress_key :: "progress_row \<Rightarrow> string \<times> notification_type" where
  "progress_key r = (pr_progress_id r, pr_type r)"

definition progress_job :: "int \<Rightarrow> task_progress \<Rightarrow> unit db_op" where
  "progress_job now p = statement (\<lambda>s.
     if job_row_of s (pg_job_id p) = None \<and>
        lookup_row progress_key (progress_id p, pg_type p) (progress_t s) = None
     then (Inl ForeignKeyViolation, s)
     else (Inr (), s\<lparr>progress_t := upsert progress_key
       (\<lambda>r. r\<lparr>pr_percent := percent p, pr_eta := eta p, pr_last_update := now\<rparr>)
       \<lparr>pr_progress_id = progress_id p, pr_type = pg_type p, pr_job_id = pg_job_id p,
        pr_worker_name = pg_worker_name p, pr_percent = percent p, pr_eta = eta p,
        pr_last_update = now\<rparr> (progress_t s)\<rparr>))"

definition delete_progress_job :: "string \<Rightarrow> notification_type \<Rightarrow> unit db_op" where
  "delete_progress_job pid nt = statement (writeP (\<lambda>s.
     s\<lparr>progress_t := filter (\<lambda>r. progress_key r \<noteq> (pid, nt)) (progress_t s)\<rparr>))"

text \<open>The remaining time is stored in seconds and read back truncated to whole seconds.\<close>

definition get_all_progress_jobs :: "task_progress list db_op" where
  "get_all_progress_jobs = statement (readP (\<lambda>s. map (\<lambda>r.
     \<lparr>pg_event_time = pr_last_update r, pg_worker_name = pr_worker_name r, pg_job_id = pr_job_id r,
      progress_id = pr_progress_id r, percent = pr_percent r,
      eta = go_div (pr_eta r) (10 ^ 9) * 10 ^ 9, pg_type = pr_type r,
      pg_status = OtherProgress []\<rparr>) (progress_t s)))"

section \<open>Workers, their settings and commands\<close>

definition ping_server_update :: "int \<Rightarrow> string \<Rightarrow> string \<Rightarrow> worker_runtime option \<Rightarrow> unit db_op" where
  "ping_server_update now addr name rt = statement (writeP (\<lambda>s.
     let new = \<lparr>wk_name = name, wk_ip = addr, wk_last_seen = now, wk_runtime = rt\<rparr>
     in s\<lparr>workers_t := upsert wk_name (\<lambda>_. new) new (workers_t s)\<rparr>))"

definition get_worker :: "string \<Rightarrow> worker db_op" where
  "get_worker name = bindP (statement (readP (\<lambda>s. lookup_row wk_name name (workers_t s)))) (\<lambda>z.
     case z of None \<Rightarrow> failP ErrElementNotFound | Some w \<Rightarrow> retP w)"

definition settings_row_of :: "sql_db \<Rightarrow> string \<Rightarrow> settings_row option" where
  "settings_row_of s name = lookup_row wr_name name (settings_t s)"

definition get_worker_max_active_jobs :: "string \<Rightarrow> int option db_op" where
  "get_worker_max_active_jobs name =
    statement (readP (\<lambda>s. map_option wr_max (settings_row_of s name)))"

text \<open>The checks of \<open>worker_settings\<close>.\<close>

definition settings_row_ok :: "settings_row \<Rightarrow> bool" where
  "settings_row_ok r \<longleftrightarrow> 0 \<le> wr_max r \<and>
     (case wr_cpu r of None \<Rightarrow> True | Some x \<Rightarrow> 0 \<le> x) \<and>
     (case wr_gpu r of None \<Rightarrow> True | Some x \<Rightarrow> 0 \<le> x) \<and>
     (wr_cpu r = None) = (wr_gpu r = None) \<and>
     (case wr_resume_max r of None \<Rightarrow> True | Some x \<Rightarrow> 0 < x) \<and>
     (case wr_resume_cpu r of None \<Rightarrow> True | Some x \<Rightarrow> 0 \<le> x) \<and>
     (case wr_resume_gpu r of None \<Rightarrow> True | Some x \<Rightarrow> 0 \<le> x)"

definition upsert_settings :: "(settings_row \<Rightarrow> settings_row) \<Rightarrow> settings_row \<Rightarrow> unit db_op" where
  "upsert_settings f new = statement (\<lambda>s.
     let row = (case settings_row_of s (wr_name new) of None \<Rightarrow> new | Some r \<Rightarrow> f r)
     in if settings_row_ok row
        then (Inr (), s\<lparr>settings_t := upsert wr_name f new (settings_t s)\<rparr>)
        else (Inl CheckViolation, s))"

definition set_worker_max_active_jobs :: "string \<Rightarrow> int \<Rightarrow> unit db_op" where
  "set_worker_max_active_jobs name m =
    (if name = [] then failP WorkerNameRequired
     else if m < 0 then failP NegativeMaximum
     else upsert_settings
       (\<lambda>r. r\<lparr>wr_max := m, wr_cpu := None, wr_gpu := None,
          wr_resume_max := (if 0 < m then Some m else wr_resume_max r),
          wr_resume_cpu := (if 0 < m then None else wr_resume_cpu r),
          wr_resume_gpu := (if 0 < m then None else wr_resume_gpu r)\<rparr>)
       \<lparr>wr_name = name, wr_max = m, wr_cpu = None, wr_gpu = None,
        wr_resume_max = (if 0 < m then Some m else None), wr_resume_cpu = None,
        wr_resume_gpu = None\<rparr>)"

definition get_worker_settings :: "string \<Rightarrow> worker_settings db_op" where
  "get_worker_settings name = statement (readP (\<lambda>s. case settings_row_of s name of
      None \<Rightarrow> empty_settings
    | Some r \<Rightarrow> \<lparr>control = None, max_active_jobs = Some (wr_max r), cpu_jobs = wr_cpu r,
        gpu_jobs = wr_gpu r\<rparr>))"

definition get_worker_resume_settings :: "string \<Rightarrow> worker_settings db_op" where
  "get_worker_resume_settings name = statement (readP (\<lambda>s. case settings_row_of s name of
      None \<Rightarrow> empty_settings
    | Some r \<Rightarrow> \<lparr>control = None, max_active_jobs = wr_resume_max r, cpu_jobs = wr_resume_cpu r,
        gpu_jobs = wr_resume_gpu r\<rparr>))"

text \<open>\<open>SetWorkerSettings\<close> after validation: the single form goes to \<open>SetWorkerMaxActiveJobs\<close>, the
  pair form stores the pair and its sum.\<close>

definition store_pair :: "string \<Rightarrow> int \<Rightarrow> int \<Rightarrow> int \<Rightarrow> unit db_op" where
  "store_pair name t c g = upsert_settings
     (\<lambda>r. r\<lparr>wr_max := t, wr_cpu := Some c, wr_gpu := Some g,
        wr_resume_max := (if 0 < t then Some t else wr_resume_max r),
        wr_resume_cpu := (if 0 < t then Some c else wr_resume_cpu r),
        wr_resume_gpu := (if 0 < t then Some g else wr_resume_gpu r)\<rparr>)
     \<lparr>wr_name = name, wr_max = t, wr_cpu = Some c, wr_gpu = Some g,
      wr_resume_max = (if 0 < t then Some t else None),
      wr_resume_cpu = (if 0 < t then Some c else None),
      wr_resume_gpu = (if 0 < t then Some g else None)\<rparr>"

definition set_worker_settings :: "string \<Rightarrow> worker_settings \<Rightarrow> unit db_op" where
  "set_worker_settings name ws =
    (if name = [] then failP WorkerNameRequired
     else (case validate_write ws of
         Inl e \<Rightarrow> failP (InvalidSettings e)
       | Inr _ \<Rightarrow>
         if \<not> independent ws then
           (case max_active_jobs ws of None \<Rightarrow> failP NilDereference
            | Some m \<Rightarrow> set_worker_max_active_jobs name m)
         else (case total_jobs ws of
             Inl e \<Rightarrow> failP (InvalidSettings e)
           | Inr t \<Rightarrow> (case (cpu_jobs ws, gpu_jobs ws) of
               (Some c, Some g) \<Rightarrow> store_pair name t c g
             | _ \<Rightarrow> failP NilDereference))))"

definition get_worker_control :: "string \<Rightarrow> worker_control option db_op" where
  "get_worker_control name =
    statement (readP (\<lambda>s. map_option snd (lookup_row fst name (controls_t s))))"

text \<open>The stored command starts pending with no error; individual actions must carry a job.\<close>

definition set_worker_control :: "string \<Rightarrow> worker_control \<Rightarrow> unit db_op" where
  "set_worker_control name c = statement (\<lambda>s.
     if ctl_action c \<notin> set worker_actions \<or>
        ctl_action c \<in> {''pause-job'', ''resume-job''} \<and> ctl_job_id c = []
     then (Inl CheckViolation, s)
     else (let new = (name, c\<lparr>ctl_state := ''pending'', ctl_error := []\<rparr>)
           in (Inr (), s\<lparr>controls_t := upsert fst (\<lambda>_. new) new (controls_t s)\<rparr>)))"

definition ack_state :: "worker_control_ack \<Rightarrow> string" where
  "ack_state a = (if ack_error a \<noteq> [] then ''failed'' else ''applied'')"

definition ack_worker_control :: "string \<Rightarrow> worker_control_ack \<Rightarrow> unit db_op" where
  "ack_worker_control name a = statement (\<lambda>s.
     case lookup_row fst name (controls_t s) of
       None \<Rightarrow> (Inl ErrElementNotFound, s)
     | Some (_, c) \<Rightarrow>
         if ctl_id c \<noteq> ack_id a then (Inl ErrElementNotFound, s)
         else (let new = (name, c\<lparr>ctl_state := ack_state a, ctl_error := ack_error a\<rparr>)
               in (Inr (), s\<lparr>controls_t := upsert fst (\<lambda>_. new) new (controls_t s)\<rparr>)))"

section \<open>Media metadata\<close>

definition get_media_probe :: "string \<Rightarrow> string \<Rightarrow> int \<Rightarrow> int \<Rightarrow> media_probe option db_op" where
  "get_media_probe rt p sz modified = statement (readP (\<lambda>s. map_option mr_probe
     (find (\<lambda>r. mr_root r = rt \<and> mr_path r = p \<and> mr_size r = sz \<and> mr_modified r = modified)
       (probes_t s))))"

definition put_media_probe :: "string \<Rightarrow> string \<Rightarrow> int \<Rightarrow> int \<Rightarrow> media_probe \<Rightarrow> unit db_op" where
  "put_media_probe rt p sz modified m =
    bindP (liftP (marshal_probe (Some m))) (\<lambda>_. statement (writeP (\<lambda>s.
      let new = \<lparr>mr_root = rt, mr_path = p, mr_size = sz, mr_modified = modified, mr_probe = m\<rparr>
      in s\<lparr>probes_t := upsert (\<lambda>r. (mr_root r, mr_path r)) (\<lambda>_. new) new (probes_t s)\<rparr>)))"

end
