(* ===== verification/Sql_Invariant.thy ===== *)
theory Sql_Invariant
  imports Sql_Repository
begin

text \<open>
  What the database keeps: job identifiers are unique, every event belongs to a job, the events of
  a job carry the identifiers \<open>0, 1, 2, ...\<close> in the order they were accepted, and \<open>job_status\<close>
  holds exactly the last event of each job that has one. Every operation of the repository keeps
  this, wherever a statement fails; a failed transaction leaves the tables untouched. The
  repository is then a \<open>checked_event_log\<close>.
\<close>

section \<open>Statements\<close>

lemma faults_blind [simp]:
  "job_log (s\<lparr>faults := fs\<rparr>) = job_log s"
  "job_row_of (s\<lparr>faults := fs\<rparr>) = job_row_of s"
  "settings_row_of (s\<lparr>faults := fs\<rparr>) = settings_row_of s"
  "joined (s\<lparr>faults := fs\<rparr>) = joined s"
  "queued_rows (s\<lparr>faults := fs\<rparr>) = queued_rows s"
  by (simp_all add: fun_eq_iff job_log_def job_row_of_def settings_row_of_def joined_def
      queued_rows_def)

lemma statement_cases:
  assumes "statement m s = (r, t)"
  obtains (fault) fs where "r = Inl DbFault" and "t = s\<lparr>faults := fs\<rparr>"
  | (run) fs where "m (s\<lparr>faults := fs\<rparr>) = (r, t)"
proof (cases "faults s")
  case Nil
  then have "s\<lparr>faults := []\<rparr> = s" by (cases s) simp
  moreover have "m s = (r, t)" using assms Nil by (simp add: statement_def)
  ultimately show ?thesis by (intro run[of "[]"]) (simp only:)
next
  case (Cons b fs)
  with assms show ?thesis by (cases b) (auto simp: statement_def intro: fault run)
qed

lemma statement_read:
  assumes "statement (readP f) s = (Inr x, t)"
  obtains fs where "t = s\<lparr>faults := fs\<rparr>" "x = f (s\<lparr>faults := fs\<rparr>)"
  using assms by (elim statement_cases) (auto simp: readP_def)

lemma statement_no_faults [simp]: "faults s = [] \<Longrightarrow> statement m s = m s"
  by (simp add: statement_def)

text \<open>A failed transaction has no effect on any table, whatever the function did before the
  failure and whichever statement failed.\<close>

lemma transaction_failed:
  assumes "with_transaction fn s = (Inl e, t)"
  shows "t = s\<lparr>faults := faults t\<rparr>"
  using assms
  by (auto simp: with_transaction_def rollback_to_def retP_def
      split: prod.splits sum.splits elim!: statement_cases)

lemma transaction_committed:
  assumes "with_transaction fn s = (Inr x, t)"
  obtains fs u fs' where "fn (s\<lparr>faults := fs\<rparr>) = (Inr x, u)" "t = u\<lparr>faults := fs'\<rparr>"
  using assms
  by (auto simp: with_transaction_def rollback_to_def retP_def
      split: prod.splits sum.splits elim!: statement_cases)

section \<open>The invariant\<close>

definition ordered_log :: "task_events \<Rightarrow> bool" where
  "ordered_log es \<longleftrightarrow> map event_id es = map int [0..<length es]"

lemma ordered_log_dense: "ordered_log es \<Longrightarrow> dense_log es"
  by (simp add: ordered_log_def dense_log_def)

lemma ordered_log_Nil [simp]: "ordered_log []"
  by (simp add: ordered_log_def)

lemma ordered_log_snoc: "ordered_log (es @ [e]) \<longleftrightarrow> ordered_log es \<and> event_id e = int (length es)"
  by (auto simp: ordered_log_def)

lemma fold_max_Max: "fold max xs (x :: int) = Max (insert x (set xs))"
  using Max.set_eq_fold[of x xs] by simp

lemma max_event_id_dense:
  assumes "dense_log es"
  shows "max_event_id es = int (length es) - 1"
proof (cases es)
  case Nil
  then show ?thesis by (simp add: max_event_id_def)
next
  case (Cons x xs)
  then have "max_event_id es = Max (event_id ` set es)"
    by (simp add: max_event_id_def fold_max_Max)
  also have "\<dots> = Max (int ` {..<length es})" using dense_log_ids(1)[OF assms] by simp
  also have "\<dots> = int (length es) - 1"
    using Cons by (intro Max_eqI) (auto intro!: image_eqI[of _ _ "length es - 1"])
  finally show ?thesis .
qed

definition status_ok :: "sql_db \<Rightarrow> bool" where
  "status_ok s \<longleftrightarrow> distinct (map status_key (status_t s)) \<and>
     (\<forall>j. map_option sr_event (lookup_row status_key j (status_t s)) =
        (if job_log s j = [] then None else Some (last (job_log s j))))"

definition db_inv :: "sql_db \<Rightarrow> bool" where
  "db_inv s \<longleftrightarrow> distinct (map jr_id (jobs_t s)) \<and>
     job_id ` set (events_t s) \<subseteq> jr_id ` set (jobs_t s) \<and>
     (\<forall>j. ordered_log (job_log s j)) \<and> status_ok s \<and>
     distinct (map progress_key (progress_t s)) \<and>
     distinct (map wr_name (settings_t s)) \<and> list_all settings_row_ok (settings_t s)"

lemma db_inv_empty: "db_inv empty_db"
  by (simp add: db_inv_def empty_db_def status_ok_def job_log_def)

lemma db_inv_faults [simp]: "db_inv (s\<lparr>faults := fs\<rparr>) = db_inv s"
  by (simp add: db_inv_def status_ok_def job_log_def)

lemma keeps_statement [keeps_intros]:
  assumes "keeps db_inv m"
  shows "keeps db_inv (statement m)"
proof (rule keepsI)
  fix s r t
  assume "db_inv s" and "statement m s = (r, t)"
  from this(2) \<open>db_inv s\<close> show "db_inv t"
    by (cases rule: statement_cases) (auto intro: keepsD[OF assms, rotated])
qed

lemma keeps_transaction [keeps_intros]:
  assumes "keeps db_inv m"
  shows "keeps db_inv (with_transaction m)"
proof (rule keepsI)
  fix s r t
  assume s: "db_inv s" and t: "with_transaction m s = (r, t)"
  show "db_inv t"
  proof (cases r)
    case (Inl e)
    with transaction_failed t s show ?thesis by (metis db_inv_faults)
  next
    case (Inr x)
    with t obtain fs u fs' where "m (s\<lparr>faults := fs\<rparr>) = (Inr x, u)" "t = u\<lparr>faults := fs'\<rparr>"
      by (metis transaction_committed)
    with keepsD[OF assms, of "s\<lparr>faults := fs\<rparr>"] s show ?thesis by simp
  qed
qed

lemma keeps_write: "(\<And>s. I s \<Longrightarrow> I (f s)) \<Longrightarrow> keeps I (writeP f)"
  by (simp add: keeps_def writeP_def)

section \<open>Appending events\<close>

lemma status_key_store [simp]: "job_id (store_event now e) = job_id e"
  by (simp add: store_event_def)

lemma job_log_insert:
  "events_t t = events_t s @ [e] \<Longrightarrow>
     job_log t j = (if j = job_id e then job_log s j @ [e] else job_log s j)"
  by (auto simp: job_log_def)

lemma trigger_status_simps [simp]:
  "events_t (trigger_status e s) = events_t s" "jobs_t (trigger_status e s) = jobs_t s"
  "progress_t (trigger_status e s) = progress_t s" "settings_t (trigger_status e s) = settings_t s"
  "workers_t (trigger_status e s) = workers_t s" "controls_t (trigger_status e s) = controls_t s"
  "probes_t (trigger_status e s) = probes_t s" "faults (trigger_status e s) = faults s"
  by (simp_all add: trigger_status_def Let_def)

lemma status_t_trigger:
  "lookup_row status_key j (status_t (trigger_status e s)) =
    (if j = job_id e
     then Some \<lparr>sr_event = e, sr_video_path = map_option jr_source_path (job_row_of s (job_id e))\<rparr>
     else lookup_row status_key j (status_t s))"
  by (auto simp: trigger_status_def Let_def lookup_row_upsert status_key_def split: option.splits)

lemma distinct_trigger:
  "distinct (map status_key (status_t s)) \<Longrightarrow> distinct (map status_key (status_t (trigger_status e s)))"
  by (simp add: trigger_status_def Let_def distinct_upsert)

lemma insert_event_Inr:
  assumes "insert_event e s = (Inr (), t)"
  shows "job_row_of s (job_id e) \<noteq> None"
    and "t = trigger_status e (s\<lparr>events_t := events_t s @ [e]\<rparr>)"
  using assms by (auto simp: insert_event_def split: if_splits)

lemma insert_event_Inl: "insert_event e s = (Inl x, t) \<Longrightarrow> t = s"
  by (auto simp: insert_event_def split: if_splits)

lemma insert_event_inv:
  assumes "db_inv s" and "event_id e = int (length (job_log s (job_id e)))"
    and "insert_event e s = (Inr (), t)"
  shows "db_inv t"
proof -
  have jr: "job_row_of s (job_id e) \<noteq> None"
    and t: "t = trigger_status e (s\<lparr>events_t := events_t s @ [e]\<rparr>)"
    using insert_event_Inr[OF assms(3)] by simp_all
  have ev: "events_t t = events_t s @ [e]" using t by simp
  have log: "job_log t j = (if j = job_id e then job_log s j @ [e] else job_log s j)" for j
    by (rule job_log_insert[OF ev])
  have "job_id e \<in> jr_id ` set (jobs_t s)"
    using jr by (simp add: job_row_of_def lookup_row_None)
  moreover have "ordered_log (job_log t j)" for j
    using assms(1,2) by (simp add: log ordered_log_snoc db_inv_def)
  moreover have "status_ok t"
    unfolding status_ok_def
  proof (intro conjI allI)
    show "distinct (map status_key (status_t t))"
      using assms(1) distinct_trigger[of "s\<lparr>events_t := events_t s @ [e]\<rparr>" e]
      by (simp add: t db_inv_def status_ok_def)
    fix j
    have "map_option sr_event (lookup_row status_key j (status_t s)) =
        (if job_log s j = [] then None else Some (last (job_log s j)))"
      using assms(1) unfolding db_inv_def status_ok_def by blast
    then show "map_option sr_event (lookup_row status_key j (status_t t)) =
        (if job_log t j = [] then None else Some (last (job_log t j)))"
      unfolding log by (auto simp: t status_t_trigger split: if_splits)
  qed
  ultimately show ?thesis using assms(1) by (simp add: db_inv_def t)
qed

lemma add_new_task_event_cases:
  assumes "add_new_task_event now e s = (r, t)"
  obtains (failed) x fs where "r = Inl x" "t = s\<lparr>faults := fs\<rparr>"
  | (added) fs where "r = Inr ()" "max_event_id (job_log s (job_id e)) + 1 = event_id e"
      "insert_event (store_event now e) (s\<lparr>faults := fs\<rparr>) = (Inr (), t)"
  using assms unfolding add_new_task_event_def
proof (elim bindP_cases)
  fix x assume "statement (readP (\<lambda>s. max_event_id (job_log s (job_id e)))) s = (Inl x, t)" "r = Inl x"
  then show thesis by (elim statement_cases) (auto simp: readP_def intro: failed)
next
  fix m u
  assume a: "statement (readP (\<lambda>s. max_event_id (job_log s (job_id e)))) s = (Inr m, u)"
    and b: "(if m + 1 \<noteq> event_id e then failP (EventIdMismatch m (event_id e))
      else statement (insert_event (store_event now e))) u = (r, t)"
  from a obtain fs where u: "u = s\<lparr>faults := fs\<rparr>" and m: "m = max_event_id (job_log s (job_id e))"
    by (elim statement_read) simp
  show thesis
  proof (cases "m + 1 = event_id e")
    case False
    with b u show thesis by (auto simp: failP_def intro: failed)
  next
    case True
    with b have "statement (insert_event (store_event now e)) u = (r, t)" by simp
    then show thesis
    proof (cases rule: statement_cases)
      case (fault fs)
      with u show thesis by (auto intro: failed)
    next
      case (run fs)
      show thesis
      proof (cases r)
        case (Inl x)
        with run u insert_event_Inl show thesis by (fastforce intro: failed)
      next
        case (Inr y)
        with run u True m show thesis by (auto intro: added)
      qed
    qed
  qed
qed

interpretation sql: checked_event_log job_log add_new_task_event store_event
proof
  fix now e s t x
  show "add_new_task_event now e s = (Inr (), t) \<Longrightarrow>
      job_log t = (job_log s)(job_id e := job_log s (job_id e) @ [store_event now e])"
  proof -
    assume "add_new_task_event now e s = (Inr (), t)"
    then obtain fs where "insert_event (store_event now e) (s\<lparr>faults := fs\<rparr>) = (Inr (), t)"
      by (elim add_new_task_event_cases) auto
    from insert_event_Inr(2)[OF this] have "events_t t = events_t s @ [store_event now e]" by simp
    from job_log_insert[OF this] show ?thesis by (auto simp: fun_eq_iff)
  qed
  show "add_new_task_event now e s = (Inl x, t) \<Longrightarrow> job_log t = job_log s"
    by (elim add_new_task_event_cases) auto
  show "add_new_task_event now e s = (Inr (), t) \<Longrightarrow> dense_log (job_log s (job_id e)) \<Longrightarrow>
      event_id e = int (length (job_log s (job_id e)))"
    by (elim add_new_task_event_cases) (auto simp: max_event_id_dense)
qed (simp add: store_event_def)

lemma db_inv_dense: "db_inv s \<Longrightarrow> sql.dense_store s"
  by (simp add: db_inv_def sql.dense_store_def ordered_log_dense)

lemma keeps_add_event [keeps_intros]: "keeps db_inv (add_new_task_event now e)"
proof (rule keepsI)
  fix s r t
  assume s: "db_inv s" and a: "add_new_task_event now e s = (r, t)"
  from a show "db_inv t"
  proof (cases rule: add_new_task_event_cases)
    case (failed x fs)
    with s show ?thesis by simp
  next
    case (added fs)
    have "dense_log (job_log s (job_id e))"
      using s by (simp add: db_inv_def ordered_log_dense)
    with added have "event_id e = int (length (job_log s (job_id e)))"
      by (simp add: max_event_id_dense)
    with insert_event_inv[OF _ _ added(3)] s show ?thesis by (simp add: store_event_def)
  qed
qed

text \<open>On the invariant the accepted event is found in \<open>job_status\<close> at once.\<close>

lemma status_after_add:
  assumes "db_inv s" and "add_new_task_event now e s = (Inr (), t)"
  shows "map_option sr_event (lookup_row status_key (job_id e) (status_t t)) = Some (store_event now e)"
proof -
  have "db_inv t" using keepsD[OF keeps_add_event assms] .
  moreover have "job_log t (job_id e) = job_log s (job_id e) @ [store_event now e]"
    using sql.append_ok[OF assms(2)] by simp
  ultimately show ?thesis by (simp add: db_inv_def status_ok_def)
qed

section \<open>The other operations\<close>

lemma keeps_reads [keeps_intros]:
  "keeps db_inv (get_task_events j)" "keeps db_inv (get_job_status j)"
  "keeps db_inv (get_timeout_jobs now d)" "keeps db_inv list_queued_jobs"
  "keeps db_inv get_jobs" "keeps db_inv get_all_progress_jobs"
  "keeps db_inv (get_worker_settings n)" "keeps db_inv (get_worker_resume_settings n)"
  "keeps db_inv (get_worker_control n)" "keeps db_inv (get_worker_max_active_jobs n)"
  "keeps db_inv (get_media_probe a b c d)"
  by (simp_all add: get_task_events_def get_job_status_def get_timeout_jobs_def
      list_queued_jobs_def get_jobs_def get_all_progress_jobs_def get_worker_settings_def
      get_worker_resume_settings_def get_worker_control_def get_worker_max_active_jobs_def
      get_media_probe_def keeps_statement keeps_read)

lemma keeps_fill_job [keeps_intros]: "keeps db_inv (fill_job r)"
  unfolding fill_job_def by (intro keeps_intros)

lemma keeps_get_job [keeps_intros]: "keeps db_inv (get_job j)"
  unfolding get_job_def by (intro keeps_intros)

lemma keeps_get_job_by_path [keeps_intros]: "keeps db_inv (get_job_by_path p)"
  unfolding get_job_by_path_def by (intro keeps_intros)

lemma keeps_load_events [keeps_intros]: "keeps db_inv (load_events js)"
  by (induction js) (auto intro: keeps_intros)

lemma keeps_get_jobs_by_status [keeps_intros]: "keeps db_inv (get_jobs_by_status nt st)"
  unfolding get_jobs_by_status_def by (intro keeps_intros)

lemma keeps_retrieve [keeps_intros]: "keeps db_inv retrieve_queued_job"
  unfolding retrieve_queued_job_def by (intro keeps_intros) (auto split: list.splits intro: keeps_intros)

lemma keeps_get_worker [keeps_intros]: "keeps db_inv (get_worker n)"
  unfolding get_worker_def by (intro keeps_intros)

lemma db_inv_irrelevant [simp]:
  "db_inv (s\<lparr>workers_t := w\<rparr>) = db_inv s" "db_inv (s\<lparr>controls_t := c\<rparr>) = db_inv s"
  "db_inv (s\<lparr>probes_t := p\<rparr>) = db_inv s"
  by (simp_all add: db_inv_def status_ok_def job_log_def)

lemma keeps_ping [keeps_intros]: "keeps db_inv (ping_server_update now a n rt)"
  unfolding ping_server_update_def
  by (intro keeps_statement keeps_write) (simp add: Let_def)

lemma keeps_set_control [keeps_intros]: "keeps db_inv (set_worker_control n c)"
  unfolding set_worker_control_def
  by (intro keeps_statement keepsI) (auto simp: Let_def split: if_splits)

lemma keeps_ack_control [keeps_intros]: "keeps db_inv (ack_worker_control n a)"
  unfolding ack_worker_control_def
  by (intro keeps_statement keepsI)
    (auto simp: Let_def split: if_splits option.splits prod.splits)

lemma keeps_put_probe [keeps_intros]: "keeps db_inv (put_media_probe a b c d m)"
  unfolding put_media_probe_def
  by (intro keeps_intros keeps_write) (simp add: Let_def)

lemma keeps_add_job [keeps_intros]: "keeps db_inv (add_job v)"
proof -
  have "keeps db_inv (\<lambda>s. if job_row_of s (jid v) \<noteq> None then (Inl UniqueViolation, s)
      else (Inr (), s\<lparr>jobs_t := jobs_t s @ [row_of_job v sp tp]\<rparr>))" for sp tp
    by (rule keepsI)
      (auto simp: db_inv_def status_ok_def job_log_def job_row_of_def lookup_row_None row_of_job_def
        split: if_splits)
  then show ?thesis unfolding add_job_def by (intro keeps_intros)
qed

lemma keeps_update_job [keeps_intros]: "keeps db_inv (update_job v)"
proof -
  have "jr_id (if jr_id r = jid v then row_of_job v sp tp else r) = jr_id r" for r sp tp
    by (simp add: row_of_job_def)
  then have "map jr_id (map (\<lambda>r. if jr_id r = jid v then row_of_job v sp tp else r) rs) =
      map jr_id rs" for rs sp tp
    by simp
  moreover from this have "jr_id ` set (map (\<lambda>r. if jr_id r = jid v then row_of_job v sp tp else r) rs) =
      jr_id ` set rs" for rs sp tp
    by (metis list.set_map)
  ultimately have "db_inv s \<Longrightarrow> db_inv (s\<lparr>jobs_t :=
      map (\<lambda>r. if jr_id r = jid v then row_of_job v sp tp else r) (jobs_t s)\<rparr>)" for s sp tp
    by (simp add: db_inv_def status_ok_def job_log_def del: list.map_comp list.set_map map_map set_map)
  then show ?thesis unfolding update_job_def by (intro keeps_intros keeps_write)
qed

lemma keeps_progress [keeps_intros]: "keeps db_inv (progress_job now p)"
proof -
  have "distinct (map progress_key rs) \<Longrightarrow> distinct (map progress_key (upsert progress_key
      (\<lambda>r. r\<lparr>pr_percent := a, pr_eta := b, pr_last_update := c\<rparr>) new rs))" for rs new a b c
    by (rule distinct_upsert) (simp_all add: progress_key_def)
  then show ?thesis unfolding progress_job_def
    by (intro keeps_statement keepsI)
      (auto simp: db_inv_def status_ok_def job_log_def split: if_splits)
qed

lemma keeps_delete_progress [keeps_intros]: "keeps db_inv (delete_progress_job pid nt)"
  unfolding delete_progress_job_def
  by (intro keeps_statement keeps_write)
    (auto simp: db_inv_def status_ok_def job_log_def intro: distinct_map_filter)

lemma keeps_upsert_settings:
  assumes "\<And>r. wr_name (f r) = wr_name r"
  shows "keeps db_inv (upsert_settings f new)"
proof -
  have ok: "list_all settings_row_ok (upsert wr_name f new rs)"
    if "list_all settings_row_ok rs"
      "settings_row_ok (case lookup_row wr_name (wr_name new) rs of None \<Rightarrow> new | Some r \<Rightarrow> f r)" for rs
    using that by (induction rs) (auto split: if_splits)
  have "distinct (map wr_name rs) \<Longrightarrow> distinct (map wr_name (upsert wr_name f new rs))" for rs
    by (rule distinct_upsert) (simp_all add: assms)
  then show ?thesis unfolding upsert_settings_def
    by (intro keeps_statement keepsI)
      (auto simp: db_inv_def status_ok_def job_log_def Let_def settings_row_of_def ok
        split: if_splits)
qed

lemma keeps_set_max [keeps_intros]: "keeps db_inv (set_worker_max_active_jobs n m)"
  unfolding set_worker_max_active_jobs_def
  by (intro keeps_if keeps_fail keeps_upsert_settings) simp

lemma keeps_store_pair [keeps_intros]: "keeps db_inv (store_pair n t c g)"
  unfolding store_pair_def by (intro keeps_upsert_settings) simp

lemma keeps_set_settings [keeps_intros]: "keeps db_inv (set_worker_settings n ws)"
  unfolding set_worker_settings_def by (auto intro!: keeps_intros split: option.splits)

end
