(* ===== verification/File_System.thy ===== *)
theory File_System
  imports Sql_Repository
begin

text \<open>
  The file operations the server performs on its library: a tree of names, each bound to a
  directory or to an inode, so that a hard link gives a second name to the same file
  (\<open>os.Link\<close>, \<open>os.SameFile\<close>). Names are resolved lexically: every operation cleans its path;
  symbolic links are outside the model. \<open>io_faults\<close> says which calls fail for reasons outside the
  program, one entry per call, as for the database.
\<close>

datatype node = Directory | File nat

record file_system =
  names :: "(string \<times> node) list"
  sizes :: "node \<Rightarrow> int"
  modes :: "nat \<Rightarrow> int"
  contents :: "nat \<Rightarrow> string"
  mtimes :: "node \<Rightarrow> int"
  next_inode :: nat
  io_faults :: "bool list"

type_synonym 'a fs_op = "(file_system, server_error, 'a) procedure"

definition node_at :: "file_system \<Rightarrow> string \<Rightarrow> node option" where
  "node_at s p = map_of (names s) (clean_path p)"

definition io_call :: "'a fs_op \<Rightarrow> 'a fs_op" where
  "io_call m = (\<lambda>s. case io_faults s of
      [] \<Rightarrow> m s
    | b # fs \<Rightarrow> if b then (Inl OtherFileError, s\<lparr>io_faults := fs\<rparr>) else m (s\<lparr>io_faults := fs\<rparr>))"

definition os_stat :: "string \<Rightarrow> node fs_op" where
  "os_stat p = io_call (\<lambda>s. case node_at s p of None \<Rightarrow> (Inl FileNotExist, s) | Some n \<Rightarrow> (Inr n, s))"

text \<open>A new name needs its directory; \<open>/\<close> and the working directory always exist.\<close>

definition parent_ok :: "file_system \<Rightarrow> string \<Rightarrow> bool" where
  "parent_ok s p \<longleftrightarrow> (let d = dir_name (clean_path p)
     in d = [sep] \<or> d = dot \<or> node_at s d = Some Directory)"

definition os_link :: "string \<Rightarrow> string \<Rightarrow> unit fs_op" where
  "os_link old new = io_call (\<lambda>s. case node_at s old of
      None \<Rightarrow> (Inl FileNotExist, s)
    | Some Directory \<Rightarrow> (Inl OtherFileError, s)
    | Some (File i) \<Rightarrow>
        if \<not> parent_ok s new then (Inl FileNotExist, s)
        else if node_at s new \<noteq> None then (Inl FileExists, s)
        else (Inr (), s\<lparr>names := (clean_path new, File i) # names s\<rparr>))"

definition dir_empty :: "file_system \<Rightarrow> string \<Rightarrow> bool" where
  "dir_empty s d \<longleftrightarrow> list_all (\<lambda>(p, _). p = d \<or> dir_name p \<noteq> d) (names s)"

text \<open>\<open>os.Remove\<close>: a file, or a directory when it is empty.\<close>

definition os_remove :: "string \<Rightarrow> unit fs_op" where
  "os_remove p = io_call (\<lambda>s. case node_at s p of
      None \<Rightarrow> (Inl FileNotExist, s)
    | Some n \<Rightarrow>
        if n = Directory \<and> \<not> dir_empty s (clean_path p) then (Inl FileExists, s)
        else (Inr (), s\<lparr>names := filter (\<lambda>(q, _). q \<noteq> clean_path p) (names s)\<rparr>))"

definition os_chmod :: "string \<Rightarrow> int \<Rightarrow> unit fs_op" where
  "os_chmod p mode = io_call (\<lambda>s. case node_at s p of
      None \<Rightarrow> (Inl FileNotExist, s)
    | Some Directory \<Rightarrow> (Inr (), s)
    | Some (File i) \<Rightarrow> (Inr (), s\<lparr>modes := (modes s)(i := mode)\<rparr>))"

text \<open>\<open>os.MkdirAll\<close>: the missing directories on the way, from the top; a file in the way fails.\<close>

fun make_dirs :: "bool \<Rightarrow> string list \<Rightarrow> string list \<Rightarrow> unit fs_op" where
  "make_dirs absolute pre [] = retP ()"
| "make_dirs absolute pre (x # xs) = (\<lambda>s.
    let p = render_path absolute (pre @ [x]) in
    case node_at s p of
      Some Directory \<Rightarrow> make_dirs absolute (pre @ [x]) xs s
    | Some (File _) \<Rightarrow> (Inl OtherFileError, s)
    | None \<Rightarrow> make_dirs absolute (pre @ [x]) xs (s\<lparr>names := (clean_path p, Directory) # names s\<rparr>))"

definition os_mkdir_all :: "string \<Rightarrow> unit fs_op" where
  "os_mkdir_all p = io_call (make_dirs (is_abs p) [] (path_parts p))"

text \<open>\<open>OpenFile\<close> with \<open>O_CREATE|O_EXCL\<close>: a new empty file under a name not in use.\<close>

definition os_create_new :: "string \<Rightarrow> int \<Rightarrow> nat fs_op" where
  "os_create_new p mode = io_call (\<lambda>s.
     if \<not> parent_ok s p then (Inl FileNotExist, s)
     else if node_at s p \<noteq> None then (Inl FileExists, s)
     else (let i = next_inode s in (Inr i, s\<lparr>names := (clean_path p, File i) # names s,
        sizes := (sizes s)(File i := 0), modes := (modes s)(i := mode),
        contents := (contents s)(i := []), next_inode := Suc i\<rparr>)))"

text \<open>Reading and writing through an open file.\<close>

definition os_open :: "string \<Rightarrow> node fs_op" where
  "os_open p = os_stat p"

definition os_write :: "nat \<Rightarrow> string \<Rightarrow> unit fs_op" where
  "os_write i bytes = io_call (\<lambda>s. (Inr (), s\<lparr>contents := (contents s)(i := contents s i @ bytes),
     sizes := (sizes s)(File i := sizes s (File i) + int (length bytes))\<rparr>))"

definition os_read :: "node \<Rightarrow> string fs_op" where
  "os_read n = io_call (\<lambda>s. case n of Directory \<Rightarrow> (Inl OtherFileError, s)
     | File i \<Rightarrow> (Inr (contents s i), s))"

text \<open>\<open>Sync\<close> and \<open>Close\<close> only succeed or fail.\<close>

definition os_flush :: "unit fs_op" where
  "os_flush = io_call (retP ())"

definition os_size :: "node \<Rightarrow> int fs_op" where
  "os_size n = readP (\<lambda>s. sizes s n)"

lemma io_call_cases:
  assumes "io_call m s = (r, t)"
  obtains (fault) fs where "r = Inl OtherFileError" and "t = s\<lparr>io_faults := fs\<rparr>"
  | (run) fs where "m (s\<lparr>io_faults := fs\<rparr>) = (r, t)"
proof (cases "io_faults s")
  case Nil
  then have "s\<lparr>io_faults := []\<rparr> = s" by (cases s) simp
  moreover have "m s = (r, t)" using assms Nil by (simp add: io_call_def)
  ultimately show ?thesis by (intro run[of "[]"]) (simp only:)
next
  case (Cons b fs)
  with assms show ?thesis by (cases b) (auto simp: io_call_def intro: fault run)
qed

lemma node_at_faults [simp]: "node_at (s\<lparr>io_faults := fs\<rparr>) = node_at s"
  by (simp add: fun_eq_iff node_at_def)

lemma io_call_no_faults [simp]: "io_faults s = [] \<Longrightarrow> io_call m s = m s"
  by (simp add: io_call_def)

text \<open>A link never changes what an existing name stands for, and fails when the name exists.\<close>

lemma os_link_preserves:
  assumes "os_link old new s = (r, t)" and "node_at s q = Some n"
  shows "node_at t q = Some n"
  using assms unfolding os_link_def
  by (elim io_call_cases)
    (auto simp: node_at_def split: option.splits node.splits if_splits)

lemma os_link_ok:
  assumes "os_link old new s = (Inr (), t)"
  obtains i where "node_at s old = Some (File i)" "node_at s new = None" "node_at t new = Some (File i)"
  using assms unfolding os_link_def
  by (elim io_call_cases) (auto simp: node_at_def split: option.splits node.splits if_splits)

end
