(* ===== verification/Output_Naming.thy ===== *)
theory Output_Naming
  imports File_System
begin

text \<open>
  How the server names files (\<open>server/scheduler/outputNaming.go\<close> and the name patterns of
  \<open>scheduler.go\<close>): codec and audio labels in file names, the staging path of an upload, and
  the reservation of the final output name, which never replaces an existing file. The two
  regular expressions are written out as scans with Go's leftmost-first choice among the
  alternatives; letters and digits are the ASCII ones.
\<close>

named_theorems name_simps \<open>closed evaluation of names\<close>

section \<open>Names\<close>

definition is_alnum :: "char \<Rightarrow> bool" where
  "is_alnum c \<longleftrightarrow> is_digit c \<or> (97 \<le> code (lower_char c) \<and> code (lower_char c) \<le> 122)"

definition video_codec_names :: "string list" where
  "video_codec_names =
    [''x264'', ''h264'', ''x265'', ''h265'', ''hevc'', ''av1'', ''vp8'', ''vp9'', ''mpeg-4'',
     ''mpeg-1'', ''mpeg-2'', ''mpeg'', ''xvid'', ''divx'', ''vc-1'', ''wmv3'', ''mp43'']"

definition audio_codec_names :: "string list" where
  "audio_codec_names =
    [''ac3'', ''eac3'', ''pcm'', ''flac'', ''mp2'', ''dts'', ''mp3'', ''truehd'', ''wma'',
     ''vorbis'', ''opus'', ''mpeg audio'']"

text \<open>The first alternative found at the start of the text, ignoring case.\<close>

definition match_audio :: "string \<Rightarrow> string option" where
  "match_audio s = find (\<lambda>a. has_prefix (to_lower s) a) audio_codec_names"

text \<open>The first alternative found at the start that a boundary follows: the end of the text or a
  character that is neither letter nor digit.\<close>

definition boundary :: "string \<Rightarrow> bool" where
  "boundary s \<longleftrightarrow> (case s of [] \<Rightarrow> True | c # _ \<Rightarrow> \<not> is_alnum c)"

definition match_video :: "string \<Rightarrow> string option" where
  "match_video s =
    find (\<lambda>a. has_prefix (to_lower s) a \<and> boundary (drop (length a) s)) video_codec_names"

text \<open>\<open>ac3ex.ReplaceAllString(s, "AAC")\<close>.\<close>

fun replace_audio :: "string \<Rightarrow> string" where
  "replace_audio [] = []"
| "replace_audio (c # s) = (case match_audio (c # s) of
      Some a \<Rightarrow> ''AAC'' @ replace_audio (drop (length a - 1) s)
    | None \<Rightarrow> c # replace_audio s)"

text \<open>\<open>videoCodecNameEx.ReplaceAllString(s, "${1}" + label + "${3}")\<close>: \<open>start\<close> tells whether
  the scan is at the beginning of the text, where the codec needs no separator before it. The
  separator after a codec is consumed by the match and cannot open the next one.\<close>

function replace_video :: "string \<Rightarrow> bool \<Rightarrow> string \<Rightarrow> string" where
  "replace_video label start s =
    (case (if start then match_video s else None) of
       Some a \<Rightarrow> (if drop (length a) s = [] then label
          else label @ hd (drop (length a) s) # replace_video label False (tl (drop (length a) s)))
     | None \<Rightarrow> (case s of [] \<Rightarrow> []
         | c # r \<Rightarrow> (case (if is_alnum c then None else match_video r) of
             Some a \<Rightarrow> (if drop (length a) r = [] then c # label
                else c # label @ hd (drop (length a) r) #
                  replace_video label False (tl (drop (length a) r)))
           | None \<Rightarrow> c # replace_video label False r)))"
  by pat_completeness auto
termination
  by (relation "measure (\<lambda>(_, _, s). length s)") auto

declare replace_video.simps [simp del]

text \<open>\<open>videoCodecNameEx.MatchString\<close>.\<close>

fun has_video_after :: "string \<Rightarrow> bool" where
  "has_video_after [] = False"
| "has_video_after (c # s) = (\<not> is_alnum c \<and> match_video s \<noteq> None \<or> has_video_after s)"

definition has_video :: "string \<Rightarrow> bool" where
  "has_video s \<longleftrightarrow> match_video s \<noteq> None \<or> has_video_after s"

definition output_codec_label :: "string \<Rightarrow> string" where
  "output_codec_label codec =
    (let c = to_lower codec in
     if c = ''av1'' then ''av1''
     else if c = ''hevc'' \<or> c = ''h265'' then ''x265''
     else if c = ''h264'' \<or> c = ''avc'' then ''x264''
     else c)"

definition output_name_for_codec :: "string \<Rightarrow> string \<Rightarrow> string" where
  "output_name_for_codec src codec =
    (let label = output_codec_label codec;
         (dir, file) = split_file src;
         base = replace_audio (trim_suffix file (file_ext file));
         base' = (if has_video base then replace_video label True base else base @ ''.'' @ label)
     in join_path [dir, base' @ ''.mkv''])"

text \<open>The target name a request is given before the codec is known. \<open>strings.Replace\<close> replaces
  the first occurrence of the extension in the whole path, wherever that is.\<close>

definition format_target_name :: "string \<Rightarrow> string" where
  "format_target_name path =
    (let p = replace_audio (replace_video ''x265'' True path)
     in replace_first p (file_ext p) ''.mkv'')"

section \<open>Staging paths\<close>

definition upload_staging_name :: "uuid \<Rightarrow> string" where
  "upload_staging_name j = j @ ''.upload''"

definition upload_staging_path :: "string \<Rightarrow> string \<Rightarrow> uuid \<Rightarrow> server_error + string" where
  "upload_staging_path rt src j =
    (if \<not> is_local src then Inl NonLocalPath
     else Inr (join_path [dir_name (join_path [rt, src]), ''.transcoderd-upload'',
       upload_staging_name j]))"

definition upload_staging_directory :: "string \<Rightarrow> string" where
  "upload_staging_directory rt = join_path [rt, ''.transcoderd-upload'']"

definition shared_output_file_mode :: int where
  "shared_output_file_mode = 6 * 64 + 6 * 8 + 4"

definition set_shared_output_permissions :: "string \<Rightarrow> unit fs_op" where
  "set_shared_output_permissions p = os_chmod p shared_output_file_mode"

text \<open>\<open>removeUploadStagingFile\<close>: the file, then its directory when that is empty.\<close>

definition remove_upload_staging_file :: "string \<Rightarrow> unit fs_op" where
  "remove_upload_staging_file p =
    bindP (tryP (os_remove p)) (\<lambda>r.
      case r of
        Inl e \<Rightarrow> if e = FileNotExist
          then bindP (tryP (os_remove (dir_name p))) (\<lambda>d. case d of
              Inl f \<Rightarrow> if f = FileNotExist \<or> f = FileExists then retP () else failP f
            | Inr _ \<Rightarrow> retP ())
          else failP e
      | Inr _ \<Rightarrow> bindP (tryP (os_remove (dir_name p))) (\<lambda>d. case d of
          Inl f \<Rightarrow> if f = FileNotExist \<or> f = FileExists then retP () else failP f
        | Inr _ \<Rightarrow> retP ()))"

section \<open>Reserving the output name\<close>

text \<open>\<open>samePath\<close> with the working directory of the process as a parameter.\<close>

definition abs_path :: "string \<Rightarrow> string \<Rightarrow> string" where
  "abs_path cwd p = (if is_abs p then clean_path p else join_path [cwd, p])"

definition same_path :: "string \<Rightarrow> string \<Rightarrow> string \<Rightarrow> bool" where
  "same_path cwd p q \<longleftrightarrow> abs_path cwd p = abs_path cwd q"

definition link_candidate :: "string \<Rightarrow> nat \<Rightarrow> string" where
  "link_candidate desired index =
    (let dir = dir_name desired; ext = file_ext desired;
         base = trim_suffix (base_name desired) ext
     in if index = 0 then desired
        else if index = 1 then join_path [dir, base @ ''_encoded'' @ ext]
        else join_path [dir, base @ ''_encoded-'' @ nat_digits index @ ext])"

text \<open>The loop over the candidates. The source counts up without a bound; here \<open>fuel\<close> bounds the
  number of candidates tried and \<open>None\<close> is running out of it. \<open>link_output_returns\<close> below gives
  the fuel that is always enough.\<close>

fun link_output :: "nat \<Rightarrow> string \<Rightarrow> string \<Rightarrow> string \<Rightarrow> string \<Rightarrow> nat \<Rightarrow> file_system \<Rightarrow>
    ((server_error + string) \<times> file_system) option" where
  "link_output 0 cwd staging desired src index s = None"
| "link_output (Suc fuel) cwd staging desired src index s =
    (let candidate = link_candidate desired index in
     if same_path cwd candidate src
     then link_output fuel cwd staging desired src (Suc index) s
     else (case os_link staging candidate s of
         (Inr _, s1) \<Rightarrow> Some (Inr candidate, s1)
       | (Inl e, s1) \<Rightarrow>
           if e = FileExists
           then (case os_stat staging s1 of (stage, s2) \<Rightarrow>
             case os_stat candidate s2 of (cand, s3) \<Rightarrow>
               (case (stage, cand) of
                  (Inr (File i), Inr (File j)) \<Rightarrow>
                    if i = j then Some (Inr candidate, s3)
                    else link_output fuel cwd staging desired src (Suc index) s3
                | _ \<Rightarrow> link_output fuel cwd staging desired src (Suc index) s3))
           else Some (Inl e, s1)))"

definition link_output_without_overwrite ::
  "nat \<Rightarrow> string \<Rightarrow> string \<Rightarrow> string \<Rightarrow> string \<Rightarrow> file_system \<Rightarrow>
    ((server_error + string) \<times> file_system) option" where
  "link_output_without_overwrite fuel cwd staging desired src s =
    link_output fuel cwd staging desired src 0 s"

section \<open>The reservation never overwrites, and returns\<close>

lemma io_call_read_names:
  "os_stat p s = (r, t) \<Longrightarrow> names t = names s"
  unfolding os_stat_def by (elim io_call_cases) (auto split: option.splits)

lemma os_link_exists_names: "os_link a b s = (Inl e, t) \<Longrightarrow> names t = names s"
  unfolding os_link_def by (elim io_call_cases) (auto split: option.splits node.splits if_splits)

lemma os_link_exists:
  "os_link a b s = (Inl FileExists, t) \<Longrightarrow> node_at s b \<noteq> None"
  unfolding os_link_def by (elim io_call_cases) (auto split: option.splits node.splits if_splits)

lemma names_node_at: "names t = names s \<Longrightarrow> node_at t = node_at s"
  by (simp add: fun_eq_iff node_at_def)

text \<open>One candidate: either it is skipped with the names unchanged, or the loop ends there.\<close>

lemma link_output_step:
  assumes "link_output (Suc fuel) cwd staging desired src index s = z"
  obtains (skip) s' where "link_output fuel cwd staging desired src (Suc index) s' = z"
      "names s' = names s"
      "same_path cwd (link_candidate desired index) src \<or> node_at s (link_candidate desired index) \<noteq> None"
  | (linked) s' where "z = Some (Inr (link_candidate desired index), s')"
      "os_link staging (link_candidate desired index) s = (Inr (), s')"
      "\<not> same_path cwd (link_candidate desired index) src"
  | (already) s' i where "z = Some (Inr (link_candidate desired index), s')" "names s' = names s"
      "node_at s staging = Some (File i)" "node_at s (link_candidate desired index) = Some (File i)"
      "\<not> same_path cwd (link_candidate desired index) src"
  | (failed) e s' where "z = Some (Inl e, s')" "names s' = names s"
proof -
  let ?c = "link_candidate desired index"
  consider (same) "same_path cwd ?c src"
    | (ok) s1 where "\<not> same_path cwd ?c src" "os_link staging ?c s = (Inr (), s1)"
    | (err) e s1 where "\<not> same_path cwd ?c src" "os_link staging ?c s = (Inl e, s1)" "e \<noteq> FileExists"
    | (exists) s1 where "\<not> same_path cwd ?c src" "os_link staging ?c s = (Inl FileExists, s1)"
    by (cases "os_link staging ?c s") (metis (full_types) old.unit.exhaust sum.exhaust)
  then show thesis
  proof cases
    case same
    with assms show thesis by (intro skip[of s]) (auto simp: Let_def)
  next
    case ok
    with assms show thesis by (intro linked[of s1]) (auto simp: Let_def)
  next
    case err
    with assms os_link_exists_names[OF err(2)] show thesis
      by (intro failed[of e s1]) (auto simp: Let_def)
  next
    case exists
    obtain stage s2 where st: "os_stat staging s1 = (stage, s2)" by fastforce
    obtain cand s3 where ca: "os_stat ?c s2 = (cand, s3)" by fastforce
    have n: "names s1 = names s" "names s2 = names s" "names s3 = names s"
      using os_link_exists_names[OF exists(2)] io_call_read_names[OF st] io_call_read_names[OF ca]
      by simp_all
    have ex: "node_at s ?c \<noteq> None" using os_link_exists[OF exists(2)] .
    show thesis
    proof (cases "\<exists>i. stage = Inr (File i) \<and> cand = Inr (File i)")
      case True
      then obtain i where i: "stage = Inr (File i)" "cand = Inr (File i)" by blast
      have "node_at s1 staging = Some (File i)" "node_at s2 ?c = Some (File i)"
        using st ca unfolding i os_stat_def
        by (auto elim!: io_call_cases split: option.splits)
      then have "node_at s staging = Some (File i)" "node_at s ?c = Some (File i)"
        using names_node_at n(1,2) by metis+
      with assms exists st ca i n show thesis
        by (intro already[of s3 i]) (auto simp: Let_def)
    next
      case False
      with assms exists st ca have "link_output fuel cwd staging desired src (Suc index) s3 = z"
        by (auto simp: Let_def split: sum.splits node.splits)
      with n ex show thesis by (intro skip[of s3]) auto
    qed
  qed
qed

text \<open>Every name that existed still stands for the same file.\<close>

lemma link_output_preserves:
  assumes "link_output fuel cwd staging desired src index s = Some (r, t)"
    and "node_at s q = Some n"
  shows "node_at t q = Some n"
  using assms
proof (induction fuel arbitrary: index s)
  case 0
  then show ?case by simp
next
  case (Suc fuel)
  from Suc.prems(1) show ?case
  proof (cases rule: link_output_step)
    case (skip s')
    with Suc show ?thesis by (metis names_node_at)
  next
    case (linked s')
    with Suc.prems show ?thesis by (auto intro: os_link_preserves)
  next
    case (already s' i)
    with Suc.prems names_node_at show ?thesis by (metis Pair_inject option.inject)
  next
    case (failed e s')
    with Suc.prems names_node_at show ?thesis by (metis Pair_inject option.inject)
  qed
qed

text \<open>A successful result names the staged file itself, under a name that is not the source.\<close>

lemma link_output_result:
  assumes "link_output fuel cwd staging desired src index s = Some (Inr p, t)"
  obtains i k where "p = link_candidate desired k" "index \<le> k" "\<not> same_path cwd p src"
    "node_at s staging = Some (File i)" "node_at t p = Some (File i)"
    "node_at s p = None \<or> node_at s p = Some (File i)"
proof -
  have "\<exists>i k. p = link_candidate desired k \<and> index \<le> k \<and> \<not> same_path cwd p src \<and>
    node_at s staging = Some (File i) \<and> node_at t p = Some (File i) \<and>
    (node_at s p = None \<or> node_at s p = Some (File i))"
    using assms
  proof (induction fuel arbitrary: index s)
    case 0
    then show ?case by simp
  next
    case (Suc fuel)
    from Suc.prems show ?case
    proof (cases rule: link_output_step)
      case (skip s')
      from Suc.IH[OF skip(1)] names_node_at[OF skip(2)] show ?thesis
        by (metis Suc_leD)
    next
      case (linked s')
      then have "p = link_candidate desired index" "t = s'" by simp_all
      with linked os_link_ok[OF linked(2)] show ?thesis by (metis le_refl)
    next
      case (already s' i)
      with names_node_at show ?thesis by (metis (no_types, lifting) Inr_inject Pair_inject le_refl option.inject)
    next
      case (failed e s')
      then show ?thesis by simp
    qed
  qed
  with that show thesis by blast
qed

text \<open>Running out of fuel means every candidate tried was taken, or was the source.\<close>

lemma link_output_None:
  assumes "link_output fuel cwd staging desired src index s = None" and "index \<le> k" and "k < index + fuel"
  shows "same_path cwd (link_candidate desired k) src \<or> node_at s (link_candidate desired k) \<noteq> None"
  using assms
proof (induction fuel arbitrary: index s)
  case 0
  then show ?case by simp
next
  case (Suc fuel)
  from Suc.prems(1) show ?case
  proof (cases rule: link_output_step)
    case (skip s')
    show ?thesis
    proof (cases "k = index")
      case True
      with skip show ?thesis by simp
    next
      case False
      with Suc.prems Suc.IH[OF skip(1)] names_node_at[OF skip(2)] show ?thesis by simp
    qed
  qed simp_all
qed

lemma candidate_numbered:
  assumes "is_abs desired" and "base_name desired \<noteq> [sep]" and "2 \<le> k"
  defines "w \<equiv> trim_suffix (base_name desired) (file_ext desired) @ ''_encoded-'' @ nat_digits k @
      file_ext desired"
  shows "plain_part w"
    and "link_candidate desired k = render_path True (path_parts (dir_name desired) @ [w])"
proof -
  have u: "CHR ''_'' \<in> set w" by (simp add: w_def)
  then have "w \<noteq> []" "w \<noteq> dot" "w \<noteq> dotdot" by (auto simp: dot_def dotdot_def)
  moreover have "sep \<notin> set w"
    using base_name_free[OF assms(2)] file_ext_free[of desired] sep_nat_digits[of k]
    by (auto simp: w_def trim_suffix_def sep_def dest: in_set_takeD split: if_splits)
  ultimately show p: "plain_part w" by (simp add: plain_part_def)
  have "is_abs (dir_name desired)"
    using is_abs_dir[OF assms(1)] by (simp add: dir_name_def clean_path_abs)
  from join_plain[OF this p] assms(3)
  show "link_candidate desired k = render_path True (path_parts (dir_name desired) @ [w])"
    by (simp add: link_candidate_def w_def Let_def)
qed

lemma candidate_clean_inj:
  assumes "is_abs desired" and "base_name desired \<noteq> [sep]"
  shows "inj_on (\<lambda>k. clean_path (link_candidate desired k)) {2..<n}"
proof (rule inj_onI)
  fix i j
  assume ij: "i \<in> {2..<n}" "j \<in> {2..<n}"
    and eq: "clean_path (link_candidate desired i) = clean_path (link_candidate desired j)"
  let ?w = "\<lambda>k. trim_suffix (base_name desired) (file_ext desired) @ ''_encoded-'' @ nat_digits k @
      file_ext desired"
  have abs: "is_abs (dir_name desired)"
    using is_abs_dir[OF assms(1)] by (simp add: dir_name_def clean_path_abs)
  have parts: "path_parts (clean_path (link_candidate desired k)) =
      path_parts (dir_name desired) @ [?w k]" if "2 \<le> k" for k
    using candidate_numbered[OF assms that] path_parts_plain[OF abs]
    by (simp add: path_parts_clean path_parts_render)
  from parts[of i] parts[of j] eq ij have "?w i = ?w j" by simp
  then have "nat_digits i = nat_digits j" by simp
  then show "i = j" by (rule nat_digits_inj)
qed

lemma link_output_returns:
  assumes "is_abs desired" and "base_name desired \<noteq> [sep]" and "length (names s) + 3 < fuel"
  shows "link_output fuel cwd staging desired src 0 s \<noteq> None"
proof
  assume none: "link_output fuel cwd staging desired src 0 s = None"
  let ?c = "\<lambda>k. clean_path (link_candidate desired k)"
  let ?B = "insert (abs_path cwd src) (fst ` set (names s))"
  have "?c ` {2..<fuel} \<subseteq> ?B"
  proof
    fix p
    assume "p \<in> ?c ` {2..<fuel}"
    then obtain k where k: "2 \<le> k" "k < fuel" "p = ?c k" by auto
    have "is_abs (link_candidate desired k)"
      using candidate_numbered(2)[OF assms(1,2) k(1)] by simp
    with link_output_None[OF none, of k] k show "p \<in> ?B"
      by (auto simp: same_path_def abs_path_def node_at_def image_iff map_of_eq_None_iff)
  qed
  moreover have "finite ?B" by simp
  ultimately have "card (?c ` {2..<fuel}) \<le> card ?B" by (rule card_mono[rotated])
  moreover have "card (?c ` {2..<fuel}) = fuel - 2"
    using card_image[OF candidate_clean_inj[OF assms(1,2)], of fuel] by simp
  moreover have "card ?B \<le> Suc (length (names s))"
  proof -
    have "card (fst ` set (names s)) \<le> length (names s)"
      by (meson card_image_le card_length finite_set le_trans)
    then show ?thesis by (simp add: card_insert_if)
  qed
  ultimately show False using assms(3) by simp
qed

end
