(* ===== verification/Scheduler.thy ===== *)
theory Scheduler
  imports Sql_Invariant Output_Naming
begin

text \<open>
  The server's scheduler (\<open>server/scheduler/scheduler.go\<close>, \<open>workerControls.go\<close>):
  intake of jobs, assignment to workers, cancellation, and the commands and settings of workers.
  Worker events and publication are in \<open>Publication\<close>, streams and the periodic maintenance in
  \<open>Maintenance\<close>. Each method is a procedure on the database, or on the
  database together with the library's files. The mutexes of the source make every method atomic
  with respect to the methods that share its mutex; the models are those atomic steps. The clock
  readings, fresh identifiers and what \<open>ffprobe\<close> reports are arguments.
\<close>

section \<open>Rescheduling an existing job\<close>

text \<open>\<open>updateJobByRequest\<close>: the events to append, and the job with them appended.\<close>

definition update_job_by_request ::
  "int \<Rightarrow> job \<Rightarrow> job_request \<Rightarrow> server_error + (task_events \<times> job)" where
  "update_job_by_request now v rq =
    (case get_latest_per_notification_type JobNotification (events v) of
       None \<Rightarrow> Inl NoJobStatus
     | Some last_event \<Rightarrow>
         (let st = status last_event in
          if force_assigned rq \<and> (st = Assigned \<or> st = Started) then
            (case add_event now JobNotification Canceled v of (e1, v1) \<Rightarrow>
              case add_event now JobNotification Queued v1 of (e2, v2) \<Rightarrow> Inr ([e1, e2], v2))
          else if force_completed rq \<and> st = Completed \<or> force_failed rq \<and> st = Failed \<or>
                  force_canceled rq \<and> st = Canceled then
            (case add_event now JobNotification Queued v of (e, v') \<Rightarrow> Inr ([e], v'))
          else Inl NotReschedulable))"

section \<open>Intake\<close>

text \<open>\<open>newJob\<close>: the probe of the request, or what \<open>ffprobe\<close> finds (nothing when it fails).\<close>

definition new_job ::
  "int \<Rightarrow> uuid \<Rightarrow> (string \<Rightarrow> media_probe option) \<Rightarrow> string \<Rightarrow> job_request \<Rightarrow> job db_op" where
  "new_job now fresh ffprobe source_root rq =
    (let v = \<lparr>source_path = rq_source_path rq, target_path = rq_target_path rq, jid = fresh,
          events = [], job_status = None, status_phase = None, status_message = [],
          last_update = None, source_size = rq_source_size rq, target_size = 0,
          source_probe = (case rq_source_probe rq of
              None \<Rightarrow> ffprobe (join_path [source_root, rq_source_path rq]) | Some p \<Rightarrow> Some p),
          target_probe = None\<rparr>
     in bindP (add_job v) (\<lambda>_. retP (snd (add_event now JobNotification Queued v))))"

text \<open>The metadata a reviewed request carries replaces the stored one, and forgets the old output.\<close>

definition refresh_probe :: "job_request \<Rightarrow> job \<Rightarrow> job db_op" where
  "refresh_probe rq v =
    (if rq_source_probe rq \<noteq> None
     then (let v' = v\<lparr>source_size := rq_source_size rq, source_probe := rq_source_probe rq,
                target_size := 0, target_probe := None\<rparr>
           in bindP (update_job v') (\<lambda>_. retP v'))
     else retP v)"

definition schedule_tx ::
  "int \<Rightarrow> uuid \<Rightarrow> (string \<Rightarrow> media_probe option) \<Rightarrow> string \<Rightarrow> job_request \<Rightarrow> job db_op" where
  "schedule_tx now fresh ffprobe source_root rq =
    bindP (get_job_by_path (rq_source_path rq)) (\<lambda>found.
      case found of
        None \<Rightarrow>
          bindP (new_job now fresh ffprobe source_root rq) (\<lambda>v.
            bindP (forP (events v) (add_new_task_event now)) (\<lambda>_. retP v))
      | Some v \<Rightarrow>
          bindP (liftP (update_job_by_request now v rq)) (\<lambda>(es, v').
            bindP (refresh_probe rq v') (\<lambda>v''.
              bindP (forP es (add_new_task_event now)) (\<lambda>_. retP v''))))"

definition schedule_job_request ::
  "bool \<Rightarrow> int \<Rightarrow> uuid \<Rightarrow> (string \<Rightarrow> media_probe option) \<Rightarrow> string \<Rightarrow> job_request \<Rightarrow> job db_op" where
  "schedule_job_request cancelled now fresh ffprobe source_root rq =
    (if cancelled then failP ContextDone
     else with_transaction (schedule_tx now fresh ffprobe source_root rq))"

text \<open>The request made for one file of a directory walk. \<open>filepath.Ext(name)[1:]\<close> slices an
  empty string when the name has no extension, which panics (\<open>None\<close>). The reasons a file is
  refused are kept as a list, as the source collects their messages.\<close>

datatype intake_reason = TooSmall | InvalidExtension

definition valid_video_extensions :: "string list" where
  "valid_video_extensions =
    [''mp4'', ''mpg'', ''m4a'', ''m4v'', ''f4v'', ''f4a'', ''m4b'', ''m4r'', ''f4b'', ''mov '',
     ''ogg'', ''oga'', ''ogv'', ''ogx '', ''wmv'', ''wma'', ''asf '', ''webm'', ''avi'', ''flv'',
     ''vob '', ''mkv'']"

definition valid_extension :: "string \<Rightarrow> bool" where
  "valid_extension x \<longleftrightarrow> x \<in> set valid_video_extensions"

definition walk_target :: "string \<Rightarrow> string" where
  "walk_target rel =
    (let t = format_target_name rel
     in if t = rel then replace_first t (file_ext t) ''_encoded.mkv'' else t)"

definition request_for_file ::
  "int \<Rightarrow> job_request \<Rightarrow> string \<Rightarrow> string \<Rightarrow> int \<Rightarrow> (job_request \<times> intake_reason list) option" where
  "request_for_file min_size parent rel name sz =
    (case file_ext name of
       [] \<Rightarrow> None
     | _ # extension \<Rightarrow> Some
         (\<lparr>rq_source_probe = None, rq_source_path = rel,
           force_completed = force_completed parent, force_failed = force_failed parent,
           force_canceled = False, force_assigned = force_assigned parent,
           rq_source_size = sz, rq_target_path = walk_target rel\<rparr>,
          (if sz < min_size then [TooSmall] else []) @
          (if valid_extension extension then [] else [InvalidExtension])))"

record schedule_result =
  scheduled_jobs :: "job list"
  failed_requests :: "(job_request \<times> server_error option) list"
  skipped_files :: "(job_request \<times> server_error) list"

text \<open>The collecting loop of \<open>ScheduleJobRequests\<close>: refused files fail without touching the
  database; a scheduled job is reported without its events. Each file gets its own identifier.\<close>

fun schedule_all ::
  "int \<Rightarrow> (string \<Rightarrow> media_probe option) \<Rightarrow> string \<Rightarrow>
    ((job_request \<times> intake_reason list) \<times> uuid) list \<Rightarrow> schedule_result \<Rightarrow> schedule_result db_op" where
  "schedule_all now ffprobe source_root [] res = retP res"
| "schedule_all now ffprobe source_root (((rq, reasons), fresh) # rest) res =
    (if reasons \<noteq> [] then
       schedule_all now ffprobe source_root rest
         (res\<lparr>failed_requests := failed_requests res @ [(rq, None)]\<rparr>)
     else bindP (tryP (schedule_job_request False now fresh ffprobe source_root rq)) (\<lambda>r.
       schedule_all now ffprobe source_root rest
         (case r of
            Inl e \<Rightarrow> if e = ErrFileSkipped
              then res\<lparr>skipped_files := skipped_files res @ [(rq, e)]\<rparr>
              else res\<lparr>failed_requests := failed_requests res @ [(rq, Some e)]\<rparr>
          | Inr v \<Rightarrow> res\<lparr>scheduled_jobs := scheduled_jobs res @ [v\<lparr>events := []\<rparr>]\<rparr>)))"

section \<open>Assignment and cancellation\<close>

record request_job_response =
  rs_id :: uuid
  rs_event_id :: int
  rs_name :: string

text \<open>The second half of \<open>RequestJob\<close>: the assignment of the job that was found. The pointer
  \<open>AddEvent\<close> returns aliases the last event of the job, so setting its worker changes both.\<close>

definition assign_job :: "int \<Rightarrow> string \<Rightarrow> job \<Rightarrow> request_job_response db_op" where
  "assign_job now worker video =
    (case add_event now JobNotification Assigned video of (e, video') \<Rightarrow>
       let new_event = e\<lparr>worker_name := worker\<rparr>;
           log = butlast (events video') @ [new_event]
       in bindP (add_new_task_event now new_event) (\<lambda>_.
            case fst (get_latest log) of
              None \<Rightarrow> failP NilDereference
            | Some l \<Rightarrow> retP \<lparr>rs_id = jid video', rs_event_id = event_id l,
                rs_name = base_name (source_path video')\<rparr>))"

definition request_job :: "int \<Rightarrow> string \<Rightarrow> request_job_response db_op" where
  "request_job now worker =
    bindP (tryP retrieve_queued_job) (\<lambda>r.
      case r of
        Inl e \<Rightarrow> failP (if e = ErrElementNotFound then ErrNoJobsAvailable else e)
      | Inr video \<Rightarrow> assign_job now worker video)"

text \<open>\<open>CancelJob\<close> as written: after appending the cancellation it falls out of the switch into
  the error for unknown states.\<close>

definition cancel_job :: "int \<Rightarrow> uuid \<Rightarrow> unit db_op" where
  "cancel_job now j =
    bindP (get_job j) (\<lambda>v.
      case get_status (events v) of
        None \<Rightarrow> failP NilDereference
      | Some st \<Rightarrow>
          if st = Completed then failP AlreadyCompleted
          else if st = Failed then failP IsFailed
          else if st = Canceled then failP AlreadyCanceled
          else if st = Assigned \<or> st = Started then
            bindP (add_new_task_event now (fst (add_event_complete now JobNotification Canceled
              ''Job canceled by user'' v))) (\<lambda>_. failP UnknownState)
          else failP UnknownState)"

section \<open>Worker settings and commands\<close>

definition set_worker_settings_checked :: "string \<Rightarrow> worker_settings \<Rightarrow> unit db_op" where
  "set_worker_settings_checked name ws =
    (case validate_write ws of
       Inl _ \<Rightarrow> failP ErrInvalidWorkerSettings
     | Inr _ \<Rightarrow> bindP (tryP (get_worker name)) (\<lambda>r.
         case r of
           Inl e \<Rightarrow> if e = ErrElementNotFound then set_worker_settings name ws else failP e
         | Inr w \<Rightarrow> (case wk_runtime w of
             Some rt \<Rightarrow>
               if rt_managed_profile rt then
                 (let total = (if independent ws
                        then (case total_jobs ws of Inl _ \<Rightarrow> 0 | Inr t \<Rightarrow> t)
                        else (case max_active_jobs ws of None \<Rightarrow> 0 | Some m \<Rightarrow> m));
                      incompatible = (case (cpu_jobs ws, gpu_jobs ws) of
                          (Some c, Some g) \<Rightarrow> rt_encoder rt = ''av1_nvenc'' \<and> 0 < c \<or>
                            rt_encoder rt \<noteq> ''av1_nvenc'' \<and> 0 < g
                        | _ \<Rightarrow> False)
                  in if 64 < total \<or> incompatible then failP ErrInvalidWorkerSettings
                     else set_worker_settings name ws)
               else set_worker_settings name ws
           | None \<Rightarrow> set_worker_settings name ws)))"

text \<open>The settings a later \<open>resume-queue\<close> restores: the stored positive limits, else those of
  the previous command, else what the worker reports.\<close>

definition restore_settings ::
  "worker_settings \<Rightarrow> worker_control option \<Rightarrow> worker_runtime \<Rightarrow> worker_settings" where
  "restore_settings stored previous rt =
    (let r1 = (if max_active_jobs stored = None \<and> \<not> independent stored
               then (case previous of None \<Rightarrow> stored | Some p \<Rightarrow> control_settings p) else stored);
         r2 = (if independent r1 then r1\<lparr>max_active_jobs := None\<rparr> else r1)
     in if max_active_jobs r2 = None \<and> \<not> independent r2 \<and> 0 < wrap64 (rt_cpu_jobs rt + rt_gpu_jobs rt)
        then \<lparr>control = None, max_active_jobs = None, cpu_jobs = Some (rt_cpu_jobs rt),
              gpu_jobs = Some (rt_gpu_jobs rt)\<rparr>
        else r2)"

text \<open>\<open>uuid.Parse\<close> is third-party: \<open>parse\<close> gives the canonical form of an identifier.\<close>

definition control_worker ::
  "(string \<Rightarrow> uuid option) \<Rightarrow> int \<Rightarrow> uuid \<Rightarrow> string \<Rightarrow> string \<Rightarrow> string list \<Rightarrow> worker_control db_op" where
  "control_worker parse now fresh name action job_ids =
    (if \<not> validate_worker_action action then failP ErrInvalidWorkerSettings
     else bindP (tryP (get_worker name)) (\<lambda>r.
       case r of
         Inl _ \<Rightarrow> failP ErrWorkerControlUnavailable
       | Inr w \<Rightarrow>
         (case wk_runtime w of
            None \<Rightarrow> failP ErrWorkerControlUnavailable
          | Some rt \<Rightarrow>
            if 30 * 10 ^ 9 < now - wk_last_seen w \<or> rt_control_version rt < 1 \<or> rt_draining rt \<or>
               (rt_finishing rt \<and> action \<noteq> ''resume-queue'')
            then failP ErrWorkerControlUnavailable
            else if 1 < length job_ids then failP ErrInvalidWorkerSettings
            else
              (let given = (case job_ids of [] \<Rightarrow> [] | x # _ \<Rightarrow> x);
                   individual = (action = ''pause-job'' \<or> action = ''resume-job'');
                   parsed = (if individual then parse given else Some [])
               in case parsed of
                    None \<Rightarrow> failP ErrInvalidWorkerSettings
                  | Some jobid \<Rightarrow>
                    if individual \<and> rt_control_version rt < 2 then failP ErrWorkerControlUnavailable
                    else if individual \<and> \<not> list_ex (\<lambda>j. wj_id j = jobid \<and> wj_phase j = ''FFMPEG'' \<and>
                          wj_can_pause j \<and> (wj_state j = ''running'' \<or> wj_state j = ''paused''))
                        (rt_jobs rt)
                    then failP ErrWorkerControlUnavailable
                    else if \<not> individual \<and> given \<noteq> [] then failP ErrInvalidWorkerSettings
                    else bindP (get_worker_resume_settings name) (\<lambda>stored.
                      bindP (if max_active_jobs stored = None \<and> \<not> independent stored
                             then get_worker_control name else retP None) (\<lambda>previous.
                        let restore = restore_settings stored previous rt
                        in if action = ''resume-queue'' \<and> isl (validate_write restore)
                           then failP ErrWorkerControlUnavailable
                           else (let c = \<lparr>ctl_id = fresh, ctl_job_id = jobid, ctl_action = action,
                                   ctl_state = ''pending'', ctl_error = [],
                                   ctl_cpu_jobs = cpu_jobs restore, ctl_gpu_jobs = gpu_jobs restore,
                                   ctl_max_active_jobs = max_active_jobs restore\<rparr>
                                 in bindP (set_worker_control name c) (\<lambda>_. retP c))))))))"

section \<open>Streams\<close>

definition is_valid_streamable_job :: "uuid \<Rightarrow> string \<Rightarrow> job db_op" where
  "is_valid_streamable_job j worker =
    bindP (get_job j) (\<lambda>v.
      case get_latest_per_notification_type JobNotification (events v) of
        None \<Rightarrow> failP NilDereference
      | Some te \<Rightarrow>
          if status te \<noteq> Started then failP ErrStreamNotAllowed
          else if worker_name te \<noteq> worker then failP ErrStreamNotAllowed
          else retP v)"

end
