(* ===== verification/Go_Float.thy ===== *)
theory Go_Float
  imports Events
begin

text \<open>
  What the program uses of \<open>float64\<close>: reading decimals (\<open>strconv.ParseFloat\<close>) and comparing.
  Finite values are exact rationals, so rounding is outside the model; the special values and
  their comparisons (a NaN compares false with everything) are kept. The hexadecimal form that
  \<open>ParseFloat\<close> also reads is left out.
\<close>

definition scale_ten :: "rat \<Rightarrow> int \<Rightarrow> rat" where
  "scale_ten x e = (if 0 \<le> e then x * 10 ^ nat e else x / 10 ^ nat (- e))"

text \<open>An optional sign, and what follows it.\<close>

definition split_sign :: "string \<Rightarrow> bool \<times> string" where
  "split_sign s = (case s of [] \<Rightarrow> (False, [])
     | c # r \<Rightarrow> if c = CHR ''-'' then (True, r) else if c = CHR ''+'' then (False, r) else (False, s))"

text \<open>The digits before and after the point, and the exponent.\<close>

definition parse_exponent :: "string \<Rightarrow> int option" where
  "parse_exponent s = (case s of
      [] \<Rightarrow> Some 0
    | c # r \<Rightarrow> if lower_char c \<noteq> CHR ''e'' then None
        else (case split_sign r of (neg, ds) \<Rightarrow>
          if ds \<noteq> [] \<and> list_all is_digit ds
          then Some (if neg then - int (digits_value ds) else int (digits_value ds)) else None))"

definition parse_unsigned :: "string \<Rightarrow> rat option" where
  "parse_unsigned s =
    (let whole = takeWhile is_digit s; r = dropWhile is_digit s;
         frac = (case r of c # r' \<Rightarrow> if c = CHR ''.'' then takeWhile is_digit r' else [] | [] \<Rightarrow> []);
         r2 = (case r of c # r' \<Rightarrow> if c = CHR ''.'' then dropWhile is_digit r' else r | [] \<Rightarrow> [])
     in if whole = [] \<and> frac = [] then None
        else map_option (\<lambda>e. scale_ten (rat_of_nat (digits_value (whole @ frac))) (e - int (length frac)))
          (parse_exponent r2))"

definition parse_float :: "string \<Rightarrow> float64 option" where
  "parse_float s = (case split_sign s of (neg, r) \<Rightarrow>
     if to_lower r = ''inf'' \<or> to_lower r = ''infinity'' then Some (if neg then NegInf else PosInf)
     else if to_lower s = ''nan'' then Some NaN
     else map_option (\<lambda>x. Fin (if neg then - x else x)) (parse_unsigned r))"

text \<open>The value \<open>ParseFloat\<close> returns beside an error is 0 for malformed input.\<close>

definition parse_float_or_zero :: "string \<Rightarrow> float64" where
  "parse_float_or_zero s = (case parse_float s of None \<Rightarrow> Fin 0 | Some x \<Rightarrow> x)"

fun float_less :: "float64 \<Rightarrow> float64 \<Rightarrow> bool" where
  "float_less (Fin a) (Fin b) = (a < b)"
| "float_less NegInf (Fin _) = True"
| "float_less NegInf PosInf = True"
| "float_less (Fin _) PosInf = True"
| "float_less _ _ = False"

definition is_nan_or_inf :: "float64 \<Rightarrow> bool" where
  "is_nan_or_inf x \<longleftrightarrow> (case x of Fin _ \<Rightarrow> False | _ \<Rightarrow> True)"

text \<open>Comparison is a strict order on the values other than NaN.\<close>

lemma float_less_irrefl [simp]: "\<not> float_less x x"
  by (cases x) auto

lemma float_less_trans: "float_less x y \<Longrightarrow> float_less y z \<Longrightarrow> float_less x z"
  by (cases x; cases y; cases z) auto

lemma float_less_NaN [simp]: "\<not> float_less x NaN" "\<not> float_less NaN x"
  by (cases x; simp)+

end
