(* ===== verification/Publication.thy ===== *)
theory Publication
  imports Scheduler Go_Float
begin

text \<open>
  The server as a whole: the database together with the library's files and the checksums it
  remembers. Here are the operations that touch the files: uploads and their staging
  (\<open>server/scheduler/streams.go\<close>, \<open>GetUploadJobWriter\<close>), the publication of a finished upload
  (\<open>completeJob\<close>, \<open>outputNaming.go\<close>) and the handling of worker events (\<open>processEvent\<close>). What
  \<open>ffprobe\<close> prints for a file is a function \<open>probe\<close> of its contents; names made unique by the
  runtime (temporary files) are arguments.
\<close>

section \<open>The server\<close>

record server_config =
  cfg_root :: string
  cfg_delete_source :: bool
  cfg_min_size :: int
  cfg_job_timeout :: int
  cfg_cwd :: string

record server =
  sdb :: sql_db
  sfs :: file_system
  checksums :: "(string \<times> string) list"

type_synonym 'a server_op = "(server, server_error, 'a) procedure"

definition on_db :: "'a db_op \<Rightarrow> 'a server_op" where
  "on_db m = (\<lambda>s. case m (sdb s) of (r, d) \<Rightarrow> (r, s\<lparr>sdb := d\<rparr>))"

definition on_fs :: "'a fs_op \<Rightarrow> 'a server_op" where
  "on_fs m = (\<lambda>s. case m (sfs s) of (r, f) \<Rightarrow> (r, s\<lparr>sfs := f\<rparr>))"

section \<open>Probing an output\<close>

record ffprobe_output =
  fo_duration :: string
  fo_streams :: "media_stream list"

text \<open>\<open>probeOutput\<close>: \<open>ffprobe\<close> on the file, then a named video stream must be there.\<close>

definition probe_output :: "(string \<Rightarrow> ffprobe_output option) \<Rightarrow> string \<Rightarrow> ffprobe_output fs_op" where
  "probe_output probe path =
    bindP (tryP (bindP (os_open path) os_read)) (\<lambda>r.
      case r of
        Inl _ \<Rightarrow> failP ProbeFailed
      | Inr bytes \<Rightarrow> (case probe bytes of
          None \<Rightarrow> failP ProbeFailed
        | Some out \<Rightarrow>
            if list_ex (\<lambda>st. codec_type st = ''video'' \<and> codec_name st \<noteq> []) (fo_streams out)
            then retP out else failP NoVideoStream))"

text \<open>The metadata stored for the output leaves the stream indices at zero;
  the codec is that of the first video stream that has one.\<close>

definition output_probe :: "ffprobe_output \<Rightarrow> media_probe" where
  "output_probe out =
    \<lparr>duration_seconds = (if fo_duration out \<noteq> [] then parse_float_or_zero (fo_duration out) else Fin 0),
     streams = map (\<lambda>st. st\<lparr>ms_index := 0\<rparr>) (fo_streams out)\<rparr>"

fun output_codec :: "string \<Rightarrow> media_stream list \<Rightarrow> string" where
  "output_codec codec [] = codec"
| "output_codec codec (st # sts) =
    output_codec (if codec = [] \<and> codec_type st = ''video'' then codec_name st else codec) sts"

section \<open>Migration of legacy staging files\<close>

text \<open>\<open>copyUploadToDestinationFilesystem\<close>; \<open>tmp\<close> is the name \<open>os.CreateTemp\<close> made up.\<close>

definition copy_to_temporary :: "string \<Rightarrow> string \<Rightarrow> string \<Rightarrow> nat \<Rightarrow> unit fs_op" where
  "copy_to_temporary bytes tmp dst i =
    bindP (os_write i bytes) (\<lambda>_. bindP os_flush (\<lambda>_. bindP os_flush (\<lambda>_.
      bindP (tryP (os_link tmp dst)) (\<lambda>l.
        case l of
          Inr _ \<Rightarrow> retP ()
        | Inl e \<Rightarrow> bindP (tryP (os_stat dst)) (\<lambda>st.
            case st of Inr _ \<Rightarrow> retP () | Inl _ \<Rightarrow> failP e)))))"

definition copy_upload :: "string \<Rightarrow> string \<Rightarrow> string \<Rightarrow> unit fs_op" where
  "copy_upload tmp src dst =
    bindP (tryP (os_stat dst)) (\<lambda>st.
      case st of
        Inr _ \<Rightarrow> retP ()
      | Inl e \<Rightarrow> if e \<noteq> FileNotExist then failP e
          else bindP (os_mkdir_all (dir_name dst)) (\<lambda>_.
            bindP (os_open src) (\<lambda>n.
              bindP (os_create_new tmp 384) (\<lambda>i.
                bindP (tryP (bindP (os_read n) (\<lambda>bytes. copy_to_temporary bytes tmp dst i))) (\<lambda>r.
                  bindP (tryP (os_remove tmp)) (\<lambda>_. liftP r))))))"

section \<open>Completing a job\<close>

text \<open>The reservation loop with the fuel that always suffices (see \<open>link_output_returns\<close>).\<close>

definition reserve_output :: "string \<Rightarrow> string \<Rightarrow> string \<Rightarrow> string \<Rightarrow> string fs_op" where
  "reserve_output cwd staging desired src = (\<lambda>s.
    case link_output_without_overwrite (length (names s) + 4) cwd staging desired src s of
      None \<Rightarrow> (Inl OtherFileError, s) | Some z \<Rightarrow> z)"

text \<open>Which file is probed: the staged upload, the legacy staging file after its migration, or, when
  neither is there, the target of an earlier completion.\<close>

definition find_upload :: "string \<Rightarrow> string \<Rightarrow> string \<Rightarrow> string \<Rightarrow> string fs_op" where
  "find_upload tmp staging legacy target =
    bindP (tryP (os_stat staging)) (\<lambda>st.
      case st of
        Inr _ \<Rightarrow> retP staging
      | Inl e \<Rightarrow> if e \<noteq> FileNotExist then failP e
          else bindP (tryP (os_stat legacy)) (\<lambda>lg.
            case lg of
              Inr _ \<Rightarrow> bindP (copy_upload tmp legacy staging) (\<lambda>_. retP staging)
            | Inl f \<Rightarrow> if f = FileNotExist then retP target else failP f))"

definition remove_unless_same :: "string \<Rightarrow> string \<Rightarrow> string \<Rightarrow> unit server_op" where
  "remove_unless_same cwd final probed =
    (if same_path cwd final probed then retP ()
     else bindP (tryP (on_fs (os_remove final))) (\<lambda>_. retP ()))"

text \<open>The last part: the job row takes the new target, and the staging files go. A failure to
  remove them is only logged.\<close>

definition clean_staging :: "string \<Rightarrow> string \<Rightarrow> string \<Rightarrow> unit server_op" where
  "clean_staging cwd final p =
    (if same_path cwd p final then retP ()
     else bindP (tryP (on_fs (remove_upload_staging_file p))) (\<lambda>_. retP ()))"

definition record_output ::
  "server_config \<Rightarrow> job \<Rightarrow> string \<Rightarrow> string \<Rightarrow> string \<Rightarrow> string \<Rightarrow> media_probe \<Rightarrow> unit server_op" where
  "record_output cfg v probed final staging legacy mp =
    (case rel_path (cfg_root cfg) final of
       None \<Rightarrow> bindP (remove_unless_same (cfg_cwd cfg) final probed) (\<lambda>_. failP InvalidPath)
     | Some rel \<Rightarrow>
       bindP (on_fs (bindP (os_stat final) os_size)) (\<lambda>sz.
         bindP (tryP (on_db (update_job (v\<lparr>target_path := rel, target_size := sz,
             target_probe := Some mp\<rparr>)))) (\<lambda>r.
           case r of
             Inl e \<Rightarrow> bindP (remove_unless_same (cfg_cwd cfg) final probed) (\<lambda>_. failP e)
           | Inr _ \<Rightarrow> bindP (clean_staging (cfg_cwd cfg) final staging) (\<lambda>_.
               clean_staging (cfg_cwd cfg) final legacy))))"

definition publish_output ::
  "server_config \<Rightarrow> job \<Rightarrow> ffprobe_output \<Rightarrow> string \<Rightarrow> string \<Rightarrow> string \<Rightarrow> unit server_op" where
  "publish_output cfg v out probed staging legacy =
    (let codec = output_codec [] (fo_streams out);
         desired = join_path [cfg_root cfg, output_name_for_codec (source_path v) codec]
     in if codec = [] then failP NoVideoStream
        else bindP (on_fs (reserve_output (cfg_cwd cfg) probed desired
               (join_path [cfg_root cfg, source_path v]))) (\<lambda>final.
          bindP (on_fs (set_shared_output_permissions final)) (\<lambda>_.
            record_output cfg v probed final staging legacy (output_probe out))))"

definition complete_job ::
  "server_config \<Rightarrow> (string \<Rightarrow> ffprobe_output option) \<Rightarrow> string \<Rightarrow> uuid \<Rightarrow> unit server_op" where
  "complete_job cfg probe tmp j =
    bindP (on_db (get_job j)) (\<lambda>v.
      if \<not> is_local (source_path v) \<or> \<not> is_local (target_path v) then failP NonLocalPath
      else (case upload_staging_path (cfg_root cfg) (source_path v) (jid v) of
          Inl e \<Rightarrow> failP e
        | Inr staging \<Rightarrow>
            (let legacy = join_path [upload_staging_directory (cfg_root cfg), upload_staging_name (jid v)];
                 target = join_path [cfg_root cfg, target_path v]
             in bindP (on_fs (find_upload tmp staging legacy target)) (\<lambda>probed.
                  bindP (on_fs (probe_output probe probed)) (\<lambda>out.
                    publish_output cfg v out probed staging legacy)))))"

section \<open>Worker events\<close>

text \<open>An envelope with its data decoded; \<open>None\<close> when the data does not unmarshal.\<close>

record ping_event =
  pe_worker :: string
  pe_runtime :: "worker_runtime option"

datatype envelope =
  PingEvent string "ping_event option"
| NotificationEvent "task_event option"
| ProgressEvent "task_progress option"
| UnknownEventType

definition already_recorded :: "task_event \<Rightarrow> job \<Rightarrow> bool" where
  "already_recorded e v \<longleftrightarrow> list_ex (\<lambda>x. event_id x = event_id e \<and> is_completed x) (events v)"

definition record_notification :: "int \<Rightarrow> task_event \<Rightarrow> unit db_op" where
  "record_notification now e =
    (if is_completed e
     then bindP (get_job (job_id e)) (\<lambda>v.
            if already_recorded e v then retP () else add_new_task_event now e)
     else add_new_task_event now e)"

definition delete_source :: "server_config \<Rightarrow> task_event \<Rightarrow> unit server_op" where
  "delete_source cfg e =
    (if is_completed e \<and> cfg_delete_source cfg
     then bindP (on_db (get_job (job_id e))) (\<lambda>v.
            bindP (tryP (on_fs (os_remove (join_path [cfg_root cfg, source_path v])))) (\<lambda>r.
              case r of Inr _ \<Rightarrow> retP () | Inl x \<Rightarrow> if x = FileNotExist then retP () else failP x))
     else retP ())"

definition process_event ::
  "server_config \<Rightarrow> (string \<Rightarrow> ffprobe_output option) \<Rightarrow> string \<Rightarrow> int \<Rightarrow> envelope \<Rightarrow> unit server_op" where
  "process_event cfg probe tmp now ev =
    (case ev of
       PingEvent addr None \<Rightarrow> failP MarshalFailure
     | PingEvent addr (Some p) \<Rightarrow> on_db (ping_server_update now addr (pe_worker p) (pe_runtime p))
     | NotificationEvent None \<Rightarrow> failP MarshalFailure
     | NotificationEvent (Some e) \<Rightarrow>
         bindP (if is_completed e then complete_job cfg probe tmp (job_id e) else retP ()) (\<lambda>_.
           bindP (on_db (record_notification now e)) (\<lambda>_. delete_source cfg e))
     | ProgressEvent None \<Rightarrow> failP MarshalFailure
     | ProgressEvent (Some p) \<Rightarrow>
         if pg_status p \<noteq> Progressing then on_db (delete_progress_job (progress_id p) (pg_type p))
         else on_db (progress_job now p)
     | UnknownEventType \<Rightarrow> failP UnknownEvent)"

end
