(* ===== verification/Sql_Reading.thy ===== *)
theory Sql_Reading
  imports Sql_Invariant
begin

text \<open>
  What the queries of the repository return: they change no table, and a job read back carries
  the events of its log (in some order), so that on the invariant its next event identifier is the
  length of the log. The proofs about the scheduler use these facts instead of the queries'
  definitions.
\<close>

named_theorems reads_intros \<open>procedures that change no table\<close>

definition reads_only :: "'a db_op \<Rightarrow> bool" where
  "reads_only m \<longleftrightarrow> (\<forall>s. \<exists>fs. snd (m s) = s\<lparr>faults := fs\<rparr>)"

lemma reads_onlyD:
  assumes "reads_only m" and "m s = (r, t)"
  obtains fs where "t = s\<lparr>faults := fs\<rparr>"
  using assms unfolding reads_only_def by (metis snd_conv)

lemma same_faults [simp]: "\<exists>fs. s = s\<lparr>faults := fs\<rparr>"
  by (rule exI[of _ "faults s"]) simp

lemma reads_onlyI: "(\<And>s r t. m s = (r, t) \<Longrightarrow> \<exists>fs. t = s\<lparr>faults := fs\<rparr>) \<Longrightarrow> reads_only m"
  unfolding reads_only_def by (metis prod.collapse)

lemma reads_ret [reads_intros]: "reads_only (retP x)"
  by (simp add: reads_only_def retP_def)

lemma reads_fail [reads_intros]: "reads_only (failP e)"
  by (simp add: reads_only_def failP_def)

lemma reads_lift [reads_intros]: "reads_only (liftP e)"
  by (simp add: reads_only_def liftP_def)

lemma reads_statement [reads_intros]: "reads_only (statement (readP f))"
  by (rule reads_onlyI) (auto elim!: statement_cases simp: readP_def)

lemma reads_try [reads_intros]: "reads_only m \<Longrightarrow> reads_only (tryP m)"
  by (rule reads_onlyI) (auto simp: tryP_def split: prod.splits elim: reads_onlyD)

lemma reads_bind [reads_intros]:
  assumes "reads_only m" and "\<And>x. reads_only (f x)"
  shows "reads_only (bindP m f)"
proof (rule reads_onlyI)
  fix s r t assume "bindP m f s = (r, t)"
  then show "\<exists>fs. t = s\<lparr>faults := fs\<rparr>"
  proof (cases rule: bindP_cases)
    case (fails e)
    then show ?thesis by (metis reads_onlyD[OF assms(1)])
  next
    case (continues x u)
    from reads_onlyD[OF assms(1) continues(1)] obtain a where u: "u = s\<lparr>faults := a\<rparr>" .
    from reads_onlyD[OF assms(2) continues(2)] obtain b where "t = u\<lparr>faults := b\<rparr>" .
    with u show ?thesis by auto
  qed
qed

lemma reads_option [reads_intros]:
  "reads_only m \<Longrightarrow> (\<And>x. reads_only (f x)) \<Longrightarrow>
     reads_only (case z of None \<Rightarrow> m | Some x \<Rightarrow> f x)"
  by (simp split: option.splits)

lemma reads_list [reads_intros]:
  "reads_only m \<Longrightarrow> (\<And>x xs. reads_only (f x xs)) \<Longrightarrow>
     reads_only (case z of [] \<Rightarrow> m | x # xs \<Rightarrow> f x xs)"
  by (simp split: list.splits)

lemma reads_if [reads_intros]:
  "reads_only m \<Longrightarrow> reads_only n \<Longrightarrow> reads_only (if b then m else n)"
  by simp

lemma reads_fill_job [reads_intros]: "reads_only (fill_job r)"
  unfolding fill_job_def get_task_events_def get_job_status_def by (intro reads_intros)

lemma reads_get_job [reads_intros]: "reads_only (get_job j)"
  unfolding get_job_def by (intro reads_intros)

lemma reads_get_job_by_path [reads_intros]: "reads_only (get_job_by_path p)"
  unfolding get_job_by_path_def by (intro reads_intros)

lemma reads_retrieve [reads_intros]: "reads_only retrieve_queued_job"
  unfolding retrieve_queued_job_def by (intro reads_intros)

lemma reads_get_worker [reads_intros]: "reads_only (get_worker n)"
  unfolding get_worker_def by (intro reads_intros)

section \<open>Jobs read back\<close>

text \<open>\<open>read_of s r v\<close>: the job \<open>v\<close> is the stored row \<open>r\<close> with the events of its log.\<close>

definition read_of :: "sql_db \<Rightarrow> job_row \<Rightarrow> job \<Rightarrow> bool" where
  "read_of s r v \<longleftrightarrow> jid v = jr_id r \<and> mset (events v) = mset (job_log s (jr_id r)) \<and>
     source_path v = jr_source_path r \<and> target_path v = jr_target_path r \<and>
     source_size v = jr_source_size r \<and> source_probe v = jr_source_probe r"

lemma fill_job_read:
  assumes "fill_job r s = (Inr v, t)"
  shows "read_of s r v \<and> (\<exists>fs. t = s\<lparr>faults := fs\<rparr>)"
proof -
  from assms obtain es u st where
    a: "get_task_events (jr_id r) s = (Inr es, u)" and
    v: "v = job_of_row r es st"
    unfolding fill_job_def by (elim bindP_InrE) (auto simp: retP_def)
  from a obtain fs where "es = sort_slice earlier (job_log s (jr_id r))"
    unfolding get_task_events_def by (elim statement_read) simp
  with v have "read_of s r v" by (simp add: read_of_def job_of_row_def)
  with reads_onlyD[OF reads_fill_job assms] show ?thesis by metis
qed

lemma get_job_read:
  assumes "get_job j s = (Inr v, t)"
  obtains r fs where "job_row_of s j = Some r" "read_of s r v" "t = s\<lparr>faults := fs\<rparr>" "jr_id r = j"
proof -
  from assms obtain z u where a: "statement (readP (\<lambda>s. job_row_of s j)) s = (Inr z, u)"
    and b: "(case z of None \<Rightarrow> failP ErrElementNotFound | Some r \<Rightarrow> fill_job r) u = (Inr v, t)"
    unfolding get_job_def by (elim bindP_InrE)
  from a obtain fs where u: "u = s\<lparr>faults := fs\<rparr>" and z: "z = job_row_of s j"
    by (elim statement_read) simp
  from b obtain r where r: "z = Some r" "fill_job r u = (Inr v, t)"
    by (cases z) (simp_all add: failP_def)
  from fill_job_read[OF r(2)] have rd: "read_of s r v" and "\<exists>fs. t = u\<lparr>faults := fs\<rparr>"
    by (simp_all add: u read_of_def)
  moreover have "jr_id r = j" using z r(1) unfolding job_row_of_def by (metis lookup_row_Some)
  ultimately show ?thesis using that[of r] z r(1) u by auto
qed

lemma get_job_by_path_read:
  assumes "get_job_by_path p s = (Inr v, t)"
  obtains (absent) fs where "v = None" "p \<notin> jr_source_path ` set (jobs_t s)" "t = s\<lparr>faults := fs\<rparr>"
  | (found) r w fs where "v = Some w" "r \<in> set (jobs_t s)" "jr_source_path r = p" "read_of s r w"
      "t = s\<lparr>faults := fs\<rparr>"
proof -
  from assms obtain z u where
    a: "statement (readP (\<lambda>s. lookup_row jr_source_path p (jobs_t s))) s = (Inr z, u)"
    and b: "(case z of None \<Rightarrow> retP None | Some r \<Rightarrow> bindP (fill_job r) (\<lambda>j. retP (Some j))) u = (Inr v, t)"
    unfolding get_job_by_path_def by (elim bindP_InrE)
  from a obtain fs where u: "u = s\<lparr>faults := fs\<rparr>" and z: "z = lookup_row jr_source_path p (jobs_t s)"
    by (elim statement_read) simp
  show ?thesis
  proof (cases z)
    case None
    with z have "p \<notin> jr_source_path ` set (jobs_t s)" by (metis lookup_row_None)
    with None b u show ?thesis by (intro absent[of fs]) (simp_all add: retP_def)
  next
    case (Some r)
    with b obtain w where w: "fill_job r u = (Inr w, t)" "v = Some w"
      by (auto elim!: bindP_InrE simp: retP_def)
    from fill_job_read[OF w(1)] obtain fs' where "read_of s r w" "t = s\<lparr>faults := fs'\<rparr>"
      by (auto simp: u read_of_def)
    moreover have "r \<in> set (jobs_t s)" "jr_source_path r = p"
      using z Some lookup_row_Some[of jr_source_path p "jobs_t s" r] by simp_all
    ultimately show ?thesis using w(2) by (intro found)
  qed
qed

text \<open>On the invariant a job read back has a dense log as long as the stored one.\<close>

lemma read_of_dense:
  assumes "db_inv s" and "read_of s r v"
  shows "dense_log (events v)" "length (events v) = length (job_log s (jid v))"
    "set (events v) = set (job_log s (jid v))"
proof -
  have m: "mset (events v) = mset (job_log s (jid v))"
    using assms(2) by (simp add: read_of_def)
  have "dense_log (job_log s (jid v))"
    using db_inv_dense[OF assms(1)] by (simp add: sql.dense_store_def)
  with m show "dense_log (events v)" by (metis dense_log_mset)
  from m show "length (events v) = length (job_log s (jid v))" by (metis size_mset)
  from m show "set (events v) = set (job_log s (jid v))" by (metis set_mset_mset)
qed

text \<open>The latest \<open>Job\<close> event is the same read from the log or from the job: identifiers are
  unique.\<close>

lemma latest_unique:
  assumes "dense_log es" and "mset es = mset es'"
  shows "get_latest_per_notification_type nt es = get_latest_per_notification_type nt es'"
proof -
  have set_eq: "set es = set es'" using assms(2) by (metis set_mset_mset)
  show ?thesis
  proof (cases "get_latest_per_notification_type nt es")
    case None
    then have "get_latest_per_notification_type nt es' = None"
      unfolding latest_per_type_None by (simp add: set_eq)
    with None show ?thesis by simp
  next
    case (Some e)
    note e = latest_per_type_Some[OF Some]
    then obtain e' where e': "get_latest_per_notification_type nt es' = Some e'"
      using latest_per_type_None[of nt es'] set_eq
      by (cases "get_latest_per_notification_type nt es'") auto
    note f = latest_per_type_Some[OF e']
    have "event_id e = event_id e'" using e f set_eq by (intro antisym) auto
    moreover have "inj_on event_id (set es)"
      using dense_log_ids(2)[OF assms(1)] by (simp add: distinct_map)
    ultimately have "e = e'" using e f set_eq by (auto dest: inj_onD)
    with Some e' show ?thesis by simp
  qed
qed

text \<open>The state of a job in the database: the status of its latest \<open>Job\<close> event.\<close>

definition job_state :: "sql_db \<Rightarrow> uuid \<Rightarrow> task_event option" where
  "job_state s j = get_latest_per_notification_type JobNotification (job_log s j)"

lemma job_state_faults [simp]: "job_state (s\<lparr>faults := fs\<rparr>) = job_state s"
  by (simp add: job_state_def fun_eq_iff)

lemma read_of_state:
  assumes "db_inv s" and "read_of s r v"
  shows "get_latest_per_notification_type JobNotification (events v) = job_state s (jid v)"
  unfolding job_state_def
  using latest_unique[OF read_of_dense(1)[OF assms]] assms(2) by (simp add: read_of_def)

end
