(* ===== verification/Scheduler_Correct.thy ===== *)
theory Scheduler_Correct
  imports Scheduler Sql_Reading
begin

text \<open>
  Correctness of the scheduler's database side: intake is all or nothing and leaves the job queued,
  an assignment takes the oldest queued job and records exactly one \<open>assigned\<close> event with the
  identifier the worker is told, a job is never handed out twice, and every operation keeps the
  database invariant.
\<close>

section \<open>Queued jobs\<close>

lemma last_is_latest:
  assumes "ordered_log es" and "es \<noteq> []" and "notification_type (last es) = nt"
  shows "get_latest_per_notification_type nt es = Some (last es)"
proof -
  have d: "dense_log es" using ordered_log_dense[OF assms(1)] .
  have id: "event_id (last es) = int (length es) - 1"
  proof -
    have "event_id (last es) = last (map event_id es)" using assms(2) by (simp add: last_map)
    also have "\<dots> = last (map int [0..<length es])" using assms(1) by (simp add: ordered_log_def)
    also have "\<dots> = int (length es) - 1" using assms(2) by (cases es) (auto simp: last_map)
    finally show ?thesis .
  qed
  have mem: "last es \<in> set es" using assms(2) by simp
  have "get_latest_per_notification_type nt es \<noteq> None"
    unfolding latest_per_type_None using mem assms(2,3) id by (cases es) force+
  then obtain x where x: "get_latest_per_notification_type nt es = Some x" by blast
  note p = latest_per_type_Some[OF x]
  then have "event_id (last es) \<le> event_id x" using mem assms(3) by blast
  moreover have "event_id x < int (length es)" using dense_log_less[OF d] p by blast
  ultimately have "event_id x = event_id (last es)" using id by simp
  moreover have "inj_on event_id (set es)" using dense_log_ids(2)[OF d] by (simp add: distinct_map)
  ultimately have "x = last es" using p mem by (auto dest: inj_onD)
  with x show ?thesis by simp
qed

text \<open>A row of \<open>job_status\<close> is the last event of its job.\<close>

lemma status_row_last:
  assumes "db_inv s" and "q \<in> set (status_t s)"
  shows "job_log s (job_id (sr_event q)) \<noteq> []" "sr_event q = last (job_log s (job_id (sr_event q)))"
proof -
  let ?j = "job_id (sr_event q)"
  have d: "distinct (map status_key (status_t s))"
    and l: "map_option sr_event (lookup_row status_key ?j (status_t s)) =
      (if job_log s ?j = [] then None else Some (last (job_log s ?j)))"
    using assms(1) unfolding db_inv_def status_ok_def by blast+
  have "lookup_row status_key (status_key q) (status_t s) = Some q"
    using lookup_row_distinct[OF d assms(2)] .
  with l show "job_log s ?j \<noteq> []" "sr_event q = last (job_log s ?j)"
    by (auto simp: status_key_def split: if_splits)
qed


text \<open>What \<open>RetrieveQueuedJob\<close> finds: a job whose last event is the oldest queued one.\<close>

lemma retrieve_read:
  assumes "db_inv s" and "retrieve_queued_job s = (Inr v, t)"
  obtains r fs where "job_row_of s (jid v) = Some r" "read_of s r v" "t = s\<lparr>faults := fs\<rparr>"
    "job_log s (jid v) \<noteq> []" "last (job_log s (jid v)) \<in> set (queued_rows s)"
    "\<forall>x\<in>set (queued_rows s). event_time (last (job_log s (jid v))) \<le> event_time x"
    "job_state s (jid v) = Some (last (job_log s (jid v)))"
proof -
  from assms(2) obtain es u where a: "statement (readP queued_rows) s = (Inr es, u)"
    and b: "(case es of [] \<Rightarrow> failP ErrElementNotFound | e # _ \<Rightarrow> get_job (job_id e)) u = (Inr v, t)"
    unfolding retrieve_queued_job_def by (elim bindP_InrE)
  from a obtain fs where u: "u = s\<lparr>faults := fs\<rparr>" and es: "es = queued_rows s"
    by (elim statement_read) simp
  from b obtain e rest where e: "es = e # rest" and g: "get_job (job_id e) u = (Inr v, t)"
    by (cases es) (simp_all add: failP_def)
  from get_job_read[OF g] obtain r fs' where r: "job_row_of u (job_id e) = Some r" "read_of u r v"
    "t = u\<lparr>faults := fs'\<rparr>" "jr_id r = job_id e" .
  then have j: "jid v = job_id e" by (simp add: read_of_def)
  have "e \<in> set (queued_rows s)" using es e by (metis list.set_intros(1))
  then obtain q where q: "q \<in> set (status_t s)" "sr_event q = e" and
    st: "notification_type e = JobNotification" "status e = Queued"
    by (auto simp: queued_rows_def)
  note last = status_row_last[OF assms(1) q(1), unfolded q(2)]
  have "sorted_wrt (\<lambda>x y. \<not> earlier y x) es"
    using less_key.sorted_sort_slice[of event_time] es
    unfolding queued_rows_def earlier_def by blast
  then have "\<forall>x\<in>set (queued_rows s). event_time e \<le> event_time x"
    unfolding es[symmetric] e by (auto simp: earlier_def)
  moreover have "job_state s (job_id e) = Some (last (job_log s (job_id e)))"
    unfolding job_state_def using last assms(1) st(1)
    by (intro last_is_latest) (auto simp: db_inv_def)
  ultimately show ?thesis
    using that[of r fs'] r u j last \<open>e \<in> set (queued_rows s)\<close> by (simp add: read_of_def)
qed

section \<open>Assignment\<close>

text \<open>No log has reached the largest identifier: the bound under which \<open>EventID + 1\<close> does not wrap.\<close>

definition short_logs :: "sql_db \<Rightarrow> bool" where
  "short_logs s \<longleftrightarrow> (\<forall>j. int (length (job_log s j)) < go_max_int)"

lemma append_log:
  assumes "add_new_task_event now e s = (Inr (), t)"
  shows "job_log t = (job_log s)(job_id e := job_log s (job_id e) @ [store_event now e])"
  using sql.append_ok[OF assms] .

text \<open>The event a job's methods add is the one the repository accepts next.\<close>

lemma add_event_read:
  assumes "db_inv s" and "read_of s r v" and "short_logs s"
  obtains e v' where "add_event_complete now nt st msg v = (e, v')"
    "event_id e = int (length (job_log s (jid v)))" "job_id e = jid v" "notification_type e = nt"
    "status e = st" "message e = msg" "worker_name e = []"
    "dense_log (events v')" "v' = v\<lparr>events := events v'\<rparr>" "last (events v') = e"
    "events v' \<noteq> []" "mset (events v') = add_mset e (mset (events v))"
proof -
  note d = read_of_dense[OF assms(1,2)]
  have "int (length (events v)) \<le> go_max_int"
    using assms(3) d(2) by (simp add: short_logs_def less_imp_le)
  from add_event_complete_props[OF d(1) this, of now nt st msg] obtain e v' where
    e: "add_event_complete now nt st msg v = (e, v')"
    "event_id e = int (length (events v))" "job_id e = jid v" "notification_type e = nt"
    "status e = st" "message e = msg" "event_time e = now" "worker_name e = []"
    "mset (events v') = add_mset e (mset (events v))" "dense_log (events v')"
    "v' = v\<lparr>events := events v'\<rparr>" "last (events v') = e" "events v' \<noteq> []" .
  show ?thesis by (rule that[OF e(1) _ e(3-6,8,10-13,9)]) (simp add: e(2) d(2))
qed

lemma assign_job_effect:
  assumes "db_inv s" and "short_logs s" and "read_of s r v" and "assign_job now w v s = (Inr a, t)"
  obtains e where
    "job_log t = (job_log s)(jid v := job_log s (jid v) @ [e])" "rs_id a = jid v"
    "event_id e = rs_event_id a" "rs_event_id a = int (length (job_log s (jid v)))"
    "notification_type e = JobNotification" "status e = Assigned" "worker_name e = w"
    "job_id e = jid v" "rs_name a = base_name (source_path v)"
proof -
  from add_event_read[OF assms(1,3,2), of now JobNotification Assigned "[]"]
  obtain e v' where e: "add_event now JobNotification Assigned v = (e, v')"
    "event_id e = int (length (job_log s (jid v)))" "job_id e = jid v"
    "notification_type e = JobNotification" "status e = Assigned" "dense_log (events v')"
    "v' = v\<lparr>events := events v'\<rparr>" "last (events v') = e" "events v' \<noteq> []"
    "mset (events v') = add_mset e (mset (events v))"
    unfolding add_event_def by metis
  let ?n = "e\<lparr>worker_name := w\<rparr>" and ?l = "butlast (events v') @ [e\<lparr>worker_name := w\<rparr>]"
  have same: "jid v' = jid v" "source_path v' = source_path v"
    using e(7) by (metis job.select_convs job.surjective job.update_convs(4))+
  have run: "bindP (add_new_task_event now ?n) (\<lambda>_. case fst (get_latest ?l) of
      None \<Rightarrow> failP NilDereference | Some l \<Rightarrow> retP \<lparr>rs_id = jid v', rs_event_id = event_id l,
        rs_name = base_name (source_path v')\<rparr>) s = (Inr a, t)"
    using assms(4) e(1) by (simp add: assign_job_def Let_def)
  have ids: "map event_id ?l = map event_id (events v')"
  proof -
    have "map event_id ?l = map event_id (butlast (events v') @ [last (events v')])"
      by (simp add: e(8))
    also have "\<dots> = map event_id (events v')" using e(9) by simp
    finally show ?thesis .
  qed
  have len: "length ?l = Suc (length (job_log s (jid v)))"
    using arg_cong[OF ids, of length] arg_cong[OF e(10), of size] read_of_dense(2)[OF assms(1,3)]
    by simp
  have "dense_log ?l" using e(6) dense_log_map[OF ids] by simp
  then obtain l es' where l: "get_latest ?l = (Some l, es')" "event_id l = int (length ?l) - 1"
    using dense_log_latest by (metis append_is_Nil_conv not_Cons_self)
  from run obtain y where y: "add_new_task_event now ?n s = (Inr (), y)" and
    "t = y \<and> a = \<lparr>rs_id = jid v', rs_event_id = event_id l, rs_name = base_name (source_path v')\<rparr>"
    by (elim bindP_InrE) (simp add: l(1) retP_def)
  then have a: "t = y" "rs_id a = jid v" "rs_event_id a = int (length (job_log s (jid v)))"
    "rs_name a = base_name (source_path v)"
    using l(2) len same by (auto simp: retP_def)
  show ?thesis
    by (rule that[of "store_event now ?n"])
      (use append_log[OF y] a e in \<open>simp_all add: store_event_def\<close>)
qed

lemma short_logs_faults [simp]: "short_logs (s\<lparr>faults := fs\<rparr>) = short_logs s"
  by (simp add: short_logs_def)

lemma read_of_faults [simp]: "read_of (s\<lparr>faults := fs\<rparr>) = read_of s"
  by (simp add: read_of_def fun_eq_iff)

lemma request_job_effect:
  assumes "db_inv s" and "short_logs s" and "request_job now w s = (Inr a, t)"
  obtains e where
    "job_log t = (job_log s)(rs_id a := job_log s (rs_id a) @ [e])"
    "event_id e = rs_event_id a" "rs_event_id a = int (length (job_log s (rs_id a)))"
    "notification_type e = JobNotification" "status e = Assigned" "worker_name e = w"
    "job_id e = rs_id a" "last (job_log s (rs_id a)) \<in> set (queued_rows s)"
    "\<forall>x\<in>set (queued_rows s). event_time (last (job_log s (rs_id a))) \<le> event_time x"
    "job_state s (rs_id a) = Some (last (job_log s (rs_id a)))"
proof -
  from assms(3) obtain z u where
    z: "tryP retrieve_queued_job s = ((Inr z, u) :: (server_error + _) \<times> _)" and c: "(case z of Inl e \<Rightarrow> failP (if e = ErrElementNotFound then ErrNoJobsAvailable else e)
      | Inr video \<Rightarrow> assign_job now w video) u = (Inr a, t)"
    unfolding request_job_def by (elim bindP_InrE) blast
  from c obtain v where v: "z = Inr v" "assign_job now w v u = (Inr a, t)"
    by (cases z) (simp_all add: failP_def)
  with z have rv: "retrieve_queued_job s = (Inr v, u)" by (simp add: tryP_def split: prod.splits)
  from retrieve_read[OF assms(1) rv] obtain r fs where r: "read_of s r v" "u = s\<lparr>faults := fs\<rparr>"
    "last (job_log s (jid v)) \<in> set (queued_rows s)"
    "\<forall>x\<in>set (queued_rows s). event_time (last (job_log s (jid v))) \<le> event_time x"
    "job_state s (jid v) = Some (last (job_log s (jid v)))" .
  have "db_inv u" "short_logs u" "read_of u r v" using assms(1,2) r(1,2) by simp_all
  from assign_job_effect[OF this v(2)] show ?thesis
    using that r by (metis (no_types, lifting) faults_blind(1))
qed

section \<open>Intake\<close>

lemma add_job_log: "add_job v s = (r, t) \<Longrightarrow> job_log t = job_log s"
  unfolding add_job_def
  by (auto simp: liftP_def job_log_def fun_eq_iff elim!: bindP_cases statement_cases split: if_splits)

lemma update_job_log: "update_job v s = (r, t) \<Longrightarrow> job_log t = job_log s"
  unfolding update_job_def
  by (auto simp: liftP_def writeP_def job_log_def fun_eq_iff elim!: bindP_cases statement_cases)

lemma add_events_log:
  assumes "forP es (add_new_task_event now) s = (Inr (), t)" and "\<forall>e\<in>set es. job_id e = j"
  shows "job_log t = (job_log s)(j := job_log s j @ map (store_event now) es)"
  using assms
proof (induction es arbitrary: s)
  case Nil
  then show ?case by (simp add: retP_def)
next
  case (Cons e es)
  then obtain u where u: "add_new_task_event now e s = (Inr (), u)"
    and r: "forP es (add_new_task_event now) u = (Inr (), t)"
    by (auto elim!: bindP_InrE)
  from Cons.IH[OF r] Cons.prems(2) append_log[OF u] show ?case by auto
qed

text \<open>The last of the appended events decides the state of the job.\<close>

lemma add_events_state:
  assumes "forP es (add_new_task_event now) s = (Inr (), t)" and "db_inv s" and "es \<noteq> []"
    and "\<forall>e\<in>set es. job_id e = j \<and> notification_type e = JobNotification"
  shows "job_state t j = Some (store_event now (last es))"
  using assms
proof (induction es arbitrary: s)
  case Nil
  then show ?case by simp
next
  case (Cons e es)
  then obtain u where u: "add_new_task_event now e s = (Inr (), u)"
    and r: "forP es (add_new_task_event now) u = (Inr (), t)"
    by (auto elim!: bindP_InrE)
  have inv: "db_inv u" using keepsD[OF keeps_add_event Cons.prems(2) u] .
  show ?case
  proof (cases "es = []")
    case True
    with r have "t = u" by (simp add: retP_def)
    with sql.append_decides_state[OF db_inv_dense[OF Cons.prems(2)] u] Cons.prems(4) True
    show ?thesis by (simp add: job_state_def)
  next
    case False
    with Cons.IH[OF r inv] Cons.prems(4) show ?thesis by simp
  qed
qed

definition reschedulable :: "job_request \<Rightarrow> notification_status \<Rightarrow> bool" where
  "reschedulable rq st \<longleftrightarrow> force_completed rq \<and> st = Completed \<or> force_failed rq \<and> st = Failed \<or>
     force_canceled rq \<and> st = Canceled"

lemma add_event_fields:
  assumes "add_event now nt st v = (e, v')"
  shows "job_id e = jid v \<and> notification_type e = nt \<and> status e = st \<and> event_time e = now \<and>
    jid v' = jid v \<and> message e = []"
  using assms by (auto simp: add_event_def add_event_complete_def Let_def split: prod.splits)

lemma update_by_request_events:
  assumes "update_job_by_request now v rq = Inr (es, v')"
  obtains l where "get_latest_per_notification_type JobNotification (events v) = Some l"
    "jid v' = jid v" "\<forall>e\<in>set es. job_id e = jid v \<and> notification_type e = JobNotification"
    "force_assigned rq \<and> status l \<in> {Assigned, Started} \<and> map status es = [Canceled, Queued] \<or>
     reschedulable rq (status l) \<and> map status es = [Queued]"
  using assms unfolding update_job_by_request_def
  by (auto simp: Let_def reschedulable_def dest!: add_event_fields
      split: option.splits if_splits prod.splits)

text \<open>What a committed intake did: one job's log grew, and only by the events the request allows.\<close>

definition intake_effect :: "job_request \<Rightarrow> sql_db \<Rightarrow> uuid \<Rightarrow> task_events \<Rightarrow> bool" where
  "intake_effect rq s j es \<longleftrightarrow>
     rq_source_path rq \<notin> jr_source_path ` set (jobs_t s) \<and> map status es = [Queued] \<or>
     (\<exists>r\<in>set (jobs_t s). jr_id r = j \<and> jr_source_path r = rq_source_path rq) \<and>
     (\<exists>l. job_state s j = Some l \<and>
       (force_assigned rq \<and> status l \<in> {Assigned, Started} \<and> map status es = [Canceled, Queued] \<or>
        reschedulable rq (status l) \<and> map status es = [Queued]))"

lemma new_job_events:
  assumes "new_job now fresh ffprobe rt rq s = (Inr v, t)"
  shows "\<exists>e. events v = [e] \<and> job_id e = fresh \<and> jid v = fresh \<and> notification_type e = JobNotification \<and>
    status e = Queued \<and> job_log t = job_log s"
  using assms unfolding new_job_def Let_def
  by (auto elim!: bindP_InrE dest: add_job_log
      simp: retP_def add_event_def add_event_complete_def Let_def)

lemma keeps_new_job [keeps_intros]: "keeps db_inv (new_job now fresh ffprobe rt rq)"
  unfolding new_job_def Let_def by (intro keeps_intros)

lemma keeps_refresh_probe [keeps_intros]: "keeps db_inv (refresh_probe rq v)"
  unfolding refresh_probe_def Let_def by (intro keeps_intros)

lemma refresh_probe_frame:
  "refresh_probe rq v s = (Inr v', t) \<Longrightarrow> jid v' = jid v \<and> job_log t = job_log s"
  by (auto simp: refresh_probe_def Let_def retP_def elim!: bindP_InrE dest: update_job_log
      split: if_splits)

lemma schedule_tx_effect:
  assumes "db_inv s" and "schedule_tx now fresh ffprobe rt rq s = (Inr v, t)"
  obtains es where "job_log t = (job_log s)(jid v := job_log s (jid v) @ es)"
    "intake_effect rq s (jid v) es" "job_state t (jid v) = Some (last es)" "es \<noteq> []"
proof -
  from assms(2) obtain found u where f: "get_job_by_path (rq_source_path rq) s = (Inr found, u)"
    and c: "(case found of
        None \<Rightarrow> bindP (new_job now fresh ffprobe rt rq) (\<lambda>v.
            bindP (forP (events v) (add_new_task_event now)) (\<lambda>_. retP v))
      | Some v \<Rightarrow> bindP (liftP (update_job_by_request now v rq)) (\<lambda>(es, v').
            bindP (refresh_probe rq v') (\<lambda>v''.
              bindP (forP es (add_new_task_event now)) (\<lambda>_. retP v'')))) u = (Inr v, t)"
    unfolding schedule_tx_def by (elim bindP_InrE) blast
  from f show ?thesis
  proof (cases rule: get_job_by_path_read)
    case (absent fs)
    with c obtain w where n: "new_job now fresh ffprobe rt rq u = (Inr v, w)"
      and a: "forP (events v) (add_new_task_event now) w = (Inr (), t)"
      by (auto elim!: bindP_InrE simp: retP_def)
    from new_job_events[OF n] obtain e where e: "events v = [e]" "job_id e = jid v"
      "notification_type e = JobNotification" "status e = Queued" "job_log w = job_log u" by auto
    have u: "db_inv u" using absent(3) assms(1) by simp
    have w: "db_inv w" using keepsD[of db_inv, OF keeps_new_job u n] .
    show ?thesis
      by (rule that[of "map (store_event now) (events v)"])
        (use add_events_log[OF a, of "jid v"] add_events_state[OF a w, of "jid v"] e absent(2,3) in
          \<open>simp_all add: intake_effect_def store_event_def\<close>)
  next
    case (found r v0 fs)
    with c obtain es v1 w where up: "update_job_by_request now v0 rq = Inr (es, v1)"
      and rp: "refresh_probe rq v1 u = (Inr v, w)"
      and a: "forP es (add_new_task_event now) w = (Inr (), t)"
      by (auto elim!: bindP_InrE simp: retP_def liftP_def)
    note vw = refresh_probe_frame[OF rp]
    from update_by_request_events[OF up] obtain l where l:
      "get_latest_per_notification_type JobNotification (events v0) = Some l" "jid v1 = jid v0"
      "\<forall>e\<in>set es. job_id e = jid v0 \<and> notification_type e = JobNotification"
      "force_assigned rq \<and> status l \<in> {Assigned, Started} \<and> map status es = [Canceled, Queued] \<or>
       reschedulable rq (status l) \<and> map status es = [Queued]" .
    have iw: "db_inv w" using keepsD[of db_inv, OF keeps_refresh_probe _ rp] found(5) assms(1) by simp
    have st: "job_state s (jid v0) = Some l" using read_of_state[OF assms(1) found(4)] l(1) by simp
    have st_map: "map status (map (store_event now) es) = map status es" by (simp add: store_event_def)
    have ne: "es \<noteq> []" using l(4) by auto
    have "jr_id r = jid v0" using found(4) by (simp add: read_of_def)
    then have "intake_effect rq s (jid v) (map (store_event now) es)"
      unfolding intake_effect_def st_map using l(2,4) st vw found(2,3) by auto
    with add_events_log[OF a, of "jid v0"] add_events_state[OF a iw ne, of "jid v0"] l(2,3) vw ne found(5)
    show ?thesis by (intro that[of "map (store_event now) es"]) (simp_all add: last_map)
  qed
qed

section \<open>Operations keep the database invariant\<close>

lemma schedule_effect:
  assumes "db_inv s" and "schedule_job_request c now fresh ffprobe rt rq s = (Inr v, t)"
  shows "\<exists>es. job_log t = (job_log s)(jid v := job_log s (jid v) @ es) \<and>
    intake_effect rq s (jid v) es \<and> map_option status (job_state t (jid v)) = Some Queued"
proof -
  from assms(2) have "with_transaction (schedule_tx now fresh ffprobe rt rq) s = (Inr v, t)"
    by (auto simp: schedule_job_request_def failP_def split: if_splits)
  then obtain fs u fs' where r: "schedule_tx now fresh ffprobe rt rq (s\<lparr>faults := fs\<rparr>) = (Inr v, u)"
    and t: "t = u\<lparr>faults := fs'\<rparr>" by (rule transaction_committed)
  have "db_inv (s\<lparr>faults := fs\<rparr>)" using assms(1) by simp
  from schedule_tx_effect[OF this r] obtain es where
    e: "job_log u = (job_log s)(jid v := job_log s (jid v) @ es)"
    "intake_effect rq (s\<lparr>faults := fs\<rparr>) (jid v) es" "job_state u (jid v) = Some (last es)" "es \<noteq> []"
    by auto
  have st: "map status es = [Queued] \<or> map status es = [Canceled, Queued]"
    using e(2) by (auto simp: intake_effect_def)
  have "status (last es) = last (map status es)" using e(4) by (simp add: last_map)
  with st have "status (last es) = Queued" by auto
  with e t show ?thesis by (auto simp: intake_effect_def)
qed

lemma keeps_schedule_tx [keeps_intros]: "keeps db_inv (schedule_tx now fresh ffprobe rt rq)"
  unfolding schedule_tx_def by (intro keeps_intros)

lemma keeps_schedule [keeps_intros]: "keeps db_inv (schedule_job_request c now fresh ffprobe rt rq)"
  unfolding schedule_job_request_def by (intro keeps_intros)

lemma keeps_schedule_all [keeps_intros]: "keeps db_inv (schedule_all now ffprobe rt rqs res)"
proof (induction rqs arbitrary: res)
  case Nil
  show ?case by (simp add: keeps_ret)
next
  case (Cons q rest)
  obtain rq reasons fresh where "q = ((rq, reasons), fresh)" by (metis prod.exhaust)
  with Cons show ?case by (auto intro!: keeps_intros)
qed

lemma keeps_assign [keeps_intros]: "keeps db_inv (assign_job now w v)"
  unfolding assign_job_def Let_def by (intro keeps_intros)

lemma keeps_request_job [keeps_intros]: "keeps db_inv (request_job now w)"
  unfolding request_job_def by (intro keeps_intros)

lemma keeps_cancel_job [keeps_intros]: "keeps db_inv (cancel_job now j)"
  unfolding cancel_job_def by (intro keeps_intros)

lemma keeps_streamable [keeps_intros]: "keeps db_inv (is_valid_streamable_job j w)"
  unfolding is_valid_streamable_job_def by (intro keeps_intros)

lemma keeps_set_settings_checked [keeps_intros]: "keeps db_inv (set_worker_settings_checked n ws)"
  unfolding set_worker_settings_checked_def Let_def by (intro keeps_intros)

lemma keeps_control_worker [keeps_intros]: "keeps db_inv (control_worker parse now fresh n a js)"
  unfolding control_worker_def Let_def by (intro keeps_intros)

end
