(* ===== verification/Path_Facts.thy ===== *)
theory Path_Facts
  imports Go_Lib
begin

text \<open>
  Paths below an absolute directory, as lists of elements: joining, taking the directory, the base
  name and the extension, and computing the relative path back. The publication proofs talk about
  element lists only.
\<close>

lemma is_abs_join: "is_abs rt \<Longrightarrow> is_abs (join_path (rt # xs))"
proof -
  assume a: "is_abs rt"
  then have ne: "rt \<noteq> []" by (auto simp: is_abs_def)
  have "is_abs (join_with sep (rt # ys))" for ys
    using a ne by (cases ys) simp_all
  with ne show ?thesis by (simp add: join_path_def clean_path_abs)
qed

lemma clean_abs_inject:
  "is_abs p \<Longrightarrow> is_abs q \<Longrightarrow> clean_path p = clean_path q \<longleftrightarrow> path_parts p = path_parts q"
  by (metis clean_path_abs path_parts_clean)

lemma path_parts_Nil [simp]: "path_parts [] = []"
  by (simp add: path_parts_def clean_parts_def clean_step_def)

text \<open>The elements of a relative path are plain unless they are \<open>..\<close>.\<close>

lemma clean_fold_rel_plain:
  "\<forall>w\<in>set ws. sep \<notin> set w \<Longrightarrow> \<forall>w\<in>set acc. plain_part w \<or> w = dotdot \<Longrightarrow>
     \<forall>w\<in>set (foldl (clean_step False) acc ws). plain_part w \<or> w = dotdot"
proof (induction ws arbitrary: acc)
  case Nil
  then show ?case by simp
next
  case (Cons w ws)
  have "\<forall>v\<in>set (clean_step False acc w). plain_part v \<or> v = dotdot"
    using Cons.prems by (auto simp: clean_step_def plain_part_def dest: in_set_butlastD)
  with Cons show ?case by simp
qed

lemma path_parts_local:
  assumes "is_local p"
  shows "\<forall>w\<in>set (path_parts p). plain_part w"
proof -
  have "\<not> is_abs p" using assms by (simp add: is_local_def)
  moreover have "dotdot \<notin> set (path_parts p)"
    using join_path_local(2)[of "[sep]" p] assms by (simp add: is_abs_def)
  ultimately show ?thesis
    using clean_fold_rel_plain[of "split_on sep p" "[]"] split_on_free[of _ sep p]
    by (auto simp: path_parts_def clean_parts_def)
qed

lemma path_parts_render_rel:
  assumes "ws \<noteq> []" and "\<forall>w\<in>set ws. plain_part w"
  shows "path_parts (render_path False ws) = ws" "\<not> is_abs (render_path False ws)"
proof -
  obtain c x ys where ws: "ws = (c # x) # ys" "c \<noteq> sep"
    using assms by (cases ws; cases "hd ws") (auto simp: plain_part_def)
  have "join_with sep ws = c # join_with sep (x # ys)" unfolding ws by (rule join_with_Cons_first)
  then show na: "\<not> is_abs (render_path False ws)"
    using ws by (simp add: render_path_def is_abs_def)
  have "split_on sep (render_path False ws) = ws"
    using assms split_join_on[of ws sep] by (auto simp: render_path_def plain_part_def)
  with na show "path_parts (render_path False ws) = ws"
    using clean_fold_plain[OF assms(2), of False "[]"] by (simp add: path_parts_def clean_parts_def)
qed

lemma local_render_rel:
  assumes "ws \<noteq> []" and "\<forall>w\<in>set ws. plain_part w"
  shows "is_local (render_path False ws)"
proof -
  have "render_path False ws \<noteq> []"
    using path_parts_render_rel(1)[OF assms] assms(1) by (metis path_parts_Nil)
  with path_parts_render_rel[OF assms] assms show ?thesis
    by (cases ws) (auto simp: is_local_def plain_part_def)
qed

text \<open>The directory part of a relative path, joined with a new file name.\<close>

lemma join_dir_file:
  assumes "\<not> is_abs dir" and "\<forall>w\<in>set (path_parts dir). plain_part w" and "plain_part f"
  shows "path_parts (join_path [dir, f]) = path_parts dir @ [f]"
    and "is_local (join_path [dir, f])"
proof -
  let ?p = "if dir = [] then f else dir @ sep # f"
  have fne: "f \<noteq> []" using assms(3) by (simp add: plain_part_def)
  have na: "\<not> is_abs ?p"
    using assms plain_part_local[OF assms(3)] by (auto simp: is_local_def)
  have "split_on sep f = [f]" using assms(3) by (intro split_on_atom) (simp add: plain_part_def)
  moreover have "clean_step False acc f = acc @ [f]" for acc
    using assms(3) by (simp add: clean_step_def plain_part_def)
  ultimately have pp: "path_parts ?p = path_parts dir @ [f]"
    using na assms(1) clean_step_def[of False "[]" "[]"]
    by (auto simp: path_parts_def clean_parts_def split_on_append split: if_splits)
  have j: "join_path [dir, f] = render_path False (path_parts dir @ [f])"
    using fne na pp by (auto simp: join_path_def clean_path_def split: if_splits)
  have "\<forall>w\<in>set (path_parts dir @ [f]). plain_part w" using assms by auto
  with path_parts_render_rel[of "path_parts dir @ [f]"] local_render_rel[of "path_parts dir @ [f]"]
  show "path_parts (join_path [dir, f]) = path_parts dir @ [f]" "is_local (join_path [dir, f])"
    by (simp_all add: j)
qed

lemma is_abs_prefix: "is_abs p \<Longrightarrow> p = a @ b \<Longrightarrow> a \<noteq> [] \<Longrightarrow> is_abs a"
  by (cases a) (auto simp: is_abs_def)

text \<open>The directory part of a local path has no \<open>..\<close> either.\<close>

lemma local_dir:
  assumes "is_local p" and "split_file p = (dir, file)"
  shows "\<not> is_abs dir" "\<forall>w\<in>set (path_parts dir). plain_part w"
proof -
  have p: "p = dir @ file" "sep \<notin> set file"
    using split_file_append[of p] split_file_free[of p] assms(2) by simp_all
  show na: "\<not> is_abs dir"
    using assms(1) p(1) by (cases dir) (auto simp: is_local_def is_abs_def)
  show "\<forall>w\<in>set (path_parts dir). plain_part w"
  proof (cases "dir = []")
    case True
    then show ?thesis by simp
  next
    case False
    have "last dir = sep"
    proof -
      let ?t = "takeWhile (\<lambda>c. c \<noteq> sep) (rev p)"
      have f: "file = rev ?t" and d: "dir = take (length p - length ?t) p"
        using assms(2) by (simp_all add: split_file_def Let_def)
      have "p = rev (dropWhile (\<lambda>c. c \<noteq> sep) (rev p)) @ rev ?t"
        by (subst rev_append[symmetric], subst takeWhile_dropWhile_id) simp
      with p(1) f have "dir = rev (dropWhile (\<lambda>c. c \<noteq> sep) (rev p))" by (metis append_same_eq)
      moreover from this False have "dropWhile (\<lambda>c. c \<noteq> sep) (rev p) \<noteq> []" by simp
      ultimately show ?thesis using hd_dropWhile[of "\<lambda>c. c \<noteq> sep" "rev p"] by (simp add: last_rev)
    qed
    with False obtain d where d: "dir = d @ [sep]" by (metis append_butlast_last_id)
    have "split_on sep p = split_on sep d @ [file]"
      using p d split_on_append[of sep d "file"] split_on_atom[OF p(2)] by simp
    moreover have "split_on sep dir = split_on sep d @ [[]]"
      using d split_on_append[of sep d "[]"] by simp
    ultimately have pp: "path_parts p = clean_step False (path_parts dir) file"
      using assms(1) na by (simp add: path_parts_def clean_parts_def is_local_def clean_step_def)
    have nd: "path_parts dir \<noteq> [] \<longrightarrow> hd (path_parts dir) \<noteq> dotdot"
      using clean_step_dotdot[of "path_parts dir" "file"] assms(1) pp
      by (auto simp: is_local_def split: list.splits)
    then have "is_local dir" using False na by (auto simp: is_local_def split: list.splits)
    then show ?thesis by (rule path_parts_local)
  qed
qed

lemma join_with_snoc:
  "join_with d (ws @ [w]) = (if ws = [] then w else join_with d ws @ d # w)"
  by (induction d ws rule: join_with.induct) auto

lemma split_file_render:
  assumes "plain_part w"
  shows "split_file (render_path True (ws @ [w])) = (if ws = [] then [sep] else render_path True ws @ [sep], w)"
proof -
  have r: "render_path True (ws @ [w]) = (if ws = [] then [sep] else render_path True ws @ [sep]) @ w"
    by (simp add: render_path_def join_with_snoc)
  have t: "takeWhile (\<lambda>c. c \<noteq> sep) (rev (x @ [sep] @ w)) = rev w" for x
    using assms by (subst rev_append, subst rev_append, simp, subst takeWhile_append2)
      (auto simp: plain_part_def)
  then have "takeWhile (\<lambda>c. c \<noteq> sep) (rev (render_path True (ws @ [w]))) = rev w"
    using t[of "[]"] t[of "render_path True ws"] by (simp add: r)
  then show ?thesis by (simp add: split_file_def Let_def r)
qed

lemma dir_name_render:
  assumes "\<forall>w\<in>set ws. plain_part w" and "plain_part w"
  shows "dir_name (render_path True (ws @ [w])) = render_path True ws"
proof -
  let ?d = "if ws = [] then [sep] else render_path True ws @ [sep]"
  have a: "is_abs ?d" by (simp add: is_abs_def render_path_def)
  have "path_parts ?d = ws"
  proof (cases "ws = []")
    case True
    then show ?thesis by (simp add: path_parts_def is_abs_def clean_parts_def clean_step_def)
  next
    case False
    have "split_on sep (render_path True ws @ [sep]) = split_on sep (render_path True ws) @ [[]]"
      using split_on_append[of sep _ "[]"] by simp
    moreover have "is_abs (render_path True ws @ [sep])" by (simp add: render_path_def is_abs_def)
    ultimately show ?thesis
      using False path_parts_render[OF assms(1)]
      by (simp add: path_parts_def clean_parts_def clean_step_def)
  qed
  with a show ?thesis
    unfolding dir_name_def split_file_render[OF assms(2)] fst_conv by (simp add: clean_path_abs)
qed

lemma base_name_render:
  assumes "plain_part w"
  shows "base_name (render_path True (ws @ [w])) = w"
proof -
  let ?p = "render_path True (ws @ [w])"
  have w: "w \<noteq> []" "sep \<notin> set w" using assms by (simp_all add: plain_part_def)
  have s: "?p = fst (split_file ?p) @ w"
    using split_file_append[of ?p] by (simp add: split_file_render[OF assms])
  have "dropWhile (\<lambda>c. c = sep) (rev (a @ w)) = rev (a @ w)" for a
    using w by (cases w rule: rev_cases) auto
  then have "dropWhile (\<lambda>c. c = sep) (rev ?p) = rev ?p" using s by metis
  moreover have "?p \<noteq> []" by (simp add: render_path_def)
  ultimately show ?thesis by (simp add: base_name_def split_file_render[OF assms])
qed

lemma file_ext_render: "plain_part w \<Longrightarrow> file_ext (render_path True (ws @ [w])) = file_ext w"
proof -
  assume p: "plain_part w"
  then have "\<forall>x\<in>set (rev w). x \<noteq> sep" by (auto simp: plain_part_def)
  then have "takeWhile (\<lambda>c. c \<noteq> sep) (rev w) = rev w" by (simp only: takeWhile_eq_all_conv)
  then have "snd (split_file w) = w"
    by (simp only: split_file_def Let_def snd_conv rev_rev_ident)
  with split_file_render[OF p] show ?thesis by (simp add: file_ext_def)
qed

text \<open>The relative path from a directory to something below it leads back.\<close>

lemma rel_path_below:
  assumes "is_abs rt" and "ws \<noteq> []" and "\<forall>w\<in>set ws. plain_part w"
  shows "rel_path rt (render_path True (path_parts rt @ ws)) = Some (render_path False ws)"
    and "join_path [rt, render_path False ws] = render_path True (path_parts rt @ ws)"
proof -
  let ?t = "render_path True (path_parts rt @ ws)"
  have pl: "\<forall>w\<in>set (path_parts rt @ ws). plain_part w"
    using path_parts_plain[OF assms(1)] assms(3) by auto
  have pt: "path_parts ?t = path_parts rt @ ws" by (rule path_parts_render[OF pl])
  have "clean_path rt \<noteq> clean_path ?t"
    using clean_abs_inject[OF assms(1), of ?t] assms(2) by (simp add: pt)
  then show "rel_path rt ?t = Some (render_path False ws)"
    using assms(1,2) pt drop_common_append[of "path_parts rt" ws] is_abs_render[of "path_parts rt @ ws"]
    by (simp add: rel_path_def render_path_def[of False])
  show "join_path [rt, render_path False ws] = ?t"
    using join_path_local(1)[OF assms(1) local_render_rel[OF assms(2,3)]]
      path_parts_render_rel(1)[OF assms(2,3)] by simp
qed

lemma join_plain2:
  assumes "is_abs d" and "plain_part a" and "plain_part b"
  shows "join_path [d, a, b] = render_path True (path_parts d @ [a, b])"
proof -
  have ne: "d \<noteq> []" "a \<noteq> []" "b \<noteq> []" using assms by (auto simp: plain_part_def is_abs_def)
  have pl: "\<forall>w\<in>set (path_parts d @ [a]). plain_part w"
    using path_parts_plain[OF assms(1)] assms(2) by auto
  have "join_path [d, a, b] = clean_path ((d @ sep # a) @ sep # b)" using ne by (simp add: join_path_def)
  also have "\<dots> = join_path [d @ sep # a, b]" using ne by (simp add: join_path_def)
  also have "\<dots> = render_path True (path_parts (d @ sep # a) @ [b])"
    using join_plain[OF _ assms(3), of "d @ sep # a"] assms(1) ne by simp
  also have "path_parts (d @ sep # a) = path_parts (clean_path (d @ sep # a))"
    using assms(1) ne by (simp add: path_parts_clean)
  also have "clean_path (d @ sep # a) = join_path [d, a]" using ne by (simp add: join_path_def)
  also have "path_parts (join_path [d, a]) = path_parts d @ [a]"
    using join_plain[OF assms(1,2)] path_parts_render[OF pl] by simp
  finally show ?thesis by simp
qed

text \<open>Two absolute names with different last elements are different.\<close>

lemma render_last_neq:
  assumes "\<forall>w\<in>set (xs @ [x]). plain_part w" and "\<forall>w\<in>set (ys @ [y]). plain_part w" and "x \<noteq> y"
  shows "clean_path (render_path True (xs @ [x])) \<noteq> clean_path (render_path True (ys @ [y]))"
  using clean_abs_inject[of "render_path True (xs @ [x])" "render_path True (ys @ [y])"]
    path_parts_render[OF assms(1)] path_parts_render[OF assms(2)] assms(3) by simp

end
