(* ===== verification/Output_Location.thy ===== *)
theory Output_Location
  imports Path_Facts Output_Naming
begin

text \<open>
  Where an output can land: every candidate name of the reservation loop is a file directly in the
  directory of the source, below the library root, ending in \<open>.mkv\<close>. The codec label comes from
  \<open>ffprobe\<close>; all that is asked of it is that it contains no path separator.
\<close>

lemma set_replace_audio: "set (replace_audio s) \<subseteq> set s \<union> set ''AAC''"
proof (induction s rule: replace_audio.induct)
  case 1
  then show ?case by simp
next
  case (2 c s)
  show ?case
  proof (cases "match_audio (c # s)")
    case None
    with 2(1)[OF None] show ?thesis by auto
  next
    case (Some a)
    with 2(2) have "set (replace_audio (drop (length a - 1) s)) \<subseteq>
        set (drop (length a - 1) s) \<union> set ''AAC''" by simp
    then have "set (replace_audio (drop (length a - 1) s)) \<subseteq> set s \<union> set ''AAC''"
      using set_drop_subset by fastforce
    with Some show ?thesis by auto
  qed
qed

lemma set_hd_tl_drop:
  "drop n s \<noteq> [] \<Longrightarrow> hd (drop n s) \<in> set s \<and> set (tl (drop n s)) \<subseteq> set s"
  by (metis hd_in_set in_set_dropD list.set_sel(2) subsetI)

lemma set_replace_video: "set (replace_video label st s) \<subseteq> set s \<union> set label"
proof (induction "length s" arbitrary: st s rule: less_induct)
  case less
  have step: "set (replace_video label False (tl (drop n r))) \<subseteq> set s \<union> set label"
    if "drop n r \<noteq> []" "set r \<subseteq> set s" "length r \<le> length s" for n r
  proof -
    have "length (tl (drop n r)) < length s" proof -
      have "0 < length (drop n r)" using that(1) by blast
      then show ?thesis using that(3) by simp
    qed
    from less[OF this, of False] set_hd_tl_drop[OF that(1)] that(2) show ?thesis by blast
  qed
  show ?case
  proof (cases "if st then match_video s else None")
    case (Some a)
    with step[of "length a" s] set_hd_tl_drop[of "length a" s] show ?thesis
      by (subst replace_video.simps) auto
  next
    case none: None
    show ?thesis
    proof (cases s)
      case Nil
      with none show ?thesis by (subst replace_video.simps) simp
    next
      case (Cons c r)
      have r: "set (replace_video label False r) \<subseteq> set s \<union> set label"
        using less[of r False] Cons by auto
      show ?thesis
      proof (cases "if is_alnum c then None else match_video r")
        case None
        with none Cons r show ?thesis by (subst replace_video.simps) auto
      next
        case (Some a)
        with none Cons step[of "length a" r] set_hd_tl_drop[of "length a" r] show ?thesis
          by (subst replace_video.simps) auto
      qed
    qed
  qed
qed

lemma lower_char_sep: "lower_char c = sep \<longleftrightarrow> c = sep"
proof -
  have "lower_char c \<noteq> sep" if "65 \<le> code c" "code c \<le> 90"
  proof -
    have "code (lower_char c) = code c + 32" using that by (simp add: lower_char_def code_def)
    moreover have "code sep = 47" by (simp add: code_def sep_def)
    ultimately show ?thesis using that by auto
  qed
  moreover have "code sep = 47" by (simp add: code_def sep_def)
  ultimately show ?thesis by (auto simp: lower_char_def split: if_splits)
qed

lemma label_free: "sep \<notin> set codec \<Longrightarrow> sep \<notin> set (output_codec_label codec)"
proof -
  assume "sep \<notin> set codec"
  then have "sep \<notin> set (to_lower codec)"
    using lower_char_sep by (metis (no_types, lifting) image_iff list.set_map to_lower_def)
  then show ?thesis by (simp add: output_codec_label_def Let_def sep_def)
qed

definition mkv_file :: "string \<Rightarrow> bool" where
  "mkv_file w \<longleftrightarrow> plain_part w \<and> (\<exists>b. w = b @ ''.mkv'')"

lemma mkv_plain: "sep \<notin> set b \<Longrightarrow> mkv_file (b @ ''.mkv'')"
  by (cases b; cases "tl b") (auto simp: mkv_file_def plain_part_def dot_def dotdot_def sep_def)

lemma mkv_ext: "mkv_file w \<Longrightarrow> file_ext w = ''.mkv''"
proof -
  assume "mkv_file w"
  then obtain b where b: "w = b @ ''.mkv''" and p: "plain_part w" by (auto simp: mkv_file_def)
  from p have "\<forall>x\<in>set (rev w). x \<noteq> sep" by (auto simp: plain_part_def)
  then have "takeWhile (\<lambda>c. c \<noteq> sep) (rev w) = rev w" by (simp only: takeWhile_eq_all_conv)
  then have "snd (split_file w) = w"
    by (simp only: split_file_def Let_def snd_conv rev_rev_ident)
  then show ?thesis by (simp add: file_ext_def b Let_def)
qed

lemma output_name_parts:
  assumes "is_local src" and "sep \<notin> set codec"
  obtains ds f where "path_parts (output_name_for_codec src codec) = ds @ [f]" "mkv_file f"
    "\<forall>w\<in>set ds. plain_part w" "is_local (output_name_for_codec src codec)"
    "ds = path_parts (fst (split_file src))"
proof -
  obtain dir fl where sp: "split_file src = (dir, fl)" by fastforce
  have fl: "sep \<notin> set fl" using split_file_free[of src] sp by simp
  let ?label = "output_codec_label codec"
  let ?base = "replace_audio (trim_suffix fl (file_ext fl))"
  let ?b = "if has_video ?base then replace_video ?label True ?base else ?base @ ''.'' @ ?label"
  have "sep \<notin> set (trim_suffix fl (file_ext fl))"
    using fl by (auto simp: trim_suffix_def dest: in_set_takeD)
  then have base: "sep \<notin> set ?base" using set_replace_audio by (fastforce simp: sep_def)
  have lab: "sep \<notin> set ?label" by (rule label_free[OF assms(2)])
  have "sep \<notin> set ?b" using base lab set_replace_video[of ?label True ?base]
    by (auto simp: sep_def)
  then have f: "mkv_file (?b @ ''.mkv'')" by (rule mkv_plain)
  then have pf: "plain_part (?b @ ''.mkv'')" by (simp add: mkv_file_def)
  have name: "output_name_for_codec src codec = join_path [dir, ?b @ ''.mkv'']"
    by (simp add: output_name_for_codec_def sp Let_def)
  note d = local_dir[OF assms(1) sp]
  show ?thesis
    by (rule that[of "path_parts dir" "?b @ ''.mkv''"])
      (use join_dir_file[OF d pf] f d(2) name sp in auto)
qed

text \<open>The candidates of the reservation loop.\<close>

lemma link_candidate_parts:
  assumes "is_abs rt" and "is_local src" and "sep \<notin> set codec"
    and "p = link_candidate (join_path [rt, output_name_for_codec src codec]) k"
  obtains ds f where "p = render_path True (path_parts rt @ ds @ [f])" "mkv_file f"
    "\<forall>w\<in>set ds. plain_part w"
proof -
  from output_name_parts[OF assms(2,3)] obtain ds f where
    o: "path_parts (output_name_for_codec src codec) = ds @ [f]" "mkv_file f"
    "\<forall>w\<in>set ds. plain_part w" "is_local (output_name_for_codec src codec)" .
  obtain ws where ws: "ws = path_parts rt @ ds" by blast
  have des: "join_path [rt, output_name_for_codec src codec] = render_path True (ws @ [f])"
    using join_path_local(1)[OF assms(1) o(4)] by (simp add: o(1) ws)
  have pf: "plain_part f" using o(2) by (simp add: mkv_file_def)
  have pw: "\<forall>w\<in>set ws. plain_part w" using path_parts_plain[OF assms(1)] o(3) ws by auto
  have ext: "file_ext (render_path True (ws @ [f])) = ''.mkv''"
    using file_ext_render[OF pf] mkv_ext[OF o(2)] by simp
  have base: "base_name (render_path True (ws @ [f])) = f" by (rule base_name_render[OF pf])
  have dir: "dir_name (render_path True (ws @ [f])) = render_path True ws"
    by (rule dir_name_render[OF pw pf])
  have free: "sep \<notin> set (trim_suffix f ''.mkv'')"
    using pf by (auto simp: trim_suffix_def plain_part_def dest: in_set_takeD)
  have join: "join_path [render_path True ws, w] = render_path True (ws @ [w])" if "mkv_file w" for w
    using join_plain[OF is_abs_render] that path_parts_render[OF pw] by (simp add: mkv_file_def)
  have enc: "mkv_file (trim_suffix f ''.mkv'' @ ''_encoded'' @ ''.mkv'')"
    using mkv_plain[of "trim_suffix f ''.mkv'' @ ''_encoded''"] free by (simp add: sep_def)
  have num: "mkv_file (trim_suffix f ''.mkv'' @ ''_encoded-'' @ nat_digits k @ ''.mkv'')"
    using mkv_plain[of "trim_suffix f ''.mkv'' @ ''_encoded-'' @ nat_digits k"] free sep_nat_digits[of k]
    by (simp add: sep_def)
  consider "k = 0" | "k = 1" | "2 \<le> k" by linarith
  then show ?thesis
  proof cases
    case 1
    then show ?thesis using assms(4) o(2,3) by (intro that[of ds f]) (simp_all add: link_candidate_def Let_def des ws)
  next
    case 2
    then show ?thesis using assms(4) o(3) enc join[OF enc]
      by (intro that[of ds "trim_suffix f ''.mkv'' @ ''_encoded'' @ ''.mkv''"])
        (simp_all add: link_candidate_def Let_def des ext base dir flip: append_assoc ws)
  next
    case 3
    then show ?thesis using assms(4) o(3) num join[OF num]
      by (intro that[of ds "trim_suffix f ''.mkv'' @ ''_encoded-'' @ nat_digits k @ ''.mkv''"])
        (simp_all add: link_candidate_def Let_def des ext base dir flip: append_assoc ws)
  qed
qed

text \<open>Such a name is never a staging name: those end in \<open>.upload\<close> or \<open>.transcoderd-upload\<close>.\<close>

lemma mkv_not_upload: "mkv_file f \<Longrightarrow> f \<noteq> w @ ''upload''"
proof
  assume "mkv_file f" and u: "f = w @ ''upload''"
  then obtain b where "f = b @ ''.mkv''" by (auto simp: mkv_file_def)
  with u have "last (b @ ''.mkv'') = last (w @ ''upload'')" by metis
  then show False by simp
qed

end
