(* ===== verification/Publication_Correct.thy ===== *)
theory Publication_Correct
  imports Publication Scheduler_Correct Output_Location
begin

text \<open>
  What publication guarantees. Every operation on files leaves a name alone unless it is one of
  the job's staging names; publishing reserves a name nobody used, so no file of the library is
  overwritten or lost. Database and files are handled separately: an invariant of one side is kept
  by operations of the other.
\<close>

section \<open>Lifting\<close>

lemma keeps_on_db [keeps_intros]: "keeps I m \<Longrightarrow> keeps (\<lambda>s. I (sdb s)) (on_db m)"
  by (rule keepsI) (auto simp: on_db_def split: prod.splits dest: keepsD)

lemma keeps_db_on_fs [keeps_intros]: "keeps (\<lambda>s. I (sdb s)) (on_fs m)"
  by (rule keepsI) (auto simp: on_fs_def split: prod.splits)

lemma keeps_on_fs [keeps_intros]: "keeps I m \<Longrightarrow> keeps (\<lambda>s. I (sfs s)) (on_fs m)"
  by (rule keepsI) (auto simp: on_fs_def split: prod.splits dest: keepsD)

lemma keeps_fs_on_db [keeps_intros]: "keeps (\<lambda>s. I (sfs s)) (on_db m)"
  by (rule keepsI) (auto simp: on_db_def split: prod.splits)

section \<open>Names survive\<close>

text \<open>\<open>bound q n\<close>: the name \<open>q\<close> stands for the node \<open>n\<close>.\<close>

definition bound :: "string \<Rightarrow> node \<Rightarrow> file_system \<Rightarrow> bool" where
  "bound q n f \<longleftrightarrow> node_at f q = Some n"

lemma bound_faults [simp]: "bound q n (f\<lparr>io_faults := x\<rparr>) = bound q n f"
  by (simp add: bound_def)

lemma keeps_io [keeps_intros]: "keeps (bound q n) m \<Longrightarrow> keeps (bound q n) (io_call m)"
proof (rule keepsI)
  fix s r t
  assume m: "keeps (bound q n) m" and b: "bound q n s" and "io_call m s = (r, t)"
  from this(3) show "bound q n t"
  proof (cases rule: io_call_cases)
    case (fault fs)
    with b show ?thesis by simp
  next
    case (run fs)
    with keepsD[OF m, of "s\<lparr>io_faults := fs\<rparr>"] b show ?thesis by simp
  qed
qed

lemma bound_names: "names g = names f \<Longrightarrow> bound q n f = bound q n g"
  by (simp add: bound_def node_at_def)

lemma keeps_stat [keeps_intros]: "keeps (bound q n) (os_stat p)"
  unfolding os_stat_def by (intro keeps_io keepsI) (auto split: option.splits)

lemma keeps_open [keeps_intros]: "keeps (bound q n) (os_open p)"
  unfolding os_open_def by (rule keeps_stat)

lemma keeps_read_file [keeps_intros]: "keeps (bound q n) (os_read x)"
  unfolding os_read_def by (intro keeps_io keepsI) (auto split: node.splits)

lemma keeps_write_file [keeps_intros]: "keeps (bound q n) (os_write i b)"
  unfolding os_write_def by (intro keeps_io keepsI) (auto simp: bound_def node_at_def)

lemma keeps_flush [keeps_intros]: "keeps (bound q n) os_flush"
  unfolding os_flush_def by (intro keeps_intros)

lemma keeps_size [keeps_intros]: "keeps I (os_size x)"
  unfolding os_size_def by (intro keeps_intros)

lemma keeps_chmod [keeps_intros]: "keeps (bound q n) (os_chmod p m)"
  unfolding os_chmod_def
  by (intro keeps_io keepsI) (auto simp: bound_def node_at_def split: option.splits node.splits)

lemma keeps_link [keeps_intros]: "keeps (bound q n) (os_link a b)"
  by (rule keepsI) (auto simp: bound_def intro: os_link_preserves)

lemma keeps_create [keeps_intros]: "keeps (bound q n) (os_create_new p m)"
  unfolding os_create_new_def
  by (intro keeps_io keepsI) (auto simp: bound_def node_at_def Let_def split: if_splits)

lemma keeps_make_dirs: "keeps (bound q n) (make_dirs a pre ws)"
proof (induction ws arbitrary: pre)
  case Nil
  show ?case by (simp add: keeps_ret)
next
  case (Cons w ws)
  let ?p = "render_path a (pre @ [w])"
  have new: "bound q n (s\<lparr>names := (clean_path ?p, Directory) # names s\<rparr>)"
    if "bound q n s" "node_at s ?p = None" for s
    using that by (auto simp: bound_def node_at_def)
  show ?case
  proof (rule keepsI)
    fix s r t
    assume b: "bound q n s" and m: "make_dirs a pre (w # ws) s = (r, t)"
    show "bound q n t"
    proof (cases "node_at s ?p")
      case None
      with m keepsD[OF Cons.IH new[OF b None]] show ?thesis by simp
    next
      case (Some x)
      with m b keepsD[OF Cons.IH b] show ?thesis by (cases x) auto
    qed
  qed
qed

lemma keeps_mkdir_all [keeps_intros]: "keeps (bound q n) (os_mkdir_all p)"
  unfolding os_mkdir_all_def by (intro keeps_io keeps_make_dirs)

lemma keeps_remove [keeps_intros]:
  "clean_path q \<noteq> clean_path p \<Longrightarrow> keeps (bound q n) (os_remove p)"
  unfolding os_remove_def
  by (intro keeps_io keepsI)
    (auto simp: bound_def node_at_def map_of_filter_in split: option.splits if_splits)

lemma keeps_reserve [keeps_intros]: "keeps (bound q n) (reserve_output cwd st d src)"
  by (rule keepsI)
    (auto simp: reserve_output_def bound_def link_output_without_overwrite_def
      intro: link_output_preserves split: option.splits)

lemma keeps_copy_upload [keeps_intros]:
  "clean_path q \<noteq> clean_path tmp \<Longrightarrow> keeps (bound q n) (copy_upload tmp src dst)"
  unfolding copy_upload_def copy_to_temporary_def by (intro keeps_intros)

lemma keeps_find_upload [keeps_intros]:
  "clean_path q \<noteq> clean_path tmp \<Longrightarrow> keeps (bound q n) (find_upload tmp st lg target)"
  unfolding find_upload_def by (intro keeps_intros)

lemma keeps_probe_output [keeps_intros]: "keeps (bound q n) (probe_output probe p)"
  unfolding probe_output_def by (intro keeps_intros)

lemma keeps_permissions [keeps_intros]: "keeps (bound q n) (set_shared_output_permissions p)"
  unfolding set_shared_output_permissions_def by (intro keeps_intros)

lemma keeps_remove_staging [keeps_intros]:
  "clean_path q \<noteq> clean_path p \<Longrightarrow> clean_path q \<noteq> clean_path (dir_name p) \<Longrightarrow>
    keeps (bound q n) (remove_upload_staging_file p)"
  unfolding remove_upload_staging_file_def by (intro keeps_intros)

section \<open>Contents survive\<close>

text \<open>\<open>holds L f g\<close>: the files numbered below \<open>L\<close> have in \<open>g\<close> what they have in \<open>f\<close>; new files get other numbers.\<close>

definition holds :: "nat \<Rightarrow> file_system \<Rightarrow> file_system \<Rightarrow> bool" where
  "holds L f g \<longleftrightarrow> L \<le> next_inode g \<and> (\<forall>i<L. contents g i = contents f i \<and> sizes g (File i) = sizes f (File i))"

lemma holds_faults [simp]: "holds L f (g\<lparr>io_faults := x\<rparr>) = holds L f g"
  by (simp add: holds_def)

lemma holds_io: "keeps (holds L f) m \<Longrightarrow> keeps (holds L f) (io_call m)"
proof (rule keepsI)
  fix s r t
  assume m: "keeps (holds L f) m" and b: "holds L f s" and "io_call m s = (r, t)"
  from this(3) show "holds L f t"
  proof (cases rule: io_call_cases)
    case (fault fs)
    with b show ?thesis by simp
  next
    case (run fs)
    with keepsD[OF m, of "s\<lparr>io_faults := fs\<rparr>"] b show ?thesis by simp
  qed
qed

lemma holds_make_dirs: "keeps (holds L f) (make_dirs a pre ws)"
proof (induction ws arbitrary: pre)
  case (Cons w ws)
  show ?case
  proof (rule keepsI)
    fix s r t
    assume b: "holds L f s" and m: "make_dirs a pre (w # ws) s = (r, t)"
    have new: "holds L f (s\<lparr>names := x # names s\<rparr>)" for x using b by (simp add: holds_def)
    show "holds L f t"
    proof (cases "node_at s (render_path a (pre @ [w]))")
      case None
      with m keepsD[OF Cons.IH new] show ?thesis by simp
    next
      case (Some x)
      with m b keepsD[OF Cons.IH b] show ?thesis by (cases x) auto
    qed
  qed
qed (simp add: keeps_ret)

lemma holds_calls:
  "keeps (holds L f) (os_stat p)" "keeps (holds L f) (os_open p)" "keeps (holds L f) (os_read x)" "keeps (holds L f) os_flush"
  "keeps (holds L f) (os_chmod p m)" "keeps (holds L f) (os_link a b)" "keeps (holds L f) (os_mkdir_all p)"
  "keeps (holds L f) (os_remove p)"
  unfolding os_open_def os_stat_def os_read_def os_flush_def os_chmod_def os_link_def os_mkdir_all_def os_remove_def
  by (intro holds_io holds_make_dirs keeps_ret keepsI; auto simp: holds_def split: option.splits node.splits if_splits)+

lemma holds_write: "L \<le> i \<Longrightarrow> keeps (holds L f) (os_write i b)"
  unfolding os_write_def by (intro holds_io keepsI) (auto simp: holds_def)

lemma holds_create:
  assumes "\<And>i. L \<le> i \<Longrightarrow> keeps (holds L f) (g i)"
  shows "keeps (holds L f) (bindP (os_create_new p m) g)"
proof (rule keepsI)
  fix s r t
  assume b: "holds L f s" and run: "bindP (os_create_new p m) g s = (r, t)"
  have new: "holds L f v \<and> (\<forall>i. x = Inr i \<longrightarrow> L \<le> i)" if "os_create_new p m s = (x, v)" for x v
    using that b unfolding os_create_new_def by (elim io_call_cases) (auto simp: holds_def Let_def split: if_splits)
  from run show "holds L f t"
    by (cases rule: bindP_cases) (use new keepsD[OF assms] in \<open>auto 4 3\<close>)
qed

lemma holds_link_output:
  "holds L f s \<Longrightarrow> link_output n cwd st d src k s = Some (r, t) \<Longrightarrow> holds L f t"
proof (induction n arbitrary: k s)
  case (Suc n)
  have c: "os_link a b u = (x, v) \<Longrightarrow> holds L f u \<Longrightarrow> holds L f v" "os_stat p u = (y, v) \<Longrightarrow> holds L f u \<Longrightarrow> holds L f v"
    for a b p u v and x :: "_ + unit" and y
    using keepsD[OF holds_calls(6)] keepsD[OF holds_calls(1)] by blast+
  from Suc.prems Suc.IH show ?case
    by (auto simp: Let_def split: if_splits prod.splits sum.splits node.splits dest!: c)
qed simp

lemma holds_reserve: "keeps (holds L f) (reserve_output cwd st d src)"
  by (rule keepsI)
    (auto simp: reserve_output_def link_output_without_overwrite_def intro: holds_link_output split: option.splits)

lemmas holds_intros = holds_calls holds_write holds_create holds_reserve

section \<open>No file is lost\<close>

text \<open>The names a completion may remove: the staged uploads, their directories, and the temporary
  file of a migration.\<close>

definition legacy_staging_path :: "server_config \<Rightarrow> uuid \<Rightarrow> string" where
  "legacy_staging_path cfg j =
    join_path [upload_staging_directory (cfg_root cfg), upload_staging_name j]"

definition staging_names :: "server_config \<Rightarrow> string \<Rightarrow> uuid \<Rightarrow> string \<Rightarrow> string list" where
  "staging_names cfg src j tmp =
    (let lg = legacy_staging_path cfg j
     in [tmp, lg, dir_name lg] @
        (case upload_staging_path (cfg_root cfg) src j of Inl _ \<Rightarrow> [] | Inr st \<Rightarrow> [st, dir_name st]))"

definition outside :: "string \<Rightarrow> string list \<Rightarrow> bool" where
  "outside q ps \<longleftrightarrow> clean_path q \<notin> clean_path ` set ps"

lemma keeps_clean_staging [keeps_intros]:
  "clean_path q \<noteq> clean_path p \<Longrightarrow> clean_path q \<noteq> clean_path (dir_name p) \<Longrightarrow>
    keeps (\<lambda>s. bound q n (sfs s)) (clean_staging cwd final p)"
  unfolding clean_staging_def by (intro keeps_intros)

lemma keeps_remove_unless_same:
  assumes "is_abs final" and "is_abs probed"
  shows "keeps (\<lambda>s. bound probed n (sfs s)) (remove_unless_same cwd final probed)"
  unfolding remove_unless_same_def
  by (intro keeps_intros) (use assms in \<open>auto simp: same_path_def abs_path_def\<close>)

lemma remove_unless_same_other [keeps_intros]:
  "clean_path q \<noteq> clean_path final \<Longrightarrow>
    keeps (\<lambda>s. bound q n (sfs s)) (remove_unless_same cwd final probed)"
  unfolding remove_unless_same_def by (intro keeps_intros)

text \<open>A name other than the published one survives; a file that was published from the upload keeps
  at least the name it was uploaded under.\<close>

lemma record_output_other:
  assumes "clean_path q \<noteq> clean_path final" and "outside q [st, dir_name st, lg, dir_name lg]"
  shows "keeps (\<lambda>s. bound q n (sfs s)) (record_output cfg v probed final st lg mp)"
  unfolding record_output_def using assms by (intro keeps_intros) (auto simp: outside_def)

lemma record_output_same:
  assumes "bound q n (sfs s)" and "bound probed n (sfs s)" and "is_abs final" and "is_abs probed"
    and "outside q [st, dir_name st, lg, dir_name lg]"
    and "record_output cfg v probed final st lg mp s = (r, t)"
  shows "bound q n (sfs t) \<or> bound probed n (sfs t) \<and> (\<exists>e. r = Inl e)"
proof -
  have rm: "bound probed n (sfs u) \<Longrightarrow>
      bindP (remove_unless_same (cfg_cwd cfg) final probed) (\<lambda>_. failP e) u = (r, t) \<Longrightarrow>
      bound probed n (sfs t) \<and> (\<exists>e. r = Inl e)" for u e
    by (erule bindP_cases)
      (auto simp: failP_def dest: keepsD[OF keeps_remove_unless_same[OF assms(3,4)]])
  show ?thesis
  proof (cases "rel_path (cfg_root cfg) final")
    case None
    with assms(2,6) rm show ?thesis by (auto simp: record_output_def)
  next
    case (Some rel)
    from assms(6)[unfolded record_output_def Some option.case] show ?thesis
    proof (cases rule: bindP_cases)
      case (fails e)
      have "keeps (\<lambda>s. bound q n (sfs s)) (on_fs (bindP (os_stat final) os_size))" by (intro keeps_intros)
      from keepsD[OF this assms(1) fails(1)] show ?thesis by blast
    next
      case (continues sz u)
      have st: "keeps (\<lambda>s. bound p n (sfs s)) (on_fs (bindP (os_stat final) os_size))" for p
        by (intro keeps_intros)
      have u: "bound q n (sfs u)" "bound probed n (sfs u)"
        using keepsD[OF st _ continues(1)] assms(1,2) by simp_all
      obtain x w where x: "tryP (on_db (update_job (v\<lparr>target_path := rel, target_size := sz,
          target_probe := Some mp\<rparr>))) u = ((Inr x, w) :: (server_error + _) \<times> server)"
        unfolding tryP_def by (metis (no_types, lifting) case_prod_conv prod.exhaust)
      have "keeps (\<lambda>s. bound p n (sfs s)) (tryP (on_db (update_job (v\<lparr>target_path := rel,
          target_size := sz, target_probe := Some mp\<rparr>))))" for p
        by (intro keeps_intros)
      from keepsD[OF this _ x] u have w: "bound q n (sfs w)" "bound probed n (sfs w)" by simp_all
      show ?thesis
      proof (cases x)
        case (Inl e)
        with continues(2) x rm[OF w(2)] show ?thesis by (auto simp: bindP_run)
      next
        case (Inr y)
        have k: "keeps (\<lambda>s. bound q n (sfs s)) (bindP (clean_staging (cfg_cwd cfg) final st) (\<lambda>_.
            clean_staging (cfg_cwd cfg) final lg))"
          using assms(5) by (intro keeps_intros) (auto simp: outside_def)
        have "bindP (clean_staging (cfg_cwd cfg) final st) (\<lambda>_.
            clean_staging (cfg_cwd cfg) final lg) w = (r, t)"
          using continues(2) x Inr by (simp add: bindP_run)
        with keepsD[OF k w(1)] show ?thesis by blast
      qed
    qed
  qed
qed

lemma on_fs_Inr: "on_fs m s = (Inr x, t) \<longleftrightarrow> (\<exists>f. m (sfs s) = (Inr x, f) \<and> t = s\<lparr>sfs := f\<rparr>)"
  by (auto simp: on_fs_def split: prod.splits)

lemma on_db_Inr: "on_db m s = (Inr x, t) \<longleftrightarrow> (\<exists>d. m (sdb s) = (Inr x, d) \<and> t = s\<lparr>sdb := d\<rparr>)"
  by (auto simp: on_db_def split: prod.splits)

lemma reserve_result:
  assumes "reserve_output cwd probed desired src f = (Inr final, g)"
  obtains i k where "final = link_candidate desired k" "\<not> same_path cwd final src"
    "node_at f probed = Some (File i)" "node_at g final = Some (File i)"
    "node_at f final = None \<or> node_at f final = Some (File i)"
proof -
  from assms have "link_output (length (names f) + 4) cwd probed desired src 0 f = Some (Inr final, g)"
    by (auto simp: reserve_output_def link_output_without_overwrite_def split: option.splits)
  from link_output_result[OF this] that show ?thesis by metis
qed

definition desired_path :: "server_config \<Rightarrow> job \<Rightarrow> ffprobe_output \<Rightarrow> string" where
  "desired_path cfg v out =
    join_path [cfg_root cfg, output_name_for_codec (source_path v) (output_codec [] (fo_streams out))]"

lemma is_abs_candidate: "is_abs d \<Longrightarrow> is_abs (link_candidate d k)"
  using is_abs_dir[of d]
  by (auto simp: link_candidate_def Let_def dir_name_def clean_path_abs intro!: is_abs_join)

text \<open>The stages of a publication, up to the recording of the output.\<close>

lemma publish_cases:
  assumes "publish_output cfg v out probed st lg s = (r, t)" and "is_abs (cfg_root cfg)"
  obtains (stopped) e where "r = Inl e" "\<forall>q n. bound q n (sfs s) \<longrightarrow> bound q n (sfs t)"
  | (reserved) f final i k u where "reserve_output (cfg_cwd cfg) probed (desired_path cfg v out)
        (join_path [cfg_root cfg, source_path v]) (sfs s) = (Inr final, f)"
      "set_shared_output_permissions final f = (Inr (), u)" "is_abs final"
      "record_output cfg v probed final st lg (output_probe out) (s\<lparr>sfs := u\<rparr>) = (r, t)"
      "output_codec [] (fo_streams out) \<noteq> []"
      "final = link_candidate (desired_path cfg v out) k"
      "\<not> same_path (cfg_cwd cfg) final (join_path [cfg_root cfg, source_path v])"
      "bound probed (File i) (sfs s)" "bound final (File i) u"
      "node_at (sfs s) final = None \<or> bound final (File i) (sfs s)"
      "\<forall>q n. bound q n (sfs s) \<longrightarrow> bound q n u"
proof -
  have kr: "keeps (\<lambda>s. bound q n (sfs s)) (on_fs (reserve_output c p d x))" for q n c p d x
    by (intro keeps_intros)
  have kp: "keeps (bound q n) (set_shared_output_permissions p)" for q n p by (intro keeps_intros)
  show ?thesis
  proof (cases "output_codec [] (fo_streams out) = []")
    case True
    with assms(1) show ?thesis by (intro stopped[of NoVideoStream]) (auto simp: publish_output_def failP_def)
  next
    case False
    with assms(1) have run: "bindP (on_fs (reserve_output (cfg_cwd cfg) probed (desired_path cfg v out)
        (join_path [cfg_root cfg, source_path v]))) (\<lambda>final.
          bindP (on_fs (set_shared_output_permissions final)) (\<lambda>_.
            record_output cfg v probed final st lg (output_probe out))) s = (r, t)"
      by (simp add: publish_output_def desired_path_def Let_def)
    from run show ?thesis
    proof (cases rule: bindP_cases)
      case (fails e)
      with keepsD[OF kr _ fails(1)] show ?thesis by (intro stopped) auto
    next
      case (continues final s1)
      from continues(1) obtain f where f: "reserve_output (cfg_cwd cfg) probed (desired_path cfg v out)
        (join_path [cfg_root cfg, source_path v]) (sfs s) = (Inr final, f)" "s1 = s\<lparr>sfs := f\<rparr>"
        by (auto simp: on_fs_Inr)
      from reserve_result[OF f(1)] obtain i k where
        i: "final = link_candidate (desired_path cfg v out) k"
        "\<not> same_path (cfg_cwd cfg) final (join_path [cfg_root cfg, source_path v])"
        "node_at (sfs s) probed = Some (File i)" "node_at f final = Some (File i)"
        "node_at (sfs s) final = None \<or> node_at (sfs s) final = Some (File i)" .
      have abs: "is_abs final" unfolding i(1) desired_path_def
        by (intro is_abs_candidate is_abs_join assms(2))
      have k1: "bound q n (sfs s) \<Longrightarrow> bound q n f" for q n
        using keepsD[OF kr _ continues(1)] f(2) by simp
      from continues(2) show ?thesis
      proof (cases rule: bindP_cases)
        case (fails e)
        then obtain u where u: "set_shared_output_permissions final f = (Inl e, u)" "t = s\<lparr>sfs := u\<rparr>"
          by (auto simp: on_fs_def f(2) split: prod.splits)
        from keepsD[OF kp _ u(1)] k1 fails(2) u(2) show ?thesis by (intro stopped) auto
      next
        case (continues y s2)
        then obtain u where u: "set_shared_output_permissions final f = (Inr (), u)" "s2 = s\<lparr>sfs := u\<rparr>"
          by (auto simp: on_fs_Inr f(2))
        have k2: "bound q n f \<Longrightarrow> bound q n u" for q n using keepsD[OF kp _ u(1)] .
        show ?thesis
          by (rule reserved[OF f(1) u(1) abs _ False i(1,2), of i])
            (use continues(2) u(2) i k1 k2 in \<open>auto simp: bound_def\<close>)
      qed
    qed
  qed
qed

lemma publish_preserves:
  assumes "publish_output cfg v out probed st lg s = (r, t)" and "is_abs (cfg_root cfg)"
    and "is_abs probed" and "bound q n (sfs s)" and "outside q [st, dir_name st, lg, dir_name lg]"
  shows "bound q n (sfs t) \<or>
    bound probed n (sfs t) \<and> (\<exists>e. r = Inl e) \<and>
      (\<exists>k. clean_path q = clean_path (link_candidate (desired_path cfg v out) k)) \<and>
      clean_path q \<noteq> clean_path (join_path [cfg_root cfg, source_path v])"
  using assms(1,2)
proof (cases rule: publish_cases)
  case (stopped e)
  with assms(4) show ?thesis by blast
next
  case (reserved f final i k u)
  show ?thesis
  proof (cases "clean_path q = clean_path final")
    case False
    have "bound q n (sfs (s\<lparr>sfs := u\<rparr>))" using reserved(11) assms(4) by simp
    from keepsD[OF record_output_other[OF False assms(5)] this reserved(4)] show ?thesis by blast
  next
    case True
    then have "bound final n (sfs s)" using assms(4) by (simp add: bound_def node_at_def)
    with reserved(10) have n: "n = File i" by (auto simp: bound_def)
    have "bound q n (sfs (s\<lparr>sfs := u\<rparr>))" "bound probed n (sfs (s\<lparr>sfs := u\<rparr>))"
      using reserved(8,11) assms(4) n by simp_all
    from record_output_same[OF this reserved(3) assms(3,5) reserved(4)]
    have "bound q n (sfs t) \<or> bound probed n (sfs t) \<and> (\<exists>e. r = Inl e)" .
    moreover have "is_abs (join_path [cfg_root cfg, source_path v])" by (intro is_abs_join assms(2))
    then have "clean_path q \<noteq> clean_path (join_path [cfg_root cfg, source_path v])"
      using True reserved(3,7) by (simp add: same_path_def abs_path_def)
    ultimately show ?thesis using True reserved(6) by blast
  qed
qed

lemma upload_staging_Inr:
  "upload_staging_path rt src j = Inr st \<Longrightarrow> is_abs rt \<Longrightarrow> is_local src \<and> is_abs st"
  by (auto simp: upload_staging_path_def clean_path_abs is_abs_dir dir_name_def is_abs_join
      split: if_splits intro!: is_abs_join)

lemma stat_Inr: "os_stat p f = (Inr n, g) \<Longrightarrow> node_at f p = Some n \<and> (\<exists>fs. g = f\<lparr>io_faults := fs\<rparr>)"
  unfolding os_stat_def by (auto elim!: io_call_cases split: option.splits)

lemma find_upload_result:
  assumes "find_upload tmp st lg target f = (Inr p, g)"
  shows "p = st \<or> p = target"
  using assms unfolding find_upload_def
  by (auto elim!: bindP_InrE simp: retP_def failP_def split: sum.splits if_splits)

text \<open>A probed output is a file with a named video stream.\<close>

definition has_named_video :: "ffprobe_output \<Rightarrow> bool" where
  "has_named_video out \<longleftrightarrow>
    list_ex (\<lambda>st. codec_type st = ''video'' \<and> codec_name st \<noteq> []) (fo_streams out)"

lemma read_Inr:
  "os_read n f = (Inr bytes, g) \<Longrightarrow> \<exists>i. n = File i \<and> contents f i = bytes \<and> (\<exists>fs. g = f\<lparr>io_faults := fs\<rparr>)"
  unfolding os_read_def by (auto elim!: io_call_cases split: node.splits)

lemma probe_output_result:
  assumes "probe_output probe p f = (Inr out, g)"
  obtains i fs where "node_at f p = Some (File i)" "probe (contents f i) = Some out"
    "has_named_video out" "g = f\<lparr>io_faults := fs\<rparr>"
proof -
  from assms obtain n x y where "os_stat p f = (Inr n, x)" "os_read n x = (Inr y, g)"
    "probe y = Some out" "has_named_video out"
    unfolding probe_output_def os_open_def has_named_video_def
    by (auto elim!: bindP_InrE simp: tryP_def retP_def failP_def
        split: prod.splits sum.splits option.splits if_splits)
  with stat_Inr[of p f n x] read_Inr[of n x y g] that show ?thesis by auto
qed

text \<open>A staged upload is what is probed.\<close>

lemma find_upload_staged:
  assumes "node_at f st = Some n" and "find_upload tmp st lg target f = (Inr p, g)"
  shows "p = st \<and> (\<exists>fs. g = f\<lparr>io_faults := fs\<rparr>)"
proof -
  from assms(2) obtain r u where r: "tryP (os_stat st) f = ((Inr r, u) :: (server_error + (server_error + node)) \<times> _)"
    and c: "(case r of Inr _ \<Rightarrow> retP st
      | Inl e \<Rightarrow> if e \<noteq> FileNotExist then failP e
          else bindP (tryP (os_stat lg)) (\<lambda>lg'.
            case lg' of
              Inr _ \<Rightarrow> bindP (copy_upload tmp lg st) (\<lambda>_. retP st)
            | Inl f \<Rightarrow> if f = FileNotExist then retP target else failP f)) u = (Inr p, g)"
    unfolding find_upload_def by (elim bindP_InrE) blast
  from r have s: "os_stat st f = (r, u)" by (simp add: tryP_def split: prod.splits)
  then have "r = Inl OtherFileError \<or> (\<exists>m. r = Inr m)" using assms(1) unfolding os_stat_def
    by (elim io_call_cases) auto
  with c s show ?thesis using stat_Inr[of st f _ u] by (auto simp: failP_def retP_def)
qed

text \<open>The stages of \<open>completeJob\<close> before the publication.\<close>

lemma complete_cases:
  assumes "complete_job cfg probe tmp j s = (r, t)" and "is_abs (cfg_root cfg)"
    and "job_row_of (sdb s) j = Some row"
  obtains (stopped) e where "r = Inl e"
      "\<forall>q n. clean_path q \<noteq> clean_path tmp \<longrightarrow> bound q n (sfs s) \<longrightarrow> bound q n (sfs t)"
  | (publish) v st probed out i w d where "get_job j (sdb s) = (Inr v, d)" "read_of (sdb s) row v"
      "is_local (source_path v)" "upload_staging_path (cfg_root cfg) (source_path v) j = Inr st"
      "is_abs probed" "is_abs st" "node_at (sfs w) probed = Some (File i)"
      "probe (contents (sfs w) i) = Some out" "has_named_video out"
      "probed = st \<or> probed = join_path [cfg_root cfg, target_path v]"
      "publish_output cfg v out probed st (legacy_staging_path cfg j) w = (r, t)"
      "\<forall>q n. clean_path q \<noteq> clean_path tmp \<longrightarrow> bound q n (sfs s) \<longrightarrow> bound q n (sfs w)"
      "sdb w = d"
      "\<forall>n. node_at (sfs s) st = Some (File n) \<longrightarrow> i = n \<and> contents (sfs w) = contents (sfs s)"
proof -
  from assms(1) show ?thesis unfolding complete_job_def
  proof (cases rule: bindP_cases)
    case (fails e)
    then have "sfs t = sfs s" by (auto simp: on_db_def split: prod.splits)
    with fails show ?thesis by (intro stopped) simp_all
  next
    case (continues v s1)
    from continues(1) obtain d where d: "get_job j (sdb s) = (Inr v, d)" "s1 = s\<lparr>sdb := d\<rparr>"
      by (auto simp: on_db_Inr)
    from get_job_read[OF d(1)] assms(3) have rd: "read_of (sdb s) row v" "jr_id row = j" by auto
    then have jv: "jid v = j" by (simp add: read_of_def)
    show ?thesis
    proof (cases "is_local (source_path v) \<and> is_local (target_path v)")
      case False
      with continues(2) d(2) show ?thesis by (intro stopped[of NonLocalPath]) (auto simp: failP_def)
    next
      case True
      then obtain st where st: "upload_staging_path (cfg_root cfg) (source_path v) j = Inr st"
        by (auto simp: upload_staging_path_def)
      let ?tg = "join_path [cfg_root cfg, target_path v]"
      have run: "bindP (on_fs (find_upload tmp st (legacy_staging_path cfg j) ?tg)) (\<lambda>probed.
          bindP (on_fs (probe_output probe probed)) (\<lambda>out.
            publish_output cfg v out probed st (legacy_staging_path cfg j))) s1 = (r, t)"
        using continues(2) True st by (simp add: jv legacy_staging_path_def Let_def)
      have kf: "clean_path q \<noteq> clean_path tmp \<Longrightarrow> keeps (\<lambda>s. bound q n (sfs s))
          (on_fs (find_upload tmp st (legacy_staging_path cfg j) ?tg))" for q n
        by (intro keeps_intros)
      have kp: "keeps (\<lambda>s. bound q n (sfs s)) (on_fs (probe_output probe p))" for q n p
        by (intro keeps_intros)
      from run show ?thesis
      proof (cases rule: bindP_cases)
        case (fails e)
        with keepsD[OF kf _ fails(1)] d(2) show ?thesis by (intro stopped) auto
      next
        case (continues probed s2)
        have k2: "clean_path q \<noteq> clean_path tmp \<Longrightarrow> bound q n (sfs s) \<Longrightarrow> bound q n (sfs s2)" for q n
          using keepsD[OF kf _ continues(1)] d(2) by simp
        from continues(1) obtain f2 where
          f2: "find_upload tmp st (legacy_staging_path cfg j) ?tg (sfs s1) = (Inr probed, f2)" "s2 = s1\<lparr>sfs := f2\<rparr>"
          by (auto simp: on_fs_Inr)
        have abs: "is_abs st" "is_abs ?tg"
          using upload_staging_Inr[OF st assms(2)] is_abs_join[OF assms(2)] by auto
        from continues(2) show ?thesis
        proof (cases rule: bindP_cases)
          case (fails e)
          with keepsD[OF kp _ fails(1)] k2 show ?thesis by (intro stopped) auto
        next
          case (continues out w)
          then obtain g where g: "probe_output probe probed f2 = (Inr out, g)" "w = s2\<lparr>sfs := g\<rparr>"
            by (auto simp: on_fs_Inr f2(2))
          from probe_output_result[OF g(1)] obtain i fs where
            i: "node_at f2 probed = Some (File i)" "probe (contents f2 i) = Some out"
              "has_named_video out" "g = f2\<lparr>io_faults := fs\<rparr>" .
          have kw: "bound q n (sfs s2) \<Longrightarrow> bound q n (sfs w)" for q n
            using keepsD[OF kp _ continues(1)] by simp
          have staged: "\<forall>n. node_at (sfs s) st = Some (File n) \<longrightarrow> i = n \<and> contents (sfs w) = contents (sfs s)"
          proof (intro allI impI)
            fix n
            assume "node_at (sfs s) st = Some (File n)"
            then have "node_at (sfs s1) st = Some (File n)" by (simp add: d(2))
            from find_upload_staged[OF this f2(1)] obtain fs' where "probed = st" "f2 = sfs s1\<lparr>io_faults := fs'\<rparr>" by blast
            with i g(2) d(2) \<open>node_at (sfs s1) st = Some (File n)\<close>
            show "i = n \<and> contents (sfs w) = contents (sfs s)" by simp
          qed
          have "is_abs probed" using find_upload_result[OF f2(1)] abs by auto
          from publish[OF d(1) rd(1) _ st this abs(1) _ _ i(3) find_upload_result[OF f2(1)] continues(2)]
          show ?thesis using True i g(2) f2(2) d(2) k2 kw staged by auto
        qed
      qed
    qed
  qed
qed

section \<open>Nothing is overwritten\<close>

lemma complete_job_holds: "keeps (\<lambda>s. holds L f (sfs s)) (complete_job cfg probe tmp j)"
proof -
  have db: "keeps (\<lambda>s. holds L f (sfs s)) (on_db m)" for m by (rule keeps_fs_on_db)
  have find: "keeps (holds L f) (find_upload tmp st lg target)" for st lg target
    unfolding find_upload_def copy_upload_def copy_to_temporary_def by (intro holds_intros keeps_intros)
  have probe: "keeps (holds L f) (probe_output probe p)" for p
    unfolding probe_output_def by (intro holds_intros keeps_intros)
  have perm: "keeps (holds L f) (set_shared_output_permissions p)" for p
    unfolding set_shared_output_permissions_def by (intro holds_intros keeps_intros)
  have gone: "keeps (holds L f) (remove_upload_staging_file p)" for p
    unfolding remove_upload_staging_file_def by (intro holds_intros keeps_intros)
  show ?thesis
    unfolding complete_job_def publish_output_def record_output_def remove_unless_same_def clean_staging_def Let_def
    by (intro keeps_intros holds_intros find probe perm gone db)
qed

section \<open>What a completion records\<close>

text \<open>\<open>data_is c z m\<close>: file contents, sizes and modes are those given.\<close>

definition data_is :: "(nat \<Rightarrow> string) \<Rightarrow> (node \<Rightarrow> int) \<Rightarrow> (nat \<Rightarrow> int) \<Rightarrow> file_system \<Rightarrow> bool" where
  "data_is c z m f \<longleftrightarrow> contents f = c \<and> sizes f = z \<and> modes f = m"

lemma data_keeps_io:
  assumes "\<And>fs r t. m (s\<lparr>io_faults := fs\<rparr>) = (r, t) \<Longrightarrow> data_is c z d t" and "data_is c z d s"
    and "io_call m s = (r, t)"
  shows "data_is c z d t"
  using assms(3)
proof (cases rule: io_call_cases)
  case (fault fs)
  with assms(2) show ?thesis by (simp add: data_is_def)
next
  case (run fs)
  then show ?thesis by (rule assms(1))
qed

lemma data_stat [keeps_intros]: "keeps (data_is c z d) (os_stat p)"
  by (rule keepsI, unfold os_stat_def, erule data_keeps_io[rotated 2])
    (auto simp: data_is_def split: option.splits)

lemma data_remove [keeps_intros]: "keeps (data_is c z d) (os_remove p)"
  by (rule keepsI, unfold os_remove_def, erule data_keeps_io[rotated 2])
    (auto simp: data_is_def split: option.splits if_splits)

lemma data_link [keeps_intros]: "keeps (data_is c z d) (os_link a b)"
  by (rule keepsI, unfold os_link_def, erule data_keeps_io[rotated 2])
    (auto simp: data_is_def split: option.splits node.splits if_splits)

lemma data_link_output:
  "link_output fuel cwd st desired src k s = Some (r, t) \<Longrightarrow> data_is c z d s \<Longrightarrow> data_is c z d t"
proof (induction fuel arbitrary: k s)
  case 0
  then show ?case by simp
next
  case (Suc fuel)
  let ?c = "link_candidate desired k"
  obtain l s1 where l: "os_link st ?c s = (l, s1)" by fastforce
  obtain a s2 where a: "os_stat st s1 = (a, s2)" by fastforce
  obtain b s3 where b: "os_stat ?c s2 = (b, s3)" by fastforce
  have d: "data_is c z d s1" "data_is c z d s3"
    using keepsD[OF data_link Suc.prems(2) l] keepsD[OF data_stat _ a] keepsD[OF data_stat _ b] by blast+
  from Suc.prems(1) l a b d Suc.prems(2) show ?case
    by (auto simp: Let_def intro: Suc.IH split: if_splits sum.splits node.splits)
qed

lemma data_reserve [keeps_intros]: "keeps (data_is c z d) (reserve_output cwd st desired src)"
  by (rule keepsI)
    (auto simp: reserve_output_def link_output_without_overwrite_def intro: data_link_output
      split: option.splits)

lemma data_clean_staging [keeps_intros]: "keeps (\<lambda>s. data_is c z d (sfs s)) (clean_staging cwd final p)"
  unfolding clean_staging_def remove_upload_staging_file_def by (intro keeps_intros)

lemma permissions_set:
  assumes "set_shared_output_permissions p f = (Inr (), u)" and "node_at f p = Some (File i)"
  shows "modes u i = shared_output_file_mode" "contents u = contents f" "sizes u = sizes f"
    "names u = names f"
  using assms unfolding set_shared_output_permissions_def os_chmod_def
  by (auto elim!: io_call_cases)

lemma clean_staging_final:
  assumes "is_abs p" and "is_abs final" and "clean_path final \<noteq> clean_path (dir_name p)"
  shows "keeps (\<lambda>s. bound final n (sfs s)) (clean_staging cwd final p)"
  unfolding clean_staging_def
  by (intro keeps_intros) (use assms in \<open>auto simp: same_path_def abs_path_def\<close>)

lemma update_job_row:
  assumes "update_job v s = (Inr (), t)" and "job_row_of s (jid v) \<noteq> None"
  obtains sp tp where "job_row_of t (jid v) = Some (row_of_job v sp tp)"
    "marshal_probe (source_probe v) = Inr sp" "marshal_probe (target_probe v) = Inr tp"
proof -
  have row: "lookup_row jr_id (jid v) (map (\<lambda>r. if jr_id r = jid v then row_of_job v sp tp else r) rs) =
      Some (row_of_job v sp tp)" if "lookup_row jr_id (jid v) rs \<noteq> None" for rs sp tp
    using that by (induction rs) (auto simp: row_of_job_def split: if_splits)
  from assms show ?thesis unfolding update_job_def
    by (auto elim!: bindP_InrE statement_cases simp: liftP_def writeP_def job_row_of_def row intro: that)
qed

lemma marshal_Some: "marshal_probe p = Inr q \<Longrightarrow> q = p"
  by (auto simp: marshal_probe_def split: option.splits float64.splits)

lemma record_output_Inr:
  assumes "record_output cfg v probed final st lg mp s = (Inr (), t)"
    and "is_abs final" and "is_abs st" and "is_abs lg"
    and "clean_path final \<noteq> clean_path (dir_name st)" and "clean_path final \<noteq> clean_path (dir_name lg)"
    and "bound final n (sfs s)" and "data_is c z d (sfs s)"
  obtains rel where "rel_path (cfg_root cfg) final = Some rel" "bound final n (sfs t)"
    "data_is c z d (sfs t)"
    "update_job (v\<lparr>target_path := rel, target_size := z n, target_probe := Some mp\<rparr>) (sdb s) =
       (Inr (), sdb t)"
proof -
  from assms(1) obtain rel where rel: "rel_path (cfg_root cfg) final = Some rel"
    by (auto simp: record_output_def failP_def elim!: bindP_InrE split: option.splits)
  from assms(1) rel obtain n' f1 s2 uc where
    f1: "os_stat final (sfs s) = (Inr n', f1)"
    and up: "update_job (v\<lparr>target_path := rel, target_size := sizes f1 n', target_probe := Some mp\<rparr>) (sdb s) =
       (Inr (), s2)"
    and c1: "clean_staging (cfg_cwd cfg) final st (s\<lparr>sfs := f1, sdb := s2\<rparr>) = (Inr (), uc)"
    and c2: "clean_staging (cfg_cwd cfg) final lg uc = (Inr (), t)"
    by (auto simp: record_output_def on_fs_Inr os_size_def readP_def tryP_def on_db_def failP_def
        elim!: bindP_InrE split: prod.splits sum.splits)
  have cl: "bindP (clean_staging (cfg_cwd cfg) final st) (\<lambda>_. clean_staging (cfg_cwd cfg) final lg)
      (s\<lparr>sfs := f1, sdb := s2\<rparr>) = (Inr (), t)"
    by (simp add: bindP_run c1 c2)
  have n': "n' = n" using stat_Inr[OF f1] assms(7) by (simp add: bound_def)
  have "keeps (data_is c z d) (os_stat final)" "keeps (bound final n) (os_stat final)"
    by (intro keeps_intros)+
  from keepsD[OF this(1) assms(8) f1] keepsD[OF this(2) assms(7) f1]
  have d1: "data_is c z d f1" and b1: "bound final n f1" by simp_all
  have k1: "keeps (\<lambda>s. data_is c z d (sfs s))
      (bindP (clean_staging (cfg_cwd cfg) final st) (\<lambda>_. clean_staging (cfg_cwd cfg) final lg))"
    by (intro keeps_intros)
  have k2: "keeps (\<lambda>s. bound final n (sfs s))
      (bindP (clean_staging (cfg_cwd cfg) final st) (\<lambda>_. clean_staging (cfg_cwd cfg) final lg))"
    by (intro keeps_bind clean_staging_final assms)
  have k3: "keeps (\<lambda>s. sdb s = s2)
      (bindP (clean_staging (cfg_cwd cfg) final st) (\<lambda>_. clean_staging (cfg_cwd cfg) final lg))"
    unfolding clean_staging_def by (intro keeps_intros)
  from keepsD[OF k1 _ cl] keepsD[OF k2 _ cl] keepsD[OF k3 _ cl] d1 b1
  have "data_is c z d (sfs t)" "bound final n (sfs t)" "sdb t = s2" by simp_all
  with rel up d1 n' that[of rel] show ?thesis by (simp add: data_is_def)
qed

text \<open>The directories of the staged files are never the published name.\<close>

lemma upload_name_plain: "sep \<notin> set j \<Longrightarrow> plain_part (upload_staging_name j)"
  by (cases j; cases "tl j")
    (auto simp: plain_part_def upload_staging_name_def dot_def dotdot_def sep_def)

lemma staging_dir_plain: "plain_part ''.transcoderd-upload''"
  by (simp add: plain_part_def dot_def dotdot_def sep_def)

lemma staging_dirs:
  assumes "is_abs (cfg_root cfg)" and "sep \<notin> set j"
    and "upload_staging_path (cfg_root cfg) src j = Inr st"
  shows "\<exists>xs. dir_name st = render_path True (xs @ [''.transcoderd-upload'']) \<and> (\<forall>w\<in>set xs. plain_part w)"
    and "\<exists>xs. dir_name (legacy_staging_path cfg j) = render_path True (xs @ [''.transcoderd-upload'']) \<and>
      (\<forall>w\<in>set xs. plain_part w)"
    and "is_abs st" and "is_abs (legacy_staging_path cfg j)"
proof -
  note up = upload_name_plain[OF assms(2)]
  let ?d = "dir_name (join_path [cfg_root cfg, src])"
  have d: "is_abs ?d"
    using is_abs_dir[OF is_abs_join[OF assms(1), of "[src]"]] by (simp add: dir_name_def clean_path_abs)
  from assms(3) have "st = join_path [?d, ''.transcoderd-upload'', upload_staging_name j]"
    by (auto simp: upload_staging_path_def split: if_splits)
  then have st: "st = render_path True ((path_parts ?d @ [''.transcoderd-upload'']) @ [upload_staging_name j])"
    using join_plain2[OF d staging_dir_plain up] by simp
  have pd: "\<forall>w\<in>set (path_parts ?d @ [''.transcoderd-upload'']). plain_part w"
    using path_parts_plain[OF d] staging_dir_plain by auto
  show "\<exists>xs. dir_name st = render_path True (xs @ [''.transcoderd-upload'']) \<and> (\<forall>w\<in>set xs. plain_part w)"
    using dir_name_render[OF pd up] st path_parts_plain[OF d] by metis
  have r: "upload_staging_directory (cfg_root cfg) =
      render_path True (path_parts (cfg_root cfg) @ [''.transcoderd-upload''])"
    using join_plain[OF assms(1) staging_dir_plain] by (simp add: upload_staging_directory_def)
  have pr: "\<forall>w\<in>set (path_parts (cfg_root cfg) @ [''.transcoderd-upload'']). plain_part w"
    using path_parts_plain[OF assms(1)] staging_dir_plain by auto
  have lg: "legacy_staging_path cfg j =
      render_path True ((path_parts (cfg_root cfg) @ [''.transcoderd-upload'']) @ [upload_staging_name j])"
    using join_plain[OF is_abs_render up, of "path_parts (cfg_root cfg) @ [''.transcoderd-upload'']"]
      path_parts_render[OF pr] by (simp add: legacy_staging_path_def r)
  show "\<exists>xs. dir_name (legacy_staging_path cfg j) = render_path True (xs @ [''.transcoderd-upload'']) \<and>
      (\<forall>w\<in>set xs. plain_part w)"
    using dir_name_render[OF pr up] lg path_parts_plain[OF assms(1)] by metis
  show "is_abs st" "is_abs (legacy_staging_path cfg j)" by (simp_all only: st lg is_abs_render)
qed

text \<open>The name a publication reserves, in relation to the library root and the staging names.\<close>

lemma published_name:
  assumes "is_abs (cfg_root cfg)" and "is_local (source_path v)" and "sep \<notin> set j"
    and "sep \<notin> set (output_codec [] (fo_streams out))"
    and "upload_staging_path (cfg_root cfg) (source_path v) j = Inr st"
    and "final = link_candidate (desired_path cfg v out) k"
  obtains rel b where "rel_path (cfg_root cfg) final = Some rel" "join_path [cfg_root cfg, rel] = final"
    "is_local rel" "rel = b @ ''.mkv''"
    "clean_path final \<noteq> clean_path (dir_name st)"
    "clean_path final \<noteq> clean_path (dir_name (legacy_staging_path cfg j))"
proof -
  from link_candidate_parts[OF assms(1,2,4) assms(6)[unfolded desired_path_def]] obtain ds f where
    f: "final = render_path True (path_parts (cfg_root cfg) @ ds @ [f])" "mkv_file f"
      "\<forall>w\<in>set ds. plain_part w" .
  then have pl: "\<forall>w\<in>set (ds @ [f]). plain_part w" by (auto simp: mkv_file_def)
  note rel = rel_path_below[OF assms(1) _ pl]
  have plr: "\<forall>w\<in>set ((path_parts (cfg_root cfg) @ ds) @ [f]). plain_part w"
    using pl path_parts_plain[OF assms(1)] by auto
  have nf: "f \<noteq> ''.transcoderd-upload''" using mkv_not_upload[OF f(2), of "''.transcoderd-''"] by simp
  have ne: "clean_path final \<noteq> clean_path (render_path True (xs @ [''.transcoderd-upload'']))"
    if "\<forall>w\<in>set xs. plain_part w" for xs
    using render_last_neq[OF plr _ nf, of xs] that staging_dir_plain f(1) by auto
  from f(2) obtain b where b: "f = b @ ''.mkv''" by (auto simp: mkv_file_def)
  obtain a where a: "render_path False (ds @ [f]) = a @ f"
    by (cases "ds = []") (auto simp: render_path_def join_with_snoc intro: that[of "_ @ [_]"])
  have "clean_path final \<noteq> clean_path (dir_name st)"
    "clean_path final \<noteq> clean_path (dir_name (legacy_staging_path cfg j))"
    using staging_dirs(1,2)[OF assms(1,3,5)] ne by metis+
  then show ?thesis
    by (intro that[of "render_path False (ds @ [f])" "a @ b"])
      (use rel f(1) local_render_rel[OF _ pl] a b in simp_all)
qed

lemma update_job_target:
  assumes "update_job (v\<lparr>target_path := p, target_size := z, target_probe := Some m\<rparr>) s = (Inr (), t)"
    and "job_row_of s (jid v) \<noteq> None"
  obtains sp where "job_row_of t (jid v) = Some \<lparr>jr_id = jid v, jr_source_path = source_path v,
    jr_target_path = p, jr_source_size = source_size v, jr_target_size = z, jr_source_probe = sp,
    jr_target_probe = Some m\<rparr>"
proof -
  have ne: "job_row_of s (jid (v\<lparr>target_path := p, target_size := z, target_probe := Some m\<rparr>)) \<noteq> None"
    using assms(2) by simp
  show ?thesis
  proof (rule update_job_row[OF assms(1) ne])
    fix sp tp
    assume a: "job_row_of t (jid (v\<lparr>target_path := p, target_size := z, target_probe := Some m\<rparr>)) =
        Some (row_of_job (v\<lparr>target_path := p, target_size := z, target_probe := Some m\<rparr>) sp tp)"
      and "marshal_probe (target_probe (v\<lparr>target_path := p, target_size := z, target_probe := Some m\<rparr>)) = Inr tp"
    from marshal_Some[OF this(2)] have "tp = Some m" by simp
    with a show ?thesis by (intro that[of sp]) (simp add: row_of_job_def)
  qed
qed

text \<open>What a completion that returns without error has done.\<close>

lemma complete_job_effect:
  assumes "complete_job cfg probe tmp j s = (Inr (), t)" and "is_abs (cfg_root cfg)"
    and "job_row_of (sdb s) j = Some row" and "sep \<notin> set j"
    and "\<And>b z. probe b = Some z \<Longrightarrow> sep \<notin> set (output_codec [] (fo_streams z))"
  shows "\<exists>row' i out final. job_row_of (sdb t) j = Some row' \<and>
    final = join_path [cfg_root cfg, jr_target_path row'] \<and> is_local (jr_target_path row') \<and>
    (\<exists>b. jr_target_path row' = b @ ''.mkv'') \<and>
    \<not> same_path (cfg_cwd cfg) final (join_path [cfg_root cfg, jr_source_path row]) \<and>
    bound final (File i) (sfs t) \<and> modes (sfs t) i = shared_output_file_mode \<and>
    probe (contents (sfs t) i) = Some out \<and> has_named_video out \<and>
    jr_target_size row' = sizes (sfs t) (File i) \<and> jr_target_probe row' = Some (output_probe out) \<and>
    (\<forall>st n. upload_staging_path (cfg_root cfg) (jr_source_path row) j = Inr st \<and> node_at (sfs s) st = Some (File n) \<longrightarrow>
      i = n \<and> contents (sfs t) n = contents (sfs s) n) \<and>
    jr_source_path row' = jr_source_path row"
  using assms(1-3)
proof (cases rule: complete_cases)
  case (stopped e)
  then show ?thesis by simp
next
  case (publish v st probed out i w d)
  have src: "source_path v = jr_source_path row" "jid v = j"
    using publish(2) assms(3) lookup_row_Some[of jr_id j "jobs_t (sdb s)" row]
    by (simp_all add: read_of_def job_row_of_def)
  note dirs = staging_dirs(3,4)[OF assms(2,4) publish(4)]
  have codec: "sep \<notin> set (output_codec [] (fo_streams out))" using assms(5) publish(8) .
  from publish(11) assms(2) show ?thesis
  proof (cases rule: publish_cases)
    case (stopped e)
    then show ?thesis by simp
  next
    case (reserved f final i' k u)
    have i': "i' = i" using reserved(8) publish(7) by (simp add: bound_def)
    from published_name[OF assms(2) publish(3) assms(4) codec publish(4) reserved(6)] obtain rel b where
      rel: "rel_path (cfg_root cfg) final = Some rel" "join_path [cfg_root cfg, rel] = final"
        "is_local rel" "rel = b @ ''.mkv''" "clean_path final \<noteq> clean_path (dir_name st)"
        "clean_path final \<noteq> clean_path (dir_name (legacy_staging_path cfg j))" .
    have "keeps (data_is (contents (sfs w)) (sizes (sfs w)) (modes (sfs w)))
        (reserve_output (cfg_cwd cfg) probed (desired_path cfg v out)
          (join_path [cfg_root cfg, source_path v]))" by (intro keeps_intros)
    from keepsD[OF this _ reserved(1)] have f: "contents f = contents (sfs w)" "sizes f = sizes (sfs w)"
      by (simp_all add: data_is_def)
    have "node_at f final = Some (File i)"
      using reserve_result[OF reserved(1)] reserved(8) i' by (metis bound_def option.inject)
    note perm = permissions_set[OF reserved(2) this]
    have b: "bound final (File i) (sfs (w\<lparr>sfs := u\<rparr>))" using reserved(9) i' by simp
    have dat: "data_is (contents u) (sizes u) (modes u) (sfs (w\<lparr>sfs := u\<rparr>))" by (simp add: data_is_def)
    from record_output_Inr[OF reserved(4,3) dirs rel(5,6) b dat] rel(1) have
      fin: "bound final (File i) (sfs t)" "data_is (contents u) (sizes u) (modes u) (sfs t)"
        "update_job (v\<lparr>target_path := rel, target_size := sizes u (File i),
           target_probe := Some (output_probe out)\<rparr>) (sdb w) = (Inr (), sdb t)"
      by auto
    have "job_row_of (sdb w) j \<noteq> None"
      using reads_onlyD[OF reads_get_job publish(1)] publish(13) assms(3) by (metis faults_blind(2) option.discI)
    then have "job_row_of (sdb w) (jid v) \<noteq> None" using src(2) by simp
    from update_job_target[OF fin(3) this] obtain sp where
      row: "job_row_of (sdb t) j = Some \<lparr>jr_id = jid v, jr_source_path = source_path v,
        jr_target_path = rel, jr_source_size = source_size v, jr_target_size = sizes u (File i),
        jr_source_probe = sp, jr_target_probe = Some (output_probe out)\<rparr>"
      unfolding src(2) .
    show ?thesis
      by (rule exI, rule exI[of _ i], rule exI[of _ out], rule exI[of _ final], rule conjI[OF row])
        (use rel fin(1,2) perm(1,2) f publish(4,8,9,14) reserved(7) src(1) in \<open>auto simp: data_is_def\<close>)
  qed
qed

end
