(* ===== verification/Maintenance.thy ===== *)
theory Maintenance
  imports Publication
begin

text \<open>
  The rest of the scheduler: streams to and from workers (\<open>GetDownloadJobWriter\<close>,
  \<open>GetUploadJobWriter\<close>, \<open>GetChecksum\<close>, \<open>streams.go\<close>) and the periodic
  maintenance. SHA-256 is a parameter \<open>digest\<close>; random identifiers
  are arguments.
\<close>

section \<open>Which failures are retried\<close>

text \<open>\<open>simpleRegex\<close> searches a pattern anywhere, both sides in lower case. The patterns of
  \<open>verifyFailureMessage\<close> use three things beyond literal text: \<open>.\<close> for any character except a
  line feed, and one optional \<open>(n)?\<close>, written here as its two variants.\<close>

datatype pattern_char = Any | Char char

definition pattern_of :: "string \<Rightarrow> pattern_char list" where
  "pattern_of s = map (\<lambda>c. if c = CHR ''.'' then Any else Char (lower_char c)) s"

fun match_here :: "pattern_char list \<Rightarrow> string \<Rightarrow> bool" where
  "match_here [] s = True"
| "match_here (p # ps) [] = False"
| "match_here (p # ps) (c # s) =
     ((case p of Any \<Rightarrow> c \<noteq> CHR 0x0A | Char d \<Rightarrow> c = d) \<and> match_here ps s)"

fun search :: "pattern_char list \<Rightarrow> string \<Rightarrow> bool" where
  "search ps [] = match_here ps []"
| "search ps (c # s) = (match_here ps (c # s) \<or> search ps s)"

definition simple_regex :: "string \<Rightarrow> string \<Rightarrow> bool" where
  "simple_regex pat msg \<longleftrightarrow> search (pattern_of pat) (to_lower msg)"

text \<open>The sequence of tests: the first that applies decides.\<close>

definition failure_rules :: "(string list \<times> bool) list" where
  "failure_rules =
    [([''job not found''], False),
     ([''runtime error: index out of range''], False),
     ([''not 200 respose in dowload code 404''], False),
     ([''source File size ''], False),
     ([''source File duration ''], False),
     ([''Disk quota exceeded'', ''No space left on device''], True),
     ([''MKVExtract unexpected error''], True),
     ([''download code 500'', ''dowload code 500''], True)]"

definition failure_rules_2 :: "(string list \<times> bool) list" where
  "failure_rules_2 =
    [([''runtime error: invalid memory address or nil pointer dereference''], True),
     ([''CHecksum error on download source''], True),
     ([''maybe incorrect parameters such as bit_rate'', ''Could not find codec parameters for stream''], True),
     ([''GLIBC_2.34 not found'', ''libc.so.6: version''], True),
     ([''received signal 15''], True),
     ([''no such host'', ''server misbehaving'', ''i/o timeout'',
       ''connection failed because connected host has failed to respond''], True),
     ([''connection refused''], True),
     ([''with 0 items''], False),
     ([''Subtitle: mov_text''], True),
     ([''unsupported AVCodecID S_TEXT/WEBVTT''], True),
     ([''Errorf while decoding stream''], False),
     ([''Data: bin_data''], False),
     ([''scale/rate is 0/0 which is invalid''], False),
     ([''probably corrupt input''], False)]"

fun first_rule :: "(string list \<times> bool) list \<Rightarrow> string \<Rightarrow> bool option" where
  "first_rule [] msg = None"
| "first_rule ((pats, b) # rs) msg =
     (if list_ex (\<lambda>p. simple_regex p msg) pats then Some b else first_rule rs msg)"

definition verify_failure_message :: "string \<Rightarrow> bool" where
  "verify_failure_message msg =
    (case first_rule failure_rules msg of
       Some b \<Rightarrow> b
     | None \<Rightarrow> if msg = ''exit status 1: stder: stdout:'' then True
         else (case first_rule failure_rules_2 msg of Some b \<Rightarrow> b | None \<Rightarrow> False))"

section \<open>Periodic maintenance\<close>

definition progress_job_maintenance :: "int \<Rightarrow> unit db_op" where
  "progress_job_maintenance now =
    bindP get_all_progress_jobs (\<lambda>ps. forP ps (\<lambda>p.
      if 24 * 3600 * 10 ^ 9 < now - pg_event_time p
      then delete_progress_job (progress_id p) (pg_type p) else retP ()))"

text \<open>A queued job whose source is gone fails.\<close>

definition queued_job_maintenance :: "server_config \<Rightarrow> int \<Rightarrow> unit server_op" where
  "queued_job_maintenance cfg now =
    bindP (on_db (get_jobs_by_status JobNotification Queued)) (\<lambda>vs. forP vs (\<lambda>v.
      bindP (tryP (on_fs (os_stat (join_path [cfg_root cfg, source_path v])))) (\<lambda>st.
        case st of
          Inl e \<Rightarrow> if e = FileNotExist
            then on_db (add_new_task_event now (fst (add_event_complete now JobNotification Failed
                   ''job source file not found'' v)))
            else retP ()
        | Inr _ \<Rightarrow> retP ())))"

definition retry_request :: "job \<Rightarrow> job_request" where
  "retry_request v = \<lparr>rq_source_probe = None, rq_source_path = source_path v,
     force_completed = False, force_failed = True, force_canceled = False, force_assigned = False,
     rq_source_size = 0, rq_target_path = target_path v\<rparr>"

text \<open>A failed job is retried for the failures that may pass, and canceled once it failed more than
  ten times.\<close>

definition failed_job_step ::
  "int \<Rightarrow> (uuid \<Rightarrow> uuid) \<Rightarrow> (string \<Rightarrow> media_probe option) \<Rightarrow> string \<Rightarrow> job \<Rightarrow> unit db_op" where
  "failed_job_step now fresh ffprobe rt v =
    (if \<not> verify_failure_message (status_message v) then retP ()
     else if 10 < length (filter_by JobNotification Failed (events v))
     then add_new_task_event now (fst (add_event_complete now JobNotification Canceled
            ''Job canceled by system, because of too many failed attempts'' v))
     else bindP (schedule_job_request False now (fresh (jid v)) ffprobe rt (retry_request v)) (\<lambda>_. retP ()))"

definition failed_job_maintenance ::
  "server_config \<Rightarrow> int \<Rightarrow> (uuid \<Rightarrow> uuid) \<Rightarrow> (string \<Rightarrow> media_probe option) \<Rightarrow> unit db_op" where
  "failed_job_maintenance cfg now fresh ffprobe =
    bindP (get_jobs_by_status JobNotification Failed) (\<lambda>vs.
      forP vs (failed_job_step now fresh ffprobe (cfg_root cfg)))"

definition timeout_request :: "job \<Rightarrow> job_request" where
  "timeout_request v = \<lparr>rq_source_probe = None, rq_source_path = source_path v,
     force_completed = False, force_failed = False, force_canceled = False, force_assigned = True,
     rq_source_size = 0, rq_target_path = target_path v\<rparr>"

definition assigned_job_step ::
  "int \<Rightarrow> (uuid \<Rightarrow> uuid) \<Rightarrow> (string \<Rightarrow> media_probe option) \<Rightarrow> string \<Rightarrow> task_event \<Rightarrow> unit db_op" where
  "assigned_job_step now fresh ffprobe rt e =
    (if is_assigned e
     then bindP (get_job (job_id e)) (\<lambda>v.
       bindP (schedule_job_request False now (fresh (jid v)) ffprobe rt (timeout_request v))
         (\<lambda>_. retP ()))
     else retP ())"

definition assigned_job_maintenance ::
  "server_config \<Rightarrow> int \<Rightarrow> (uuid \<Rightarrow> uuid) \<Rightarrow> (string \<Rightarrow> media_probe option) \<Rightarrow> unit db_op" where
  "assigned_job_maintenance cfg now fresh ffprobe =
    bindP (get_timeout_jobs now (cfg_job_timeout cfg)) (\<lambda>es.
      forP es (assigned_job_step now fresh ffprobe (cfg_root cfg)))"

definition job_maintenance ::
  "server_config \<Rightarrow> int \<Rightarrow> (uuid \<Rightarrow> uuid) \<Rightarrow> (string \<Rightarrow> media_probe option) \<Rightarrow> unit server_op" where
  "job_maintenance cfg now fresh ffprobe =
    bindP (queued_job_maintenance cfg now) (\<lambda>_.
      bindP (on_db (failed_job_maintenance cfg now fresh ffprobe)) (\<lambda>_.
        on_db (assigned_job_maintenance cfg now fresh ffprobe)))"

section \<open>Downloads\<close>

record download_stream =
  dl_path :: string
  dl_node :: node
  dl_size :: int
  dl_name :: string
  dl_read :: "string option"

definition get_download_job_writer :: "server_config \<Rightarrow> uuid \<Rightarrow> string \<Rightarrow> download_stream server_op" where
  "get_download_job_writer cfg j worker =
    bindP (on_db (is_valid_streamable_job j worker)) (\<lambda>v.
      if \<not> is_local (source_path v) then failP NonLocalPath
      else (let path = join_path [cfg_root cfg, source_path v]
            in bindP (tryP (on_fs (os_open path))) (\<lambda>f.
              case f of
                Inl e \<Rightarrow> failP (if e = FileNotExist then ErrJobNotFound else e)
              | Inr n \<Rightarrow> bindP (on_fs (os_size n)) (\<lambda>sz.
                  retP \<lparr>dl_path = path, dl_node = n, dl_size = sz, dl_name = base_name path,
                    dl_read = None\<rparr>))))"

text \<open>\<open>Read\<close> hashes what it hands out; \<open>None\<close> stands for a hasher never created.\<close>

definition download_read :: "string \<Rightarrow> download_stream \<Rightarrow> download_stream" where
  "download_read bytes d = d\<lparr>dl_read := Some ((case dl_read d of None \<Rightarrow> [] | Some b \<Rightarrow> b) @ bytes)\<rparr>"

definition download_close ::
  "(string \<Rightarrow> string) \<Rightarrow> bool \<Rightarrow> download_stream \<Rightarrow> unit server_op" where
  "download_close digest push_checksum d =
    bindP (on_fs os_flush) (\<lambda>_. case dl_read d of
        None \<Rightarrow> retP ()
      | Some bytes \<Rightarrow> if push_checksum
          then writeP (\<lambda>s. s\<lparr>checksums := (dl_path d, digest bytes) # checksums s\<rparr>)
          else retP ())"

definition get_checksum :: "server_config \<Rightarrow> uuid \<Rightarrow> string server_op" where
  "get_checksum cfg j =
    bindP (on_db (get_job j)) (\<lambda>v.
      bindP (readP (\<lambda>s. map_of (checksums s) (join_path [cfg_root cfg, source_path v]))) (\<lambda>c.
        case c of
          None \<Rightarrow> failP ChecksumMissing
        | Some x \<Rightarrow> if x = [] then failP ChecksumMissing else retP x))"

section \<open>Uploads\<close>

record upload_stream =
  up_attempt :: string
  up_staging :: string
  up_inode :: nat
  up_hashed :: "string option"

text \<open>\<open>uuid.Parse\<close> is a parameter, as is the random part of the attempt's name. The attempt file is
  created once more when its directory vanished in between.\<close>

definition open_attempt :: "string \<Rightarrow> string \<Rightarrow> nat fs_op" where
  "open_attempt dir attempt =
    bindP (tryP (os_create_new attempt 384)) (\<lambda>r.
      case r of
        Inr i \<Rightarrow> retP i
      | Inl e \<Rightarrow> if e = FileNotExist
          then bindP (os_mkdir_all dir) (\<lambda>_. os_create_new attempt 384)
          else failP e)"

definition get_upload_job_writer ::
  "(string \<Rightarrow> uuid option) \<Rightarrow> server_config \<Rightarrow> string \<Rightarrow> string \<Rightarrow> string \<Rightarrow> upload_stream server_op" where
  "get_upload_job_writer parse cfg random jobid worker =
    (case parse jobid of
       None \<Rightarrow> failP InvalidJobId
     | Some j \<Rightarrow>
       bindP (on_db (is_valid_streamable_job j worker)) (\<lambda>v.
         if \<not> is_local (source_path v) \<or> \<not> is_local (target_path v) then failP NonLocalPath
         else (case upload_staging_path (cfg_root cfg) (source_path v) (jid v) of
             Inl e \<Rightarrow> failP e
           | Inr temporal \<Rightarrow>
             (case rel_path (cfg_root cfg) temporal of
                None \<Rightarrow> failP NonLocalPath
              | Some staging \<Rightarrow>
                  if \<not> is_local staging then failP NonLocalPath
                  else bindP (on_fs (os_mkdir_all (dir_name temporal))) (\<lambda>_.
                    (let attempt = join_path [cfg_root cfg, dir_name staging,
                           ''.'' @ upload_staging_name (jid v) @ ''-'' @ random @ ''.tmp'']
                     in bindP (on_fs (open_attempt (dir_name temporal) attempt)) (\<lambda>i.
                          retP \<lparr>up_attempt = attempt, up_staging = join_path [cfg_root cfg, staging],
                            up_inode = i, up_hashed = None\<rparr>)))))))"

text \<open>What \<open>Write\<close> has hashed so far; \<open>None\<close> before the first write, when there is no hasher.\<close>

definition hashed_bytes :: "upload_stream \<Rightarrow> string" where
  "hashed_bytes u = (case up_hashed u of None \<Rightarrow> [] | Some b \<Rightarrow> b)"

text \<open>\<open>Write\<close> hashes the bytes before it writes them, so they count as hashed even when the write fails.\<close>

definition upload_write :: "string \<Rightarrow> upload_stream \<Rightarrow> ((server_error + unit) \<times> upload_stream) fs_op" where
  "upload_write bytes u =
    bindP (tryP (os_write (up_inode u) bytes)) (\<lambda>r. retP (r, u\<lparr>up_hashed := Some (hashed_bytes u @ bytes)\<rparr>))"

definition upload_close :: "upload_stream \<Rightarrow> unit fs_op" where
  "upload_close u = bindP os_flush (\<lambda>_. os_flush)"

text \<open>\<open>Commit\<close>: the attempt becomes the staged upload; one that is already staged must have the same
  contents. \<open>GetHash\<close> without a hasher panics.\<close>

definition upload_commit :: "(string \<Rightarrow> string) \<Rightarrow> upload_stream \<Rightarrow> unit fs_op" where
  "upload_commit digest u =
    bindP (tryP (os_link (up_attempt u) (up_staging u))) (\<lambda>r.
      case r of
        Inr _ \<Rightarrow> retP ()
      | Inl e \<Rightarrow> if e \<noteq> FileExists then failP e
          else bindP (bindP (os_open (up_staging u)) os_read) (\<lambda>bytes.
            case up_hashed u of
              None \<Rightarrow> failP NilDereference
            | Some h \<Rightarrow> if digest bytes \<noteq> digest h then failP OtherFileError else retP ()))"

text \<open>The first \<open>Clean\<close>; later ones find the root closed and do nothing.\<close>

definition upload_clean :: "upload_stream \<Rightarrow> unit fs_op" where
  "upload_clean u =
    bindP (tryP (os_remove (up_attempt u))) (\<lambda>r.
      case r of Inr _ \<Rightarrow> retP () | Inl e \<Rightarrow> if e = FileNotExist then retP () else failP e)"

end
