(* ===== verification/Server_Steps.thy ===== *)
theory Server_Steps
  imports Publication_Correct Maintenance
begin

text \<open>
  The server as a transition system. The mutexes of the source serialise the scheduler's methods,
  so a run of the server is a sequence of whole calls: requests for jobs, intake, cancellation,
  worker events, settings and commands, streams, and the maintenance ticks, in any order and with
  any arguments, every statement and file operation free to fail. The invariants of all reachable
  states are proved here by rule induction: the database stays consistent, no two jobs share a
  source, and the event logs only grow.
\<close>

section \<open>Frames\<close>

lemma keeps_statement_any:
  assumes "\<And>s fs. J (s\<lparr>faults := fs\<rparr>) = J s" and "keeps J m"
  shows "keeps J (statement m)"
proof (rule keepsI)
  fix s r t
  assume s: "J s" and "statement m s = (r, t)"
  from this(2) show "J t"
  proof (cases rule: statement_cases)
    case (fault fs)
    with s assms(1) show ?thesis by simp
  next
    case (run fs)
    with keepsD[OF assms(2), of "s\<lparr>faults := fs\<rparr>"] s assms(1) show ?thesis by simp
  qed
qed

text \<open>What an operation that writes no job row leaves alone: \<open>rows_are\<close>. What none ever undoes:
  \<open>grown j l\<close>, the log of \<open>j\<close> extends \<open>l\<close>.\<close>

definition rows_are :: "(uuid \<times> string) list \<Rightarrow> sql_db \<Rightarrow> bool" where
  "rows_are ks d \<longleftrightarrow> map (\<lambda>r. (jr_id r, jr_source_path r)) (jobs_t d) = ks"

definition grown :: "uuid \<Rightarrow> task_events \<Rightarrow> sql_db \<Rightarrow> bool" where
  "grown j l d \<longleftrightarrow> (\<exists>es. job_log d j = l @ es)"

text \<open>\<open>framed J\<close>: a predicate that only depends on the job rows and the events, and only grows
  with the latter.\<close>

definition framed :: "(sql_db \<Rightarrow> bool) \<Rightarrow> bool" where
  "framed J \<longleftrightarrow> (\<exists>ks. J = rows_are ks) \<or> (\<exists>j l. J = grown j l)"

lemma framed_intros [intro!, simp]: "framed (rows_are ks)" "framed (grown j l)"
  by (auto simp: framed_def)

lemma framed_same: "framed J \<Longrightarrow> J d \<Longrightarrow> jobs_t d' = jobs_t d \<Longrightarrow> events_t d' = events_t d \<Longrightarrow> J d'"
  by (auto simp: framed_def rows_are_def grown_def job_log_def)

lemma framed_statement:
  assumes "framed J" and "keeps J m"
  shows "keeps J (statement m)"
proof -
  have "J (s\<lparr>faults := fs\<rparr>) = J s" for s fs
    using framed_same[OF assms(1), of s "s\<lparr>faults := fs\<rparr>"] framed_same[OF assms(1), of "s\<lparr>faults := fs\<rparr>" s]
    by auto
  then show ?thesis by (rule keeps_statement_any[OF _ assms(2)])
qed

lemma framed_read: "framed J \<Longrightarrow> keeps J (statement (readP f))"
  by (intro framed_statement keeps_read)

lemma framed_write:
  "framed J \<Longrightarrow> (\<And>s. jobs_t (f s) = jobs_t s \<and> events_t (f s) = events_t s) \<Longrightarrow>
    keeps J (statement (writeP f))"
  by (intro framed_statement keeps_write) (auto intro: framed_same)

lemma framed_add_event: "framed J \<Longrightarrow> keeps J (add_new_task_event now e)"
proof (rule keepsI)
  fix s r t
  assume J: "framed J" "J s" and a: "add_new_task_event now e s = (r, t)"
  show "J t"
  proof (cases "\<exists>ks. J = rows_are ks")
    case True
    then obtain ks where ks: "J = rows_are ks" by blast
    from a have "jobs_t t = jobs_t s"
      by (cases rule: add_new_task_event_cases) (auto dest: insert_event_Inr(2))
    with ks J(2) show ?thesis by (simp add: rows_are_def)
  next
    case False
    with J(1) obtain j l where "J = grown j l" by (auto simp: framed_def)
    with sql.append_extends[OF a, of j] J(2) show ?thesis by (auto simp: grown_def)
  qed
qed

lemma framed_reads:
  assumes "framed J" and "reads_only m"
  shows "keeps J m"
proof (rule keepsI)
  fix s r t
  assume "J s" and "m s = (r, t)"
  from reads_onlyD[OF assms(2) this(2)] obtain fs where "t = s\<lparr>faults := fs\<rparr>" .
  with \<open>J s\<close> show "J t" by (auto intro: framed_same[OF assms(1)])
qed

lemma framed_simple:
  assumes "framed J"
  shows "keeps J (ping_server_update now a n rt)" "keeps J (progress_job now p)"
    "keeps J (delete_progress_job pid nt)" "keeps J (set_worker_max_active_jobs n m)"
    "keeps J (set_worker_settings n ws)" "keeps J (set_worker_control n c)"
    "keeps J (ack_worker_control n k)" "keeps J (put_media_probe x y z u mp)"
    "keeps J get_all_progress_jobs" "keeps J (get_timeout_jobs now tm)"
    "keeps J (get_worker_resume_settings n)" "keeps J (get_worker_control n)"
proof -
  have up: "keeps J (upsert_settings f new)" for f new
    unfolding upsert_settings_def
    by (intro framed_statement[OF assms] keepsI)
      (auto simp: Let_def intro: framed_same[OF assms] split: if_splits)
  show "keeps J (ping_server_update now a n rt)" "keeps J (delete_progress_job pid nt)"
    unfolding ping_server_update_def delete_progress_job_def Let_def
    by (intro framed_write[OF assms]; simp)+
  show "keeps J (progress_job now p)"
    unfolding progress_job_def
    by (intro framed_statement[OF assms] keepsI)
      (auto intro: framed_same[OF assms] split: if_splits)
  show m: "keeps J (set_worker_max_active_jobs n m)" for n m
    unfolding set_worker_max_active_jobs_def by (intro keeps_if keeps_fail up)
  show "keeps J (set_worker_settings n ws)"
    unfolding set_worker_settings_def store_pair_def
    by (intro keeps_intros m up)
  show "keeps J (set_worker_control n c)" "keeps J (ack_worker_control n k)"
    unfolding set_worker_control_def ack_worker_control_def
    by (intro framed_statement[OF assms] keepsI,
        auto simp: Let_def intro: framed_same[OF assms]
          split: if_splits option.splits prod.splits)+
  show "keeps J (put_media_probe x y z u mp)"
    unfolding put_media_probe_def Let_def by (intro keeps_intros framed_write[OF assms]) simp
  show "keeps J get_all_progress_jobs" "keeps J (get_timeout_jobs now tm)"
    "keeps J (get_worker_resume_settings n)" "keeps J (get_worker_control n)"
    unfolding get_all_progress_jobs_def get_timeout_jobs_def get_worker_resume_settings_def
      get_worker_control_def by (intro framed_read[OF assms])+
qed

lemma framed_transaction:
  assumes "framed J" and "keeps J m"
  shows "keeps J (with_transaction m)"
proof (rule keepsI)
  fix s r t
  assume s: "J s" and t: "with_transaction m s = (r, t)"
  show "J t"
  proof (cases r)
    case (Inl e)
    with transaction_failed t have "t = s\<lparr>faults := faults t\<rparr>" by metis
    then have "jobs_t t = jobs_t s" "events_t t = events_t s" by (metis sql_db.select_convs sql_db.surjective sql_db.update_convs(9))+
    with s show ?thesis by (auto intro: framed_same[OF assms(1)])
  next
    case (Inr x)
    with t obtain fs u fs' where u: "m (s\<lparr>faults := fs\<rparr>) = (Inr x, u)" "t = u\<lparr>faults := fs'\<rparr>"
      by (metis transaction_committed)
    have "J (s\<lparr>faults := fs\<rparr>)" using s by (auto intro: framed_same[OF assms(1)])
    with keepsD[OF assms(2) this u(1)] u(2) show ?thesis by (auto intro: framed_same[OF assms(1)])
  qed
qed

lemmas grown_rules [keeps_intros] =
  framed_add_event[OF framed_intros(2)] framed_simple[OF framed_intros(2)]
  framed_transaction[OF framed_intros(2)]

lemmas rows_rules [keeps_intros] =
  framed_add_event[OF framed_intros(1)] framed_simple[OF framed_intros(1)]
  framed_transaction[OF framed_intros(1)]

lemmas grown_reads [keeps_intros] =
  reads_get_job[THEN framed_reads[OF framed_intros(2)]]
  reads_get_job_by_path[THEN framed_reads[OF framed_intros(2)]]
  reads_retrieve[THEN framed_reads[OF framed_intros(2)]]
  reads_get_worker[THEN framed_reads[OF framed_intros(2)]]

lemmas rows_reads [keeps_intros] =
  reads_get_job[THEN framed_reads[OF framed_intros(1)]]
  reads_get_job_by_path[THEN framed_reads[OF framed_intros(1)]]
  reads_retrieve[THEN framed_reads[OF framed_intros(1)]]
  reads_get_worker[THEN framed_reads[OF framed_intros(1)]]

lemma grown_writes [keeps_intros]: "keeps (grown j l) (add_job v)" "keeps (grown j l) (update_job v)"
  by (rule keepsI, simp add: grown_def add_job_log)
    (rule keepsI, simp add: grown_def update_job_log)

lemma reads_by_status: "reads_only (get_jobs_by_status nt st)"
proof -
  have "reads_only (load_events js)" for js
    by (induction js) (auto simp: get_task_events_def intro!: reads_intros)
  then show ?thesis unfolding get_jobs_by_status_def by (intro reads_intros)
qed

lemmas by_status_rules [keeps_intros] =
  reads_by_status[THEN framed_reads[OF framed_intros(1)]]
  reads_by_status[THEN framed_reads[OF framed_intros(2)]]

section \<open>Logs only grow\<close>

lemma grown_schedule [keeps_intros]: "keeps (grown j l) (schedule_job_request c now fresh ff rt rq)"
  unfolding schedule_job_request_def schedule_tx_def new_job_def refresh_probe_def Let_def
  by (intro keeps_intros)

lemma grown_schedule_all [keeps_intros]: "keeps (grown j l) (schedule_all now ff rt rqs res)"
proof (induction rqs arbitrary: res)
  case Nil
  show ?case by (simp add: keeps_ret)
next
  case (Cons q rest)
  obtain rq reasons fresh where "q = ((rq, reasons), fresh)" by (metis prod.exhaust)
  with Cons show ?case by (auto intro!: keeps_intros)
qed

lemma grown_request [keeps_intros]: "keeps (grown j l) (request_job now w)"
  unfolding request_job_def assign_job_def Let_def by (intro keeps_intros)

lemma grown_cancel [keeps_intros]: "keeps (grown j l) (cancel_job now i)"
  unfolding cancel_job_def by (intro keeps_intros)

lemma grown_streamable [keeps_intros]: "keeps (grown j l) (is_valid_streamable_job i w)"
  unfolding is_valid_streamable_job_def by (intro keeps_intros)

lemma grown_settings [keeps_intros]: "keeps (grown j l) (set_worker_settings_checked n ws)"
  unfolding set_worker_settings_checked_def Let_def by (intro keeps_intros)

lemma grown_control [keeps_intros]: "keeps (grown j l) (control_worker parse now fresh n a js)"
  unfolding control_worker_def Let_def by (intro keeps_intros)

lemma grown_complete [keeps_intros]: "keeps (\<lambda>s. grown j l (sdb s)) (complete_job cfg probe tmp i)"
  unfolding complete_job_def publish_output_def record_output_def remove_unless_same_def
    clean_staging_def Let_def
  by (intro keeps_intros)

lemma grown_notification [keeps_intros]: "keeps (grown j l) (record_notification now e)"
  unfolding record_notification_def by (intro keeps_intros)

lemma grown_delete_source [keeps_intros]: "keeps (\<lambda>s. grown j l (sdb s)) (delete_source cfg e)"
  unfolding delete_source_def by (intro keeps_intros)

lemma grown_event [keeps_intros]: "keeps (\<lambda>s. grown j l (sdb s)) (process_event cfg probe tmp now ev)"
  unfolding process_event_def by (cases ev) (auto split: option.splits intro!: keeps_intros)

lemma grown_maintenance [keeps_intros]:
  "keeps (\<lambda>s. grown j l (sdb s)) (job_maintenance cfg now fresh ff)"
  unfolding job_maintenance_def queued_job_maintenance_def failed_job_maintenance_def
    assigned_job_maintenance_def assigned_job_step_def failed_job_step_def
  by (intro keeps_intros)

section \<open>The database invariant\<close>

lemma inv_by_status [keeps_intros]: "keeps db_inv (get_jobs_by_status nt st)"
  by (rule keeps_get_jobs_by_status)

lemma inv_complete [keeps_intros]: "keeps (\<lambda>s. db_inv (sdb s)) (complete_job cfg probe tmp i)"
  unfolding complete_job_def publish_output_def record_output_def remove_unless_same_def
    clean_staging_def Let_def
  by (intro keeps_intros)

lemma inv_notification [keeps_intros]: "keeps db_inv (record_notification now e)"
  unfolding record_notification_def by (intro keeps_intros)

lemma inv_event [keeps_intros]: "keeps (\<lambda>s. db_inv (sdb s)) (process_event cfg probe tmp now ev)"
  unfolding process_event_def delete_source_def
  by (cases ev) (auto split: option.splits intro!: keeps_intros)

lemma inv_maintenance [keeps_intros]: "keeps (\<lambda>s. db_inv (sdb s)) (job_maintenance cfg now fresh ff)"
  unfolding job_maintenance_def queued_job_maintenance_def failed_job_maintenance_def
    assigned_job_maintenance_def assigned_job_step_def failed_job_step_def
  by (intro keeps_intros)

section \<open>One job per source\<close>

text \<open>\<open>sane\<close>: the database invariant, and no two jobs have the same source path. The schema does not
  enforce the latter; the intake mutex does.\<close>

definition sane :: "sql_db \<Rightarrow> bool" where
  "sane d \<longleftrightarrow> db_inv d \<and> distinct (map jr_source_path (jobs_t d))"

lemma rows_paths: "rows_are ks d \<Longrightarrow> map jr_source_path (jobs_t d) = map snd ks"
  by (auto simp: rows_are_def)

lemma rows_self: "rows_are (map (\<lambda>r. (jr_id r, jr_source_path r)) (jobs_t d)) d"
  by (simp add: rows_are_def)

lemma sane_faults [simp]: "sane (d\<lparr>faults := fs\<rparr>) = sane d"
  by (simp add: sane_def)

lemma sane_frame:
  assumes "keeps db_inv m" and "\<And>ks. keeps (rows_are ks) m"
  shows "keeps sane m"
proof (rule keepsI)
  fix s r t
  assume s: "sane s" and m: "m s = (r, t)"
  from keepsD[OF assms(2) rows_self m] have "map jr_source_path (jobs_t t) = map jr_source_path (jobs_t s)"
    by (simp add: rows_are_def o_def flip: list.map_comp) (metis (no_types, lifting) map_map snd_conv comp_def map_eq_conv list.map_comp)
  with s keepsD[OF assms(1) _ m] show "sane t" by (simp add: sane_def)
qed

text \<open>Updating a job that was read keeps its row's key.\<close>

lemma update_keeps_rows:
  assumes "rows_are ks s" and "(jid v, source_path v) \<in> set ks" and "distinct (map fst ks)"
    and "update_job v s = (r, t)"
  shows "rows_are ks t"
proof -
  have "map (\<lambda>r. (jr_id r, jr_source_path r))
      (map (\<lambda>r. if jr_id r = jid v then row_of_job v sp tp else r) rs) =
      map (\<lambda>r. (jr_id r, jr_source_path r)) rs"
    if "\<forall>r\<in>set rs. jr_id r = jid v \<longrightarrow> jr_source_path r = source_path v" for rs sp tp
    using that by (induction rs) (auto simp: row_of_job_def)
  moreover have "\<forall>r\<in>set (jobs_t s). jr_id r = jid v \<longrightarrow> jr_source_path r = source_path v"
    using assms(1-3) by (auto simp: rows_are_def distinct_map inj_on_def)
  ultimately show ?thesis
    using assms(1,4) unfolding update_job_def
    by (auto simp: liftP_def writeP_def rows_are_def elim!: bindP_cases statement_cases
        simp del: map_map list.map_comp)
qed

lemma rows_update [keeps_intros]:
  "(jid v, source_path v) \<in> set ks \<Longrightarrow> distinct (map fst ks) \<Longrightarrow> keeps (rows_are ks) (update_job v)"
  by (rule keepsI) (rule update_keeps_rows)

lemma read_in_rows:
  assumes "rows_are ks s" and "read_of s r v" and "r \<in> set (jobs_t s)"
  shows "(jid v, source_path v) \<in> set ks"
  using assms by (auto simp: rows_are_def read_of_def)

lemma add_job_rows:
  "rows_are ks s \<Longrightarrow> add_job v s = (Inr x, t) \<Longrightarrow> rows_are (ks @ [(jid v, source_path v)]) t"
  unfolding add_job_def
  by (auto simp: liftP_def rows_are_def row_of_job_def elim!: bindP_InrE statement_cases
      split: if_splits)

lemma new_job_rows:
  assumes "new_job now fresh ff rt rq s = (Inr v, t)" and "rows_are ks s"
  shows "rows_are (ks @ [(fresh, rq_source_path rq)]) t"
  using assms(1) unfolding new_job_def Let_def
  by (elim bindP_InrE) (drule add_job_rows[OF assms(2)], simp add: retP_def)

lemma rows_for [keeps_intros]: "keeps (rows_are ks) (forP es (add_new_task_event now))"
  by (intro keeps_intros)

lemma rows_map_snd: "rows_are ks d \<Longrightarrow> distinct (map jr_source_path (jobs_t d)) = distinct (map snd ks)"
  by (simp add: rows_paths)

lemma schedule_tx_paths:
  assumes "sane s" and "schedule_tx now fresh ff rt rq s = (Inr v, t)"
  shows "distinct (map jr_source_path (jobs_t t))"
proof -
  let ?ks = "map (\<lambda>r. (jr_id r, jr_source_path r)) (jobs_t s)"
  have d: "distinct (map snd ?ks)" "distinct (map fst ?ks)"
    using assms(1) by (simp_all add: sane_def db_inv_def o_def)
  from assms(2) obtain found u where f: "get_job_by_path (rq_source_path rq) s = (Inr found, u)"
    and c: "(case found of
        None \<Rightarrow> bindP (new_job now fresh ff rt rq) (\<lambda>v.
            bindP (forP (events v) (add_new_task_event now)) (\<lambda>_. retP v))
      | Some v \<Rightarrow> bindP (liftP (update_job_by_request now v rq)) (\<lambda>(es, v').
            bindP (refresh_probe rq v') (\<lambda>v''.
              bindP (forP es (add_new_task_event now)) (\<lambda>_. retP v'')))) u = (Inr v, t)"
    unfolding schedule_tx_def by (elim bindP_InrE) blast
  from f show ?thesis
  proof (cases rule: get_job_by_path_read)
    case (absent fs)
    with c obtain w where n: "new_job now fresh ff rt rq u = (Inr v, w)"
      and a: "forP (events v) (add_new_task_event now) w = (Inr (), t)"
      by (auto elim!: bindP_InrE simp: retP_def)
    have "rows_are ?ks u" using absent(3) by (simp add: rows_are_def)
    from keepsD[OF rows_for new_job_rows[OF n this] a]
    have "rows_are (?ks @ [(fresh, rq_source_path rq)]) t" .
    moreover have "rq_source_path rq \<notin> set (map snd ?ks)" using absent(2) by (auto simp: o_def)
    ultimately show ?thesis using d(1) by (simp add: rows_map_snd)
  next
    case (found r v0 fs)
    with c obtain es v1 w where up: "update_job_by_request now v0 rq = Inr (es, v1)"
      and rp: "refresh_probe rq v1 u = (Inr v, w)"
      and a: "forP es (add_new_task_event now) w = (Inr (), t)"
      by (auto elim!: bindP_InrE simp: retP_def liftP_def)
    have same: "jid v1 = jid v0 \<and> source_path v1 = source_path v0"
      using up by (auto simp: update_job_by_request_def Let_def add_event_def add_event_complete_def
          split: option.splits if_splits prod.splits)
    have k: "(jid v0, source_path v0) \<in> set ?ks"
      by (rule read_in_rows[OF rows_self found(4,2)])
    have "keeps (rows_are ?ks) (refresh_probe rq v1)"
      unfolding refresh_probe_def Let_def
      by (intro keeps_intros) (use same k d(2) in simp_all)
    moreover have "rows_are ?ks u" using found(5) by (simp add: rows_are_def)
    ultimately have "rows_are ?ks t" using keepsD[OF rows_for _ a] rp by (metis keepsD)
    then show ?thesis using d(1) by (simp add: rows_map_snd)
  qed
qed

lemma sane_schedule [keeps_intros]: "keeps sane (schedule_job_request c now fresh ff rt rq)"
proof (rule keepsI)
  fix s r t
  assume s: "sane s" and m: "schedule_job_request c now fresh ff rt rq s = (r, t)"
  show "sane t"
  proof (cases r)
    case (Inl e)
    with m transaction_failed have "t = s\<lparr>faults := faults t\<rparr>"
      by (auto simp: schedule_job_request_def failP_def split: if_splits)
    with s show ?thesis by (metis sane_faults)
  next
    case (Inr v)
    with m have "with_transaction (schedule_tx now fresh ff rt rq) s = (Inr v, t)"
      by (auto simp: schedule_job_request_def failP_def split: if_splits)
    then obtain fs u fs' where u: "schedule_tx now fresh ff rt rq (s\<lparr>faults := fs\<rparr>) = (Inr v, u)"
      "t = u\<lparr>faults := fs'\<rparr>" by (rule transaction_committed)
    have "sane (s\<lparr>faults := fs\<rparr>)" using s by simp
    from schedule_tx_paths[OF this u(1)] keepsD[OF keeps_schedule_tx _ u(1)] s u(2)
    show ?thesis by (simp add: sane_def)
  qed
qed

lemma sane_reads: "reads_only m \<Longrightarrow> keeps sane m"
  by (rule keepsI) (metis reads_onlyD sane_faults)

lemma sane_add_event [keeps_intros]: "keeps sane (add_new_task_event now e)"
  by (intro sane_frame keeps_intros)

lemma keeps_bind_on:
  assumes "keeps I m" and "\<And>x s t. I s \<Longrightarrow> m s = (Inr x, t) \<Longrightarrow> keeps I (f x)"
  shows "keeps I (bindP m f)"
proof (rule keepsI)
  fix s r t
  assume s: "I s" and "bindP m f s = (r, t)"
  from this(2) show "I t"
  proof (cases rule: bindP_cases)
    case (fails e)
    from keepsD[OF assms(1) s fails(1)] show ?thesis .
  next
    case (continues x u)
    from keepsD[OF assms(2)[OF s continues(1)] keepsD[OF assms(1) s continues(1)] continues(2)]
    show ?thesis .
  qed
qed

lemma rows_complete [keeps_intros]:
  assumes "distinct (map fst ks)"
  shows "keeps (\<lambda>s. rows_are ks (sdb s)) (complete_job cfg probe tmp j)"
  unfolding complete_job_def
proof (rule keeps_bind_on)
  show "keeps (\<lambda>s. rows_are ks (sdb s)) (on_db (get_job j))" by (intro keeps_intros)
next
  fix v s t
  assume ks: "rows_are ks (sdb s)" and m: "on_db (get_job j) s = (Inr v, t)"
  from m obtain d where "get_job j (sdb s) = (Inr v, d)" by (auto simp: on_db_Inr)
  then obtain row fs where row: "job_row_of (sdb s) j = Some row" "read_of (sdb s) row v"
    by (rule get_job_read)
  have "row \<in> set (jobs_t (sdb s))" using lookup_row_Some row(1) by (metis job_row_of_def)
  from read_in_rows[OF ks row(2) this] have k: "(jid v, source_path v) \<in> set ks" .
  have up: "keeps (rows_are ks) (update_job (v\<lparr>target_path := p, target_size := z, target_probe := m\<rparr>))"
    for p z m using k assms by (intro keeps_intros) simp_all
  show "keeps (\<lambda>s. rows_are ks (sdb s)) (if \<not> is_local (source_path v) \<or> \<not> is_local (target_path v)
      then failP NonLocalPath
      else (case upload_staging_path (cfg_root cfg) (source_path v) (jid v) of
          Inl e \<Rightarrow> failP e
        | Inr staging \<Rightarrow>
            (let legacy = join_path [upload_staging_directory (cfg_root cfg), upload_staging_name (jid v)];
                 target = join_path [cfg_root cfg, target_path v]
             in bindP (on_fs (find_upload tmp staging legacy target)) (\<lambda>probed.
                  bindP (on_fs (probe_output probe probed)) (\<lambda>out.
                    publish_output cfg v out probed staging legacy)))))"
    unfolding publish_output_def record_output_def remove_unless_same_def clean_staging_def Let_def
    by (intro keeps_intros up)
qed

section \<open>Calls and runs\<close>

text \<open>One call of the scheduler, each with the arguments and readings it may have.\<close>

inductive server_step :: "server_config \<Rightarrow> server \<Rightarrow> server \<Rightarrow> bool" for cfg where
  step_intake: "on_db (schedule_job_request c now fresh ff (cfg_root cfg) rq) s = (r, t) \<Longrightarrow>
    server_step cfg s t"
| step_request: "on_db (request_job now w) s = (r, t) \<Longrightarrow> server_step cfg s t"
| step_cancel: "on_db (cancel_job now j) s = (r, t) \<Longrightarrow> server_step cfg s t"
| step_event: "process_event cfg probe tmp now ev s = (r, t) \<Longrightarrow> server_step cfg s t"
| step_settings: "on_db (set_worker_settings_checked n ws) s = (r, t) \<Longrightarrow> server_step cfg s t"
| step_control: "on_db (control_worker parse now fresh n a js) s = (r, t) \<Longrightarrow> server_step cfg s t"
| step_ack: "on_db (ack_worker_control n k) s = (r, t) \<Longrightarrow> server_step cfg s t"
| step_media: "on_db (put_media_probe a p z m mp) s = (r, t) \<Longrightarrow> server_step cfg s t"
| step_download: "get_download_job_writer cfg j w s = (r, t) \<Longrightarrow> server_step cfg s t"
| step_upload: "get_upload_job_writer parse cfg x i w s = (r, t) \<Longrightarrow> server_step cfg s t"
| step_write: "on_fs (upload_write bytes u) s = (r, t) \<Longrightarrow> server_step cfg s t"
| step_commit: "on_fs (upload_commit digest u) s = (r', t) \<Longrightarrow> server_step cfg s t"
| step_clean: "on_fs (upload_clean u) s = (r', t) \<Longrightarrow> server_step cfg s t"
| step_progress: "on_db (progress_job_maintenance now) s = (r', t) \<Longrightarrow> server_step cfg s t"
| step_maintenance: "job_maintenance cfg now fresh' ff s = (r', t) \<Longrightarrow> server_step cfg s t"

inductive server_run :: "server_config \<Rightarrow> server \<Rightarrow> server \<Rightarrow> bool" for cfg where
  run_none: "server_run cfg s s"
| run_step: "server_run cfg s t \<Longrightarrow> server_step cfg t u \<Longrightarrow> server_run cfg s u"

inductive_cases server_stepE: "server_step cfg s t"
inductive_cases server_runE: "server_run cfg s t"

text \<open>A predicate that every call keeps holds along every run.\<close>

definition call_safe :: "server_config \<Rightarrow> (server \<Rightarrow> bool) \<Rightarrow> bool" where
  "call_safe cfg I \<longleftrightarrow> (\<forall>s t. server_step cfg s t \<longrightarrow> I s \<longrightarrow> I t)"

lemma run_safe: "server_run cfg s t \<Longrightarrow> call_safe cfg I \<Longrightarrow> I s \<Longrightarrow> I t"
  by (induction rule: server_run.induct) (auto simp: call_safe_def)

lemma streams_keep_db [keeps_intros]:
  "keeps J (is_valid_streamable_job j w) \<Longrightarrow> keeps (\<lambda>s. J (sdb s)) (get_download_job_writer cfg j w)"
  "(\<And>j. keeps J (is_valid_streamable_job j w)) \<Longrightarrow>
    keeps (\<lambda>s. J (sdb s)) (get_upload_job_writer parse cfg x i w)"
  unfolding get_download_job_writer_def get_upload_job_writer_def Let_def
  by (intro keeps_intros; assumption)+

lemma call_safe_grown: "call_safe cfg (\<lambda>s. grown j l (sdb s))"
  unfolding call_safe_def
proof (intro allI impI)
  fix s t
  assume st: "server_step cfg s t" and g: "grown j l (sdb s)"
  have k: "m s = (r, t) \<Longrightarrow> keeps (\<lambda>s. grown j l (sdb s)) m \<Longrightarrow> grown j l (sdb t)"
    for m :: "'a server_op" and r
    using keepsD[of "\<lambda>s. grown j l (sdb s)" m s r t] g by blast
  have p: "keeps (grown j l) (progress_job_maintenance now)" for now
    unfolding progress_job_maintenance_def by (intro keeps_intros)
  from st show "grown j l (sdb t)"
    by (cases rule: server_step.cases) (erule k, intro keeps_intros p)+
qed

lemma sane_server:
  assumes "keeps (\<lambda>s. db_inv (sdb s)) m"
    and "\<And>ks. distinct (map fst ks) \<Longrightarrow> keeps (\<lambda>s. rows_are ks (sdb s)) m"
  shows "keeps (\<lambda>s. sane (sdb s)) m"
proof (rule keepsI)
  fix s r t
  assume s: "sane (sdb s)" and m: "m s = (r, t)"
  let ?ks = "map (\<lambda>r. (jr_id r, jr_source_path r)) (jobs_t (sdb s))"
  have d: "distinct (map fst ?ks)" "distinct (map snd ?ks)"
    using s by (simp_all add: sane_def db_inv_def o_def)
  from keepsD[OF assms(2)[OF d(1)] rows_self m] have "rows_are ?ks (sdb t)" .
  with keepsD[OF assms(1) _ m] s d(2) show "sane (sdb t)" by (simp add: sane_def rows_map_snd)
qed

lemma rows_calls [keeps_intros]:
  "keeps (rows_are ks) (request_job now w)" "keeps (rows_are ks) (cancel_job now j)"
  "keeps (rows_are ks) (set_worker_settings_checked n ws)"
  "keeps (rows_are ks) (control_worker parse now fresh n a js)"
  "keeps (rows_are ks) (is_valid_streamable_job j w)"
  "keeps (rows_are ks) (record_notification now e)"
  "keeps (rows_are ks) (progress_job_maintenance now)"
  unfolding request_job_def assign_job_def cancel_job_def set_worker_settings_checked_def
    control_worker_def is_valid_streamable_job_def record_notification_def
    progress_job_maintenance_def Let_def
  by (intro keeps_intros)+

lemma inv_progress_maintenance [keeps_intros]: "keeps db_inv (progress_job_maintenance now)"
  unfolding progress_job_maintenance_def by (intro keeps_intros)

lemma rows_event [keeps_intros]:
  "distinct (map fst ks) \<Longrightarrow> keeps (\<lambda>s. rows_are ks (sdb s)) (process_event cfg probe tmp now ev)"
  unfolding process_event_def delete_source_def
  by (cases ev) (auto split: option.splits intro!: keeps_intros)

lemma sane_maintenance: "keeps (\<lambda>s. sane (sdb s)) (job_maintenance cfg now fresh ff)"
  unfolding job_maintenance_def queued_job_maintenance_def failed_job_maintenance_def
    assigned_job_maintenance_def assigned_job_step_def failed_job_step_def get_timeout_jobs_def
  by (intro keeps_intros sane_reads reads_intros reads_by_status)

lemma call_safe_sane: "call_safe cfg (\<lambda>s. sane (sdb s))"
  unfolding call_safe_def
proof (intro allI impI)
  fix s t
  assume st: "server_step cfg s t" and g: "sane (sdb s)"
  have k: "m s = (r, t) \<Longrightarrow> keeps (\<lambda>s. sane (sdb s)) m \<Longrightarrow> sane (sdb t)"
    for m :: "'a server_op" and r
    using keepsD[of "\<lambda>s. sane (sdb s)" m s r t] g by blast
  have i: "keeps (\<lambda>s. sane (sdb s)) (on_db (schedule_job_request c now fresh ff rt rq))"
    for c now fresh ff rt rq by (intro keeps_intros)
  from st show "sane (sdb t)"
    by (cases rule: server_step.cases)
      (erule k, (rule i sane_maintenance | (rule sane_server; intro keeps_intros; assumption?)))+
qed

end
