(* ===== verification/Encode_Pool.thy ===== *)
theory Encode_Pool
  imports Prelude
begin

text \<open>
  The worker's encode slots (\<open>worker/worker/encodeConcurrency.go\<close>): the counters and limits of
  the CPU and GPU classes, the admission of one job, and the two loops that hand waiting jobs to
  encoders. The mutex makes each method one step; the channel \<open>changed\<close> of capacity one is a
  flag, and the signal a method sends after releasing the mutex is a step of its own, so that
  every interleaving of the loop with finishing jobs and with new limits is a run of the model.
\<close>

section \<open>The slots\<close>

record encode_pool =
  ep_active :: int
  ep_target :: int
  ep_primary :: string
  ep_independent :: bool
  ep_cpu_jobs :: int
  ep_gpu_jobs :: int
  cpu_active :: int
  gpu_active :: int
  cpu_target :: int
  gpu_target :: int
  last_cpu_jobs :: int
  last_gpu_jobs :: int
  ep_paused :: bool

abbreviation (input) cpu_kind :: string where "cpu_kind \<equiv> ''cpu''"
abbreviation (input) gpu_kind :: string where "gpu_kind \<equiv> ''gpu''"

definition new_encode_concurrency :: "int \<Rightarrow> encode_pool" where
  "new_encode_concurrency n = (let t = (if n < 1 then 1 else n) in
     \<lparr>ep_active = 0, ep_target = t, ep_primary = gpu_kind, ep_independent = False,
      ep_cpu_jobs = 0, ep_gpu_jobs = t, cpu_active = 0, gpu_active = 0,
      cpu_target = 0, gpu_target = t, last_cpu_jobs = 0, last_gpu_jobs = t, ep_paused = False\<rparr>)"

definition set_target :: "int \<Rightarrow> encode_pool \<Rightarrow> encode_pool" where
  "set_target n c =
    (if n < 1 then c
     else (let c = c\<lparr>ep_target := n, ep_independent := False, ep_cpu_jobs := 0, ep_gpu_jobs := 0\<rparr>;
               c = (if ep_primary c = cpu_kind then c\<lparr>ep_cpu_jobs := n, cpu_target := n\<rparr>
                    else c\<lparr>ep_gpu_jobs := n, gpu_target := n\<rparr>)
           in c\<lparr>last_cpu_jobs := ep_cpu_jobs c, last_gpu_jobs := ep_gpu_jobs c\<rparr>))"

definition set_primary :: "string \<Rightarrow> encode_pool \<Rightarrow> encode_pool" where
  "set_primary kind c = (let c = c\<lparr>ep_primary := kind\<rparr> in
     if kind = cpu_kind
     then c\<lparr>ep_cpu_jobs := ep_target c, cpu_target := ep_target c, ep_gpu_jobs := 0, gpu_target := 0,
            last_cpu_jobs := ep_target c, last_gpu_jobs := 0\<rparr>
     else c)"

definition pause_limits :: "encode_pool \<Rightarrow> encode_pool" where
  "pause_limits c = c\<lparr>ep_cpu_jobs := 0, ep_gpu_jobs := 0\<rparr>"

definition safe_encoder_sum :: "int \<Rightarrow> int \<Rightarrow> int" where
  "safe_encoder_sum cpu gpu = (if cpu > wrap64 (go_max_int - gpu) then go_max_int else wrap64 (cpu + gpu))"

definition set_limits :: "int \<Rightarrow> int \<Rightarrow> encode_pool \<Rightarrow> encode_pool" where
  "set_limits cpu gpu c =
    (let c = c\<lparr>ep_independent := True, ep_cpu_jobs := cpu, ep_gpu_jobs := gpu\<rparr>;
         c = (if cpu > 0 then c\<lparr>cpu_target := cpu\<rparr> else c);
         c = (if gpu > 0 then c\<lparr>gpu_target := gpu\<rparr> else c)
     in if wrap64 (cpu + gpu) > 0
        then c\<lparr>ep_target := wrap64 (cpu + gpu), last_cpu_jobs := cpu, last_gpu_jobs := gpu\<rparr>
        else c\<lparr>ep_target := safe_encoder_sum (cpu_target c) (gpu_target c)\<rparr>)"

definition set_pool_paused :: "bool \<Rightarrow> encode_pool \<Rightarrow> encode_pool" where
  "set_pool_paused b c = c\<lparr>ep_paused := b\<rparr>"

text \<open>The class new requests are admitted for, empty when both are open.\<close>

definition admission_kind :: "encode_pool \<Rightarrow> string" where
  "admission_kind c =
    (let (cpu, gpu) = (if wrap64 (ep_cpu_jobs c + ep_gpu_jobs c) = 0
                       then (last_cpu_jobs c, last_gpu_jobs c) else (ep_cpu_jobs c, ep_gpu_jobs c))
     in if cpu > 0 \<and> gpu = 0 then cpu_kind else if gpu > 0 \<and> cpu = 0 then gpu_kind else [])"

definition encoder_status :: "encode_pool \<Rightarrow> int \<times> int \<times> int \<times> int \<times> int \<times> int" where
  "encoder_status c = (ep_cpu_jobs c, ep_gpu_jobs c, cpu_active c, gpu_active c, cpu_target c, gpu_target c)"

definition pool_status :: "encode_pool \<Rightarrow> int \<times> int" where
  "pool_status c = (ep_active c, ep_target c)"

section \<open>Taking and returning a slot\<close>

definition kind_active :: "string \<Rightarrow> encode_pool \<Rightarrow> int" where
  "kind_active kind c = (if kind = cpu_kind then cpu_active c else gpu_active c)"

definition kind_target :: "string \<Rightarrow> encode_pool \<Rightarrow> int" where
  "kind_target kind c = (if kind = cpu_kind then cpu_target c else gpu_target c)"

definition kind_jobs :: "string \<Rightarrow> encode_pool \<Rightarrow> int" where
  "kind_jobs kind c = (if kind = cpu_kind then ep_cpu_jobs c else ep_gpu_jobs c)"

definition open_kind :: "string \<Rightarrow> encode_pool \<Rightarrow> encode_pool" where
  "open_kind kind c = (if kind = cpu_kind then c\<lparr>cpu_target := 1\<rparr> else c\<lparr>gpu_target := 1\<rparr>)"

definition occupy_kind :: "string \<Rightarrow> encode_pool \<Rightarrow> encode_pool" where
  "occupy_kind kind c =
    (if kind = cpu_kind then c\<lparr>cpu_active := cpu_active c + 1, ep_active := ep_active c + 1\<rparr>
     else c\<lparr>gpu_active := gpu_active c + 1, ep_active := ep_active c + 1\<rparr>)"

text \<open>The closure \<open>try\<close> of \<open>tryStartEncoder\<close>: may move a target of a pinned class from 0 to 1
  even when it then refuses.\<close>

definition try_kind :: "string \<Rightarrow> bool \<Rightarrow> encode_pool \<Rightarrow> bool \<times> encode_pool" where
  "try_kind kind restored c =
    (if ep_independent c \<and> kind_jobs kind c = 0 \<and> \<not> restored \<and> wrap64 (ep_cpu_jobs c + ep_gpu_jobs c) > 0
     then (False, c)
     else (let c = (if restored \<and> kind_target kind c = 0 then open_kind kind c else c)
           in if kind_active kind c \<ge> kind_target kind c \<or> kind_target kind c = 0 then (False, c)
              else (True, occupy_kind kind c)))"

definition other_kind :: "string \<Rightarrow> string" where
  "other_kind kind = (if kind = cpu_kind then gpu_kind else cpu_kind)"

definition try_start_encoder :: "string \<Rightarrow> encode_pool \<Rightarrow> string option \<times> encode_pool" where
  "try_start_encoder pinned c =
    (if ep_paused c \<or> \<not> ep_independent c \<and> ep_active c \<ge> ep_target c then (None, c)
     else if pinned = cpu_kind \<or> pinned = gpu_kind
       then (case try_kind pinned True c of (ok, c') \<Rightarrow> (if ok then Some pinned else None, c'))
     else case try_kind (ep_primary c) False c of
       (True, c') \<Rightarrow> (Some (ep_primary c), c')
     | (False, c') \<Rightarrow>
         if \<not> ep_independent c' then (None, c')
         else (case try_kind (other_kind (ep_primary c')) False c' of
             (True, c'') \<Rightarrow> (Some (other_kind (ep_primary c')), c'')
           | (False, c'') \<Rightarrow> (None, c'')))"

definition finish_encoder :: "string \<Rightarrow> encode_pool \<Rightarrow> encode_pool" where
  "finish_encoder kind c =
    (let c = (if kind = cpu_kind \<and> cpu_active c > 0 then c\<lparr>cpu_active := cpu_active c - 1\<rparr> else c);
         c = (if kind = gpu_kind \<and> gpu_active c > 0 then c\<lparr>gpu_active := gpu_active c - 1\<rparr> else c)
     in if ep_active c > 0 then c\<lparr>ep_active := ep_active c - 1\<rparr> else c)"

text \<open>The slots of the steps that do not distinguish classes.\<close>

definition try_start :: "encode_pool \<Rightarrow> bool \<times> encode_pool" where
  "try_start c = (if ep_paused c \<or> ep_active c \<ge> ep_target c then (False, c)
     else (True, c\<lparr>ep_active := ep_active c + 1\<rparr>))"

definition finish_step :: "encode_pool \<Rightarrow> encode_pool" where
  "finish_step c = (if ep_active c > 0 then c\<lparr>ep_active := ep_active c - 1\<rparr> else c)"

section \<open>The loop over the encoder queue\<close>

text \<open>\<open>runEncoderQueue\<close>. Where the loop is: at its head, before the test of the context; trying
  the pending job of an index; blocked in the \<open>select\<close>; returned.\<close>

datatype loop_point = Head | Trying nat | Selecting | Returned

record 'j encoder_queue =
  pool :: encode_pool
  changed :: bool
  unsent :: nat
  channel :: "'j list"
  closed :: bool
  queue_nil :: bool
  pending_jobs :: "'j list"
  running :: "('j \<times> string) list"
  cancelled :: bool
  position :: loop_point

text \<open>What happens: the loop's own moves, a job arriving, a job ending, a method of the slots
  called by the coordinator, a signal sent.\<close>

datatype 'j queue_event = Loop | Sends 'j | Closes | Ends 'j string | Limits int int | Target int
  | Pauses bool | Drains | Signals | Cancels

definition drop_nth :: "nat \<Rightarrow> 'a list \<Rightarrow> 'a list" where
  "drop_nth i xs = take i xs @ drop (i + 1) xs"

inductive queue_step :: "('j \<Rightarrow> string) \<Rightarrow> 'j encoder_queue \<Rightarrow> 'j queue_event \<Rightarrow> 'j encoder_queue \<Rightarrow> bool"
  for pin :: "'j \<Rightarrow> string" where
  head_return: "position q = Head \<Longrightarrow> cancelled q \<Longrightarrow> queue_step pin q Loop (q\<lparr>position := Returned\<rparr>)"
| head_pass: "position q = Head \<Longrightarrow> \<not> cancelled q \<Longrightarrow> queue_step pin q Loop (q\<lparr>position := Trying 0\<rparr>)"
| try_starts: "position q = Trying i \<Longrightarrow> i < length (pending_jobs q) \<Longrightarrow>
    try_start_encoder (pin (pending_jobs q ! i)) (pool q) = (Some kind, c) \<Longrightarrow>
    queue_step pin q Loop (q\<lparr>pool := c, pending_jobs := drop_nth i (pending_jobs q),
      running := (pending_jobs q ! i, kind) # running q\<rparr>)"
| try_refused: "position q = Trying i \<Longrightarrow> i < length (pending_jobs q) \<Longrightarrow>
    try_start_encoder (pin (pending_jobs q ! i)) (pool q) = (None, c) \<Longrightarrow>
    queue_step pin q Loop (q\<lparr>pool := c, position := Trying (Suc i)\<rparr>)"
| pass_return: "position q = Trying i \<Longrightarrow> length (pending_jobs q) \<le> i \<Longrightarrow> queue_nil q \<Longrightarrow> pending_jobs q = [] \<Longrightarrow>
    queue_step pin q Loop (q\<lparr>position := Returned\<rparr>)"
| pass_ends: "position q = Trying i \<Longrightarrow> length (pending_jobs q) \<le> i \<Longrightarrow> \<not> (queue_nil q \<and> pending_jobs q = []) \<Longrightarrow>
    queue_step pin q Loop (q\<lparr>position := Selecting\<rparr>)"
| select_cancelled: "position q = Selecting \<Longrightarrow> cancelled q \<Longrightarrow> queue_step pin q Loop (q\<lparr>position := Returned\<rparr>)"
| select_job: "position q = Selecting \<Longrightarrow> \<not> queue_nil q \<Longrightarrow> channel q = j # js \<Longrightarrow>
    queue_step pin q Loop (q\<lparr>channel := js, pending_jobs := pending_jobs q @ [j], position := Head\<rparr>)"
| select_closed: "position q = Selecting \<Longrightarrow> \<not> queue_nil q \<Longrightarrow> channel q = [] \<Longrightarrow> closed q \<Longrightarrow>
    queue_step pin q Loop (q\<lparr>queue_nil := True, position := Head\<rparr>)"
| select_changed: "position q = Selecting \<Longrightarrow> changed q \<Longrightarrow> queue_step pin q Loop (q\<lparr>changed := False, position := Head\<rparr>)"
| job_arrives: "\<not> closed q \<Longrightarrow> queue_step pin q (Sends j) (q\<lparr>channel := channel q @ [j]\<rparr>)"
| channel_closed: "\<not> closed q \<Longrightarrow> queue_step pin q Closes (q\<lparr>closed := True\<rparr>)"
| job_ends: "(j, kind) \<in> set (running q) \<Longrightarrow>
    queue_step pin q (Ends j kind) (q\<lparr>pool := finish_encoder kind (pool q),
      running := remove1 (j, kind) (running q), unsent := Suc (unsent q)\<rparr>)"
| limits_set: "queue_step pin q (Limits cpu gpu) (q\<lparr>pool := set_limits cpu gpu (pool q), unsent := Suc (unsent q)\<rparr>)"
| target_set: "1 \<le> n \<Longrightarrow>
    queue_step pin q (Target n) (q\<lparr>pool := set_target n (pool q), unsent := Suc (unsent q)\<rparr>)"
| target_ignored: "n < 1 \<Longrightarrow> queue_step pin q (Target n) (q\<lparr>pool := set_target n (pool q)\<rparr>)"
| pause_set: "queue_step pin q (Pauses b) (q\<lparr>pool := set_pool_paused b (pool q), unsent := Suc (unsent q)\<rparr>)"
| limits_paused: "queue_step pin q Drains (q\<lparr>pool := pause_limits (pool q), unsent := Suc (unsent q)\<rparr>)"
| signal_sent: "unsent q = Suc n \<Longrightarrow> queue_step pin q Signals (q\<lparr>unsent := n, changed := True\<rparr>)"
| context_done: "queue_step pin q Cancels (q\<lparr>cancelled := True\<rparr>)"

inductive queue_run :: "('j \<Rightarrow> string) \<Rightarrow> 'j encoder_queue \<Rightarrow> 'j queue_event list \<Rightarrow> 'j encoder_queue \<Rightarrow> bool"
  for pin :: "'j \<Rightarrow> string" where
  queue_here: "queue_run pin q [] q"
| queue_on: "queue_run pin q es u \<Longrightarrow> queue_step pin u e v \<Longrightarrow> queue_run pin q (es @ [e]) v"

definition new_queue :: "int \<Rightarrow> string \<Rightarrow> 'j encoder_queue" where
  "new_queue n primary = \<lparr>pool = set_primary primary (new_encode_concurrency n), changed = False,
     unsent = 0, channel = [], closed = False, queue_nil = False, pending_jobs = [], running = [],
     cancelled = False, position = Head\<rparr>"

fun sent_jobs :: "'j queue_event list \<Rightarrow> 'j list" where
  "sent_jobs (Sends j # es) = j # sent_jobs es"
| "sent_jobs (_ # es) = sent_jobs es"
| "sent_jobs [] = []"

fun ended_jobs :: "'j queue_event list \<Rightarrow> 'j list" where
  "ended_jobs (Ends j _ # es) = j # ended_jobs es"
| "ended_jobs (_ # es) = ended_jobs es"
| "ended_jobs [] = []"

end
