(* ===== verification/Pause_Controller.thy ===== *)
theory Pause_Controller
  imports Prelude
begin

text \<open>
  Suspending running encoders in memory (\<open>helper/command/pause.go\<close>, \<open>pause_linux.go\<close>): the
  registered processes, the general hold, the hold of one job, and the gate every start passes.
  The map of processes is a list without duplicate keys; a statement about every list covers
  every iteration order. What the operating system answers to the signals is a list of outcomes
  consumed in order.
\<close>

section \<open>State\<close>

record pausable =
  pz_key :: string
  pz_paused :: bool
  pz_individual :: bool

text \<open>The answer to one signal: delivered, no such process, an error, or a stop that was not
  confirmed in time, with whether the resume sent next worked.\<close>

datatype signal_outcome = SigOk | SigGone | SigError | SigUnconfirmed bool

record pause_state =
  general_hold :: bool
  processes :: "(nat \<times> pausable) list"
  generation :: nat
  stopped :: "nat \<Rightarrow> bool"
  gone :: "nat \<Rightarrow> bool"
  outcomes :: "signal_outcome list"

datatype pause_error = TransitionFailed nat "nat list" | ErrEncodeNotRunning | InspectFailed
  | StartFailed | AttachFailed | ContextDone

type_synonym 'a pause_op = "(pause_state, pause_error, 'a) procedure"

definition empty_pause_state :: pause_state where
  "empty_pause_state = \<lparr>general_hold = False, processes = [], generation = 0,
     stopped = (\<lambda>_. False), gone = (\<lambda>_. False), outcomes = []\<rparr>"

section \<open>Signals\<close>

definition next_outcome :: "pause_state \<Rightarrow> signal_outcome \<times> pause_state" where
  "next_outcome s = (case outcomes s of [] \<Rightarrow> (SigOk, s) | r # rs \<Rightarrow> (r, s\<lparr>outcomes := rs\<rparr>))"

text \<open>\<open>setPaused\<close> of a process: SIGSTOP and the wait for it, or SIGCONT. A process that is gone
  is no error. True when it worked.\<close>

definition set_process_paused :: "nat \<Rightarrow> bool \<Rightarrow> pause_state \<Rightarrow> bool \<times> pause_state" where
  "set_process_paused pid b s = (case next_outcome s of (r, s) \<Rightarrow> (case r of
      SigOk \<Rightarrow> (True, s\<lparr>stopped := (stopped s)(pid := b)\<rparr>)
    | SigGone \<Rightarrow> (True, s\<lparr>gone := (gone s)(pid := True)\<rparr>)
    | SigError \<Rightarrow> (False, s)
    | SigUnconfirmed resumed \<Rightarrow>
        if b then (False, s\<lparr>stopped := (stopped s)(pid := \<not> resumed)\<rparr>)
        else (True, s\<lparr>stopped := (stopped s)(pid := False)\<rparr>)))"

definition flag :: "nat \<Rightarrow> bool \<Rightarrow> (nat \<times> pausable) list \<Rightarrow> (nat \<times> pausable) list" where
  "flag pid b ps = map (\<lambda>(q, p). (q, if q = pid then p\<lparr>pz_paused := b\<rparr> else p)) ps"

section \<open>Transitions\<close>

text \<open>The processes already changed are put back, the last first; a process that cannot be put
  back keeps its new state and is reported.\<close>

fun roll_back :: "(nat \<times> bool) list \<Rightarrow> pause_state \<Rightarrow> nat list \<times> pause_state" where
  "roll_back [] s = ([], s)"
| "roll_back ((pid, before) # earlier) s = (case set_process_paused pid before s of
     (True, s) \<Rightarrow> roll_back earlier (s\<lparr>processes := flag pid before (processes s)\<rparr>)
   | (False, s) \<Rightarrow> (case roll_back earlier s of (failed, t) \<Rightarrow> (pid # failed, t)))"

fun transition_loop ::
  "(pausable \<Rightarrow> bool) \<Rightarrow> nat list \<Rightarrow> (nat \<times> bool) list \<Rightarrow> unit pause_op" where
  "transition_loop target [] moved s = (Inr (), s)"
| "transition_loop target (pid # pids) moved s = (case map_of (processes s) pid of
     None \<Rightarrow> transition_loop target pids moved s
   | Some p \<Rightarrow>
       if pz_paused p = target p then transition_loop target pids moved s
       else (case set_process_paused pid (target p) s of
           (False, s) \<Rightarrow> (case roll_back moved s of (failed, t) \<Rightarrow> (Inl (TransitionFailed pid failed), t))
         | (True, s) \<Rightarrow> transition_loop target pids ((pid, pz_paused p) # moved)
             (s\<lparr>processes := flag pid (target p) (processes s)\<rparr>)))"

definition transition_locked :: "(pausable \<Rightarrow> bool) \<Rightarrow> unit pause_op" where
  "transition_locked target = (\<lambda>s. transition_loop target (map fst (processes s)) [] s)"

text \<open>Closing the channel \<open>changed\<close> and replacing it: the waiters of a generation wake up.\<close>

definition notify_locked :: "pause_state \<Rightarrow> pause_state" where
  "notify_locked s = s\<lparr>generation := generation s + 1\<rparr>"

section \<open>Operations\<close>

definition set_paused :: "bool \<Rightarrow> unit pause_op" where
  "set_paused b = bindP (transition_locked (\<lambda>p. b \<or> pz_individual p))
     (\<lambda>_. writeP (\<lambda>s. notify_locked (s\<lparr>general_hold := b\<rparr>)))"

text \<open>What inspecting a process answers: whether it is active, or an error.\<close>

type_synonym inspection = "nat \<Rightarrow> unit + bool"

fun find_active :: "inspection \<Rightarrow> string \<Rightarrow> (nat \<times> pausable) list \<Rightarrow> bool \<Rightarrow> pause_error + bool" where
  "find_active active key [] found = Inr found"
| "find_active active key ((pid, p) # ps) found =
    (if pz_key p \<noteq> key \<or> key = [] then find_active active key ps found
     else (case active pid of
         Inl _ \<Rightarrow> Inl InspectFailed
       | Inr a \<Rightarrow> if \<not> a then Inl ErrEncodeNotRunning else find_active active key ps True))"

definition set_job_paused :: "inspection \<Rightarrow> string \<Rightarrow> bool \<Rightarrow> unit pause_op" where
  "set_job_paused active key b =
    bindP (\<lambda>s. (find_active active key (processes s) False, s)) (\<lambda>found.
    if \<not> found then failP ErrEncodeNotRunning
    else bindP (\<lambda>s. transition_locked
        (\<lambda>p. if pz_key p = key then general_hold s \<or> b else pz_paused p) s)
      (\<lambda>_. writeP (\<lambda>s. s\<lparr>processes :=
        map (\<lambda>(q, p). (q, if pz_key p = key then p\<lparr>pz_individual := b\<rparr> else p)) (processes s)\<rparr>)))"

definition resume_all :: "unit pause_op" where
  "resume_all = bindP (transition_locked (\<lambda>_. False)) (\<lambda>_. writeP (\<lambda>s. notify_locked
     (s\<lparr>general_hold := False,
        processes := map (\<lambda>(q, p). (q, p\<lparr>pz_individual := False\<rparr>)) (processes s)\<rparr>)))"

definition suspended :: "pause_state \<Rightarrow> nat" where
  "suspended s = length (filter (\<lambda>(q, p). pz_paused p) (processes s))"

record encode_pause_state =
  eps_general :: bool
  eps_paused :: bool
  eps_individual :: bool

definition pause_states :: "pause_state \<Rightarrow> string \<Rightarrow> encode_pause_state option" where
  "pause_states s = fold (\<lambda>(q, p) jobs.
     if pz_key p \<noteq> [] then
       (let st = (case jobs (pz_key p) of None \<Rightarrow> \<lparr>eps_general = False, eps_paused = False, eps_individual = False\<rparr>
                  | Some st \<Rightarrow> st)
        in jobs(pz_key p \<mapsto> \<lparr>eps_general = general_hold s, eps_paused = eps_paused st \<or> pz_paused p,
             eps_individual = eps_individual st \<or> pz_individual p\<rparr>))
     else jobs) (processes s) (\<lambda>_. None)"

definition suspended_jobs :: "pause_state \<Rightarrow> string \<Rightarrow> bool" where
  "suspended_jobs s key = (case pause_states s key of None \<Rightarrow> False | Some st \<Rightarrow> eps_paused st)"

section \<open>Starting\<close>

text \<open>One pass through the gate of \<open>start\<close>, made with the lock held: it waits for the next
  generation while the general hold is on, and otherwise starts and registers the process. The
  waiting caller comes back when that generation is over, or gives up when its context ends.
  \<open>starts\<close> and \<open>attaches\<close> are the outcomes of \<open>cmd.Start\<close> and of opening and attaching the process.\<close>

datatype gate = Wait nat | Passed

definition start_gate :: "bool \<Rightarrow> bool \<Rightarrow> bool \<Rightarrow> nat \<Rightarrow> string \<Rightarrow> gate pause_op" where
  "start_gate ctx_done starts attaches pid key = (\<lambda>s.
     if general_hold s then (if ctx_done then (Inl ContextDone, s) else (Inr (Wait (generation s)), s))
     else if ctx_done then (Inl ContextDone, s)
     else if \<not> starts then (Inl StartFailed, s)
     else if \<not> attaches then (Inl AttachFailed, s)
     else (Inr Passed, s\<lparr>processes := (pid, \<lparr>pz_key = key, pz_paused = False, pz_individual = False\<rparr>) #
         filter (\<lambda>(q, p). q \<noteq> pid) (processes s),
       stopped := (stopped s)(pid := False), gone := (gone s)(pid := False)\<rparr>))"

definition unregister :: "nat \<Rightarrow> pause_state \<Rightarrow> pause_state" where
  "unregister pid s = s\<lparr>processes := filter (\<lambda>(q, p). q \<noteq> pid) (processes s)\<rparr>"

end
