(* ===== verification/Worker_Config.thy ===== *)
theory Worker_Config
  imports Go_Lib Events
begin

text \<open>
  The worker's configuration (\<open>worker/config\<close>): the records, the admission schedule and the
  video encoder settings. Durations are nanoseconds. A time zone is the function from an instant,
  in seconds since 1970 UTC, to the offset in force then; which names exist is a parameter
  (\<open>time.LoadLocation\<close> reads the zone database).
\<close>

section \<open>Records\<close>

record ffmpeg_config =
  audio_codec :: string
  audio_vbr :: int
  video_codec :: string
  video_preset :: string
  video_profile :: string
  video_crf :: int
  video_cq :: int
  video_qmax :: int
  parallel_jobs :: int
  threads :: int
  extra_args :: string

record schedule_config =
  time_zone :: string
  windows :: "string list"

record dashboard_config =
  listen_address :: string
  dashboard_token :: string

record worker_config =
  cpu_encode_config :: "ffmpeg_config option"
  gpu_encode_config :: "ffmpeg_config option"
  cfg_ram_paused :: bool
  cfg_pause_mode :: string
  temporal_path :: string
  cfg_worker_name :: string
  start_after :: "int option"
  stop_after :: "int option"
  schedule :: "schedule_config option"
  cfg_max_active_jobs :: int
  encode_config :: "ffmpeg_config option"
  dashboard :: "dashboard_config option"
  verify_delta_time :: float64

definition have_setted_period_time :: "worker_config \<Rightarrow> bool" where
  "have_setted_period_time c = (case (start_after c, stop_after c) of
     (Some a, Some b) \<Rightarrow> a \<noteq> 0 \<or> b \<noteq> 0 | _ \<Rightarrow> False)"

definition encode_parallel_jobs :: "worker_config \<Rightarrow> int" where
  "encode_parallel_jobs c = (case encode_config c of
      Some f \<Rightarrow> if parallel_jobs f > 0 then parallel_jobs f
        else if cfg_max_active_jobs c = 0 then 1 else cfg_max_active_jobs c
    | None \<Rightarrow> if cfg_max_active_jobs c = 0 then 1 else cfg_max_active_jobs c)"

section \<open>The admission schedule\<close>

text \<open>Days are numbered from Sunday, 0; the set of days is a byte with one bit for each.\<close>

record admission_window =
  win_days :: "8 word"
  win_start :: int
  win_end :: int

datatype schedule_error = UnknownZone | ExpectedRange | BadDays | BadWeekdayRange | InvalidClock
  | SameStartEnd | PeriodConflict

definition weekday_names :: "(string \<times> nat) list" where
  "weekday_names = [(''sun'', 0), (''mon'', 1), (''tue'', 2), (''wed'', 3), (''thu'', 4), (''fri'', 5), (''sat'', 6)]"

definition day_bit :: "nat \<Rightarrow> 8 word" where
  "day_bit d = push_bit d 1"

definition includes_day :: "admission_window \<Rightarrow> nat \<Rightarrow> bool" where
  "includes_day w d \<longleftrightarrow> and (win_days w) (day_bit d) \<noteq> 0"

text \<open>The loop over a range of days, around the end of the week if need be; \<open>k\<close> bounds its
  passes, of which a week needs seven.\<close>

fun day_mask :: "nat \<Rightarrow> nat \<Rightarrow> nat \<Rightarrow> 8 word \<Rightarrow> 8 word" where
  "day_mask 0 day until bits = bits"
| "day_mask (Suc k) day until bits =
    (let bits = or bits (day_bit day) in if day = until then bits else day_mask k ((day + 1) mod 7) until bits)"

definition parse_admission_days :: "string \<Rightarrow> schedule_error + 8 word" where
  "parse_admission_days v =
    (if v = ''*'' then Inr 0x7f
     else (case cut_on (CHR ''-'') (to_lower v) of (first, until, is_range) \<Rightarrow>
       (case map_of weekday_names first of
          None \<Rightarrow> Inl BadDays
        | Some start \<Rightarrow>
            if \<not> is_range then Inr (day_mask 7 start start 0)
            else (case map_of weekday_names until of
                None \<Rightarrow> Inl BadWeekdayRange
              | Some e \<Rightarrow> Inr (day_mask 7 start e 0)))))"

definition parse_admission_minute :: "string \<Rightarrow> bool \<Rightarrow> schedule_error + int" where
  "parse_admission_minute v allow_end_of_day =
    (if allow_end_of_day \<and> v = ''24:00'' then Inr (24 * 60)
     else if length v \<noteq> 5 \<or> v ! 2 \<noteq> CHR '':'' \<or> \<not> is_digit (v ! 0) \<or> \<not> is_digit (v ! 3) then Inl InvalidClock
     else (case (atoi (take 2 v), atoi (drop 3 v)) of
         (Some hour, Some minute) \<Rightarrow>
           if hour > 23 \<or> minute > 59 then Inl InvalidClock else Inr (hour * 60 + minute)
       | _ \<Rightarrow> Inl InvalidClock))"

definition parse_admission_window :: "string \<Rightarrow> schedule_error + admission_window" where
  "parse_admission_window entry =
    (let (days, hours) = (case cut_on (CHR ''@'') (trim_space entry) of (d, h, ok) \<Rightarrow>
           if ok then (d, h) else (''*'', trim_space entry))
     in case parse_admission_days days of
         Inl e \<Rightarrow> Inl e
       | Inr bits \<Rightarrow> (case cut_on (CHR ''-'') hours of (start_text, end_text, ok) \<Rightarrow>
           if \<not> ok then Inl ExpectedRange
           else (case parse_admission_minute start_text False of
               Inl e \<Rightarrow> Inl e
             | Inr s \<Rightarrow> (case parse_admission_minute end_text True of
                 Inl e \<Rightarrow> Inl e
               | Inr e \<Rightarrow> if s = e then Inl SameStartEnd
                   else Inr \<lparr>win_days = bits, win_start = s, win_end = e\<rparr>))))"

type_synonym location = "int \<Rightarrow> int"

fun parse_windows :: "string list \<Rightarrow> schedule_error + admission_window list" where
  "parse_windows [] = Inr []"
| "parse_windows (e # es) = (case parse_admission_window e of
     Inl x \<Rightarrow> Inl x
   | Inr w \<Rightarrow> (case parse_windows es of Inl x \<Rightarrow> Inl x | Inr ws \<Rightarrow> Inr (w # ws)))"

definition parse_schedule ::
  "(string \<Rightarrow> location option) \<Rightarrow> schedule_config \<Rightarrow> schedule_error + location \<times> admission_window list" where
  "parse_schedule zones s =
    (case zones (if time_zone s = [] then ''Local'' else time_zone s) of
       None \<Rightarrow> Inl UnknownZone
     | Some loc \<Rightarrow> (case parse_windows (windows s) of Inl e \<Rightarrow> Inl e | Inr ws \<Rightarrow> Inr (loc, ws)))"

definition validate_schedule ::
  "(string \<Rightarrow> location option) \<Rightarrow> worker_config \<Rightarrow> schedule_error + unit" where
  "validate_schedule zones c = (case schedule c of
      None \<Rightarrow> Inr ()
    | Some s \<Rightarrow>
        if windows s \<noteq> [] \<and> have_setted_period_time c then Inl PeriodConflict
        else (case parse_schedule zones s of Inl e \<Rightarrow> Inl e | Inr _ \<Rightarrow> Inr ()))"

text \<open>Wall-clock readings of an instant (nanoseconds since 1970 UTC) in a zone.\<close>

definition local_seconds :: "location \<Rightarrow> int \<Rightarrow> int" where
  "local_seconds loc now = now div 1000000000 + loc (now div 1000000000)"

definition minute_of_day :: "location \<Rightarrow> int \<Rightarrow> int" where
  "minute_of_day loc now = local_seconds loc now mod 86400 div 60"

definition weekday :: "location \<Rightarrow> int \<Rightarrow> nat" where
  "weekday loc now = nat ((local_seconds loc now div 86400 + 4) mod 7)"

text \<open>\<open>time.Date\<close> of the same day at 00:00: the offset is looked up twice, as the library does.\<close>

definition midnight :: "location \<Rightarrow> int \<Rightarrow> int" where
  "midnight loc now =
    (let u = local_seconds loc now div 86400 * 86400 in (u - loc (u - loc u)) * 1000000000)"

definition window_open :: "int \<Rightarrow> nat \<Rightarrow> admission_window \<Rightarrow> bool" where
  "window_open minute day w =
    (if win_start w < win_end w
     then includes_day w day \<and> win_start w \<le> minute \<and> minute < win_end w
     else includes_day w day \<and> win_start w \<le> minute \<or>
       includes_day w ((day + 6) mod 7) \<and> minute < win_end w)"

text \<open>\<open>AdmissionAllowedAt\<close>; \<open>here\<close> is the zone of \<open>now\<close> itself, which the older period setting
  uses.\<close>

definition admission_allowed_at ::
  "(string \<Rightarrow> location option) \<Rightarrow> location \<Rightarrow> worker_config \<Rightarrow> int \<Rightarrow> bool" where
  "admission_allowed_at zones here c now = (case schedule c of
      Some s \<Rightarrow>
        if windows s \<noteq> [] then
          (case parse_schedule zones s of
             Inl _ \<Rightarrow> False
           | Inr (loc, ws) \<Rightarrow> \<not> have_setted_period_time c \<and>
               list_ex (window_open (minute_of_day loc now) (weekday loc now)) ws)
        else if have_setted_period_time c then
          the (start_after c) \<le> now - midnight here now \<and> now - midnight here now \<le> the (stop_after c)
        else True
    | None \<Rightarrow>
        if have_setted_period_time c then
          the (start_after c) \<le> now - midnight here now \<and> now - midnight here now \<le> the (stop_after c)
        else True)"

section \<open>Pause modes\<close>

text \<open>\<open>runtime.GOOS\<close> decides whether processes can be suspended.\<close>

definition resolve_pause_mode :: "string \<Rightarrow> string \<Rightarrow> string option" where
  "resolve_pause_mode goos mode =
    (let mode = (if mode = [] then ''finish'' else mode)
     in if mode \<noteq> ''finish'' \<and> mode \<noteq> ''ram'' then None
        else if mode = ''ram'' \<and> goos \<noteq> ''windows'' \<and> goos \<noteq> ''linux'' then None
        else Some mode)"

section \<open>Video settings\<close>

abbreviation (input) av1_nvenc :: string where "av1_nvenc \<equiv> ''av1_nvenc''"
abbreviation (input) av1_svt :: string where "av1_svt \<equiv> ''libsvtav1''"
abbreviation (input) hevc_x265 :: string where "hevc_x265 \<equiv> ''libx265''"

record video_settings =
  vs_codec :: string
  vs_preset :: string
  vs_profile :: string
  vs_pixel_format :: string
  vs_crf :: int
  vs_cq :: int
  vs_qmax :: int

datatype config_error = ConfigRequired | ForeignQualityFlag | BadPreset | BadQuality | BadQMax
  | BadProfile | UnsupportedCodec | ProfileFailed string config_error | WrongClass string
  | BadThreads | BadPauseMode | NegativeJobs | TokenRequired | NegativeParallel | BadSchedule schedule_error

definition x265_presets :: "string list" where
  "x265_presets = [''ultrafast'', ''superfast'', ''veryfast'', ''faster'', ''fast'', ''medium'',
     ''slow'', ''slower'', ''veryslow'', ''placebo'']"

definition or_default :: "int \<Rightarrow> int \<Rightarrow> int" where
  "or_default x d = (if x = 0 then d else x)"

definition resolve_nvenc :: "ffmpeg_config \<Rightarrow> config_error + video_settings" where
  "resolve_nvenc c =
    (if video_crf c \<noteq> 0 \<or> video_profile c \<noteq> [] then Inl ForeignQualityFlag
     else (let preset = (if video_preset c = [] then ''p7'' else video_preset c);
               cq = or_default (video_cq c) 38; qmax = or_default (video_qmax c) 100
       in if length preset \<noteq> 2 \<or> preset ! 0 \<noteq> CHR ''p'' \<or> code (preset ! 1) < 49 \<or> code (preset ! 1) > 55
            then Inl BadPreset
          else if cq < 1 \<or> cq > 63 then Inl BadQuality
          else if qmax < 1 \<or> qmax > 255 then Inl BadQMax
          else Inr \<lparr>vs_codec = av1_nvenc, vs_preset = preset, vs_profile = [], vs_pixel_format = ''p010le'',
                 vs_crf = 0, vs_cq = cq, vs_qmax = qmax\<rparr>))"

definition resolve_svt :: "ffmpeg_config \<Rightarrow> config_error + video_settings" where
  "resolve_svt c =
    (if video_cq c \<noteq> 0 \<or> video_qmax c \<noteq> 0 \<or> video_profile c \<noteq> [] then Inl ForeignQualityFlag
     else (let preset = (if video_preset c = [] then ''4'' else video_preset c);
               crf = or_default (video_crf c) 26
       in case atoi preset of
            None \<Rightarrow> Inl BadPreset
          | Some n \<Rightarrow>
              if n < 0 \<or> n > 13 then Inl BadPreset
              else if crf < 1 \<or> crf > 63 then Inl BadQuality
              else Inr \<lparr>vs_codec = av1_svt, vs_preset = preset, vs_profile = [],
                     vs_pixel_format = ''yuv420p10le'', vs_crf = crf, vs_cq = 0, vs_qmax = 0\<rparr>))"

definition resolve_x265 :: "ffmpeg_config \<Rightarrow> config_error + video_settings" where
  "resolve_x265 c =
    (if video_cq c \<noteq> 0 \<or> video_qmax c \<noteq> 0 then Inl ForeignQualityFlag
     else (let preset = (if video_preset c = [] then ''medium'' else video_preset c);
               profile = (if video_profile c = [] then ''main10'' else video_profile c);
               crf = or_default (video_crf c) 21
       in if preset \<notin> set x265_presets then Inl BadPreset
          else if profile \<noteq> ''main10'' then Inl BadProfile
          else if crf < 1 \<or> crf > 51 then Inl BadQuality
          else Inr \<lparr>vs_codec = hevc_x265, vs_preset = preset, vs_profile = profile,
                 vs_pixel_format = ''yuv420p10le'', vs_crf = crf, vs_cq = 0, vs_qmax = 0\<rparr>))"

definition resolve_video_settings :: "ffmpeg_config \<Rightarrow> config_error + video_settings" where
  "resolve_video_settings c =
    (let codec = (if video_codec c = [] then av1_nvenc else video_codec c)
     in if codec = av1_nvenc then resolve_nvenc c
        else if codec = av1_svt then resolve_svt c
        else if codec = hevc_x265 then resolve_x265 c
        else Inl UnsupportedCodec)"

definition encoder_kind :: "string \<Rightarrow> string" where
  "encoder_kind codec = (if codec = av1_nvenc \<or> codec = [] then ''gpu'' else ''cpu'')"

definition empty_ffmpeg_config :: ffmpeg_config where
  "empty_ffmpeg_config = \<lparr>audio_codec = [], audio_vbr = 0, video_codec = [], video_preset = [],
     video_profile = [], video_crf = 0, video_cq = 0, video_qmax = 0, parallel_jobs = 0, threads = 0,
     extra_args = []\<rparr>"

definition inherit_audio :: "ffmpeg_config \<Rightarrow> ffmpeg_config \<Rightarrow> ffmpeg_config" where
  "inherit_audio primary p =
    p\<lparr>audio_codec := (if audio_codec p = [] then audio_codec primary else audio_codec p),
      audio_vbr := (if audio_vbr p = 0 then audio_vbr primary else audio_vbr p)\<rparr>"

definition default_codec :: "string \<Rightarrow> ffmpeg_config \<Rightarrow> ffmpeg_config" where
  "default_codec codec p = (if video_codec p = [] then p\<lparr>video_codec := codec\<rparr> else p)"

definition check_profile :: "string \<Rightarrow> ffmpeg_config \<Rightarrow> config_error + unit" where
  "check_profile kind p = (case resolve_video_settings p of
      Inl e \<Rightarrow> Inl (ProfileFailed kind e)
    | Inr v \<Rightarrow> if encoder_kind (vs_codec v) \<noteq> kind then Inl (WrongClass kind)
        else if threads p < 0 \<or> threads p > 255 then Inl BadThreads else Inr ())"

text \<open>The profile of each class: the primary recipe for its own class, a configured one instead
  where there is one, and defaults that share only the audio settings and threads otherwise.\<close>

definition encoder_profiles :: "worker_config \<Rightarrow> config_error + ffmpeg_config \<times> ffmpeg_config" where
  "encoder_profiles c = (case encode_config c of
      None \<Rightarrow> Inl ConfigRequired
    | Some primary \<Rightarrow>
       (let common = empty_ffmpeg_config\<lparr>audio_codec := audio_codec primary, audio_vbr := audio_vbr primary,
              threads := threads primary\<rparr>;
            on_gpu = (encoder_kind (video_codec primary) = ''gpu'');
            cpu = (if on_gpu then common\<lparr>video_codec := av1_svt\<rparr> else primary);
            gpu = (if on_gpu then primary else common\<lparr>video_codec := av1_nvenc\<rparr>);
            cpu = (case cpu_encode_config c of None \<Rightarrow> cpu | Some p \<Rightarrow> default_codec av1_svt p);
            gpu = (case gpu_encode_config c of None \<Rightarrow> gpu | Some p \<Rightarrow> default_codec av1_nvenc p);
            cpu = inherit_audio primary cpu;
            gpu = inherit_audio primary gpu
        in case check_profile ''cpu'' cpu of
             Inl e \<Rightarrow> Inl e
           | Inr _ \<Rightarrow> (case check_profile ''gpu'' gpu of Inl e \<Rightarrow> Inl e | Inr _ \<Rightarrow> Inr (cpu, gpu))))"

definition validate_config ::
  "string \<Rightarrow> (string \<Rightarrow> location option) \<Rightarrow> worker_config \<Rightarrow> config_error + unit" where
  "validate_config goos zones c =
    (if cfg_ram_paused c \<and> resolve_pause_mode goos ''ram'' = None then Inl BadPauseMode
     else if resolve_pause_mode goos (cfg_pause_mode c) = None then Inl BadPauseMode
     else if cfg_max_active_jobs c < 0 then Inl NegativeJobs
     else if (case dashboard c of None \<Rightarrow> False
         | Some d \<Rightarrow> trim_space (listen_address d) \<noteq> [] \<and> trim_space (dashboard_token d) = [])
       then Inl TokenRequired
     else (case encode_config c of
         None \<Rightarrow> Inl ConfigRequired
       | Some f \<Rightarrow>
           if parallel_jobs f < 0 then Inl NegativeParallel
           else if threads f < 0 \<or> threads f > 255 then Inl BadThreads
           else (case resolve_video_settings f of
               Inl e \<Rightarrow> Inl e
             | Inr _ \<Rightarrow> (case encoder_profiles c of
                 Inl e \<Rightarrow> Inl e
               | Inr _ \<Rightarrow> (case validate_schedule zones c of
                   Inl e \<Rightarrow> Inl (BadSchedule e) | Inr _ \<Rightarrow> Inr ())))))"

end
