(* ===== verification/Worker_Admission.thy ===== *)
theory Worker_Admission
  imports Encode_Pool Pause_Controller Worker_Config Settings
begin

text \<open>
  The worker's admission state (\<open>worker/worker/executor.go\<close>): how many jobs may be accepted, which
  holds are on, and every control that changes them together with the encode slots and the pause
  controller. The constructor always sets both, so their nil tests are taken as passed. The mutexes
  make each method one step. The HTTP client appears as the outcome of its call.
\<close>

section \<open>State\<close>

record job_executor =
  ex_active_jobs :: "32 word"
  ex_reserved_jobs :: int
  ex_max_active :: int
  ex_settings_pending :: bool
  ex_admission_held :: bool
  ex_finishing :: bool
  ex_managed_limits :: bool
  ex_pool :: encode_pool
  ex_pauses :: pause_state
  ex_pause_mode :: string
  ex_ram_paused :: bool

datatype executor_error = ExPause pause_error | ExNegativeMax | ExLimits settings_error | ExDraining
  | ExBadMode | ExBadJobId | ExNotPausable string | ExPersist | ExNotAccepting | ExWorkspace
  | ExProfile config_error | ExProfileMismatch string

type_synonym 'a executor_op = "(job_executor, executor_error, 'a) procedure"

text \<open>A call of the pause controller from the executor.\<close>

definition on_pauses :: "'a pause_op \<Rightarrow> 'a executor_op" where
  "on_pauses m = (\<lambda>e. case m (ex_pauses e) of
     (Inl x, p) \<Rightarrow> (Inl (ExPause x), e\<lparr>ex_pauses := p\<rparr>) | (Inr y, p) \<Rightarrow> (Inr y, e\<lparr>ex_pauses := p\<rparr>))"

definition modify_executor :: "(job_executor \<Rightarrow> job_executor) \<Rightarrow> unit executor_op" where
  "modify_executor = writeP"

definition pool_paused :: "bool \<Rightarrow> job_executor \<Rightarrow> job_executor" where
  "pool_paused b e = e\<lparr>ex_pool := set_pool_paused b (ex_pool e)\<rparr>"

definition new_encode_worker :: "worker_config \<Rightarrow> ffmpeg_config \<Rightarrow> job_executor" where
  "new_encode_worker c f =
    (let mode = (if cfg_pause_mode c = [] then ''finish'' else cfg_pause_mode c);
         hold = (cfg_ram_paused c \<or> cfg_max_active_jobs c = 0 \<and> mode = ''ram'');
         pauses = (if hold then snd (set_paused True empty_pause_state) else empty_pause_state);
         p = new_encode_concurrency (encode_parallel_jobs c);
         p = set_pool_paused (cfg_max_active_jobs c = 0 \<or> cfg_ram_paused c) p;
         p = set_primary (encoder_kind (video_codec f)) p;
         p = (if cfg_max_active_jobs c = 0 then pause_limits p else p)
     in \<lparr>ex_active_jobs = 0, ex_reserved_jobs = 0, ex_max_active = cfg_max_active_jobs c,
         ex_settings_pending = False, ex_admission_held = False, ex_finishing = False,
         ex_managed_limits = False, ex_pool = p, ex_pauses = pauses, ex_pause_mode = mode,
         ex_ram_paused = cfg_ram_paused c\<rparr>)"

section \<open>Limits and holds\<close>

definition apply_limit_locked :: "int \<Rightarrow> string \<Rightarrow> bool \<Rightarrow> unit executor_op" where
  "apply_limit_locked mx mode ram =
    bindP (\<lambda>e. on_pauses (set_paused ((ram \<or> mx = 0 \<and> mode = ''ram'') \<and> \<not> ex_admission_held e)) e) (\<lambda>_.
    modify_executor (\<lambda>e.
      let e = e\<lparr>ex_finishing := False, ex_max_active := mx, ex_pause_mode := mode, ex_ram_paused := ram\<rparr>;
          e = (if mx > 0 then e\<lparr>ex_pool := set_target mx (ex_pool e)\<rparr> else e);
          e = pool_paused ((ram \<or> mx = 0 \<or> ex_settings_pending e) \<and> \<not> ex_admission_held e \<and> \<not> ex_finishing e) e
      in if mx = 0 then e\<lparr>ex_pool := pause_limits (ex_pool e)\<rparr> else e))"

definition set_max_active_jobs :: "int \<Rightarrow> unit executor_op" where
  "set_max_active_jobs mx =
    (if mx < 0 then failP ExNegativeMax
     else (\<lambda>e. apply_limit_locked mx (ex_pause_mode e) (ex_ram_paused e) e))"

definition pair_settings :: "int \<Rightarrow> int \<Rightarrow> worker_settings" where
  "pair_settings cpu gpu = empty_settings\<lparr>cpu_jobs := Some cpu, gpu_jobs := Some gpu\<rparr>"

definition set_encoder_limits :: "int \<Rightarrow> int \<Rightarrow> unit executor_op" where
  "set_encoder_limits cpu gpu = (case total_jobs (pair_settings cpu gpu) of
      Inl x \<Rightarrow> failP (ExLimits x)
    | Inr tot \<Rightarrow>
        bindP (\<lambda>e. on_pauses (set_paused ((ex_ram_paused e \<or> tot = 0 \<and> ex_pause_mode e = ''ram'')
            \<and> \<not> ex_admission_held e)) e) (\<lambda>_.
        modify_executor (\<lambda>e.
          let e = e\<lparr>ex_pool := set_limits cpu gpu (ex_pool e), ex_max_active := tot, ex_finishing := False\<rparr>
          in pool_paused ((tot = 0 \<or> ex_ram_paused e \<or> ex_settings_pending e) \<and> \<not> ex_admission_held e) e)))"

definition set_ram_paused :: "string \<Rightarrow> bool \<Rightarrow> unit executor_op" where
  "set_ram_paused goos b =
    (if b \<and> resolve_pause_mode goos ''ram'' = None then failP ExBadMode
     else (\<lambda>e. if ex_admission_held e \<or> ex_finishing e then (Inl ExDraining, e)
       else bindP (on_pauses (set_paused b)) (\<lambda>_. modify_executor (\<lambda>e.
         let e = e\<lparr>ex_pause_mode := ''finish'', ex_ram_paused := b\<rparr>
         in pool_paused (b \<or> ex_max_active e = 0 \<or> ex_settings_pending e) e)) e))"

definition finish_accepted_jobs :: "unit executor_op" where
  "finish_accepted_jobs = bindP (on_pauses resume_all) (\<lambda>_. modify_executor (\<lambda>e.
     pool_paused False (e\<lparr>ex_finishing := True, ex_pause_mode := ''finish'', ex_ram_paused := False,
       ex_max_active := 0\<rparr>)))"

definition drain_accepted_jobs :: "unit executor_op" where
  "drain_accepted_jobs = bindP (on_pauses resume_all) (\<lambda>_. modify_executor (\<lambda>e.
     pool_paused False (e\<lparr>ex_admission_held := True, ex_ram_paused := False, ex_max_active := 0\<rparr>)))"

definition hold_admission :: "unit executor_op" where
  "hold_admission = bindP (on_pauses resume_all) (\<lambda>_. modify_executor (\<lambda>e.
     pool_paused False (e\<lparr>ex_admission_held := True, ex_ram_paused := False\<rparr>)))"

definition require_worker_settings :: "job_executor \<Rightarrow> job_executor" where
  "require_worker_settings e =
    (let e = e\<lparr>ex_settings_pending := True\<rparr> in if ex_admission_held e then e else pool_paused True e)"

definition mark_settings_resolved :: "job_executor \<Rightarrow> job_executor" where
  "mark_settings_resolved e =
    (let e = e\<lparr>ex_settings_pending := False\<rparr>
     in pool_paused ((ex_max_active e = 0 \<or> ex_ram_paused e) \<and> \<not> ex_admission_held e \<and> \<not> ex_finishing e) e)"

definition use_managed_limits :: "job_executor \<Rightarrow> job_executor" where
  "use_managed_limits e = e\<lparr>ex_managed_limits := True\<rparr>"

definition set_pause_mode :: "string \<Rightarrow> string \<Rightarrow> unit executor_op" where
  "set_pause_mode goos v = (case resolve_pause_mode goos v of
      None \<Rightarrow> failP ExBadMode
    | Some mode \<Rightarrow>
        bindP (\<lambda>e. on_pauses (set_paused ((ex_ram_paused e \<or> mode = ''ram'' \<and> ex_max_active e = 0)
            \<and> \<not> ex_admission_held e \<and> \<not> ex_finishing e)) e)
          (\<lambda>_. modify_executor (\<lambda>e. e\<lparr>ex_pause_mode := mode\<rparr>)))"

text \<open>\<open>parse_uuid\<close> reads a job identifier and gives its canonical text; \<open>active\<close> inspects processes.\<close>

definition set_job_hold ::
  "(string \<Rightarrow> string option) \<Rightarrow> string \<Rightarrow> inspection \<Rightarrow> string \<Rightarrow> bool \<Rightarrow> unit executor_op" where
  "set_job_hold parse_uuid goos active j b = (case parse_uuid j of
      None \<Rightarrow> failP ExBadJobId
    | Some i \<Rightarrow>
        if resolve_pause_mode goos ''ram'' = None then failP ExBadMode
        else (\<lambda>e. if ex_admission_held e \<or> ex_finishing e then (Inl ExDraining, e)
          else (case on_pauses (set_job_paused active i b) e of
              (Inl (ExPause ErrEncodeNotRunning), e') \<Rightarrow> (Inl (ExNotPausable i), e')
            | r \<Rightarrow> r)))"

section \<open>Controls saved on the server first\<close>

text \<open>\<open>saved\<close>: whether the server stored the limit. Nothing changes locally when it did not.\<close>

definition persist_limit :: "bool \<Rightarrow> bool \<Rightarrow> int \<Rightarrow> unit executor_op" where
  "persist_limit saved admission_only mx =
    (if mx < 0 then failP ExNegativeMax
     else if \<not> saved then failP ExPersist
     else bindP (\<lambda>e.
         let mode = ex_pause_mode e; ram = ex_ram_paused e;
             ram' = (if admission_only
               then ram \<or> ex_max_active e = 0 \<and> mode = ''ram'' \<and> \<not> ex_admission_held e \<and> \<not> ex_finishing e else ram);
             mode' = (if admission_only then ''finish'' else mode)
         in apply_limit_locked mx mode' ram' e)
       (\<lambda>_. modify_executor mark_settings_resolved))"

definition persist_max_active_jobs :: "bool \<Rightarrow> int \<Rightarrow> unit executor_op" where
  "persist_max_active_jobs saved mx = persist_limit saved False mx"

definition persist_admission_limit :: "bool \<Rightarrow> int \<Rightarrow> unit executor_op" where
  "persist_admission_limit saved mx = persist_limit saved True mx"

definition persist_encoder_limits :: "bool \<Rightarrow> int \<Rightarrow> int \<Rightarrow> unit executor_op" where
  "persist_encoder_limits saved cpu gpu = (case validate_write (pair_settings cpu gpu) of
      Inl x \<Rightarrow> failP (ExLimits x)
    | Inr _ \<Rightarrow>
        if \<not> saved then failP ExPersist
        else bindP (set_encoder_limits cpu gpu) (\<lambda>_. modify_executor mark_settings_resolved))"

section \<open>Job slots\<close>

definition pipeline_buffer_jobs :: int where "pipeline_buffer_jobs = 1"

definition max_accepted_jobs :: "int \<Rightarrow> int" where
  "max_accepted_jobs n =
    (if n \<le> 0 then 0 else if n > go_max_int - pipeline_buffer_jobs then go_max_int else n + pipeline_buffer_jobs)"

text \<open>\<open>admitted\<close> is the schedule's verdict at the time of the call. The comparison is made on
  unsigned 64-bit values, as the code writes it.\<close>

definition can_reserve_job_slot :: "bool \<Rightarrow> job_executor \<Rightarrow> bool" where
  "can_reserve_job_slot admitted e \<longleftrightarrow>
    \<not> (ex_admission_held e \<or> ex_finishing e \<or> ex_settings_pending e \<or> ex_ram_paused e \<or> ex_max_active e \<le> 0
       \<or> \<not> admitted) \<and>
    (ucast (ex_active_jobs e) + word_of_int (ex_reserved_jobs e) :: 64 word)
      < word_of_int (max_accepted_jobs (snd (pool_status (ex_pool e))))"

definition reserve_job_slot :: "bool \<Rightarrow> job_executor \<Rightarrow> bool \<times> job_executor" where
  "reserve_job_slot admitted e =
    (if can_reserve_job_slot admitted e then (True, e\<lparr>ex_reserved_jobs := ex_reserved_jobs e + 1\<rparr>)
     else (False, e))"

definition release_job_slot :: "job_executor \<Rightarrow> job_executor" where
  "release_job_slot e = (if ex_reserved_jobs e > 0 then e\<lparr>ex_reserved_jobs := ex_reserved_jobs e - 1\<rparr> else e)"

text \<open>The two ends of an accepted job: \<open>ExecuteReservedJob\<close> turns a reservation into an active job
  unless its workspace or its profile fails, and \<open>cleanJob\<close> ends it, an unsigned decrement.\<close>

definition accept_reserved :: "executor_error + unit \<Rightarrow> unit executor_op" where
  "accept_reserved prepared = (\<lambda>e. case prepared of
      Inl x \<Rightarrow> (Inl x, release_job_slot e)
    | Inr _ \<Rightarrow> (Inr (), (release_job_slot e)\<lparr>ex_active_jobs := ex_active_jobs e + 1\<rparr>))"

definition clean_job_slot :: "job_executor \<Rightarrow> job_executor" where
  "clean_job_slot e = e\<lparr>ex_active_jobs := ex_active_jobs e - 1\<rparr>"

definition resume_job_slot :: "job_executor \<Rightarrow> job_executor" where
  "resume_job_slot e = e\<lparr>ex_active_jobs := ex_active_jobs e + 1\<rparr>"

section \<open>What is reported\<close>

record status_report =
  st_cpu_jobs :: int
  st_gpu_jobs :: int
  st_active_cpu :: int
  st_active_gpu :: int
  st_cpu_max :: int
  st_gpu_max :: int
  st_independent :: bool
  st_finishing :: bool
  st_draining :: bool
  st_ram_paused :: bool
  st_pause_mode :: string
  st_suspended :: nat
  st_accepting :: bool
  st_active_jobs :: "32 word"
  st_reserved_jobs :: int
  st_max_active_jobs :: int
  st_max_accepted :: int
  st_active_encodes :: int
  st_max_encodes :: int
  st_within_schedule :: bool
  st_paused :: bool

definition admission_status :: "bool \<Rightarrow> job_executor \<Rightarrow> status_report" where
  "admission_status on_schedule e =
    (let p = ex_pool e
     in \<lparr>st_cpu_jobs = ep_cpu_jobs p, st_gpu_jobs = ep_gpu_jobs p, st_active_cpu = cpu_active p,
         st_active_gpu = gpu_active p, st_cpu_max = cpu_target p, st_gpu_max = gpu_target p,
         st_independent = ep_independent p, st_finishing = ex_finishing e, st_draining = ex_admission_held e,
         st_ram_paused = (\<not> ex_admission_held e \<and> (ex_ram_paused e \<or> ex_max_active e = 0 \<and> ex_pause_mode e = ''ram'')),
         st_pause_mode = (if ex_pause_mode e = [] then ''finish'' else ex_pause_mode e),
         st_suspended = suspended (ex_pauses e),
         st_accepting = (\<not> ex_admission_held e \<and> \<not> ex_finishing e \<and> \<not> ex_settings_pending e \<and> \<not> ex_ram_paused e \<and>
           ex_max_active e > 0 \<and> on_schedule),
         st_active_jobs = ex_active_jobs e, st_reserved_jobs = ex_reserved_jobs e,
         st_max_active_jobs = ex_max_active e,
         st_max_accepted = (if ex_max_active e > 0 then max_accepted_jobs (ep_target p) else 0),
         st_active_encodes = ep_active p, st_max_encodes = ep_target p, st_within_schedule = on_schedule,
         st_paused = ep_paused p\<rparr>)"

section \<open>Encoder profiles of accepted jobs\<close>

text \<open>The profile a job was accepted under is kept with it; a restored one is checked against the
  class of the slot, with the older default quality written in where it was left out.\<close>

definition pin_encoder_profile ::
  "worker_config \<Rightarrow> string \<Rightarrow> ffmpeg_config option \<Rightarrow> executor_error + ffmpeg_config" where
  "pin_encoder_profile c kind saved = (case saved of
      Some f \<Rightarrow>
       (case resolve_video_settings f of
          Inl x \<Rightarrow> Inl (ExProfile x)
        | Inr v \<Rightarrow>
            if encoder_kind (vs_codec v) \<noteq> kind then Inl (ExProfileMismatch kind)
            else if vs_codec v = ''libsvtav1'' \<and> video_crf f = 0 then Inr (f\<lparr>video_crf := 25\<rparr>)
            else Inr f)
    | None \<Rightarrow>
       (case encoder_profiles c of
          Inl x \<Rightarrow> Inl (ExProfile x)
        | Inr (cpu, gpu) \<Rightarrow>
           (let profile = (if kind = ''cpu'' then cpu else gpu)
            in case resolve_video_settings profile of
                 Inl x \<Rightarrow> Inl (ExProfile x)
               | Inr v \<Rightarrow> Inr (if vs_codec v = ''libsvtav1'' then profile\<lparr>video_crf := vs_crf v\<rparr> else profile))))"

definition pin_admission_profile ::
  "worker_config \<Rightarrow> job_executor \<Rightarrow> ffmpeg_config option \<Rightarrow> executor_error + (string \<times> ffmpeg_config) option" where
  "pin_admission_profile c e saved =
    (let kind = admission_kind (ex_pool e)
     in if kind = [] then Inr None
        else (case pin_encoder_profile c kind saved of Inl x \<Rightarrow> Inl x | Inr f \<Rightarrow> Inr (Some (kind, f))))"

text \<open>The worker as \<open>worker/main.go\<close> starts it: with the managed limits or the admission hold its
  environment asks for, and with the settings of the server still to be read.\<close>

definition started_worker :: "worker_config \<Rightarrow> ffmpeg_config \<Rightarrow> bool \<Rightarrow> bool \<Rightarrow> job_executor" where
  "started_worker c f managed held =
    (let e = new_encode_worker c f;
         e = (if managed then use_managed_limits e else e);
         e = (if held then snd (hold_admission e) else e)
     in require_worker_settings e)"

end
