(* ===== verification/Worker_Registry.thy ===== *)
theory Worker_Registry
  imports Worker_Admission Scheduler Go_Float
begin

text \<open>
  What the worker shows of its pipeline: the registry of accepted jobs
  (\<open>worker/worker/desktop_jobs.go\<close>), the registry of running tasks and the tracker that feeds it and
  reports to the server (\<open>worker/worker/progress.go\<close>), and the telemetry built from both
  (\<open>worker/worker/coordinator.go\<close>). A registry is a map behind a lock; here a list of rows with
  distinct keys, in no order that anything depends on. The console tracker is a library: the
  percentage and the remaining time it answers are arguments.
\<close>

section \<open>The interface of the registries\<close>

locale keyed_registry =
  fixes key :: "'r \<Rightarrow> 'k"
    and put :: "'r \<Rightarrow> 'r list \<Rightarrow> 'r list"
    and drop_key :: "'k \<Rightarrow> 'r list \<Rightarrow> 'r list"
    and shown :: "'r list \<Rightarrow> 'r list"
  assumes put_rows: "distinct (map key rs) \<Longrightarrow>
      distinct (map key (put r rs)) \<and> set (put r rs) = insert r {x \<in> set rs. key x \<noteq> key r}"
    and drop_rows: "distinct (map key rs) \<Longrightarrow>
      distinct (map key (drop_key k rs)) \<and> set (drop_key k rs) = {x \<in> set rs. key x \<noteq> k}"
    and shown_rows: "mset (shown rs) = mset rs"
begin

lemma shown_set: "set (shown rs) = set rs"
  by (metis shown_rows set_mset_mset)

lemma shown_after_put:
  "distinct (map key rs) \<Longrightarrow> r \<in> set (shown (put r rs)) \<and>
    (\<forall>x\<in>set (shown (put r rs)). key x = key r \<longrightarrow> x = r)"
  by (auto simp: shown_set put_rows)

lemma gone_after_drop: "distinct (map key rs) \<Longrightarrow> k \<notin> key ` set (shown (drop_key k rs))"
  by (auto simp: shown_set drop_rows)

end

lemma upsert_rows:
  assumes "distinct (map key rs)"
  shows "distinct (map key (upsert key (\<lambda>_. r) r rs)) \<and>
    set (upsert key (\<lambda>_. r) r rs) = insert r {x \<in> set rs. key x \<noteq> key r}"
proof
  show "distinct (map key (upsert key (\<lambda>_. r) r rs))" by (rule distinct_upsert) (simp_all add: assms)
  show "set (upsert key (\<lambda>_. r) r rs) = insert r {x \<in> set rs. key x \<noteq> key r}"
    using assms by (induction rs) (auto simp: image_iff)
qed

lemma filter_rows:
  "distinct (map key rs) \<Longrightarrow> distinct (map key (filter (\<lambda>x. key x \<noteq> k) rs)) \<and>
    set (filter (\<lambda>x. key x \<noteq> k) rs) = {x \<in> set rs. key x \<noteq> k}"
  by (simp add: distinct_map_filter)

section \<open>Accepted jobs\<close>

definition phase_name :: "notification_type \<Rightarrow> string" where
  "phase_name p = (case p of
     JobNotification \<Rightarrow> ''Job'' | DownloadNotification \<Rightarrow> ''Download'' | UploadNotification \<Rightarrow> ''Upload''
   | MKVExtractNotification \<Rightarrow> ''MKVExtract'' | PGSNotification \<Rightarrow> ''PGS'' | FFMPEGSNotification \<Rightarrow> ''FFMPEG''
   | JobVerify \<Rightarrow> ''JobVerify'' | OtherNotification s \<Rightarrow> s)"

record job_state_row =
  js_paused_by_worker :: bool
  js_can_pause :: bool
  js_individually_paused :: bool
  js_job_id :: string
  js_name :: string
  js_profile :: string
  js_codec :: string
  js_phase :: string
  js_state :: string
  js_downloaded :: bool

definition encoder_profile :: "string \<Rightarrow> string" where
  "encoder_profile codec = (if codec = ''av1_nvenc'' then ''gpu'' else if codec \<noteq> [] then ''cpu'' else [])"

text \<open>The row of a job: \<open>own_codec\<close> is the worker's codec, \<open>pinned\<close> the one the job was
  accepted under, \<open>source\<close> the name and path of its source once it has one.\<close>

definition job_item ::
  "string option \<Rightarrow> string option \<Rightarrow> (string \<times> string) option \<Rightarrow> uuid \<Rightarrow> notification_type \<Rightarrow> string \<Rightarrow> job_state_row" where
  "job_item own_codec pinned source j phase st =
    (let codec = (case own_codec of None \<Rightarrow> [] | Some c \<Rightarrow> c);
         codec = (case pinned of None \<Rightarrow> codec | Some c \<Rightarrow> c)
     in \<lparr>js_paused_by_worker = False, js_can_pause = False, js_individually_paused = False,
         js_job_id = j, js_name = (case source of None \<Rightarrow> [] | Some (n, _) \<Rightarrow> n),
         js_profile = encoder_profile codec, js_codec = codec, js_phase = phase_name phase, js_state = st,
         js_downloaded = (case source of None \<Rightarrow> False | Some (_, path) \<Rightarrow> path \<noteq> [])\<rparr>)"

definition registry_set :: "job_state_row \<Rightarrow> job_state_row list \<Rightarrow> job_state_row list" where
  "registry_set item rs = upsert js_job_id (\<lambda>_. item) item rs"

definition registry_remove :: "string \<Rightarrow> job_state_row list \<Rightarrow> job_state_row list" where
  "registry_remove i rs = filter (\<lambda>r. js_job_id r \<noteq> i) rs"

definition registry_snapshot :: "job_state_row list \<Rightarrow> job_state_row list" where
  "registry_snapshot rs = sort_slice (\<lambda>a b. string_less (js_job_id a) (js_job_id b)) rs"

interpretation job_rows: keyed_registry js_job_id registry_set registry_remove registry_snapshot
  by unfold_locales (simp_all add: registry_set_def registry_remove_def registry_snapshot_def upsert_rows filter_rows)

text \<open>The rows of the status: the pause state of a running encode is written over its row.\<close>

definition decorate_row :: "job_executor \<Rightarrow> job_state_row \<Rightarrow> job_state_row" where
  "decorate_row e r = (case pause_states (ex_pauses e) (js_job_id r) of
      None \<Rightarrow> r
    | Some st \<Rightarrow>
        if js_phase r = phase_name FFMPEGSNotification
        then (let r = r\<lparr>js_can_pause := \<not> ex_admission_held e \<and> \<not> ex_finishing e,
                    js_individually_paused := eps_individual st, js_paused_by_worker := eps_general st\<rparr>
              in if eps_paused st then r\<lparr>js_state := ''paused''\<rparr> else r)
        else r)"

definition status_jobs :: "job_executor \<Rightarrow> job_state_row list \<Rightarrow> job_state_row list" where
  "status_jobs e rs = map (decorate_row e) (registry_snapshot rs)"

section \<open>Running tasks\<close>

record task_row =
  tp_job_id :: string
  tp_name :: string
  tp_profile :: string
  tp_codec :: string
  tp_step_id :: string
  tp_phase :: string
  tp_percent :: float64
  tp_eta_seconds :: int
  tp_elapsed_seconds :: int
  tp_value :: int
  tp_total :: int
  tp_bytes_per_second :: int
  tp_frames :: int
  tp_frames_per_second :: float64
  tp_encoder_speed :: string

type_synonym task_key = "string \<times> string \<times> string"

definition task_key_of :: "task_row \<Rightarrow> task_key" where
  "task_key_of r = (tp_job_id r, tp_phase r, tp_step_id r)"

definition progress_set :: "task_row \<Rightarrow> task_row list \<Rightarrow> task_row list" where
  "progress_set item rs = upsert task_key_of (\<lambda>_. item) item rs"

definition progress_remove :: "task_key \<Rightarrow> task_row list \<Rightarrow> task_row list" where
  "progress_remove k rs = filter (\<lambda>r. task_key_of r \<noteq> k) rs"

definition progress_snapshot :: "task_row list \<Rightarrow> task_row list" where
  "progress_snapshot rs = sort_slice (\<lambda>a b.
     if tp_job_id a \<noteq> tp_job_id b then string_less (tp_job_id a) (tp_job_id b)
     else string_less (tp_step_id a) (tp_step_id b)) rs"

interpretation task_rows: keyed_registry task_key_of progress_set progress_remove progress_snapshot
  by unfold_locales (simp_all add: progress_set_def progress_remove_def progress_snapshot_def upsert_rows filter_rows)

section \<open>The tracker of a task\<close>

record task_tracker =
  tk_phase :: notification_type
  tk_job_id :: string
  tk_name :: string
  tk_codec :: string
  tk_step_id :: string
  tk_last_update :: int
  tk_started_at :: int
  tk_total :: int
  tk_value :: int
  tk_frames :: int
  tk_fps :: float64
  tk_speed :: string
  tk_finished :: bool

definition new_tracker :: "int \<Rightarrow> uuid \<Rightarrow> string \<Rightarrow> notification_type \<Rightarrow> string \<Rightarrow> string \<Rightarrow> task_tracker" where
  "new_tracker now j step phase codec name =
    \<lparr>tk_phase = phase, tk_job_id = j, tk_name = name, tk_codec = codec, tk_step_id = step,
     tk_last_update = zero_time, tk_started_at = now, tk_total = 0, tk_value = 0, tk_frames = 0,
     tk_fps = Fin 0, tk_speed = [], tk_finished = False\<rparr>"

definition snapshot_key :: "task_tracker \<Rightarrow> task_key" where
  "snapshot_key k = (tk_job_id k, phase_name (tk_phase k), tk_step_id k)"

definition one_second :: int where "one_second = 1000000000"

definition shown_percent :: "float64 \<Rightarrow> float64" where
  "shown_percent p =
    (let p = (if is_nan_or_inf p \<or> float_less p (Fin 0) then Fin 0 else p)
     in if float_less (Fin 100) p then Fin 100 else p)"

text \<open>What the console tracker answers at the time of the call, and the clock.\<close>

record console_reading =
  rd_now :: int
  rd_percent :: float64
  rd_eta :: int

definition snapshot_row :: "console_reading \<Rightarrow> task_tracker \<Rightarrow> task_row" where
  "snapshot_row c k =
    (let eta = go_div (rd_eta c) one_second;
         eta = (if eta < 0 then 0 else eta);
         elapsed = rd_now c - tk_started_at k;
         elapsed = (if elapsed < 0 then 0 else elapsed);
         rate = (if tk_phase k = DownloadNotification \<and> elapsed > 0
                 then go_div (tk_value k * one_second) elapsed else 0)
     in \<lparr>tp_job_id = tk_job_id k, tp_name = tk_name k, tp_profile = encoder_profile (tk_codec k),
         tp_codec = tk_codec k, tp_step_id = tk_step_id k, tp_phase = phase_name (tk_phase k),
         tp_percent = shown_percent (rd_percent c), tp_eta_seconds = eta,
         tp_elapsed_seconds = go_div elapsed one_second, tp_value = tk_value k, tp_total = tk_total k,
         tp_bytes_per_second = rate, tp_frames = tk_frames k, tp_frames_per_second = tk_fps k,
         tp_encoder_speed = tk_speed k\<rparr>)"

definition update_snapshot :: "console_reading \<Rightarrow> task_tracker \<Rightarrow> task_row list \<Rightarrow> task_row list" where
  "update_snapshot c k rs = (if tk_finished k then rs else progress_set (snapshot_row c k) rs)"

definition finish_snapshot :: "task_tracker \<Rightarrow> task_row list \<Rightarrow> task_tracker \<times> task_row list" where
  "finish_snapshot k rs = (k\<lparr>tk_finished := True\<rparr>, progress_remove (snapshot_key k) rs)"

text \<open>The report to the server, if this call sends one. Its worker name is filled in by the client.\<close>

definition report_track_progress ::
  "console_reading \<Rightarrow> task_progress_status \<Rightarrow> task_tracker \<Rightarrow> task_progress option \<times> task_tracker" where
  "report_track_progress c st k =
    (if st = Progressing \<and> tk_finished k then (None, k)
     else if rd_now c - tk_last_update k > 15 * one_second \<or> st \<noteq> Progressing
     then (Some \<lparr>pg_event_time = rd_now c, pg_worker_name = [], pg_job_id = tk_job_id k,
             progress_id = tk_step_id k, percent = rd_percent c, eta = rd_eta c, pg_type = tk_phase k,
             pg_status = st\<rparr>, k\<lparr>tk_last_update := rd_now c\<rparr>)
     else (None, k))"

text \<open>The operations of the tracker: each changes the tracker and the registry, and may send.\<close>

datatype tracker_call = SetDisplayName string | SetTotal int | UpdateValue int | Increment int
  | SetFFmpegProgress int float64 string | TrackerError | TrackerDone

type_synonym tracker_state = "task_tracker \<times> task_row list \<times> task_progress list"

definition send_report :: "console_reading \<Rightarrow> task_progress_status \<Rightarrow> task_tracker \<Rightarrow> task_row list \<Rightarrow>
    task_progress list \<Rightarrow> tracker_state" where
  "send_report c st k rs sent = (case report_track_progress c st k of
     (None, k') \<Rightarrow> (k', rs, sent) | (Some p, k') \<Rightarrow> (k', rs, sent @ [p]))"

definition close_tracker :: "console_reading \<Rightarrow> task_progress_status \<Rightarrow> tracker_state \<Rightarrow> tracker_state" where
  "close_tracker c st s = (case s of (k, rs, sent) \<Rightarrow>
     (case finish_snapshot k rs of (k', rs') \<Rightarrow> send_report c st k' rs' sent))"

fun tracker_step :: "console_reading \<Rightarrow> tracker_call \<Rightarrow> tracker_state \<Rightarrow> tracker_state" where
  "tracker_step c (SetDisplayName n) (k, rs, sent) =
    (let k = k\<lparr>tk_name := n\<rparr> in (k, update_snapshot c k rs, sent))"
| "tracker_step c (SetTotal n) (k, rs, sent) =
    (let k = k\<lparr>tk_total := n\<rparr> in (k, update_snapshot c k rs, sent))"
| "tracker_step c (UpdateValue n) (k, rs, sent) =
    (let k = k\<lparr>tk_value := n\<rparr> in send_report c Progressing k (update_snapshot c k rs) sent)"
| "tracker_step c (Increment n) (k, rs, sent) =
    (let k = k\<lparr>tk_value := wrap64 (tk_value k + n)\<rparr>
     in send_report c Progressing k (update_snapshot c k rs) sent)"
| "tracker_step c (SetFFmpegProgress n fps speed) (k, rs, sent) =
    (let k = k\<lparr>tk_frames := n, tk_fps := fps, tk_speed := speed\<rparr> in (k, update_snapshot c k rs, sent))"
| "tracker_step c TrackerError s = close_tracker c FailureProgress s"
| "tracker_step c TrackerDone s = close_tracker c DoneProgress s"

section \<open>Telemetry\<close>

text \<open>\<open>version\<close> is a constant of the build. The machine resources are not modelled.\<close>

definition job_runtime :: "int \<Rightarrow> task_row list \<Rightarrow> job_state_row \<Rightarrow> worker_job_runtime" where
  "job_runtime now progress j =
    \<lparr>wj_name = js_name j, wj_can_pause = js_can_pause j,
     wj_progress = map (\<lambda>p. \<lparr>dp_id = tp_step_id p, dp_phase = tp_phase p, dp_percent = tp_percent p,
         dp_eta_seconds = Fin (of_int (tp_eta_seconds p)), dp_updated_at = now, dp_stale = False\<rparr>)
       (filter (\<lambda>p. tp_job_id p = js_job_id j \<and> tp_phase p = js_phase j) progress),
     wj_id = js_job_id j, wj_phase = js_phase j, wj_state = js_state j,
     wj_individually_paused = js_individually_paused j, wj_paused_by_worker = js_paused_by_worker j\<rparr>"

definition runtime_kind :: "worker_config \<Rightarrow> status_report \<Rightarrow> string \<times> string" where
  "runtime_kind c st =
    (let (encoder, kind) = (case encode_config c of
             None \<Rightarrow> ([], ''unknown'')
           | Some f \<Rightarrow> (case resolve_video_settings f of
                 Inl _ \<Rightarrow> ([], ''unknown'')
               | Inr v \<Rightarrow> (vs_codec v, if vs_codec v = ''av1_nvenc'' then ''gpu'' else ''cpu'')))
     in (encoder, if st_cpu_jobs st > 0 \<and> st_gpu_jobs st > 0 then ''hybrid''
                  else if st_cpu_jobs st > 0 then ''cpu'' else if st_gpu_jobs st > 0 then ''gpu'' else kind))"

definition profile_codec :: "ffmpeg_config \<Rightarrow> string" where
  "profile_codec f = (case resolve_video_settings f of Inl _ \<Rightarrow> [] | Inr v \<Rightarrow> vs_codec v)"

definition runtime_telemetry ::
  "string \<Rightarrow> int \<Rightarrow> worker_config \<Rightarrow> bool \<Rightarrow> job_state_row list \<Rightarrow> task_row list \<Rightarrow> job_executor \<Rightarrow> worker_runtime" where
  "runtime_telemetry version now c on_schedule jobs tasks e =
    (let st = admission_status on_schedule e;
         (encoder, kind) = runtime_kind c st;
         profiles = encoder_profiles c
     in \<lparr>rt_version = version, rt_control_version = 2, rt_paused = st_paused st,
         rt_ram_paused = st_ram_paused st, rt_pause_mode = st_pause_mode st,
         rt_suspended_encodes = int (st_suspended st), rt_finishing = st_finishing st,
         rt_draining = st_draining st, rt_managed_profile = ex_managed_limits e,
         rt_jobs = map (job_runtime now (progress_snapshot tasks)) (status_jobs e jobs),
         rt_capacity_version = 2, rt_cpu_jobs = st_cpu_jobs st, rt_gpu_jobs = st_gpu_jobs st,
         rt_active_cpu_encodes = st_active_cpu st, rt_active_gpu_encodes = st_active_gpu st,
         rt_cpu_max_encodes = st_cpu_max st, rt_gpu_max_encodes = st_gpu_max st,
         rt_cpu_encoder = (case profiles of Inl _ \<Rightarrow> [] | Inr (cpu, _) \<Rightarrow> profile_codec cpu),
         rt_gpu_encoder = (case profiles of Inl _ \<Rightarrow> [] | Inr (_, gpu) \<Rightarrow> profile_codec gpu),
         rt_encoder = encoder, rt_kind = kind, rt_accepting = st_accepting st,
         rt_within_schedule = st_within_schedule st, rt_active_jobs = uint (st_active_jobs st),
         rt_reserved_jobs = st_reserved_jobs st, rt_max_active_jobs = st_max_active_jobs st,
         rt_active_encodes = st_active_encodes st, rt_max_encodes = st_max_encodes st\<rparr>)"

section \<open>Finished tasks\<close>

lemma snapshot_row_key: "task_key_of (snapshot_row c k) = snapshot_key k"
  by (simp add: task_key_of_def snapshot_row_def snapshot_key_def Let_def)

definition others :: "task_key \<Rightarrow> task_row list \<Rightarrow> task_row set" where
  "others q rs = {r \<in> set rs. task_key_of r \<noteq> q}"

text \<open>What holds of the tracker, its registry and the reports sent once the task has finished.\<close>

definition hidden :: "task_key \<Rightarrow> task_row set \<Rightarrow> task_progress list \<Rightarrow> tracker_state \<Rightarrow> bool" where
  "hidden q rows before s \<longleftrightarrow> (case s of (k, rs, sent) \<Rightarrow>
     tk_finished k \<and> snapshot_key k = q \<and> distinct (map task_key_of rs) \<and> set rs = rows \<and>
     (\<forall>r\<in>rows. task_key_of r \<noteq> q) \<and>
     (\<exists>later. sent = before @ later \<and> (\<forall>p\<in>set later. pg_status p \<noteq> Progressing)))"

lemma report_hidden:
  assumes "hidden q rows before (k, rs, sent)"
  shows "hidden q rows before (send_report c st k rs sent)"
  using assms by (auto simp: hidden_def send_report_def report_track_progress_def snapshot_key_def)

lemma close_hidden:
  assumes "distinct (map task_key_of rs)" and "st \<noteq> Progressing"
  shows "hidden (snapshot_key k) (others (snapshot_key k) rs) sent (close_tracker c st (k, rs, sent))"
proof -
  have "hidden (snapshot_key k) (others (snapshot_key k) rs) sent
      (k\<lparr>tk_finished := True\<rparr>, progress_remove (snapshot_key k) rs, sent)"
    using task_rows.drop_rows[OF assms(1)] by (simp add: hidden_def others_def snapshot_key_def)
  from report_hidden[OF this] show ?thesis by (simp add: close_tracker_def finish_snapshot_def)
qed

lemma hidden_rename:
  assumes "hidden q rows before (k, rs, sent)" and "tk_finished k' = tk_finished k" "snapshot_key k' = snapshot_key k"
  shows "hidden q rows before (k', update_snapshot c k' rs, sent)"
  using assms by (simp add: hidden_def update_snapshot_def)

lemma step_hidden:
  assumes "hidden q rows before s"
  shows "hidden q rows before (tracker_step c x s)"
proof -
  obtain k rs sent where s: "s = (k, rs, sent)" by (cases s)
  have close: "hidden q rows before (close_tracker c st s)" if "st \<noteq> Progressing" for st
  proof -
    from assms s have h: "tk_finished k" "snapshot_key k = q" "distinct (map task_key_of rs)" "set rs = rows"
      and n: "\<forall>r\<in>rows. task_key_of r \<noteq> q" by (simp_all add: hidden_def)
    then have "progress_remove q rs = rs" by (simp add: progress_remove_def filter_id_conv)
    with assms s h have "hidden q rows before (k\<lparr>tk_finished := True\<rparr>, progress_remove q rs, sent)"
      by (simp add: hidden_def snapshot_key_def)
    from report_hidden[OF this] h show ?thesis by (simp add: s close_tracker_def finish_snapshot_def)
  qed
  show ?thesis
  proof (cases x)
    case TrackerError
    with close show ?thesis by simp
  next
    case TrackerDone
    with close show ?thesis by simp
  qed (use assms in \<open>auto simp: s Let_def intro!: report_hidden hidden_rename simp: snapshot_key_def\<close>)
qed

text \<open>Once a task has ended, by success or by failure, it is never shown again and reports no
  more progress, whatever late calls its tracker still gets; the rows of the other tasks stay.\<close>

theorem finished_task_not_shown:
  assumes "distinct (map task_key_of rs)" and "x = TrackerDone \<or> x = TrackerError"
    and "fold (\<lambda>(c, y). tracker_step c y) late (tracker_step c x (k, rs, sent)) = (k', rs', sent')"
  shows "snapshot_key k \<notin> task_key_of ` set (progress_snapshot rs') \<and>
    set (progress_snapshot rs') = others (snapshot_key k) (progress_snapshot rs) \<and>
    (\<exists>later. sent' = sent @ later \<and> (\<forall>p\<in>set later. pg_status p \<noteq> Progressing))"
proof -
  let ?H = "hidden (snapshot_key k) (others (snapshot_key k) rs) sent"
  have run: "?H s \<Longrightarrow> ?H (fold (\<lambda>(c, y). tracker_step c y) late s)" for s
  proof (induction late arbitrary: s)
    case (Cons a late)
    then show ?case by (cases a) (simp add: step_hidden)
  qed simp
  have "?H (tracker_step c x (k, rs, sent))" using assms(1,2) close_hidden by auto
  from run[OF this] assms(3) have "?H (k', rs', sent')" by simp
  then show ?thesis by (auto simp: hidden_def task_rows.shown_set others_def)
qed

definition demo_reading :: "int \<Rightarrow> console_reading" where
  "demo_reading now = \<lparr>rd_now = now, rd_percent = Fin 40, rd_eta = 7 * one_second\<rparr>"

definition demo_tracker :: task_tracker where
  "demo_tracker = new_tracker 0 ''j1'' ''j1'' DownloadNotification ''libx265'' ''film''"

theorem finished_task_not_shown_witness:
  "task_key_of ` set (progress_snapshot (fst (snd (fold (\<lambda>(c, y). tracker_step c y)
     [(demo_reading 20, UpdateValue 5), (demo_reading 30, TrackerDone)]
     (tracker_step (demo_reading 10) TrackerError (demo_tracker, update_snapshot (demo_reading 1) demo_tracker [], []))))))
   \<inter> {snapshot_key demo_tracker} = {}"
proof -
  let ?z = "fold (\<lambda>(c, y). tracker_step c y) [(demo_reading 20, UpdateValue 5), (demo_reading 30, TrackerDone)]
    (tracker_step (demo_reading 10) TrackerError (demo_tracker, update_snapshot (demo_reading 1) demo_tracker [], []))"
  have d: "distinct (map task_key_of (update_snapshot (demo_reading 1) demo_tracker []))"
    by (simp add: update_snapshot_def progress_set_def)
  obtain k rs sent where z: "?z = (k, rs, sent)" by (cases ?z)
  from finished_task_not_shown[OF d _ z] have "snapshot_key demo_tracker \<notin> task_key_of ` set (progress_snapshot rs)" by blast
  then show ?thesis unfolding z by simp
qed

end
