(* ===== verification/Server_Client.thy ===== *)
theory Server_Client
  imports Worker_Registry
begin

text \<open>
  The worker's side of the HTTP interface (\<open>worker/serverclient/server_client.go\<close>): which answers
  each call accepts. The network and the server behind it are a record of functions over a state of
  their own; a call that gets no answer, for whatever reason, is \<open>NoReply\<close>, and a body that cannot be
  decoded is \<open>None\<close>. The retrying transport is a library: its last answer is the one given here.
\<close>

datatype 'b http_reply = NoReply | Reply int "'b option"

datatype client_error = ClTransport | ClStatus int | ClDecode | ClNoJob | ClInvalidMax int
  | ClLimits settings_error | ClInvalidWrite settings_error

record 's transport =
  tr_settings :: "string \<Rightarrow> 's \<Rightarrow> worker_settings http_reply \<times> 's"
  tr_write :: "string \<Rightarrow> worker_settings \<Rightarrow> 's \<Rightarrow> unit http_reply \<times> 's"
  tr_ack :: "string \<Rightarrow> worker_control_ack \<Rightarrow> 's \<Rightarrow> unit http_reply \<times> 's"
  tr_job :: "string \<Rightarrow> 's \<Rightarrow> request_job_response http_reply \<times> 's"
  tr_ping :: "string \<Rightarrow> worker_runtime option \<Rightarrow> 's \<Rightarrow> unit http_reply \<times> 's"
  tr_event :: "task_event \<Rightarrow> 's \<Rightarrow> unit http_reply \<times> 's"
  tr_progress :: "task_progress \<Rightarrow> 's \<Rightarrow> unit http_reply \<times> 's"

type_synonym ('s, 'a) client_op = "('s, client_error, 'a) procedure"

definition exchange :: "('b http_reply \<Rightarrow> client_error + 'a) \<Rightarrow> ('s \<Rightarrow> 'b http_reply \<times> 's) \<Rightarrow> ('s, 'a) client_op" where
  "exchange accept call = (\<lambda>s. case call s of (r, s') \<Rightarrow> (accept r, s'))"

text \<open>A call whose answer is only a status, and a call whose answer has a body.\<close>

fun expect_status :: "int \<Rightarrow> 'b http_reply \<Rightarrow> client_error + unit" where
  "expect_status ok NoReply = Inl ClTransport"
| "expect_status ok (Reply st _) = (if st = ok then Inr () else Inl (ClStatus st))"

fun expect_body :: "'b http_reply \<Rightarrow> client_error + 'b" where
  "expect_body NoReply = Inl ClTransport"
| "expect_body (Reply st b) = (if st \<noteq> 200 then Inl (ClStatus st)
     else (case b of None \<Rightarrow> Inl ClDecode | Some x \<Rightarrow> Inr x))"

definition check_settings :: "worker_settings \<Rightarrow> client_error + worker_settings" where
  "check_settings ws =
    (case max_active_jobs ws of
       Some m \<Rightarrow> if m < 0 then Inl (ClInvalidMax m) else
         (if cpu_jobs ws \<noteq> None \<or> gpu_jobs ws \<noteq> None
          then (case total_jobs ws of Inl e \<Rightarrow> Inl (ClLimits e) | Inr _ \<Rightarrow> Inr ws) else Inr ws)
     | None \<Rightarrow>
         (if cpu_jobs ws \<noteq> None \<or> gpu_jobs ws \<noteq> None
          then (case total_jobs ws of Inl e \<Rightarrow> Inl (ClLimits e) | Inr _ \<Rightarrow> Inr ws) else Inr ws))"

definition client_settings :: "'s transport \<Rightarrow> string \<Rightarrow> ('s, worker_settings) client_op" where
  "client_settings tr w = exchange
    (\<lambda>r. case expect_body r of Inl e \<Rightarrow> Inl e | Inr ws \<Rightarrow> check_settings ws) (tr_settings tr w)"

definition client_write_settings :: "'s transport \<Rightarrow> string \<Rightarrow> worker_settings \<Rightarrow> ('s, unit) client_op" where
  "client_write_settings tr w ws = (case validate_write ws of
      Inl e \<Rightarrow> failP (ClInvalidWrite e)
    | Inr _ \<Rightarrow> exchange (expect_status 204) (tr_write tr w ws))"

definition client_write_max :: "'s transport \<Rightarrow> string \<Rightarrow> int \<Rightarrow> ('s, unit) client_op" where
  "client_write_max tr w m = client_write_settings tr w (empty_settings\<lparr>max_active_jobs := Some m\<rparr>)"

definition client_request_job :: "'s transport \<Rightarrow> string \<Rightarrow> ('s, request_job_response) client_op" where
  "client_request_job tr w = exchange
    (\<lambda>r. case r of Reply st _ \<Rightarrow> if st = 204 then Inl ClNoJob else expect_body r | NoReply \<Rightarrow> expect_body r)
    (tr_job tr w)"

definition client_ack_control :: "'s transport \<Rightarrow> string \<Rightarrow> worker_control_ack \<Rightarrow> ('s, unit) client_op" where
  "client_ack_control tr w a = exchange (expect_status 204) (tr_ack tr w a)"

text \<open>Events carry the worker's own name, whatever the caller filled in.\<close>

definition client_ping :: "'s transport \<Rightarrow> string \<Rightarrow> worker_runtime option \<Rightarrow> ('s, unit) client_op" where
  "client_ping tr w rt = exchange (expect_status 200) (tr_ping tr w rt)"

definition client_task_event :: "'s transport \<Rightarrow> string \<Rightarrow> task_event \<Rightarrow> ('s, unit) client_op" where
  "client_task_event tr w e = exchange (expect_status 200) (tr_event tr (e\<lparr>worker_name := w\<rparr>))"

definition client_task_progress :: "'s transport \<Rightarrow> string \<Rightarrow> task_progress \<Rightarrow> ('s, unit) client_op" where
  "client_task_progress tr w p = exchange (expect_status 200) (tr_progress tr (p\<lparr>pg_worker_name := w\<rparr>))"

lemma check_settings_Inr:
  assumes "check_settings ws = Inr ws'" 
  shows "ws' = ws" "\<forall>m. max_active_jobs ws = Some m \<longrightarrow> 0 \<le> m"
    "cpu_jobs ws \<noteq> None \<or> gpu_jobs ws \<noteq> None \<Longrightarrow> \<exists>t. total_jobs ws = Inr t"
  using assms by (auto simp: check_settings_def split: option.splits if_splits sum.splits)

lemma client_settings_Inr:
  assumes "client_settings tr w s = (Inr ws, t)"
  shows "tr_settings tr w s = (Reply 200 (Some ws), t)" "check_settings ws = Inr ws"
proof -
  obtain r u where r: "tr_settings tr w s = (r, u)" by fastforce
  with assms have "r = Reply 200 (Some ws) \<and> check_settings ws = Inr ws \<and> u = t"
    by (cases r) (auto simp: client_settings_def exchange_def split: if_splits option.splits dest: check_settings_Inr)
  with r show "tr_settings tr w s = (Reply 200 (Some ws), t)" "check_settings ws = Inr ws" by simp_all
qed

end
