(* ===== verification/Web_Api.thy ===== *)
theory Web_Api
  imports Server_Steps Server_Client
begin

text \<open>
  The HTTP interface of the server that the workers use (\<open>server/web/web.go\<close>): for each route the
  handler's checks, the call of the scheduler and the status it answers. Bodies are given decoded,
  \<open>None\<close> where they do not decode. An answer is an \<open>http_reply\<close>, as the client sees it: a handler
  that panics closes the connection, which is \<open>NoReply\<close>.
\<close>

section \<open>Requests and answers\<close>

text \<open>The headers the handlers read, empty when missing; \<open>wq_uuid\<close> is the query parameter.\<close>

record web_request =
  wq_authorization :: string
  wq_worker :: string
  wq_control_version :: string
  wq_capabilities :: string
  wq_uuid :: string
  wq_address :: string
  wq_length :: string
  wq_checksum :: string

text \<open>What a call meets: the configuration, the clock, names made up by the runtime, ffprobe, the parser of
  identifiers, SHA-256.\<close>

record web_env =
  we_config :: server_config
  we_token :: string
  we_now :: int
  we_temporary :: string
  we_random :: string
  we_output_probe :: "string \<Rightarrow> ffprobe_output option"
  we_source_probe :: "string \<Rightarrow> media_probe option"
  we_parse_uuid :: "string \<Rightarrow> uuid option"
  we_digest :: "string \<Rightarrow> string"

type_synonym 'b handler = "server \<Rightarrow> 'b http_reply \<times> server"

definition refuse :: "int \<Rightarrow> 'b handler" where
  "refuse st = (\<lambda>s. (Reply st None, s))"

text \<open>An error is answered with the code for it; a nil dereference is a panic.\<close>

definition answer :: "(server_error \<Rightarrow> int) \<Rightarrow> ('a \<Rightarrow> 'b http_reply) \<Rightarrow> 'a server_op \<Rightarrow> 'b handler" where
  "answer st_of ok m = (\<lambda>s. case m s of
      (Inl e, t) \<Rightarrow> (if e = NilDereference then NoReply else Reply (st_of e) None, t)
    | (Inr x, t) \<Rightarrow> (ok x, t))"

definition bearer :: string where
  "bearer = ''Bearer ''"

definition authorized :: "string \<Rightarrow> string \<Rightarrow> bool" where
  "authorized token h \<longleftrightarrow> h \<noteq> [] \<and> has_prefix h bearer \<and> drop (length bearer) h = token"

definition auth_func :: "web_env \<Rightarrow> web_request \<Rightarrow> 'b handler \<Rightarrow> 'b handler" where
  "auth_func env q h = (if authorized (we_token env) (wq_authorization q) then h else refuse 401)"

definition worker_name_of :: "web_request \<Rightarrow> string" where
  "worker_name_of q = trim_space (wq_worker q)"

section \<open>Jobs\<close>

definition web_request_job :: "web_env \<Rightarrow> web_request \<Rightarrow> request_job_response handler" where
  "web_request_job env q =
    (if wq_worker q = [] then refuse 403
     else answer (\<lambda>e. if e = ErrNoJobsAvailable then 204 else 500) (\<lambda>x. Reply 200 (Some x))
       (on_db (request_job (we_now env) (wq_worker q))))"

definition web_queued_jobs :: "queue_snapshot handler" where
  "web_queued_jobs = answer (\<lambda>_. 500) (\<lambda>x. Reply 200 (Some x)) (on_db list_queued_jobs)"

definition web_get_job :: "string \<Rightarrow> job handler" where
  "web_get_job j = (if j = [] then refuse 400
     else answer (\<lambda>_. 500) (\<lambda>x. Reply 200 (Some x)) (on_db (get_job j)))"

definition web_cancel_job :: "web_env \<Rightarrow> string \<Rightarrow> unit handler" where
  "web_cancel_job env j = (if j = [] then refuse 400
     else answer (\<lambda>_. 500) (\<lambda>_. Reply 200 None) (on_db (cancel_job (we_now env) j)))"

text \<open>An intake request; \<open>walk\<close> gives the files below the path, \<open>None\<close> where it does not exist.\<close>

definition web_add_jobs ::
  "web_env \<Rightarrow> (string \<Rightarrow> ((job_request \<times> intake_reason list) \<times> uuid) list option) \<Rightarrow> job_request option \<Rightarrow>
    schedule_result handler" where
  "web_add_jobs env walk body = (case body of
      None \<Rightarrow> refuse 500
    | Some rq \<Rightarrow>
        if rq_source_path rq = [] then refuse 400
        else (case walk (join_path [cfg_root (we_config env), rq_source_path rq]) of
            None \<Rightarrow> refuse 500
          | Some fs \<Rightarrow> answer (\<lambda>_. 500) (\<lambda>x. Reply 200 (Some x))
              (on_db (schedule_all (we_now env) (we_source_probe env) (cfg_root (we_config env)) fs
                \<lparr>scheduled_jobs = [], failed_requests = [], skipped_files = []\<rparr>))))"

section \<open>Workers\<close>

definition remote_control_capability :: string where
  "remote_control_capability = ''2''"

definition independent_encoder_capability :: string where
  "independent_encoder_capability = ''independent-encoders''"

text \<open>A pending command is attached when the client can carry it out.\<close>

definition attach_control :: "string \<Rightarrow> worker_settings \<Rightarrow> worker_control option \<Rightarrow> worker_settings" where
  "attach_control version ws c = (case c of
      None \<Rightarrow> ws
    | Some k \<Rightarrow>
        if ctl_state k = ''pending'' \<and> (ctl_action k \<noteq> ''pause-job'' \<and> ctl_action k \<noteq> ''resume-job'' \<or>
             version = remote_control_capability)
        then ws\<lparr>control := Some k\<rparr> else ws)"

text \<open>A client that does not know separate limits is drained.\<close>

definition degrade_settings :: "string \<Rightarrow> worker_settings \<Rightarrow> worker_settings" where
  "degrade_settings capabilities ws =
    (if independent ws \<and> capabilities \<noteq> independent_encoder_capability then ws\<lparr>max_active_jobs := Some 0\<rparr> else ws)"

definition web_get_settings :: "web_request \<Rightarrow> worker_settings handler" where
  "web_get_settings q =
    (let name = worker_name_of q; version = wq_control_version q
     in if name = [] then refuse 400
        else answer (\<lambda>_. 500) (\<lambda>ws. Reply 200 (Some (degrade_settings (wq_capabilities q) ws)))
          (bindP (on_db (get_worker_settings name)) (\<lambda>ws.
            if version = ''1'' \<or> version = remote_control_capability
            then bindP (on_db (get_worker_control name)) (\<lambda>c. retP (attach_control version ws c))
            else retP ws)))"

definition web_set_settings :: "web_request \<Rightarrow> worker_settings option \<Rightarrow> unit handler" where
  "web_set_settings q body =
    (if worker_name_of q = [] then refuse 400
     else (case body of
         None \<Rightarrow> refuse 400
       | Some ws \<Rightarrow> (case validate_write ws of
           Inl _ \<Rightarrow> refuse 400
         | Inr _ \<Rightarrow> answer (\<lambda>e. if e = ErrInvalidWorkerSettings then 400 else 500) (\<lambda>_. Reply 204 None)
             (on_db (set_worker_settings_checked (worker_name_of q) ws)))))"

definition web_ack_control :: "web_env \<Rightarrow> web_request \<Rightarrow> worker_control_ack option \<Rightarrow> unit handler" where
  "web_ack_control env q body = (case body of
      None \<Rightarrow> refuse 400
    | Some a \<Rightarrow>
        if worker_name_of q = [] \<or> 512 < length (ack_error a) \<or> we_parse_uuid env (ack_id a) = None then refuse 400
        else answer (\<lambda>e. if e = ErrElementNotFound then 409 else 500) (\<lambda>_. Reply 204 None)
          (on_db (ack_worker_control (worker_name_of q) a)))"

text \<open>An event as it is sent. The address of the peer is filled in before decoding, so that a body that has
  the field, as every one the client sends does, overwrites it.\<close>

record wire_event =
  wi_address :: "string option"
  wi_event :: envelope

fun with_address :: "string \<Rightarrow> envelope \<Rightarrow> envelope" where
  "with_address a (PingEvent _ p) = PingEvent a p"
| "with_address a ev = ev"

definition web_event :: "web_env \<Rightarrow> web_request \<Rightarrow> wire_event option \<Rightarrow> unit handler" where
  "web_event env q body = (case body of
      None \<Rightarrow> refuse 500
    | Some w \<Rightarrow>
        (let peer = hd (split_on (CHR '':'') (wq_address q));
             address = (case wi_address w of None \<Rightarrow> peer | Some a \<Rightarrow> a)
         in answer (\<lambda>_. 500) (\<lambda>_. Reply 200 None)
           (process_event (we_config env) (we_output_probe env) (we_temporary env) (we_now env)
             (with_address address (wi_event w)))))"

section \<open>Downloads\<close>

text \<open>A download names its job and its worker; a missing job is answered 404 and then looked up all the
  same. \<open>brk\<close> is the number of blocks of 128 KiB read when the connection ends early. The bytes are those
  that were sent: fewer than announced when the transfer was cut or the file could not be read.\<close>

definition block_size :: int where
  "block_size = 131072"

definition stream_code :: "server_error \<Rightarrow> int" where
  "stream_code e = (if e = ErrStreamNotAllowed then 403 else if e = ErrJobNotFound then 404 else 500)"

record download_body =
  db_name :: string
  db_length :: int
  db_bytes :: string

definition send_file :: "web_env \<Rightarrow> nat option \<Rightarrow> download_stream \<Rightarrow> download_body http_reply server_op" where
  "send_file env brk d =
    bindP (tryP (on_fs (os_read (dl_node d)))) (\<lambda>r.
      (let given = (case r of Inl _ \<Rightarrow> [] | Inr bytes \<Rightarrow> (case brk of None \<Rightarrow> bytes | Some k \<Rightarrow> take (nat (int k * block_size)) bytes));
           d' = (if given = [] then d else download_read given d)
       in bindP (tryP (download_close (we_digest env) True d')) (\<lambda>_.
            retP (Reply 200 (Some \<lparr>db_name = dl_name d, db_length = dl_size d, db_bytes = given\<rparr>)))))"

text \<open>The first status written is the one sent.\<close>

fun restatus :: "int option \<Rightarrow> 'b http_reply \<Rightarrow> 'b http_reply" where
  "restatus _ NoReply = NoReply"
| "restatus None r = r"
| "restatus (Some st) (Reply _ _) = Reply st None"

definition web_download :: "web_env \<Rightarrow> web_request \<Rightarrow> nat option \<Rightarrow> download_body handler" where
  "web_download env q brk =
    (if wq_worker q = [] then refuse 403
     else (\<lambda>s. case answer stream_code id
           (bindP (get_download_job_writer (we_config env) (wq_uuid q) (wq_worker q)) (send_file env brk)) s of
         (r, t) \<Rightarrow> (restatus (if wq_uuid q = [] then Some 404 else None) r, t)))"

definition web_checksum :: "web_env \<Rightarrow> web_request \<Rightarrow> string handler" where
  "web_checksum env q =
    (if wq_uuid q = [] then refuse 404
     else answer (\<lambda>_. 404) (\<lambda>c. Reply 200 (Some c)) (get_checksum (we_config env) (wq_uuid q)))"

section \<open>Uploads\<close>

text \<open>How the body arrives: blocks, then its end, an error of the connection, or the end of the request.\<close>

datatype body_read = Block string | FinalBlock string | BrokenBlock string | RequestGone

datatype upload_end = Received | Abandoned

text \<open>A failed write ends the loop like the end of the body.\<close>

fun receive_body :: "body_read list \<Rightarrow> int \<Rightarrow> upload_stream \<Rightarrow> (upload_end \<times> int \<times> upload_stream) fs_op" where
  "receive_body [] n u = retP (Abandoned, n, u)"
| "receive_body (RequestGone # rs) n u = retP (Abandoned, n, u)"
| "receive_body (Block b # rs) n u = bindP (upload_write b u) (\<lambda>(w, u').
     if w \<noteq> Inr () then retP (Received, n + int (length b), u')
     else receive_body rs (n + int (length b)) u')"
| "receive_body (FinalBlock b # rs) n u = bindP (upload_write b u) (\<lambda>(w, u').
     retP (Received, n + int (length b), u'))"
| "receive_body (BrokenBlock b # rs) n u = bindP (upload_write b u) (\<lambda>(w, u').
     retP (if w \<noteq> Inr () then Received else Abandoned, n + int (length b), u'))"

definition parse_uint64 :: "string \<Rightarrow> int option" where
  "parse_uint64 s = (if s \<noteq> [] \<and> list_all is_digit s \<and> int (digits_value s) < 2 ^ 64 then Some (int (digits_value s)) else None)"

text \<open>The checks of what was received, up to the status; an abandoned request is left without one, which
  the server sends as 200.\<close>

definition finish_upload :: "web_env \<Rightarrow> web_request \<Rightarrow> int \<Rightarrow> upload_end \<times> int \<times> upload_stream \<Rightarrow> int fs_op" where
  "finish_upload env q declared = (\<lambda>(e, n, u).
     if e = Abandoned then bindP (tryP (upload_close u)) (\<lambda>_. retP 200)
     else if declared \<noteq> n then bindP (tryP (upload_close u)) (\<lambda>_. retP 400)
     else (case up_hashed u of
         None \<Rightarrow> failP NilDereference
       | Some h \<Rightarrow>
           if we_digest env h \<noteq> wq_checksum q then bindP (tryP (upload_close u)) (\<lambda>_. retP 400)
           else bindP (tryP (upload_close u)) (\<lambda>c. case c of
               Inl _ \<Rightarrow> retP 500
             | Inr _ \<Rightarrow> bindP (tryP (upload_commit (we_digest env) u)) (\<lambda>m. case m of
                 Inl x \<Rightarrow> if x = NilDereference then failP x else retP 500
               | Inr _ \<Rightarrow> retP 201))))"

definition take_upload :: "web_env \<Rightarrow> web_request \<Rightarrow> body_read list \<Rightarrow> upload_stream \<Rightarrow> int fs_op" where
  "take_upload env q body u =
    (case parse_uint64 (wq_length q) of
       None \<Rightarrow> bindP (tryP (upload_close u)) (\<lambda>_. retP 400)
     | Some declared \<Rightarrow>
         if wq_checksum q = [] then bindP (tryP (upload_close u)) (\<lambda>_. retP 403)
         else bindP (receive_body body 0 u) (finish_upload env q declared))"

text \<open>Whatever happens the name of the attempt is removed in the end.\<close>

definition web_upload :: "web_env \<Rightarrow> web_request \<Rightarrow> body_read list \<Rightarrow> unit handler" where
  "web_upload env q body =
    (if wq_worker q = [] then refuse 403
     else (\<lambda>s. case answer stream_code id
           (bindP (get_upload_job_writer (we_parse_uuid env) (we_config env) (we_random env) (wq_uuid q) (wq_worker q)) (\<lambda>u.
             on_fs (bindP (tryP (take_upload env q body u)) (\<lambda>st.
               bindP (tryP (upload_clean u)) (\<lambda>_. case st of Inl x \<Rightarrow> failP x | Inr n \<Rightarrow> retP (Reply n None)))))) s of
         (r, t) \<Rightarrow> (restatus (if wq_uuid q = [] then Some 404 else None) r, t)))"

end
