(* ===== verification/Coordinator.thy ===== *)
theory Coordinator
  imports Server_Client
begin

text \<open>
  The loop that keeps a worker in step with the server (\<open>worker/worker/coordinator.go\<close>,
  \<open>worker/worker/remoteControl.go\<close>): settings and commands are read, applied and acknowledged, then
  a job is asked for. \<open>settingsMu\<close> makes each synchronisation one step with respect to the local
  controls; a pass of the request routine is a synchronisation followed by the request. Logging is
  left out, and the wording of errors is the argument \<open>co_describe\<close>.
\<close>

record coordinator_env =
  co_goos :: string
  co_parse_uuid :: "string \<Rightarrow> string option"
  co_active :: inspection
  co_name :: string
  co_version :: string
  co_config :: worker_config

datatype coordinator_error = CoClient client_error | CoExecutor executor_error | CoBadAction
  | CoDraining | CoQueueLimits settings_error | CoApplied string | CoNilDereference | CoUpdateCheck

record 's coordinator =
  co_worker :: job_executor
  co_applied_id :: string
  co_applied_error :: string
  co_jobs :: "job_state_row list"
  co_tasks :: "task_row list"
  co_net :: 's

type_synonym ('s, 'a) coordinator_op = "('s coordinator, coordinator_error, 'a) procedure"

definition on_worker :: "'a executor_op \<Rightarrow> ('s, 'a) coordinator_op" where
  "on_worker m = (\<lambda>q. case m (co_worker q) of
     (Inl x, e) \<Rightarrow> (Inl (CoExecutor x), q\<lparr>co_worker := e\<rparr>) | (Inr y, e) \<Rightarrow> (Inr y, q\<lparr>co_worker := e\<rparr>))"

definition on_net :: "('s, 'a) client_op \<Rightarrow> ('s, 'a) coordinator_op" where
  "on_net m = (\<lambda>q. case m (co_net q) of
     (Inl x, s) \<Rightarrow> (Inl (CoClient x), q\<lparr>co_net := s\<rparr>) | (Inr y, s) \<Rightarrow> (Inr y, q\<lparr>co_net := s\<rparr>))"

definition resolve_settings :: "'s coordinator \<Rightarrow> 's coordinator" where
  "resolve_settings q = q\<lparr>co_worker := mark_settings_resolved (co_worker q)\<rparr>"

section \<open>Commands\<close>

definition stop_settings :: worker_settings where
  "stop_settings = empty_settings\<lparr>cpu_jobs := Some 0, gpu_jobs := Some 0\<rparr>"

text \<open>The limits a queue command sets, once the server has stored them.\<close>

definition apply_queue_limits :: "string \<Rightarrow> worker_settings \<Rightarrow> ('s, unit) coordinator_op" where
  "apply_queue_limits goos ws =
    bindP (on_worker (set_pause_mode goos ''finish'')) (\<lambda>_.
      if independent ws
      then (case (cpu_jobs ws, gpu_jobs ws) of
              (Some c, Some g) \<Rightarrow> on_worker (set_encoder_limits c g) | _ \<Rightarrow> failP CoNilDereference)
      else (case max_active_jobs ws of
              None \<Rightarrow> failP CoNilDereference | Some m \<Rightarrow> on_worker (set_max_active_jobs m)))"

definition queue_command :: "'s transport \<Rightarrow> coordinator_env \<Rightarrow> worker_settings \<Rightarrow> ('s, unit) coordinator_op" where
  "queue_command tr env ws = (case validate_write ws of
      Inl x \<Rightarrow> failP (CoQueueLimits x)
    | Inr _ \<Rightarrow> bindP (on_net (client_write_settings tr (co_name env) ws)) (\<lambda>_.
        apply_queue_limits (co_goos env) ws))"

definition execute_remote_control ::
  "'s transport \<Rightarrow> coordinator_env \<Rightarrow> worker_control \<Rightarrow> ('s, unit) coordinator_op" where
  "execute_remote_control tr env c =
    (let a = ctl_action c in
     if \<not> validate_worker_action a then failP CoBadAction
     else (\<lambda>q. if ex_admission_held (co_worker q) \<or> ex_finishing (co_worker q) \<and> a \<noteq> ''resume-queue''
       then (Inl CoDraining, q)
       else (if a = ''pause-job'' \<or> a = ''resume-job''
             then on_worker (set_job_hold (co_parse_uuid env) (co_goos env) (co_active env) (ctl_job_id c) (a = ''pause-job''))
             else if a = ''pause-encodes'' then on_worker (set_ram_paused (co_goos env) True)
             else if a = ''resume-encodes'' then on_worker (set_ram_paused (co_goos env) False)
             else if a = ''stop-after-current'' then queue_command tr env stop_settings
             else if a = ''resume-queue'' then queue_command tr env (control_settings c)
             else retP ()) q))"

definition applied_text :: "(coordinator_error \<Rightarrow> string) \<Rightarrow> coordinator_error \<Rightarrow> string" where
  "applied_text describe x = take 512 (''Worker could not apply control: '' @ describe x)"

text \<open>The first half of \<open>applyRemoteControl\<close>: a command is carried out once; its outcome is kept with
  its identifier.\<close>

definition carry_out ::
  "(coordinator_error \<Rightarrow> string) \<Rightarrow> 's transport \<Rightarrow> coordinator_env \<Rightarrow> worker_control \<Rightarrow> 's coordinator \<Rightarrow> 's coordinator" where
  "carry_out describe tr env c q =
    (if co_applied_id q = ctl_id c then q
     else (case execute_remote_control tr env c q of
        (r, q') \<Rightarrow> q'\<lparr>co_applied_id := ctl_id c,
          co_applied_error := (case r of Inl x \<Rightarrow> applied_text describe x | Inr _ \<Rightarrow> [])\<rparr>))"

definition co_telemetry :: "coordinator_env \<Rightarrow> int \<Rightarrow> bool \<Rightarrow> 's coordinator \<Rightarrow> worker_runtime" where
  "co_telemetry env now sched q =
    runtime_telemetry (co_version env) now (co_config env) sched (co_jobs q) (co_tasks q) (co_worker q)"

text \<open>The second half: the result is published and acknowledged.\<close>

definition acknowledge_control ::
  "'s transport \<Rightarrow> coordinator_env \<Rightarrow> int \<Rightarrow> bool \<Rightarrow> worker_control \<Rightarrow> ('s, unit) coordinator_op" where
  "acknowledge_control tr env now sched c = (\<lambda>q.
    let q = (if co_applied_error q = [] then resolve_settings q else q) in
    bindP (on_net (client_ping tr (co_name env) (Some (co_telemetry env now sched q)))) (\<lambda>_.
    bindP (\<lambda>q. on_net (client_ack_control tr (co_name env)
              \<lparr>ack_id = ctl_id c, ack_error = co_applied_error q\<rparr>) q) (\<lambda>_ q.
      if co_applied_error q \<noteq> [] then (Inl (CoApplied (co_applied_error q)), q)
      else (Inr (), resolve_settings q))) q)"

definition apply_remote_control ::
  "(coordinator_error \<Rightarrow> string) \<Rightarrow> 's transport \<Rightarrow> coordinator_env \<Rightarrow> int \<Rightarrow> bool \<Rightarrow> worker_control \<Rightarrow>
    ('s, unit) coordinator_op" where
  "apply_remote_control describe tr env now sched c q =
    acknowledge_control tr env now sched c (carry_out describe tr env c q)"

section \<open>Convergence to the settings of the server\<close>

definition converge :: "worker_settings \<Rightarrow> ('s, unit) coordinator_op" where
  "converge ws = (\<lambda>q.
    let p = ex_pool (co_worker q) in
    case (cpu_jobs ws, gpu_jobs ws) of
      (Some c, Some g) \<Rightarrow>
        if \<not> ep_independent p \<or> ep_cpu_jobs p \<noteq> c \<or> ep_gpu_jobs p \<noteq> g
        then on_worker (set_encoder_limits c g) q else (Inr (), q)
    | _ \<Rightarrow> (case max_active_jobs ws of
        None \<Rightarrow> (Inr (), q)
      | Some m \<Rightarrow>
          if ex_max_active (co_worker q) \<noteq> m \<or> m > 0 \<and> (ep_target p \<noteq> m \<or> ep_independent p)
          then on_worker (set_max_active_jobs m) q else (Inr (), q)))"

definition sync_worker_settings ::
  "(coordinator_error \<Rightarrow> string) \<Rightarrow> 's transport \<Rightarrow> coordinator_env \<Rightarrow> int \<Rightarrow> bool \<Rightarrow> ('s, unit) coordinator_op" where
  "sync_worker_settings describe tr env now sched =
    bindP (on_net (client_settings tr (co_name env))) (\<lambda>ws.
      case control ws of
        Some c \<Rightarrow> apply_remote_control describe tr env now sched c
      | None \<Rightarrow> (\<lambda>q. if ex_finishing (co_worker q) \<or> ex_admission_held (co_worker q)
          then (Inr (), resolve_settings q)
          else bindP (converge ws) (\<lambda>_. writeP resolve_settings) q))"

section \<open>The request routine\<close>

text \<open>What the world does during a pass: the verdict of the schedule when the slot is reserved and
  again after the update check, the outcome of the check, and whether the job can be prepared.\<close>

record pass_events =
  pv_now :: int
  pv_sched :: bool
  pv_sched_after :: bool
  pv_update :: "bool option"
  pv_prepared :: "executor_error + unit"

datatype pass_outcome = PassSyncFailed coordinator_error | PassNotReserved | PassUpdateCheckFailed
  | PassDrainFailed coordinator_error | PassDraining | PassOutsideSchedule | PassNoJob client_error
  | PassRejected coordinator_error | PassAccepted request_job_response

definition release_slot :: "'s coordinator \<Rightarrow> 's coordinator" where
  "release_slot q = q\<lparr>co_worker := release_job_slot (co_worker q)\<rparr>"

text \<open>With the slot reserved: an update drains the worker; otherwise a job is requested.
  After \<open>PassDraining\<close> the routine waits for the active jobs and leaves the process.\<close>

definition use_reserved ::
  "'s transport \<Rightarrow> coordinator_env \<Rightarrow> pass_events \<Rightarrow> 's coordinator \<Rightarrow> pass_outcome \<times> 's coordinator" where
  "use_reserved tr env v q = (case pv_update v of
      None \<Rightarrow> (PassUpdateCheckFailed, release_slot q)
    | Some True \<Rightarrow> (case on_worker drain_accepted_jobs (release_slot q) of
          (Inl x, q') \<Rightarrow> (PassDrainFailed x, q') | (Inr _, q') \<Rightarrow> (PassDraining, q'))
    | Some False \<Rightarrow>
        if \<not> pv_sched_after v then (PassOutsideSchedule, release_slot q)
        else (case client_request_job tr (co_name env) (co_net q) of
            (Inl x, s) \<Rightarrow> (PassNoJob x, release_slot (q\<lparr>co_net := s\<rparr>))
          | (Inr job, s) \<Rightarrow> (case on_worker (accept_reserved (pv_prepared v)) (q\<lparr>co_net := s\<rparr>) of
                (Inl x, q') \<Rightarrow> (PassRejected x, q') | (Inr _, q') \<Rightarrow> (PassAccepted job, q'))))"

definition request_pass ::
  "(coordinator_error \<Rightarrow> string) \<Rightarrow> 's transport \<Rightarrow> coordinator_env \<Rightarrow> pass_events \<Rightarrow> 's coordinator \<Rightarrow>
    pass_outcome \<times> 's coordinator" where
  "request_pass describe tr env v q =
    (case sync_worker_settings describe tr env (pv_now v) (pv_sched v) q of
       (Inl x, q') \<Rightarrow> (PassSyncFailed x, q')
     | (Inr _, q') \<Rightarrow> (case reserve_job_slot (pv_sched v) (co_worker q') of
           (False, _) \<Rightarrow> (PassNotReserved, q')
         | (True, e) \<Rightarrow> use_reserved tr env v (q'\<lparr>co_worker := e\<rparr>)))"

end
