(* ===== verification/Probe_Data.thy ===== *)
theory Probe_Data
  imports Go_Lib Go_Float "HOL-Library.Word"
begin

text \<open>
  What the worker keeps of a media file (\<open>worker/ffmpeg/ffprobe.go\<close>): the choice of the audio and
  subtitle tracks, the classes of subtitles, the timeline of the video packets. The answer of
  ffprobe, decoded by a library, is the record \<open>raw_probe\<close>. Go iterates over a map in an order it
  does not specify; the order is the argument \<open>shuffle\<close>, of which only that it is a rearrangement
  is used. Ids are \<open>uint8\<close> as in the code.
\<close>

section \<open>Tracks\<close>

record raw_stream =
  rs_index :: int
  rs_codec_type :: string
  rs_codec_name :: string
  rs_width :: int
  rs_height :: int
  rs_avg_frame_rate :: string
  rs_bit_rate :: string
  rs_channel_layout :: string
  rs_channels :: int
  rs_default :: int
  rs_forced :: int
  rs_comment :: int
  rs_language :: string
  rs_title :: string

record raw_probe =
  rp_duration :: int
  rp_streams :: "raw_stream list"

record video_track =
  vt_id :: "8 word"
  vt_duration :: int
  vt_frame_rate :: int

record audio_track =
  at_id :: "8 word"
  at_language :: string
  at_channels :: string
  at_channels_number :: "8 word"
  at_channel_layout :: string
  at_default :: bool
  at_bitrate :: nat
  at_title :: string

record subtitle_track =
  st_id :: "8 word"
  st_language :: string
  st_forced :: bool
  st_comment :: bool
  st_format :: string
  st_title :: string

record normalized_probe =
  np_video :: video_track
  np_audios :: "audio_track list"
  np_subtitles :: "subtitle_track list"

section \<open>Classes of subtitles\<close>

definition is_image_subtitle :: "subtitle_track \<Rightarrow> bool" where
  "is_image_subtitle s \<longleftrightarrow> contains (to_lower (st_format s)) ''pgs''"

definition needs_extraction :: "subtitle_track \<Rightarrow> bool" where
  "needs_extraction s \<longleftrightarrow> \<not> is_image_subtitle s \<and> (to_lower (st_format s) = [] \<or> to_lower (st_format s) = ''none'')"

definition needs_direct_conversion :: "subtitle_track \<Rightarrow> bool" where
  "needs_direct_conversion s \<longleftrightarrow> to_lower (st_format s) = ''mov_text''"

definition have_image_subtitle :: "normalized_probe \<Rightarrow> bool" where
  "have_image_subtitle p \<longleftrightarrow> list_ex is_image_subtitle (np_subtitles p)"

definition pgs_subtitles :: "normalized_probe \<Rightarrow> subtitle_track list" where
  "pgs_subtitles p = filter is_image_subtitle (np_subtitles p)"

definition extractable_subtitles :: "normalized_probe \<Rightarrow> subtitle_track list" where
  "extractable_subtitles p = filter needs_extraction (np_subtitles p)"

definition have_extractable_subtitle :: "normalized_probe \<Rightarrow> bool" where
  "have_extractable_subtitle p \<longleftrightarrow> list_ex (\<lambda>s. is_image_subtitle s \<or> needs_extraction s) (np_subtitles p)"

section \<open>Normalisation\<close>

datatype frame_rate_result = RateError | RatePanics | Rate int

definition ffprobe_frame_rate :: "string \<Rightarrow> frame_rate_result" where
  "ffprobe_frame_rate s = (case split_on (CHR ''/'') s of
      [a, b] \<Rightarrow> (case atoi a of None \<Rightarrow> RateError | Some n \<Rightarrow> (case atoi b of None \<Rightarrow> RateError
        | Some d \<Rightarrow> if d = 0 then RatePanics else Rate (wrap64 (go_div n d))))
    | _ \<Rightarrow> RateError)"

text \<open>\<open>strconv.ParseUint(s, 10, 32)\<close>.\<close>

definition parse_uint32 :: "string \<Rightarrow> nat option" where
  "parse_uint32 s = (if s \<noteq> [] \<and> list_all is_digit s \<and> int (digits_value s) < 2 ^ 32 then Some (digits_value s) else None)"

datatype probe_panic = NoVideoPanic | DivisionPanic | BitratePanic

definition audio_of :: "raw_stream \<Rightarrow> audio_track option" where
  "audio_of r = map_option (\<lambda>b. \<lparr>at_id = word_of_int (rs_index r), at_language = rs_language r,
      at_channels = rs_channel_layout r, at_channels_number = word_of_int (rs_channels r),
      at_channel_layout = rs_channel_layout r, at_default = (rs_default r = 1), at_bitrate = b,
      at_title = rs_title r\<rparr>)
    (parse_uint32 (if rs_bit_rate r = [] then ''0'' else rs_bit_rate r))"

definition subtitle_of :: "raw_stream \<Rightarrow> subtitle_track" where
  "subtitle_of r = \<lparr>st_id = word_of_int (rs_index r), st_language = rs_language r, st_forced = (rs_forced r = 1),
     st_comment = (rs_comment r = 1), st_format = rs_codec_name r, st_title = rs_title r\<rparr>"

definition better_audio :: "audio_track \<Rightarrow> audio_track \<Rightarrow> bool" where
  "better_audio new old \<longleftrightarrow> at_channels_number new > at_channels_number old \<or>
     at_channels_number new = at_channels_number old \<and> at_bitrate new > at_bitrate old"

text \<open>The map of the best track per language, as rows with the language as their key.\<close>

definition keep_better :: "audio_track list \<Rightarrow> audio_track \<Rightarrow> audio_track list" where
  "keep_better best a = upsert at_language (\<lambda>old. if better_audio a old then a else old) a best"

definition best_audios :: "audio_track list \<Rightarrow> audio_track list" where
  "best_audios as = foldl keep_better [] as"

text \<open>The subtitles: what is appended on the way, and the first of each language.\<close>

fun sort_subtitles ::
  "subtitle_track list \<Rightarrow> subtitle_track list \<times> subtitle_track list \<Rightarrow> subtitle_track list \<times> subtitle_track list" where
  "sort_subtitles [] acc = acc"
| "sort_subtitles (s # ss) (listed, best) =
    (if st_forced s \<or> st_comment s then sort_subtitles ss (listed @ [s], best)
     else if st_language s \<in> st_language ` set best then sort_subtitles ss (listed @ [s], best)
     else sort_subtitles ss (listed, best @ [s]))"

definition streams_of :: "string \<Rightarrow> raw_probe \<Rightarrow> raw_stream list" where
  "streams_of t p = filter (\<lambda>r. rs_codec_type r = t) (rp_streams p)"

text \<open>Tracks in the order of the streams; a bitrate that is no number panics.\<close>

definition normalize_probe ::
  "(audio_track list \<Rightarrow> audio_track list) \<Rightarrow> (subtitle_track list \<Rightarrow> subtitle_track list) \<Rightarrow> raw_probe \<Rightarrow>
    probe_panic + normalized_probe" where
  "normalize_probe shuffle_a shuffle_s p =
    (case streams_of ''video'' p of
       [] \<Rightarrow> Inl NoVideoPanic
     | v # _ \<Rightarrow>
         if ffprobe_frame_rate (rs_avg_frame_rate v) = RatePanics then Inl DivisionPanic
         else (let rate = (case ffprobe_frame_rate (rs_avg_frame_rate v) of Rate n \<Rightarrow> n | _ \<Rightarrow> 24);
                   audios = map audio_of (streams_of ''audio'' p)
               in if None \<in> set audios then Inl BitratePanic
                  else (case sort_subtitles (map subtitle_of (streams_of ''subtitle'' p)) ([], []) of
                    (listed, best) \<Rightarrow>
                      Inr \<lparr>np_video = \<lparr>vt_id = word_of_int (rs_index v), vt_duration = rp_duration p, vt_frame_rate = rate\<rparr>,
                           np_audios = shuffle_a (best_audios (map the audios)),
                           np_subtitles = listed @ shuffle_s best\<rparr>)))"

text \<open>The probe reported to the server keeps every stream.\<close>

definition seconds_of :: "int \<Rightarrow> float64" where
  "seconds_of d = Fin (of_int d / 1000000000)"

definition media_probe_of :: "raw_probe \<Rightarrow> media_probe" where
  "media_probe_of p = \<lparr>duration_seconds = seconds_of (rp_duration p),
     streams = map (\<lambda>r. \<lparr>ms_index = rs_index r, codec_type = rs_codec_type r, codec_name = rs_codec_name r,
         ms_width = rs_width r, ms_height = rs_height r, ms_language = rs_language r, ms_title = rs_title r\<rparr>)
       (rp_streams p)\<rparr>"

section \<open>The timeline of the packets\<close>

record packet_timeline =
  first_start :: rat
  last_end :: rat
  has_packets :: bool

definition empty_timeline :: packet_timeline where
  "empty_timeline = \<lparr>first_start = 0, last_end = 0, has_packets = False\<rparr>"

definition parse_packet_time :: "string \<Rightarrow> rat option" where
  "parse_packet_time s = (case parse_float (trim_space s) of Some (Fin x) \<Rightarrow> Some x | _ \<Rightarrow> None)"

text \<open>What a line says: a start, from its first or else its second field, and a duration.\<close>

definition packet_of :: "string \<Rightarrow> (rat \<times> rat) option" where
  "packet_of line = (case split_on (CHR '','') line of
      a # b # c # _ \<Rightarrow>
        (case (case parse_packet_time a of None \<Rightarrow> parse_packet_time b | Some x \<Rightarrow> Some x) of
           None \<Rightarrow> None
         | Some start \<Rightarrow> Some (start, case parse_packet_time c of None \<Rightarrow> 0 | Some d \<Rightarrow> if d < 0 then 0 else d))
    | _ \<Rightarrow> None)"

definition add_packet :: "packet_timeline \<Rightarrow> string \<Rightarrow> packet_timeline" where
  "add_packet p line = (case packet_of line of
      None \<Rightarrow> p
    | Some (start, d) \<Rightarrow>
        (let p = (if \<not> has_packets p \<or> start < first_start p then p\<lparr>first_start := start\<rparr> else p);
             p = (if \<not> has_packets p \<or> start + d > last_end p then p\<lparr>last_end := start + d\<rparr> else p)
         in p\<lparr>has_packets := True\<rparr>))"

datatype duration_error = ProbeFailed | NoTimestamps | BadDuration

text \<open>\<open>math.Round\<close>: to the nearest integer, halves away from zero.\<close>

definition go_round :: "rat \<Rightarrow> int" where
  "go_round x = (if x < 0 then - \<lfloor>- x + 1 / 2\<rfloor> else \<lfloor>x + 1 / 2\<rfloor>)"

text \<open>\<open>lines\<close> is what ffprobe printed, \<open>None\<close> when it failed; the result is in nanoseconds.\<close>

definition probe_video_duration :: "string list option \<Rightarrow> duration_error + int" where
  "probe_video_duration lines = (case lines of
      None \<Rightarrow> Inl ProbeFailed
    | Some ls \<Rightarrow>
        (let t = foldl add_packet empty_timeline ls;
             d = go_round ((last_end t - first_start t) * 1000000000)
         in if \<not> has_packets t then Inl NoTimestamps else if d \<le> 0 then Inl BadDuration else Inr d))"

section \<open>Facts about the tracks\<close>

lemma keep_better_keys:
  "distinct (map at_language best) \<Longrightarrow> distinct (map at_language (keep_better best a))"
  unfolding keep_better_def by (rule distinct_upsert) simp_all

lemma keep_better_set:
  assumes "distinct (map at_language best)"
  shows "set (keep_better best a) =
    {x \<in> set best. at_language x \<noteq> at_language a \<or> \<not> better_audio a x} \<union>
    (if \<exists>x\<in>set best. at_language x = at_language a \<and> \<not> better_audio a x then {} else {a})"
  using assms unfolding keep_better_def by (induction best) (auto simp: image_iff)

text \<open>The state of the loop: the rows are the best tracks of what was read.\<close>

definition best_of :: "audio_track list \<Rightarrow> audio_track list \<Rightarrow> bool" where
  "best_of as best \<longleftrightarrow> distinct (map at_language best) \<and> set best \<subseteq> set as \<and>
     at_language ` set best = at_language ` set as \<and>
     (\<forall>x\<in>set best. \<forall>a\<in>set as. at_language a = at_language x \<longrightarrow> \<not> better_audio a x)"

lemma better_trans: "better_audio a b \<Longrightarrow> \<not> better_audio c b \<Longrightarrow> \<not> better_audio c a"
  by (auto simp: better_audio_def)

lemma better_irrefl: "\<not> better_audio a a"
  by (simp add: better_audio_def)

lemma keep_better_best:
  assumes "best_of as best"
  shows "best_of (as @ [a]) (keep_better best a)"
proof -
  let ?k = "keep_better best a"
  from assms have d: "distinct (map at_language best)" by (simp add: best_of_def)
  note s = keep_better_set[OF d, of a]
  have keys: "at_language ` set ?k = insert (at_language a) (at_language ` set best)"
    unfolding keep_better_def by (rule keys_upsert) simp
  have "set ?k \<subseteq> insert a (set best)" by (auto simp: s)
  moreover have "\<not> better_audio b x"
    if xk: "x \<in> set ?k" and ba: "b \<in> set (as @ [a])" and bx: "at_language b = at_language x" for x b
  proof -
    consider (old) "x \<in> set best" "at_language x \<noteq> at_language a \<or> \<not> better_audio a x"
      | (new) "x = a" "\<forall>y\<in>set best. at_language y = at_language a \<longrightarrow> better_audio a y"
      using xk by (auto simp: s split: if_splits)
    then show ?thesis
    proof cases
      case old
      with ba bx assms show ?thesis by (auto simp: best_of_def)
    next
      case new
      show ?thesis
      proof (cases "b = a")
        case True
        with new show ?thesis by (simp add: better_irrefl)
      next
        case False
        with ba have "b \<in> set as" by simp
        then have "at_language b \<in> at_language ` set as" by simp
        with assms bx new(1) have "at_language a \<in> at_language ` set best" by (simp add: best_of_def)
        then obtain y where "y \<in> set best" "at_language y = at_language a" by auto
        with new(2) \<open>b \<in> set as\<close> assms bx new(1) have "better_audio a y" "\<not> better_audio b y"
          by (auto simp: best_of_def)
        with new(1) better_trans show ?thesis by blast
      qed
    qed
  qed
  ultimately show ?thesis
    using assms keep_better_keys[OF d] keys by (auto simp: best_of_def)
qed

lemma best_audios_best: "best_of as (best_audios as)"
proof (induction as rule: rev_induct)
  case Nil
  then show ?case by (simp add: best_audios_def best_of_def)
next
  case (snoc a as)
  with keep_better_best show ?case by (simp add: best_audios_def)
qed

lemma sort_subtitles_all:
  "sort_subtitles ss (listed, best) = (l, b) \<Longrightarrow> mset (l @ b) = mset listed + mset best + mset ss"
  by (induction ss "(listed, best)" arbitrary: listed best rule: sort_subtitles.induct) (auto split: if_splits)

text \<open>The packets with a usable time, as start and duration.\<close>

definition usable_packets :: "string list \<Rightarrow> (rat \<times> rat) list" where
  "usable_packets ls = concat (map (\<lambda>l. case packet_of l of None \<Rightarrow> [] | Some q \<Rightarrow> [q]) ls)"

lemma usable_packets_simps:
  "usable_packets [] = []" "usable_packets (ls @ [l]) = usable_packets ls @ (case packet_of l of None \<Rightarrow> [] | Some q \<Rightarrow> [q])"
  by (simp_all add: usable_packets_def)

definition packet_start :: "rat \<times> rat \<Rightarrow> rat" where "packet_start q = fst q"
definition packet_end :: "rat \<times> rat \<Rightarrow> rat" where "packet_end q = fst q + snd q"

lemma add_packet_Some:
  assumes "packet_of l = Some q"
  shows "has_packets (add_packet t l)"
    "first_start (add_packet t l) = (if has_packets t then min (packet_start q) (first_start t) else packet_start q)"
    "last_end (add_packet t l) = (if has_packets t then max (packet_end q) (last_end t) else packet_end q)"
proof -
  obtain a d where q: "q = (a, d)" by (cases q)
  have "add_packet t l = t\<lparr>first_start := (if \<not> has_packets t \<or> a < first_start t then a else first_start t),
      last_end := (if \<not> has_packets t \<or> a + d > last_end t then a + d else last_end t), has_packets := True\<rparr>"
    using assms by (simp add: add_packet_def q Let_def)
  then show "has_packets (add_packet t l)"
    "first_start (add_packet t l) = (if has_packets t then min (packet_start q) (first_start t) else packet_start q)"
    "last_end (add_packet t l) = (if has_packets t then max (packet_end q) (last_end t) else packet_end q)"
    by (simp_all add: q packet_start_def packet_end_def min_def max_def)
qed

lemma timeline_packets:
  defines "T \<equiv> foldl add_packet empty_timeline"
  shows "has_packets (T ls) = (usable_packets ls \<noteq> []) \<and> (usable_packets ls \<noteq> [] \<longrightarrow>
    first_start (T ls) = Min (packet_start ` set (usable_packets ls)) \<and>
    last_end (T ls) = Max (packet_end ` set (usable_packets ls)))"
proof (induction ls rule: rev_induct)
  case Nil
  then show ?case by (simp add: T_def usable_packets_simps empty_timeline_def)
next
  case (snoc l ls)
  have T: "T (ls @ [l]) = add_packet (T ls) l" by (simp add: T_def)
  show ?case
  proof (cases "packet_of l")
    case None
    with snoc show ?thesis by (simp add: T usable_packets_simps) (simp add: add_packet_def)
  next
    case (Some q)
    show ?thesis
    proof (cases "usable_packets ls = []")
      case True
      with snoc show ?thesis by (simp add: T usable_packets_simps add_packet_Some[OF Some] Some)
    next
      case False
      then show ?thesis using snoc
        by (simp add: T usable_packets_simps add_packet_Some[OF Some] Some)
    qed
  qed
qed

section \<open>The properties\<close>

text \<open>Normalising a probe keeps exactly one audio track of each language, one that no track of its
  language beats in channels, or in bitrate at the same number of channels; and it keeps every
  subtitle track, once: in whatever order the maps are iterated.\<close>

theorem normalisation_chooses_best:
  assumes "normalize_probe shuffle_a shuffle_s p = Inr n"
    and "\<And>xs. mset (shuffle_a xs) = mset xs" and "\<And>xs. mset (shuffle_s xs) = mset xs"
  shows "distinct (map at_language (np_audios n)) \<and>
    set (map at_language (np_audios n)) = set (map rs_language (streams_of ''audio'' p)) \<and>
    (\<forall>x\<in>set (np_audios n). \<forall>r\<in>set (streams_of ''audio'' p). \<forall>a. audio_of r = Some a \<and> at_language a = at_language x \<longrightarrow>
      \<not> better_audio a x) \<and>
    mset (np_subtitles n) = mset (map subtitle_of (streams_of ''subtitle'' p))"
proof -
  let ?raw = "streams_of ''audio'' p"
  let ?as = "map the (map audio_of ?raw)"
  obtain l b where lb: "sort_subtitles (map subtitle_of (streams_of ''subtitle'' p)) ([], []) = (l, b)" by fastforce
  from assms(1) lb have ok: "None \<notin> set (map audio_of ?raw)"
    and n: "np_audios n = shuffle_a (best_audios ?as)" "np_subtitles n = l @ shuffle_s b"
    by (auto simp: normalize_probe_def Let_def split: list.splits if_splits)
  have lang: "map at_language ?as = map rs_language ?raw"
  proof (rule nth_equalityI)
    fix i assume "i < length (map at_language ?as)"
    then have "audio_of (?raw ! i) \<noteq> None" using ok by (metis length_map nth_map nth_mem)
    with \<open>i < length _\<close> show "map at_language ?as ! i = map rs_language ?raw ! i" by (auto simp: audio_of_def)
  qed simp
  note b = best_audios_best[of ?as, unfolded best_of_def]
  have m: "mset (np_audios n) = mset (best_audios ?as)" by (simp add: n(1) assms(2))
  then have sets: "set (np_audios n) = set (best_audios ?as)" by (metis set_mset_mset)
  from m have "mset (map at_language (np_audios n)) = mset (map at_language (best_audios ?as))" by simp
  then have "distinct (map at_language (np_audios n))" using b by (metis mset_eq_imp_distinct_iff)
  moreover have "set (map at_language (np_audios n)) = set (map rs_language ?raw)"
    using b lang sets by (metis set_map)
  moreover have "\<not> better_audio a x"
    if "x \<in> set (np_audios n)" "r \<in> set ?raw" "audio_of r = Some a \<and> at_language a = at_language x" for x r a
  proof -
    from that(2,3) have "a \<in> set ?as" by (force simp: image_iff)
    with b that(1,3) sets show ?thesis by blast
  qed
  moreover have "mset (np_subtitles n) = mset (map subtitle_of (streams_of ''subtitle'' p))"
    using sort_subtitles_all[OF lb] by (simp add: n(2) assms(3))
  ultimately show ?thesis by (intro conjI ballI allI impI)
qed

definition demo_stream :: "int \<Rightarrow> string \<Rightarrow> string \<Rightarrow> int \<Rightarrow> string \<Rightarrow> raw_stream" where
  "demo_stream i kind codec channels lang = \<lparr>rs_index = i, rs_codec_type = kind, rs_codec_name = codec, rs_width = 1920,
     rs_height = 1080, rs_avg_frame_rate = ''24/1'', rs_bit_rate = [], rs_channel_layout = ''5.1'',
     rs_channels = channels, rs_default = 0, rs_forced = 0, rs_comment = 0, rs_language = lang, rs_title = []\<rparr>"

definition demo_raw_probe :: raw_probe where
  "demo_raw_probe = \<lparr>rp_duration = 60000000000, rp_streams =
     [demo_stream 0 ''video'' ''h264'' 0 [], demo_stream 1 ''audio'' ''ac3'' 2 ''eng'', demo_stream 2 ''audio'' ''dts'' 6 ''eng'',
      demo_stream 3 ''audio'' ''ac3'' 2 ''spa'', demo_stream 4 ''subtitle'' ''hdmv_pgs_subtitle'' 0 ''eng'',
      demo_stream 5 ''subtitle'' ''subrip'' 0 ''eng'', demo_stream 6 ''subtitle'' [] 0 ''spa'']\<rparr>"

theorem normalisation_chooses_best_witness:
  "\<exists>n. normalize_probe id rev demo_raw_probe = Inr n \<and> distinct (map at_language (np_audios n)) \<and> length (np_subtitles n) = 3"
proof -
  have "map_sum (\<lambda>_. ()) (\<lambda>n. length (np_subtitles n)) (normalize_probe id rev demo_raw_probe) = Inr 3" by code_simp
  then obtain n where n: "normalize_probe id rev demo_raw_probe = Inr n" "length (np_subtitles n) = 3"
    by (cases "normalize_probe id rev demo_raw_probe") auto
  from normalisation_chooses_best[OF n(1)] n show ?thesis by auto
qed

text \<open>The duration measured from the packets is that from the earliest start to the latest end of all
  packets with a usable time, rounded to the nanosecond, in whatever order they come; with no such
  packet, or none that lasts, it is an error.\<close>

theorem packet_duration_exact:
  "probe_video_duration (Some ls) =
    (let ps = usable_packets ls; d = go_round ((Max (packet_end ` set ps) - Min (packet_start ` set ps)) * 1000000000)
     in if ps = [] then Inl NoTimestamps else if d \<le> 0 then Inl BadDuration else Inr d)"
  using timeline_packets[of ls] by (simp add: probe_video_duration_def Let_def)

end
