(* ===== verification/Encode_Command.thy ===== *)
theory Encode_Command
  imports Worker_Config Probe_Data
begin

text \<open>
  The commands a job runs: the arguments of ffmpeg (\<open>worker/step/ffmpegStep.go\<close>), of mkvextract
  (\<open>MKVExtractStep.go\<close>) and of the OCR (\<open>PGStoSrtStep.go\<close>), the check of the result
  (\<open>ffmpegVerifyStep.go\<close>) and the splitting of extra arguments (\<open>helper/command/command.go\<close>). What
  the programs then do is not modelled; which files they are asked to read and write is.
\<close>

definition itoa :: "int \<Rightarrow> string" where
  "itoa n = (if n < 0 then CHR ''-'' # nat_digits (nat (- n)) else nat_digits (nat n))"

definition id_text :: "8 word \<Rightarrow> string" where
  "id_text i = nat_digits (unat i)"

section \<open>Splitting extra arguments\<close>

definition trim_char :: "char \<Rightarrow> string \<Rightarrow> string" where
  "trim_char c s = rev (dropWhile (\<lambda>x. x = c) (rev (dropWhile (\<lambda>x. x = c) s)))"

definition unquote :: "string \<Rightarrow> string" where
  "unquote w = (case w of [] \<Rightarrow> [] | c # _ \<Rightarrow>
     if c = CHR 0x27 \<or> c = CHR 0x22 then trim_char c w else w)"

text \<open>The two flags are true outside quotes; the last word is appended as it is.\<close>

fun slice_words :: "string \<Rightarrow> bool \<Rightarrow> bool \<Rightarrow> string \<Rightarrow> string list" where
  "slice_words [] dq sq w = [w]"
| "slice_words (c # r) dq sq w =
    (if c = CHR '' '' \<and> dq \<and> sq then (if w = [] then slice_words r dq sq [] else unquote w # slice_words r dq sq [])
     else if c = CHR 0x22 then slice_words r (\<not> dq) sq (w @ [c])
     else if c = CHR 0x27 then slice_words r dq (\<not> sq) (w @ [c])
     else slice_words r dq sq (w @ [c]))"

definition string_to_slice :: "string \<Rightarrow> string list" where
  "string_to_slice s = slice_words s True True []"

section \<open>Subtitles\<close>

text \<open>Subtitles fed to ffmpeg as files of their own.\<close>

definition is_external :: "subtitle_track \<Rightarrow> bool" where
  "is_external s \<longleftrightarrow> is_image_subtitle s \<or> needs_extraction s"

definition srt_path :: "string \<Rightarrow> subtitle_track \<Rightarrow> string" where
  "srt_path wd s = join_path [wd, id_text (st_id s) @ ''.srt'']"

definition input_paths :: "string \<Rightarrow> string \<Rightarrow> normalized_probe \<Rightarrow> string list" where
  "input_paths wd src p = src # map (srt_path wd) (filter is_external (np_subtitles p))"

definition dispositions :: "nat \<Rightarrow> subtitle_track \<Rightarrow> string list" where
  "dispositions out s =
    (let ds = (if st_forced s then [''forced'', ''default''] else []) @ (if st_comment s then [''comment''] else [])
     in if ds = [] then [] else [''-disposition:s:'' @ nat_digits out, join_with (CHR ''+'') ds])"

text \<open>The pattern \<open>(?i)\(?pgs\)?\<close> at the start of a text: what follows the match.\<close>

definition match_pgs :: "string \<Rightarrow> string option" where
  "match_pgs s =
    (let t = (case s of c # r \<Rightarrow> if c = CHR ''('' then r else s | [] \<Rightarrow> []);
         u = drop 3 t
     in if to_lower (take 3 t) = ''pgs'' then Some (case u of c # r \<Rightarrow> if c = CHR '')'' then r else u | [] \<Rightarrow> [])
        else None)"

lemma match_pgs_shorter: "match_pgs s = Some r \<Longrightarrow> length r < length s"
  by (cases s)
    (auto simp: match_pgs_def Let_def to_lower_def split: if_splits list.splits
      dest!: arg_cong[where f = length] simp del: length_drop simp flip: length_greater_0_conv,
      auto simp: min_def split: if_splits)

function strip_pgs :: "string \<Rightarrow> string" where
  "strip_pgs [] = []"
| "strip_pgs (c # r) = (case match_pgs (c # r) of None \<Rightarrow> c # strip_pgs r | Some u \<Rightarrow> strip_pgs u)"
  by pat_completeness auto
termination by (relation "measure length") (auto dest: match_pgs_shorter)

fun squeeze_spaces :: "string \<Rightarrow> string" where
  "squeeze_spaces (a # b # r) =
    (if a = CHR '' '' \<and> b = CHR '' '' then a # squeeze_spaces r else a # squeeze_spaces (b # r))"
| "squeeze_spaces s = s"

definition clean_title :: "string \<Rightarrow> string" where
  "clean_title t = trim_space (squeeze_spaces (strip_pgs t))"

text \<open>The arguments of one subtitle: \<open>inp\<close> is the next external input, \<open>out\<close> the output stream.\<close>

definition subtitle_args :: "nat \<Rightarrow> nat \<Rightarrow> subtitle_track \<Rightarrow> string list" where
  "subtitle_args inp out s =
    (let meta = (\<lambda>title. [''-metadata:s:s:'' @ nat_digits out, ''language='' @ st_language s,
                   ''-metadata:s:s:'' @ nat_digits out, ''title='' @ title, ''-max_interleave_delta'', ''0''])
     in if is_external s then
          [''-map'', nat_digits inp @ '':0'', ''-c:s:'' @ nat_digits out, ''srt''] @ dispositions out s @ meta (clean_title (st_title s))
        else if needs_direct_conversion s then
          [''-map'', ''0:'' @ id_text (st_id s), ''-c:s:'' @ nat_digits out, ''srt''] @ dispositions out s @ meta (st_title s)
        else [''-map'', ''0:'' @ id_text (st_id s), ''-c:s:'' @ nat_digits out, ''copy''])"

fun subtitle_filters :: "nat \<Rightarrow> nat \<Rightarrow> subtitle_track list \<Rightarrow> string list list" where
  "subtitle_filters inp out [] = []"
| "subtitle_filters inp out (s # ss) =
    subtitle_args inp out s # subtitle_filters (if is_external s then Suc inp else inp) (Suc out) ss"

section \<open>Video and audio\<close>

definition audio_args :: "ffmpeg_config \<Rightarrow> nat \<Rightarrow> audio_track \<Rightarrow> string list" where
  "audio_args cfg i a = [''-map'', ''0:'' @ id_text (at_id a), ''-metadata:s:a:'' @ nat_digits i,
     ''title='' @ at_language a @ '' ('' @ at_channel_layout a @ '')'', ''-c:a:'' @ nat_digits i, audio_codec cfg,
     ''-vbr'', itoa (audio_vbr cfg)]"

definition audio_filters :: "ffmpeg_config \<Rightarrow> normalized_probe \<Rightarrow> string list list" where
  "audio_filters cfg p = map (\<lambda>(i, a). audio_args cfg i a) (enumerate 0 (np_audios p))"

definition scale_filter :: string where
  "scale_filter = ''scale='' @ [CHR 0x27] @ ''min(1920,iw)'' @ [CHR 0x27] @ '':-1:force_original_aspect_ratio=decrease''"

definition quality_args :: "video_settings \<Rightarrow> string list" where
  "quality_args v =
    (if vs_codec v = av1_nvenc
     then [''-preset'', vs_preset v, ''-tune'', ''uhq'', ''-rc'', ''vbr'', ''-cq'', itoa (vs_cq v), ''-b:v'', ''0'',
       ''-multipass'', ''fullres'', ''-bf'', ''4'', ''-b_ref_mode'', ''middle'', ''-split_encode_mode'', ''disabled'',
       ''-qmin'', ''0'', ''-qmax'', itoa (vs_qmax v)]
     else if vs_codec v = av1_svt then [''-preset'', vs_preset v, ''-crf'', itoa (vs_crf v)]
     else if vs_codec v = hevc_x265
     then [''-crf'', itoa (vs_crf v), ''-profile:v'', vs_profile v, ''-preset'', vs_preset v] else [])"

definition video_filter :: "ffmpeg_config \<Rightarrow> normalized_probe \<Rightarrow> config_error + string list" where
  "video_filter cfg p = (case resolve_video_settings cfg of
      Inl e \<Rightarrow> Inl e
    | Inr v \<Rightarrow> Inr ([''-map'', ''0:'' @ id_text (vt_id (np_video p)), ''-avoid_negative_ts'', ''make_zero'', ''-copyts'',
        ''-map_chapters'', ''-1'', ''-flags'', ''+global_header'', ''-filter:v'', scale_filter,
        ''-pix_fmt'', vs_pixel_format v, ''-c:v'', vs_codec v] @ quality_args v))"

definition build_arguments ::
  "8 word \<Rightarrow> string \<Rightarrow> string \<Rightarrow> string list \<Rightarrow> string list \<Rightarrow> string list list \<Rightarrow> string list list \<Rightarrow> string list" where
  "build_arguments n_threads extra out inputs video audio subs =
    [''-fflags'', ''+genpts'', ''-nostats''] @ (if extra = [] then [] else string_to_slice extra) @
    [''-progress'', ''pipe:1'', ''-hide_banner'', ''-nostdin'', ''-threads'', id_text n_threads,
     ''-analyzeduration'', ''2147483647'', ''-probesize'', ''2147483647''] @
    concat (map (\<lambda>i. [''-i'', i]) inputs) @ [''-max_muxing_queue_size'', ''9999''] @
    video @ concat audio @ concat subs @ [''-y'', out]"

definition encoded_path :: "string \<Rightarrow> string \<Rightarrow> string" where
  "encoded_path wd src = (let b = base_name src in join_path [wd, trim_suffix b (file_ext b) @ ''-encoded.mkv''])"

text \<open>The command of the encoding step: the job's own profile, or else the worker's.\<close>

definition encode_arguments ::
  "ffmpeg_config \<Rightarrow> ffmpeg_config option \<Rightarrow> string \<Rightarrow> string \<Rightarrow> normalized_probe \<Rightarrow> config_error + string list" where
  "encode_arguments cfg pinned wd src p =
    (let profile = (case pinned of None \<Rightarrow> cfg | Some f \<Rightarrow> f)
     in case video_filter profile p of
          Inl e \<Rightarrow> Inl e
        | Inr v \<Rightarrow> Inr (build_arguments (word_of_int (threads profile)) (extra_args profile) (encoded_path wd src)
            (input_paths wd src p) v (audio_filters profile p) (subtitle_filters 1 0 (np_subtitles p))))"

section \<open>Extraction and OCR\<close>

definition extract_params :: "string \<Rightarrow> normalized_probe \<Rightarrow> string list" where
  "extract_params src p = [''tracks'', src] @
    map (\<lambda>s. id_text (st_id s) @ '':'' @ id_text (st_id s) @ ''.sup'') (pgs_subtitles p) @
    map (\<lambda>s. id_text (st_id s) @ '':'' @ id_text (st_id s) @ ''.extract'') (extractable_subtitles p)"

definition convert_params :: "string \<Rightarrow> subtitle_track \<Rightarrow> string list" where
  "convert_params wd s = [''-i'', join_path [wd, id_text (st_id s) @ ''.extract''], ''-c:s'', ''srt'', srt_path wd s, ''-y'']"

definition tesseract_languages :: "(string \<times> string list) list" where
  "tesseract_languages =
    [(''deu'', [''ger'', ''ge'', ''de'']), (''eus'', [''baq'', ''eus'']), (''eng'', [''en'', ''uk'']),
     (''spa'', [''es'', ''esp'']), (''deu'', [''det'']), (''fra'', [''fre'']), (''chi_tra'', [''chi'', ''zho'']),
     (''ell'', [''gre'']), (''isl'', [''ice'']), (''ces'', [''cze'']), (''ron'', [''rum'']),
     (''nld'', [''dut'', ''nl'']), (''slv'', [''slo'', ''slv'', ''sl''])]"

definition tesseract_language :: "string \<Rightarrow> string" where
  "tesseract_language l = (if l = [] then ''eng''
     else (case find (\<lambda>(t, ls). l \<in> set ls) tesseract_languages of None \<Rightarrow> l | Some (t, _) \<Rightarrow> t))"

record pgs_config =
  pgs_executable :: string
  pgs_parallel_jobs :: int
  pgs_dll :: string
  pgs_data :: string
  pgs_dotnet :: string
  pgs_tess_version :: int
  pgs_liblept_name :: string
  pgs_liblept_version :: int

definition pgs_arguments :: "pgs_config \<Rightarrow> string \<Rightarrow> subtitle_track \<Rightarrow> string list" where
  "pgs_arguments c wd s = [''--tesseractversion'', itoa (pgs_tess_version c), ''--libleptname'', pgs_liblept_name c,
     ''--libleptversion'', itoa (pgs_liblept_version c), ''--input'', join_path [wd, id_text (st_id s) @ ''.sup''],
     ''--output'', srt_path wd s, ''--tesseractlanguage'', tesseract_language (st_language s),
     ''--tesseractdata'', pgs_data c]"

definition pgs_command :: "pgs_config \<Rightarrow> string list \<Rightarrow> string list" where
  "pgs_command c args = (if pgs_executable c \<noteq> [] then pgs_executable c # args else pgs_dotnet c # pgs_dll c # args)"

text \<open>How the run of the OCR is judged: what it printed, its exit, and the size of its input. The result is
  an empty subtitle file, the converted one, or an error.\<close>

datatype ocr_verdict = OcrEmpty | OcrConverted | OcrError

definition judge_ocr :: "int \<Rightarrow> string \<Rightarrow> (unit + int) \<Rightarrow> string \<Rightarrow> ocr_verdict" where
  "judge_ocr sz language exit_code out =
    (if sz < 1024 then OcrEmpty
     else (case exit_code of Inl _ \<Rightarrow> OcrError
       | Inr c \<Rightarrow>
         if c \<noteq> 0 then OcrError
         else if contains out (''Language '' @ [CHR 0x27] @ language @ [CHR 0x27] @ '' is not available in Tesseract data directory'')
         then OcrError
         else if \<not> contains out ''Finished OCR.'' then OcrError
         else if contains out ''with 0 items.''
         then (if contains out ''Starting OCR for 0 items'' then OcrEmpty else OcrError)
         else OcrConverted))"

section \<open>Verification of the result\<close>

datatype verify_error = SourceUnmeasured | TargetUnmeasured | DurationDiffers | TargetLarger

definition out_of_delta :: "float64 \<Rightarrow> int \<Rightarrow> int \<Rightarrow> bool" where
  "out_of_delta delta a b = (case delta of
      Fin d \<Rightarrow> (let diff = (of_int a - of_int b) / (1000000000 :: rat) in diff > d \<or> diff < - d)
    | NegInf \<Rightarrow> True | _ \<Rightarrow> False)"

text \<open>\<open>measured\<close> gives the duration of the packets of a file, where it can be measured.\<close>

definition verify_job ::
  "float64 \<Rightarrow> (string \<Rightarrow> int option) \<Rightarrow> string \<times> int \<times> int \<Rightarrow> string \<times> int \<times> int \<Rightarrow> verify_error + unit" where
  "verify_job delta measured src tgt = (case (src, tgt) of ((sp, sd, ss), (tp, td, ts)) \<Rightarrow>
     let late = (if ts > ss then Inl TargetLarger else Inr ()) in
     if out_of_delta delta sd td then
       (case measured sp of None \<Rightarrow> Inl SourceUnmeasured
        | Some a \<Rightarrow> (case measured tp of None \<Rightarrow> Inl TargetUnmeasured
            | Some b \<Rightarrow> if out_of_delta delta a b then Inl DurationDiffers else late))
     else late)"

section \<open>The properties\<close>

text \<open>The external input of the subtitle at position i.\<close>

definition external_input :: "subtitle_track list \<Rightarrow> nat \<Rightarrow> nat" where
  "external_input ss i = Suc (length (filter is_external (take i ss)))"

lemma subtitle_filters_eq:
  "subtitle_filters inp out ss =
    map (\<lambda>i. subtitle_args (inp + length (filter is_external (take i ss))) (out + i) (ss ! i)) [0..<length ss]"
proof (induction inp out ss rule: subtitle_filters.induct)
  case (2 inp out s ss)
  have "[0..<length (s # ss)] = 0 # map Suc [0..<length ss]" by (simp add: upt_conv_Cons map_Suc_upt del: upt_Suc)
  with 2 show ?case by simp
qed simp

lemma filter_nth_position:
  "i < length xs \<Longrightarrow> P (xs ! i) \<Longrightarrow>
    length (filter P (take i xs)) < length (filter P xs) \<and> filter P xs ! length (filter P (take i xs)) = xs ! i"
proof (induction xs arbitrary: i)
  case (Cons x xs)
  then show ?case by (cases i) auto
qed simp

text \<open>C39: Every subtitle of the source gets one output stream, numbered in order; a subtitle that is
  extracted or recognised is read from its own text file, the input its mapping names; every
  other one is read from the source under its own track number, converted if it is timed text of
  an MP4 and copied otherwise.\<close>

theorem subtitles_mapped_to_their_files:
  fixes p wd src
  defines "ss \<equiv> np_subtitles p" and "maps \<equiv> subtitle_filters 1 0 (np_subtitles p)"
  assumes "i < length (np_subtitles p)"
  shows "length maps = length ss \<and>
    (if is_external (ss ! i)
     then \<exists>k rest. 0 < k \<and> k < length (input_paths wd src p) \<and> input_paths wd src p ! k = srt_path wd (ss ! i) \<and>
       maps ! i = [''-map'', nat_digits k @ '':0'', ''-c:s:'' @ nat_digits i, ''srt''] @ rest
     else \<exists>rest. maps ! i = [''-map'', ''0:'' @ id_text (st_id (ss ! i)), ''-c:s:'' @ nat_digits i,
       if needs_direct_conversion (ss ! i) then ''srt'' else ''copy''] @ rest)"
proof -
  have len: "length maps = length ss" by (simp add: maps_def ss_def subtitle_filters_eq)
  let ?k = "external_input ss i"
  have m: "maps ! i = subtitle_args ?k i (ss ! i)"
    using assms(3) by (simp add: maps_def ss_def subtitle_filters_eq external_input_def)
  show ?thesis
  proof (cases "is_external (ss ! i)")
    case True
    have "?k < length (input_paths wd src p) \<and> input_paths wd src p ! ?k = srt_path wd (ss ! i)"
      using filter_nth_position[of i ss is_external] assms(3) True
      by (simp add: input_paths_def external_input_def ss_def)
    moreover obtain rest where "maps ! i = [''-map'', nat_digits ?k @ '':0'', ''-c:s:'' @ nat_digits i, ''srt''] @ rest"
      using True m by (simp add: subtitle_args_def Let_def)
    moreover have "0 < ?k" by (simp add: external_input_def)
    ultimately show ?thesis using True len by auto
  next
    case False
    with m len show ?thesis by (auto simp: subtitle_args_def Let_def)
  qed
qed

definition demo_normalized :: normalized_probe where
  "demo_normalized = \<lparr>np_video = \<lparr>vt_id = 0, vt_duration = 60000000000, vt_frame_rate = 24\<rparr>, np_audios = [],
     np_subtitles = map subtitle_of [demo_stream 2 ''subtitle'' ''subrip'' 0 ''eng'', demo_stream 3 ''subtitle'' ''hdmv_pgs_subtitle'' 0 ''spa'',
       demo_stream 4 ''subtitle'' ''mov_text'' 0 ''fre'', demo_stream 7 ''subtitle'' [] 0 ''ger'']\<rparr>"

theorem subtitles_mapped_to_their_files_witness:
  "\<exists>k rest. input_paths ''/w'' ''/w/a.mkv'' demo_normalized ! k = ''/w/7.srt'' \<and>
    subtitle_filters 1 0 (np_subtitles demo_normalized) ! 3 = [''-map'', nat_digits k @ '':0'', ''-c:s:3'', ''srt''] @ rest"
proof -
  have i: "3 < length (np_subtitles demo_normalized)" "is_external (np_subtitles demo_normalized ! 3)"
    "srt_path ''/w'' (np_subtitles demo_normalized ! 3) = ''/w/7.srt''" "nat_digits 3 = ''3''" by code_simp+
  from subtitles_mapped_to_their_files[OF i(1), of "''/w''" "''/w/a.mkv''"] i(2-4) show ?thesis by auto
qed

text \<open>A job passes verification only if its result is not larger than its source and the durations
  agree within the configured tolerance: those in the headers, or else those measured from the
  packets of both files.\<close>

theorem verified_job_within_bounds:
  assumes "verify_job (Fin d) measured (sp, sd, ss) (tp, td, ts) = Inr ()"
  shows "ts \<le> ss \<and>
    (\<bar>of_int (sd - td)\<bar> \<le> d * 1000000000 \<or>
     (\<exists>a b. measured sp = Some a \<and> measured tp = Some b \<and> \<bar>of_int (a - b)\<bar> \<le> d * 1000000000))"
proof -
  have delta: "out_of_delta (Fin d) a b \<or> \<bar>of_int (a - b)\<bar> \<le> d * 1000000000" for a b
    by (auto simp: out_of_delta_def Let_def field_simps abs_le_iff)
  show ?thesis
  proof (cases "out_of_delta (Fin d) sd td")
    case True
    with assms delta show ?thesis
      by (auto simp: verify_job_def Let_def split: option.splits if_splits)
  next
    case False
    with assms delta[of sd td] show ?thesis by (auto simp: verify_job_def Let_def split: if_splits)
  qed
qed

theorem verified_job_within_bounds_witness:
  "verify_job (Fin 1) (\<lambda>_. Some 5) (''a'', 9000000000, 10) (''b'', 3000000000, 8) = Inr () \<and> (8::int) \<le> 10"
proof -
  have v: "verify_job (Fin 1) (\<lambda>_. Some 5) (''a'', 9000000000, 10) (''b'', 3000000000, 8) = Inr ()" by code_simp
  from verified_job_within_bounds[OF v] v show ?thesis by blast
qed

definition plain_word :: "string \<Rightarrow> bool" where
  "plain_word w \<longleftrightarrow> w \<noteq> [] \<and> list_all (\<lambda>c. c \<noteq> CHR '' '' \<and> c \<noteq> CHR 0x22 \<and> c \<noteq> CHR 0x27) w"

lemma slice_plain:
  "list_all (\<lambda>c. c \<noteq> CHR '' '' \<and> c \<noteq> CHR 0x22 \<and> c \<noteq> CHR 0x27) w \<Longrightarrow>
    slice_words (w @ r) True True acc = slice_words r True True (acc @ w)"
  by (induction w arbitrary: acc) auto

lemma unquote_plain: "plain_word w \<Longrightarrow> unquote w = w"
  by (cases w) (auto simp: plain_word_def unquote_def)

text \<open>Extra arguments without quotes are split where they were joined: joining words with single
  spaces and splitting the line again gives the words back.\<close>

theorem extra_arguments_split_back:
  assumes "ws \<noteq> []" and "list_all plain_word ws"
  shows "string_to_slice (join_with (CHR '' '') ws) = ws"
  using assms
proof (induction "CHR '' ''" ws rule: join_with.induct)
  case (2 x)
  then show ?case using slice_plain[of x "[]" "[]"] by (simp add: string_to_slice_def plain_word_def)
next
  case (3 x y ws)
  then have x: "list_all (\<lambda>c. c \<noteq> CHR '' '' \<and> c \<noteq> CHR 0x22 \<and> c \<noteq> CHR 0x27) x" "x \<noteq> []" "unquote x = x"
    by (simp_all add: plain_word_def unquote_plain)
  have "string_to_slice (join_with (CHR '' '') (x # y # ws)) = x # string_to_slice (join_with (CHR '' '') (y # ws))"
    using slice_plain[OF x(1), of "CHR '' '' # join_with (CHR '' '') (y # ws)" "[]"] x(2,3)
    by (simp add: string_to_slice_def)
  with 3 show ?case by simp
qed simp

theorem extra_arguments_split_back_witness:
  "string_to_slice ''-map 0'' = [''-map'', ''0'']"
  using extra_arguments_split_back[of "[''-map'', ''0'']"] by (simp add: plain_word_def)

text \<open>Quotes are taken off a word only at the space after it, so the last word keeps its own.\<close>

lemma last_word_keeps_quotes:
  "string_to_slice ([CHR 0x27] @ ''a b'' @ [CHR 0x27] @ '' '' @ [CHR 0x27] @ ''c d'' @ [CHR 0x27]) =
    [''a b'', [CHR 0x27] @ ''c d'' @ [CHR 0x27]]"
  by code_simp

end
