(* ===== verification/Pipeline.thy ===== *)
theory Pipeline
  imports Server_Client Encode_Command
begin

text \<open>
  A job on its way through the worker: its context and the file it is persisted in
  (\<open>worker/job/job.go\<close>), the routing between the steps and the events each step publishes
  (\<open>worker/worker/executor.go\<close>, \<open>worker/step/stepExecutor.go\<close>), and what a restarted worker resumes.
  One job is followed; jobs share the network and the encode slots (theory \<open>Encode_Pool\<close>) only. A
  step is cut at each published event, so a restart can fall between any two of them.
\<close>

section \<open>The context of a job\<close>

record context_event =
  cx_event_id :: int
  cx_type :: notification_type
  cx_status :: notification_status
  cx_message :: string

record video_data =
  vd_path :: string
  vd_name :: string
  vd_checksum :: string
  vd_probe :: "normalized_probe option"
  vd_size :: int

record job_context =
  jc_job_id :: uuid
  jc_event_id :: int
  jc_working_dir :: string
  jc_last_event :: "context_event option"
  jc_source :: "video_data option"
  jc_target :: "video_data option"
  jc_target_probe :: "media_probe option"
  jc_encode_kind :: string
  jc_encode_config :: "ffmpeg_config option"

definition empty_video_data :: video_data where
  "empty_video_data = \<lparr>vd_path = [], vd_name = [], vd_checksum = [], vd_probe = None, vd_size = 0\<rparr>"

definition new_context :: "uuid \<Rightarrow> int \<Rightarrow> string \<Rightarrow> job_context" where
  "new_context j last_id wd = \<lparr>jc_job_id = j, jc_event_id = last_id, jc_working_dir = wd, jc_last_event = None,
     jc_source = Some empty_video_data, jc_target = None, jc_target_probe = None, jc_encode_kind = [],
     jc_encode_config = None\<rparr>"

definition update_event ::
  "notification_type \<Rightarrow> notification_status \<Rightarrow> string \<Rightarrow> job_context \<Rightarrow> job_context" where
  "update_event ty st msg c =
    (let i = (case jc_last_event c of None \<Rightarrow> jc_event_id c + 1 | Some l \<Rightarrow> cx_event_id l + 1)
     in c\<lparr>jc_last_event := Some \<lparr>cx_event_id = i, cx_type = ty, cx_status = st, cx_message = msg\<rparr>\<rparr>)"

definition last_id :: "job_context \<Rightarrow> int" where
  "last_id c = (case jc_last_event c of None \<Rightarrow> jc_event_id c | Some l \<Rightarrow> cx_event_id l)"

section \<open>The state of one job on the worker\<close>

datatype position = Queued_At notification_type | Begun notification_type | Acted notification_type "string list"
  | Reported notification_type "string list" | Closing | Gone

text \<open>\<open>pl_saved\<close> is the context file, \<open>pl_files\<close> the subtitle files of the workspace; \<open>pl_sent\<close> records
  what was handed to the client.\<close>

record 's pipeline =
  pl_ctx :: job_context
  pl_saved :: "job_context option"
  pl_files :: "string list"
  pl_at :: position
  pl_sent :: "task_event list"
  pl_net :: 's

text \<open>The context file is truncated before it is written: a write that fails then, or is cut short by a
  crash, leaves no readable context.\<close>

datatype save_outcome = Saved | Not_Opened | Torn

text \<open>Removing the workspace may fail part way, or be cut short by a crash: then the context file may
  be left, and some of the other files.\<close>

datatype clean_outcome = Cleaned | Partly bool "string \<Rightarrow> bool"

text \<open>What a step meets: the clock, how writing the context with a given event ends, the class of the encode
  slot, how the actions end, what a download or an encode delivers, and how the clean-up ends.\<close>

datatype action = Download | Extract | Ocr subtitle_track | Encode | Verify | Upload

record step_world =
  sw_now :: int
  sw_saves :: "int \<Rightarrow> save_outcome"
  sw_kind :: string
  sw_fails :: "action \<Rightarrow> string option"
  sw_downloaded :: video_data
  sw_encoded :: video_data
  sw_encoded_probe :: media_probe
  sw_clean :: clean_outcome

record pipeline_env =
  pe_transport_name :: string
  pe_config :: worker_config
  pe_pgs_parallel :: int
  pe_describe :: "executor_error \<Rightarrow> string"

section \<open>Publishing\<close>

definition event_message :: "notification_type \<Rightarrow> string \<Rightarrow> job_context \<Rightarrow> string" where
  "event_message ty msg c =
    (if ty = FFMPEGSNotification \<and> msg = []
     then (case jc_encode_config c of
         None \<Rightarrow> msg
       | Some f \<Rightarrow> (case resolve_video_settings f of
             Inl _ \<Rightarrow> msg
           | Inr v \<Rightarrow> jc_encode_kind c @ '' '' @ [CHR 0xC2, CHR 0xB7] @ '' '' @ vs_codec v))
     else msg)"

definition event_of_context :: "int \<Rightarrow> string \<Rightarrow> job_context \<Rightarrow> task_event" where
  "event_of_context now name c = (case jc_last_event c of
      None \<Rightarrow> \<lparr>event_time = now, worker_name = name, job_id = jc_job_id c, event_id = jc_event_id c,
        notification_type = JobNotification, status = Started, message = [], target_probe_of = None\<rparr>
    | Some l \<Rightarrow> \<lparr>event_time = now, worker_name = name, job_id = jc_job_id c, event_id = cx_event_id l,
        notification_type = cx_type l, status = cx_status l, message = cx_message l,
        target_probe_of = (if cx_status l = Completed \<and> cx_type l = JobNotification then jc_target_probe c else None)\<rparr>)"

fun persist_context :: "save_outcome \<Rightarrow> job_context \<Rightarrow> job_context option \<Rightarrow> job_context option" where
  "persist_context Saved c old = Some c"
| "persist_context Not_Opened c old = old"
| "persist_context Torn c old = None"

text \<open>The event is sent whether or not sending succeeds, then the context is written.\<close>

definition publish_task_event ::
  "'s transport \<Rightarrow> pipeline_env \<Rightarrow> step_world \<Rightarrow> notification_type \<Rightarrow> notification_status \<Rightarrow> string \<Rightarrow>
    's pipeline \<Rightarrow> 's pipeline" where
  "publish_task_event tr env w ty st msg p =
    (let c = update_event ty st (event_message ty msg (pl_ctx p)) (pl_ctx p);
         e = event_of_context (sw_now w) (pe_transport_name env) c;
         net = snd (client_task_event tr (pe_transport_name env) e (pl_net p))
     in p\<lparr>pl_ctx := c, pl_sent := pl_sent p @ [e], pl_net := net,
          pl_saved := persist_context (sw_saves w (event_id e)) c (pl_saved p)\<rparr>)"

section \<open>Actions\<close>

definition source_probe_of :: "job_context \<Rightarrow> normalized_probe option" where
  "source_probe_of c = (case jc_source c of None \<Rightarrow> None | Some d \<Rightarrow> vd_probe d)"

definition phase_actions :: "notification_type \<Rightarrow> job_context \<Rightarrow> action list" where
  "phase_actions ph c = (case ph of
     DownloadNotification \<Rightarrow> [Download] | MKVExtractNotification \<Rightarrow> [Extract]
   | PGSNotification \<Rightarrow> (case source_probe_of c of None \<Rightarrow> [] | Some p \<Rightarrow> map Ocr (pgs_subtitles p))
   | FFMPEGSNotification \<Rightarrow> [Encode] | JobVerify \<Rightarrow> [Verify] | UploadNotification \<Rightarrow> [Upload] | _ \<Rightarrow> [])"

text \<open>The runners of a step: with none, the actions are queued and nobody executes them.\<close>

definition runners :: "pipeline_env \<Rightarrow> notification_type \<Rightarrow> int" where
  "runners env ph = (if ph = PGSNotification then pe_pgs_parallel env else 1)"

text \<open>What a successful action leaves: the downloaded source, subtitle files, the encoded target.\<close>

definition action_effect :: "step_world \<Rightarrow> action \<Rightarrow> 's pipeline \<Rightarrow> 's pipeline" where
  "action_effect w a p =
    (let c = pl_ctx p; wd = jc_working_dir c in
     case a of
       Download \<Rightarrow> p\<lparr>pl_ctx := c\<lparr>jc_source := Some (sw_downloaded w)\<rparr>\<rparr>
     | Extract \<Rightarrow> (case source_probe_of c of None \<Rightarrow> p
         | Some q \<Rightarrow> p\<lparr>pl_files := pl_files p @ map (srt_path wd) (extractable_subtitles q)\<rparr>)
     | Ocr s \<Rightarrow> p\<lparr>pl_files := pl_files p @ [srt_path wd s]\<rparr>
     | Encode \<Rightarrow> p\<lparr>pl_ctx := c\<lparr>jc_target := Some (sw_encoded w), jc_target_probe := Some (sw_encoded_probe w)\<rparr>\<rparr>
     | _ \<Rightarrow> p)"

fun run_actions :: "step_world \<Rightarrow> action list \<Rightarrow> 's pipeline \<Rightarrow> string list \<times> 's pipeline" where
  "run_actions w [] p = ([], p)"
| "run_actions w (a # as) p = (case sw_fails w a of
     Some e \<Rightarrow> (case run_actions w as p of (es, q) \<Rightarrow> (e # es, q))
   | None \<Rightarrow> run_actions w as (action_effect w a p))"

definition newline :: char where "newline = CHR 0x0A"

section \<open>Restart\<close>

definition pipeline_phases :: "notification_type list" where
  "pipeline_phases = [DownloadNotification, MKVExtractNotification, PGSNotification, FFMPEGSNotification, JobVerify,
     UploadNotification]"

datatype resumption = Resume notification_type | Discard | Ignore

definition resume_verdict :: "job_context \<Rightarrow> resumption" where
  "resume_verdict c = (case jc_last_event c of
      None \<Rightarrow> Ignore
    | Some l \<Rightarrow>
        if cx_type l = JobNotification
        then (if cx_status l = Assigned \<or> cx_status l = Started then Resume DownloadNotification
              else if cx_status l = Completed \<or> cx_status l = Failed \<or> cx_status l = Canceled then Discard
              else Ignore)
        else if cx_type l \<in> set pipeline_phases then Resume (cx_type l) else Ignore)"

text \<open>A restart: what is in memory is lost, the workspace and the network stay. A context that is
  found again is resumed, also when the job had already been given up.\<close>

definition restart :: "'s pipeline \<Rightarrow> 's pipeline" where
  "restart p = (case pl_saved p of
       None \<Rightarrow> p\<lparr>pl_at := Gone\<rparr>
     | Some c \<Rightarrow> (case resume_verdict c of
           Resume ph \<Rightarrow> p\<lparr>pl_ctx := c, pl_at := Queued_At ph\<rparr>
         | Discard \<Rightarrow> p\<lparr>pl_at := Gone, pl_saved := None\<rparr>
         | Ignore \<Rightarrow> p\<lparr>pl_at := Gone\<rparr>))"

section \<open>Routing\<close>

definition next_phase :: "notification_type \<Rightarrow> job_context \<Rightarrow> notification_type option" where
  "next_phase ph c = (case ph of
     DownloadNotification \<Rightarrow> (case source_probe_of c of None \<Rightarrow> None
       | Some p \<Rightarrow> Some (if have_extractable_subtitle p then MKVExtractNotification else FFMPEGSNotification))
   | MKVExtractNotification \<Rightarrow> (case source_probe_of c of None \<Rightarrow> None
       | Some p \<Rightarrow> Some (if have_image_subtitle p then PGSNotification else FFMPEGSNotification))
   | PGSNotification \<Rightarrow> Some FFMPEGSNotification | FFMPEGSNotification \<Rightarrow> Some JobVerify
   | JobVerify \<Rightarrow> Some UploadNotification | _ \<Rightarrow> None)"

definition fail_job ::
  "'s transport \<Rightarrow> pipeline_env \<Rightarrow> step_world \<Rightarrow> notification_type \<Rightarrow> string \<Rightarrow> 's pipeline \<Rightarrow> 's pipeline" where
  "fail_job tr env w ph msg p =
    (publish_task_event tr env w JobNotification Failed (phase_name ph @ '':'' @ msg) p)\<lparr>pl_at := Closing\<rparr>"

text \<open>An encode takes the profile of the class its slot was granted in.\<close>

definition begin_encode :: "'s transport \<Rightarrow> pipeline_env \<Rightarrow> step_world \<Rightarrow> 's pipeline \<Rightarrow> 's pipeline" where
  "begin_encode tr env w p =
    (case pin_encoder_profile (pe_config env) (sw_kind w) (jc_encode_config (pl_ctx p)) of
       Inl x \<Rightarrow> fail_job tr env w FFMPEGSNotification (pe_describe env x) p
     | Inr f \<Rightarrow> (publish_task_event tr env w FFMPEGSNotification Started []
         (p\<lparr>pl_ctx := (pl_ctx p)\<lparr>jc_encode_kind := sw_kind w, jc_encode_config := Some f\<rparr>\<rparr>))\<lparr>pl_at := Begun FFMPEGSNotification\<rparr>)"

text \<open>What the code dereferences without a test: where it is missing the process panics, which is a
  restart. The OCR lists its actions, and panics, before it reports its start.\<close>

definition ready :: "notification_type \<Rightarrow> job_context \<Rightarrow> bool" where
  "ready ph c \<longleftrightarrow>
    (ph \<in> {MKVExtractNotification, PGSNotification, FFMPEGSNotification, JobVerify} \<longrightarrow> source_probe_of c \<noteq> None) \<and>
    (ph \<in> {JobVerify, UploadNotification} \<longrightarrow> jc_target c \<noteq> None)"

definition route ::
  "'s transport \<Rightarrow> pipeline_env \<Rightarrow> step_world \<Rightarrow> notification_type \<Rightarrow> 's pipeline \<Rightarrow> 's pipeline" where
  "route tr env w ph p =
    (if ph = UploadNotification
     then (publish_task_event tr env w JobNotification Completed [] p)\<lparr>pl_at := Closing\<rparr>
     else (case next_phase ph (pl_ctx p) of None \<Rightarrow> restart p | Some n \<Rightarrow> p\<lparr>pl_at := Queued_At n\<rparr>))"

text \<open>\<open>CleanJob\<close>: its error is logged, and the job is forgotten either way.\<close>

definition clean_job :: "step_world \<Rightarrow> 's pipeline \<Rightarrow> 's pipeline" where
  "clean_job w p = (case sw_clean w of
     Cleaned \<Rightarrow> p\<lparr>pl_at := Gone, pl_saved := None, pl_files := []\<rparr>
   | Partly kept left \<Rightarrow> p\<lparr>pl_at := Gone, pl_saved := (if kept then pl_saved p else None), pl_files := filter left (pl_files p)\<rparr>)"

definition advance :: "'s transport \<Rightarrow> pipeline_env \<Rightarrow> step_world \<Rightarrow> 's pipeline \<Rightarrow> 's pipeline" where
  "advance tr env w p = (case pl_at p of
     Queued_At ph \<Rightarrow>
       if ph = FFMPEGSNotification then begin_encode tr env w p
       else if ph = PGSNotification \<and> source_probe_of (pl_ctx p) = None then restart p
       else (publish_task_event tr env w ph Started [] p)\<lparr>pl_at := Begun ph\<rparr>
   | Begun ph \<Rightarrow>
       if \<not> ready ph (pl_ctx p) then restart p
       else (case run_actions w (if runners env ph \<le> 0 then [] else phase_actions ph (pl_ctx p)) p of
          (es, q) \<Rightarrow> q\<lparr>pl_at := Acted ph es\<rparr>)
   | Acted ph es \<Rightarrow>
       (if es = [] then publish_task_event tr env w ph Completed [] p
        else publish_task_event tr env w ph Failed (join_with newline es) p)\<lparr>pl_at := Reported ph es\<rparr>
   | Reported ph es \<Rightarrow>
       (if es = [] then route tr env w ph p else fail_job tr env w ph (join_with newline es) p)
   | Closing \<Rightarrow> clean_job w p
   | Gone \<Rightarrow> p)"

section \<open>Acceptance and runs\<close>

text \<open>\<open>ExecuteReservedJob\<close>, once the workspace exists and the profile is pinned.\<close>

definition accept_job ::
  "'s transport \<Rightarrow> pipeline_env \<Rightarrow> step_world \<Rightarrow> string \<Rightarrow> (string \<times> ffmpeg_config) option \<Rightarrow>
    request_job_response \<Rightarrow> 's \<Rightarrow> 's pipeline" where
  "accept_job tr env w temp pinned r net =
    (let c = new_context (rs_id r) (rs_event_id r) (join_path [temp, rs_id r]);
         c = c\<lparr>jc_source := Some (empty_video_data\<lparr>vd_name := rs_name r\<rparr>)\<rparr>;
         c = (case pinned of None \<Rightarrow> c | Some (k, f) \<Rightarrow> c\<lparr>jc_encode_kind := k, jc_encode_config := Some f\<rparr>)
     in publish_task_event tr env w JobNotification Started []
          \<lparr>pl_ctx = c, pl_saved = None, pl_files = [], pl_at = Queued_At DownloadNotification, pl_sent = [], pl_net = net\<rparr>)"

datatype pipeline_move = Advance step_world | Restart

fun pipeline_step :: "'s transport \<Rightarrow> pipeline_env \<Rightarrow> pipeline_move \<Rightarrow> 's pipeline \<Rightarrow> 's pipeline" where
  "pipeline_step tr env (Advance w) p = advance tr env w p"
| "pipeline_step tr env Restart p = restart p"

end
