(* ===== verification/Worker_Server.thy ===== *)
theory Worker_Server
  imports Web_Api Coordinator Pipeline
begin

text \<open>
  The worker and the server together: the requests the client of the worker builds
  (\<open>worker/serverclient/server_client.go\<close>), answered by the handlers of the server. A call is a list of
  attempts, each of which reaches the server and brings its answer back, reaches it and loses the
  answer, or does not reach it. Calls for jobs and task events go through the retrying client, a library:
  the answers after which it tries again are the parameter \<open>again\<close>, the attempts it makes before it gives
  up the list of the call. All other calls make one attempt.
\<close>

section \<open>Attempts\<close>

datatype delivery = Answered web_env | Unanswered web_env | Unreached

fun deliver :: "(web_env \<Rightarrow> 'b handler) \<Rightarrow> delivery \<Rightarrow> 'b handler" where
  "deliver h (Answered env) s = h env s"
| "deliver h (Unanswered env) s = (NoReply, snd (h env s))"
| "deliver h Unreached s = (NoReply, s)"

fun reply_status :: "'b http_reply \<Rightarrow> int option" where
  "reply_status NoReply = None"
| "reply_status (Reply st _) = Some st"

fun attempts :: "(int option \<Rightarrow> bool) \<Rightarrow> (web_env \<Rightarrow> 'b handler) \<Rightarrow> delivery list \<Rightarrow> server \<Rightarrow>
    'b http_reply option \<times> server" where
  "attempts again h [] s = (None, s)"
| "attempts again h (d # ds) s = (case deliver h d s of
     (r, t) \<Rightarrow> if again (reply_status r) then attempts again h ds t else (Some r, t))"

text \<open>The attempts of the calls to come, and whether a retried call was given up.\<close>

record web_world =
  wn_server :: server
  wn_calls :: "delivery list list"
  wn_given_up :: bool

definition call_retried ::
  "(int option \<Rightarrow> bool) \<Rightarrow> (web_env \<Rightarrow> 'b handler) \<Rightarrow> web_world \<Rightarrow> 'b http_reply \<times> web_world" where
  "call_retried again h n = (case wn_calls n of
      [] \<Rightarrow> (NoReply, n\<lparr>wn_given_up := True\<rparr>)
    | ds # rest \<Rightarrow> (case attempts again h ds (wn_server n) of
          (None, s) \<Rightarrow> (NoReply, n\<lparr>wn_server := s, wn_calls := rest, wn_given_up := True\<rparr>)
        | (Some r, s) \<Rightarrow> (r, n\<lparr>wn_server := s, wn_calls := rest\<rparr>)))"

definition call_once :: "(web_env \<Rightarrow> 'b handler) \<Rightarrow> web_world \<Rightarrow> 'b http_reply \<times> web_world" where
  "call_once h n = (case wn_calls n of
      (d # _) # rest \<Rightarrow> (case deliver h d (wn_server n) of (r, s) \<Rightarrow> (r, n\<lparr>wn_server := s, wn_calls := rest\<rparr>))
    | _ \<Rightarrow> (NoReply, n\<lparr>wn_calls := tl (wn_calls n)\<rparr>))"

section \<open>The requests of the client\<close>

text \<open>Every request carries the token; the worker's name and its capabilities go with some of them.\<close>

definition client_request :: "string \<Rightarrow> string \<Rightarrow> web_request" where
  "client_request token peer = \<lparr>wq_authorization = bearer @ token, wq_worker = [], wq_control_version = [],
     wq_capabilities = [], wq_uuid = [], wq_address = peer, wq_length = [], wq_checksum = []\<rparr>"

definition settings_request :: "string \<Rightarrow> string \<Rightarrow> string \<Rightarrow> web_request" where
  "settings_request token peer name = (client_request token peer)\<lparr>wq_worker := name,
     wq_capabilities := independent_encoder_capability, wq_control_version := remote_control_capability\<rparr>"

text \<open>The address is the empty string of a field the client never sets. A ping carries the worker's name.\<close>

definition envelop_event :: "envelope \<Rightarrow> wire_event" where
  "envelop_event ev = \<lparr>wi_address = Some [], wi_event = ev\<rparr>"

definition event_handler :: "string \<Rightarrow> string \<Rightarrow> envelope \<Rightarrow> web_env \<Rightarrow> unit handler" where
  "event_handler token peer ev env =
    auth_func env (client_request token peer) (web_event env (client_request token peer) (Some (envelop_event ev)))"

definition web_transport :: "(int option \<Rightarrow> bool) \<Rightarrow> string \<Rightarrow> string \<Rightarrow> web_world transport" where
  "web_transport again token peer =
    (let base = client_request token peer
     in \<lparr>tr_settings = (\<lambda>w. call_once (\<lambda>env. auth_func env base (web_get_settings (settings_request token peer w)))),
         tr_write = (\<lambda>w ws. call_once (\<lambda>env. auth_func env base (web_set_settings (base\<lparr>wq_worker := w\<rparr>) (Some ws)))),
         tr_ack = (\<lambda>w a. call_once (\<lambda>env. auth_func env base (web_ack_control env (base\<lparr>wq_worker := w\<rparr>) (Some a)))),
         tr_job = (\<lambda>w. call_retried again (\<lambda>env. auth_func env base (web_request_job env (base\<lparr>wq_worker := w\<rparr>)))),
         tr_ping = (\<lambda>w rt. call_once (event_handler token peer (PingEvent [] (Some \<lparr>pe_worker = w, pe_runtime = rt\<rparr>)))),
         tr_event = (\<lambda>e. call_retried again (event_handler token peer (NotificationEvent (Some e)))),
         tr_progress = (\<lambda>p. call_once (event_handler token peer (ProgressEvent (Some p))))\<rparr>)"

end
