(* ===== verification/Scheduler_Claims.thy ===== *)
theory Scheduler_Claims
  imports Scheduler_Correct
begin

text \<open>The properties of the scheduler's database side, each with a concrete run.\<close>

section \<open>Example states\<close>

definition demo_request :: job_request where
  "demo_request = \<lparr>rq_source_probe = None, rq_source_path = ''a/film.avi'', force_completed = False,
     force_failed = True, force_canceled = False, force_assigned = True, rq_source_size = 700,
     rq_target_path = ''a/film.mkv''\<rparr>"

definition demo_event :: "int \<Rightarrow> notification_status \<Rightarrow> string \<Rightarrow> task_event" where
  "demo_event i st w = \<lparr>event_time = 10 + i, worker_name = w, job_id = ''j1'', event_id = i,
     notification_type = JobNotification, status = st, message = [], target_probe_of = None\<rparr>"

text \<open>One job; its log is the list of events given.\<close>

definition demo_db :: "task_events \<Rightarrow> sql_db" where
  "demo_db es = empty_db\<lparr>jobs_t := [\<lparr>jr_id = ''j1'', jr_source_path = ''a/film.avi'',
       jr_target_path = ''a/film.mkv'', jr_source_size = 700, jr_target_size = 0,
       jr_source_probe = None, jr_target_probe = None\<rparr>],
     events_t := es,
     status_t := (if es = [] then [] else [\<lparr>sr_event = last es, sr_video_path = Some ''a/film.avi''\<rparr>])\<rparr>"

lemma demo_log: "\<forall>e\<in>set es. job_id e = ''j1'' \<Longrightarrow>
    job_log (demo_db es) j = (if j = ''j1'' then es else [])"
  by (auto simp: job_log_def demo_db_def filter_empty_conv)

lemma demo_inv:
  assumes "ordered_log es" and "\<forall>e\<in>set es. job_id e = ''j1''"
  shows "db_inv (demo_db es)"
proof -
  have "status_ok (demo_db es)"
    unfolding status_ok_def demo_log[OF assms(2)]
    using assms(2) by (auto simp: demo_db_def empty_db_def status_key_def)
  then show ?thesis
    using assms unfolding db_inv_def demo_log[OF assms(2)]
    by (auto simp: demo_db_def empty_db_def)
qed

lemma demo_short:
  assumes "\<forall>e\<in>set es. job_id e = ''j1''" and "length es < 100"
  shows "short_logs (demo_db es)"
  using assms(2) unfolding short_logs_def demo_log[OF assms(1)] by (auto simp: go_max_int_def)

definition queued_db :: sql_db where
  "queued_db = demo_db [demo_event 0 Queued []]"

definition assigned_db :: sql_db where
  "assigned_db = demo_db [demo_event 0 Queued [], demo_event 1 Assigned ''w1'']"

definition started_db :: sql_db where
  "started_db = demo_db [demo_event 0 Queued [], demo_event 1 Assigned ''w1'',
     demo_event 2 Started ''w1'']"

lemma demo_states:
  "db_inv queued_db" "db_inv assigned_db" "db_inv started_db"
  "short_logs queued_db" "short_logs assigned_db" "short_logs started_db"
  unfolding queued_db_def assigned_db_def started_db_def
  by ((rule demo_inv demo_short; simp add: ordered_log_def demo_event_def)+)

section \<open>Properties\<close>

text \<open>C21: an assignment goes to the oldest queued job. It appends exactly one event to the log of that
  job and touches no other log; the event is \<open>assigned\<close>, names the worker, and carries the
  identifier the worker is told, which is the next free one.\<close>

theorem request_job_assigns_oldest:
  assumes "db_inv s" and "short_logs s" and "request_job now w s = (Inr a, t)"
  shows "\<exists>e. job_log t = (job_log s)(rs_id a := job_log s (rs_id a) @ [e]) \<and>
      notification_type e = JobNotification \<and> status e = Assigned \<and> worker_name e = w \<and>
      event_id e = rs_event_id a \<and> rs_event_id a = int (length (job_log s (rs_id a))) \<and>
      map_option status (job_state s (rs_id a)) = Some Queued \<and>
      (\<forall>x\<in>set (queued_rows s). event_time (last (job_log s (rs_id a))) \<le> event_time x)"
  by (rule request_job_effect[OF assms], rule exI, intro conjI)
    (auto simp: queued_rows_def)

lemma queued_run:
  "map_sum (\<lambda>_. ()) (\<lambda>a. (rs_id a, rs_event_id a, rs_name a)) (fst (request_job 20 ''w1'' queued_db)) =
    Inr (''j1'', 1, ''film.avi'')"
  by code_simp

lemma request_job_assigns_oldest_witness:
  "\<exists>a t. request_job 20 ''w1'' queued_db = (Inr a, t) \<and> rs_event_id a = 1 \<and> rs_id a = ''j1'' \<and>
     map_option status (job_state queued_db ''j1'') = Some Queued"
proof -
  from run_value[OF queued_run]
  obtain a t where r: "request_job 20 ''w1'' queued_db = (Inr a, t)" "rs_id a = ''j1''" "rs_event_id a = 1"
    by (metis Pair_inject)
  from request_job_assigns_oldest[OF demo_states(1,4) r(1)] r show ?thesis by auto
qed

text \<open>a job is not handed out twice. Whatever worker asks next, an assignment that follows an
  assignment goes to another job.\<close>

theorem request_job_exclusive:
  assumes "db_inv s" and "short_logs s" and "request_job now w s = (Inr a, t)"
    and "short_logs t" and "request_job now' w' t = (Inr b, u)"
  shows "rs_id b \<noteq> rs_id a"
proof
  assume same: "rs_id b = rs_id a"
  from request_job_effect[OF assms(1-3)] obtain e where
    e: "job_log t = (job_log s)(rs_id a := job_log s (rs_id a) @ [e])" "status e = Assigned"
    by metis
  have "db_inv t" using keepsD[of db_inv, OF keeps_request_job assms(1,3)] .
  from request_job_effect[OF this assms(4,5)] have
    "last (job_log t (rs_id b)) \<in> set (queued_rows t)" by metis
  then have "status (last (job_log t (rs_id b))) = Queued" by (simp add: queued_rows_def)
  with e same show False by simp
qed

lemma short_logs_small: "length (events_t s) < 1000 \<Longrightarrow> short_logs s"
proof -
  assume a: "length (events_t s) < 1000"
  have "length (job_log s j) \<le> length (events_t s)" for j by (simp add: job_log_def)
  with a have "length (job_log s j) < 1000" for j using le_less_trans by blast
  then have "int (length (job_log s j)) < 1000" for j by (metis of_nat_less_iff of_nat_numeral)
  then show ?thesis unfolding short_logs_def go_max_int_def by (auto intro: less_trans[of _ 1000])
qed

definition two_db :: sql_db where
  "two_db = snd (bindP (schedule_job_request False 5 ''j1'' (\<lambda>_. None) ''/lib'' demo_request)
     (\<lambda>_. schedule_job_request False 6 ''j2'' (\<lambda>_. None) ''/lib''
       (demo_request\<lparr>rq_source_path := ''b.mkv''\<rparr>)) empty_db)"

lemma two_db_inv: "db_inv two_db"
  unfolding two_db_def
  by (rule keepsD[of db_inv, OF _ db_inv_empty prod.collapse[symmetric]]) (intro keeps_intros)

lemma two_db_run:
  "map_sum (\<lambda>_. ()) (map_prod rs_id rs_id) (fst (bindP (request_job 7 ''w1'')
     (\<lambda>a. bindP (request_job 8 ''w2'') (\<lambda>b. retP (a, b))) two_db)) = Inr (''j1'', ''j2'')"
  "length (events_t two_db) = 2" "length (events_t (snd (request_job 7 ''w1'' two_db))) = 3"
  by code_simp+

lemma request_job_exclusive_witness:
  "\<exists>a t b u. request_job 7 ''w1'' two_db = (Inr a, t) \<and> request_job 8 ''w2'' t = (Inr b, u) \<and>
     rs_id b \<noteq> rs_id a"
proof -
  from run_value[OF two_db_run(1)] obtain p v where
    "bindP (request_job 7 ''w1'') (\<lambda>a. bindP (request_job 8 ''w2'') (\<lambda>b. retP (a, b))) two_db = (Inr p, v)"
    by blast
  then obtain a t b u where
    r: "request_job 7 ''w1'' two_db = (Inr a, t)" "request_job 8 ''w2'' t = (Inr b, u)"
    by (auto elim!: bindP_InrE simp: retP_def)
  have "short_logs two_db" "short_logs t"
    using short_logs_small two_db_run(2,3) r(1) by simp_all
  from request_job_exclusive[OF two_db_inv this(1) r(1) this(2) r(2)] r show ?thesis by blast
qed

text \<open>C22: a committed intake leaves the job queued and adds to one log only: a new job gets one
  \<open>queued\<close> event; a known job is requeued only from the state the request names, an assigned or
  started one after a \<open>canceled\<close> event.\<close>

theorem schedule_job_request_effect:
  assumes "db_inv s" and "schedule_job_request c now fresh ffprobe rt rq s = (Inr v, t)"
  shows "\<exists>es. job_log t = (job_log s)(jid v := job_log s (jid v) @ es) \<and>
    intake_effect rq s (jid v) es \<and> map_option status (job_state t (jid v)) = Some Queued"
  by (rule schedule_effect[OF assms])

lemma requeue_run:
  "map_sum (\<lambda>_. ()) jid (fst (schedule_job_request False 50 ''j9'' (\<lambda>_. None) ''/lib'' demo_request
     started_db)) = Inr ''j1''"
  by code_simp

lemma schedule_job_request_effect_witness:
  "\<exists>v t. schedule_job_request False 50 ''j9'' (\<lambda>_. None) ''/lib'' demo_request started_db = (Inr v, t) \<and>
     map_option status (job_state t ''j1'') = Some Queued"
proof -
  from run_value[OF requeue_run] obtain v t where
    r: "schedule_job_request False 50 ''j9'' (\<lambda>_. None) ''/lib'' demo_request started_db = (Inr v, t)"
    "jid v = ''j1''" by metis
  from schedule_job_request_effect[OF demo_states(3) r(1)] r show ?thesis by auto
qed

text \<open>C24: a cancellation never reports success. The one that works, on an assigned or started job,
  appends the \<open>canceled\<close> event and then returns the error for an unknown state; every other call
  changes no log.\<close>

theorem cancel_job_never_succeeds:
  assumes "db_inv s" and "cancel_job now j s = (r, t)"
  shows "r \<noteq> Inr () \<and>
    (job_log t = job_log s \<or>
     r = Inl UnknownState \<and> (\<exists>l e. job_state s j = Some l \<and> status l \<in> {Assigned, Started} \<and>
       job_log t = (job_log s)(j := job_log s j @ [e]) \<and> status e = Canceled \<and>
       notification_type e = JobNotification \<and> message e = ''Job canceled by user''))"
  using assms(2) unfolding cancel_job_def
proof (cases rule: bindP_cases)
  case (fails e)
  from reads_onlyD[OF reads_get_job fails(1)] obtain fs where "t = s\<lparr>faults := fs\<rparr>" .
  with fails(2) show ?thesis by simp
next
  case (continues v u)
  from get_job_read[OF continues(1)] obtain row fs where
    g: "read_of s row v" "u = s\<lparr>faults := fs\<rparr>" "jr_id row = j" by metis
  then have jv: "jid v = j" by (simp add: read_of_def)
  have st: "get_latest_per_notification_type JobNotification (events v) = job_state s j"
    using read_of_state[OF assms(1) g(1)] jv by simp
  obtain e v' where e: "add_event_complete now JobNotification Canceled ''Job canceled by user'' v = (e, v')"
    by (metis prod.exhaust)
  have ef: "job_id e = j" "status e = Canceled" "notification_type e = JobNotification"
    "message e = ''Job canceled by user''"
    using e jv by (auto simp: add_event_complete_def Let_def split: prod.splits)
  show ?thesis
  proof (cases "\<exists>l. job_state s j = Some l \<and> status l \<in> {Assigned, Started}")
    case False
    with continues(2) st g(2) show ?thesis
      by (auto simp: get_status_def failP_def split: option.splits if_splits)
  next
    case True
    then obtain l where l: "job_state s j = Some l" "status l \<in> {Assigned, Started}" by blast
    with continues(2) st e have "bindP (add_new_task_event now e) (\<lambda>_. failP UnknownState) u = (r, t)"
      by (auto simp: get_status_def)
    then show ?thesis
    proof (cases rule: bindP_cases)
      case (fails x)
      with sql.append_fails[OF fails(1)] g(2) show ?thesis by simp
    next
      case (continues y w)
      then have "t = w" "r = Inl UnknownState" by (simp_all add: failP_def)
      with append_log continues(1) ef g(2) l show ?thesis by (auto simp: store_event_def)
    qed
  qed
qed

lemma cancel_run:
  "map_sum id (\<lambda>_. ()) (fst (cancel_job 30 ''j1'' started_db)) = Inl UnknownState"
  "map status (job_log (snd (cancel_job 30 ''j1'' started_db)) ''j1'') =
    [Queued, Assigned, Started, Canceled]"
  by code_simp+

lemma cancel_job_never_succeeds_witness:
  "\<exists>r t. cancel_job 30 ''j1'' started_db = (r, t) \<and> r = Inl UnknownState \<and> r \<noteq> Inr () \<and>
     map status (job_log t ''j1'') = [Queued, Assigned, Started, Canceled]"
proof (intro exI conjI)
  show "cancel_job 30 ''j1'' started_db = (Inl UnknownState, snd (cancel_job 30 ''j1'' started_db))"
    using run_error[OF cancel_run(1)] .
  from cancel_job_never_succeeds[OF demo_states(3) this]
  show "Inl UnknownState \<noteq> (Inr () :: server_error + unit)" by blast
qed (rule refl, rule cancel_run(2))

text \<open>a job is streamed only to the worker that started it: the guard of uploads and downloads
  succeeds exactly for the worker of a latest \<open>started\<close> event, and changes no table.\<close>

theorem streamable_only_to_its_worker:
  assumes "db_inv s" and "is_valid_streamable_job j w s = (Inr v, t)"
  shows "(\<exists>l. job_state s j = Some l \<and> status l = Started \<and> worker_name l = w) \<and> jid v = j \<and>
    t = s\<lparr>faults := faults t\<rparr>"
proof -
  from assms(2) obtain v0 u where g: "get_job j s = (Inr v0, u)"
    and c: "(case get_latest_per_notification_type JobNotification (events v0) of
        None \<Rightarrow> failP NilDereference
      | Some te \<Rightarrow> if status te \<noteq> Started then failP ErrStreamNotAllowed
          else if worker_name te \<noteq> w then failP ErrStreamNotAllowed else retP v0) u = (Inr v, t)"
    unfolding is_valid_streamable_job_def by (elim bindP_InrE) blast
  from get_job_read[OF g] obtain row fs where
    r: "read_of s row v0" "u = s\<lparr>faults := fs\<rparr>" "jr_id row = j" by metis
  have "jid v0 = j" using r by (simp add: read_of_def)
  with read_of_state[OF assms(1) r(1)] c r(2) show ?thesis
    by (auto simp: failP_def retP_def split: option.splits if_splits)
qed

lemma stream_run:
  "map_sum (\<lambda>_. ()) jid (fst (is_valid_streamable_job ''j1'' ''w1'' started_db)) = Inr ''j1''"
  by code_simp

lemma streamable_only_to_its_worker_witness:
  "\<exists>v t. is_valid_streamable_job ''j1'' ''w1'' started_db = (Inr v, t) \<and>
     (\<exists>l. job_state started_db ''j1'' = Some l \<and> status l = Started \<and> worker_name l = ''w1'')"
proof -
  from run_value[OF stream_run] obtain v t where
    r: "is_valid_streamable_job ''j1'' ''w1'' started_db = (Inr v, t)" by metis
  from streamable_only_to_its_worker[OF demo_states(3) r] r show ?thesis by auto
qed

end
