(* ===== verification/Publication_Claims.thy ===== *)
theory Publication_Claims
  imports Publication_Correct Scheduler_Claims
begin

text \<open>The properties of uploads, their publication and the events that trigger it.\<close>

section \<open>An example library\<close>

definition demo_config :: server_config where
  "demo_config = \<lparr>cfg_root = ''/lib'', cfg_delete_source = False, cfg_min_size = 100,
     cfg_job_timeout = 1000, cfg_cwd = ''/''\<rparr>"

definition demo_probe :: "string \<Rightarrow> ffprobe_output option" where
  "demo_probe bytes = (if bytes = ''video'' then Some \<lparr>fo_duration = ''12.5'', fo_streams =
     [\<lparr>ms_index = 0, codec_type = ''audio'', codec_name = ''aac'', ms_width = 0, ms_height = 0,
       ms_language = [], ms_title = []\<rparr>,
      \<lparr>ms_index = 1, codec_type = ''video'', codec_name = ''hevc'', ms_width = 640, ms_height = 360,
       ms_language = [], ms_title = []\<rparr>]\<rparr> else None)"

text \<open>The source, a file that already has the desired output name, and the staged upload.\<close>

definition demo_files :: file_system where
  "demo_files = \<lparr>names =
     [(''/lib'', Directory), (''/lib/a'', Directory), (''/lib/a/film.avi'', File 0),
      (''/lib/a/film.x265.mkv'', File 1), (''/lib/a/.transcoderd-upload'', Directory),
      (''/lib/a/.transcoderd-upload/j1.upload'', File 2)],
     sizes = (\<lambda>n. if n = File 0 then 700 else if n = File 2 then 5 else 9),
     modes = (\<lambda>_. 384), contents = (\<lambda>i. if i = 2 then ''video'' else ''other''),
     mtimes = (\<lambda>_. 0), next_inode = 3, io_faults = []\<rparr>"

definition demo_server :: server where
  "demo_server = \<lparr>sdb = demo_db [demo_event 0 Queued [], demo_event 1 Assigned ''w1'',
     demo_event 2 Started ''w1''], sfs = demo_files, checksums = []\<rparr>"

section \<open>Properties\<close>

text \<open>C19: completing a job overwrites and loses no file. What a file that was there holds is unchanged,
  whatever becomes of the completion. Every name outside the job's staging names still stands for the
  same file afterwards, with one exception: a completion that fails may take back the name it would
  publish under, when an earlier attempt had already published the upload there. The file then still has
  the name it was probed under (the staged upload or the target in the job row), and the name taken back
  is never the source's.\<close>

theorem complete_job_loses_no_file:
  assumes "complete_job cfg probe tmp j s = (r, t)" and "is_abs (cfg_root cfg)"
    and "job_row_of (sdb s) j = Some row"
    and "bound q n (sfs s)" and "outside q (staging_names cfg (jr_source_path row) j tmp)"
  shows "(\<forall>i. i < next_inode (sfs s) \<longrightarrow> contents (sfs t) i = contents (sfs s) i \<and> sizes (sfs t) (File i) = sizes (sfs s) (File i)) \<and>
    (bound q n (sfs t) \<or>
     (\<exists>e. r = Inl e) \<and>
     (\<exists>(out :: ffprobe_output) k. clean_path q = clean_path (link_candidate
        (join_path [cfg_root cfg, output_name_for_codec (jr_source_path row) (output_codec [] (fo_streams out))]) k)) \<and>
     (\<exists>p. bound p n (sfs t) \<and> (upload_staging_path (cfg_root cfg) (jr_source_path row) j = Inr p \<or>
        p = join_path [cfg_root cfg, jr_target_path row])) \<and>
     clean_path q \<noteq> clean_path (join_path [cfg_root cfg, jr_source_path row]))"
proof (intro conjI)
  have "holds (next_inode (sfs s)) (sfs s) (sfs s)" by (simp add: holds_def)
  from keepsD[OF complete_job_holds this assms(1)]
  show "\<forall>i. i < next_inode (sfs s) \<longrightarrow> contents (sfs t) i = contents (sfs s) i \<and> sizes (sfs t) (File i) = sizes (sfs s) (File i)"
    by (simp add: holds_def)
  have tmp: "clean_path q \<noteq> clean_path tmp"
    using assms(5) by (auto simp: outside_def staging_names_def Let_def)
  from assms(1-3) show "bound q n (sfs t) \<or>
     (\<exists>e. r = Inl e) \<and>
     (\<exists>(out :: ffprobe_output) k. clean_path q = clean_path (link_candidate
        (join_path [cfg_root cfg, output_name_for_codec (jr_source_path row) (output_codec [] (fo_streams out))]) k)) \<and>
     (\<exists>p. bound p n (sfs t) \<and> (upload_staging_path (cfg_root cfg) (jr_source_path row) j = Inr p \<or>
        p = join_path [cfg_root cfg, jr_target_path row])) \<and>
     clean_path q \<noteq> clean_path (join_path [cfg_root cfg, jr_source_path row])"
  proof (cases rule: complete_cases)
    case (stopped e)
    with tmp assms(4) show ?thesis by blast
  next
    case (publish v st probed out i w d)
    have src: "source_path v = jr_source_path row" "target_path v = jr_target_path row"
      using publish(2) by (simp_all add: read_of_def)
    have "outside q [st, dir_name st, legacy_staging_path cfg j, dir_name (legacy_staging_path cfg j)]"
      using assms(5) publish(4) src by (auto simp: outside_def staging_names_def Let_def)
    moreover have "bound q n (sfs w)" using publish(12) tmp assms(4) by blast
    ultimately show ?thesis
      using publish_preserves[OF publish(11) assms(2) publish(5)] publish(4,10) unfolding desired_path_def src by blast
  qed
qed

lemma demo_completion:
  "map_sum (\<lambda>_. ()) id (fst (complete_job demo_config demo_probe ''/lib/tmp'' ''j1'' demo_server)) = Inr ()"
  "node_at (sfs demo_server) ''/lib/a/film.x265.mkv'' = Some (File 1)"
  "node_at (sfs demo_server) ''/lib/a/film.avi'' = Some (File 0)"
  "map_option jr_source_path (job_row_of (sdb demo_server) ''j1'') = Some ''a/film.avi''"
  "list_all (\<lambda>p. clean_path ''/lib/a/film.x265.mkv'' \<noteq> clean_path p)
     (staging_names demo_config ''a/film.avi'' ''j1'' ''/lib/tmp'')"
  by code_simp+

lemma demo_root: "is_abs (cfg_root demo_config)"
  by (simp add: demo_config_def is_abs_def sep_def)

lemma complete_job_loses_no_file_witness:
  "\<exists>t. complete_job demo_config demo_probe ''/lib/tmp'' ''j1'' demo_server = (Inr (), t) \<and>
     bound ''/lib/a/film.x265.mkv'' (File 1) (sfs t) \<and> contents (sfs t) 1 = contents (sfs demo_server) 1"
proof -
  obtain t where r: "complete_job demo_config demo_probe ''/lib/tmp'' ''j1'' demo_server = (Inr (), t)"
    using run_value[OF demo_completion(1)] by auto
  obtain row where row: "job_row_of (sdb demo_server) ''j1'' = Some row" "jr_source_path row = ''a/film.avi''"
    using demo_completion(4) by auto
  have "outside ''/lib/a/film.x265.mkv'' (staging_names demo_config (jr_source_path row) ''j1'' ''/lib/tmp'')"
    using demo_completion(5) row(2) by (auto simp: outside_def list_all_iff)
  moreover have "1 < next_inode (sfs demo_server)" by (simp add: demo_server_def demo_files_def)
  ultimately show ?thesis
    using complete_job_loses_no_file[OF r demo_root row(1) demo_completion(2)[folded bound_def]] r by blast
qed

text \<open>C18: a completion that returns without error has published a verified output: a file below the
  library root whose contents \<open>ffprobe\<close> found to hold a video stream, readable by the group, under
  a name that is not the source's; the job row names it and carries its size and metadata. Where an
  upload was staged for the job, it is that very file, unchanged.\<close>

theorem complete_job_publishes:
  assumes "complete_job cfg probe tmp j s = (Inr (), t)" and "is_abs (cfg_root cfg)"
    and "job_row_of (sdb s) j = Some row" and "sep \<notin> set j"
    and "\<And>b z. probe b = Some z \<Longrightarrow> sep \<notin> set (output_codec [] (fo_streams z))"
  shows "\<exists>row' i out final. job_row_of (sdb t) j = Some row' \<and>
    final = join_path [cfg_root cfg, jr_target_path row'] \<and> is_local (jr_target_path row') \<and>
    (\<exists>b. jr_target_path row' = b @ ''.mkv'') \<and>
    \<not> same_path (cfg_cwd cfg) final (join_path [cfg_root cfg, jr_source_path row]) \<and>
    bound final (File i) (sfs t) \<and> modes (sfs t) i = shared_output_file_mode \<and>
    probe (contents (sfs t) i) = Some out \<and> has_named_video out \<and>
    jr_target_size row' = sizes (sfs t) (File i) \<and> jr_target_probe row' = Some (output_probe out) \<and>
    (\<forall>st n. upload_staging_path (cfg_root cfg) (jr_source_path row) j = Inr st \<and> node_at (sfs s) st = Some (File n) \<longrightarrow>
      i = n \<and> contents (sfs t) n = contents (sfs s) n) \<and>
    jr_source_path row' = jr_source_path row"
  using complete_job_effect[OF assms] .

lemma complete_job_publishes_witness:
  "\<exists>t row'. complete_job demo_config demo_probe ''/lib/tmp'' ''j1'' demo_server = (Inr (), t) \<and>
     job_row_of (sdb t) ''j1'' = Some row' \<and> jr_target_probe row' \<noteq> None \<and>
     (\<exists>b. jr_target_path row' = b @ ''.mkv'')"
proof -
  obtain t where r: "complete_job demo_config demo_probe ''/lib/tmp'' ''j1'' demo_server = (Inr (), t)"
    using run_value[OF demo_completion(1)] by auto
  obtain row where row: "job_row_of (sdb demo_server) ''j1'' = Some row"
    using demo_completion(4) by auto
  have "sep \<notin> set (output_codec [] (fo_streams out))" if "demo_probe b = Some out" for b out
    using that by (auto simp: demo_probe_def sep_def split: if_splits)
  note codec = this
  have "sep \<notin> set ''j1''" by (simp add: sep_def)
  from complete_job_publishes[OF r demo_root row this codec] r show ?thesis by force
qed

end
