(* ===== verification/Server_Claims.thy ===== *)
theory Server_Claims
  imports Server_Steps Publication_Claims
begin

text \<open>Properties of runs of the server, of uploads and of the maintenance.\<close>

definition empty_server :: server where
  "empty_server = \<lparr>sdb = empty_db, sfs = demo_files, checksums = []\<rparr>"

text \<open>Two calls: an intake and an assignment.\<close>

definition queued_server :: server where
  "queued_server = empty_server\<lparr>sdb := snd (schedule_job_request False 5 ''j1'' (\<lambda>_. None) ''/lib''
     demo_request empty_db)\<rparr>"

definition busy_server :: server where
  "busy_server = queued_server\<lparr>sdb := snd (request_job 7 ''w1'' (sdb queued_server))\<rparr>"

lemma on_db_run: "on_db m s = (fst (m (sdb s)), s\<lparr>sdb := snd (m (sdb s))\<rparr>)"
  by (simp add: on_db_def split: prod.splits)

lemma demo_run: "server_run demo_config empty_server busy_server"
proof -
  have "server_step demo_config empty_server queued_server"
    using step_intake[OF on_db_run, where cfg = demo_config and s = empty_server and c = False and
        now = 5 and fresh = "''j1''" and ff = "\<lambda>_. None" and rq = demo_request]
    by (simp add: queued_server_def empty_server_def demo_config_def)
  moreover have "server_step demo_config queued_server busy_server"
    using step_request[OF on_db_run, where cfg = demo_config and s = queued_server and now = 7 and
        w = "''w1''"]
    by (simp add: busy_server_def)
  ultimately show ?thesis by (meson run_none run_step)
qed

lemma demo_run_sane: "sane (sdb empty_server)"
  by (simp add: sane_def empty_server_def db_inv_empty) (simp add: empty_db_def)

section \<open>Properties\<close>

text \<open>C20: in every state the server can reach, whatever fails on the way, job identifiers and source
  paths are unique, each event belongs to a job, the events of a job are numbered 0, 1, 2, ... and
  \<open>job_status\<close> holds the last event of each job.\<close>

theorem run_keeps_database_sane:
  assumes "server_run cfg s t" and "sane (sdb s)"
  shows "distinct (map jr_id (jobs_t (sdb t))) \<and> distinct (map jr_source_path (jobs_t (sdb t))) \<and>
    job_id ` set (events_t (sdb t)) \<subseteq> jr_id ` set (jobs_t (sdb t)) \<and>
    (\<forall>j. map event_id (job_log (sdb t) j) = map int [0..<length (job_log (sdb t) j)]) \<and>
    status_ok (sdb t)"
  using run_safe[OF assms(1) call_safe_sane] assms(2)
  by (simp add: sane_def db_inv_def ordered_log_def)

lemma run_keeps_database_sane_witness:
  "server_run demo_config empty_server busy_server \<and> status_ok (sdb busy_server)"
  using run_keeps_database_sane[OF demo_run demo_run_sane] demo_run by blast

text \<open>Recorded events are never changed, reordered or removed: along every run each job's log
  only grows at its end.\<close>

theorem run_only_appends:
  assumes "server_run cfg s t"
  shows "\<exists>es. job_log (sdb t) j = job_log (sdb s) j @ es"
  using run_safe[OF assms call_safe_grown, of j "job_log (sdb s) j"] by (simp add: grown_def)

lemma run_only_appends_witness:
  "server_run demo_config empty_server busy_server \<and>
     (\<exists>es. job_log (sdb busy_server) ''j1'' = job_log (sdb empty_server) ''j1'' @ es)"
  using run_only_appends[OF demo_run] demo_run by blast

lemma upload_commit_effect:
  assumes "upload_commit digest u f = (Inr (), g)"
    and "node_at f (up_attempt u) = Some (File i)" and "contents f i = hashed_bytes u"
  shows "\<exists>k. node_at g (up_staging u) = Some (File k) \<and>
    digest (contents g k) = digest (hashed_bytes u)"
proof -
  from assms(1) obtain l w where
    tl: "tryP (os_link (up_attempt u) (up_staging u)) f = ((Inr l, w) :: (server_error + _) \<times> _)"
    and c: "(case l of Inr _ \<Rightarrow> retP ()
      | Inl e \<Rightarrow> if e \<noteq> FileExists then failP e
          else bindP (bindP (os_open (up_staging u)) os_read) (\<lambda>bytes.
            case up_hashed u of
              None \<Rightarrow> failP NilDereference
            | Some h \<Rightarrow> if digest bytes \<noteq> digest h then failP OtherFileError else retP ())) w = (Inr (), g)"
    unfolding upload_commit_def by (elim bindP_InrE) blast
  from tl have l: "os_link (up_attempt u) (up_staging u) f = (l, w)"
    by (simp add: tryP_def split: prod.splits)
  show ?thesis
  proof (cases l)
    case (Inr y)
    with l have l': "os_link (up_attempt u) (up_staging u) f = (Inr (), w)" by simp
    have "data_is (contents f) (sizes f) (modes f) w"
      by (rule keepsD[OF data_link _ l']) (simp add: data_is_def)
    then have "contents w i = hashed_bytes u" using assms(3) by (simp add: data_is_def)
    moreover have "node_at w (up_staging u) = Some (File i)"
      using os_link_ok[OF l'] assms(2) by (metis option.inject)
    moreover have "g = w" using c Inr by (simp add: retP_def)
    ultimately show ?thesis by (intro exI[of _ i]) simp
  next
    case (Inl e)
    with c have "bindP (bindP (os_open (up_staging u)) os_read) (\<lambda>bytes.
        case up_hashed u of None \<Rightarrow> failP NilDereference
        | Some h \<Rightarrow> if digest bytes \<noteq> digest h then failP OtherFileError else retP ()) w = (Inr (), g)"
      by (simp add: failP_def split: if_splits)
    then obtain n x y bytes where a: "os_open (up_staging u) w = (Inr n, x)" "os_read n x = (Inr bytes, y)"
      and b: "(case up_hashed u of None \<Rightarrow> failP NilDereference
        | Some h \<Rightarrow> if digest bytes \<noteq> digest h then failP OtherFileError else retP ()) y = (Inr (), g)"
      by (elim bindP_InrE)
    from b obtain h where "up_hashed u = Some h" "digest bytes = digest h" "y = g"
      by (auto simp: failP_def retP_def split: option.splits if_splits)
    with a have "os_open (up_staging u) w = (Inr n, x)" "os_read n x = (Inr bytes, g)"
      "up_hashed u = Some h" "digest bytes = digest h" by simp_all
    with stat_Inr[of "up_staging u" w n x] read_Inr[of n x bytes g] show ?thesis
      by (auto simp: os_open_def hashed_bytes_def)
  qed
qed

text \<open>After a commit the staged upload has the contents that were received, up to the digest:
  either this attempt was staged, or an earlier one with the same digest is there.\<close>

theorem upload_commit_stages_received:
  assumes "upload_commit digest u f = (Inr (), g)"
    and "node_at f (up_attempt u) = Some (File i)" and "contents f i = hashed_bytes u"
  shows "\<exists>k. node_at g (up_staging u) = Some (File k) \<and>
    digest (contents g k) = digest (hashed_bytes u)"
  using upload_commit_effect[OF assms] .

definition demo_upload :: upload_stream where
  "demo_upload = \<lparr>up_attempt = ''/lib/a/.transcoderd-upload/.j9.upload-1.tmp'',
     up_staging = ''/lib/a/.transcoderd-upload/j9.upload'', up_inode = 2, up_hashed = Some ''video''\<rparr>"

definition demo_upload_files :: file_system where
  "demo_upload_files = demo_files\<lparr>names :=
     (''/lib/a/.transcoderd-upload/.j9.upload-1.tmp'', File 2) # names demo_files\<rparr>"

lemma demo_upload_run:
  "map_sum (\<lambda>_. ()) id (fst (upload_commit rev demo_upload demo_upload_files)) = Inr ()"
  "node_at demo_upload_files (up_attempt demo_upload) = Some (File 2)"
  "contents demo_upload_files 2 = hashed_bytes demo_upload"
  by code_simp+

lemma upload_commit_stages_received_witness:
  "\<exists>g k. upload_commit rev demo_upload demo_upload_files = (Inr (), g) \<and>
     node_at g (up_staging demo_upload) = Some (File k)"
proof -
  obtain g where r: "upload_commit rev demo_upload demo_upload_files = (Inr (), g)"
    using run_value[OF demo_upload_run(1)] by auto
  from upload_commit_stages_received[OF r demo_upload_run(2,3)] r show ?thesis by blast
qed

text \<open>C23: what the maintenance does with a failed job: nothing when the failure is permanent, a
  cancellation after more than ten failures, and otherwise the same job is queued again.\<close>

theorem failed_job_retried_or_canceled:
  assumes "failed_job_step now fresh ff rt v s = (Inr (), t)" and "sane s"
    and "row \<in> set (jobs_t s)" and "read_of s row v"
    and "job_state s (jid v) = Some l" and "status l = Failed"
  shows "if \<not> verify_failure_message (status_message v) then t = s
    else if 10 < length (filter_by JobNotification Failed (events v))
    then \<exists>e. job_log t = (job_log s)(jid v := job_log s (jid v) @ [e]) \<and> status e = Canceled \<and>
      notification_type e = JobNotification
    else map_option status (job_state t (jid v)) = Some Queued"
proof -
  consider (permanent) "\<not> verify_failure_message (status_message v)"
    | (often) "verify_failure_message (status_message v)"
        "10 < length (filter_by JobNotification Failed (events v))"
    | (retry) "verify_failure_message (status_message v)"
        "\<not> 10 < length (filter_by JobNotification Failed (events v))" by blast
  then show ?thesis
  proof cases
    case permanent
    with assms(1) show ?thesis by (simp add: failed_job_step_def retP_def)
  next
    case often
    obtain e v' where e: "add_event_complete now JobNotification Canceled
        ''Job canceled by system, because of too many failed attempts'' v = (e, v')"
      by (metis prod.exhaust)
    then have f: "job_id e = jid v" "status e = Canceled" "notification_type e = JobNotification"
      by (auto simp: add_event_complete_def Let_def split: prod.splits)
    have "add_new_task_event now e s = (Inr (), t)"
      using assms(1) often e by (simp add: failed_job_step_def)
    from append_log[OF this] f often show ?thesis by (auto simp: store_event_def)
  next
    case retry
    with assms(1) obtain v' u where
      u: "schedule_job_request False now (fresh (jid v)) ff rt (retry_request v) s = (Inr v', t)"
      by (auto simp: failed_job_step_def retP_def elim!: bindP_InrE)
    have "jid v' = jid v" and "map_option status (job_state t (jid v')) = Some Queued"
    proof -
      from u have w: "with_transaction (schedule_tx now (fresh (jid v)) ff rt (retry_request v)) s = (Inr v', t)"
        by (simp add: schedule_job_request_def)
      then obtain fs z fs' where z: "schedule_tx now (fresh (jid v)) ff rt (retry_request v) (s\<lparr>faults := fs\<rparr>) =
          (Inr v', z)" "t = z\<lparr>faults := fs'\<rparr>" by (rule transaction_committed)
      have inv: "db_inv (s\<lparr>faults := fs\<rparr>)" using assms(2) by (simp add: sane_def)
      from schedule_tx_effect[OF inv z(1)] obtain es where
        es: "intake_effect (retry_request v) (s\<lparr>faults := fs\<rparr>) (jid v') es"
          "job_state z (jid v') = Some (last es)" "es \<noteq> []" by metis
      have src: "jr_source_path row = source_path v" "jr_id row = jid v"
        using assms(4) by (simp_all add: read_of_def)
      have "map status es = [Queued] \<or> map status es = [Canceled, Queued]"
        using es(1) by (auto simp: intake_effect_def)
      moreover have "status (last es) = last (map status es)" using es(3) by (simp add: last_map)
      ultimately have "status (last es) = Queued" by auto
      then show "map_option status (job_state t (jid v')) = Some Queued" using es(2) z(2) by simp
      have "source_path v \<in> jr_source_path ` set (jobs_t s)" using assms(3) src by force
      then obtain r where r: "r \<in> set (jobs_t s)" "jr_id r = jid v'" "jr_source_path r = source_path v"
        using es(1) by (auto simp: intake_effect_def retry_request_def)
      have "inj_on jr_source_path (set (jobs_t s))" using assms(2) by (simp add: sane_def distinct_map)
      from inj_onD[OF this _ r(1) assms(3)] r(3) src(1) have "r = row" by simp
      with r src show "jid v' = jid v" by simp
    qed
    with retry show ?thesis by simp
  qed
qed

definition failed_db :: sql_db where
  "failed_db = demo_db [demo_event 0 Queued [], demo_event 1 Failed ''w1'']"

definition failed_job :: job where
  "failed_job = (case fst (get_job ''j1'' failed_db) of Inr v \<Rightarrow> v\<lparr>status_message := ''Connection refused''\<rparr>)"

lemma failed_states: "sane failed_db"
proof -
  have "db_inv failed_db"
    unfolding failed_db_def by (rule demo_inv; simp add: ordered_log_def demo_event_def)
  then show ?thesis by (simp add: sane_def failed_db_def demo_db_def)
qed

lemma failed_run:
  "map_sum (\<lambda>_. ()) id (fst (failed_job_step 50 id (\<lambda>_. None) ''/lib'' failed_job failed_db)) = Inr ()"
  "verify_failure_message (status_message failed_job)"
  "map_option status (job_state failed_db ''j1'') = Some Failed"
  "(jid failed_job, mset (map event_id (events failed_job)), source_path failed_job) =
    (''j1'', {#0, 1#}, ''a/film.avi'')"
  "map_sum (\<lambda>_. ()) (\<lambda>_. ()) (fst (get_job ''j1'' failed_db)) = Inr ()"
  "\<not> 10 < length (filter_by JobNotification Failed (events failed_job))"
  by code_simp+

lemma failed_job_retried_or_canceled_witness:
  "\<exists>t. failed_job_step 50 id (\<lambda>_. None) ''/lib'' failed_job failed_db = (Inr (), t) \<and>
     map_option status (job_state t ''j1'') = Some Queued"
proof -
  obtain t where r: "failed_job_step 50 id (\<lambda>_. None) ''/lib'' failed_job failed_db = (Inr (), t)"
    using run_value[OF failed_run(1)] by auto
  obtain v d where g: "get_job ''j1'' failed_db = (Inr v, d)"
    using run_value[of "\<lambda>_. ()" "get_job ''j1'' failed_db" "()"] failed_run(5) by auto
  then obtain row fs where row: "job_row_of failed_db ''j1'' = Some row" "read_of failed_db row v"
    by (rule get_job_read)
  have fj: "failed_job = v\<lparr>status_message := ''Connection refused''\<rparr>" by (simp add: failed_job_def g)
  have rd: "read_of failed_db row failed_job" using row(2) by (simp add: fj read_of_def)
  have mem: "row \<in> set (jobs_t failed_db)" using row(1) lookup_row_Some by (metis job_row_of_def)
  have j: "jid failed_job = ''j1''" using failed_run(4) by simp
  obtain l where l: "job_state failed_db (jid failed_job) = Some l" "status l = Failed"
    using failed_run(3) j by auto
  from failed_job_retried_or_canceled[OF r failed_states mem rd l] r failed_run(2,6) j show ?thesis by simp
qed

end
