(* ===== verification/Web_Claims.thy ===== *)
theory Web_Claims
  imports Web_Api Server_Claims
begin

text \<open>
  What an answer of the server means: an upload that is acknowledged is staged with the digest the
  worker declared, as long as no file operation failed. When one did, the acknowledgement can be
  wrong: the example at the end shows the run.
\<close>

section \<open>File calls that do not fail\<close>

definition io_sound :: "file_system \<Rightarrow> bool" where
  "io_sound f \<longleftrightarrow> True \<notin> set (io_faults f)"

lemma io_call_sound:
  assumes "io_call m f = (r, t)" and "io_sound f"
  obtains fs where "m (f\<lparr>io_faults := fs\<rparr>) = (r, t)" "True \<notin> set fs"
proof (cases "io_faults f")
  case Nil
  then have "f\<lparr>io_faults := []\<rparr> = f" by (cases f) simp
  moreover have "m f = (r, t)" using assms(1) Nil by (simp add: io_call_def)
  ultimately show ?thesis by (intro that[of "[]"]) (simp only:, simp)
next
  case (Cons x xs)
  with assms show ?thesis by (intro that[of xs]) (auto simp: io_call_def io_sound_def)
qed

lemma sound_io:
  assumes "\<And>f. io_faults (snd (m f)) = io_faults f"
  shows "keeps io_sound (io_call m)"
proof (rule keepsI)
  fix f r t
  assume f: "io_sound f" and "io_call m f = (r, t)"
  from this(2,1) obtain fs where "m (f\<lparr>io_faults := fs\<rparr>) = (r, t)" "True \<notin> set fs" by (rule io_call_sound)
  with assms[of "f\<lparr>io_faults := fs\<rparr>"] show "io_sound t" by (simp add: io_sound_def)
qed

lemma make_dirs_faults: "io_faults (snd (make_dirs a pre ws f)) = io_faults f"
  by (induction a pre ws arbitrary: f rule: make_dirs.induct)
    (auto simp: retP_def Let_def split: option.splits node.splits)

lemma sound_ops [keeps_intros]:
  "keeps io_sound (os_mkdir_all p)" "keeps io_sound (os_create_new p m)" "keeps io_sound (os_write i b)"
  unfolding os_mkdir_all_def os_create_new_def os_write_def
  by (intro sound_io, auto simp: make_dirs_faults Let_def)+

section \<open>The attempt\<close>

text \<open>The file of an attempt holds what was hashed.\<close>

definition attempt_sound :: "upload_stream \<Rightarrow> file_system \<Rightarrow> bool" where
  "attempt_sound u f \<longleftrightarrow> io_sound f \<and> node_at f (up_attempt u) = Some (File (up_inode u)) \<and>
     contents f (up_inode u) = hashed_bytes u"

definition same_attempt :: "upload_stream \<Rightarrow> upload_stream \<Rightarrow> bool" where
  "same_attempt u v \<longleftrightarrow> up_attempt v = up_attempt u \<and> up_staging v = up_staging u \<and> up_inode v = up_inode u"

lemma create_sound:
  assumes "os_create_new p m f = (Inr i, g)"
  shows "node_at g p = Some (File i) \<and> contents g i = []"
  using assms unfolding os_create_new_def
  by (elim io_call_cases) (auto simp: Let_def node_at_def split: if_splits)

lemma open_attempt_sound:
  assumes "open_attempt dir p f = (Inr i, g)" and "io_sound f"
  shows "io_sound g \<and> node_at g p = Some (File i) \<and> contents g i = []"
proof -
  have k: "keeps io_sound (open_attempt dir p)" unfolding open_attempt_def by (intro keeps_intros)
  obtain h where "os_create_new p 384 h = (Inr i, g)"
  proof -
    from assms(1) obtain r u where r: "tryP (os_create_new p 384) f = ((Inr r, u) :: (server_error + (server_error + nat)) \<times> _)"
      and c: "(case r of Inr i \<Rightarrow> retP i | Inl e \<Rightarrow> if e = FileNotExist
          then bindP (os_mkdir_all dir) (\<lambda>_. os_create_new p 384) else failP e) u = (Inr i, g)"
      unfolding open_attempt_def by (elim bindP_InrE) blast
    from r have o: "os_create_new p 384 f = (r, u)" by (simp add: tryP_def split: prod.splits)
    show thesis
    proof (cases r)
      case (Inr k)
      with o c that show thesis by (simp add: retP_def)
    next
      case (Inl e)
      with c that show thesis by (auto simp: failP_def elim!: bindP_InrE split: if_splits)
    qed
  qed
  from create_sound[OF this] keepsD[OF k assms(2,1)] show ?thesis by simp
qed

lemma write_sound:
  assumes "attempt_sound u f"
  obtains g where "upload_write b u f = (Inr (Inr (), u\<lparr>up_hashed := Some (hashed_bytes u @ b)\<rparr>), g)"
    "attempt_sound (u\<lparr>up_hashed := Some (hashed_bytes u @ b)\<rparr>) g"
proof -
  obtain r g where w: "os_write (up_inode u) b f = (r, g)" by fastforce
  have i: "io_sound f" using assms by (simp add: attempt_sound_def)
  from w i obtain fs where fs: "True \<notin> set fs" "r = Inr ()"
    "g = f\<lparr>io_faults := fs, contents := (contents f)(up_inode u := contents f (up_inode u) @ b),
        sizes := (sizes f)(File (up_inode u) := sizes f (File (up_inode u)) + int (length b))\<rparr>"
    unfolding os_write_def by (elim io_call_sound) auto
  show ?thesis
    by (rule that[of g])
      (use w fs assms in \<open>simp_all add: upload_write_def bindP_run tryP_def retP_def attempt_sound_def io_sound_def
        hashed_bytes_def node_at_def\<close>)
qed

lemma same_attempt_hash: "same_attempt (u\<lparr>up_hashed := h\<rparr>) v = same_attempt u v" "same_attempt u (u\<lparr>up_hashed := h\<rparr>)"
  by (simp_all add: same_attempt_def)

lemma receive_sound:
  assumes "attempt_sound u f" and "receive_body rs n u f = (r, g)"
  shows "\<exists>e m v. r = Inr (e, m, v) \<and> attempt_sound v g \<and> same_attempt u v"
  using assms
proof (induction rs n u arbitrary: f rule: receive_body.induct)
  case (3 b rs n u)
  from 3(2) obtain h where h: "upload_write b u f = (Inr (Inr (), u\<lparr>up_hashed := Some (hashed_bytes u @ b)\<rparr>), h)"
    "attempt_sound (u\<lparr>up_hashed := Some (hashed_bytes u @ b)\<rparr>) h" by (rule write_sound)
  from 3(1)[of "Inr ()", OF _ h(2)] 3(3) h(1) show ?case by (auto simp: bindP_run same_attempt_hash)
next
  case (4 b rs n u)
  from 4(1) obtain h where "upload_write b u f = (Inr (Inr (), u\<lparr>up_hashed := Some (hashed_bytes u @ b)\<rparr>), h)"
    "attempt_sound (u\<lparr>up_hashed := Some (hashed_bytes u @ b)\<rparr>) h" by (rule write_sound)
  with 4(2) show ?case by (auto simp: bindP_run retP_def same_attempt_hash)
next
  case (5 b rs n u)
  from 5(1) obtain h where "upload_write b u f = (Inr (Inr (), u\<lparr>up_hashed := Some (hashed_bytes u @ b)\<rparr>), h)"
    "attempt_sound (u\<lparr>up_hashed := Some (hashed_bytes u @ b)\<rparr>) h" by (rule write_sound)
  with 5(2) show ?case by (auto simp: bindP_run retP_def same_attempt_hash)
qed (auto simp: retP_def same_attempt_def)

section \<open>The end of an upload\<close>

lemma close_state: "upload_close u f = (r, g) \<Longrightarrow> \<exists>fs. g = f\<lparr>io_faults := fs\<rparr>"
proof -
  have fl: "os_flush f = (r, g) \<Longrightarrow> \<exists>fs. g = f\<lparr>io_faults := fs\<rparr>" for f r g
    unfolding os_flush_def retP_def by (elim io_call_cases) auto
  assume "upload_close u f = (r, g)"
  then show ?thesis unfolding upload_close_def by (elim bindP_cases) (fastforce dest: fl)+
qed

lemma finish_sound:
  assumes "finish_upload env q d (e, n, u) f = (Inr 201, g)" and "attempt_sound u f"
  shows "\<exists>k. node_at g (up_staging u) = Some (File k) \<and> we_digest env (contents g k) = wq_checksum q"
proof -
  from assms(1) obtain h where h: "up_hashed u = Some h" "we_digest env h = wq_checksum q"
    by (cases "up_hashed u") (auto simp: finish_upload_def bindP_run tryP_def retP_def failP_def split: if_splits prod.splits)
  with assms(1) obtain f1 where f1: "upload_close u f = (Inr (), f1)"
    and c: "upload_commit (we_digest env) u f1 = (Inr (), g)"
    by (auto simp: finish_upload_def bindP_run tryP_def retP_def failP_def split: if_splits prod.splits sum.splits)
  from close_state[OF f1] assms(2) have "node_at f1 (up_attempt u) = Some (File (up_inode u))"
    "contents f1 (up_inode u) = hashed_bytes u" by (auto simp: attempt_sound_def)
  from upload_commit_effect[OF c this] h show ?thesis by (simp add: hashed_bytes_def)
qed

lemma take_sound:
  assumes "take_upload env q body u f = (Inr 201, g)" and "attempt_sound u f"
  shows "\<exists>k. node_at g (up_staging u) = Some (File k) \<and> we_digest env (contents g k) = wq_checksum q"
proof -
  from assms(1) obtain d where d: "bindP (receive_body body 0 u) (finish_upload env q d) f = (Inr 201, g)"
    by (auto simp: take_upload_def bindP_run tryP_def retP_def split: option.splits if_splits prod.splits)
  then obtain x h where x: "receive_body body 0 u f = (Inr x, h)" "finish_upload env q d x h = (Inr 201, g)"
    by (elim bindP_InrE)
  from receive_sound[OF assms(2) x(1)] obtain e m v where v: "x = (e, m, v)" "attempt_sound v h" "same_attempt u v"
    by auto
  from finish_sound[OF x(2)[unfolded v(1)] v(2)] v(3) show ?thesis by (simp add: same_attempt_def)
qed

section \<open>Where it is staged\<close>

lemma ups_fold: "foldl (clean_step False) (replicate m dotdot) (replicate n dotdot) = replicate (m + n) dotdot"
proof (induction n arbitrary: m)
  case (Suc n)
  have "clean_step False (replicate m dotdot) dotdot = replicate (Suc m) dotdot"
    by (cases m rule: nat.exhaust) (auto simp: clean_step_def dot_def dotdot_def last_replicate replicate_append_same)
  with Suc[of "Suc m"] show ?case by simp
qed simp

lemma path_parts_ups:
  assumes "\<forall>w\<in>set ys. plain_part w" and "0 < n"
  shows "path_parts (join_with sep (replicate n dotdot @ ys)) = replicate n dotdot @ ys"
proof -
  let ?ws = "replicate n dotdot @ ys"
  have "sep \<notin> set dotdot" by (simp add: sep_def dotdot_def)
  with assms have s: "split_on sep (join_with sep ?ws) = ?ws" by (intro split_join_on) (auto simp: plain_part_def)
  obtain m where n: "n = Suc m" using assms(2) by (cases n) auto
  have "join_with sep ?ws = CHR ''.'' # join_with sep ((tl dotdot) # replicate m dotdot @ ys)"
    using join_with_Cons_first[of sep "CHR ''.''" "tl dotdot" "replicate m dotdot @ ys"] by (simp add: n dotdot_def)
  then have "\<not> is_abs (join_with sep ?ws)" by (simp add: is_abs_def sep_def)
  then show ?thesis
    using ups_fold[of 0 n] clean_fold_plain[OF assms(1), of False "replicate n dotdot"]
    by (simp add: path_parts_def s clean_parts_def)
qed

lemma drop_common_prefix: "drop_common xs zs = ([], ys) \<Longrightarrow> zs = xs @ ys"
  by (induction xs zs rule: drop_common.induct) (auto split: if_splits)

lemma drop_common_rest: "drop_common xs zs = (as, ys) \<Longrightarrow> set as \<subseteq> set xs \<and> set ys \<subseteq> set zs"
  by (induction xs zs rule: drop_common.induct) (auto split: if_splits)

text \<open>A target with a local path from the root is below it.\<close>

lemma rel_local_join:
  assumes "is_abs rt" and "is_abs t" and "rel_path rt t = Some r" and "is_local r"
  shows "join_path [rt, r] = clean_path t"
proof (cases "clean_path rt = clean_path t")
  case True
  with assms(3) have "r = dot" by (simp add: rel_path_def)
  moreover have "path_parts dot = []" by (simp add: path_parts_def dot_def is_abs_def clean_parts_def clean_step_def sep_def)
  ultimately show ?thesis using join_path_local(1)[OF assms(1,4)] True by (simp add: clean_path_abs[OF assms(1)])
next
  case False
  obtain xs ys where d: "drop_common (path_parts rt) (path_parts t) = (xs, ys)" by fastforce
  with False assms(1-3) have r: "r = join_with sep (replicate (length xs) dotdot @ ys)"
    by (auto simp: rel_path_def split: if_splits)
  have pl: "\<forall>w\<in>set ys. plain_part w" using drop_common_rest[OF d] path_parts_plain[OF assms(2)] by blast
  have "xs = []"
  proof (rule ccontr)
    assume "xs \<noteq> []"
    with path_parts_ups[OF pl, of "length xs"] have "path_parts r = replicate (length xs) dotdot @ ys" by (simp add: r)
    with \<open>xs \<noteq> []\<close> have "dotdot \<in> set (path_parts r)" by (cases xs) auto
    with join_path_local(2)[OF assms(1,4)] show False by blast
  qed
  with drop_common_prefix d have t: "path_parts t = path_parts rt @ ys" by blast
  with False assms(1,2) have "ys \<noteq> []" by (auto simp: clean_abs_inject)
  with rel_path_below(2)[OF assms(1) this pl] t r \<open>xs = []\<close> assms(2) show ?thesis
    by (simp add: render_path_def clean_path_abs)
qed

lemma join_last:
  assumes "is_abs rt" and "plain_part f"
  shows "\<exists>xs. join_path [rt, a, f] = render_path True (xs @ [f]) \<and> (\<forall>w\<in>set xs. plain_part w)"
proof (cases "a = []")
  case True
  then have "join_path [rt, a, f] = join_path [rt, f]" by (simp add: join_path_def)
  with join_plain[OF assms] path_parts_plain[OF assms(1)] show ?thesis by auto
next
  case False
  let ?p = "rt @ sep # a @ sep # f"
  have ne: "rt \<noteq> []" "f \<noteq> []" using assms by (auto simp: is_abs_def plain_part_def)
  then have j: "join_path [rt, a, f] = clean_path ?p" using False by (simp add: join_path_def)
  have abs: "is_abs ?p" using assms(1) ne by simp
  have "split_on sep ?p = split_on sep rt @ split_on sep a @ [f]"
    using assms(2) by (simp add: split_on_append split_on_atom plain_part_def)
  then have "path_parts ?p = clean_step True (clean_parts True (split_on sep rt @ split_on sep a)) f"
    using abs by (simp add: path_parts_def clean_parts_def)
  also have "\<dots> = clean_parts True (split_on sep rt @ split_on sep a) @ [f]"
    using assms(2) by (simp add: clean_step_def plain_part_def)
  finally have pp: "path_parts ?p = clean_parts True (split_on sep rt @ split_on sep a) @ [f]" .
  with path_parts_plain[OF abs] have "\<forall>w\<in>set (clean_parts True (split_on sep rt @ split_on sep a)). plain_part w" by simp
  with j pp clean_path_abs[OF abs] show ?thesis by auto
qed

text \<open>The canonical form of an identifier has no path separator.\<close>

definition plain_ids :: "(string \<Rightarrow> uuid option) \<Rightarrow> bool" where
  "plain_ids parse \<longleftrightarrow> (\<forall>x j. parse x = Some j \<longrightarrow> sep \<notin> set j)"

text \<open>What opening an upload gives: the place where the publication looks for it, and an attempt under
  another name.\<close>

lemma upload_opened:
  assumes "get_upload_job_writer parse cfg rnd x w s = (Inr u, t)" and "is_abs (cfg_root cfg)"
    and "plain_ids parse" and "sep \<notin> set rnd" and "io_sound (sfs s)"
  obtains j row fs where "parse x = Some j" "job_row_of (sdb s) j = Some row" "sdb t = (sdb s)\<lparr>faults := fs\<rparr>"
    "upload_staging_path (cfg_root cfg) (jr_source_path row) j = Inr (up_staging u)"
    "attempt_sound u (sfs t)" "clean_path (up_attempt u) \<noteq> clean_path (up_staging u)"
proof -
  let ?rt = "cfg_root cfg"
  from assms(1) obtain j where j: "parse x = Some j" by (auto simp: get_upload_job_writer_def failP_def split: option.splits)
  with assms(1) obtain v s1 where v: "on_db (is_valid_streamable_job j w) s = (Inr v, s1)"
    and c: "(if \<not> is_local (source_path v) \<or> \<not> is_local (target_path v) then failP NonLocalPath
         else (case upload_staging_path ?rt (source_path v) (jid v) of
             Inl e \<Rightarrow> failP e
           | Inr temporal \<Rightarrow>
             (case rel_path ?rt temporal of
                None \<Rightarrow> failP NonLocalPath
              | Some staging \<Rightarrow>
                  if \<not> is_local staging then failP NonLocalPath
                  else bindP (on_fs (os_mkdir_all (dir_name temporal))) (\<lambda>_.
                    (let attempt = join_path [?rt, dir_name staging,
                           ''.'' @ upload_staging_name (jid v) @ ''-'' @ rnd @ ''.tmp'']
                     in bindP (on_fs (open_attempt (dir_name temporal) attempt)) (\<lambda>i.
                          retP \<lparr>up_attempt = attempt, up_staging = join_path [?rt, staging],
                            up_inode = i, up_hashed = None\<rparr>)))))) s1 = (Inr u, t)"
    unfolding get_upload_job_writer_def by (auto elim!: bindP_InrE)
  from v obtain d where d: "is_valid_streamable_job j w (sdb s) = (Inr v, d)" "s1 = s\<lparr>sdb := d\<rparr>" by (auto simp: on_db_Inr)
  then obtain d' where g: "get_job j (sdb s) = (Inr v, d')"
    by (auto simp: is_valid_streamable_job_def retP_def failP_def elim!: bindP_InrE split: option.splits if_splits)
  from get_job_read[OF g] obtain row where row: "job_row_of (sdb s) j = Some row" "read_of (sdb s) row v" by metis
  have src: "source_path v = jr_source_path row" "jid v = j"
    using row lookup_row_Some[of jr_id j "jobs_t (sdb s)" row] by (simp_all add: read_of_def job_row_of_def)
  have "reads_only (is_valid_streamable_job j w)"
    unfolding is_valid_streamable_job_def by (intro reads_intros)
  from reads_onlyD[OF this d(1)] obtain fs where fs: "d = (sdb s)\<lparr>faults := fs\<rparr>" by blast
  from c src obtain tp st where tp: "upload_staging_path ?rt (jr_source_path row) j = Inr tp" "rel_path ?rt tp = Some st"
    "is_local st" by (auto simp: failP_def split: if_splits sum.splits option.splits)
  let ?f = "''.'' @ upload_staging_name j @ ''-'' @ rnd @ ''.tmp''"
  let ?at = "join_path [?rt, dir_name st, ?f]"
  from c src tp have "bindP (on_fs (os_mkdir_all (dir_name tp))) (\<lambda>_. bindP (on_fs (open_attempt (dir_name tp) ?at)) (\<lambda>i.
      retP \<lparr>up_attempt = ?at, up_staging = join_path [?rt, st], up_inode = i, up_hashed = None\<rparr>)) s1 = (Inr u, t)"
    by (simp add: Let_def failP_def split: if_splits)
  then obtain f1 i f2 where f: "os_mkdir_all (dir_name tp) (sfs s) = (Inr (), f1)"
    "open_attempt (dir_name tp) ?at f1 = (Inr i, f2)" "t = s1\<lparr>sfs := f2\<rparr>"
    "u = \<lparr>up_attempt = ?at, up_staging = join_path [?rt, st], up_inode = i, up_hashed = None\<rparr>"
    by (auto simp: on_fs_Inr retP_def d(2) elim!: bindP_InrE)
  have "io_sound f1" using keepsD[OF sound_ops(1) assms(5) f(1)] .
  from open_attempt_sound[OF f(2) this] have snd: "attempt_sound u (sfs t)"
    by (simp add: f(3,4) attempt_sound_def hashed_bytes_def)
  have jp: "sep \<notin> set j" using assms(3) j unfolding plain_ids_def by blast
  from staging_dirs(3)[OF assms(2) jp tp(1)] have tpa: "is_abs tp" .
  have stg: "up_staging u = clean_path tp" using rel_local_join[OF assms(2) tpa tp(2,3)] by (simp add: f(4))
  let ?d = "dir_name (join_path [?rt, jr_source_path row])"
  have da: "is_abs ?d"
    using is_abs_dir[OF is_abs_join[OF assms(2), of "[jr_source_path row]"]] by (simp add: dir_name_def clean_path_abs)
  have tpr: "tp = render_path True ((path_parts ?d @ [''.transcoderd-upload'']) @ [upload_staging_name j])"
    using tp(1) join_plain2[OF da staging_dir_plain upload_name_plain[OF jp]]
    by (auto simp: upload_staging_path_def split: if_splits)
  have tpp: "\<forall>w\<in>set ((path_parts ?d @ [''.transcoderd-upload'']) @ [upload_staging_name j]). plain_part w"
    using path_parts_plain[OF da] staging_dir_plain upload_name_plain[OF jp] by auto
  have cl: "clean_path tp = tp" using tpr path_parts_render[OF tpp] clean_path_abs[OF tpa] by simp
  have fp: "plain_part ?f" using jp assms(4)
    by (auto simp: plain_part_def dot_def dotdot_def sep_def upload_staging_name_def)
  have ne: "?f \<noteq> upload_staging_name j"
  proof
    assume "?f = upload_staging_name j"
    from arg_cong[OF this, of last] show False by (simp add: upload_staging_name_def)
  qed
  from join_last[OF assms(2) fp, of "dir_name st"] obtain xs where
    xs: "?at = render_path True (xs @ [?f])" "\<forall>w\<in>set xs. plain_part w" by blast
  then have "\<forall>w\<in>set (xs @ [?f]). plain_part w" using fp by simp
  from render_last_neq[OF this tpp ne] xs(1) tpr cl have "clean_path (up_attempt u) \<noteq> clean_path (up_staging u)"
    by (simp add: f(4) stg[unfolded f(4), simplified])
  with that[OF j row(1) _ _ snd] tp(1) stg cl show ?thesis by (simp add: f(3) d(2) fs)
qed

section \<open>The acknowledgement\<close>

lemma upload_staged:
  assumes "web_upload env q body s = (Reply 201 b, t)" and "is_abs (cfg_root (we_config env))"
    and "plain_ids (we_parse_uuid env)" and "sep \<notin> set (we_random env)" and "io_sound (sfs s)"
  shows "\<exists>j row st k. we_parse_uuid env (wq_uuid q) = Some j \<and> job_row_of (sdb s) j = Some row \<and>
    job_row_of (sdb t) j = Some row \<and>
    upload_staging_path (cfg_root (we_config env)) (jr_source_path row) j = Inr st \<and>
    node_at (sfs t) st = Some (File k) \<and> we_digest env (contents (sfs t) k) = wq_checksum q"
proof -
  let ?open = "get_upload_job_writer (we_parse_uuid env) (we_config env) (we_random env) (wq_uuid q) (wq_worker q)"
  let ?rest = "\<lambda>u. bindP (tryP (take_upload env q body u)) (\<lambda>st.
    bindP (tryP (upload_clean u)) (\<lambda>_. case st of Inl x \<Rightarrow> failP x | Inr n \<Rightarrow> retP (Reply n None)))"
  have "answer stream_code id (bindP ?open (\<lambda>u. on_fs (?rest u))) s = (Reply 201 b, t)"
    using assms(1) by (auto simp: web_upload_def refuse_def split: if_splits prod.splits http_reply.splits
        elim!: restatus.elims)
  then have "bindP ?open (\<lambda>u. on_fs (?rest u)) s = (Inr (Reply 201 b), t)"
    by (auto simp: answer_def stream_code_def split: prod.splits sum.splits if_splits)
  then obtain u s1 where u: "?open s = (Inr u, s1)" "on_fs (?rest u) s1 = (Inr (Reply 201 b), t)" by (elim bindP_InrE)
  from upload_opened[OF u(1) assms(2) assms(3) assms(4,5)] obtain j row fs where
    o: "we_parse_uuid env (wq_uuid q) = Some j" "job_row_of (sdb s) j = Some row" "sdb s1 = (sdb s)\<lparr>faults := fs\<rparr>"
    "upload_staging_path (cfg_root (we_config env)) (jr_source_path row) j = Inr (up_staging u)"
    "attempt_sound u (sfs s1)" "clean_path (up_attempt u) \<noteq> clean_path (up_staging u)" .
  from u(2) obtain g where g: "?rest u (sfs s1) = (Inr (Reply 201 b), g)" "t = s1\<lparr>sfs := g\<rparr>" by (auto simp: on_fs_Inr)
  obtain r h where h: "take_upload env q body u (sfs s1) = (r, h)" by fastforce
  obtain r' h' where cl: "upload_clean u h = (r', h')" by fastforce
  from g(1) h cl have r: "r = Inr 201" "h' = g" by (auto simp: bindP_run tryP_def retP_def failP_def split: sum.splits)
  from take_sound[OF h[unfolded r(1)] o(5)] obtain k where
    k: "node_at h (up_staging u) = Some (File k)" "we_digest env (contents h k) = wq_checksum q" by blast
  have kb: "keeps (bound (up_staging u) (File k)) (upload_clean u)"
    unfolding upload_clean_def by (intro keeps_intros) (use o(6) in auto)
  have kd: "keeps (data_is (contents h) (sizes h) (modes h)) (upload_clean u)"
    unfolding upload_clean_def by (intro keeps_intros)
  from keepsD[OF kb _ cl] k(1) r(2) have "node_at (sfs t) (up_staging u) = Some (File k)" by (simp add: bound_def g(2))
  moreover from keepsD[OF kd _ cl] r(2) have "contents (sfs t) = contents h" by (simp add: data_is_def g(2))
  moreover have "job_row_of (sdb t) j = Some row" using o(2,3) by (simp add: g(2))
  ultimately show ?thesis using o(1,2,4) k(2) by auto
qed

text \<open>An upload answered with 201 is staged where the completion of its job looks for it, with the
  digest the worker declared, provided that no file operation failed on the way.\<close>

theorem upload_acknowledged_is_staged:
  assumes "web_upload env q body s = (Reply 201 b, t)" and "is_abs (cfg_root (we_config env))"
    and "plain_ids (we_parse_uuid env)" and "sep \<notin> set (we_random env)" and "io_sound (sfs s)"
  shows "\<exists>j row st k. we_parse_uuid env (wq_uuid q) = Some j \<and> job_row_of (sdb s) j = Some row \<and>
    job_row_of (sdb t) j = Some row \<and>
    upload_staging_path (cfg_root (we_config env)) (jr_source_path row) j = Inr st \<and>
    node_at (sfs t) st = Some (File k) \<and> we_digest env (contents (sfs t) k) = wq_checksum q"
  by (rule upload_staged[OF assms])

text \<open>Examples: the job is started on the worker; its output is to be uploaded. Reversal stands for the
  digest.\<close>

definition demo_web :: web_env where
  "demo_web = \<lparr>we_config = demo_config, we_token = ''t'', we_now = 20, we_temporary = ''/lib/tmp'', we_random = ''x1'',
     we_output_probe = demo_probe, we_source_probe = (\<lambda>_. None),
     we_parse_uuid = (\<lambda>x. if x = ''j1'' then Some x else None), we_digest = rev\<rparr>"

definition demo_upload_request :: web_request where
  "demo_upload_request = \<lparr>wq_authorization = [], wq_worker = ''w1'', wq_control_version = [], wq_capabilities = [],
     wq_uuid = ''j1'', wq_address = ''10.0.0.9:4711'', wq_length = ''5'', wq_checksum = ''oediv''\<rparr>"

definition upload_server :: "bool list \<Rightarrow> server" where
  "upload_server fs = demo_server\<lparr>sfs := demo_files\<lparr>names := butlast (names demo_files), io_faults := fs\<rparr>\<rparr>"

definition demo_body :: "body_read list" where
  "demo_body = [Block ''vid'', Block ''eo'', FinalBlock []]"

lemma demo_upload_answer: "fst (web_upload demo_web demo_upload_request demo_body (upload_server [])) = Reply 201 None"
  by code_simp

lemma demo_parse: "plain_ids (we_parse_uuid demo_web)"
  by (auto simp: plain_ids_def demo_web_def sep_def split: if_splits)

lemma demo_web_sound:
  "is_abs (cfg_root (we_config demo_web))" "sep \<notin> set (we_random demo_web)" "io_sound (sfs (upload_server []))"
  by (simp_all add: demo_web_def demo_config_def sep_def is_abs_def upload_server_def demo_server_def io_sound_def)

theorem upload_acknowledged_is_staged_witness:
  "\<exists>t st k. web_upload demo_web demo_upload_request demo_body (upload_server []) = (Reply 201 None, t) \<and>
    node_at (sfs t) st = Some (File k) \<and> rev (contents (sfs t) k) = ''oediv''"
proof -
  obtain t where t: "web_upload demo_web demo_upload_request demo_body (upload_server []) = (Reply 201 None, t)"
    using demo_upload_answer by (metis prod.collapse)
  from upload_acknowledged_is_staged[OF t demo_web_sound(1) demo_parse demo_web_sound(2,3)] t show ?thesis
    by (auto simp: demo_web_def demo_upload_request_def)
qed

text \<open>The write of the last block fails, for instance because the disk is full: the loop stops, but the size
  and the digest are those of all that was read, and a truncated file is staged and acknowledged.\<close>

lemma lost_write_acknowledged:
  "case web_upload demo_web demo_upload_request demo_body (upload_server [False, False, False, True]) of
    (r, t) \<Rightarrow> r = Reply 201 None \<and> node_at (sfs t) ''/lib/a/.transcoderd-upload/j1.upload'' = Some (File 3) \<and>
      contents (sfs t) 3 = ''vid''"
  by code_simp

section \<open>What is published\<close>

lemma record_keeps_rows: "keeps (\<lambda>d. jobs_t d = js) (record_notification now e)"
proof -
  have a: "keeps (\<lambda>d. jobs_t d = js) (add_new_task_event now e)"
  proof (rule keepsI)
    fix s r t
    assume "jobs_t s = js" and "add_new_task_event now e s = (r, t)"
    from this(2,1) show "jobs_t t = js"
      by (cases rule: add_new_task_event_cases) (auto dest: insert_event_Inr(2))
  qed
  have g: "keeps (\<lambda>d. jobs_t d = js) (get_job j)" for j
  proof (rule keepsI)
    fix s r t
    assume js: "jobs_t s = js" and "get_job j s = (r, t)"
    from reads_onlyD[OF reads_get_job this(2)] obtain fs where "t = s\<lparr>faults := fs\<rparr>" .
    with js show "jobs_t t = js" by simp
  qed
  show ?thesis unfolding record_notification_def by (intro keeps_intros a g)
qed

lemma delete_source_keeps:
  assumes "delete_source cfg e s = (r, t)" and "job_row_of (sdb s) (job_id e) = Some row"
    and "clean_path q \<noteq> clean_path (join_path [cfg_root cfg, jr_source_path row])" and "bound q n (sfs s)"
  shows "bound q n (sfs t) \<and> contents (sfs t) = contents (sfs s) \<and> jobs_t (sdb t) = jobs_t (sdb s)"
proof (cases "is_completed e \<and> cfg_delete_source cfg")
  case False
  with assms show ?thesis by (auto simp: delete_source_def retP_def)
next
  case True
  from assms(1) have d: "bindP (on_db (get_job (job_id e))) (\<lambda>v.
      bindP (tryP (on_fs (os_remove (join_path [cfg_root cfg, source_path v])))) (\<lambda>r.
        case r of Inr _ \<Rightarrow> retP () | Inl x \<Rightarrow> if x = FileNotExist then retP () else failP x)) s = (r, t)"
    unfolding delete_source_def if_P[OF True] .
  from d show ?thesis
  proof (cases rule: bindP_cases)
    case (fails x)
    then obtain d' where d': "get_job (job_id e) (sdb s) = (Inl x, d')" "t = s\<lparr>sdb := d'\<rparr>"
      by (auto simp: on_db_def split: prod.splits)
    from reads_onlyD[OF reads_get_job d'(1)] obtain fs where "d' = (sdb s)\<lparr>faults := fs\<rparr>" .
    with d'(2) assms(4) show ?thesis by simp
  next
    case (continues v s1)
    from continues(1) obtain d' where g: "get_job (job_id e) (sdb s) = (Inr v, d')" "s1 = s\<lparr>sdb := d'\<rparr>"
      by (auto simp: on_db_Inr)
    from get_job_read[OF g(1)] assms(2) have v: "source_path v = jr_source_path row" by (auto simp: read_of_def)
    obtain x f where x: "os_remove (join_path [cfg_root cfg, jr_source_path row]) (sfs s) = (x, f)" by fastforce
    with continues(2) v g(2) have t: "t = s1\<lparr>sfs := f\<rparr>"
      by (auto simp: bindP_run tryP_def on_fs_def retP_def failP_def split: sum.splits if_splits prod.splits)
    have "keeps (bound q n) (os_remove (join_path [cfg_root cfg, jr_source_path row]))"
      "keeps (data_is (contents (sfs s)) (sizes (sfs s)) (modes (sfs s))) (os_remove (join_path [cfg_root cfg, jr_source_path row]))"
      using assms(3) by (intro keeps_intros; simp)+
    from keepsD[OF this(1) assms(4) x] keepsD[OF this(2) _ x]
    have b: "bound q n f" "contents f = contents (sfs s)" by (simp_all add: data_is_def)
    from reads_onlyD[OF reads_get_job g(1)] obtain fs where "d' = (sdb s)\<lparr>faults := fs\<rparr>" .
    with b t g(2) show ?thesis by simp
  qed
qed

text \<open>The codecs ffprobe names contain no path separator.\<close>

definition plain_codecs :: "(string \<Rightarrow> ffprobe_output option) \<Rightarrow> bool" where
  "plain_codecs probe \<longleftrightarrow> (\<forall>b z. probe b = Some z \<longrightarrow> sep \<notin> set (output_codec [] (fo_streams z)))"

text \<open>What an upload has left is still there: the row of the job, and the file staged for it with its contents.\<close>

definition upload_still_there :: "server_config \<Rightarrow> uuid \<Rightarrow> server \<Rightarrow> server \<Rightarrow> bool" where
  "upload_still_there cfg j s s' \<longleftrightarrow> job_row_of (sdb s') j = job_row_of (sdb s) j \<and>
    (\<forall>row st k. job_row_of (sdb s) j = Some row \<and> upload_staging_path (cfg_root cfg) (jr_source_path row) j = Inr st \<and>
      node_at (sfs s) st = Some (File k) \<longrightarrow> node_at (sfs s') st = Some (File k) \<and> contents (sfs s') k = contents (sfs s) k)"

lemma upload_still_there_refl: "upload_still_there cfg j s s"
  by (simp add: upload_still_there_def)

text \<open>C1: What is published is what the worker declared: an upload was answered with 201, no file operation failed
  during it (a failed last write is acknowledged all the same), and whatever the server did next left the row of the
  job and its staged file as they were; when then a completion of the job is answered with 200, the row of the job
  names a file of the library whose digest is the one declared with the upload. Identifiers of jobs and codec names
  hold no slash.\<close>

theorem published_output_is_what_was_encoded:
  assumes "web_upload env q body s = (Reply 201 b, t)" and "is_abs (cfg_root (we_config env))"
    and "plain_ids (we_parse_uuid env)" and "sep \<notin> set (we_random env)" and "io_sound (sfs s)"
    and "web_event env' q' (Some w) v = (Reply 200 b', u)" and "we_config env' = we_config env"
    and "wi_event w = NotificationEvent (Some e)" and "is_completed e" and "we_parse_uuid env (wq_uuid q) = Some (job_id e)"
    and "plain_codecs (we_output_probe env')" and "upload_still_there (we_config env) (job_id e) t v"
  shows "\<exists>row i. job_row_of (sdb u) (job_id e) = Some row \<and>
    node_at (sfs u) (join_path [cfg_root (we_config env), jr_target_path row]) = Some (File i) \<and>
    we_digest env (contents (sfs u) i) = wq_checksum q"
proof -
  let ?cfg = "we_config env"
  from upload_staged[OF assms(1-5)] assms(10,12) obtain row st k where
    k: "job_row_of (sdb v) (job_id e) = Some row" "upload_staging_path (cfg_root ?cfg) (jr_source_path row) (job_id e) = Inr st"
    "node_at (sfs v) st = Some (File k)" "we_digest env (contents (sfs v) k) = wq_checksum q"
    by (auto simp: upload_still_there_def)
  from assms(6-9) have "bindP (complete_job ?cfg (we_output_probe env') (we_temporary env') (job_id e)) (\<lambda>_.
      bindP (on_db (record_notification (we_now env') e)) (\<lambda>_. delete_source ?cfg e)) v = (Inr (), u)"
    by (auto simp: web_event_def answer_def process_event_def Let_def split: prod.splits sum.splits if_splits)
  then obtain t1 t2 where c: "complete_job ?cfg (we_output_probe env') (we_temporary env') (job_id e) v = (Inr (), t1)"
    and rn: "on_db (record_notification (we_now env') e) t1 = (Inr (), t2)" and ds: "delete_source ?cfg e t2 = (Inr (), u)"
    by (elim bindP_InrE) simp
  have jp: "sep \<notin> set (job_id e)" using assms(3,10) unfolding plain_ids_def by blast
  from complete_job_effect[OF c assms(2) k(1) jp] assms(11)[unfolded plain_codecs_def] k(2,3) obtain row' final where
    f: "job_row_of (sdb t1) (job_id e) = Some row'" "final = join_path [cfg_root ?cfg, jr_target_path row']"
    "\<not> same_path (cfg_cwd ?cfg) final (join_path [cfg_root ?cfg, jr_source_path row])"
    "bound final (File k) (sfs t1)" "contents (sfs t1) k = contents (sfs v) k" "jr_source_path row' = jr_source_path row"
    by blast
  from rn obtain d where d: "record_notification (we_now env') e (sdb t1) = (Inr (), d)" "t2 = t1\<lparr>sdb := d\<rparr>" by (auto simp: on_db_Inr)
  from keepsD[OF record_keeps_rows _ d(1)] have rows: "jobs_t d = jobs_t (sdb t1)" by blast
  then have r2: "job_row_of (sdb t2) (job_id e) = Some row'" using f(1) by (simp add: d(2) job_row_of_def)
  have "clean_path final \<noteq> clean_path (join_path [cfg_root ?cfg, jr_source_path row'])"
    using f(3) is_abs_join[OF assms(2)] by (simp add: f(2,6) same_path_def abs_path_def)
  from delete_source_keeps[OF ds r2 this, of "File k"] f(4) d(2)
  have u: "bound final (File k) (sfs u)" "contents (sfs u) = contents (sfs t1)" "jobs_t (sdb u) = jobs_t (sdb t2)" by simp_all
  with r2 have "job_row_of (sdb u) (job_id e) = Some row'" by (simp add: job_row_of_def)
  with u f k(4) show ?thesis by (auto simp: bound_def)
qed

definition demo_completion_event :: wire_event where
  "demo_completion_event = \<lparr>wi_address = Some [], wi_event = NotificationEvent (Some ((demo_event 3 Completed ''w1'')))\<rparr>"

theorem published_output_is_what_was_encoded_witness:
  "\<exists>t u row i. web_upload demo_web demo_upload_request demo_body (upload_server []) = (Reply 201 None, t) \<and>
    web_event demo_web demo_upload_request (Some demo_completion_event) t = (Reply 200 None, u) \<and>
    job_row_of (sdb u) ''j1'' = Some row \<and>
    node_at (sfs u) (join_path [''/lib'', jr_target_path row]) = Some (File i) \<and> rev (contents (sfs u) i) = ''oediv''"
proof -
  obtain t where t: "web_upload demo_web demo_upload_request demo_body (upload_server []) = (Reply 201 None, t)"
    using demo_upload_answer by (metis prod.collapse)
  have "fst (web_event demo_web demo_upload_request (Some demo_completion_event)
      (snd (web_upload demo_web demo_upload_request demo_body (upload_server [])))) = Reply 200 None" by code_simp
  with t obtain u where u: "web_event demo_web demo_upload_request (Some demo_completion_event) t = (Reply 200 None, u)"
    by (metis prod.collapse snd_conv)
  have e: "is_completed (demo_event 3 Completed ''w1'')"
    "we_parse_uuid demo_web (wq_uuid demo_upload_request) = Some (job_id (demo_event 3 Completed ''w1''))" by code_simp+
  have codec: "plain_codecs (we_output_probe demo_web)"
    by (auto simp: plain_codecs_def demo_web_def demo_probe_def sep_def split: if_splits)
  have w: "wi_event demo_completion_event = NotificationEvent (Some (demo_event 3 Completed ''w1''))"
    by (simp add: demo_completion_event_def)
  from published_output_is_what_was_encoded[OF t demo_web_sound(1) demo_parse demo_web_sound(2,3) u refl w e codec upload_still_there_refl] t u
  show ?thesis by (auto simp: demo_web_def demo_config_def demo_upload_request_def demo_event_def)
qed

end
