(* ===== verification/Pause_Claims.thy ===== *)
theory Pause_Claims
  imports Pause_Controller
begin

text \<open>
  What the pause controller guarantees: a transition that fails and is rolled back changes
  nothing, and a transition that succeeds leaves every process held exactly when the general hold
  or its own hold asks for it; a start that waits is woken by whatever releases the hold.
\<close>

section \<open>Flags\<close>

lemma flag_keys [simp]: "map fst (flag pid b ps) = map fst ps"
  by (simp add: flag_def case_prod_beta)

lemma map_of_flag: "map_of (flag pid b ps) q = map_option (\<lambda>p. if q = pid then p\<lparr>pz_paused := b\<rparr> else p) (map_of ps q)"
  by (induction ps) (auto simp: flag_def)

lemma flag_same: "(\<And>p. (pid, p) \<in> set ps \<Longrightarrow> pz_paused p = b) \<Longrightarrow> flag pid b ps = ps"
  unfolding flag_def by (rule map_idI) (auto split: prod.splits)

lemma flag_flag [simp]: "flag pid a (flag pid b ps) = flag pid a ps"
  by (simp add: flag_def case_prod_beta)

lemma flag_back:
  assumes "distinct (map fst ps)" and "map_of ps pid = Some p"
  shows "flag pid (pz_paused p) ps = ps"
proof (rule flag_same)
  fix p' assume "(pid, p') \<in> set ps"
  with assms have "p' = p" by (metis map_of_is_SomeI option.inject)
  then show "pz_paused p' = pz_paused p" by simp
qed

definition undo :: "(nat \<times> bool) list \<Rightarrow> (nat \<times> pausable) list \<Rightarrow> (nat \<times> pausable) list" where
  "undo steps ps = fold (\<lambda>(pid, b). flag pid b) steps ps"

lemma signal_frame:
  "set_process_paused pid b s = (r, t) \<Longrightarrow> general_hold t = general_hold s \<and>
    processes t = processes s \<and> generation t = generation s"
  by (auto simp: set_process_paused_def next_outcome_def split: prod.splits signal_outcome.splits list.splits if_splits)

lemma roll_back_frame:
  "roll_back steps s = (failed, t) \<Longrightarrow> general_hold t = general_hold s \<and> generation t = generation s \<and>
    (failed = [] \<longrightarrow> processes t = undo steps (processes s))"
proof (induction steps s arbitrary: failed t rule: roll_back.induct)
  case (2 pid before earlier s)
  obtain r u where u: "set_process_paused pid before s = (r, u)" by fastforce
  note f = signal_frame[OF u]
  show ?case
  proof (cases r)
    case True
    let ?u = "u\<lparr>processes := flag pid before (processes u)\<rparr>"
    have "roll_back earlier ?u = (failed, t)" using 2(3) u True by simp
    from 2(1)[OF u[symmetric] _ this] True f show ?thesis by (simp add: undo_def)
  next
    case False
    obtain failed' where n: "roll_back earlier u = (failed', t)" and "failed = pid # failed'"
      using 2(3) u False by (auto split: prod.splits)
    with 2(2)[OF u[symmetric] _ n] False f show ?thesis by simp
  qed
qed (simp add: undo_def)

text \<open>What a transition may leave: all processes moved, or, when nothing failed to be put back,
  the processes as they were.\<close>

definition transitioned ::
  "(nat \<times> pausable) list \<Rightarrow> (nat \<times> pausable) list \<Rightarrow> pause_state \<Rightarrow> pause_error + unit \<Rightarrow> pause_state \<Rightarrow> bool" where
  "transitioned after before s r t \<longleftrightarrow> general_hold t = general_hold s \<and> generation t = generation s \<and>
    (r = Inr () \<longrightarrow> processes t = after) \<and>
    (\<forall>e. r = Inl e \<longrightarrow> (\<exists>pid failed. e = TransitionFailed pid failed \<and>
      (failed = [] \<longrightarrow> processes t = before)))"

definition aim :: "(pausable \<Rightarrow> bool) \<Rightarrow> nat list \<Rightarrow> (nat \<times> pausable) list \<Rightarrow> (nat \<times> pausable) list" where
  "aim target pids ps = map (\<lambda>(q, p). (q, if q \<in> set pids then p\<lparr>pz_paused := target p\<rparr> else p)) ps"

lemma aim_skip:
  "(\<And>p. (pid, p) \<in> set ps \<Longrightarrow> pz_paused p = target p) \<Longrightarrow> aim target (pid # pids) ps = aim target pids ps"
  unfolding aim_def by (rule map_cong) auto

lemma aim_flag:
  assumes "\<And>p'. (pid, p') \<in> set ps \<Longrightarrow> p' = p" and "pid \<notin> set pids"
  shows "aim target pids (flag pid (target p) ps) = aim target (pid # pids) ps"
  using assms by (auto simp: aim_def flag_def)

lemma aim_all: "aim target (map fst ps) ps = map (\<lambda>(q, p). (q, p\<lparr>pz_paused := target p\<rparr>)) ps"
  unfolding aim_def by (rule map_cong) (force split: prod.splits)+

lemma transition_loop_effect:
  assumes "transition_loop target pids steps s = (r, t)" and "distinct (map fst (processes s))" "distinct pids"
  shows "transitioned (aim target pids (processes s)) (undo steps (processes s)) s r t"
  using assms
proof (induction target pids steps s arbitrary: r t rule: transition_loop.induct)
  case (1 target steps s)
  then show ?case by (auto simp: transitioned_def aim_def case_prod_beta)
next
  case (2 target pid pids steps s)
  have d: "pid \<notin> set pids" "distinct pids" using 2(6) by auto
  show ?case
  proof (cases "map_of (processes s) pid")
    case None
    then have "pid \<notin> fst ` set (processes s)" by (simp add: map_of_eq_None_iff)
    then have "aim target (pid # pids) (processes s) = aim target pids (processes s)"
      by (intro aim_skip) (force simp: image_iff)
    moreover have "transition_loop target pids steps s = (r, t)" using 2(4) None by simp
    ultimately show ?thesis using 2(1)[OF None _ 2(5) d(2)] by simp
  next
    case (Some p)
    have only: "(pid, p') \<in> set (processes s) \<Longrightarrow> p' = p" for p'
      using Some 2(5) by (metis map_of_is_SomeI option.inject)
    show ?thesis
    proof (cases "pz_paused p = target p")
      case True
      then have "aim target (pid # pids) (processes s) = aim target pids (processes s)"
        using only by (intro aim_skip) blast
      moreover have "transition_loop target pids steps s = (r, t)" using 2(4) Some True by simp
      ultimately show ?thesis using 2(2)[OF Some True _ 2(5) d(2)] by simp
    next
      case False
      obtain ok u where u: "set_process_paused pid (target p) s = (ok, u)" by fastforce
      note f = signal_frame[OF u]
      show ?thesis
      proof (cases ok)
        case True
        let ?u = "u\<lparr>processes := flag pid (target p) (processes u)\<rparr>"
        from 2(4) Some False u True
        have n: "transition_loop target pids ((pid, pz_paused p) # steps) ?u = (r, t)" by simp
        have "undo ((pid, pz_paused p) # steps) (processes ?u) = undo steps (processes s)"
          using f flag_back[OF 2(5) Some] by (simp add: undo_def)
        moreover have "aim target pids (processes ?u) = aim target (pid # pids) (processes s)"
          using f aim_flag[OF only d(1)] by simp
        ultimately show ?thesis
          using 2(3)[OF Some False u[symmetric] _ n _ d(2)] True 2(5) f by (simp add: transitioned_def)
      next
        case False
        obtain failed where rb: "roll_back steps u = (failed, t)" and r: "r = Inl (TransitionFailed pid failed)"
          using 2(4) Some \<open>pz_paused p \<noteq> target p\<close> u False by (auto split: prod.splits)
        from roll_back_frame[OF rb] r f show ?thesis by (simp add: transitioned_def)
      qed
    qed
  qed
qed

lemma transition_effect:
  assumes "transition_locked target s = (r, t)" and "distinct (map fst (processes s))"
  shows "transitioned (map (\<lambda>(q, p). (q, p\<lparr>pz_paused := target p\<rparr>)) (processes s)) (processes s) s r t"
  using transition_loop_effect[OF assms(1)[unfolded transition_locked_def] assms(2,2)]
  by (simp add: undo_def aim_all)

section \<open>Calls\<close>

datatype pause_request = CallSetPaused bool | CallSetJobPaused string bool | CallResumeAll
  | CallStart bool bool bool nat string | CallUnregister nat

fun pause_call :: "inspection \<Rightarrow> pause_request \<Rightarrow> gate pause_op" where
  "pause_call active (CallSetPaused b) = bindP (set_paused b) (\<lambda>_. retP Passed)"
| "pause_call active (CallSetJobPaused key b) = bindP (set_job_paused active key b) (\<lambda>_. retP Passed)"
| "pause_call active CallResumeAll = bindP resume_all (\<lambda>_. retP Passed)"
| "pause_call active (CallStart ctx_done starts attaches pid key) = start_gate ctx_done starts attaches pid key"
| "pause_call active (CallUnregister pid) = (\<lambda>s. (Inr Passed, unregister pid s))"

definition rolled_back :: "pause_error + 'a \<Rightarrow> bool" where
  "rolled_back r \<longleftrightarrow> (\<forall>pid failed. r = Inl (TransitionFailed pid failed) \<longrightarrow> failed = [])"

definition holds_agree :: "pause_state \<Rightarrow> bool" where
  "holds_agree s \<longleftrightarrow> distinct (map fst (processes s)) \<and>
    (\<forall>(q, p) \<in> set (processes s). pz_paused p = (general_hold s \<or> pz_individual p))"

definition unchanged :: "pause_state \<Rightarrow> pause_state \<Rightarrow> bool" where
  "unchanged s t \<longleftrightarrow> processes t = processes s \<and> general_hold t = general_hold s \<and> generation t = generation s"

lemma unchanged_holds: "unchanged s t \<Longrightarrow> holds_agree s \<Longrightarrow> holds_agree t"
  by (simp add: unchanged_def holds_agree_def)

text \<open>A transition followed by a write of the holds.\<close>

lemma transition_write:
  assumes "bindP (transition_locked target) (\<lambda>_. writeP f) s = (r, t)" and "distinct (map fst (processes s))"
  obtains (moved) u where "r = Inr ()" "t = f u" "general_hold u = general_hold s" "generation u = generation s"
      "processes u = map (\<lambda>(q, p). (q, p\<lparr>pz_paused := target p\<rparr>)) (processes s)"
  | (kept) pid failed where "r = Inl (TransitionFailed pid failed)" "failed = [] \<longrightarrow> unchanged s t"
proof -
  obtain r' u where u: "transition_locked target s = (r', u)" by fastforce
  note e = transition_effect[OF u assms(2), unfolded transitioned_def]
  show thesis
  proof (cases r')
    case (Inl e)
    with assms(1) u e kept show ?thesis by (auto simp: bindP_def unchanged_def)
  next
    case (Inr x)
    with assms(1) u e show ?thesis by (intro moved[of u]) (auto simp: bindP_def writeP_def)
  qed
qed

lemma keys_after [simp]:
  "fst \<circ> (\<lambda>(q, p). (q, f p)) = fst" "fst \<circ> ((\<lambda>(q, p). (q, f p)) \<circ> g) = fst \<circ> g"
  by (auto simp: fun_eq_iff split: prod.splits)

lemma set_paused_call:
  assumes "set_paused b s = (r, t)" and "holds_agree s" and "rolled_back r"
  shows "holds_agree t \<and> ((\<exists>e. r = Inl e) \<longrightarrow> unchanged s t) \<and> generation s \<le> generation t \<and>
    (general_hold t \<noteq> general_hold s \<longrightarrow> generation s < generation t)"
proof -
  have d: "distinct (map fst (processes s))" using assms(2) by (simp add: holds_agree_def)
  show ?thesis using assms(1)[unfolded set_paused_def] d
  proof (cases rule: transition_write)
    case (moved u)
    then show ?thesis using d by (auto simp: holds_agree_def notify_locked_def)
  next
    case (kept pid failed)
    with assms(2,3) show ?thesis by (auto simp: rolled_back_def unchanged_def holds_agree_def)
  qed
qed

lemma resume_all_call:
  assumes "resume_all s = (r, t)" and "holds_agree s" and "rolled_back r"
  shows "holds_agree t \<and> ((\<exists>e. r = Inl e) \<longrightarrow> unchanged s t) \<and> generation s \<le> generation t \<and>
    (general_hold t \<noteq> general_hold s \<longrightarrow> generation s < generation t)"
proof -
  have d: "distinct (map fst (processes s))" using assms(2) by (simp add: holds_agree_def)
  show ?thesis using assms(1)[unfolded resume_all_def] d
  proof (cases rule: transition_write)
    case (moved u)
    then show ?thesis using d by (auto simp: holds_agree_def notify_locked_def)
  next
    case (kept pid failed)
    with assms(2,3) show ?thesis by (auto simp: rolled_back_def unchanged_def holds_agree_def)
  qed
qed

lemma find_active_error: "find_active active key ps found = Inl e \<Longrightarrow> e = InspectFailed \<or> e = ErrEncodeNotRunning"
  by (induction ps arbitrary: found) (auto split: if_splits sum.splits)

lemma set_job_paused_call:
  assumes "set_job_paused active key b s = (r, t)" and "holds_agree s" and "rolled_back r"
  shows "holds_agree t \<and> ((\<exists>e. r = Inl e) \<longrightarrow> unchanged s t) \<and> generation s \<le> generation t \<and>
    general_hold t = general_hold s"
proof (cases "find_active active key (processes s) False = Inr True")
  case False
  with assms show ?thesis
    by (auto simp: set_job_paused_def bindP_def failP_def unchanged_def split: sum.splits)
next
  case True
  have d: "distinct (map fst (processes s))" using assms(2) by (simp add: holds_agree_def)
  from assms(1) True have
    "bindP (transition_locked (\<lambda>p. if pz_key p = key then general_hold s \<or> b else pz_paused p))
      (\<lambda>_. writeP (\<lambda>s. s\<lparr>processes :=
        map (\<lambda>(q, p). (q, if pz_key p = key then p\<lparr>pz_individual := b\<rparr> else p)) (processes s)\<rparr>)) s = (r, t)"
    by (simp add: set_job_paused_def bindP_def)
  then show ?thesis using d
  proof (cases rule: transition_write)
    case (moved u)
    have "pz_paused p = (general_hold s \<or> pz_individual p)" if "(q, p) \<in> set (processes s)" for q p
      using assms(2) that by (auto simp: holds_agree_def)
    with moved show ?thesis using d by (auto simp: holds_agree_def split: if_splits)
  next
    case (kept pid failed)
    with assms(2,3) show ?thesis by (auto simp: rolled_back_def unchanged_def holds_agree_def)
  qed
qed

lemma distinct_filter_keys: "distinct (map fst ps) \<Longrightarrow> distinct (map fst (filter P ps))"
  by (induction ps) auto

lemma start_gate_call:
  assumes "start_gate ctx_done starts attaches pid key s = (r, t)" and "holds_agree s"
  shows "holds_agree t \<and> ((\<exists>e. r = Inl e) \<longrightarrow> unchanged s t) \<and> generation t = generation s \<and>
    general_hold t = general_hold s"
  using assms
  by (auto simp: start_gate_def holds_agree_def unchanged_def distinct_filter_keys split: if_splits)

lemma pause_call_effect:
  assumes "pause_call active c s = (r, t)" and "holds_agree s" and "rolled_back r"
  shows "holds_agree t \<and> ((\<exists>e. r = Inl e) \<longrightarrow> unchanged s t) \<and> generation s \<le> generation t \<and>
    (general_hold t \<noteq> general_hold s \<longrightarrow> generation s < generation t)"
proof (cases c)
  case (CallSetPaused b)
  obtain r' where a: "set_paused b s = (r', t)" and "rolled_back r'" "(\<exists>e. r = Inl e) \<longrightarrow> (\<exists>e. r' = Inl e)"
    using assms(1,3) CallSetPaused
    by (auto simp: bindP_def retP_def rolled_back_def split: prod.splits sum.splits)
  with set_paused_call[OF a assms(2)] show ?thesis by blast
next
  case (CallSetJobPaused key b)
  obtain r' where a: "set_job_paused active key b s = (r', t)" and "rolled_back r'" "(\<exists>e. r = Inl e) \<longrightarrow> (\<exists>e. r' = Inl e)"
    using assms(1,3) CallSetJobPaused
    by (auto simp: bindP_def retP_def rolled_back_def split: prod.splits sum.splits)
  with set_job_paused_call[OF a assms(2)] show ?thesis by blast
next
  case CallResumeAll
  obtain r' where a: "resume_all s = (r', t)" and "rolled_back r'" "(\<exists>e. r = Inl e) \<longrightarrow> (\<exists>e. r' = Inl e)"
    using assms(1,3) CallResumeAll
    by (auto simp: bindP_def retP_def rolled_back_def split: prod.splits sum.splits)
  with resume_all_call[OF a assms(2)] show ?thesis by blast
next
  case (CallStart ctx_done starts attaches pid key)
  with start_gate_call[of ctx_done starts attaches pid key s r t] assms show ?thesis by simp
next
  case (CallUnregister pid)
  with assms show ?thesis by (auto simp: unregister_def holds_agree_def distinct_filter_keys)
qed

inductive pause_run :: "inspection \<Rightarrow> pause_state \<Rightarrow> pause_state \<Rightarrow> bool" for active :: inspection where
  pause_here: "pause_run active s s"
| pause_on: "pause_run active s t \<Longrightarrow> pause_call active c t = (r, u) \<Longrightarrow> rolled_back r \<Longrightarrow> pause_run active s u"

section \<open>The processes themselves\<close>

text \<open>Beside the books of the controller, what the operating system did: every registered process that still exists
  is stopped exactly when the books say so. A stop that is not confirmed is undone at once; \<open>undone\<close> excludes that
  this resume fails too, which leaves a process stopped that is booked as running.\<close>

definition processes_agree :: "pause_state \<Rightarrow> bool" where
  "processes_agree s \<longleftrightarrow> (\<forall>(pid, p) \<in> set (processes s). \<not> gone s pid \<longrightarrow> stopped s pid = pz_paused p)"

definition undone :: "pause_state \<Rightarrow> bool" where
  "undone s \<longleftrightarrow> SigUnconfirmed False \<notin> set (outcomes s)"

lemma signal_processes:
  assumes "set_process_paused pid b s = (ok, u)" and "processes_agree s" and "undone s"
    and "\<And>p. (pid, p) \<in> set (processes s) \<Longrightarrow> pz_paused p \<noteq> b"
  shows "undone u" "ok \<Longrightarrow> processes_agree (u\<lparr>processes := flag pid b (processes u)\<rparr>)" "\<not> ok \<Longrightarrow> processes_agree u"
  using assms
  by (fastforce simp: set_process_paused_def next_outcome_def undone_def processes_agree_def flag_def
      split: list.splits signal_outcome.splits if_splits)+

lemma roll_back_processes:
  assumes "roll_back steps s = ([], t)" and "processes_agree s" and "undone s" and "distinct (map fst steps)"
    and "\<And>pid b p. (pid, b) \<in> set steps \<Longrightarrow> (pid, p) \<in> set (processes s) \<Longrightarrow> pz_paused p \<noteq> b"
  shows "processes_agree t"
  using assms
proof (induction steps s arbitrary: t rule: roll_back.induct)
  case (2 pid before earlier s)
  obtain ok u where u: "set_process_paused pid before s = (ok, u)" by fastforce
  with 2(3) have ok: "ok" by (cases ok) (auto split: prod.splits)
  let ?u = "u\<lparr>processes := flag pid before (processes u)\<rparr>"
  have p: "processes_agree ?u" "undone ?u"
    using signal_processes[OF u 2(4,5)] 2(7) ok by (auto simp: undone_def)
  have "roll_back earlier ?u = ([], t)" using 2(3) u ok by simp
  moreover have "pz_paused q \<noteq> b" if "(x, b) \<in> set earlier" "(x, q) \<in> set (processes ?u)" for x b q
  proof -
    have "x \<noteq> pid" using 2(6) that(1) by force
    with that(2) have "(x, q) \<in> set (processes s)" using signal_frame[OF u] by (auto simp: flag_def split: if_splits)
    with 2(7)[of x b q] that(1) show ?thesis by simp
  qed
  ultimately show ?case using 2(1)[OF u[symmetric] _ _ p, of t] ok 2(6) by simp
qed simp

lemma loop_processes:
  assumes "transition_loop target pids steps s = (r, t)" and "rolled_back r" and "processes_agree s" and "undone s"
    and "distinct (map fst (processes s))" and "distinct (pids @ map fst steps)"
    and "\<And>pid b p. (pid, b) \<in> set steps \<Longrightarrow> (pid, p) \<in> set (processes s) \<Longrightarrow> pz_paused p \<noteq> b"
  shows "processes_agree t"
  using assms
proof (induction target pids steps s arbitrary: r t rule: transition_loop.induct)
  case (2 target pid pids steps s)
  show ?case
  proof (cases "map_of (processes s) pid")
    case None
    with 2(4) have "transition_loop target pids steps s = (r, t)" by simp
    from 2(1)[OF None this 2(5-8) _ 2(10)] 2(9) show ?thesis by simp
  next
    case (Some p)
    have only: "(pid, p') \<in> set (processes s) \<Longrightarrow> p' = p" for p'
      using Some 2(8) by (metis map_of_is_SomeI option.inject)
    show ?thesis
    proof (cases "pz_paused p = target p")
      case True
      with 2(4) Some have "transition_loop target pids steps s = (r, t)" by simp
      from 2(2)[OF Some True this 2(5-8) _ 2(10)] 2(9) show ?thesis by simp
    next
      case False
      obtain ok u where u: "set_process_paused pid (target p) s = (ok, u)" by fastforce
      have frame: "processes u = processes s" using signal_frame[OF u] by simp
      have move: "pz_paused p' \<noteq> target p" if "(pid, p') \<in> set (processes s)" for p' using only[OF that] False by simp
      note sig = signal_processes[OF u 2(6,7) move]
      show ?thesis
      proof (cases ok)
        case True
        let ?u = "u\<lparr>processes := flag pid (target p) (processes u)\<rparr>"
        have n: "transition_loop target pids ((pid, pz_paused p) # steps) ?u = (r, t)" using 2(4) Some False u True by simp
        have a: "processes_agree ?u" "undone ?u" using sig True by (simp_all add: undone_def)
        have others: "pz_paused q \<noteq> b" if "(x, b) \<in> set ((pid, pz_paused p) # steps)" "(x, q) \<in> set (processes ?u)" for x b q
        proof (cases "x = pid")
          case True
          with 2(9) that have "b = pz_paused p" by force
          moreover from True that(2) have "pz_paused q = target p" by (auto simp: flag_def)
          ultimately show ?thesis using False by simp
        next
          case x: False
          with that frame 2(10)[of x b q] show ?thesis by (auto simp: flag_def split: if_splits)
        qed
        from 2(3)[OF Some False u[symmetric] _ n 2(5) a _ _ others] True frame 2(8,9) show ?thesis by simp
      next
        case no: False
        obtain failed where rb: "roll_back steps u = (failed, t)" and "r = Inl (TransitionFailed pid failed)"
          using 2(4) Some False u no by (auto split: prod.splits)
        with 2(5) have "roll_back steps u = ([], t)" by (simp add: rolled_back_def)
        from roll_back_processes[OF this] sig no 2(9,10) frame show ?thesis by simp
      qed
    qed
  qed
qed simp

lemma transition_write_processes:
  assumes "bindP (transition_locked target) (\<lambda>_. writeP f) s = (r, t)" and "rolled_back r" and "holds_agree s"
    and "processes_agree s" and "undone s"
    and "\<And>u. processes_agree u \<Longrightarrow> processes_agree (f u)"
  shows "processes_agree t"
proof -
  obtain r' u where u: "transition_locked target s = (r', u)" by fastforce
  have "rolled_back r'"
    using assms(1,2) u by (auto simp: bindP_def rolled_back_def split: sum.splits)
  with loop_processes[OF u[unfolded transition_locked_def] _ assms(4,5)] assms(3) have "processes_agree u"
    by (simp add: holds_agree_def)
  with assms(1,6) u show ?thesis by (auto simp: bindP_def writeP_def split: sum.splits)
qed

lemma pause_call_processes:
  assumes "pause_call active c s = (r, t)" and "rolled_back r" and "holds_agree s" and "processes_agree s" and "undone s"
  shows "processes_agree t"
proof -
  have whole: "processes_agree t" if "bindP m (\<lambda>_. retP Passed) s = (r, t)" and "\<And>r'. m s = (r', t) \<Longrightarrow> rolled_back r' \<Longrightarrow> processes_agree t"
    for m :: "unit pause_op"
    using that assms(2) by (auto simp: bindP_def retP_def rolled_back_def split: prod.splits sum.splits)
  show ?thesis
  proof (cases c)
    case (CallSetPaused b)
    show ?thesis
    proof (rule whole)
      show "bindP (set_paused b) (\<lambda>_. retP Passed) s = (r, t)" using assms(1) CallSetPaused by simp
      fix r'
      assume run: "set_paused b s = (r', t)" and rb: "rolled_back r'"
      show "processes_agree t"
        by (rule transition_write_processes[OF run[unfolded set_paused_def] rb assms(3-5)])
          (auto simp: notify_locked_def processes_agree_def)
    qed
  next
    case (CallSetJobPaused key b)
    show ?thesis
    proof (rule whole)
      show "bindP (set_job_paused active key b) (\<lambda>_. retP Passed) s = (r, t)" using assms(1) CallSetJobPaused by simp
      fix r'
      assume run: "set_job_paused active key b s = (r', t)" and rb: "rolled_back r'"
      show "processes_agree t"
      proof (cases "find_active active key (processes s) False = Inr True")
        case False
        with run assms(4) show ?thesis by (auto simp: set_job_paused_def bindP_def failP_def split: sum.splits)
      next
        case True
        with run have "bindP (transition_locked (\<lambda>p. if pz_key p = key then general_hold s \<or> b else pz_paused p))
          (\<lambda>_. writeP (\<lambda>s. s\<lparr>processes :=
            map (\<lambda>(q, p). (q, if pz_key p = key then p\<lparr>pz_individual := b\<rparr> else p)) (processes s)\<rparr>)) s = (r', t)"
          by (simp add: set_job_paused_def bindP_def)
        then show ?thesis
          by (rule transition_write_processes[OF _ rb assms(3-5)]) (auto simp: processes_agree_def split: if_splits)
      qed
    qed
  next
    case CallResumeAll
    show ?thesis
    proof (rule whole)
      show "bindP resume_all (\<lambda>_. retP Passed) s = (r, t)" using assms(1) CallResumeAll by simp
      fix r'
      assume run: "resume_all s = (r', t)" and rb: "rolled_back r'"
      show "processes_agree t"
        by (rule transition_write_processes[OF run[unfolded resume_all_def] rb assms(3-5)])
          (auto simp: notify_locked_def processes_agree_def)
    qed
  next
    case (CallStart ctx_done starts attaches pid key)
    with assms show ?thesis by (auto simp: start_gate_def processes_agree_def split: if_splits)
  next
    case (CallUnregister pid)
    with assms show ?thesis by (auto simp: unregister_def processes_agree_def)
  qed
qed

section \<open>The properties\<close>

text \<open>C29: A call of the pause controller that fails and could put back what it had changed leaves the encoders,
  their holds and the general hold exactly as they were: each is stopped or running as before. And after every call
  whose changes could be put back where it failed, each registered encoder that still exists is stopped exactly when
  the general hold or its own hold asks for it. An unconfirmed stop must have been undone by the resume sent next.\<close>

theorem pause_call_all_or_nothing:
  assumes "pause_call active c s = (r, t)" and "holds_agree s" and "processes_agree s" and "rolled_back r" and "undone s"
  shows "holds_agree t \<and> processes_agree t \<and>
    (\<forall>(pid, p) \<in> set (processes t). \<not> gone t pid \<longrightarrow> stopped t pid = (general_hold t \<or> pz_individual p)) \<and>
    ((\<exists>e. r = Inl e) \<longrightarrow> processes t = processes s \<and> general_hold t = general_hold s \<and>
      (\<forall>pid \<in> fst ` set (processes s). \<not> gone s pid \<and> \<not> gone t pid \<longrightarrow> stopped t pid = stopped s pid))"
proof -
  from pause_call_effect[OF assms(1,2,4)] have e: "holds_agree t" "(\<exists>e. r = Inl e) \<longrightarrow> unchanged s t" by simp_all
  have p: "processes_agree t" by (rule pause_call_processes[OF assms(1,4,2,3,5)])
  from e(1) p have "\<forall>(pid, p) \<in> set (processes t). \<not> gone t pid \<longrightarrow> stopped t pid = (general_hold t \<or> pz_individual p)"
    by (fastforce simp: holds_agree_def processes_agree_def)
  moreover have "\<forall>pid \<in> fst ` set (processes s). \<not> gone s pid \<and> \<not> gone t pid \<longrightarrow> stopped t pid = stopped s pid"
    if "processes t = processes s"
    using p assms(3) that by (fastforce simp: processes_agree_def)
  ultimately show ?thesis using e p by (auto simp: unchanged_def)
qed

definition demo_pause :: "signal_outcome list \<Rightarrow> pause_state" where
  "demo_pause rs = \<lparr>general_hold = False, processes =
     [(1, \<lparr>pz_key = ''a'', pz_paused = False, pz_individual = False\<rparr>),
      (2, \<lparr>pz_key = ''b'', pz_paused = False, pz_individual = False\<rparr>)],
     generation = 0, stopped = (\<lambda>_. False), gone = (\<lambda>_. False), outcomes = rs\<rparr>"

theorem pause_call_all_or_nothing_witness:
  "\<exists>t. pause_call (\<lambda>_. Inr True) (CallSetPaused True) (demo_pause [SigOk, SigUnconfirmed True]) = (Inl (TransitionFailed 2 []), t) \<and>
    processes t = processes (demo_pause []) \<and> \<not> general_hold t \<and> (\<not> gone t 1 \<longrightarrow> \<not> stopped t 1)"
proof -
  let ?p = "pause_call (\<lambda>_. Inr True) (CallSetPaused True) (demo_pause [SigOk, SigUnconfirmed True])"
  have "fst ?p = Inl (TransitionFailed 2 [])"
    by (simp add: demo_pause_def set_paused_def transition_locked_def set_process_paused_def
        next_outcome_def bindP_def flag_def)
  then obtain t where t: "?p = (Inl (TransitionFailed 2 []), t)" by (metis prod.collapse)
  have c: "holds_agree (demo_pause [SigOk, SigUnconfirmed True])" "processes_agree (demo_pause [SigOk, SigUnconfirmed True])"
    "rolled_back (Inl (TransitionFailed 2 []) :: pause_error + gate)" "undone (demo_pause [SigOk, SigUnconfirmed True])"
    by (simp_all add: demo_pause_def holds_agree_def rolled_back_def processes_agree_def undone_def)
  from pause_call_all_or_nothing[OF t c] t show ?thesis by (simp add: demo_pause_def)
qed

text \<open>A start that waits at the gate is woken: it waits for the generation it saw, and in every
  later state in which the general hold is off that generation is over.\<close>

theorem waiting_start_is_woken:
  assumes "start_gate False starts attaches pid key s = (Inr (Wait g), s')" and "holds_agree s"
    and "pause_run active s t" and "\<not> general_hold t"
  shows "g < generation t"
proof -
  from assms(1) have g: "general_hold s" "g = generation s" by (auto simp: start_gate_def split: if_splits)
  from assms(3,2) have "holds_agree t \<and> generation s \<le> generation t \<and>
      (general_hold t \<noteq> general_hold s \<longrightarrow> generation s < generation t)"
  proof (induction rule: pause_run.induct)
    case (pause_on s t c r u)
    with pause_call_effect[OF pause_on(2) _ pause_on(3)] show ?case by fastforce
  qed simp
  with g assms(4) show ?thesis by auto
qed

theorem waiting_start_is_woken_witness:
  "\<exists>s t. start_gate False True True 3 ''c'' s = (Inr (Wait 1), s) \<and> pause_run (\<lambda>_. Inr True) s t \<and>
    \<not> general_hold t \<and> 1 < generation t"
proof -
  let ?s = "snd (pause_call (\<lambda>_. Inr True) (CallSetPaused True) (demo_pause []))"
  let ?t = "snd (pause_call (\<lambda>_. Inr True) CallResumeAll ?s)"
  have e: "general_hold ?s \<and> generation ?s = 1 \<and> \<not> general_hold ?t \<and> holds_agree ?s \<and>
      fst (pause_call (\<lambda>_. Inr True) CallResumeAll ?s) = Inr Passed"
    by (simp add: demo_pause_def set_paused_def transition_locked_def set_process_paused_def
        next_outcome_def bindP_def flag_def resume_all_def notify_locked_def holds_agree_def writeP_def retP_def)
  then have r: "pause_call (\<lambda>_. Inr True) CallResumeAll ?s = (Inr Passed, ?t)" by (metis prod.collapse)
  have run: "pause_run (\<lambda>_. Inr True) ?s ?t"
    by (rule pause_on[OF pause_here r]) (simp add: rolled_back_def)
  have w: "start_gate False True True 3 ''c'' ?s = (Inr (Wait 1), ?s)" using e by (simp add: start_gate_def)
  from waiting_start_is_woken[OF w _ run] e w run show ?thesis by blast
qed

end
