(* ===== verification/Encode_Pool_Correct.thy ===== *)
theory Encode_Pool_Correct
  imports Encode_Pool
begin

text \<open>
  What the encode slots guarantee: a start never exceeds the limit it is admitted under, the
  counters count what runs, no job is lost or run twice, and a job that could start is never
  left waiting without a signal on its way. The last rests on the interface \<open>slot_pool\<close>: a
  refused request stays refused while other requests are tried.
\<close>

section \<open>The interface of a pool of slots\<close>

locale slot_pool =
  fixes grant :: "'p \<Rightarrow> 'c \<Rightarrow> 'k option \<times> 'c"
    and sound :: "'c \<Rightarrow> bool"
  assumes sound_grant: "sound c \<Longrightarrow> sound (snd (grant r c))"
    and refusal_stable: "sound c \<Longrightarrow> fst (grant p c) = None \<Longrightarrow> fst (grant p (snd (grant r c))) = None"
begin

text \<open>Requests tried one after another: those granted and those refused, in order.\<close>

fun pass :: "'p list \<Rightarrow> 'c \<Rightarrow> ('p \<times> 'k) list \<times> 'p list \<times> 'c" where
  "pass [] c = ([], [], c)"
| "pass (p # ps) c = (case grant p c of
     (Some k, c') \<Rightarrow> (case pass ps c' of (g, w, d) \<Rightarrow> ((p, k) # g, w, d))
   | (None, c') \<Rightarrow> (case pass ps c' of (g, w, d) \<Rightarrow> (g, p # w, d)))"

lemma refused_through:
  "sound c \<Longrightarrow> fst (grant p c) = None \<Longrightarrow> pass ps c = (g, w, d) \<Longrightarrow> fst (grant p d) = None"
proof (induction ps arbitrary: c g w)
  case (Cons r rs)
  obtain k c' where t: "grant r c = (k, c')" by fastforce
  with refusal_stable[OF Cons.prems(1,2), of r] sound_grant[OF Cons.prems(1), of r]
  have "fst (grant p c') = None" "sound c'" by simp_all
  with Cons t show ?case by (auto split: option.splits prod.splits)
qed simp

lemma pass_exhausts: "sound c \<Longrightarrow> pass ps c = (g, w, d) \<Longrightarrow> \<forall>p\<in>set w. fst (grant p d) = None"
proof (induction ps arbitrary: c g w)
  case (Cons r rs)
  obtain k c' where t: "grant r c = (k, c')" by fastforce
  with sound_grant[OF Cons.prems(1), of r] have s: "sound c'" by simp
  show ?case
  proof (cases k)
    case None
    obtain g' w' where p: "pass rs c' = (g', w', d)" and w: "w = r # w'"
      using Cons.prems t None by (auto split: prod.splits)
    have "fst (grant r c') = None" using refusal_stable[OF Cons.prems(1), of r r] t None by simp
    with refused_through[OF s _ p] Cons.IH[OF s p] w show ?thesis by auto
  next
    case (Some _)
    with Cons s t show ?thesis by (auto split: prod.splits)
  qed
qed simp

lemma never_overtaken:
  "sound c \<Longrightarrow> fst (grant p c) = None \<Longrightarrow> pass qs c = (g, w, d) \<Longrightarrow> p \<notin> fst ` set g"
proof (induction qs arbitrary: c g w)
  case (Cons r rs)
  obtain k c' where t: "grant r c = (k, c')" by fastforce
  with refusal_stable[OF Cons.prems(1,2), of r] sound_grant[OF Cons.prems(1), of r]
  have n: "sound c'" "fst (grant p c') = None" by simp_all
  show ?case
  proof (cases k)
    case None
    with Cons.IH[OF n] Cons.prems t show ?thesis by (auto split: prod.splits)
  next
    case (Some _)
    with Cons.prems t have "p \<noteq> r" by auto
    with Some Cons.IH[OF n] Cons.prems t show ?thesis by (auto split: prod.splits)
  qed
qed simp

end

section \<open>One request\<close>

lemma try_kind_refused:
  assumes "try_kind kind restored c = (False, c')"
  shows "c' = c \<or> restored \<and> kind_target kind c = 0 \<and> c' = open_kind kind c \<and> kind_active kind c \<ge> 1"
  using assms
  by (auto simp: try_kind_def Let_def kind_target_def kind_active_def open_kind_def split: if_splits)

lemma try_kind_started:
  assumes "try_kind kind restored c = (True, c')"
  shows "c' = occupy_kind kind (if restored \<and> kind_target kind c = 0 then open_kind kind c else c)"
    and "kind_active kind c' \<le> kind_target kind c'"
  using assms
  by (auto simp: try_kind_def Let_def kind_target_def kind_active_def open_kind_def occupy_kind_def split: if_splits)

text \<open>Shared by every request: the limits and modes are not touched.\<close>

definition same_policy :: "encode_pool \<Rightarrow> encode_pool \<Rightarrow> bool" where
  "same_policy c d \<longleftrightarrow> ep_paused d = ep_paused c \<and> ep_independent d = ep_independent c \<and>
    ep_target d = ep_target c \<and> ep_primary d = ep_primary c \<and> ep_cpu_jobs d = ep_cpu_jobs c \<and>
    ep_gpu_jobs d = ep_gpu_jobs c"

text \<open>After a request a class is at least as full as before: more of it run, unless its target
  was opened from 0, and then only when someone runs in it.\<close>

definition full :: "string \<Rightarrow> encode_pool \<Rightarrow> bool" where
  "full kind c \<longleftrightarrow> kind_active kind c \<ge> kind_target kind c \<or> kind_target kind c = 0"

definition full_restored :: "string \<Rightarrow> encode_pool \<Rightarrow> bool" where
  "full_restored kind c \<longleftrightarrow> kind_active kind c \<ge> (if kind_target kind c = 0 then 1 else kind_target kind c)"

definition counters_ok :: "encode_pool \<Rightarrow> bool" where
  "counters_ok c \<longleftrightarrow> 0 \<le> cpu_active c \<and> 0 \<le> gpu_active c \<and> 0 \<le> ep_active c"

definition tighter :: "encode_pool \<Rightarrow> encode_pool \<Rightarrow> bool" where
  "tighter c d \<longleftrightarrow> same_policy c d \<and> ep_active c \<le> ep_active d \<and>
    (counters_ok c \<longrightarrow> counters_ok d) \<and> (counters_ok c \<longrightarrow> (\<forall>k. (full k c \<longrightarrow> full k d) \<and> (full_restored k c \<longrightarrow> full_restored k d)))"

lemma tighter_refl: "tighter c c"
  by (simp add: tighter_def same_policy_def)

lemma tighter_trans: "tighter c d \<Longrightarrow> tighter d e \<Longrightarrow> tighter c e"
  by (auto simp: tighter_def same_policy_def)

lemma try_kind_tighter: "try_kind kind restored c = (ok, c') \<Longrightarrow> tighter c c'"
  by (auto simp: try_kind_def tighter_def same_policy_def full_def full_restored_def Let_def counters_ok_def
      kind_target_def kind_active_def open_kind_def occupy_kind_def kind_jobs_def split: if_splits)

lemma try_kind_False_iff:
  "fst (try_kind kind restored c) = False \<longleftrightarrow>
    (ep_independent c \<and> kind_jobs kind c = 0 \<and> \<not> restored \<and> wrap64 (ep_cpu_jobs c + ep_gpu_jobs c) > 0) \<or>
    (if restored then full_restored kind c else full kind c)"
  by (auto simp: try_kind_def Let_def full_def full_restored_def kind_target_def kind_active_def
      open_kind_def split: if_splits)

lemma try_kind_blocked_stable:
  assumes "fst (try_kind kind restored c) = False" and "tighter c d" and "counters_ok c"
  shows "fst (try_kind kind restored d) = False"
  using assms unfolding try_kind_False_iff
  by (auto simp: tighter_def same_policy_def kind_jobs_def split: if_splits)

text \<open>A refusal, as a condition on the pool.\<close>

definition refuses :: "string \<Rightarrow> encode_pool \<Rightarrow> bool" where
  "refuses pinned c \<longleftrightarrow> ep_paused c \<or> (\<not> ep_independent c \<and> ep_active c \<ge> ep_target c) \<or>
    (if pinned = cpu_kind \<or> pinned = gpu_kind then fst (try_kind pinned True c) = False
     else fst (try_kind (ep_primary c) False c) = False \<and>
       (ep_independent c \<longrightarrow> fst (try_kind (other_kind (ep_primary c)) False c) = False))"

lemma unrestored_refusal: "try_kind kind False c = (False, c') \<Longrightarrow> c' = c"
  using try_kind_refused[of kind False c c'] by simp

lemma try_start_refuses: "fst (try_start_encoder pinned c) = None \<longleftrightarrow> refuses pinned c"
proof -
  obtain ok c' where p: "try_kind (ep_primary c) False c = (ok, c')" by fastforce
  obtain ok2 c2 where q: "try_kind (other_kind (ep_primary c)) False c = (ok2, c2)" by fastforce
  obtain ok3 c3 where r: "try_kind pinned True c = (ok3, c3)" by fastforce
  have "\<not> ok \<Longrightarrow> c' = c" using unrestored_refusal p by simp
  with p q r show ?thesis
    by (cases "pinned = cpu_kind \<or> pinned = gpu_kind"; cases ok; cases ok2; cases ok3)
      (auto simp: try_start_encoder_def refuses_def)
qed

lemma try_start_tighter: "try_start_encoder pinned c = (r, c') \<Longrightarrow> tighter c c'"
  unfolding try_start_encoder_def
  by (auto split: if_splits prod.splits bool.splits intro: tighter_refl
      dest: try_kind_tighter tighter_trans)

lemma refuses_tighter: "counters_ok c \<Longrightarrow> refuses pinned c \<Longrightarrow> tighter c d \<Longrightarrow> refuses pinned d"
  unfolding refuses_def using try_kind_blocked_stable[of _ _ c d]
  by (auto simp: tighter_def same_policy_def split: if_splits)

lemma try_start_snd: "tighter c (snd (try_start_encoder p c))"
  by (rule try_start_tighter[OF prod.collapse[symmetric]])

interpretation encoder_slots: slot_pool try_start_encoder counters_ok
proof
  fix c r
  show "counters_ok c \<Longrightarrow> counters_ok (snd (try_start_encoder r c))"
    using try_start_snd[of c r] by (simp add: tighter_def)
next
  fix c p r
  show "counters_ok c \<Longrightarrow> fst (try_start_encoder p c) = None \<Longrightarrow>
      fst (try_start_encoder p (snd (try_start_encoder r c))) = None"
    unfolding try_start_refuses using refuses_tighter try_start_snd by blast
qed

text \<open>The steps without classes share one limit: a refusal there is \<open>paused\<close> or full.\<close>

definition grant_step :: "unit \<Rightarrow> encode_pool \<Rightarrow> unit option \<times> encode_pool" where
  "grant_step u c = (case try_start c of (ok, c') \<Rightarrow> (if ok then Some () else None, c'))"

interpretation step_slots: slot_pool grant_step "\<lambda>_. True"
  by unfold_locales (auto simp: grant_step_def try_start_def)

section \<open>The queue loop\<close>

lemma drop_nth_length: "i < length xs \<Longrightarrow> length (drop_nth i xs) = length xs - 1"
  by (simp add: drop_nth_def)

lemma drop_nth_before: "j < i \<Longrightarrow> i < length xs \<Longrightarrow> drop_nth i xs ! j = xs ! j"
  by (simp add: drop_nth_def nth_append)

lemma mset_drop_nth: "i < length xs \<Longrightarrow> mset xs = add_mset (xs ! i) (mset (drop_nth i xs))"
  by (subst id_take_nth_drop[of i xs]) (simp_all add: drop_nth_def)

text \<open>The counters are the numbers of running jobs, of each class and of both.\<close>

definition running_of :: "string \<Rightarrow> 'j encoder_queue \<Rightarrow> int" where
  "running_of kind q = int (length (filter (\<lambda>r. snd r = kind) (running q)))"

definition counts_running :: "'j encoder_queue \<Rightarrow> bool" where
  "counts_running q \<longleftrightarrow> snd ` set (running q) \<subseteq> {cpu_kind, gpu_kind} \<and>
    ep_primary (pool q) \<in> {cpu_kind, gpu_kind} \<and>
    cpu_active (pool q) = running_of cpu_kind q \<and> gpu_active (pool q) = running_of gpu_kind q \<and>
    ep_active (pool q) = int (length (running q))"

lemma limits_keep_counters [simp]:
  "cpu_active (set_limits a b c) = cpu_active c" "gpu_active (set_limits a b c) = gpu_active c"
  "ep_active (set_limits a b c) = ep_active c" "ep_primary (set_limits a b c) = ep_primary c"
  "cpu_active (set_target n c) = cpu_active c" "gpu_active (set_target n c) = gpu_active c"
  "ep_active (set_target n c) = ep_active c" "ep_primary (set_target n c) = ep_primary c"
  "cpu_active (set_pool_paused p c) = cpu_active c" "gpu_active (set_pool_paused p c) = gpu_active c"
  "ep_active (set_pool_paused p c) = ep_active c" "ep_primary (set_pool_paused p c) = ep_primary c"
  "cpu_active (pause_limits c) = cpu_active c" "gpu_active (pause_limits c) = gpu_active c"
  "ep_active (pause_limits c) = ep_active c" "ep_primary (pause_limits c) = ep_primary c"
  by (simp_all add: set_limits_def set_target_def set_pool_paused_def pause_limits_def Let_def)

lemma try_kind_counters:
  assumes "try_kind kind restored c = (ok, d)"
  shows "ep_primary d = ep_primary c" "ep_active d = ep_active c + (if ok then 1 else 0)"
    "cpu_active d = cpu_active c + (if ok \<and> kind = cpu_kind then 1 else 0)"
    "gpu_active d = gpu_active c + (if ok \<and> kind \<noteq> cpu_kind then 1 else 0)"
  using assms by (auto simp: try_kind_def Let_def open_kind_def occupy_kind_def split: if_splits)

lemma try_start_counters:
  assumes "try_start_encoder p c = (r, d)" and "ep_primary c \<in> {cpu_kind, gpu_kind}"
  shows "ep_primary d = ep_primary c" "r \<in> {None, Some cpu_kind, Some gpu_kind}"
    "cpu_active d = cpu_active c + (if r = Some cpu_kind then 1 else 0)"
    "gpu_active d = gpu_active c + (if r = Some gpu_kind then 1 else 0)"
    "ep_active d = ep_active c + (if r = None then 0 else 1)"
proof -
  obtain ok c' where a: "try_kind (ep_primary c) False c = (ok, c')" by fastforce
  obtain ok2 c2 where b: "try_kind (other_kind (ep_primary c)) False c = (ok2, c2)" by fastforce
  obtain ok3 c3 where d: "try_kind p True c = (ok3, c3)" by fastforce
  note counters = try_kind_counters[OF a] try_kind_counters[OF b] try_kind_counters[OF d]
  consider (held) "r = None" "d = c" | (pinned) "p = cpu_kind \<or> p = gpu_kind" "d = c3" "r = (if ok3 then Some p else None)"
    | (first) "ok" "r = Some (ep_primary c)" "d = c'"
    | (second) "ok2" "r = Some (other_kind (ep_primary c))" "d = c2"
  proof -
    have "\<not> ok \<Longrightarrow> c' = c" "\<not> ok2 \<Longrightarrow> c2 = c" using unrestored_refusal a b by simp_all
    with assms(1) a b d that show thesis
      unfolding try_start_encoder_def
      by (cases ok; cases ok2) (auto split: if_splits simp del: prod.case_eq_if)
  qed
  then have "ep_primary d = ep_primary c \<and> r \<in> {None, Some cpu_kind, Some gpu_kind} \<and>
    cpu_active d = cpu_active c + (if r = Some cpu_kind then 1 else 0) \<and>
    gpu_active d = gpu_active c + (if r = Some gpu_kind then 1 else 0) \<and>
    ep_active d = ep_active c + (if r = None then 0 else 1)"
  proof cases
    case pinned
    then show ?thesis using counters(9-12) by (cases ok3) auto
  next
    case first
    then show ?thesis using counters(1-4) assms(2) by auto
  next
    case second
    then show ?thesis using counters(5-8) assms(2) by (auto simp: other_kind_def)
  qed simp
  then show "ep_primary d = ep_primary c" "r \<in> {None, Some cpu_kind, Some gpu_kind}"
    "cpu_active d = cpu_active c + (if r = Some cpu_kind then 1 else 0)"
    "gpu_active d = gpu_active c + (if r = Some gpu_kind then 1 else 0)"
    "ep_active d = ep_active c + (if r = None then 0 else 1)" by blast+
qed

lemma running_remove:
  assumes "(j, kind) \<in> set xs"
  shows "int (length (filter (\<lambda>r. snd r = k) (remove1 (j, kind) xs))) =
      int (length (filter (\<lambda>r. snd r = k) xs)) - (if k = kind then 1 else 0)"
    and "int (length (remove1 (j, kind) xs)) = int (length xs) - 1"
    and "0 < length (filter (\<lambda>r. snd r = kind) xs)" and "0 < length xs"
proof -
  have "(j, kind) \<in> set (filter (\<lambda>r. snd r = kind) xs)" using assms by simp
  then show a: "0 < length (filter (\<lambda>r. snd r = kind) xs)" and b: "0 < length xs"
    by (metis length_pos_if_in_set, metis assms length_pos_if_in_set)
  show "int (length (remove1 (j, kind) xs)) = int (length xs) - 1"
    using assms b by (cases "length xs") (auto simp: length_remove1)
  show "int (length (filter (\<lambda>r. snd r = k) (remove1 (j, kind) xs))) =
      int (length (filter (\<lambda>r. snd r = k) xs)) - (if k = kind then 1 else 0)"
    using assms by (induction xs) auto
qed

lemma counts_running_step:
  assumes "queue_step pin q e u" and "counts_running q"
  shows "counts_running u"
  using assms
proof (induction rule: queue_step.induct)
  case (try_starts q i kind c)
  with try_start_counters[OF try_starts(3)] show ?case
    by (auto simp: counts_running_def running_of_def)
next
  case (try_refused q i c)
  with try_start_counters[OF try_refused(3)] show ?case
    by (auto simp: counts_running_def running_of_def)
next
  case (job_ends j kind q)
  note r = running_remove[OF job_ends(1)]
  have "kind = cpu_kind \<or> kind = gpu_kind"
    using job_ends by (force simp: counts_running_def)
  moreover have "snd ` set (remove1 (j, kind) (running q)) \<subseteq> {cpu_kind, gpu_kind}"
    using job_ends set_remove1_subset[of "(j, kind)" "running q"] by (auto simp: counts_running_def)
  ultimately show ?case
    using job_ends(2) r(1)[of cpu_kind] r(1)[of gpu_kind] r(2,3,4) by (elim disjE) (auto simp: counts_running_def running_of_def
      finish_encoder_def Let_def)
qed (auto simp: counts_running_def running_of_def)

lemma counts_running_sound: "counts_running q \<Longrightarrow> counters_ok (pool q)"
  by (simp add: counts_running_def counters_ok_def running_of_def)

text \<open>Every job sent is in exactly one place.\<close>

lemma sent_append [simp]: "sent_jobs (es @ es') = sent_jobs es @ sent_jobs es'"
  by (induction es rule: sent_jobs.induct) auto

lemma ended_append [simp]: "ended_jobs (es @ es') = ended_jobs es @ ended_jobs es'"
  by (induction es rule: ended_jobs.induct) auto

definition held_jobs :: "'j encoder_queue \<Rightarrow> 'j multiset" where
  "held_jobs q = mset (channel q) + mset (pending_jobs q) + mset (map fst (running q))"

lemma held_step:
  assumes "queue_step pin q e u"
  shows "held_jobs u + mset (ended_jobs [e]) = held_jobs q + mset (sent_jobs [e])"
  using assms
proof (induction rule: queue_step.induct)
  case (try_starts q i kind c)
  then show ?case using mset_drop_nth[OF try_starts(2)] by (simp add: held_jobs_def)
next
  case (job_ends j kind q)
  then have "mset (running q) = add_mset (j, kind) (mset (remove1 (j, kind) (running q)))" by simp
  then have "mset (map fst (running q)) = add_mset j (mset (map fst (remove1 (j, kind) (running q))))"
    by (metis fst_conv image_mset_add_mset mset_map)
  then show ?case by (simp add: held_jobs_def)
qed (simp_all add: held_jobs_def)

text \<open>A job that could start is not left without a signal: the jobs the pass has gone by are
  refused, or a signal has been sent or is about to be.\<close>

definition passed :: "'j encoder_queue \<Rightarrow> nat" where
  "passed q = (case position q of Trying i \<Rightarrow> i | Selecting \<Rightarrow> length (pending_jobs q) | _ \<Rightarrow> 0)"

definition no_sleeper :: "('j \<Rightarrow> string) \<Rightarrow> 'j encoder_queue \<Rightarrow> bool" where
  "no_sleeper pin q \<longleftrightarrow> passed q \<le> length (pending_jobs q) \<and>
    (changed q \<or> 0 < unsent q \<or> (\<forall>i < passed q. refuses (pin (pending_jobs q ! i)) (pool q)))"

lemma no_sleeper_step:
  assumes "queue_step pin q e u" and "no_sleeper pin q" and "counts_running q"
  shows "no_sleeper pin u"
  using assms
proof (induction rule: queue_step.induct)
  case (try_starts q i kind c)
  have t: "tighter (pool q) c" by (rule try_start_tighter[OF try_starts(3)])
  have "refuses p (pool q) \<Longrightarrow> refuses p c" for p
    using refuses_tighter[OF counts_running_sound[OF try_starts(5)] _ t] by blast
  then show ?case using try_starts(1,2,4)
    by (auto simp: no_sleeper_def passed_def drop_nth_length drop_nth_before)
next
  case (try_refused q i c)
  have t: "tighter (pool q) c" by (rule try_start_tighter[OF try_refused(3)])
  have r: "refuses p (pool q) \<Longrightarrow> refuses p c" for p
    using refuses_tighter[OF counts_running_sound[OF try_refused(5)] _ t] by blast
  have "refuses (pin (pending_jobs q ! i)) (pool q)"
    using try_refused(3) try_start_refuses[of "pin (pending_jobs q ! i)" "pool q"] by simp
  with r show ?case using try_refused(1,2,4)
    by (auto simp: no_sleeper_def passed_def less_Suc_eq)
qed (auto simp: no_sleeper_def passed_def set_target_def nth_append split: loop_point.splits)

end
