(* ===== verification/Encode_Pool_Claims.thy ===== *)
theory Encode_Pool_Claims
  imports Encode_Pool_Correct
begin

text \<open>
  The properties of the encode slots and their queue. A deterministic player of the steps, in
  which the \<open>select\<close> prefers its first ready case, evaluates concrete runs.
\<close>

section \<open>Playing a schedule\<close>

definition loop_move :: "('j \<Rightarrow> string) \<Rightarrow> 'j encoder_queue \<Rightarrow> 'j encoder_queue option" where
  "loop_move pin q = (case position q of
     Head \<Rightarrow> Some (if cancelled q then q\<lparr>position := Returned\<rparr> else q\<lparr>position := Trying 0\<rparr>)
   | Trying i \<Rightarrow>
       if i < length (pending_jobs q)
       then (case try_start_encoder (pin (pending_jobs q ! i)) (pool q) of
           (Some kind, c) \<Rightarrow> Some (q\<lparr>pool := c, pending_jobs := drop_nth i (pending_jobs q),
             running := (pending_jobs q ! i, kind) # running q\<rparr>)
         | (None, c) \<Rightarrow> Some (q\<lparr>pool := c, position := Trying (Suc i)\<rparr>))
       else if queue_nil q \<and> pending_jobs q = [] then Some (q\<lparr>position := Returned\<rparr>)
       else Some (q\<lparr>position := Selecting\<rparr>)
   | Selecting \<Rightarrow>
       if cancelled q then Some (q\<lparr>position := Returned\<rparr>)
       else if changed q then Some (q\<lparr>changed := False, position := Head\<rparr>)
       else if queue_nil q then None
       else (case channel q of
           j # js \<Rightarrow> Some (q\<lparr>channel := js, pending_jobs := pending_jobs q @ [j], position := Head\<rparr>)
         | [] \<Rightarrow> if closed q then Some (q\<lparr>queue_nil := True, position := Head\<rparr>) else None)
   | Returned \<Rightarrow> None)"

lemma loop_move_step:
  assumes "loop_move pin q = Some u"
  shows "queue_step pin q Loop u"
proof (cases "position q")
  case Head
  with assms show ?thesis
    by (cases "cancelled q") (auto simp: loop_move_def intro: head_return head_pass)
next
  case (Trying i)
  show ?thesis
  proof (cases "i < length (pending_jobs q)")
    case True
    obtain r c where t: "try_start_encoder (pin (pending_jobs q ! i)) (pool q) = (r, c)" by fastforce
    with assms Trying True show ?thesis
      by (cases r) (auto simp: loop_move_def intro: try_starts try_refused)
  next
    case False
    with assms Trying show ?thesis
      by (cases "queue_nil q \<and> pending_jobs q = []") (auto simp: loop_move_def intro: pass_return pass_ends)
  qed
next
  case Selecting
  with assms show ?thesis
    by (auto simp: loop_move_def split: if_splits list.splits
        intro: select_cancelled select_changed select_job select_closed)
qed (use assms in \<open>simp add: loop_move_def\<close>)

fun play_event :: "('j \<Rightarrow> string) \<Rightarrow> 'j queue_event \<Rightarrow> 'j encoder_queue \<Rightarrow> 'j encoder_queue option" where
  "play_event pin Loop q = loop_move pin q"
| "play_event pin (Sends j) q = (if closed q then None else Some (q\<lparr>channel := channel q @ [j]\<rparr>))"
| "play_event pin (Ends j kind) q = (if (j, kind) \<in> set (running q)
     then Some (q\<lparr>pool := finish_encoder kind (pool q), running := remove1 (j, kind) (running q),
       unsent := Suc (unsent q)\<rparr>) else None)"
| "play_event pin (Limits cpu gpu) q = Some (q\<lparr>pool := set_limits cpu gpu (pool q), unsent := Suc (unsent q)\<rparr>)"
| "play_event pin Signals q = (case unsent q of 0 \<Rightarrow> None | Suc n \<Rightarrow> Some (q\<lparr>unsent := n, changed := True\<rparr>))"
| "play_event pin _ q = None"

lemma play_event_step: "play_event pin e q = Some u \<Longrightarrow> queue_step pin q e u"
  by (cases "(pin, e, q)" rule: play_event.cases)
    (auto split: if_splits nat.splits intro: queue_step.intros loop_move_step)

fun play :: "('j \<Rightarrow> string) \<Rightarrow> 'j queue_event list \<Rightarrow> 'j encoder_queue \<Rightarrow> 'j encoder_queue option" where
  "play pin [] q = Some q"
| "play pin (e # es) q = (case play_event pin e q of None \<Rightarrow> None | Some u \<Rightarrow> play pin es u)"

lemma play_run_from: "queue_run pin p es q \<Longrightarrow> play pin es' q = Some u \<Longrightarrow> queue_run pin p (es @ es') u"
proof (induction es' arbitrary: es q)
  case (Cons e es')
  then obtain v where v: "play_event pin e q = Some v" "play pin es' v = Some u"
    by (auto split: option.splits)
  from Cons.IH[OF queue_on[OF Cons.prems(1) play_event_step[OF v(1)]] v(2)] show ?case by simp
qed simp

lemma play_run: "play pin es q = Some u \<Longrightarrow> queue_run pin q es u"
  using play_run_from[OF queue_here] by fastforce

section \<open>Invariants of a run\<close>

lemma new_queue_ok:
  assumes "kind \<in> {cpu_kind, gpu_kind}"
  shows "counts_running (new_queue n kind)" "no_sleeper pin (new_queue n kind)" "held_jobs (new_queue n kind) = {#}"
  using assms by (auto simp: new_queue_def counts_running_def no_sleeper_def passed_def held_jobs_def
      running_of_def set_primary_def new_encode_concurrency_def Let_def)

lemma run_invariants:
  assumes "queue_run pin p es q" and "counts_running p" and "no_sleeper pin p" and "held_jobs p = {#}"
  shows "counts_running q \<and> no_sleeper pin q \<and> held_jobs q + mset (ended_jobs es) = mset (sent_jobs es)"
  using assms
proof (induction rule: queue_run.induct)
  case (queue_on q es u e v)
  then show ?case
    using counts_running_step[OF queue_on(2)] no_sleeper_step[OF queue_on(2)] held_step[OF queue_on(2)]
    by (auto simp: ac_simps) (metis add.commute union_assoc)
qed simp

lemmas queue_invariants = run_invariants[OF _ new_queue_ok]

section \<open>The properties\<close>

text \<open>C25: A job that could start is never left waiting silently: whenever the queue loop blocks
  in its select, either a signal is in the channel, or one is about to be sent, or every pending
  job would be refused a slot. So a finished encode or a raised limit always reaches the jobs
  that wait for it, in every interleaving.\<close>

theorem encoder_queue_never_sleeps_on_a_slot:
  assumes "queue_run pin (new_queue n kind) es q" and "kind \<in> {''cpu'', ''gpu''}"
    and "position q = Selecting"
  shows "changed q \<or> 0 < unsent q \<or>
    (\<forall>j \<in> set (pending_jobs q). fst (try_start_encoder (pin j) (pool q)) = None)"
  using queue_invariants[OF assms(1,2) assms(2) assms(2)] assms(3)
  by (auto simp: no_sleeper_def passed_def try_start_refuses in_set_conv_nth)

definition demo_schedule :: "nat queue_event list" where
  "demo_schedule = [Sends 1, Sends 2] @ replicate 10 Loop @ [Ends 1 ''gpu'']"

theorem encoder_queue_never_sleeps_on_a_slot_witness:
  "\<exists>q. queue_run (\<lambda>_. []) (new_queue 1 ''gpu'') demo_schedule q \<and> position q = Selecting \<and>
    pending_jobs q = [2 :: nat] \<and> fst (try_start_encoder [] (pool q)) = Some ''gpu'' \<and> (changed q \<or> 0 < unsent q)"
proof -
  have "map_option (\<lambda>q. (position q, pending_jobs q, fst (try_start_encoder [] (pool q))))
      (play (\<lambda>_. []) demo_schedule (new_queue 1 ''gpu'')) = Some (Selecting, [2 :: nat], Some ''gpu'')"
    by code_simp
  then obtain q where p: "play (\<lambda>_. []) demo_schedule (new_queue 1 ''gpu'') = Some q"
    and q: "position q = Selecting" "pending_jobs q = [2 :: nat]" "fst (try_start_encoder [] (pool q)) = Some ''gpu''"
    by auto
  from play_run[OF p] encoder_queue_never_sleeps_on_a_slot[OF play_run[OF p]] q
  show ?thesis by auto
qed

text \<open>C26: No job is lost, duplicated or run without a slot: the jobs sent to the queue are exactly
  those still in the channel, pending, running or ended, and the counters of the slots are the
  numbers of running jobs of each class and in all.\<close>

theorem encoder_queue_accounts_for_every_job:
  assumes "queue_run pin (new_queue n kind) es q" and "kind \<in> {''cpu'', ''gpu''}"
  shows "mset (channel q) + mset (pending_jobs q) + mset (map fst (running q)) + mset (ended_jobs es)
      = mset (sent_jobs es) \<and>
    cpu_active (pool q) = int (length (filter (\<lambda>r. snd r = ''cpu'') (running q))) \<and>
    gpu_active (pool q) = int (length (filter (\<lambda>r. snd r = ''gpu'') (running q))) \<and>
    ep_active (pool q) = int (length (running q))"
  using queue_invariants[OF assms(1,2) assms(2) assms(2)]
  by (auto simp: counts_running_def held_jobs_def running_of_def)

theorem encoder_queue_accounts_for_every_job_witness:
  "\<exists>q. queue_run (\<lambda>_. []) (new_queue 1 ''gpu'') (demo_schedule @ [Signals, Loop, Loop, Loop]) q \<and>
    running q = [(2 :: nat, ''gpu'')] \<and> ep_active (pool q) = 1"
proof -
  have "map_option running (play (\<lambda>_. []) (demo_schedule @ [Signals, Loop, Loop, Loop]) (new_queue 1 ''gpu''))
      = Some [(2 :: nat, ''gpu'')]"
    by code_simp
  then obtain q where
    p: "play (\<lambda>_. []) (demo_schedule @ [Signals, Loop, Loop, Loop]) (new_queue 1 ''gpu'') = Some q"
    and q: "running q = [(2 :: nat, ''gpu'')]" by auto
  from encoder_queue_accounts_for_every_job[OF play_run[OF p]] q play_run[OF p] show ?thesis by auto
qed

text \<open>A granted slot respects the policy it was granted under: the slots are not paused, the
  class has not more running than its target, a pinned job gets its own class, and without
  independent limits the total stays within the overall target too.\<close>

theorem granted_slot_within_limits:
  assumes "try_start_encoder pinned c = (Some kind, d)" and "ep_primary c \<in> {''cpu'', ''gpu''}"
  shows "\<not> ep_paused c \<and> kind_active kind d \<le> kind_target kind d \<and>
    kind_active kind d = kind_active kind c + 1 \<and> ep_active d = ep_active c + 1 \<and>
    (pinned \<in> {''cpu'', ''gpu''} \<longrightarrow> kind = pinned) \<and>
    (\<not> ep_independent c \<longrightarrow> ep_active d \<le> ep_target d)"
proof -
  note k = try_start_counters[OF assms]
  have pol: "same_policy c d" using try_start_tighter[OF assms(1)] by (simp add: tighter_def)
  have g: "\<not> (ep_paused c \<or> \<not> ep_independent c \<and> ep_active c \<ge> ep_target c)"
    using assms(1) by (auto simp: try_start_encoder_def)
  have p: "pinned \<in> {cpu_kind, gpu_kind} \<longrightarrow> kind = pinned"
    using assms(1) by (auto simp: try_start_encoder_def split: if_splits prod.splits)
  obtain q e where "try_kind kind q e = (True, d)"
    using assms(1) unfolding try_start_encoder_def
    by (auto split: if_splits prod.splits bool.splits)
  from try_kind_started(2)[OF this] g p k pol show ?thesis
    by (auto simp: kind_active_def same_policy_def)
qed

theorem granted_slot_within_limits_witness:
  "\<exists>d. try_start_encoder ''cpu'' (set_limits 0 2 (new_encode_concurrency 2)) = (Some ''cpu'', d) \<and>
    kind_active ''cpu'' d = 1 \<and> kind_active ''cpu'' d \<le> kind_target ''cpu'' d"
proof -
  let ?c = "set_limits 0 2 (new_encode_concurrency 2)"
  have e: "fst (try_start_encoder ''cpu'' ?c) = Some ''cpu'' \<and> ep_primary ?c = ''gpu'' \<and> kind_active ''cpu'' ?c = 0"
    by code_simp
  then obtain d where d: "try_start_encoder ''cpu'' ?c = (Some ''cpu'', d)"
    by (metis prod.collapse)
  from granted_slot_within_limits[OF d] e d show ?thesis by simp
qed

end
