(* ===== verification/Config_Claims.thy ===== *)
theory Config_Claims
  imports Worker_Config
begin

text \<open>
  What the worker's configuration promises once \<open>Validate\<close> accepted it: the schedule admits
  exactly the minutes of the week its windows cover, and both encoder profiles resolve, each in
  its own class.
\<close>

section \<open>Windows\<close>

lemma minute_bounds:
  assumes "parse_admission_minute v allow = Inr n"
  shows "0 \<le> n" "n \<le> (if allow then 1440 else 1439)"
proof -
  have digit: "is_digit c \<Longrightarrow> c \<noteq> CHR ''-'' \<and> c \<noteq> CHR ''+''" for c by (auto simp: is_digit_def code_def)
  have pos: "atoi (take 2 v) = Some h \<Longrightarrow> length v = 5 \<Longrightarrow> is_digit (v ! 0) \<Longrightarrow> 0 \<le> h" for h
    using digit by (cases v) (auto simp: atoi_def Let_def split: if_splits)
  have pos': "atoi (drop 3 v) = Some h \<Longrightarrow> length v = 5 \<Longrightarrow> is_digit (v ! 3) \<Longrightarrow> 0 \<le> h" for h
  proof -
    assume a: "atoi (drop 3 v) = Some h" "length v = 5" "is_digit (v ! 3)"
    then have "drop 3 v = v ! 3 # drop 4 v" using Cons_nth_drop_Suc[of 3 v] by simp
    with a digit show ?thesis by (auto simp: atoi_def Let_def split: if_splits)
  qed
  from assms pos pos' show "0 \<le> n" "n \<le> (if allow then 1440 else 1439)"
    by (force simp: parse_admission_minute_def split: if_splits option.splits)+
qed

definition window_ok :: "admission_window \<Rightarrow> bool" where
  "window_ok w \<longleftrightarrow> 0 \<le> win_start w \<and> win_start w < 1440 \<and> 0 \<le> win_end w \<and> win_end w \<le> 1440 \<and>
    win_start w \<noteq> win_end w"

lemma parsed_window_ok: "parse_admission_window e = Inr w \<Longrightarrow> window_ok w"
  by (fastforce simp: parse_admission_window_def Let_def window_ok_def
      split: prod.splits sum.splits if_splits dest: minute_bounds)

lemma parsed_windows_ok: "parse_windows es = Inr ws \<Longrightarrow> w \<in> set ws \<Longrightarrow> window_ok w"
  by (induction es arbitrary: ws) (auto split: sum.splits dest: parsed_window_ok)

lemma parsed_windows_length: "parse_windows es = Inr ws \<Longrightarrow> length ws = length es"
  by (induction es arbitrary: ws) (auto split: sum.splits)

text \<open>The minutes of the week a window covers, counted from each day it opens on.\<close>

definition window_minutes :: "admission_window \<Rightarrow> int" where
  "window_minutes w = (if win_start w < win_end w then win_end w - win_start w
     else win_end w - win_start w + 1440)"

definition covers :: "admission_window \<Rightarrow> int \<Rightarrow> bool" where
  "covers w m \<longleftrightarrow> (\<exists>d<7. includes_day w d \<and> (m - (1440 * int d + win_start w)) mod 10080 < window_minutes w)"

lemma mod_week: "- 10080 < x \<Longrightarrow> x < 10080 \<Longrightarrow> x mod 10080 = (if 0 \<le> x then x else x + (10080 :: int))"
proof (cases "0 \<le> x")
  case False
  assume "- 10080 < x"
  with False have "(x + 10080) mod 10080 = x + 10080" by (intro mod_pos_pos_trivial) auto
  with False show ?thesis by simp
qed simp

lemma opening_day:
  assumes "window_ok w" and "0 \<le> m" "m < 1440" and "day < 7" "d < 7"
  shows "(1440 * int day + m - (1440 * int d + win_start w)) mod 10080 < window_minutes w \<longleftrightarrow>
    (if win_start w < win_end w then d = day \<and> win_start w \<le> m \<and> m < win_end w
     else d = day \<and> win_start w \<le> m \<or> d = (day + 6) mod 7 \<and> m < win_end w)"
proof -
  define k where "k = int day - int d"
  have k: "- 6 \<le> k" "k \<le> 6" using assms(4,5) by (auto simp: k_def)
  have x: "1440 * int day + m - (1440 * int d + win_start w) = 1440 * k + m - win_start w"
    by (simp add: k_def)
  have same: "d = day \<longleftrightarrow> k = 0" by (auto simp: k_def)
  have before: "d = (day + 6) mod 7 \<longleftrightarrow> k = 1 \<or> k = - 6"
    using assms(4,5) by (cases "day = 0") (auto simp: k_def mod_if)
  have r: "(1440 * k + m - win_start w) mod 10080 =
      (if 0 \<le> 1440 * k + m - win_start w then 1440 * k + m - win_start w else 1440 * k + m - win_start w + 10080)"
    using assms(1-3) k by (intro mod_week) (auto simp: window_ok_def)
  consider "k = 0" | "k = 1" | "k = - 6" | "2 \<le> k \<or> - 5 \<le> k \<and> k \<le> - 1" using k by linarith
  then show ?thesis
    unfolding x same before r using assms(1-3) k
    by cases (auto simp: window_ok_def window_minutes_def)
qed

lemma window_open_covers:
  assumes "window_ok w" and "0 \<le> m" "m < 1440" and "day < 7"
  shows "window_open m day w \<longleftrightarrow> covers w (1440 * int day + m)"
proof (cases "win_start w < win_end w")
  case True
  then have "covers w (1440 * int day + m) \<longleftrightarrow>
      (\<exists>d<7. includes_day w d \<and> (d = day \<and> win_start w \<le> m \<and> m < win_end w))"
    unfolding covers_def using opening_day[OF assms] by (simp only: if_True cong: conj_cong)
  with True assms(4) show ?thesis by (auto simp: window_open_def)
next
  case False
  then have "covers w (1440 * int day + m) \<longleftrightarrow>
      (\<exists>d<7. includes_day w d \<and> (d = day \<and> win_start w \<le> m \<or> d = (day + 6) mod 7 \<and> m < win_end w))"
    unfolding covers_def using opening_day[OF assms] by (simp only: if_False cong: conj_cong)
  moreover have "(day + 6) mod 7 < 7" by simp
  ultimately show ?thesis using False assms(4) unfolding window_open_def by metis
qed

lemma clock_bounds: "0 \<le> minute_of_day loc now" "minute_of_day loc now < 1440" "weekday loc now < 7"
proof -
  have "local_seconds loc now mod 86400 < 86400" "0 \<le> local_seconds loc now mod 86400" by simp_all
  then show "0 \<le> minute_of_day loc now" "minute_of_day loc now < 1440"
    unfolding minute_of_day_def by linarith+
  show "weekday loc now < 7" unfolding weekday_def by (simp add: nat_less_iff)
qed

lemma validated:
  assumes "validate_config goos zones c = Inr ()"
  shows "validate_schedule zones c = Inr ()" "\<exists>cpu gpu. encoder_profiles c = Inr (cpu, gpu)"
  using assms by (auto simp: validate_config_def split: if_splits option.splits sum.splits)

section \<open>Profiles\<close>

lemma check_profile_ok: "check_profile kind p = Inr () \<longleftrightarrow> 0 \<le> threads p \<and> threads p \<le> 255 \<and>
    (\<exists>v. resolve_video_settings p = Inr v \<and> encoder_kind (vs_codec v) = kind)"
  by (auto simp: check_profile_def split: sum.splits)

text \<open>The settings ffmpeg is run with, per codec.\<close>

definition settings_ok :: "video_settings \<Rightarrow> bool" where
  "settings_ok v \<longleftrightarrow>
    (vs_codec v = ''av1_nvenc'' \<and> vs_crf v = 0 \<and> vs_profile v = [] \<and> vs_cq v \<in> {1..63} \<and> vs_qmax v \<in> {1..255}) \<or>
    (vs_codec v = ''libsvtav1'' \<and> vs_cq v = 0 \<and> vs_qmax v = 0 \<and> vs_profile v = [] \<and> vs_crf v \<in> {1..63}) \<or>
    (vs_codec v = ''libx265'' \<and> vs_cq v = 0 \<and> vs_qmax v = 0 \<and> vs_profile v = ''main10'' \<and> vs_crf v \<in> {1..51} \<and>
      vs_preset v \<in> set x265_presets)"

lemma nvenc_ok: "resolve_nvenc p = Inr v \<Longrightarrow> vs_codec v = ''av1_nvenc'' \<and> vs_crf v = 0 \<and>
    vs_profile v = [] \<and> vs_cq v \<in> {1..63} \<and> vs_qmax v \<in> {1..255}"
  unfolding resolve_nvenc_def Let_def by (simp split: if_splits) auto

lemma svt_ok: "resolve_svt p = Inr v \<Longrightarrow> vs_codec v = ''libsvtav1'' \<and> vs_cq v = 0 \<and> vs_qmax v = 0 \<and>
    vs_profile v = [] \<and> vs_crf v \<in> {1..63}"
  unfolding resolve_svt_def Let_def by (simp split: if_splits option.splits) auto

lemma x265_ok: "resolve_x265 p = Inr v \<Longrightarrow> vs_codec v = ''libx265'' \<and> vs_cq v = 0 \<and> vs_qmax v = 0 \<and>
    vs_profile v = ''main10'' \<and> vs_crf v \<in> {1..51} \<and> vs_preset v \<in> set x265_presets"
  unfolding resolve_x265_def Let_def by (simp only: split: if_splits) auto

lemma resolved_cases:
  assumes "resolve_video_settings p = Inr v"
  obtains (nvenc) "resolve_nvenc p = Inr v" "(if video_codec p = [] then ''av1_nvenc'' else video_codec p) = ''av1_nvenc''"
  | (svt) "resolve_svt p = Inr v" "(if video_codec p = [] then ''av1_nvenc'' else video_codec p) = ''libsvtav1''"
  | (x265) "resolve_x265 p = Inr v" "(if video_codec p = [] then ''av1_nvenc'' else video_codec p) = ''libx265''"
proof -
  define codec where "codec = (if video_codec p = [] then ''av1_nvenc'' else video_codec p)"
  have "(if codec = ''av1_nvenc'' then resolve_nvenc p else if codec = ''libsvtav1'' then resolve_svt p
      else if codec = ''libx265'' then resolve_x265 p else Inl UnsupportedCodec) = Inr v"
    using assms unfolding resolve_video_settings_def Let_def codec_def .
  then show thesis
    using that unfolding codec_def[symmetric]
    by (cases "codec = ''av1_nvenc''"; cases "codec = ''libsvtav1''"; cases "codec = ''libx265''") simp_all
qed

lemma resolved_settings_ok: "resolve_video_settings p = Inr v \<Longrightarrow> settings_ok v"
  by (erule resolved_cases) (simp_all only: nvenc_ok svt_ok x265_ok settings_ok_def simp_thms)

lemma resolved_codec: "resolve_video_settings p = Inr v \<Longrightarrow>
    vs_codec v = (if video_codec p = [] then ''av1_nvenc'' else video_codec p)"
  by (erule resolved_cases) (simp_all only: nvenc_ok svt_ok x265_ok)

section \<open>The properties\<close>

text \<open>C30: Under a validated configuration with windows, jobs are requested exactly in the minutes
  of the local week that some window covers: from its opening minute on each of its days, for its
  length, across midnight and across the end of the week.\<close>

theorem schedule_admits_covered_minutes:
  assumes "validate_config goos zones c = Inr ()" and "schedule c = Some s" and "windows s \<noteq> []"
  shows "\<exists>loc ws. parse_schedule zones s = Inr (loc, ws) \<and> length ws = length (windows s) \<and>
    (admission_allowed_at zones here c now \<longleftrightarrow>
      (\<exists>w \<in> set ws. covers w (1440 * int (weekday loc now) + minute_of_day loc now)))"
proof -
  from validated(1)[OF assms(1)] assms(2,3) obtain loc ws where p: "parse_schedule zones s = Inr (loc, ws)"
    and n: "\<not> have_setted_period_time c"
    by (auto simp: validate_schedule_def split: if_splits sum.splits)
  from p have w: "parse_windows (windows s) = Inr ws"
    by (auto simp: parse_schedule_def split: option.splits sum.splits)
  then have "length ws = length (windows s)" by (rule parsed_windows_length)
  moreover have "admission_allowed_at zones here c now \<longleftrightarrow>
      (\<exists>w \<in> set ws. covers w (1440 * int (weekday loc now) + minute_of_day loc now))"
    using p n assms(2,3) window_open_covers[OF parsed_windows_ok[OF w] clock_bounds]
    by (auto simp: admission_allowed_at_def list_ex_iff)
  ultimately show ?thesis using p by blast
qed

text \<open>A GPU worker with a weekly window, in a zone one hour east.\<close>

definition demo_ffmpeg :: ffmpeg_config where
  "demo_ffmpeg = empty_ffmpeg_config\<lparr>audio_codec := ''libfdk_aac'', video_cq := 30, extra_args := ''-tune hq''\<rparr>"

definition demo_worker_config :: "string list \<Rightarrow> worker_config" where
  "demo_worker_config ws = \<lparr>cpu_encode_config = None, gpu_encode_config = None, cfg_ram_paused = False,
     cfg_pause_mode = [], temporal_path = ''/tmp'', cfg_worker_name = ''w'', start_after = None,
     stop_after = None, schedule = Some \<lparr>time_zone = [], windows = ws\<rparr>, cfg_max_active_jobs = 2,
     encode_config = Some demo_ffmpeg, dashboard = None, verify_delta_time = Fin 10\<rparr>"

definition demo_zones :: "string \<Rightarrow> location option" where
  "demo_zones z = (if z = ''Local'' then Some (\<lambda>_. 3600) else None)"

text \<open>Sunday 1970-01-04, 00:30 local time, lies in the window opened on Saturday evening.\<close>

theorem schedule_admits_covered_minutes_witness:
  "\<exists>loc ws. parse_schedule demo_zones \<lparr>time_zone = [], windows = [''Fri-Sat@22:00-06:00'']\<rparr> = Inr (loc, ws) \<and>
    length ws = 1 \<and> admission_allowed_at demo_zones (\<lambda>_. 0) (demo_worker_config [''Fri-Sat@22:00-06:00'']) (257400 * 1000000000) \<and>
    (\<exists>w \<in> set ws. covers w (1440 * int (weekday loc (257400 * 1000000000)) + minute_of_day loc (257400 * 1000000000)))"
proof -
  let ?c = "demo_worker_config [''Fri-Sat@22:00-06:00'']"
  have "validate_config ''linux'' demo_zones ?c = Inr () \<and>
      admission_allowed_at demo_zones (\<lambda>_. 0) ?c (257400 * 1000000000)"
    by code_simp
  with schedule_admits_covered_minutes[of "''linux''" demo_zones ?c
      "\<lparr>time_zone = [], windows = [''Fri-Sat@22:00-06:00'']\<rparr>" "\<lambda>_. 0" "257400 * 1000000000"]
  show ?thesis by (auto simp: demo_worker_config_def)
qed

text \<open>A schedule with windows that does not pass validation, or whose zone is unknown, admits no job at any
  time.\<close>

lemma invalid_schedule_admits_nothing:
  assumes "validate_schedule zones c = Inl e" and "schedule c = Some s" and "windows s \<noteq> []"
  shows "\<not> admission_allowed_at zones here c now"
  using assms by (auto simp: validate_schedule_def admission_allowed_at_def split: if_splits sum.splits)

definition only_shared :: "ffmpeg_config \<Rightarrow> ffmpeg_config \<Rightarrow> bool" where
  "only_shared primary p \<longleftrightarrow> audio_codec p = audio_codec primary \<and> audio_vbr p = audio_vbr primary \<and>
    threads p = threads primary \<and> video_preset p = [] \<and> video_profile p = [] \<and> video_crf p = 0 \<and>
    video_cq p = 0 \<and> video_qmax p = 0 \<and> extra_args p = []"

lemma checked_class: "check_profile kind p = Inr () \<Longrightarrow>
    \<exists>v. resolve_video_settings p = Inr v \<and> settings_ok v \<and> encoder_kind (vs_codec v) = kind"
  using resolved_settings_ok by (auto simp: check_profile_ok)

lemma profiles_checked:
  assumes "encoder_profiles c = Inr (cpu, gpu)" and "encode_config c = Some primary"
  shows "check_profile ''cpu'' cpu = Inr () \<and> check_profile ''gpu'' gpu = Inr () \<and>
    (cpu_encode_config c = None \<and> encoder_kind (video_codec primary) = ''gpu'' \<longrightarrow> only_shared primary cpu) \<and>
    (gpu_encode_config c = None \<and> encoder_kind (video_codec primary) \<noteq> ''gpu'' \<longrightarrow> only_shared primary gpu)"
  using assms unfolding encoder_profiles_def
  by (auto simp: Let_def only_shared_def inherit_audio_def empty_ffmpeg_config_def
      split: sum.splits)

text \<open>Both encoder profiles of a configuration resolve to settings their encoder accepts, each
  in its own class; and a class without a profile of its own that is not the primary one takes only
  the audio settings and the threads of the primary recipe: no quality flag, preset or extra
  argument crosses classes.\<close>

theorem encoder_profiles_stay_in_class:
  assumes "encoder_profiles c = Inr (cpu, gpu)" and "encode_config c = Some primary"
  shows "(\<exists>v. resolve_video_settings cpu = Inr v \<and> settings_ok v \<and> encoder_kind (vs_codec v) = ''cpu'') \<and>
    (\<exists>v. resolve_video_settings gpu = Inr v \<and> settings_ok v \<and> encoder_kind (vs_codec v) = ''gpu'') \<and>
    (cpu_encode_config c = None \<and> encoder_kind (video_codec primary) = ''gpu'' \<longrightarrow> only_shared primary cpu) \<and>
    (gpu_encode_config c = None \<and> encoder_kind (video_codec primary) \<noteq> ''gpu'' \<longrightarrow> only_shared primary gpu)"
  using profiles_checked[OF assms] checked_class by blast

theorem encoder_profiles_stay_in_class_witness:
  "\<exists>cpu gpu. encoder_profiles (demo_worker_config []) = Inr (cpu, gpu) \<and> only_shared demo_ffmpeg cpu \<and>
    extra_args gpu = ''-tune hq''"
proof -
  have "map_sum (\<lambda>_. ()) (\<lambda>(cpu, gpu). extra_args gpu) (encoder_profiles (demo_worker_config [])) = Inr ''-tune hq''"
    by code_simp
  then obtain cpu gpu where p: "encoder_profiles (demo_worker_config []) = Inr (cpu, gpu)" "extra_args gpu = ''-tune hq''"
    by (cases "encoder_profiles (demo_worker_config [])") auto
  from encoder_profiles_stay_in_class[OF p(1), of demo_ffmpeg] p show ?thesis
    by (simp add: demo_worker_config_def demo_ffmpeg_def empty_ffmpeg_config_def encoder_kind_def)
qed

end
