(* ===== verification/Admission_Claims.thy ===== *)
theory Admission_Claims
  imports Worker_Admission Pause_Claims Encode_Pool_Claims Config_Claims
begin

text \<open>
  What the worker's admission guarantees: the two holds derived from the controls, of the encode
  slots and of the running encoders, agree with the controls in every state; an admission hold is
  final; and no more jobs are accepted than the encode target and one.
\<close>

section \<open>The pause controller, as the executor uses it\<close>

lemma roll_back_general: "general_hold (snd (roll_back steps s)) = general_hold s"
proof -
  obtain failed t where "roll_back steps s = (failed, t)" by fastforce
  with roll_back_frame[OF this] show ?thesis by simp
qed

lemma transition_general: "general_hold (snd (transition_loop target pids steps s)) = general_hold s"
proof (induction target pids steps s rule: transition_loop.induct)
  case (2 target pid pids steps s)
  show ?case
  proof (cases "map_of (processes s) pid")
    case None
    with 2(1) show ?thesis by simp
  next
    case (Some p)
    show ?thesis
    proof (cases "pz_paused p = target p")
      case True
      with Some 2(2) show ?thesis by simp
    next
      case False
      obtain ok u where u: "set_process_paused pid (target p) s = (ok, u)" by fastforce
      show ?thesis
      proof (cases ok)
        case True
        with 2(3)[OF Some False u[symmetric]] False Some u signal_frame[OF u] show ?thesis by simp
      next
        case no: False
        obtain failed t where "roll_back steps u = (failed, t)" by fastforce
        with no False Some u signal_frame[OF u] roll_back_general[of steps u] show ?thesis by simp
      qed
    qed
  qed
qed simp

lemma set_paused_general:
  "set_paused b s = (Inr u, t) \<Longrightarrow> general_hold t = b"
  "set_paused b s = (Inl x, t) \<Longrightarrow> general_hold t = general_hold s"
  using transition_general[of "\<lambda>p. b \<or> pz_individual p" "map fst (processes s)" "[]" s]
  by (auto simp: set_paused_def bindP_def writeP_def notify_locked_def transition_locked_def split: prod.splits sum.splits)

lemma resume_all_general:
  "resume_all s = (Inr u, t) \<Longrightarrow> \<not> general_hold t"
  "resume_all s = (Inl x, t) \<Longrightarrow> general_hold t = general_hold s"
  using transition_general[of "\<lambda>_. False" "map fst (processes s)" "[]" s]
  by (auto simp: resume_all_def bindP_def writeP_def notify_locked_def transition_locked_def split: prod.splits sum.splits)

lemma set_job_paused_general: "set_job_paused active key b s = (r, t) \<Longrightarrow> general_hold t = general_hold s"
  using transition_general[of "\<lambda>p. if pz_key p = key then general_hold s \<or> b else pz_paused p"
      "map fst (processes s)" "[]" s]
  by (auto simp: set_job_paused_def bindP_def writeP_def failP_def transition_locked_def
      split: prod.splits sum.splits if_splits)

text \<open>A pause call followed by a write of the executor's own fields.\<close>

lemma on_pauses_write:
  assumes "bindP (\<lambda>e. on_pauses (m e) e) (\<lambda>_. modify_executor f) e = (r, e')"
  obtains (failed) x p where "m e (ex_pauses e) = (Inl x, p)" "e' = e\<lparr>ex_pauses := p\<rparr>" "r = Inl (ExPause x)"
  | (worked) u p where "m e (ex_pauses e) = (Inr u, p)" "e' = f (e\<lparr>ex_pauses := p\<rparr>)" "r = Inr ()"
  using assms by (auto simp: bindP_def on_pauses_def modify_executor_def writeP_def split: prod.splits sum.splits)

section \<open>Controls\<close>

datatype executor_request = ReqMax int | ReqPair int int | ReqRam bool | ReqFinish | ReqDrain | ReqHold
  | ReqMode string | ReqJobHold string bool | ReqPersistMax bool int | ReqPersistAdmission bool int
  | ReqPersistPair bool int int | ReqResolved | ReqReserve bool | ReqRelease | ReqAccept "executor_error + unit"
  | ReqClean | ReqTake string | ReqReturn string | ReqGate bool bool bool nat string | ReqUnregister nat

text \<open>Everything the executor is asked to do, by the coordinator, the control socket, the queue loop
  and the encoder processes, in any order.\<close>

fun worker_request ::
  "(string \<Rightarrow> string option) \<Rightarrow> string \<Rightarrow> inspection \<Rightarrow> executor_request \<Rightarrow> job_executor \<Rightarrow> job_executor" where
  "worker_request uuids goos act (ReqMax n) e = snd (set_max_active_jobs n e)"
| "worker_request uuids goos act (ReqPair c g) e = snd (set_encoder_limits c g e)"
| "worker_request uuids goos act (ReqRam b) e = snd (set_ram_paused goos b e)"
| "worker_request uuids goos act ReqFinish e = snd (finish_accepted_jobs e)"
| "worker_request uuids goos act ReqDrain e = snd (drain_accepted_jobs e)"
| "worker_request uuids goos act ReqHold e = snd (hold_admission e)"
| "worker_request uuids goos act (ReqMode m) e = snd (set_pause_mode goos m e)"
| "worker_request uuids goos act (ReqJobHold j b) e = snd (set_job_hold uuids goos act j b e)"
| "worker_request uuids goos act (ReqPersistMax ok n) e = snd (persist_max_active_jobs ok n e)"
| "worker_request uuids goos act (ReqPersistAdmission ok n) e = snd (persist_admission_limit ok n e)"
| "worker_request uuids goos act (ReqPersistPair ok c g) e = snd (persist_encoder_limits ok c g e)"
| "worker_request uuids goos act ReqResolved e = mark_settings_resolved e"
| "worker_request uuids goos act (ReqReserve ok) e = snd (reserve_job_slot ok e)"
| "worker_request uuids goos act ReqRelease e = release_job_slot e"
| "worker_request uuids goos act (ReqAccept r) e = snd (accept_reserved r e)"
| "worker_request uuids goos act ReqClean e = clean_job_slot e"
| "worker_request uuids goos act (ReqTake pin) e = e\<lparr>ex_pool := snd (try_start_encoder pin (ex_pool e))\<rparr>"
| "worker_request uuids goos act (ReqReturn kind) e = e\<lparr>ex_pool := finish_encoder kind (ex_pool e)\<rparr>"
| "worker_request uuids goos act (ReqGate done starts attaches pid key) e =
     e\<lparr>ex_pauses := snd (start_gate done starts attaches pid key (ex_pauses e))\<rparr>"
| "worker_request uuids goos act (ReqUnregister pid) e = e\<lparr>ex_pauses := unregister pid (ex_pauses e)\<rparr>"

definition controls_agree :: "job_executor \<Rightarrow> bool" where
  "controls_agree e \<longleftrightarrow>
    general_hold (ex_pauses e) = ((ex_ram_paused e \<or> ex_max_active e = 0 \<and> ex_pause_mode e = ''ram'')
      \<and> \<not> ex_admission_held e \<and> \<not> ex_finishing e) \<and>
    ep_paused (ex_pool e) = ((ex_ram_paused e \<or> ex_max_active e = 0 \<or> ex_settings_pending e)
      \<and> \<not> ex_admission_held e \<and> \<not> ex_finishing e)"

lemma pool_paused_fields [simp]:
  "ex_max_active (pool_paused b e) = ex_max_active e" "ex_pauses (pool_paused b e) = ex_pauses e"
  "ex_ram_paused (pool_paused b e) = ex_ram_paused e" "ex_pause_mode (pool_paused b e) = ex_pause_mode e"
  "ex_admission_held (pool_paused b e) = ex_admission_held e" "ex_finishing (pool_paused b e) = ex_finishing e"
  "ex_settings_pending (pool_paused b e) = ex_settings_pending e"
  "ep_paused (ex_pool (pool_paused b e)) = b"
  by (simp_all add: pool_paused_def set_pool_paused_def)

lemma limits_keep_paused [simp]:
  "ep_paused (set_target n c) = ep_paused c" "ep_paused (set_limits a b c) = ep_paused c"
  "ep_paused (pause_limits c) = ep_paused c" "ep_paused (finish_encoder k c) = ep_paused c"
  "ep_paused (set_primary k c) = ep_paused c" "ep_paused (set_pool_paused h c) = h"
  "ep_paused (snd (try_start_encoder k c)) = ep_paused c"
  using try_start_snd[of c k]
  by (simp_all add: set_target_def set_limits_def pause_limits_def finish_encoder_def set_primary_def
      set_pool_paused_def Let_def tighter_def same_policy_def)

lemma apply_limit_agree:
  assumes "apply_limit_locked mx mode ram e = (r, e')" and "controls_agree e"
  shows "controls_agree e'"
  using assms(1)[unfolded apply_limit_locked_def]
proof (cases rule: on_pauses_write)
  case (failed x p)
  with assms(2) set_paused_general(2) show ?thesis by (auto simp: controls_agree_def)
next
  case (worked u p)
  with set_paused_general(1)[OF worked(1)] show ?thesis
    by (auto simp: controls_agree_def Let_def)
qed

lemma set_limits_agree:
  assumes "set_encoder_limits c g e = (r, e')" and "controls_agree e"
  shows "controls_agree e'"
proof (cases "total_jobs (pair_settings c g)")
  case (Inl x)
  with assms show ?thesis by (simp add: set_encoder_limits_def failP_def)
next
  case (Inr tot)
  show ?thesis using assms(1)[unfolded set_encoder_limits_def Inr sum.case]
  proof (cases rule: on_pauses_write)
    case (failed x p)
    with assms(2) set_paused_general(2) show ?thesis by (auto simp: controls_agree_def)
  next
    case (worked u p)
    with set_paused_general(1)[OF worked(1)] show ?thesis by (auto simp: controls_agree_def Let_def)
  qed
qed

lemma set_ram_agree:
  assumes "set_ram_paused goos b e = (r, e')" and "controls_agree e"
  shows "controls_agree e'"
proof (cases "b \<and> resolve_pause_mode goos ''ram'' = None \<or> ex_admission_held e \<or> ex_finishing e")
  case True
  with assms show ?thesis by (auto simp: set_ram_paused_def failP_def split: if_splits)
next
  case False
  with assms(1) have "bindP (\<lambda>e. on_pauses (set_paused b) e) (\<lambda>_. modify_executor (\<lambda>e.
         let e = e\<lparr>ex_pause_mode := ''finish'', ex_ram_paused := b\<rparr>
         in pool_paused (b \<or> ex_max_active e = 0 \<or> ex_settings_pending e) e)) e = (r, e')"
    by (auto simp: set_ram_paused_def)
  then show ?thesis
  proof (cases rule: on_pauses_write)
    case (failed x p)
    with assms(2) set_paused_general(2) show ?thesis by (auto simp: controls_agree_def)
  next
    case (worked u p)
    with False set_paused_general(1)[OF worked(1)] show ?thesis by (auto simp: controls_agree_def Let_def)
  qed
qed

lemma resume_all_write:
  assumes "bindP (on_pauses resume_all) (\<lambda>_. modify_executor f) e = (r, e')" and "controls_agree e"
    and "\<And>e. \<not> general_hold (ex_pauses e) \<Longrightarrow> controls_agree (f e)"
  shows "controls_agree e'"
  using assms(1)
proof (cases rule: on_pauses_write[of "\<lambda>_. resume_all"])
  case (failed x p)
  with assms(2) resume_all_general(2) show ?thesis by (auto simp: controls_agree_def)
next
  case (worked u p)
  with resume_all_general(1)[OF worked(1)] assms(3) show ?thesis by simp
qed

lemma drains_agree:
  "finish_accepted_jobs e = (r, e') \<Longrightarrow> controls_agree e \<Longrightarrow> controls_agree e'"
  "drain_accepted_jobs e = (r, e') \<Longrightarrow> controls_agree e \<Longrightarrow> controls_agree e'"
  "hold_admission e = (r, e') \<Longrightarrow> controls_agree e \<Longrightarrow> controls_agree e'"
  unfolding finish_accepted_jobs_def drain_accepted_jobs_def hold_admission_def
  by (erule resume_all_write, assumption, simp add: controls_agree_def)+

lemma set_mode_agree:
  assumes "set_pause_mode goos v e = (r, e')" and "controls_agree e"
  shows "controls_agree e'"
proof (cases "resolve_pause_mode goos v")
  case None
  with assms show ?thesis by (simp add: set_pause_mode_def failP_def)
next
  case (Some mode)
  show ?thesis using assms(1)[unfolded set_pause_mode_def Some option.case]
  proof (cases rule: on_pauses_write)
    case (failed x p)
    with assms(2) set_paused_general(2) show ?thesis by (auto simp: controls_agree_def)
  next
    case (worked u p)
    with assms(2) set_paused_general(1)[OF worked(1)] show ?thesis by (auto simp: controls_agree_def)
  qed
qed

lemma job_hold_agree:
  assumes "set_job_hold uuids goos act j b e = (r, e')" and "controls_agree e"
  shows "controls_agree e'"
proof -
  have "e' = e \<or> (\<exists>i x p. set_job_paused act i b (ex_pauses e) = (x, p) \<and> e' = e\<lparr>ex_pauses := p\<rparr>)"
    using assms(1) by (auto simp: set_job_hold_def failP_def on_pauses_def
        split: option.splits if_splits prod.splits sum.splits executor_error.splits pause_error.splits)
  with assms(2) show ?thesis by (auto simp: controls_agree_def dest: set_job_paused_general)
qed

lemma resolved_agree: "controls_agree e \<Longrightarrow> controls_agree (mark_settings_resolved e)"
  by (auto simp: controls_agree_def mark_settings_resolved_def Let_def)

lemma then_resolved_agree:
  assumes "bindP m (\<lambda>_. modify_executor mark_settings_resolved) e = (r, e')"
    and "\<And>r' u. m e = (r', u) \<Longrightarrow> controls_agree u"
  shows "controls_agree e'"
  using assms by (auto simp: bindP_def modify_executor_def writeP_def resolved_agree split: prod.splits sum.splits)

lemma persist_agree: "persist_limit ok ao n e = (r, e') \<Longrightarrow> controls_agree e \<Longrightarrow> controls_agree e'"
  unfolding persist_limit_def
  by (auto simp: failP_def Let_def split: if_splits elim!: then_resolved_agree dest: apply_limit_agree)

lemma persist_pair_agree: "persist_encoder_limits ok c g e = (r, e') \<Longrightarrow> controls_agree e \<Longrightarrow> controls_agree e'"
  unfolding persist_encoder_limits_def
  by (auto simp: failP_def split: if_splits sum.splits elim!: then_resolved_agree dest: set_limits_agree)

lemma gate_general: "general_hold (snd (start_gate done' starts attaches pid key s)) = general_hold s"
  by (simp add: start_gate_def)

lemma request_agree:
  assumes "controls_agree e"
  shows "controls_agree (worker_request uuids goos act q e)"
proof (cases q)
  case (ReqMax n)
  with assms show ?thesis
    by (cases "set_max_active_jobs n e")
      (auto simp: set_max_active_jobs_def failP_def split: if_splits dest: apply_limit_agree)
next
  case (ReqPair c g)
  with assms show ?thesis by (cases "set_encoder_limits c g e") (auto dest: set_limits_agree)
next
  case (ReqRam b)
  with assms show ?thesis by (cases "set_ram_paused goos b e") (auto dest: set_ram_agree)
next
  case ReqFinish
  with assms show ?thesis by (cases "finish_accepted_jobs e") (auto dest: drains_agree)
next
  case ReqDrain
  with assms show ?thesis by (cases "drain_accepted_jobs e") (auto dest: drains_agree)
next
  case ReqHold
  with assms show ?thesis by (cases "hold_admission e") (auto dest: drains_agree)
next
  case (ReqMode m)
  with assms show ?thesis by (cases "set_pause_mode goos m e") (auto dest: set_mode_agree)
next
  case (ReqJobHold j b)
  with assms show ?thesis by (cases "set_job_hold uuids goos act j b e") (auto dest: job_hold_agree)
next
  case (ReqPersistMax ok n)
  with assms show ?thesis
    by (cases "persist_limit ok False n e") (auto simp: persist_max_active_jobs_def dest: persist_agree)
next
  case (ReqPersistAdmission ok n)
  with assms show ?thesis
    by (cases "persist_limit ok True n e") (auto simp: persist_admission_limit_def dest: persist_agree)
next
  case (ReqPersistPair ok c g)
  with assms show ?thesis by (cases "persist_encoder_limits ok c g e") (auto dest: persist_pair_agree)
next
  case (ReqGate done' starts attaches pid key)
  with assms show ?thesis by (simp add: controls_agree_def gate_general)
qed (use assms in \<open>auto simp: controls_agree_def mark_settings_resolved_def reserve_job_slot_def release_job_slot_def
    accept_reserved_def clean_job_slot_def unregister_def Let_def split: sum.splits\<close>)

section \<open>An admission hold is final\<close>

lemma on_pauses_held: "ex_admission_held (snd (on_pauses m e)) = ex_admission_held e"
  by (simp add: on_pauses_def split: prod.splits sum.splits)

lemma pauses_write_frame:
  assumes "\<And>p. P (e\<lparr>ex_pauses := p\<rparr>)" and "\<And>p. P (f (e\<lparr>ex_pauses := p\<rparr>))"
  shows "P (snd (bindP (\<lambda>e. on_pauses (m e) e) (\<lambda>_. modify_executor f) e))"
proof -
  obtain r e' where x: "bindP (\<lambda>e. on_pauses (m e) e) (\<lambda>_. modify_executor f) e = (r, e')" by fastforce
  then have "P e'" by (cases rule: on_pauses_write) (use assms in auto)
  with x show ?thesis by simp
qed

lemmas held_write = pauses_write_frame[where P = ex_admission_held]

lemma held_ops:
  assumes "ex_admission_held e"
  shows "ex_admission_held (snd (apply_limit_locked n m ram e))" "ex_admission_held (snd (set_encoder_limits c g e))"
    "ex_admission_held (snd (set_ram_paused goos b e))" "ex_admission_held (snd (finish_accepted_jobs e))"
    "ex_admission_held (snd (drain_accepted_jobs e))" "ex_admission_held (snd (hold_admission e))"
    "ex_admission_held (snd (set_pause_mode goos v e))" "ex_admission_held (snd (set_job_hold uuids goos act j b e))"
    "ex_admission_held (mark_settings_resolved e)"
proof -
  show "ex_admission_held (snd (apply_limit_locked n m ram e))"
    unfolding apply_limit_locked_def by (rule held_write) (simp_all add: Let_def assms)
  show "ex_admission_held (snd (set_encoder_limits c g e))"
    unfolding set_encoder_limits_def using assms
    by (auto simp: failP_def Let_def intro!: held_write split: sum.splits)
  show "ex_admission_held (snd (set_ram_paused goos b e))"
    using assms by (simp add: set_ram_paused_def failP_def)
  show "ex_admission_held (snd (finish_accepted_jobs e))"
    unfolding finish_accepted_jobs_def by (rule held_write) (simp_all add: assms)
  show "ex_admission_held (snd (drain_accepted_jobs e))"
    unfolding drain_accepted_jobs_def by (rule held_write) (simp_all add: assms)
  show "ex_admission_held (snd (hold_admission e))"
    unfolding hold_admission_def by (rule held_write) (simp_all add: assms)
  show "ex_admission_held (snd (set_pause_mode goos v e))"
    unfolding set_pause_mode_def using assms
    by (auto simp: failP_def intro!: held_write split: option.splits)
  show "ex_admission_held (snd (set_job_hold uuids goos act j b e))"
    using assms by (simp add: set_job_hold_def failP_def split: option.splits)
  show "ex_admission_held (mark_settings_resolved e)"
    using assms by (simp add: mark_settings_resolved_def Let_def)
qed

lemma held_then_resolved:
  "ex_admission_held (snd (m e)) \<Longrightarrow> ex_admission_held (snd (bindP m (\<lambda>_. modify_executor mark_settings_resolved) e))"
  by (auto simp: bindP_def modify_executor_def writeP_def held_ops split: prod.splits sum.splits)

lemma request_held: "ex_admission_held e \<Longrightarrow> ex_admission_held (worker_request uuids goos act q e)"
  by (cases q)
    (auto simp: held_ops set_max_active_jobs_def persist_max_active_jobs_def persist_admission_limit_def
      persist_limit_def persist_encoder_limits_def failP_def reserve_job_slot_def release_job_slot_def
      accept_reserved_def clean_job_slot_def Let_def intro!: held_then_resolved split: sum.splits)

section \<open>Counting accepted jobs\<close>

text \<open>Runs with the reservations and the running jobs counted outside the executor: a reservation is
  released or turned into a job once, a job is cleaned once, and no target above \<open>limit\<close> is in
  force when a slot is reserved. \<open>resumed\<close> jobs were found on disk at the start.\<close>

definition slot_request :: "executor_request \<Rightarrow> bool" where
  "slot_request q = (case q of ReqReserve _ \<Rightarrow> True | ReqRelease \<Rightarrow> True | ReqAccept _ \<Rightarrow> True
     | ReqClean \<Rightarrow> True | _ \<Rightarrow> False)"

inductive slot_run :: "int \<Rightarrow> nat \<Rightarrow> nat \<Rightarrow> nat \<Rightarrow> job_executor \<Rightarrow> bool" for limit :: int and resumed :: nat where
  slot_start: "ex_active_jobs e = of_nat resumed \<Longrightarrow> ex_reserved_jobs e = 0 \<Longrightarrow> slot_run limit resumed 0 resumed e"
| slot_reserve: "slot_run limit resumed r n e \<Longrightarrow> reserve_job_slot ok e = (True, e') \<Longrightarrow>
    ep_target (ex_pool e) \<le> limit \<Longrightarrow> slot_run limit resumed (Suc r) n e'"
| slot_release: "slot_run limit resumed (Suc r) n e \<Longrightarrow> slot_run limit resumed r n (release_job_slot e)"
| slot_accept: "slot_run limit resumed (Suc r) n e \<Longrightarrow> accept_reserved (Inr ()) e = (x, e') \<Longrightarrow>
    slot_run limit resumed r (Suc n) e'"
| slot_abort: "slot_run limit resumed (Suc r) n e \<Longrightarrow> accept_reserved (Inl y) e = (x, e') \<Longrightarrow>
    slot_run limit resumed r n e'"
| slot_clean: "slot_run limit resumed r (Suc n) e \<Longrightarrow> slot_run limit resumed r n (clean_job_slot e)"
| slot_other: "slot_run limit resumed r n e \<Longrightarrow> \<not> slot_request q \<Longrightarrow>
    slot_run limit resumed r n (worker_request uuids goos act q e)"

definition same_slots :: "job_executor \<Rightarrow> job_executor \<Rightarrow> bool" where
  "same_slots e e' \<longleftrightarrow> ex_active_jobs e' = ex_active_jobs e \<and> ex_reserved_jobs e' = ex_reserved_jobs e"

lemmas slots_write = pauses_write_frame[where P = "same_slots e" and e = e for e]

lemma pool_paused_slots [simp]:
  "ex_active_jobs (pool_paused b e) = ex_active_jobs e" "ex_reserved_jobs (pool_paused b e) = ex_reserved_jobs e"
  by (simp_all add: pool_paused_def)

lemma slots_ops:
  "same_slots e (snd (apply_limit_locked n m ram e))" "same_slots e (snd (set_encoder_limits c g e))"
  "same_slots e (snd (finish_accepted_jobs e))" "same_slots e (snd (drain_accepted_jobs e))"
  "same_slots e (snd (hold_admission e))" "same_slots e (mark_settings_resolved e)"
proof -
  show "same_slots e (snd (apply_limit_locked n m ram e))"
    unfolding apply_limit_locked_def by (rule slots_write) (simp_all add: same_slots_def Let_def)
  show "same_slots e (snd (set_encoder_limits c g e))"
    unfolding set_encoder_limits_def
    by (cases "total_jobs (pair_settings c g)")
      (simp_all add: failP_def same_slots_def, rule slots_write[unfolded same_slots_def], simp_all add: Let_def)
  show "same_slots e (snd (finish_accepted_jobs e))"
    unfolding finish_accepted_jobs_def by (rule slots_write) (simp_all add: same_slots_def)
  show "same_slots e (snd (drain_accepted_jobs e))"
    unfolding drain_accepted_jobs_def by (rule slots_write) (simp_all add: same_slots_def)
  show "same_slots e (snd (hold_admission e))"
    unfolding hold_admission_def by (rule slots_write) (simp_all add: same_slots_def)
  show "same_slots e (mark_settings_resolved e)"
    by (simp add: mark_settings_resolved_def Let_def same_slots_def)
qed

lemma slots_ram: "same_slots e (snd (set_ram_paused goos b e))"
proof -
  have "same_slots e (snd (bindP (\<lambda>e. on_pauses (set_paused b) e) (\<lambda>_. modify_executor (\<lambda>e.
         let e = e\<lparr>ex_pause_mode := ''finish'', ex_ram_paused := b\<rparr>
         in pool_paused (b \<or> ex_max_active e = 0 \<or> ex_settings_pending e) e)) e))"
    by (rule slots_write) (simp_all add: same_slots_def Let_def)
  then show ?thesis by (simp add: set_ram_paused_def failP_def same_slots_def)
qed

lemma slots_mode: "same_slots e (snd (set_pause_mode goos v e))"
  unfolding set_pause_mode_def
  by (cases "resolve_pause_mode goos v")
    (simp_all add: failP_def same_slots_def, rule slots_write[unfolded same_slots_def], simp_all)

lemma slots_hold: "same_slots e (snd (set_job_hold uuids goos act j b e))"
  by (auto simp: set_job_hold_def failP_def on_pauses_def same_slots_def
      split: option.splits if_splits prod.splits sum.splits executor_error.splits pause_error.splits)

lemma slots_then_resolved:
  assumes "same_slots e (snd (m e))"
  shows "same_slots e (snd (bindP m (\<lambda>_. modify_executor mark_settings_resolved) e))"
  using assms slots_ops(6)
  by (auto simp: bindP_def modify_executor_def writeP_def same_slots_def split: prod.splits sum.splits)

lemma slots_refl: "same_slots e e"
  by (simp add: same_slots_def)

lemma other_slots: "\<not> slot_request q \<Longrightarrow> same_slots e (worker_request uuids goos act q e)"
  by (cases q)
    (auto simp: slot_request_def slots_ops slots_ram slots_mode slots_hold slots_refl set_max_active_jobs_def
      persist_max_active_jobs_def persist_admission_limit_def persist_limit_def persist_encoder_limits_def
      failP_def Let_def intro!: slots_then_resolved split: sum.splits; simp add: same_slots_def)+

text \<open>The unsigned comparison of \<open>canReserveJobSlotAt\<close>, on values in range.\<close>

lemma reserve_bound:
  assumes "reserve_job_slot ok e = (True, e')" and "ep_target (ex_pool e) \<le> limit" "limit < 2 ^ 32 - 1"
    and "unat (ex_active_jobs e) = n" "ex_reserved_jobs e = int r" "r \<le> 2 ^ 32"
  shows "int (n + r) < limit + 1" "e' = e\<lparr>ex_reserved_jobs := int (Suc r)\<rparr>"
proof -
  have c: "can_reserve_job_slot ok e" and e': "e' = e\<lparr>ex_reserved_jobs := ex_reserved_jobs e + 1\<rparr>"
    using assms(1) by (auto simp: reserve_job_slot_def split: if_splits)
  define m where "m = nat (max_accepted_jobs (ep_target (ex_pool e)))"
  have mm: "max_accepted_jobs (ep_target (ex_pool e)) = int m" "int m \<le> max 0 (limit + 1)"
    using assms(2,3) by (auto simp: m_def max_accepted_jobs_def pipeline_buffer_jobs_def go_max_int_def)
  have n: "n < 2 ^ 32" using assms(4) unsigned_less[of "ex_active_jobs e"] by auto
  have "(ucast (ex_active_jobs e) :: 64 word) = of_nat n" using assms(4) by (simp flip: assms(4))
  then have "(of_nat (n + r) :: 64 word) < of_nat m"
    using c assms(5) mm(1) by (simp add: can_reserve_job_slot_def pool_status_def)
  moreover have "m < 2 ^ 64" "n + r < 2 ^ 64" using mm(2) assms(3,6) n by (auto simp: max_def split: if_splits)
  ultimately have "n + r < m"
    by (simp add: word_less_nat_alt unsigned_of_nat take_bit_nat_eq_self flip: of_nat_add)
  then show "int (n + r) < limit + 1" using mm(2) by (auto simp: max_def split: if_splits)
  show "e' = e\<lparr>ex_reserved_jobs := int (Suc r)\<rparr>" using e' assms(5) by (simp add: add.commute)
qed

lemma slot_run_counts:
  assumes "slot_run limit resumed r n e" and "0 \<le> limit" "limit < 2 ^ 32 - 1" and "resumed < 2 ^ 32"
  shows "unat (ex_active_jobs e) = n \<and> ex_reserved_jobs e = int r \<and> int (n + r) \<le> max (int resumed) (limit + 1)"
  using assms(1)
proof (induction rule: slot_run.induct)
  case (slot_start e)
  then show ?case using assms(4) by (simp add: unsigned_of_nat take_bit_nat_eq_self)
next
  case (slot_reserve r n e ok e')
  have "r \<le> 2 ^ 32" using slot_reserve(4) assms(2-4) by (auto simp: max_def split: if_splits)
  with reserve_bound[OF slot_reserve(2,3) assms(3), of n r] slot_reserve(4)
  have "int (n + r) < limit + 1" "e' = e\<lparr>ex_reserved_jobs := int (Suc r)\<rparr>" by blast+
  with slot_reserve(4) show ?case by simp
next
  case (slot_release r n e)
  then show ?case by (simp add: release_job_slot_def)
next
  case (slot_accept r n e x e')
  have "Suc n < 2 ^ 32 \<or> int (Suc n + r) \<le> max (int resumed) (limit + 1)" using slot_accept(3) by simp
  moreover have "Suc n < 2 ^ 32" using slot_accept(3) assms(2-4) by (auto simp: max_def split: if_splits)
  then have "unat (ex_active_jobs e + 1) = Suc n"
    using slot_accept(3) by (simp add: unat_word_ariths)
  ultimately show ?case using slot_accept(2,3) by (auto simp: accept_reserved_def release_job_slot_def)
next
  case (slot_abort r n e y x e')
  then show ?case by (auto simp: accept_reserved_def release_job_slot_def)
next
  case (slot_clean r n e)
  then have "1 \<le> ex_active_jobs e" by (simp add: word_le_nat_alt)
  then have "unat (ex_active_jobs e - 1) = n" using slot_clean by (simp add: unat_sub)
  then show ?case using slot_clean by (simp add: clean_job_slot_def)
next
  case (slot_other r n e q uuids goos act)
  with other_slots[OF slot_other(2), of e uuids goos act] show ?case by (simp add: same_slots_def)
qed

section \<open>The properties\<close>

lemma new_worker_fields:
  "ex_max_active (new_encode_worker c f) = cfg_max_active_jobs c"
  "ex_ram_paused (new_encode_worker c f) = cfg_ram_paused c"
  "ex_pause_mode (new_encode_worker c f) = (if cfg_pause_mode c = [] then ''finish'' else cfg_pause_mode c)"
  "\<not> ex_admission_held (new_encode_worker c f)" "\<not> ex_finishing (new_encode_worker c f)"
  "\<not> ex_settings_pending (new_encode_worker c f)"
  "ex_active_jobs (new_encode_worker c f) = 0" "ex_reserved_jobs (new_encode_worker c f) = 0"
  by (simp_all only: new_encode_worker_def Let_def job_executor.simps simp_thms)

lemma new_worker_pool_paused:
  "ep_paused (ex_pool (new_encode_worker c f)) = (cfg_max_active_jobs c = 0 \<or> cfg_ram_paused c)"
  by (simp only: new_encode_worker_def Let_def job_executor.simps if_distrib[of ep_paused] limits_keep_paused if_cancel)

lemma new_worker_general:
  "general_hold (ex_pauses (new_encode_worker c f)) =
    (cfg_ram_paused c \<or> cfg_max_active_jobs c = 0 \<and> ex_pause_mode (new_encode_worker c f) = ''ram'')"
proof -
  have h: "general_hold (snd (set_paused True empty_pause_state)) = True" "general_hold empty_pause_state = False"
    by (simp_all add: set_paused_def transition_locked_def empty_pause_state_def bindP_def writeP_def notify_locked_def)
  show ?thesis
    unfolding new_worker_fields(3) unfolding new_encode_worker_def Let_def job_executor.simps
    by (simp only: if_distrib[of general_hold] h) simp
qed

lemma started_agrees: "controls_agree (started_worker c f managed held)"
proof -
  have n: "controls_agree (new_encode_worker c f)"
    unfolding controls_agree_def new_worker_general new_worker_pool_paused by (auto simp: new_worker_fields)
  have m: "controls_agree (use_managed_limits d) = controls_agree d" "ex_finishing (use_managed_limits d) = ex_finishing d" for d
    by (simp_all add: use_managed_limits_def controls_agree_def)
  define e where "e = (if managed then use_managed_limits (new_encode_worker c f) else new_encode_worker c f)"
  have e: "controls_agree e" "\<not> ex_finishing e"
    using n by (simp_all add: e_def m new_worker_fields)
  define u where "u = (if held then snd (hold_admission e) else e)"
  have "controls_agree u" using e(1) drains_agree(3) by (cases "hold_admission e") (auto simp: u_def)
  moreover have "\<not> ex_finishing u"
    using e(2) pauses_write_frame[of "\<lambda>e. \<not> ex_finishing e" e _ "\<lambda>_. resume_all"]
    by (simp add: u_def hold_admission_def)
  ultimately have "controls_agree (require_worker_settings u)"
    by (auto simp: require_worker_settings_def controls_agree_def Let_def)
  then show ?thesis unfolding u_def e_def started_worker_def Let_def .
qed

text \<open>C27: However the worker is controlled, and whichever of the controls fail, running encoders are
  suspended as a whole exactly under a RAM hold (explicit, or a zero limit in RAM mode) and new
  encodes are held back exactly under a RAM hold, a zero limit or unresolved settings; in both
  cases only while no accepted work is being drained or finished.\<close>

theorem holds_follow_controls:
  fixes e c f managed held uuids goos act qs
  defines "e \<equiv> fold (worker_request uuids goos act) qs (started_worker c f managed held)"
  shows "general_hold (ex_pauses e) = ((ex_ram_paused e \<or> ex_max_active e = 0 \<and> ex_pause_mode e = ''ram'')
      \<and> \<not> ex_admission_held e \<and> \<not> ex_finishing e) \<and>
    ep_paused (ex_pool e) = ((ex_ram_paused e \<or> ex_max_active e = 0 \<or> ex_settings_pending e)
      \<and> \<not> ex_admission_held e \<and> \<not> ex_finishing e)"
proof -
  have "controls_agree e0 \<Longrightarrow> controls_agree (fold (worker_request uuids goos act) qs e0)" for e0
    by (induction qs arbitrary: e0) (simp_all add: request_agree)
  then show ?thesis using started_agrees by (simp add: e_def controls_agree_def)
qed

text \<open>Once admission is held for maintenance, no later control, limit or setting of the server
  lets the worker reserve another job, and it never reports itself as accepting.\<close>

theorem admission_hold_is_final:
  assumes "ex_admission_held e"
  shows "\<not> can_reserve_job_slot ok (fold (worker_request uuids goos act) qs e) \<and>
    \<not> st_accepting (admission_status ok (fold (worker_request uuids goos act) qs e))"
proof -
  have "ex_admission_held (fold (worker_request uuids goos act) qs e)"
    using assms by (induction qs arbitrary: e) (simp_all add: request_held)
  then show ?thesis by (simp add: can_reserve_job_slot_def admission_status_def Let_def)
qed

theorem admission_hold_is_final_witness:
  "\<not> can_reserve_job_slot True (fold (worker_request (\<lambda>_. None) ''linux'' (\<lambda>_. Inr True))
    [ReqMax 5, ReqResolved] (started_worker (demo_worker_config []) demo_ffmpeg False True))"
proof -
  have "ex_admission_held (started_worker (demo_worker_config []) demo_ffmpeg False True)" by code_simp
  then show ?thesis using admission_hold_is_final by blast
qed

text \<open>C28: The worker never holds more jobs, running or reserved, than its largest encode target and
  one, apart from those it resumed from disk; and its two counters are exactly these numbers,
  whatever else is asked of it in between.\<close>

theorem accepted_jobs_bounded:
  assumes "slot_run limit resumed r n e" and "0 \<le> limit" "limit < 2 ^ 32 - 1" and "resumed < 2 ^ 32"
  shows "int (n + r) \<le> max (int resumed) (limit + 1) \<and> unat (ex_active_jobs e) = n \<and> ex_reserved_jobs e = int r"
  using slot_run_counts[OF assms] by simp

definition demo_accepting :: job_executor where
  "demo_accepting = mark_settings_resolved (started_worker (demo_worker_config []) demo_ffmpeg False False)"

theorem accepted_jobs_bounded_witness:
  "\<exists>e. slot_run 2 0 0 1 e \<and> unat (ex_active_jobs e) = 1 \<and> ex_reserved_jobs e = 0"
proof -
  let ?u = "snd (reserve_job_slot True demo_accepting)"
  let ?v = "snd (accept_reserved (Inr ()) ?u)"
  define d where "d = new_encode_worker (demo_worker_config []) demo_ffmpeg"
  have t: "ep_target (ex_pool d) = 2"
    by (simp add: d_def new_encode_worker_def Let_def set_primary_def set_pool_paused_def
        new_encode_concurrency_def encode_parallel_jobs_def demo_worker_config_def demo_ffmpeg_def empty_ffmpeg_config_def
        encoder_kind_def)
  have m: "ex_max_active d = 2" "\<not> ex_ram_paused d" by (simp_all add: d_def new_worker_fields demo_worker_config_def)
  have fields: "ex_active_jobs demo_accepting = 0" "ex_reserved_jobs demo_accepting = 0"
    "ex_max_active demo_accepting = 2" "\<not> ex_ram_paused demo_accepting" "\<not> ex_admission_held demo_accepting"
    "\<not> ex_finishing demo_accepting" "\<not> ex_settings_pending demo_accepting" "ep_target (ex_pool demo_accepting) = 2"
    using t m by (simp_all add: demo_accepting_def started_worker_def mark_settings_resolved_def
        require_worker_settings_def Let_def pool_paused_def set_pool_paused_def new_worker_fields d_def[symmetric]
        new_worker_fields[of "demo_worker_config []" demo_ffmpeg, folded d_def])
  have r: "reserve_job_slot True demo_accepting = (True, ?u)"
    using fields by (simp add: reserve_job_slot_def can_reserve_job_slot_def pool_status_def max_accepted_jobs_def
        go_max_int_def pipeline_buffer_jobs_def)
  have "slot_run 2 0 (Suc 0) 0 ?u"
    by (rule slot_reserve[OF slot_start r]) (simp_all add: fields)
  from slot_accept[OF this prod.collapse[symmetric]] have r: "slot_run 2 0 0 1 ?v" by simp
  from accepted_jobs_bounded[OF r] r show ?thesis by auto
qed

end
