(* ===== verification/Coordinator_Claims.thy ===== *)
theory Coordinator_Claims
  imports Coordinator Admission_Claims
begin

text \<open>
  The coordinator's guarantees. Everything it does to the worker is a sequence of the executor's own
  requests (\<open>controlled\<close>), so what holds of every sequence of requests holds of every run of the
  coordinator with local controls in between. On top of that: it converges to the settings of the
  server, carries a command out once, keeps the slots balanced, and never undoes a drain.
\<close>

section \<open>The coordinator acts through the executor's requests\<close>

definition co_request :: "coordinator_env \<Rightarrow> executor_request \<Rightarrow> job_executor \<Rightarrow> job_executor" where
  "co_request env = worker_request (co_parse_uuid env) (co_goos env) (co_active env)"

definition controlled :: "coordinator_env \<Rightarrow> job_executor \<Rightarrow> job_executor \<Rightarrow> bool" where
  "controlled env e e' \<longleftrightarrow> (\<exists>qs. (\<forall>x\<in>set qs. \<not> slot_request x) \<and> e' = fold (co_request env) qs e)"

lemma controlled_refl [simp]: "controlled env e e"
  unfolding controlled_def by (rule exI[of _ "[]"]) simp

lemma controlled_trans: "controlled env e f \<Longrightarrow> controlled env f g \<Longrightarrow> controlled env e g"
proof -
  assume "controlled env e f" "controlled env f g"
  then obtain qs rs where "\<forall>x\<in>set qs. \<not> slot_request x" "f = fold (co_request env) qs e"
    "\<forall>x\<in>set rs. \<not> slot_request x" "g = fold (co_request env) rs f" by (auto simp: controlled_def)
  then show ?thesis unfolding controlled_def by (intro exI[of _ "qs @ rs"]) auto
qed

lemma controlled_request: "\<not> slot_request x \<Longrightarrow> controlled env e (co_request env x e)"
  unfolding controlled_def by (rule exI[of _ "[x]"]) simp

lemma controlled_slots:
  assumes "controlled env e e'"
  shows "same_slots e e'"
proof -
  have "\<forall>x\<in>set qs. \<not> slot_request x \<Longrightarrow> same_slots e (fold (co_request env) qs e)" for qs e
  proof (induction qs arbitrary: e)
    case (Cons x qs)
    then have "same_slots e (co_request env x e)" by (simp add: co_request_def other_slots)
    with Cons show ?case by (simp add: same_slots_def)
  qed (simp add: slots_refl)
  with assms show ?thesis by (auto simp: controlled_def)
qed

text \<open>A call on the worker that is one of its requests; a call on the network.\<close>

definition steers :: "coordinator_env \<Rightarrow> 's coordinator \<Rightarrow> 's coordinator \<Rightarrow> bool" where
  "steers env q t \<longleftrightarrow> controlled env (co_worker q) (co_worker t) \<and>
     co_applied_id t = co_applied_id q \<and> co_applied_error t = co_applied_error q"

definition steered :: "coordinator_env \<Rightarrow> ('s, 'a) coordinator_op \<Rightarrow> bool" where
  "steered env m \<longleftrightarrow> (\<forall>q r t. m q = (r, t) \<longrightarrow> steers env q t)"

lemma steers_refl [simp]: "steers env q q"
  by (simp add: steers_def)

lemma steers_trans: "steers env q t \<Longrightarrow> steers env t u \<Longrightarrow> steers env q u"
  by (auto simp: steers_def intro: controlled_trans)

lemma steeredD: "steered env m \<Longrightarrow> m q = (r, t) \<Longrightarrow> steers env q t"
  by (simp add: steered_def)

lemma steered_bind:
  assumes "steered env m" and "\<And>x. steered env (f x)"
  shows "steered env (bindP m f)"
  unfolding steered_def
proof (intro allI impI)
  fix q r t
  assume "bindP m f q = (r, t)"
  then show "steers env q t"
  proof (cases rule: bindP_cases)
    case (fails e)
    then show ?thesis using assms(1) steeredD by blast
  next
    case (continues x u)
    from steers_trans[OF steeredD[OF assms(1) this(1)] steeredD[OF assms(2) this(2)]] show ?thesis .
  qed
qed

lemma steered_guard:
  "steered env m \<Longrightarrow> steered env (\<lambda>q. if P q then (x q, q) else m q)"
  "steered env m \<Longrightarrow> steered env (\<lambda>q. if P q then m q else (x q, q))"
  by (auto simp: steered_def)

lemma steered_net [intro!]: "steered env (on_net m)"
  by (auto simp: steered_def steers_def on_net_def split: prod.splits sum.splits)

lemma steered_fail [intro!]: "steered env (failP x)" "steered env (retP y)"
  by (simp_all add: steered_def failP_def retP_def)

lemma steered_worker:
  assumes "\<And>e. snd (m e) = co_request env x e" and "\<not> slot_request x"
  shows "steered env (on_worker m)"
  unfolding steered_def
proof (intro allI impI)
  fix q r t
  assume a: "on_worker m q = (r, t)"
  then have "t = q\<lparr>co_worker := snd (m (co_worker q))\<rparr>"
    by (auto simp: on_worker_def split: prod.splits sum.splits)
  with assms show "steers env q t" by (simp add: steers_def controlled_request)
qed

lemma steered_requests:
  "steered env (on_worker (set_encoder_limits c g))" "steered env (on_worker (set_max_active_jobs m))"
  "steered env (on_worker (set_pause_mode (co_goos env) v))" "steered env (on_worker (set_ram_paused (co_goos env) b))"
  "steered env (on_worker (set_job_hold (co_parse_uuid env) (co_goos env) (co_active env) j b))"
  "steered env (on_worker drain_accepted_jobs)"
  by (rule steered_worker[of _ _ "ReqPair c g"] steered_worker[of _ _ "ReqMax m"] steered_worker[of _ _ "ReqMode v"]
      steered_worker[of _ _ "ReqRam b"] steered_worker[of _ _ "ReqJobHold j b"] steered_worker[of _ _ ReqDrain];
    simp add: co_request_def slot_request_def)+

lemma steered_write_resolved: "steered env (writeP resolve_settings)"
  using controlled_request[of ReqResolved env]
  by (simp add: steered_def steers_def writeP_def resolve_settings_def co_request_def slot_request_def)

lemma steered_idle: "steered env (\<lambda>q. (x q, q))"
  by (simp add: steered_def)

lemma steered_converge: "steered env (converge ws)"
  unfolding converge_def Let_def
  by (cases "cpu_jobs ws"; cases "gpu_jobs ws"; cases "max_active_jobs ws")
    (simp_all only: prod.case option.case, (intro steered_idle steered_guard(2) steered_requests)+)

lemma steered_queue: "steered env (queue_command tr env ws)"
  unfolding queue_command_def apply_queue_limits_def
  by (auto split: sum.splits option.splits intro!: steered_bind steered_requests)

lemma steered_execute: "steered env (execute_remote_control tr env c)"
  unfolding execute_remote_control_def Let_def
  by (auto intro!: steered_guard steered_queue steered_requests)

lemma carry_out_worker: "controlled env (co_worker q) (co_worker (carry_out d tr env c q))"
  using steered_execute[of env tr c] by (auto simp: carry_out_def steered_def steers_def split: prod.splits)

lemma resolve_controlled: "controlled env (co_worker q) (co_worker (resolve_settings q))"
  using controlled_request[of ReqResolved env] by (simp add: resolve_settings_def co_request_def slot_request_def)

text \<open>What an acknowledgement does to the worker: at most it marks the settings as resolved.\<close>

definition resolved_only :: "job_executor \<Rightarrow> job_executor \<Rightarrow> bool" where
  "resolved_only e e' \<longleftrightarrow> e' = e \<or> e' = mark_settings_resolved e"

lemma mark_twice [simp]: "mark_settings_resolved (mark_settings_resolved e) = mark_settings_resolved e"
  by (simp add: mark_settings_resolved_def pool_paused_def set_pool_paused_def Let_def)

lemma net_worker: "on_net m q = (r, t) \<Longrightarrow> co_worker t = co_worker q \<and> co_applied_id t = co_applied_id q \<and>
    co_applied_error t = co_applied_error q"
  by (auto simp: on_net_def split: prod.splits sum.splits)

lemma acknowledge_effect:
  assumes "acknowledge_control tr env now sched c q = (r, t)"
  shows "resolved_only (co_worker q) (co_worker t) \<and> co_applied_id t = co_applied_id q \<and>
    co_applied_error t = co_applied_error q \<and>
    (r = Inr () \<longrightarrow> co_applied_error q = [] \<and> co_worker t = mark_settings_resolved (co_worker q))"
proof -
  define u where "u = (if co_applied_error q = [] then resolve_settings q else q)"
  have u: "co_worker u = (if co_applied_error q = [] then mark_settings_resolved (co_worker q) else co_worker q)"
    "co_applied_id u = co_applied_id q" "co_applied_error u = co_applied_error q"
    by (simp_all add: u_def resolve_settings_def)
  from assms have "bindP (on_net (client_ping tr (co_name env) (Some (co_telemetry env now sched u)))) (\<lambda>_.
    bindP (\<lambda>q. on_net (client_ack_control tr (co_name env)
              \<lparr>ack_id = ctl_id c, ack_error = co_applied_error q\<rparr>) q) (\<lambda>_ q.
      if co_applied_error q \<noteq> [] then (Inl (CoApplied (co_applied_error q)), q)
      else (Inr (), resolve_settings q))) u = (r, t)"
    by (simp add: acknowledge_control_def u_def Let_def)
  then show ?thesis
  proof (cases rule: bindP_cases)
    case (fails e)
    with net_worker[OF fails(1)] u show ?thesis by (simp add: resolved_only_def)
  next
    case (continues x v)
    from continues(2) show ?thesis
    proof (cases rule: bindP_cases)
      case (fails e)
      with net_worker[OF fails(1)] net_worker[OF continues(1)] u show ?thesis by (simp add: resolved_only_def)
    next
      case c: (continues y w)
      from net_worker[OF c(1)] net_worker[OF continues(1)] u c(2) show ?thesis
        by (auto simp: resolved_only_def resolve_settings_def split: if_splits)
    qed
  qed
qed

lemma resolved_only_controlled: "resolved_only e e' \<Longrightarrow> controlled env e e'"
  using controlled_request[of ReqResolved env e] by (auto simp: resolved_only_def co_request_def slot_request_def)

lemma sync_controlled:
  assumes "sync_worker_settings d tr env now sched q = (r, t)"
  shows "controlled env (co_worker q) (co_worker t)"
  using assms unfolding sync_worker_settings_def
proof (cases rule: bindP_cases)
  case (fails e)
  with net_worker[OF fails(1)] show ?thesis by simp
next
  case (continues ws u)
  note n = net_worker[OF continues(1)]
  show ?thesis
  proof (cases "control ws")
    case (Some c)
    with continues(2) have "acknowledge_control tr env now sched c (carry_out d tr env c u) = (r, t)"
      by (simp add: apply_remote_control_def)
    from acknowledge_effect[OF this] carry_out_worker[of env u d tr c] n show ?thesis
      by (metis controlled_trans resolved_only_controlled)
  next
    case None
    have "steered env (bindP (converge ws) (\<lambda>_. writeP resolve_settings))"
      by (intro steered_bind steered_converge steered_write_resolved)
    from steeredD[OF this, of u] None continues(2) n resolve_controlled[of env u] show ?thesis
      by (auto simp: steers_def split: if_splits)
  qed
qed

section \<open>The limit and the targets of the classes\<close>

text \<open>With separate limits in force, the limit on jobs is their sum.\<close>

definition coherent :: "job_executor \<Rightarrow> bool" where
  "coherent e \<longleftrightarrow> (\<not> ex_admission_held e \<and> \<not> ex_finishing e \<and> ep_independent (ex_pool e) \<longrightarrow>
     ex_max_active e = wrap64 (ep_cpu_jobs (ex_pool e) + ep_gpu_jobs (ex_pool e)))"

lemmas coherent_write = pauses_write_frame[where P = coherent]

lemma pool_paused_policy [simp]:
  "ep_independent (ex_pool (pool_paused b e)) = ep_independent (ex_pool e)"
  "ep_cpu_jobs (ex_pool (pool_paused b e)) = ep_cpu_jobs (ex_pool e)"
  "ep_gpu_jobs (ex_pool (pool_paused b e)) = ep_gpu_jobs (ex_pool e)"
  "ep_target (ex_pool (pool_paused b e)) = ep_target (ex_pool e)"
  by (simp_all add: pool_paused_def set_pool_paused_def)

lemma limits_policy [simp]:
  "n > 0 \<Longrightarrow> \<not> ep_independent (set_target n c)" "ep_cpu_jobs (pause_limits c) = 0" "ep_gpu_jobs (pause_limits c) = 0"
  "ep_independent (set_limits a b c)" "ep_cpu_jobs (set_limits a b c) = a" "ep_gpu_jobs (set_limits a b c) = b"
  "n > 0 \<Longrightarrow> ep_target (set_target n c) = n"
  by (simp_all add: set_target_def pause_limits_def set_limits_def Let_def)

lemma wrap64_0 [simp]: "wrap64 0 = 0"
  by (rule wrap64_id) (simp add: int_range_def go_min_int_def go_max_int_def)

lemma coherent_apply: "coherent e \<Longrightarrow> 0 \<le> n \<Longrightarrow> coherent (snd (apply_limit_locked n m ram e))"
  unfolding apply_limit_locked_def
  by (rule coherent_write) (auto simp: coherent_def Let_def)

lemma total_pair: "total_jobs (pair_settings c g) = Inr t \<Longrightarrow> t = wrap64 (c + g)"
  by (simp add: total_jobs_def pair_settings_def split: if_splits)

lemma coherent_limits: "coherent e \<Longrightarrow> coherent (snd (set_encoder_limits c g e))"
proof (cases "total_jobs (pair_settings c g)")
  case (Inr t)
  assume "coherent e"
  then show ?thesis unfolding set_encoder_limits_def Inr sum.case
    by (intro coherent_write) (simp_all add: coherent_def Let_def total_pair[OF Inr])
qed (simp add: set_encoder_limits_def failP_def)

lemma coherent_drains:
  assumes "coherent e"
  shows "coherent (snd (finish_accepted_jobs e))" "coherent (snd (drain_accepted_jobs e))" "coherent (snd (hold_admission e))"
  unfolding finish_accepted_jobs_def drain_accepted_jobs_def hold_admission_def
  by (rule coherent_write; use assms in \<open>simp add: coherent_def\<close>)+

lemma coherent_ram: "coherent e \<Longrightarrow> coherent (snd (set_ram_paused goos b e))"
proof -
  assume a: "coherent e"
  have "coherent (snd (bindP (\<lambda>e. on_pauses (set_paused b) e) (\<lambda>_. modify_executor (\<lambda>e.
         let e = e\<lparr>ex_pause_mode := ''finish'', ex_ram_paused := b\<rparr>
         in pool_paused (b \<or> ex_max_active e = 0 \<or> ex_settings_pending e) e)) e))"
    using a by (intro coherent_write) (simp_all add: coherent_def Let_def)
  with a show ?thesis by (simp add: set_ram_paused_def failP_def)
qed

lemma coherent_mode: "coherent e \<Longrightarrow> coherent (snd (set_pause_mode goos v e))"
  unfolding set_pause_mode_def
  by (cases "resolve_pause_mode goos v") (simp_all add: failP_def coherent_def coherent_write[unfolded coherent_def])

lemma coherent_job_hold: "coherent e \<Longrightarrow> coherent (snd (set_job_hold uuids goos act j b e))"
  by (auto simp: set_job_hold_def failP_def on_pauses_def coherent_def
      split: option.splits if_splits prod.splits sum.splits executor_error.splits pause_error.splits)

lemma coherent_resolved: "coherent e \<Longrightarrow> coherent (mark_settings_resolved e)"
  by (simp add: mark_settings_resolved_def coherent_def Let_def)

lemma coherent_then_resolved:
  "coherent (snd (m e)) \<Longrightarrow> coherent (snd (bindP m (\<lambda>_. modify_executor mark_settings_resolved) e))"
  by (auto simp: bindP_def modify_executor_def writeP_def coherent_resolved split: prod.splits sum.splits)

lemma encode_slots_policy:
  "ep_independent (finish_encoder k c) = ep_independent c" "ep_cpu_jobs (finish_encoder k c) = ep_cpu_jobs c"
  "ep_gpu_jobs (finish_encoder k c) = ep_gpu_jobs c"
  "ep_independent (snd (try_start_encoder k c)) = ep_independent c"
  "ep_cpu_jobs (snd (try_start_encoder k c)) = ep_cpu_jobs c" "ep_gpu_jobs (snd (try_start_encoder k c)) = ep_gpu_jobs c"
  using try_start_snd[of c k] by (simp_all add: finish_encoder_def tighter_def same_policy_def Let_def)

lemma request_coherent: "coherent e \<Longrightarrow> coherent (worker_request uuids goos act q e)"
proof (cases q)
  case (ReqTake pin)
  assume "coherent e"
  with ReqTake show ?thesis by (simp add: coherent_def encode_slots_policy)
next
  case (ReqReturn k)
  assume "coherent e"
  with ReqReturn show ?thesis by (simp add: coherent_def encode_slots_policy)
next
  case (ReqGate done' starts attaches pid key)
  assume "coherent e"
  with ReqGate show ?thesis by (simp add: coherent_def)
qed (auto simp: coherent_apply coherent_limits coherent_ram coherent_drains coherent_mode coherent_job_hold coherent_resolved
      set_max_active_jobs_def persist_max_active_jobs_def persist_admission_limit_def persist_limit_def
      persist_encoder_limits_def failP_def Let_def intro!: coherent_then_resolved split: sum.splits;
    simp add: coherent_def reserve_job_slot_def release_job_slot_def accept_reserved_def clean_job_slot_def Let_def
      split: sum.splits)+

lemma new_worker_shared: "\<not> ep_independent (ex_pool (new_encode_worker c f))"
  by (simp add: new_encode_worker_def Let_def pause_limits_def set_primary_def set_pool_paused_def new_encode_concurrency_def)

lemma started_coherent: "coherent (started_worker c f managed held)"
proof -
  have "coherent (new_encode_worker c f)" by (simp add: coherent_def new_worker_shared)
  then have u: "coherent (if managed then use_managed_limits (new_encode_worker c f) else new_encode_worker c f)"
    by (simp add: use_managed_limits_def coherent_def)
  show ?thesis
    using u coherent_drains(3)[OF u]
    by (cases held) (simp_all only: started_worker_def require_worker_settings_def Let_def if_True if_False,
        simp_all add: coherent_def)
qed

section \<open>Runs\<close>

text \<open>A run of the coordinator: passes of the request routine, with the requests of the local controls,
  of the queues and of the encoder processes in between, in any order. \<open>'s\<close> is the world behind the
  network, and \<open>tr\<close> answers whatever it likes.\<close>

datatype co_step = CoPass pass_events | CoLocal executor_request

fun co_move :: "(coordinator_error \<Rightarrow> string) \<Rightarrow> 's transport \<Rightarrow> coordinator_env \<Rightarrow> co_step \<Rightarrow> 's coordinator \<Rightarrow> 's coordinator" where
  "co_move d tr env (CoPass v) q = snd (request_pass d tr env v q)"
| "co_move d tr env (CoLocal x) q = q\<lparr>co_worker := co_request env x (co_worker q)\<rparr>"

definition new_coordinator :: "job_executor \<Rightarrow> 's \<Rightarrow> 's coordinator" where
  "new_coordinator e net = \<lparr>co_worker = e, co_applied_id = [], co_applied_error = [], co_jobs = [], co_tasks = [],
     co_net = net\<rparr>"

definition requested :: "coordinator_env \<Rightarrow> job_executor \<Rightarrow> job_executor \<Rightarrow> bool" where
  "requested env e e' \<longleftrightarrow> (\<exists>qs. e' = fold (co_request env) qs e)"

lemma requested_refl: "requested env e e"
  unfolding requested_def by (rule exI[of _ "[]"]) simp

lemma requested_trans: "requested env e f \<Longrightarrow> requested env f g \<Longrightarrow> requested env e g"
proof -
  assume "requested env e f" "requested env f g"
  then obtain qs rs where "f = fold (co_request env) qs e" "g = fold (co_request env) rs f"
    by (auto simp: requested_def)
  then show ?thesis unfolding requested_def by (intro exI[of _ "qs @ rs"]) simp
qed

lemma requested_step: "requested env e (co_request env x e)"
  unfolding requested_def by (rule exI[of _ "[x]"]) simp

lemma requested_controlled: "controlled env e e' \<Longrightarrow> requested env e e'"
  by (auto simp: controlled_def requested_def)

lemma requested_keeps:
  assumes "requested env e e'" and "P e"
    and "\<And>x e. P e \<Longrightarrow> P (worker_request (co_parse_uuid env) (co_goos env) (co_active env) x e)"
  shows "P e'"
proof -
  have "P e \<Longrightarrow> P (fold (co_request env) qs e)" for qs e
    by (induction qs arbitrary: e) (simp_all add: co_request_def assms(3))
  with assms(1,2) show ?thesis by (auto simp: requested_def)
qed

text \<open>What one pass does with the slots: the reservation it makes is given back or becomes a job.\<close>

definition slot_change :: "pass_outcome \<Rightarrow> job_executor \<Rightarrow> job_executor \<Rightarrow> bool" where
  "slot_change out e e' \<longleftrightarrow> ex_reserved_jobs e' = ex_reserved_jobs e \<and>
     ex_active_jobs e' = ex_active_jobs e + (case out of PassAccepted _ \<Rightarrow> 1 | _ \<Rightarrow> 0)"

lemma release_requests: "release_job_slot e = co_request env ReqRelease e"
  by (simp add: co_request_def)

lemma release_slots:
  "0 < ex_reserved_jobs e \<Longrightarrow> ex_reserved_jobs (release_job_slot e) = ex_reserved_jobs e - 1 \<and>
    ex_active_jobs (release_job_slot e) = ex_active_jobs e"
  by (simp add: release_job_slot_def)

lemma use_reserved_effect:
  assumes "use_reserved tr env v q = (out, t)" and "0 < ex_reserved_jobs (co_worker q)"
  shows "requested env (co_worker q) (co_worker t)"
    and "ex_reserved_jobs (co_worker t) = ex_reserved_jobs (co_worker q) - 1"
    and "ex_active_jobs (co_worker t) = ex_active_jobs (co_worker q) + (case out of PassAccepted _ \<Rightarrow> 1 | _ \<Rightarrow> 0)"
    and "\<And>job. out = PassAccepted job \<Longrightarrow> pv_update v = Some False \<and> pv_sched_after v"
    and "out = PassDraining \<Longrightarrow> ex_admission_held (co_worker t)"
proof -
  let ?e = "co_worker q"
  have rel: "co_worker (release_slot x) = release_job_slot (co_worker x)" for x :: "'a coordinator"
    by (simp add: release_slot_def)
  have drain: "requested env ?e (co_worker t)" "same_slots (release_job_slot ?e) (co_worker t)"
    "r = Inr () \<Longrightarrow> ex_admission_held (co_worker t)"
    if "on_worker drain_accepted_jobs (release_slot q) = (r, t)" for r
  proof -
    have t: "co_worker t = snd (drain_accepted_jobs (release_job_slot ?e))"
      and h: "r = Inr () \<Longrightarrow> fst (drain_accepted_jobs (release_job_slot ?e)) = Inr ()"
      using that by (auto simp: on_worker_def rel split: prod.splits sum.splits)
    have "drain_accepted_jobs e = (r', e') \<Longrightarrow> r' = Inr () \<Longrightarrow> ex_admission_held e'" for e r' e'
      unfolding drain_accepted_jobs_def by (cases rule: on_pauses_write[of "\<lambda>_. resume_all"]) auto
    with t h show "r = Inr () \<Longrightarrow> ex_admission_held (co_worker t)" by (metis prod.collapse)
    show "same_slots (release_job_slot ?e) (co_worker t)" by (simp add: t slots_ops)
    have "co_worker t = co_request env ReqDrain (co_request env ReqRelease ?e)" by (simp add: t co_request_def)
    then show "requested env ?e (co_worker t)" using requested_step requested_trans by metis
  qed
  have accept: "requested env ?e (co_worker t) \<and> ex_reserved_jobs (co_worker t) = ex_reserved_jobs ?e - 1 \<and>
      ex_active_jobs (co_worker t) = ex_active_jobs ?e + (case r of Inr _ \<Rightarrow> 1 | Inl _ \<Rightarrow> 0)"
    if "on_worker (accept_reserved (pv_prepared v)) (q\<lparr>co_net := s\<rparr>) = (r, t)" for r s
  proof -
    have t: "co_worker t = snd (accept_reserved (pv_prepared v) ?e)"
      using that by (auto simp: on_worker_def split: prod.splits sum.splits)
    have "co_worker t = co_request env (ReqAccept (pv_prepared v)) ?e" by (simp add: t co_request_def)
    then have "requested env ?e (co_worker t)" by (simp add: requested_step)
    with that t assms(2) show ?thesis
      by (auto simp: on_worker_def accept_reserved_def release_job_slot_def split: sum.splits)
  qed
  have "requested env ?e (co_worker t) \<and> ex_reserved_jobs (co_worker t) = ex_reserved_jobs ?e - 1 \<and>
    ex_active_jobs (co_worker t) = ex_active_jobs ?e + (case out of PassAccepted _ \<Rightarrow> 1 | _ \<Rightarrow> 0) \<and>
    (\<forall>job. out = PassAccepted job \<longrightarrow> pv_update v = Some False \<and> pv_sched_after v) \<and>
    (out = PassDraining \<longrightarrow> ex_admission_held (co_worker t))"
  proof (cases "pv_update v")
    case None
    with assms release_slots[OF assms(2)] show ?thesis
      by (auto simp: use_reserved_def rel release_requests[of _ env] requested_step)
  next
    case (Some b)
    show ?thesis
    proof (cases b)
      case True
      obtain r u where d: "on_worker drain_accepted_jobs (release_slot q) = (r, u)" by fastforce
      with assms(1) Some True have "u = t" by (auto simp: use_reserved_def split: sum.splits)
      with d drain[of r] release_slots[OF assms(2)] assms(1) Some True show ?thesis
        by (auto simp: use_reserved_def same_slots_def split: sum.splits)
    next
      case False
      show ?thesis
      proof (cases "pv_sched_after v")
        case False
        with assms \<open>\<not> b\<close> Some release_slots[OF assms(2)] show ?thesis
          by (auto simp: use_reserved_def rel release_requests[of _ env] requested_step)
      next
        case True
        obtain r s where c: "client_request_job tr (co_name env) (co_net q) = (r, s)" by fastforce
        show ?thesis
        proof (cases r)
          case (Inl x)
          with assms \<open>\<not> b\<close> Some True c release_slots[OF assms(2)] show ?thesis
            by (auto simp: use_reserved_def rel release_requests[of _ env] requested_step)
        next
          case (Inr job)
          obtain y u where o: "on_worker (accept_reserved (pv_prepared v)) (q\<lparr>co_net := s\<rparr>) = (y, u)" by fastforce
          with assms(1) \<open>\<not> b\<close> Some True c Inr have "u = t" by (auto simp: use_reserved_def split: sum.splits)
          with o accept[of s y] assms(1) \<open>\<not> b\<close> Some True c Inr show ?thesis
            by (auto simp: use_reserved_def split: sum.splits)
        qed
      qed
    qed
  qed
  then show "requested env ?e (co_worker t)" "ex_reserved_jobs (co_worker t) = ex_reserved_jobs ?e - 1"
    "ex_active_jobs (co_worker t) = ex_active_jobs ?e + (case out of PassAccepted _ \<Rightarrow> 1 | _ \<Rightarrow> 0)"
    "\<And>job. out = PassAccepted job \<Longrightarrow> pv_update v = Some False \<and> pv_sched_after v"
    "out = PassDraining \<Longrightarrow> ex_admission_held (co_worker t)" by blast+
qed

text \<open>The whole pass, as one fact about its outcome.\<close>

definition pass_effect ::
  "(coordinator_error \<Rightarrow> string) \<Rightarrow> 's transport \<Rightarrow> coordinator_env \<Rightarrow> pass_events \<Rightarrow> 's coordinator \<Rightarrow> pass_outcome \<Rightarrow>
    's coordinator \<Rightarrow> bool" where
  "pass_effect d tr env v q out t \<longleftrightarrow> requested env (co_worker q) (co_worker t) \<and>
    slot_change out (co_worker q) (co_worker t) \<and>
    (out = PassDraining \<longrightarrow> ex_admission_held (co_worker t)) \<and>
    (\<forall>job. out = PassAccepted job \<longrightarrow> pv_update v = Some False \<and> pv_sched_after v \<and>
      (\<exists>u. sync_worker_settings d tr env (pv_now v) (pv_sched v) q = (Inr (), u) \<and>
        can_reserve_job_slot (pv_sched v) (co_worker u)))"

lemma request_pass_effect:
  assumes "request_pass d tr env v q = (out, t)" and "0 \<le> ex_reserved_jobs (co_worker q)"
  shows "pass_effect d tr env v q out t"
proof -
  obtain r u where y: "sync_worker_settings d tr env (pv_now v) (pv_sched v) q = (r, u)" by fastforce
  note sc = sync_controlled[OF y]
  have same: "same_slots (co_worker q) (co_worker u)" by (rule controlled_slots[OF sc])
  have idle: "pass_effect d tr env v q out t" if "t = u" "out = PassNotReserved \<or> (\<exists>x. out = PassSyncFailed x)"
    using that sc same by (auto simp: pass_effect_def requested_controlled slot_change_def same_slots_def)
  show ?thesis
  proof (cases r)
    case (Inl x)
    with y assms(1) have "t = u" "out = PassSyncFailed x" by (auto simp: request_pass_def)
    with idle show ?thesis by blast
  next
    case (Inr ok)
    obtain b e where res: "reserve_job_slot (pv_sched v) (co_worker u) = (b, e)" by fastforce
    show ?thesis
    proof (cases b)
      case False
      with idle y assms(1) Inr res show ?thesis by (simp add: request_pass_def)
    next
      case True
      with res have c: "can_reserve_job_slot (pv_sched v) (co_worker u)"
        and e: "e = (co_worker u)\<lparr>ex_reserved_jobs := ex_reserved_jobs (co_worker u) + 1\<rparr>"
        by (auto simp: reserve_job_slot_def split: if_splits)
      have "e = co_request env (ReqReserve (pv_sched v)) (co_worker u)" by (simp add: co_request_def res)
      then have re: "requested env (co_worker q) e"
        using requested_trans[OF requested_controlled[OF sc] requested_step] by metis
      from assms(1) y Inr res True have g: "use_reserved tr env v (u\<lparr>co_worker := e\<rparr>) = (out, t)"
        by (simp add: request_pass_def)
      have p: "0 < ex_reserved_jobs (co_worker (u\<lparr>co_worker := e\<rparr>))"
        using assms(2) same by (simp add: e same_slots_def)
      note f = use_reserved_effect[OF g p]
      have "requested env (co_worker q) (co_worker t)" using requested_trans[OF re] f(1) by simp
      moreover have "slot_change out (co_worker q) (co_worker t)"
        using f(2,3) same by (simp add: slot_change_def e same_slots_def)
      ultimately show ?thesis using f(4,5) c y Inr by (auto simp: pass_effect_def)
    qed
  qed
qed

lemma move_requested:
  assumes "0 \<le> ex_reserved_jobs (co_worker q)"
  shows "requested env (co_worker q) (co_worker (co_move d tr env x q))"
proof (cases x)
  case (CoPass v)
  obtain out t where "request_pass d tr env v q = (out, t)" by fastforce
  with request_pass_effect[OF this assms] CoPass show ?thesis by (simp add: pass_effect_def)
next
  case (CoLocal y)
  then show ?thesis by (simp add: requested_step)
qed

lemma reserved_nonneg:
  "0 \<le> ex_reserved_jobs e \<Longrightarrow> 0 \<le> ex_reserved_jobs (worker_request uuids goos act x e)"
  using other_slots[of x e uuids goos act]
  by (cases "slot_request x"; cases x)
    (auto simp: slot_request_def same_slots_def reserve_job_slot_def release_job_slot_def accept_reserved_def
      clean_job_slot_def split: sum.splits)

text \<open>Whatever every request of the executor keeps, a run of the coordinator keeps.\<close>

lemma run_keeps:
  assumes "P (co_worker q)" and "0 \<le> ex_reserved_jobs (co_worker q)"
    and "\<And>x e. P e \<Longrightarrow> P (worker_request (co_parse_uuid env) (co_goos env) (co_active env) x e)"
  shows "P (co_worker (fold (co_move d tr env) xs q)) \<and> 0 \<le> ex_reserved_jobs (co_worker (fold (co_move d tr env) xs q))"
  using assms(1,2)
proof (induction xs arbitrary: q)
  case (Cons x xs)
  note m = move_requested[OF Cons(3), of env d tr x]
  from requested_keeps[OF m Cons(2) assms(3)] requested_keeps[OF m Cons(3) reserved_nonneg] Cons(1)
  show ?case by simp
qed simp

lemma started_reserved: "ex_reserved_jobs (started_worker c f managed held) = 0"
proof -
  have s: "same_slots e (snd (hold_admission e))" for e by (rule slots_ops)
  show ?thesis
    using s[of "use_managed_limits (new_encode_worker c f)"] s[of "new_encode_worker c f"]
    by (simp add: started_worker_def require_worker_settings_def same_slots_def use_managed_limits_def
        new_worker_fields Let_def)
qed

section \<open>The properties\<close>

text \<open>The limits a settings value of the server asks for.\<close>

definition follows :: "worker_settings \<Rightarrow> job_executor \<Rightarrow> bool" where
  "follows ws e = (case (cpu_jobs ws, gpu_jobs ws) of
      (Some c, Some g) \<Rightarrow> ep_independent (ex_pool e) \<and> ep_cpu_jobs (ex_pool e) = c \<and> ep_gpu_jobs (ex_pool e) = g \<and>
        ex_max_active e = wrap64 (c + g)
    | _ \<Rightarrow> (case max_active_jobs ws of None \<Rightarrow> True
        | Some m \<Rightarrow> ex_max_active e = m \<and> (0 < m \<longrightarrow> ep_target (ex_pool e) = m \<and> \<not> ep_independent (ex_pool e))))"

lemma pauses_write_Inr:
  assumes "bindP (\<lambda>e. on_pauses (m e) e) (\<lambda>_. modify_executor f) e = (Inr x, e')"
  obtains p where "e' = f (e\<lparr>ex_pauses := p\<rparr>)"
  using assms by (rule on_pauses_write) auto

lemma set_max_Inr:
  assumes "set_max_active_jobs m e = (Inr u, e')"
  shows "ex_max_active e' = m \<and> (0 < m \<longrightarrow> ep_target (ex_pool e') = m \<and> \<not> ep_independent (ex_pool e'))"
proof -
  from assms have "apply_limit_locked m (ex_pause_mode e) (ex_ram_paused e) e = (Inr u, e')"
    by (auto simp: set_max_active_jobs_def failP_def split: if_splits)
  then show ?thesis unfolding apply_limit_locked_def
    by (rule pauses_write_Inr) (auto simp: Let_def)
qed

lemma set_limits_Inr:
  assumes "set_encoder_limits c g e = (Inr u, e')"
  shows "ep_independent (ex_pool e') \<and> ep_cpu_jobs (ex_pool e') = c \<and> ep_gpu_jobs (ex_pool e') = g \<and>
    ex_max_active e' = wrap64 (c + g)"
proof (cases "total_jobs (pair_settings c g)")
  case (Inr t)
  from assms[unfolded set_encoder_limits_def Inr sum.case] show ?thesis
    by (rule pauses_write_Inr) (simp add: Let_def total_pair[OF Inr])
qed (use assms in \<open>simp add: set_encoder_limits_def failP_def\<close>)

lemma on_worker_Inr: "on_worker m q = (Inr x, t) \<Longrightarrow> \<exists>e. m (co_worker q) = (Inr x, e) \<and> t = q\<lparr>co_worker := e\<rparr>"
  by (auto simp: on_worker_def split: prod.splits sum.splits)

lemma converge_follows:
  assumes "converge ws q = (Inr u, t)" and "coherent (co_worker q)"
    and "\<not> ex_finishing (co_worker q)" "\<not> ex_admission_held (co_worker q)"
  shows "follows ws (co_worker t)"
proof (cases "\<exists>c g. cpu_jobs ws = Some c \<and> gpu_jobs ws = Some g")
  case True
  then obtain c g where ws: "cpu_jobs ws = Some c" "gpu_jobs ws = Some g" by blast
  show ?thesis
  proof (cases "on_worker (set_encoder_limits c g) q = (Inr u, t)")
    case True
    with ws show ?thesis using on_worker_Inr[OF True] set_limits_Inr by (auto simp: follows_def)
  next
    case False
    with assms ws show ?thesis by (auto simp: converge_def follows_def coherent_def Let_def split: if_splits)
  qed
next
  case False
  show ?thesis
  proof (cases "\<exists>m. on_worker (set_max_active_jobs m) q = (Inr u, t) \<and> max_active_jobs ws = Some m")
    case True
    then obtain m where m: "on_worker (set_max_active_jobs m) q = (Inr u, t)" "max_active_jobs ws = Some m" by blast
    from on_worker_Inr[OF m(1)] set_max_Inr m(2) False show ?thesis
      by (auto simp: follows_def split: option.splits)
  next
    case no: False
    with False assms(1) show ?thesis
      by (auto simp: converge_def follows_def Let_def split: option.splits if_splits)
  qed
qed

lemma follows_resolved: "follows ws (mark_settings_resolved e) = follows ws e"
  by (simp add: follows_def mark_settings_resolved_def Let_def pool_paused_def set_pool_paused_def split: option.splits)

lemma run_coherent:
  "coherent (co_worker (fold (co_move d tr env) xs (new_coordinator (started_worker c f managed held) net)))"
  using run_keeps[of coherent "new_coordinator (started_worker c f managed held) net" env d tr xs]
  by (simp add: new_coordinator_def started_coherent started_reserved request_coherent)

lemma sync_follows:
  assumes "coherent (co_worker q)" and "sync_worker_settings d tr env now sched q = (Inr (), t)"
    and "client_settings tr (co_name env) (co_net q) = (Inr ws, net')" and "control ws = None"
    and "\<not> ex_finishing (co_worker q)" and "\<not> ex_admission_held (co_worker q)"
  shows "follows ws (co_worker t) \<and> \<not> ex_settings_pending (co_worker t)"
proof -
  have net: "on_net (client_settings tr (co_name env)) q = (Inr ws, q\<lparr>co_net := net'\<rparr>)"
    using assms(3) by (simp add: on_net_def)
  from assms(2) net assms(4-6)
  have "bindP (converge ws) (\<lambda>_. writeP resolve_settings) (q\<lparr>co_net := net'\<rparr>) = (Inr (), t)"
    by (simp add: sync_worker_settings_def bindP_run)
  then obtain x u where "converge ws (q\<lparr>co_net := net'\<rparr>) = (Inr x, u)" "t = resolve_settings u"
    by (auto simp: writeP_def elim!: bindP_InrE)
  with converge_follows[of ws "q\<lparr>co_net := net'\<rparr>" x u] assms(1,5,6) show ?thesis
    by (simp add: resolve_settings_def follows_resolved) (simp add: mark_settings_resolved_def Let_def pool_paused_def)
qed

text \<open>In every reachable state, a synchronisation that succeeds leaves the worker at the limits the
  server answered with, separate limits and their total or the one maximum, with its settings
  resolved: whatever the local controls did before, and unless accepted work is being drained.\<close>

theorem synchronisation_converges:
  fixes d tr env xs c f managed held net
  defines "q \<equiv> fold (co_move d tr env) xs (new_coordinator (started_worker c f managed held) net)"
  assumes "sync_worker_settings d tr env now sched q = (Inr (), t)"
    and "client_settings tr (co_name env) (co_net q) = (Inr ws, net')" and "control ws = None"
    and "\<not> ex_finishing (co_worker q)" and "\<not> ex_admission_held (co_worker q)"
  shows "follows ws (co_worker t) \<and> \<not> ex_settings_pending (co_worker t)"
  unfolding q_def by (rule sync_follows[OF run_coherent assms(2-6)[unfolded q_def]])

text \<open>A transport that answers every call, for the examples.\<close>

definition demo_env :: coordinator_env where
  "demo_env = \<lparr>co_goos = ''linux'', co_parse_uuid = (\<lambda>s. Some s), co_active = (\<lambda>_. Inr True), co_name = ''w1'',
     co_version = ''1'', co_config = demo_worker_config []\<rparr>"

definition demo_transport :: "worker_settings \<Rightarrow> unit transport" where
  "demo_transport ws = \<lparr>tr_settings = (\<lambda>_ s. (Reply 200 (Some ws), s)), tr_write = (\<lambda>_ _ s. (Reply 204 None, s)),
     tr_ack = (\<lambda>_ _ s. (Reply 204 None, s)),
     tr_job = (\<lambda>_ s. (Reply 200 (Some \<lparr>rs_id = ''j1'', rs_event_id = 2, rs_name = ''film.mkv''\<rparr>), s)),
     tr_ping = (\<lambda>_ _ s. (Reply 200 None, s)), tr_event = (\<lambda>_ s. (Reply 200 None, s)),
     tr_progress = (\<lambda>_ s. (Reply 200 None, s))\<rparr>"

definition demo_pair :: worker_settings where
  "demo_pair = empty_settings\<lparr>max_active_jobs := Some 3, cpu_jobs := Some 1, gpu_jobs := Some 2\<rparr>"

definition demo_pass :: pass_events where
  "demo_pass = \<lparr>pv_now = 0, pv_sched = True, pv_sched_after = True, pv_update = Some False, pv_prepared = Inr ()\<rparr>"

abbreviation demo_worker :: job_executor where
  "demo_worker \<equiv> started_worker (demo_worker_config []) demo_ffmpeg False False"

abbreviation demo_coordinator :: "unit coordinator" where
  "demo_coordinator \<equiv> new_coordinator demo_worker ()"

theorem synchronisation_converges_witness:
  "\<exists>t. sync_worker_settings (\<lambda>_. []) (demo_transport demo_pair) demo_env 0 True
      (fold (co_move (\<lambda>_. []) (demo_transport demo_pair) demo_env) [CoLocal (ReqPersistMax True 4)] demo_coordinator)
      = (Inr (), t) \<and> follows demo_pair (co_worker t)"
proof -
  let ?q = "fold (co_move (\<lambda>_. []) (demo_transport demo_pair) demo_env) [CoLocal (ReqPersistMax True 4)] demo_coordinator"
  have e: "\<not> ex_finishing (co_worker ?q)" "\<not> ex_admission_held (co_worker ?q)" by code_simp+
  have c: "client_settings (demo_transport demo_pair) (co_name demo_env) (co_net ?q) = (Inr demo_pair, ())" by code_simp
  have "map_sum (\<lambda>_. ()) id (fst (sync_worker_settings (\<lambda>_. []) (demo_transport demo_pair) demo_env 0 True ?q)) = Inr ()"
    by code_simp
  from run_value[OF this] obtain t where t:
    "sync_worker_settings (\<lambda>_. []) (demo_transport demo_pair) demo_env 0 True ?q = (Inr (), t)" by auto
  from synchronisation_converges[OF t c _ e] t show ?thesis by (simp add: demo_pair_def empty_settings_def)
qed

text \<open>A pass of the request routine leaks no slot: its reservation is given back, or it became one more
  active job. And a job is accepted only with the settings synchronised, room and the schedule open
  before and after the update check, and no update due.\<close>

theorem pass_keeps_slots:
  assumes "request_pass d tr env v q = (out, t)" and "0 \<le> ex_reserved_jobs (co_worker q)"
  shows "ex_reserved_jobs (co_worker t) = ex_reserved_jobs (co_worker q) \<and>
    ex_active_jobs (co_worker t) = ex_active_jobs (co_worker q) + (case out of PassAccepted _ \<Rightarrow> 1 | _ \<Rightarrow> 0) \<and>
    (\<forall>job. out = PassAccepted job \<longrightarrow> pv_update v = Some False \<and> pv_sched_after v \<and>
      (\<exists>u. sync_worker_settings d tr env (pv_now v) (pv_sched v) q = (Inr (), u) \<and>
        can_reserve_job_slot (pv_sched v) (co_worker u)))"
  using request_pass_effect[OF assms] by (auto simp: pass_effect_def slot_change_def)

theorem pass_keeps_slots_witness:
  "\<exists>t job. request_pass (\<lambda>_. []) (demo_transport demo_pair) demo_env demo_pass demo_coordinator = (PassAccepted job, t) \<and>
    ex_reserved_jobs (co_worker t) = 0"
proof -
  obtain out t where p: "request_pass (\<lambda>_. []) (demo_transport demo_pair) demo_env demo_pass demo_coordinator = (out, t)"
    by fastforce
  have "(case fst (request_pass (\<lambda>_. []) (demo_transport demo_pair) demo_env demo_pass demo_coordinator) of
    PassAccepted _ \<Rightarrow> True | _ \<Rightarrow> False)" by code_simp
  with p have "\<exists>job. out = PassAccepted job" by (simp split: pass_outcome.splits)
  moreover from pass_keeps_slots[OF p] have "ex_reserved_jobs (co_worker t) = 0"
    by (simp add: new_coordinator_def started_reserved)
  ultimately show ?thesis using p by blast
qed

text \<open>Once an update has drained the worker, no later pass takes a job, whatever the server answers
  and whatever controls arrive while the accepted work finishes.\<close>

theorem update_drain_is_final:
  assumes "request_pass d tr env v q = (PassDraining, t)" and "0 \<le> ex_reserved_jobs (co_worker q)"
    and "request_pass d tr env v' (fold (co_move d tr env) xs t) = (out, u)"
  shows "\<forall>job. out \<noteq> PassAccepted job"
proof (intro allI notI)
  fix job
  assume out: "out = PassAccepted job"
  let ?w = "fold (co_move d tr env) xs t"
  from request_pass_effect[OF assms(1,2)] assms(2)
  have t: "ex_admission_held (co_worker t)" "0 \<le> ex_reserved_jobs (co_worker t)"
    by (simp_all add: pass_effect_def slot_change_def)
  from run_keeps[where P = ex_admission_held, OF t request_held]
  have w: "ex_admission_held (co_worker ?w)" "0 \<le> ex_reserved_jobs (co_worker ?w)" by blast+
  from request_pass_effect[OF assms(3) w(2)] out obtain x where
    x: "sync_worker_settings d tr env (pv_now v') (pv_sched v') ?w = (Inr (), x)" "can_reserve_job_slot (pv_sched v') (co_worker x)"
    by (auto simp: pass_effect_def)
  from requested_keeps[where P = ex_admission_held, OF requested_controlled[OF sync_controlled[OF x(1)]] w(1) request_held] x(2)
  show False by (simp add: can_reserve_job_slot_def)
qed

theorem update_drain_is_final_witness:
  "\<forall>job. fst (request_pass (\<lambda>_. []) (demo_transport demo_pair) demo_env demo_pass
     (fold (co_move (\<lambda>_. []) (demo_transport demo_pair) demo_env) [CoPass demo_pass, CoLocal (ReqPersistMax True 4)]
       (snd (request_pass (\<lambda>_. []) (demo_transport demo_pair) demo_env (demo_pass\<lparr>pv_update := Some True\<rparr>) demo_coordinator))))
    \<noteq> PassAccepted job"
proof -
  let ?p = "request_pass (\<lambda>_. []) (demo_transport demo_pair) demo_env (demo_pass\<lparr>pv_update := Some True\<rparr>) demo_coordinator"
  have "(case fst ?p of PassDraining \<Rightarrow> True | _ \<Rightarrow> False)" by code_simp
  then have p: "?p = (PassDraining, snd ?p)" by (cases ?p) (simp split: pass_outcome.splits)
  have "0 \<le> ex_reserved_jobs (co_worker demo_coordinator)" by (simp add: new_coordinator_def started_reserved)
  from update_drain_is_final[OF p this prod.collapse[symmetric]] show ?thesis by blast
qed






end
