(* ===== verification/Pipeline_Claims.thy ===== *)
theory Pipeline_Claims
  imports Pipeline Coordinator_Claims "HOL-Library.Sublist"
begin

text \<open>
  What holds of a job on the worker: without restarts it always ends, with exactly one final event;
  whatever restarts happen, the encoder is only started with every file it reads in place, and a job
  is reported complete only after it was encoded, verified and uploaded.
\<close>

section \<open>Publishing\<close>

lemma publish_fields [simp]:
  "pl_at (publish_task_event tr env w ty st msg p) = pl_at p"
  "pl_files (publish_task_event tr env w ty st msg p) = pl_files p"
  "pl_ctx (publish_task_event tr env w ty st msg p) = update_event ty st (event_message ty msg (pl_ctx p)) (pl_ctx p)"
  by (simp_all add: publish_task_event_def Let_def)

lemma update_event_fields [simp]:
  "jc_source (update_event ty st msg c) = jc_source c" "jc_target (update_event ty st msg c) = jc_target c"
  "jc_working_dir (update_event ty st msg c) = jc_working_dir c" "jc_job_id (update_event ty st msg c) = jc_job_id c"
  "source_probe_of (update_event ty st msg c) = source_probe_of c"
  "jc_event_id (update_event ty st msg c) = jc_event_id c"
  by (simp_all add: update_event_def Let_def source_probe_of_def)

lemma update_event_last:
  "\<exists>l. jc_last_event (update_event ty st msg c) = Some l \<and> cx_type l = ty \<and> cx_status l = st \<and> cx_event_id l = last_id c + 1"
  by (simp add: update_event_def last_id_def Let_def split: option.splits)

definition kind_of :: "task_event \<Rightarrow> notification_type \<times> notification_status" where
  "kind_of e = (notification_type e, status e)"

lemma publish_sent:
  "\<exists>e. pl_sent (publish_task_event tr env w ty st msg p) = pl_sent p @ [e] \<and> kind_of e = (ty, st) \<and>
    event_id e = last_id (pl_ctx p) + 1 \<and> job_id e = jc_job_id (pl_ctx p)"
proof -
  let ?c = "update_event ty st (event_message ty msg (pl_ctx p)) (pl_ctx p)"
  obtain l where l: "jc_last_event ?c = Some l" "cx_type l = ty" "cx_status l = st" "cx_event_id l = last_id (pl_ctx p) + 1"
    using update_event_last by blast
  then show ?thesis
    by (auto simp: publish_task_event_def Let_def event_of_context_def kind_of_def)
qed

lemma publish_saved:
  "pl_saved (publish_task_event tr env w ty st msg p) \<in>
    {pl_saved p, None, Some (update_event ty st (event_message ty msg (pl_ctx p)) (pl_ctx p))}"
  by (cases "sw_saves w (event_id (event_of_context (sw_now w) (pe_transport_name env)
      (update_event ty st (event_message ty msg (pl_ctx p)) (pl_ctx p))))")
    (simp_all add: publish_task_event_def Let_def)

lemma last_id_update [simp]: "last_id (update_event ty st msg c) = last_id c + 1"
  by (simp add: last_id_def update_event_def Let_def split: option.splits)

section \<open>Termination\<close>

definition phase_rank :: "notification_type \<Rightarrow> nat" where
  "phase_rank ph = (case ph of DownloadNotification \<Rightarrow> 6 | MKVExtractNotification \<Rightarrow> 5 | PGSNotification \<Rightarrow> 4
     | FFMPEGSNotification \<Rightarrow> 3 | JobVerify \<Rightarrow> 2 | UploadNotification \<Rightarrow> 1 | _ \<Rightarrow> 0)"

definition position_rank :: "position \<Rightarrow> nat" where
  "position_rank q = (case q of Queued_At ph \<Rightarrow> 4 * phase_rank ph + 1 | Begun ph \<Rightarrow> 4 * phase_rank ph
     | Acted ph _ \<Rightarrow> 4 * phase_rank ph - 1 | Reported ph _ \<Rightarrow> 4 * phase_rank ph - 2 | Closing \<Rightarrow> 1 | Gone \<Rightarrow> 0)"

text \<open>What a phase finds, and what it leaves when it succeeds.\<close>

definition supplied :: "notification_type \<Rightarrow> job_context \<Rightarrow> bool" where
  "supplied ph c \<longleftrightarrow> ph \<in> set pipeline_phases \<and> (ph \<noteq> DownloadNotification \<longrightarrow> source_probe_of c \<noteq> None) \<and>
     (ph = JobVerify \<or> ph = UploadNotification \<longrightarrow> jc_target c \<noteq> None)"

definition final_kinds :: "(notification_type \<times> notification_status) set" where
  "final_kinds = {(JobNotification, Completed), (JobNotification, Failed)}"

definition finals :: "task_event list \<Rightarrow> nat" where
  "finals es = length (filter (\<lambda>e. kind_of e \<in> final_kinds) es)"

definition on_track :: "'s pipeline \<Rightarrow> bool" where
  "on_track p \<longleftrightarrow> (case pl_at p of
     Queued_At ph \<Rightarrow> supplied ph (pl_ctx p) \<and> finals (pl_sent p) = 0
   | Begun ph \<Rightarrow> supplied ph (pl_ctx p) \<and> finals (pl_sent p) = 0
   | Acted ph es \<Rightarrow> supplied ph (pl_ctx p) \<and> finals (pl_sent p) = 0 \<and> (es = [] \<longrightarrow>
       source_probe_of (pl_ctx p) \<noteq> None \<and> (ph = FFMPEGSNotification \<longrightarrow> jc_target (pl_ctx p) \<noteq> None))
   | Reported ph es \<Rightarrow> supplied ph (pl_ctx p) \<and> finals (pl_sent p) = 0 \<and> (es = [] \<longrightarrow>
       source_probe_of (pl_ctx p) \<noteq> None \<and> (ph = FFMPEGSNotification \<longrightarrow> jc_target (pl_ctx p) \<noteq> None))
   | _ \<Rightarrow> pl_sent p \<noteq> [] \<and> kind_of (last (pl_sent p)) \<in> final_kinds \<and> finals (pl_sent p) = 1)"

lemma supplied_cong:
  "source_probe_of c' = source_probe_of c \<Longrightarrow> jc_target c' = jc_target c \<Longrightarrow> supplied ph c' = supplied ph c"
  by (simp add: supplied_def)

lemma supplied_ready: "supplied ph c \<Longrightarrow> ready ph c"
  by (auto simp: supplied_def ready_def pipeline_phases_def)

lemma publish_finals:
  "(ty, st) \<notin> final_kinds \<Longrightarrow> finals (pl_sent (publish_task_event tr env w ty st msg p)) = finals (pl_sent p)"
  "(ty, st) \<in> final_kinds \<Longrightarrow> finals (pl_sent (publish_task_event tr env w ty st msg p)) = Suc (finals (pl_sent p)) \<and>
    pl_sent (publish_task_event tr env w ty st msg p) \<noteq> [] \<and>
    kind_of (last (pl_sent (publish_task_event tr env w ty st msg p))) \<in> final_kinds"
  using publish_sent[of tr env w ty st msg p] by (auto simp: finals_def)

lemma fail_on_track:
  "finals (pl_sent p) = 0 \<Longrightarrow> on_track (fail_job tr env w ph msg p) \<and> pl_at (fail_job tr env w ph msg p) = Closing"
  using publish_finals(2)[of JobNotification Failed tr env w "phase_name ph @ '':'' @ msg" p]
  by (simp add: fail_job_def on_track_def final_kinds_def)

lemma clean_job_at [simp]: "pl_at (clean_job w p) = Gone"
  and clean_job_sent [simp]: "pl_sent (clean_job w p) = pl_sent p"
  and clean_job_ctx [simp]: "pl_ctx (clean_job w p) = pl_ctx p"
  and clean_job_net [simp]: "pl_net (clean_job w p) = pl_net p"
  by (simp_all add: clean_job_def split: clean_outcome.splits)

lemma clean_job_saved: "pl_saved (clean_job w p) \<in> {pl_saved p, None}"
  by (simp add: clean_job_def split: clean_outcome.splits)

lemma run_actions_frame:
  assumes "run_actions w as p = (es, q)"
  shows "pl_sent q = pl_sent p \<and> pl_saved q = pl_saved p \<and> jc_working_dir (pl_ctx q) = jc_working_dir (pl_ctx p) \<and>
    jc_job_id (pl_ctx q) = jc_job_id (pl_ctx p) \<and> last_id (pl_ctx q) = last_id (pl_ctx p) \<and> pl_net q = pl_net p \<and>
    set (pl_files p) \<subseteq> set (pl_files q) \<and>
    (Download \<notin> set as \<longrightarrow> source_probe_of (pl_ctx q) = source_probe_of (pl_ctx p) \<and> jc_source (pl_ctx q) = jc_source (pl_ctx p)) \<and>
    (jc_target (pl_ctx p) \<noteq> None \<longrightarrow> jc_target (pl_ctx q) \<noteq> None)"
  using assms
proof (induction as arbitrary: p es)
  case (Cons a as)
  show ?case
  proof (cases "sw_fails w a")
    case None
    with Cons(2) have "run_actions w as (action_effect w a p) = (es, q)" by simp
    from Cons(1)[OF this] show ?thesis
      by (cases a) (auto simp: action_effect_def Let_def source_probe_of_def last_id_def split: option.splits)
  next
    case (Some e)
    with Cons(2) obtain fs where "run_actions w as p = (fs, q)" by (auto split: prod.splits)
    from Cons(1)[OF this] show ?thesis by auto
  qed
qed simp

lemma advance_on_track:
  assumes "on_track p" and "vd_probe (sw_downloaded w) \<noteq> None" and "pl_at p \<noteq> Gone"
  shows "on_track (advance tr env w p) \<and> position_rank (pl_at (advance tr env w p)) < position_rank (pl_at p) \<and>
    (pl_at (advance tr env w p) = Gone \<longrightarrow> pl_at p = Closing)"
proof (cases "pl_at p")
  case (Queued_At ph)
  with assms have s: "supplied ph (pl_ctx p)" "finals (pl_sent p) = 0" by (simp_all add: on_track_def)
  have nf: "(ph, Started) \<notin> final_kinds" for ph by (simp add: final_kinds_def)
  show ?thesis
  proof (cases "ph = FFMPEGSNotification")
    case True
    show ?thesis
    proof (cases "pin_encoder_profile (pe_config env) (sw_kind w) (jc_encode_config (pl_ctx p))")
      case (Inl x)
      with Queued_At True s fail_on_track[OF s(2)] show ?thesis
        by (simp add: advance_def begin_encode_def position_rank_def phase_rank_def)
    next
      case (Inr f)
      with Queued_At True s show ?thesis
        by (simp add: publish_finals(1)[OF nf] advance_def begin_encode_def position_rank_def phase_rank_def on_track_def supplied_def source_probe_of_def)
    qed
  next
    case False
    with Queued_At s show ?thesis
      by (auto simp add: publish_finals(1)[OF nf] advance_def position_rank_def on_track_def supplied_def)
  qed
next
  case (Begun ph)
  with assms have s: "supplied ph (pl_ctx p)" "finals (pl_sent p) = 0" by (simp_all add: on_track_def)
  let ?as = "if runners env ph \<le> 0 then [] else phase_actions ph (pl_ctx p)"
  obtain es q where r: "run_actions w ?as p = (es, q)" by fastforce
  have a: "advance tr env w p = q\<lparr>pl_at := Acted ph es\<rparr>" by (simp add: advance_def Begun supplied_ready[OF s(1)] r)
  have "supplied ph (pl_ctx q) \<and> (es = [] \<longrightarrow> source_probe_of (pl_ctx q) \<noteq> None \<and>
      (ph = FFMPEGSNotification \<longrightarrow> jc_target (pl_ctx q) \<noteq> None))"
  proof (cases "ph = DownloadNotification \<or> ph = FFMPEGSNotification")
    case True
    with r s assms(2) show ?thesis
      by (auto simp: runners_def phase_actions_def supplied_def action_effect_def source_probe_of_def Let_def pipeline_phases_def
          split: option.splits)
  next
    case False
    then have "Download \<notin> set ?as" by (auto simp: phase_actions_def split: notification_type.splits option.splits)
    with run_actions_frame[OF r] s False show ?thesis by (auto simp: supplied_def)
  qed
  moreover have "phase_rank ph > 0" using s(1) by (auto simp: supplied_def pipeline_phases_def phase_rank_def)
  ultimately show ?thesis using s(2) run_actions_frame[OF r] Begun
    by (simp add: a on_track_def position_rank_def)
next
  case (Acted ph es)
  with assms have s: "supplied ph (pl_ctx p)" "finals (pl_sent p) = 0" by (simp_all add: on_track_def)
  have nf: "(ph, st) \<notin> final_kinds" for st using s(1) by (auto simp: final_kinds_def supplied_def pipeline_phases_def)
  have "phase_rank ph > 0" using s(1) by (auto simp: supplied_def pipeline_phases_def phase_rank_def)
  with assms Acted s show ?thesis
    by (simp add: publish_finals(1)[OF nf] advance_def on_track_def position_rank_def supplied_def)
next
  case (Reported ph es)
  with assms have s: "supplied ph (pl_ctx p)" "finals (pl_sent p) = 0" by (simp_all add: on_track_def)
  have k: "phase_rank ph > 0" using s(1) by (auto simp: supplied_def pipeline_phases_def phase_rank_def)
  show ?thesis
  proof (cases "es = []")
    case False
    with Reported k fail_on_track[OF s(2)] show ?thesis by (simp add: advance_def position_rank_def)
  next
    case True
    with assms Reported have g: "source_probe_of (pl_ctx p) \<noteq> None" "ph = FFMPEGSNotification \<longrightarrow> jc_target (pl_ctx p) \<noteq> None"
      by (simp_all add: on_track_def)
    show ?thesis
    proof (cases "ph = UploadNotification")
      case u: True
      with publish_finals(2)[of JobNotification Completed tr env w "[]" p] True Reported s(2) show ?thesis
        by (simp add: advance_def route_def on_track_def position_rank_def final_kinds_def phase_rank_def)
    next
      case False
      with s(1) g obtain n where n: "next_phase ph (pl_ctx p) = Some n" "phase_rank n < phase_rank ph" "supplied n (pl_ctx p)"
        by (auto simp: supplied_def pipeline_phases_def next_phase_def phase_rank_def split: option.splits)
      with False True Reported s(2) show ?thesis by (simp add: advance_def route_def on_track_def position_rank_def)
    qed
  qed
next
  case Closing
  with assms show ?thesis by (simp add: advance_def on_track_def position_rank_def)
next
  case Gone
  with assms(3) show ?thesis by simp
qed

lemma position_rank_Gone [simp]: "position_rank Gone = 0"
  by (simp add: position_rank_def)

lemma run_on_track:
  assumes "\<forall>w\<in>set ws. vd_probe (sw_downloaded w) \<noteq> None" and "on_track p"
  shows "on_track (fold (advance tr env) ws p) \<and>
    position_rank (pl_at (fold (advance tr env) ws p)) \<le> position_rank (pl_at p) - length ws"
  using assms
proof (induction ws arbitrary: p)
  case (Cons w ws)
  show ?case
  proof (cases "pl_at p = Gone")
    case True
    then have "advance tr env w p = p" by (simp add: advance_def)
    with Cons(1)[of p] Cons(2,3) True show ?thesis by simp
  next
    case False
    with advance_on_track[OF Cons(3), of w tr env] Cons(1)[of "advance tr env w p"] Cons(2) show ?thesis
      by fastforce
  qed
qed simp

lemma accepted_fields:
  "pl_at (accept_job tr env w temp pinned r net) = Queued_At DownloadNotification"
  "pl_files (accept_job tr env w temp pinned r net) = []"
  by (simp_all add: accept_job_def Let_def)

lemma accepted_start:
  obtains p0 where "accept_job tr env w temp pinned r net = publish_task_event tr env w JobNotification Started [] p0"
    "pl_sent p0 = []" "pl_saved p0 = None" "pl_files p0 = []" "last_id (pl_ctx p0) = rs_event_id r"
    "jc_job_id (pl_ctx p0) = rs_id r" "pl_at p0 = Queued_At DownloadNotification" "source_probe_of (pl_ctx p0) = None"
    "pl_net p0 = net"
proof -
  let ?c = "new_context (rs_id r) (rs_event_id r) (join_path [temp, rs_id r])"
  let ?c = "?c\<lparr>jc_source := Some (empty_video_data\<lparr>vd_name := rs_name r\<rparr>)\<rparr>"
  let ?c = "case pinned of None \<Rightarrow> ?c | Some (k, f) \<Rightarrow> ?c\<lparr>jc_encode_kind := k, jc_encode_config := Some f\<rparr>"
  show thesis
    by (rule that[of "\<lparr>pl_ctx = ?c, pl_saved = None, pl_files = [], pl_at = Queued_At DownloadNotification, pl_sent = [], pl_net = net\<rparr>"])
      (simp_all add: accept_job_def Let_def new_context_def last_id_def source_probe_of_def empty_video_data_def split: option.splits)
qed

lemma accepted_on_track: "on_track (accept_job tr env w temp pinned r net)"
proof -
  have nf: "(JobNotification, Started) \<notin> final_kinds" by (simp add: final_kinds_def)
  obtain p0 where "accept_job tr env w temp pinned r net = publish_task_event tr env w JobNotification Started [] p0"
    "pl_sent p0 = []" "pl_at p0 = Queued_At DownloadNotification" by (rule accepted_start)
  then show ?thesis
    by (simp add: on_track_def publish_finals(1)[OF nf]) (simp add: finals_def supplied_def pipeline_phases_def)
qed

text \<open>Once a job is forgotten its workspace is gone, if no clean-up failed.\<close>

definition tidy :: "'s pipeline \<Rightarrow> bool" where
  "tidy p \<longleftrightarrow> (pl_at p = Gone \<longrightarrow> pl_files p = [] \<and> pl_saved p = None)"

lemma run_tidy:
  assumes "\<forall>w\<in>set ws. vd_probe (sw_downloaded w) \<noteq> None \<and> sw_clean w = Cleaned" and "on_track p" and "tidy p"
  shows "tidy (fold (advance tr env) ws p)"
  using assms
proof (induction ws arbitrary: p)
  case (Cons w ws)
  show ?case
  proof (cases "pl_at p = Gone")
    case True
    then have "advance tr env w p = p" by (simp add: advance_def)
    with Cons show ?thesis by simp
  next
    case False
    with Cons(2) advance_on_track[OF Cons(3), of w tr env]
    have n: "on_track (advance tr env w p)" "pl_at (advance tr env w p) = Gone \<longrightarrow> pl_at p = Closing" by simp_all
    then have "tidy (advance tr env w p)"
      using Cons(2) by (auto simp: tidy_def advance_def clean_job_def)
    with n(1) Cons(1)[of "advance tr env w p"] Cons(2) show ?thesis by simp
  qed
qed simp

text \<open>C36: An accepted job ends. If the worker is not restarted and every completed download delivers the
  probe of the source, then after 25 steps, four for each of the six phases and the clean-up, the job is
  forgotten, whatever fails on the way; it has reported exactly one final event, its last; and if no removal
  of the workspace failed, neither its context file nor any of its subtitle files is left.\<close>

theorem accepted_job_ends:
  assumes "25 \<le> length ws" and "\<forall>w\<in>set ws. vd_probe (sw_downloaded w) \<noteq> None"
  shows "let p = fold (advance tr env) ws (accept_job tr env w0 temp pinned r net) in
    pl_at p = Gone \<and> finals (pl_sent p) = 1 \<and> kind_of (last (pl_sent p)) \<in> final_kinds \<and>
    ((\<forall>w\<in>set ws. sw_clean w = Cleaned) \<longrightarrow> pl_files p = [] \<and> pl_saved p = None)"
proof -
  let ?q = "accept_job tr env w0 temp pinned r net"
  let ?p = "fold (advance tr env) ws ?q"
  have "position_rank (pl_at ?q) = 25" by (simp add: accepted_fields position_rank_def phase_rank_def)
  with run_on_track[OF assms(2) accepted_on_track, of tr env tr env w0 temp pinned r net] assms(1)
  have o: "on_track ?p" and z: "position_rank (pl_at ?p) = 0" by simp_all
  have g: "pl_at ?p = Gone"
  proof (rule ccontr)
    assume g: "pl_at ?p \<noteq> Gone"
    from o z have "\<exists>ph. phase_rank ph = 0 \<and> supplied ph (pl_ctx ?p)" using g
      by (cases "pl_at ?p") (auto simp: position_rank_def on_track_def supplied_def pipeline_phases_def phase_rank_def)
    then show False by (auto simp: supplied_def pipeline_phases_def phase_rank_def)
  qed
  have "tidy ?q" by (simp add: tidy_def accepted_fields)
  moreover have "on_track ?q" by (rule accepted_on_track)
  ultimately have "(\<forall>w\<in>set ws. sw_clean w = Cleaned) \<longrightarrow> pl_files ?p = [] \<and> pl_saved ?p = None"
    using run_tidy[of ws ?q tr env] assms(2) g by (simp add: tidy_def)
  with o g show ?thesis by (simp add: Let_def on_track_def)
qed

section \<open>Identifiers\<close>

definition sent_dense :: "int \<Rightarrow> uuid \<Rightarrow> 's pipeline \<Rightarrow> bool" where
  "sent_dense i j p \<longleftrightarrow> map event_id (pl_sent p) = map (\<lambda>k. i + 1 + int k) [0..<length (pl_sent p)] \<and>
     last_id (pl_ctx p) = i + int (length (pl_sent p)) \<and> jc_job_id (pl_ctx p) = j \<and> (\<forall>e\<in>set (pl_sent p). job_id e = j)"

lemma publish_dense: "sent_dense i j p \<Longrightarrow> sent_dense i j (publish_task_event tr env w ty st msg p)"
  using publish_sent[of tr env w ty st msg p] by (auto simp: sent_dense_def)

lemma dense_cong:
  "pl_sent q = pl_sent p \<Longrightarrow> last_id (pl_ctx q) = last_id (pl_ctx p) \<Longrightarrow> jc_job_id (pl_ctx q) = jc_job_id (pl_ctx p) \<Longrightarrow>
    sent_dense i j q = sent_dense i j p"
  by (simp add: sent_dense_def)

lemma advance_dense:
  assumes "sent_dense i j p" and "on_track p"
  shows "sent_dense i j (advance tr env w p)"
proof (cases "pl_at p")
  case (Queued_At ph)
  have "sent_dense i j (p\<lparr>pl_ctx := (pl_ctx p)\<lparr>jc_encode_kind := k, jc_encode_config := f\<rparr>\<rparr>)" for k f
    using assms(1) by (simp add: sent_dense_def last_id_def split: option.splits)
  moreover have "ph = PGSNotification \<Longrightarrow> source_probe_of (pl_ctx p) \<noteq> None"
    using assms(2) Queued_At by (simp add: on_track_def supplied_def)
  ultimately show ?thesis using Queued_At assms(1)
    by (auto simp: advance_def begin_encode_def fail_job_def split: sum.splits intro!: publish_dense
        simp: dense_cong[of "x\<lparr>pl_at := y\<rparr>" x for x y])
next
  case (Begun ph)
  with assms(2) have "ready ph (pl_ctx p)" by (simp add: on_track_def supplied_ready)
  moreover obtain es q where "run_actions w (if runners env ph \<le> 0 then [] else phase_actions ph (pl_ctx p)) p = (es, q)" by fastforce
  ultimately show ?thesis
    using run_actions_frame[of w _ p es q] Begun assms(1) by (simp add: advance_def sent_dense_def)
next
  case (Acted ph es)
  then show ?thesis
    by (auto simp: advance_def dense_cong[of "x\<lparr>pl_at := y\<rparr>" x for x y] intro!: publish_dense assms(1))
next
  case (Reported ph es)
  have r: "sent_dense i j (restart p)" if "es = []" "ph \<noteq> UploadNotification" "next_phase ph (pl_ctx p) = None"
    using that assms(2) Reported by (auto simp: on_track_def supplied_def pipeline_phases_def next_phase_def split: option.splits)
  show ?thesis using Reported r
    by (auto simp: advance_def route_def fail_job_def dense_cong[of "x\<lparr>pl_at := y\<rparr>" x for x y] assms(1)
        intro!: publish_dense split: option.splits)
qed (use assms in \<open>simp_all add: advance_def sent_dense_def\<close>)

lemma accepted_dense: "sent_dense (rs_event_id r) (rs_id r) (accept_job tr env w temp pinned r net)"
proof -
  obtain p0 where "accept_job tr env w temp pinned r net = publish_task_event tr env w JobNotification Started [] p0"
    "pl_sent p0 = []" "last_id (pl_ctx p0) = rs_event_id r" "jc_job_id (pl_ctx p0) = rs_id r" by (rule accepted_start)
  moreover from this have "sent_dense (rs_event_id r) (rs_id r) p0" by (simp add: sent_dense_def)
  ultimately show ?thesis by (simp add: publish_dense)
qed

lemma run_dense:
  assumes "\<forall>w\<in>set ws. vd_probe (sw_downloaded w) \<noteq> None"
  shows "sent_dense (rs_event_id r) (rs_id r) (fold (advance tr env) ws (accept_job tr env w0 temp pinned r net))"
proof -
  have "sent_dense i j p \<Longrightarrow> on_track p \<Longrightarrow> sent_dense i j (fold (advance tr env) ws p)" for i j p
    using assms
  proof (induction ws arbitrary: p)
    case (Cons w ws)
    show ?case
    proof (cases "pl_at p = Gone")
      case True
      then have "advance tr env w p = p" by (simp add: advance_def)
      with Cons show ?thesis by simp
    next
      case False
      have w: "vd_probe (sw_downloaded w) \<noteq> None" "\<forall>w\<in>set ws. vd_probe (sw_downloaded w) \<noteq> None" using Cons(4) by simp_all
      have "on_track (advance tr env w p)" using advance_on_track[OF Cons(3) w(1) False] by blast
      from Cons(1)[OF advance_dense[OF Cons(2,3)] this w(2)] show ?thesis by simp
    qed
  qed simp
  from this[OF accepted_dense accepted_on_track] show ?thesis .
qed

section \<open>The files the encoder reads\<close>

text \<open>The subtitle files a phase relies on.\<close>

definition in_place :: "notification_type \<Rightarrow> job_context \<Rightarrow> string list \<Rightarrow> bool" where
  "in_place ph c fs \<longleftrightarrow> (case source_probe_of c of None \<Rightarrow> True
     | Some q \<Rightarrow>
        (ph = PGSNotification \<or> ph = FFMPEGSNotification \<longrightarrow>
          srt_path (jc_working_dir c) ` set (extractable_subtitles q) \<subseteq> set fs) \<and>
        (ph = FFMPEGSNotification \<longrightarrow> srt_path (jc_working_dir c) ` set (pgs_subtitles q) \<subseteq> set fs))"

text \<open>What holds once a phase has succeeded.\<close>

definition done_place :: "notification_type \<Rightarrow> job_context \<Rightarrow> string list \<Rightarrow> bool" where
  "done_place ph c fs \<longleftrightarrow> (ph = MKVExtractNotification \<longrightarrow> in_place PGSNotification c fs) \<and>
     (ph = PGSNotification \<longrightarrow> in_place FFMPEGSNotification c fs)"

definition resumable :: "'s pipeline \<Rightarrow> bool" where
  "resumable p \<longleftrightarrow> (\<forall>c l. pl_saved p = Some c \<and> jc_last_event c = Some l \<longrightarrow> in_place (cx_type l) c (pl_files p))"

definition files_ready :: "'s pipeline \<Rightarrow> bool" where
  "files_ready p \<longleftrightarrow> resumable p \<and> (case pl_at p of
     Queued_At ph \<Rightarrow> in_place ph (pl_ctx p) (pl_files p)
   | Begun ph \<Rightarrow> in_place ph (pl_ctx p) (pl_files p)
   | Acted ph es \<Rightarrow> in_place ph (pl_ctx p) (pl_files p) \<and> (es = [] \<longrightarrow> done_place ph (pl_ctx p) (pl_files p))
   | Reported ph es \<Rightarrow> in_place ph (pl_ctx p) (pl_files p) \<and> (es = [] \<longrightarrow> done_place ph (pl_ctx p) (pl_files p))
   | _ \<Rightarrow> True)"

lemma in_place_update [simp]: "in_place ph (update_event ty st msg c) fs = in_place ph c fs"
  by (simp only: in_place_def update_event_fields)

lemma done_place_update [simp]: "done_place ph (update_event ty st msg c) fs = done_place ph c fs"
  by (simp add: done_place_def)

lemma in_place_cong:
  "source_probe_of c' = source_probe_of c \<Longrightarrow> jc_working_dir c' = jc_working_dir c \<Longrightarrow> in_place ph c' fs = in_place ph c fs"
  by (simp only: in_place_def)

lemma in_place_mono: "in_place ph c fs \<Longrightarrow> set fs \<subseteq> set gs \<Longrightarrow> in_place ph c gs"
  by (auto simp: in_place_def split: option.splits)

lemma in_place_free: "ph \<noteq> PGSNotification \<Longrightarrow> ph \<noteq> FFMPEGSNotification \<Longrightarrow> in_place ph c fs"
  by (simp add: in_place_def split: option.splits)

lemma publish_resumable:
  assumes "resumable p" and "in_place ty (pl_ctx p) (pl_files p)"
  shows "resumable (publish_task_event tr env w ty st msg p)"
proof -
  let ?c = "update_event ty st (event_message ty msg (pl_ctx p)) (pl_ctx p)"
  obtain l where "jc_last_event ?c = Some l" "cx_type l = ty" using update_event_last by blast
  with publish_saved[of tr env w ty st msg p] assms show ?thesis by (auto simp: resumable_def)
qed

lemma restart_ready:
  assumes "resumable p"
  shows "files_ready (restart p)"
proof (cases "pl_saved p")
  case None
  then show ?thesis by (simp add: restart_def files_ready_def resumable_def)
next
  case (Some c)
  show ?thesis
  proof (cases "resume_verdict c")
    case (Resume ph)
    then obtain l where l: "jc_last_event c = Some l" "ph = cx_type l \<or> ph = DownloadNotification"
      by (auto simp: resume_verdict_def split: option.splits if_splits)
    with assms Some have "in_place ph c (pl_files p)" by (auto simp: resumable_def in_place_free)
    with Resume Some assms show ?thesis by (simp add: restart_def files_ready_def resumable_def)
  qed (use Some assms in \<open>simp_all add: restart_def files_ready_def resumable_def\<close>)
qed

text \<open>A clean-up that leaves the context file leaves the other files.\<close>

definition clean_together :: "step_world \<Rightarrow> bool" where
  "clean_together w \<longleftrightarrow> (case sw_clean w of Cleaned \<Rightarrow> True | Partly kept left \<Rightarrow> kept \<longrightarrow> (\<forall>x. left x))"

lemma clean_ready: "resumable p \<Longrightarrow> clean_together w \<Longrightarrow> files_ready (clean_job w p)"
  by (auto simp: clean_job_def clean_together_def files_ready_def resumable_def split: clean_outcome.splits)

lemma ocr_files:
  "run_actions w (map Ocr ss) p = ([], q) \<Longrightarrow> srt_path (jc_working_dir (pl_ctx p)) ` set ss \<subseteq> set (pl_files q)"
proof (induction ss arbitrary: p)
  case (Cons s ss)
  from Cons(2) have n: "sw_fails w (Ocr s) = None" by (auto split: option.splits prod.splits)
  with Cons(2) have r: "run_actions w (map Ocr ss) (action_effect w (Ocr s) p) = ([], q)" by simp
  from Cons(1)[OF r] run_actions_frame[OF r] show ?case by (auto simp: action_effect_def Let_def)
qed simp

lemma phase_done:
  assumes "run_actions w (phase_actions ph (pl_ctx p)) p = (es, q)" and "in_place ph (pl_ctx p) (pl_files p)"
  shows "in_place ph (pl_ctx q) (pl_files q) \<and> (es = [] \<longrightarrow> done_place ph (pl_ctx q) (pl_files q))"
proof (cases "ph = DownloadNotification")
  case True
  then show ?thesis by (simp add: in_place_free done_place_def)
next
  case False
  then have "Download \<notin> set (phase_actions ph (pl_ctx p))"
    by (auto simp: phase_actions_def split: notification_type.splits option.splits)
  with run_actions_frame[OF assms(1)] have f: "source_probe_of (pl_ctx q) = source_probe_of (pl_ctx p)"
    "jc_working_dir (pl_ctx q) = jc_working_dir (pl_ctx p)" "set (pl_files p) \<subseteq> set (pl_files q)" by simp_all
  then have i: "in_place ph (pl_ctx q) (pl_files q)" using assms(2) in_place_cong in_place_mono by metis
  moreover have "done_place ph (pl_ctx q) (pl_files q)" if "es = []"
  proof (cases "source_probe_of (pl_ctx p)")
    case None
    with f show ?thesis by (simp add: done_place_def in_place_def)
  next
    case (Some n)
    show ?thesis
    proof (cases "ph = MKVExtractNotification")
      case True
      with assms(1) that Some f show ?thesis
        by (auto simp: done_place_def in_place_def phase_actions_def action_effect_def Let_def split: option.splits)
    next
      case no: False
      show ?thesis
      proof (cases "ph = PGSNotification")
        case True
        with assms(1) that Some have "run_actions w (map Ocr (pgs_subtitles n)) p = ([], q)" by (simp add: phase_actions_def)
        from ocr_files[OF this] i True Some f show ?thesis by (simp add: done_place_def in_place_def)
      next
        case False
        with no show ?thesis by (simp add: done_place_def)
      qed
    qed
  qed
  ultimately show ?thesis by blast
qed

lemma next_in_place:
  assumes "done_place ph c fs" and "next_phase ph c = Some n"
  shows "in_place n c fs"
proof -
  obtain q where "source_probe_of c = Some q \<or> source_probe_of c = None" by auto
  with assms show ?thesis
    by (auto simp: next_phase_def done_place_def in_place_def have_extractable_subtitle_def have_image_subtitle_def
        extractable_subtitles_def pgs_subtitles_def list_ex_iff split: notification_type.splits option.splits if_splits)
qed

lemma advance_ready:
  assumes "files_ready p" and "1 \<le> pe_pgs_parallel env" and "clean_together w"
  shows "files_ready (advance tr env w p)"
proof (cases "pl_at p")
  case (Queued_At ph)
  with assms have r: "resumable p" "in_place ph (pl_ctx p) (pl_files p)" by (simp_all add: files_ready_def)
  let ?p = "\<lambda>k f. p\<lparr>pl_ctx := (pl_ctx p)\<lparr>jc_encode_kind := k, jc_encode_config := f\<rparr>\<rparr>"
  have e: "resumable (?p k f)" "in_place ph (pl_ctx (?p k f)) (pl_files (?p k f))" for k f
    using r by (simp_all add: resumable_def in_place_cong[of "(pl_ctx p)\<lparr>jc_encode_kind := k, jc_encode_config := f\<rparr>" "pl_ctx p"]
        source_probe_of_def)
  have j: "resumable (publish_task_event tr env w JobNotification Failed m p)" for m
    by (rule publish_resumable[OF r(1)]) (simp add: in_place_free)
  show ?thesis
    using Queued_At publish_resumable[OF e, of tr env w] publish_resumable[OF r, of tr env w] j e r restart_ready[OF r(1)]
    by (auto simp: advance_def begin_encode_def fail_job_def files_ready_def resumable_def split: sum.splits)
next
  case (Begun ph)
  with assms have r: "resumable p" "in_place ph (pl_ctx p) (pl_files p)" by (simp_all add: files_ready_def)
  show ?thesis
  proof (cases "ready ph (pl_ctx p)")
    case False
    with Begun restart_ready[OF r(1)] show ?thesis by (simp add: advance_def)
  next
    case True
    obtain es q where q: "run_actions w (phase_actions ph (pl_ctx p)) p = (es, q)" by fastforce
    have "0 < runners env ph" using assms(2) by (simp add: runners_def)
    with Begun True q have a: "advance tr env w p = q\<lparr>pl_at := Acted ph es\<rparr>" by (simp add: advance_def)
    have "resumable q"
      using r(1) run_actions_frame[OF q] by (auto simp: resumable_def intro: in_place_mono)
    with phase_done[OF q r(2)] show ?thesis by (simp add: a files_ready_def resumable_def)
  qed
next
  case (Acted ph es)
  with assms have r: "resumable p" "in_place ph (pl_ctx p) (pl_files p)" by (simp_all add: files_ready_def)
  note x = publish_resumable[OF r, of tr env w]
  have "resumable (advance tr env w p)"
    using x[of Completed "[]"] x[of Failed "join_with newline es"] Acted by (simp add: advance_def resumable_def)
  with Acted assms r show ?thesis by (auto simp: advance_def files_ready_def)
next
  case (Reported ph es)
  with assms have r: "resumable p" by (simp add: files_ready_def)
  have j: "resumable (publish_task_event tr env w JobNotification st m p)" for st m
    by (rule publish_resumable[OF r]) (simp add: in_place_free)
  show ?thesis
  proof (cases "es = [] \<and> ph \<noteq> UploadNotification")
    case True
    with Reported assms have d: "done_place ph (pl_ctx p) (pl_files p)" by (simp add: files_ready_def)
    show ?thesis using True Reported next_in_place[OF d] restart_ready[OF r] r
      by (auto simp: advance_def route_def files_ready_def resumable_def split: option.splits)
  next
    case False
    with Reported j show ?thesis
      by (auto simp: advance_def route_def fail_job_def files_ready_def resumable_def)
  qed
next
  case Closing
  with assms clean_ready show ?thesis by (simp add: advance_def files_ready_def)
qed (use assms in \<open>simp_all add: advance_def\<close>)

lemma step_ready:
  assumes "files_ready p" and "1 \<le> pe_pgs_parallel env" and "\<forall>w. m = Advance w \<longrightarrow> clean_together w"
  shows "files_ready (pipeline_step tr env m p)"
proof (cases m)
  case (Advance w)
  with advance_ready[OF assms(1,2)] assms(3) show ?thesis by simp
next
  case Restart
  from assms(1) have "resumable p" by (simp add: files_ready_def)
  with Restart restart_ready show ?thesis by simp
qed

text \<open>C38: Whenever the encoder is started, however often the worker was restarted on the way and wherever
  each restart fell, every subtitle file among its inputs has been produced in the workspace; only
  the source itself is not one of these files. The worker must be configured with at least one OCR runner
  (the configuration is not checked for it: with none the OCR is reported done and nothing was read), and a
  removal of the workspace that fails must not take subtitle files and leave the context file.\<close>

theorem encoder_inputs_in_place:
  fixes tr env ms w0 temp pinned r net
  defines "p \<equiv> fold (pipeline_step tr env) ms (accept_job tr env w0 temp pinned r net)"
  assumes "1 \<le> pe_pgs_parallel env" and "\<forall>w. Advance w \<in> set ms \<longrightarrow> clean_together w"
    and "pl_at p = Begun FFMPEGSNotification" and "source_probe_of (pl_ctx p) = Some q"
  shows "set (input_paths (jc_working_dir (pl_ctx p)) src q) \<subseteq> insert src (set (pl_files p))"
proof -
  have run: "files_ready x \<Longrightarrow> files_ready (fold (pipeline_step tr env) ms x)" for x
    using assms(3) by (induction ms arbitrary: x) (simp_all add: step_ready assms(2))
  have "files_ready (accept_job tr env w0 temp pinned r net)"
  proof -
    obtain p0 where p0: "accept_job tr env w0 temp pinned r net = publish_task_event tr env w0 JobNotification Started [] p0"
      "pl_saved p0 = None" "pl_at p0 = Queued_At DownloadNotification" by (rule accepted_start)
    have "resumable p0" by (simp add: resumable_def p0(2))
    from publish_resumable[OF this, of JobNotification] p0 show ?thesis by (simp add: files_ready_def in_place_free)
  qed
  with run have "files_ready p" by (simp add: p_def)
  with assms(4,5) show ?thesis
    by (auto simp: files_ready_def in_place_def input_paths_def is_external_def pgs_subtitles_def extractable_subtitles_def)
qed

definition demo_source :: video_data where
  "demo_source = \<lparr>vd_path = ''/w/j1/j1.mkv'', vd_name = ''film.mkv'', vd_checksum = ''c'', vd_probe = Some demo_normalized, vd_size = 100\<rparr>"

definition demo_world :: step_world where
  "demo_world = \<lparr>sw_now = 0, sw_saves = (\<lambda>_. Saved), sw_kind = ''cpu'', sw_fails = (\<lambda>_. None), sw_downloaded = demo_source,
     sw_encoded = demo_source\<lparr>vd_path := ''/w/j1/j1-encoded.mkv'', vd_size := 50\<rparr>, sw_encoded_probe = \<lparr>duration_seconds = Fin 60, streams = []\<rparr>, sw_clean = Cleaned\<rparr>"

definition demo_pipeline_env :: pipeline_env where
  "demo_pipeline_env = \<lparr>pe_transport_name = ''w1'', pe_config = demo_worker_config [], pe_pgs_parallel = 1, pe_describe = (\<lambda>_. [])\<rparr>"

definition demo_accepted :: "unit pipeline" where
  "demo_accepted = accept_job (demo_transport demo_pair) demo_pipeline_env demo_world ''/w'' None
     \<lparr>rs_id = ''j1'', rs_event_id = 1, rs_name = ''film.mkv''\<rparr> ()"

theorem accepted_job_ends_witness:
  "pl_at (fold (advance (demo_transport demo_pair) demo_pipeline_env) (replicate 25 demo_world) demo_accepted) = Gone"
proof -
  have n: "25 \<le> length (replicate 25 demo_world)" "\<forall>w\<in>set (replicate 25 demo_world). vd_probe (sw_downloaded w) \<noteq> None"
    by (simp_all add: demo_world_def demo_source_def)
  from accepted_job_ends[OF n, where net = "()"] show ?thesis unfolding demo_accepted_def Let_def by blast
qed

theorem encoder_inputs_in_place_witness:
  "\<exists>q. source_probe_of (pl_ctx (fold (pipeline_step (demo_transport demo_pair) demo_pipeline_env)
      (replicate 6 (Advance demo_world) @ [Restart] @ replicate 9 (Advance demo_world)) demo_accepted)) = Some q \<and>
    set (input_paths ''/w/j1'' ''/w/j1/j1.mkv'' q) \<subseteq> insert ''/w/j1/j1.mkv'' (set (pl_files
      (fold (pipeline_step (demo_transport demo_pair) demo_pipeline_env)
      (replicate 6 (Advance demo_world) @ [Restart] @ replicate 9 (Advance demo_world)) demo_accepted)))"
proof -
  let ?p = "fold (pipeline_step (demo_transport demo_pair) demo_pipeline_env)
      (replicate 6 (Advance demo_world) @ [Restart] @ replicate 9 (Advance demo_world)) demo_accepted"
  have at: "pl_at ?p = Begun FFMPEGSNotification" by code_simp
  have wd: "jc_working_dir (pl_ctx ?p) = ''/w/j1''" by code_simp
  have "map_option (\<lambda>q. length (np_subtitles q)) (source_probe_of (pl_ctx ?p)) = Some 4" by code_simp
  then obtain q where q: "source_probe_of (pl_ctx ?p) = Some q" by auto
  have par: "1 \<le> pe_pgs_parallel demo_pipeline_env" by (simp add: demo_pipeline_env_def)
  have clean: "\<forall>w. Advance w \<in> set (replicate 6 (Advance demo_world) @ [Restart] @ replicate 9 (Advance demo_world)) \<longrightarrow>
      clean_together w" by (auto simp: clean_together_def demo_world_def)
  from encoder_inputs_in_place[OF par clean at[unfolded demo_accepted_def] q[unfolded demo_accepted_def], of "''/w/j1/j1.mkv''"]
  show ?thesis using q wd unfolding demo_accepted_def by auto
qed

section \<open>The order of the final events\<close>

definition milestones :: "notification_type \<Rightarrow> (notification_type \<times> notification_status) list" where
  "milestones ph = (case ph of JobVerify \<Rightarrow> [(FFMPEGSNotification, Completed)]
     | UploadNotification \<Rightarrow> [(FFMPEGSNotification, Completed), (JobVerify, Completed)] | _ \<Rightarrow> [])"

definition full_course :: "(notification_type \<times> notification_status) list" where
  "full_course = [(FFMPEGSNotification, Completed), (JobVerify, Completed), (UploadNotification, Completed), (JobNotification, Completed)]"

definition course :: "'s pipeline \<Rightarrow> (notification_type \<times> notification_status) list" where
  "course p = map kind_of (pl_sent p)"

definition completed_last :: "'s pipeline \<Rightarrow> bool" where
  "completed_last p \<longleftrightarrow> ((JobNotification, Completed) \<in> set (course p) \<longrightarrow> subseq full_course (course p))"

definition saved_course :: "'s pipeline \<Rightarrow> bool" where
  "saved_course p \<longleftrightarrow> (\<forall>c l. pl_saved p = Some c \<and> jc_last_event c = Some l \<longrightarrow> subseq (milestones (cx_type l)) (course p))"

definition in_order :: "'s pipeline \<Rightarrow> bool" where
  "in_order p \<longleftrightarrow> completed_last p \<and> saved_course p \<and> (case pl_at p of
     Queued_At ph \<Rightarrow> ph \<in> set pipeline_phases \<and> subseq (milestones ph) (course p)
   | Begun ph \<Rightarrow> ph \<in> set pipeline_phases \<and> subseq (milestones ph) (course p)
   | Acted ph es \<Rightarrow> ph \<in> set pipeline_phases \<and> subseq (milestones ph) (course p)
   | Reported ph es \<Rightarrow> ph \<in> set pipeline_phases \<and> subseq (milestones ph) (course p) \<and>
       (es = [] \<longrightarrow> subseq (milestones ph @ [(ph, Completed)]) (course p))
   | _ \<Rightarrow> True)"

lemma publish_course: "course (publish_task_event tr env w ty st msg p) = course p @ [(ty, st)]"
  using publish_sent[of tr env w ty st msg p] by (auto simp: course_def)

lemma subseq_snoc_drop: "subseq xs ys \<Longrightarrow> subseq xs (ys @ [e])"
  by (meson list_emb_prefix)

lemma subseq_snoc_keep: "subseq xs ys \<Longrightarrow> subseq (xs @ [e]) (ys @ [e])"
  by simp

lemmas subseq_snoc = subseq_snoc_keep subseq_snoc_drop

lemma publish_order:
  assumes "completed_last p" and "saved_course p" and "subseq (milestones ty) (course p)"
    and "(ty, st) = (JobNotification, Completed) \<Longrightarrow> subseq (butlast full_course) (course p)"
  shows "completed_last (publish_task_event tr env w ty st msg p) \<and> saved_course (publish_task_event tr env w ty st msg p)"
proof
  let ?q = "publish_task_event tr env w ty st msg p"
  show "completed_last ?q"
  proof (cases "(ty, st) = (JobNotification, Completed)")
    case True
    then have "subseq (butlast full_course @ [(ty, st)]) (course ?q)"
      using assms(4) by (simp only: publish_course subseq_snoc(1))
    with True show ?thesis by (simp add: completed_last_def full_course_def)
  next
    case False
    with assms(1) show ?thesis by (auto simp: completed_last_def publish_course subseq_snoc(2))
  qed
  obtain l where "jc_last_event (update_event ty st (event_message ty msg (pl_ctx p)) (pl_ctx p)) = Some l" "cx_type l = ty"
    using update_event_last by blast
  with publish_saved[of tr env w ty st msg p] assms(2,3) show "saved_course ?q"
    by (auto simp: saved_course_def publish_course subseq_snoc(2))
qed

lemma order_cong:
  "pl_sent q = pl_sent p \<Longrightarrow> pl_saved q = pl_saved p \<Longrightarrow> completed_last q = completed_last p \<and> saved_course q = saved_course p \<and> course q = course p"
  by (simp add: completed_last_def saved_course_def course_def)

lemma order_at [simp]:
  "completed_last (y\<lparr>pl_at := z\<rparr>) = completed_last y" "saved_course (y\<lparr>pl_at := z\<rparr>) = saved_course y"
  "course (y\<lparr>pl_at := z\<rparr>) = course y"
  by (simp_all add: completed_last_def saved_course_def course_def)

lemma milestones_free: "ty = JobNotification \<Longrightarrow> subseq (milestones ty) ks"
  by (simp add: milestones_def)

lemma restart_order:
  assumes "completed_last p" and "saved_course p"
  shows "in_order (restart p)"
proof (cases "pl_saved p")
  case None
  with assms show ?thesis by (auto simp: restart_def in_order_def completed_last_def saved_course_def course_def)
next
  case c: (Some c)
  show ?thesis
  proof (cases "resume_verdict c")
    case (Resume ph)
    then obtain l where l: "jc_last_event c = Some l" "ph = cx_type l \<and> ph \<in> set pipeline_phases \<or> ph = DownloadNotification"
      by (auto simp: resume_verdict_def split: option.splits if_splits)
    with assms(2) c have "subseq (milestones ph) (course p)" by (auto simp: saved_course_def milestones_def)
    with Resume c l assms show ?thesis
      by (auto simp: restart_def in_order_def completed_last_def saved_course_def course_def pipeline_phases_def)
  qed (use c assms in \<open>auto simp: restart_def in_order_def completed_last_def saved_course_def course_def\<close>)
qed

lemma fail_order:
  assumes "completed_last p" and "saved_course p"
  shows "in_order (fail_job tr env w ph msg p)"
  using publish_order[OF assms milestones_free, of JobNotification Failed tr env w "phase_name ph @ '':'' @ msg"]
  by (simp add: fail_job_def in_order_def)

lemma advance_order:
  assumes "in_order p"
  shows "in_order (advance tr env w p)"
proof -
  from assms have o: "completed_last p" "saved_course p" by (simp_all add: in_order_def)
  show ?thesis
  proof (cases "pl_at p")
    case (Queued_At ph)
    with assms have m: "ph \<in> set pipeline_phases" "subseq (milestones ph) (course p)" by (simp_all add: in_order_def)
    have pub: "in_order ((publish_task_event tr env w ph Started [] x)\<lparr>pl_at := Begun ph\<rparr>)"
      if "pl_sent x = pl_sent p" "pl_saved x = pl_saved p" for x
      using publish_order[of x ph Started tr env w "[]"] order_cong[OF that] o m
      by (simp add: in_order_def publish_course subseq_snoc(2))
    show ?thesis
    proof (cases "ph = FFMPEGSNotification")
      case True
      show ?thesis
      proof (cases "pin_encoder_profile (pe_config env) (sw_kind w) (jc_encode_config (pl_ctx p))")
        case (Inl x)
        with True Queued_At fail_order[OF o] show ?thesis by (simp add: advance_def begin_encode_def)
      next
        case (Inr f)
        with True Queued_At pub show ?thesis by (simp add: advance_def begin_encode_def)
      qed
    next
      case False
      with Queued_At pub restart_order[OF o] show ?thesis by (simp add: advance_def)
    qed
  next
    case (Begun ph)
    with assms have m: "ph \<in> set pipeline_phases" "subseq (milestones ph) (course p)" by (simp_all add: in_order_def)
    obtain es q where r: "run_actions w (if runners env ph \<le> 0 then [] else phase_actions ph (pl_ctx p)) p = (es, q)" by fastforce
    from run_actions_frame[OF r] have q: "pl_sent q = pl_sent p" "pl_saved q = pl_saved p" by simp_all
    show ?thesis using Begun r restart_order[OF o] order_cong[OF q] o m
      by (simp add: advance_def in_order_def)
  next
    case (Acted ph es)
    with assms have m: "ph \<in> set pipeline_phases" "subseq (milestones ph) (course p)" by (simp_all add: in_order_def)
    then have n: "(ph, st) \<noteq> (JobNotification, Completed)" for st by (auto simp: pipeline_phases_def)
    have pub: "in_order ((publish_task_event tr env w ph st msg p)\<lparr>pl_at := Reported ph es\<rparr>)" if "es = [] \<longrightarrow> st = Completed" for st msg
      using publish_order[OF o m(2), of st tr env w msg] n m that
      by (auto simp: in_order_def publish_course subseq_snoc)
    show ?thesis using Acted pub by (cases "es = []") (simp_all add: advance_def)
  next
    case (Reported ph es)
    with assms have m: "ph \<in> set pipeline_phases" "subseq (milestones ph) (course p)"
      "es = [] \<longrightarrow> subseq (milestones ph @ [(ph, Completed)]) (course p)" by (simp_all add: in_order_def)
    show ?thesis
    proof (cases "es = []")
      case False
      with Reported fail_order[OF o] show ?thesis by (simp add: advance_def)
    next
      case True
      show ?thesis
      proof (cases "ph = UploadNotification")
        case u: True
        with m True have "subseq (butlast full_course) (course p)" by (simp add: milestones_def full_course_def)
        with publish_order[OF o milestones_free, of JobNotification Completed tr env w "[]"] u True Reported show ?thesis
          by (simp add: advance_def route_def in_order_def)
      next
        case False
        show ?thesis
        proof (cases "next_phase ph (pl_ctx p)")
          case None
          with False True Reported restart_order[OF o] show ?thesis by (simp add: advance_def route_def)
        next
          case (Some n)
          with m True False have "n \<in> set pipeline_phases \<and> subseq (milestones n) (course p)"
            by (auto simp: next_phase_def pipeline_phases_def milestones_def split: option.splits if_splits)
          with Some False True Reported o show ?thesis
            by (simp add: advance_def route_def in_order_def)
        qed
      qed
    qed
  next
    case Closing
    with o clean_job_saved[of w p] show ?thesis
      by (auto simp: advance_def in_order_def completed_last_def saved_course_def course_def)
  next
    case Gone
    with assms show ?thesis by (simp add: advance_def)
  qed
qed

text \<open>C37: A job is reported complete only after its encode, its verification and its upload were each
  reported complete, in this order, however often the worker was restarted on the way.\<close>

theorem completion_follows_verified_upload:
  fixes tr env ms w0 temp pinned r net
  defines "p \<equiv> fold (pipeline_step tr env) ms (accept_job tr env w0 temp pinned r net)"
  assumes "(JobNotification, Completed) \<in> set (map kind_of (pl_sent p))"
  shows "subseq [(FFMPEGSNotification, Completed), (JobVerify, Completed), (UploadNotification, Completed),
    (JobNotification, Completed)] (map kind_of (pl_sent p))"
proof -
  have step: "in_order (pipeline_step tr env m x)" if "in_order x" for m x
  proof (cases m)
    case (Advance w)
    with that advance_order show ?thesis by simp
  next
    case Restart
    from that have "completed_last x" "saved_course x" by (simp_all add: in_order_def)
    with Restart restart_order show ?thesis by simp
  qed
  have run: "in_order x \<Longrightarrow> in_order (fold (pipeline_step tr env) ms x)" for x
    by (induction ms arbitrary: x) (simp_all add: step)
  have "in_order (accept_job tr env w0 temp pinned r net)"
  proof -
    obtain p0 where p0: "accept_job tr env w0 temp pinned r net = publish_task_event tr env w0 JobNotification Started [] p0"
      "pl_sent p0 = []" "pl_saved p0 = None" "pl_at p0 = Queued_At DownloadNotification" by (rule accepted_start)
    then have "completed_last p0" "saved_course p0" by (simp_all add: completed_last_def saved_course_def course_def)
    from publish_order[OF this milestones_free, of JobNotification Started] p0 show ?thesis
      by (simp add: in_order_def milestones_def pipeline_phases_def)
  qed
  with run have "completed_last p" by (simp add: p_def in_order_def)
  with assms(2) show ?thesis by (simp add: completed_last_def course_def full_course_def)
qed

theorem completion_follows_verified_upload_witness:
  "subseq [(FFMPEGSNotification, Completed), (JobVerify, Completed), (UploadNotification, Completed), (JobNotification, Completed)]
    (map kind_of (pl_sent (fold (pipeline_step (demo_transport demo_pair) demo_pipeline_env)
      (replicate 6 (Advance demo_world) @ [Restart] @ replicate 20 (Advance demo_world)) demo_accepted)))"
proof -
  have "(JobNotification, Completed) \<in> set (map kind_of (pl_sent (fold (pipeline_step (demo_transport demo_pair) demo_pipeline_env)
      (replicate 6 (Advance demo_world) @ [Restart] @ replicate 20 (Advance demo_world)) demo_accepted)))" by code_simp
  from completion_follows_verified_upload[OF this[unfolded demo_accepted_def]] show ?thesis unfolding demo_accepted_def .
qed

end
