(* ===== verification/Worker_Stores.thy ===== *)
theory Worker_Stores
  imports Sql_Reading
begin

text \<open>
  What the server relies on about the storage of worker settings and of worker commands, as two
  interfaces: \<open>settings_store\<close> and \<open>command_store\<close>. Both repositories of the program implement
  them; the database-backed one is shown to here. The lemmas of the interfaces are the behaviour
  the dashboard depends on: pausing a worker's queue keeps the limits that resuming restores, and
  a late acknowledgement does not touch a newer command.
\<close>

section \<open>The settings a valid write stores\<close>

definition settings_total :: "worker_settings \<Rightarrow> int" where
  "settings_total ws = (if independent ws then (case total_jobs ws of Inl _ \<Rightarrow> 0 | Inr t \<Rightarrow> t)
     else (case max_active_jobs ws of None \<Rightarrow> 0 | Some m \<Rightarrow> m))"

definition stored_settings :: "worker_settings \<Rightarrow> worker_settings" where
  "stored_settings ws =
    (if independent ws then \<lparr>control = None, max_active_jobs = Some (settings_total ws),
       cpu_jobs = cpu_jobs ws, gpu_jobs = gpu_jobs ws\<rparr>
     else \<lparr>control = None, max_active_jobs = max_active_jobs ws, cpu_jobs = None, gpu_jobs = None\<rparr>)"

section \<open>The interface of the settings\<close>

locale settings_store =
  fixes current :: "'s \<Rightarrow> string \<Rightarrow> worker_settings"
    and resume :: "'s \<Rightarrow> string \<Rightarrow> worker_settings"
    and write_settings :: "string \<Rightarrow> worker_settings \<Rightarrow> ('s, 'e, unit) procedure"
  assumes write_ok: "write_settings n ws s = (Inr (), t) \<Longrightarrow>
      n \<noteq> [] \<and> validate_write ws = Inr () \<and> current t = (current s)(n := stored_settings ws) \<and>
      resume t = (if 0 < settings_total ws then (resume s)(n := stored_settings ws) else resume s)"
    and write_fails: "write_settings n ws s = (Inl e, t) \<Longrightarrow> current t = current s \<and> resume t = resume s"
begin

text \<open>A write of limit 0 stops the queue but remembers what to go back to.\<close>

lemma pause_remembers:
  assumes "write_settings n ws s = (Inr (), t)" and "0 < settings_total ws"
    and "write_settings n zero t = (Inr (), u)" and "settings_total zero = 0"
  shows "resume u n = stored_settings ws" "current u n = stored_settings zero"
  using write_ok[OF assms(1)] write_ok[OF assms(3)] assms(2,4) by auto

lemma other_worker: "write_settings n ws s = (r, t) \<Longrightarrow> m \<noteq> n \<Longrightarrow> current t m = current s m \<and> resume t m = resume s m"
  by (cases r) (auto dest: write_ok write_fails)

lemma last_write_wins:
  assumes "write_settings n ws s = (Inr (), t)" and "write_settings n ws' t = (Inr (), u)"
  shows "current u n = stored_settings ws'"
  using write_ok[OF assms(2)] by simp

end

section \<open>The interface of the commands\<close>

locale command_store =
  fixes command :: "'s \<Rightarrow> string \<Rightarrow> worker_control option"
    and issue :: "string \<Rightarrow> worker_control \<Rightarrow> ('s, 'e, unit) procedure"
    and acknowledge :: "string \<Rightarrow> worker_control_ack \<Rightarrow> ('s, 'e, unit) procedure"
  assumes issue_ok: "issue n c s = (Inr (), t) \<Longrightarrow>
      command t = (command s)(n := Some (c\<lparr>ctl_state := ''pending'', ctl_error := []\<rparr>))"
    and issue_fails: "issue n c s = (Inl e, t) \<Longrightarrow> command t = command s"
    and ack_ok: "acknowledge n a s = (Inr (), t) \<Longrightarrow> \<exists>c. command s n = Some c \<and> ctl_id c = ack_id a \<and>
      command t = (command s)(n := Some (c\<lparr>ctl_state := ack_state a, ctl_error := ack_error a\<rparr>))"
    and ack_fails: "acknowledge n a s = (Inl e, t) \<Longrightarrow> command t = command s"
begin

text \<open>An acknowledgement of a command that was replaced changes nothing.\<close>

lemma late_ack:
  assumes "issue n c s = (Inr (), t)" and "ack_id a \<noteq> ctl_id c" and "acknowledge n a t = (r, u)"
  shows "r \<noteq> Inr ()" "command u = command t"
proof -
  show "r \<noteq> Inr ()"
  proof
    assume "r = Inr ()"
    with assms(3) ack_ok[of n a t u] issue_ok[OF assms(1)] assms(2) show False by auto
  qed
  with assms(3) ack_fails show "command u = command t" by (cases r) auto
qed

lemma ack_settles:
  assumes "issue n c s = (Inr (), t)" and "acknowledge n a t = (Inr (), u)"
  shows "\<exists>d. command u n = Some d \<and> ctl_id d = ctl_id c \<and> ctl_action d = ctl_action c \<and>
    ctl_state d = (if ack_error a = [] then ''applied'' else ''failed'')"
  using issue_ok[OF assms(1)] ack_ok[OF assms(2)] by (auto simp: ack_state_def)

end

section \<open>The database implements both\<close>

definition sql_current :: "sql_db \<Rightarrow> string \<Rightarrow> worker_settings" where
  "sql_current s n = (case settings_row_of s n of
      None \<Rightarrow> empty_settings
    | Some r \<Rightarrow> \<lparr>control = None, max_active_jobs = Some (wr_max r), cpu_jobs = wr_cpu r,
        gpu_jobs = wr_gpu r\<rparr>)"

definition sql_resume :: "sql_db \<Rightarrow> string \<Rightarrow> worker_settings" where
  "sql_resume s n = (case settings_row_of s n of
      None \<Rightarrow> empty_settings
    | Some r \<Rightarrow> \<lparr>control = None, max_active_jobs = wr_resume_max r, cpu_jobs = wr_resume_cpu r,
        gpu_jobs = wr_resume_gpu r\<rparr>)"

lemma sql_views_faults [simp]:
  "sql_current (s\<lparr>faults := fs\<rparr>) = sql_current s" "sql_resume (s\<lparr>faults := fs\<rparr>) = sql_resume s"
  by (simp_all add: sql_current_def sql_resume_def fun_eq_iff)

lemma sql_reads:
  "faults s = [] \<Longrightarrow> get_worker_settings n s = (Inr (sql_current s n), s)"
  "faults s = [] \<Longrightarrow> get_worker_resume_settings n s = (Inr (sql_resume s n), s)"
  by (simp_all add: get_worker_settings_def get_worker_resume_settings_def readP_def
      sql_current_def sql_resume_def)

lemma upsert_settings_Inr:
  assumes "upsert_settings f new s = (Inr (), t)" and "\<And>r. wr_name (f r) = wr_name r"
  shows "settings_row_of t n = (if n = wr_name new
    then Some (case settings_row_of s n of None \<Rightarrow> new | Some r \<Rightarrow> f r) else settings_row_of s n)"
  using assms(1) unfolding upsert_settings_def
  by (elim statement_cases)
    (auto simp: Let_def settings_row_of_def lookup_row_upsert assms(2) split: if_splits)

lemma upsert_settings_Inl: "upsert_settings f new s = (Inl e, t) \<Longrightarrow> \<exists>fs. t = s\<lparr>faults := fs\<rparr>"
  unfolding upsert_settings_def by (auto elim!: statement_cases simp: Let_def split: if_splits)

lemma set_max_effect:
  assumes "set_worker_max_active_jobs n m s = (Inr (), t)"
  shows "sql_current t = (sql_current s)(n := \<lparr>control = None, max_active_jobs = Some m,
      cpu_jobs = None, gpu_jobs = None\<rparr>)"
    and "sql_resume t = (if 0 < m then (sql_resume s)(n := \<lparr>control = None, max_active_jobs = Some m,
      cpu_jobs = None, gpu_jobs = None\<rparr>) else sql_resume s)"
proof -
  from assms have a: "upsert_settings
       (\<lambda>r. r\<lparr>wr_max := m, wr_cpu := None, wr_gpu := None,
          wr_resume_max := (if 0 < m then Some m else wr_resume_max r),
          wr_resume_cpu := (if 0 < m then None else wr_resume_cpu r),
          wr_resume_gpu := (if 0 < m then None else wr_resume_gpu r)\<rparr>)
       \<lparr>wr_name = n, wr_max = m, wr_cpu = None, wr_gpu = None,
        wr_resume_max = (if 0 < m then Some m else None), wr_resume_cpu = None,
        wr_resume_gpu = None\<rparr> s = (Inr (), t)"
    by (simp add: set_worker_max_active_jobs_def failP_def split: if_splits)
  show "sql_current t = (sql_current s)(n := \<lparr>control = None, max_active_jobs = Some m,
      cpu_jobs = None, gpu_jobs = None\<rparr>)"
    by (rule ext) (simp add: sql_current_def upsert_settings_Inr[OF a] split: option.splits)
  show "sql_resume t = (if 0 < m then (sql_resume s)(n := \<lparr>control = None, max_active_jobs = Some m,
      cpu_jobs = None, gpu_jobs = None\<rparr>) else sql_resume s)"
    by (rule ext)
      (simp add: sql_resume_def upsert_settings_Inr[OF a] empty_settings_def split: option.splits)
qed

lemma store_pair_effect:
  assumes "store_pair n t c g s = (Inr (), u)"
  defines "w \<equiv> \<lparr>control = None, max_active_jobs = Some t, cpu_jobs = Some c, gpu_jobs = Some g\<rparr>"
  shows "sql_current u = (sql_current s)(n := w)"
    and "sql_resume u = (if 0 < t then (sql_resume s)(n := w) else sql_resume s)"
proof -
  note a = assms(1)[unfolded store_pair_def]
  show "sql_current u = (sql_current s)(n := w)"
    by (rule ext) (simp add: sql_current_def w_def upsert_settings_Inr[OF a] split: option.splits)
  show "sql_resume u = (if 0 < t then (sql_resume s)(n := w) else sql_resume s)"
    by (rule ext)
      (simp add: sql_resume_def w_def upsert_settings_Inr[OF a] empty_settings_def split: option.splits)
qed

interpretation sql_settings: settings_store sql_current sql_resume set_worker_settings
proof
  fix n ws s t
  assume a: "set_worker_settings n ws s = (Inr (), t)"
  then have v: "n \<noteq> []" "validate_write ws = Inr ()"
    by (auto simp: set_worker_settings_def failP_def split: if_splits sum.splits)
  have "sql_current t = (sql_current s)(n := stored_settings ws) \<and>
      sql_resume t = (if 0 < settings_total ws then (sql_resume s)(n := stored_settings ws) else sql_resume s)"
  proof (cases "independent ws")
    case True
    with a v obtain tt c g where "total_jobs ws = Inr tt" "cpu_jobs ws = Some c" "gpu_jobs ws = Some g"
      "store_pair n tt c g s = (Inr (), t)"
      by (auto simp: set_worker_settings_def failP_def split: if_splits sum.splits option.splits)
    with store_pair_effect True show ?thesis by (simp add: stored_settings_def settings_total_def)
  next
    case False
    with a v obtain m where "max_active_jobs ws = Some m" "set_worker_max_active_jobs n m s = (Inr (), t)"
      by (auto simp: set_worker_settings_def failP_def split: if_splits sum.splits option.splits)
    with set_max_effect False show ?thesis by (simp add: stored_settings_def settings_total_def)
  qed
  with v show "n \<noteq> [] \<and> validate_write ws = Inr () \<and>
      sql_current t = (sql_current s)(n := stored_settings ws) \<and>
      sql_resume t = (if 0 < settings_total ws then (sql_resume s)(n := stored_settings ws) else sql_resume s)"
    by blast
next
  fix n ws s e t
  assume "set_worker_settings n ws s = (Inl e, t)"
  then have "\<exists>fs. t = s\<lparr>faults := fs\<rparr>"
    by (auto simp: set_worker_settings_def set_worker_max_active_jobs_def store_pair_def failP_def
        dest: upsert_settings_Inl split: if_splits sum.splits option.splits)
  then show "sql_current t = sql_current s \<and> sql_resume t = sql_resume s" by auto
qed

definition sql_command :: "sql_db \<Rightarrow> string \<Rightarrow> worker_control option" where
  "sql_command s n = map_option snd (lookup_row fst n (controls_t s))"

lemma sql_command_faults [simp]: "sql_command (s\<lparr>faults := fs\<rparr>) = sql_command s"
  by (simp add: sql_command_def fun_eq_iff)

lemma sql_command_upsert:
  "controls_t t = upsert fst (\<lambda>_. (n, c)) (n, c) (controls_t s) \<Longrightarrow> sql_command t = (sql_command s)(n := Some c)"
  by (rule ext) (auto simp: sql_command_def lookup_row_upsert split: option.splits)

lemma set_control_Inr:
  assumes "set_worker_control n c s = (Inr (), t)"
  shows "sql_command t = (sql_command s)(n := Some (c\<lparr>ctl_state := ''pending'', ctl_error := []\<rparr>))"
  using assms unfolding set_worker_control_def
proof (cases rule: statement_cases)
  case (run fs)
  then show ?thesis
    by (intro sql_command_upsert) (auto simp: Let_def split: if_splits)
qed simp

lemma ack_control_Inr:
  assumes "ack_worker_control n a s = (Inr (), t)"
  shows "\<exists>c. sql_command s n = Some c \<and> ctl_id c = ack_id a \<and>
    sql_command t = (sql_command s)(n := Some (c\<lparr>ctl_state := ack_state a, ctl_error := ack_error a\<rparr>))"
  using assms unfolding ack_worker_control_def
proof (cases rule: statement_cases)
  case (run fs)
  then obtain m c where r: "lookup_row fst n (controls_t s) = Some (m, c)" "ctl_id c = ack_id a"
    and t: "controls_t t = upsert fst (\<lambda>_. (n, c\<lparr>ctl_state := ack_state a, ctl_error := ack_error a\<rparr>))
      (n, c\<lparr>ctl_state := ack_state a, ctl_error := ack_error a\<rparr>) (controls_t s)"
    by (auto simp: Let_def split: if_splits option.splits prod.splits)
  from r sql_command_upsert[OF t] show ?thesis by (auto simp: sql_command_def)
qed simp

interpretation sql_commands: command_store sql_command set_worker_control ack_worker_control
proof
  show "\<And>n c s t. set_worker_control n c s = (Inr (), t) \<Longrightarrow>
      sql_command t = (sql_command s)(n := Some (c\<lparr>ctl_state := ''pending'', ctl_error := []\<rparr>))"
    by (rule set_control_Inr)
  show "\<And>n a s t. ack_worker_control n a s = (Inr (), t) \<Longrightarrow> \<exists>c. sql_command s n = Some c \<and>
      ctl_id c = ack_id a \<and>
      sql_command t = (sql_command s)(n := Some (c\<lparr>ctl_state := ack_state a, ctl_error := ack_error a\<rparr>))"
    by (rule ack_control_Inr)
qed (auto simp: set_worker_control_def ack_worker_control_def Let_def elim!: statement_cases
    split: if_splits option.splits prod.splits)

section \<open>The properties\<close>

text \<open>Stopping a worker's queue (a write of limit 0 after a positive one) keeps the limits to go
  back to: what the server reads as the settings to resume is the last positive write, while the
  current settings are the zero ones; whatever the form of either write, and no other worker's
  settings change.\<close>

theorem stopping_remembers_limits:
  assumes "set_worker_settings n ws s = (Inr (), t)" and "0 < settings_total ws"
    and "set_worker_settings n zero t = (Inr (), u)" and "settings_total zero = 0"
  shows "fst (get_worker_resume_settings n (u\<lparr>faults := []\<rparr>)) = Inr (stored_settings ws) \<and>
    fst (get_worker_settings n (u\<lparr>faults := []\<rparr>)) = Inr (stored_settings zero) \<and>
    (\<forall>m. m \<noteq> n \<longrightarrow> fst (get_worker_settings m (u\<lparr>faults := []\<rparr>)) = fst (get_worker_settings m (s\<lparr>faults := []\<rparr>)))"
  using sql_settings.pause_remembers[OF assms] sql_settings.other_worker[OF assms(1)]
    sql_settings.other_worker[OF assms(3)] by (simp add: sql_reads)

definition two_slots :: worker_settings where
  "two_slots = empty_settings\<lparr>cpu_jobs := Some 1, gpu_jobs := Some 1\<rparr>"

definition no_slots :: worker_settings where
  "no_slots = empty_settings\<lparr>cpu_jobs := Some 0, gpu_jobs := Some 0\<rparr>"

theorem stopping_remembers_limits_witness:
  "\<exists>t u. set_worker_settings ''w'' two_slots empty_db = (Inr (), t) \<and> set_worker_settings ''w'' no_slots t = (Inr (), u) \<and>
    fst (get_worker_resume_settings ''w'' (u\<lparr>faults := []\<rparr>)) = Inr \<lparr>control = None, max_active_jobs = Some 2,
      cpu_jobs = Some 1, gpu_jobs = Some 1\<rparr>"
proof -
  let ?t = "snd (set_worker_settings ''w'' two_slots empty_db)"
  let ?u = "snd (set_worker_settings ''w'' no_slots ?t)"
  have e: "map_sum (\<lambda>_. ()) id (fst (set_worker_settings ''w'' two_slots empty_db)) = Inr ()"
    "map_sum (\<lambda>_. ()) id (fst (set_worker_settings ''w'' no_slots ?t)) = Inr ()"
    "0 < settings_total two_slots" "settings_total no_slots = 0"
    "stored_settings two_slots = \<lparr>control = None, max_active_jobs = Some 2, cpu_jobs = Some 1, gpu_jobs = Some 1\<rparr>"
    by code_simp+
  from run_value[OF e(1)] run_value[OF e(2)]
  have r: "set_worker_settings ''w'' two_slots empty_db = (Inr (), ?t)" "set_worker_settings ''w'' no_slots ?t = (Inr (), ?u)"
    by auto
  from stopping_remembers_limits[OF r(1) e(3) r(2) e(4)] r e(5) show ?thesis by auto
qed

text \<open>A late acknowledgement never touches a newer command: once a command was replaced, the
  acknowledgement of the old one is refused and the new command stays pending, unchanged.\<close>

theorem late_acknowledgement_refused:
  assumes "set_worker_control n c s = (Inr (), t)" and "ack_id a \<noteq> ctl_id c"
    and "ack_worker_control n a t = (r, u)"
  shows "r \<noteq> Inr () \<and> sql_command u n = Some (c\<lparr>ctl_state := ''pending'', ctl_error := []\<rparr>)"
  using sql_commands.late_ack[OF assms] sql_commands.issue_ok[OF assms(1)] by simp

definition demo_command :: "string \<Rightarrow> worker_control" where
  "demo_command i = \<lparr>ctl_id = i, ctl_job_id = [], ctl_action = ''pause-encodes'', ctl_state = [],
     ctl_error = [], ctl_cpu_jobs = None, ctl_gpu_jobs = None, ctl_max_active_jobs = None\<rparr>"

theorem late_acknowledgement_refused_witness:
  "\<exists>t u. set_worker_control ''w'' (demo_command ''2'') empty_db = (Inr (), t) \<and>
    ack_worker_control ''w'' \<lparr>ack_id = ''1'', ack_error = []\<rparr> t = (Inl ErrElementNotFound, u) \<and>
    sql_command u ''w'' = Some (demo_command ''2''\<lparr>ctl_state := ''pending''\<rparr>)"
proof -
  let ?t = "snd (set_worker_control ''w'' (demo_command ''2'') empty_db)"
  have e: "map_sum (\<lambda>_. ()) id (fst (set_worker_control ''w'' (demo_command ''2'') empty_db)) = Inr ()"
    "map_sum id (\<lambda>_. ()) (fst (ack_worker_control ''w'' \<lparr>ack_id = ''1'', ack_error = []\<rparr> ?t)) = Inl ErrElementNotFound"
    by code_simp+
  from run_value[OF e(1)] have r: "set_worker_control ''w'' (demo_command ''2'') empty_db = (Inr (), ?t)" by auto
  from late_acknowledgement_refused[OF r _ run_error[OF e(2)]] r run_error[OF e(2)] show ?thesis
    by (auto simp: demo_command_def)
qed

end
