(* ===== verification/Worker_Server_Claims.thy ===== *)
theory Worker_Server_Claims
  imports Worker_Server Web_Claims Pipeline_Claims Worker_Stores
begin

text \<open>
  What holds of the worker and the server together. As long as no retried call was given up, the log
  of a job on the server is what was assigned followed by exactly the events the worker sent, once and
  in order, whatever requests failed, were repeated or lost, and through restarts of the worker. A
  repeated event is refused for ever, though, when it was its answer that got lost. And settings written
  over the interface are those the worker runs with after its next synchronisation.
\<close>

section \<open>Attempts\<close>

lemma deliver_state: "snd (deliver h d s) \<in> {s} \<union> range (\<lambda>env. snd (h env s))"
  by (cases d) auto

lemma attempts_reach:
  assumes "\<forall>d\<in>set ds. \<forall>s. I s \<longrightarrow> I (snd (deliver h d s))" and "I s" and "attempts again h ds s = (r, t)"
  shows "I t \<and> (\<forall>x. r = Some x \<longrightarrow> \<not> again (reply_status x) \<and> (\<exists>u d. d \<in> set ds \<and> I u \<and> deliver h d u = (x, t)))"
  using assms
proof (induction ds arbitrary: s)
  case (Cons d ds)
  obtain x u where d: "deliver h d s = (x, u)" by fastforce
  with Cons.prems(1,2) have u: "I u" by (metis list.set_intros(1) snd_conv)
  show ?case
  proof (cases "again (reply_status x)")
    case True
    with Cons.prems d have "attempts again h ds u = (r, t)" by simp
    from Cons.IH[OF _ u this] Cons.prems(1) show ?thesis by fastforce
  next
    case False
    with Cons.prems(2,3) d u show ?thesis by fastforce
  qed
qed simp

section \<open>One event on the server\<close>

abbreviation server_log :: "server \<Rightarrow> uuid \<Rightarrow> task_events" where
  "server_log s \<equiv> job_log (sdb s)"

lemma log_reads:
  assumes "reads_only m"
  shows "keeps (\<lambda>d. job_log d = l) m"
proof (rule keepsI)
  fix s r t
  assume l: "job_log s = l" and "m s = (r, t)"
  from reads_onlyD[OF assms this(2)] obtain fs where "t = s\<lparr>faults := fs\<rparr>" .
  with l show "job_log t = l" by simp
qed

lemma log_rules:
  "keeps (\<lambda>d. job_log d = l) (get_job j)" "keeps (\<lambda>d. job_log d = l) (update_job v)"
  by (intro log_reads reads_get_job, rule keepsI, simp add: update_job_log)

lemma complete_keeps_log: "keeps (\<lambda>s. server_log s = l) (complete_job cfg probe tmp i)"
  unfolding complete_job_def publish_output_def record_output_def remove_unless_same_def clean_staging_def Let_def
  by (intro keeps_intros log_rules)

lemma delete_keeps_log: "keeps (\<lambda>s. server_log s = l) (delete_source cfg e)"
  unfolding delete_source_def by (intro keeps_intros log_rules)

text \<open>The log \<open>l'\<close> is \<open>l\<close> with the event \<open>e\<close>, the next one of its job.\<close>

definition recorded_on :: "task_event \<Rightarrow> (uuid \<Rightarrow> task_events) \<Rightarrow> (uuid \<Rightarrow> task_events) \<Rightarrow> bool" where
  "recorded_on e l l' \<longleftrightarrow> event_id e = int (length (l (job_id e))) \<and>
     (\<exists>now. l' = l(job_id e := l (job_id e) @ [store_event now e]))"

lemma record_effect:
  assumes "record_notification now e s = (r, t)" and "db_inv s"
  shows "job_log t = job_log s \<and> (r = Inr () \<longrightarrow> is_completed e \<and> event_id e < int (length (job_log s (job_id e)))) \<or>
    recorded_on e (job_log s) (job_log t)"
proof -
  have add: "job_log v = job_log u \<and> q \<noteq> Inr () \<or> recorded_on e (job_log u) (job_log v)"
    if a: "add_new_task_event now e u = (q, v)" and u: "db_inv u" for u v q
  proof (cases q)
    case (Inl x)
    with a sql.append_fails show ?thesis by (metis Inl_not_Inr)
  next
    case (Inr x)
    with a have "add_new_task_event now e u = (Inr (), v)" by simp
    from append_log[OF this] sql.append_checked[OF this] db_inv_dense[OF u] show ?thesis
      by (auto simp: recorded_on_def sql.dense_store_def)
  qed
  show ?thesis
  proof (cases "is_completed e")
    case False
    with assms(1) add[OF _ assms(2)] show ?thesis by (auto simp: record_notification_def)
  next
    case True
    from assms(1) have "bindP (get_job (job_id e)) (\<lambda>v. if already_recorded e v then retP () else add_new_task_event now e) s = (r, t)"
      by (simp add: record_notification_def if_P[OF True])
    then show ?thesis
    proof (cases rule: bindP_cases)
      case (fails x)
      from reads_onlyD[OF reads_get_job fails(1)] obtain fs where "t = s\<lparr>faults := fs\<rparr>" .
      with fails show ?thesis by simp
    next
      case (continues v u)
      from get_job_read[OF continues(1)] obtain row fs where
        v: "read_of s row v" "u = s\<lparr>faults := fs\<rparr>" "jr_id row = job_id e" .
      show ?thesis
      proof (cases "already_recorded e v")
        case rec: True
        have j: "jid v = job_id e" using v(1,3) by (simp add: read_of_def)
        have "set (events v) = set (job_log s (job_id e))" using read_of_dense(3)[OF assms(2) v(1)] j by simp
        with rec obtain x where "x \<in> set (job_log s (job_id e))" "event_id x = event_id e"
          by (auto simp: already_recorded_def list_ex_iff)
        with dense_log_less[of "job_log s (job_id e)" x] db_inv_dense[OF assms(2)]
        have "event_id e < int (length (job_log s (job_id e)))" by (auto simp: sql.dense_store_def)
        with rec continues(2) v(2) True show ?thesis by (auto simp: retP_def)
      next
        case False
        with continues(2) add[of u r t] assms(2) v(2) show ?thesis by auto
      qed
    qed
  qed
qed

lemma notification_effect:
  assumes "process_event cfg probe tmp now (NotificationEvent (Some e)) s = (r, t)" and "db_inv (sdb s)"
  shows "server_log t = server_log s \<and> (r = Inr () \<longrightarrow> is_completed e \<and> event_id e < int (length (server_log s (job_id e)))) \<or>
    recorded_on e (server_log s) (server_log t)"
proof -
  let ?first = "if is_completed e then complete_job cfg probe tmp (job_id e) else retP ()"
  have first: "keeps (\<lambda>s. server_log s = l) ?first" "keeps (\<lambda>s. db_inv (sdb s)) ?first" for l
    by (simp_all add: complete_keeps_log inv_complete keeps_ret)
  from assms(1) have "bindP ?first (\<lambda>_. bindP (on_db (record_notification now e)) (\<lambda>_. delete_source cfg e)) s = (r, t)"
    by (simp add: process_event_def)
  then show ?thesis
  proof (cases rule: bindP_cases)
    case (fails x)
    with keepsD[OF first(1) refl fails(1)] show ?thesis by simp
  next
    case (continues y u)
    from keepsD[OF first(1) refl continues(1)] keepsD[OF first(2) assms(2) continues(1)]
    have u: "server_log u = server_log s" "db_inv (sdb u)" by simp_all
    from continues(2) show ?thesis
    proof (cases rule: bindP_cases)
      case (fails x)
      then obtain d where d: "record_notification now e (sdb u) = (Inl x, d)" "t = u\<lparr>sdb := d\<rparr>"
        by (auto simp: on_db_def split: prod.splits)
      from record_effect[OF d(1) u(2)] u(1) d(2) fails(2) show ?thesis by auto
    next
      case (continues z v)
      from continues(1) obtain d where d: "record_notification now e (sdb u) = (Inr (), d)" "v = u\<lparr>sdb := d\<rparr>"
        by (auto simp: on_db_def split: prod.splits)
      from keepsD[OF delete_keeps_log refl continues(2)] d(2) have "server_log t = job_log d" by simp
      with record_effect[OF d(1) u(2)] u(1) show ?thesis by auto
    qed
  qed
qed

section \<open>One event over the network\<close>

fun carries_token :: "string \<Rightarrow> delivery \<Rightarrow> bool" where
  "carries_token token (Answered env) = (we_token env = token)"
| "carries_token token (Unanswered env) = (we_token env = token)"
| "carries_token token Unreached = True"

definition trusted :: "string \<Rightarrow> web_world \<Rightarrow> bool" where
  "trusted token n \<longleftrightarrow> (\<forall>ds\<in>set (wn_calls n). \<forall>d\<in>set ds. carries_token token d)"

text \<open>The retrying client tries again without an answer and after an error of the server, not after 200.\<close>

definition retries :: "(int option \<Rightarrow> bool) \<Rightarrow> bool" where
  "retries again \<longleftrightarrow> again None \<and> again (Some 500) \<and> \<not> again (Some 200)"

lemma authorized_request: "authorized token (bearer @ token)"
  by (simp add: authorized_def has_prefix_iff bearer_def)

lemma with_token: "we_token env = token \<Longrightarrow> wq_authorization q = bearer @ token \<Longrightarrow> auth_func env q h = h"
  by (simp add: auth_func_def authorized_request)

lemma request_fields [simp]:
  "wq_authorization (client_request token peer) = bearer @ token" "wq_worker (client_request token peer) = []"
  by (simp_all add: client_request_def)

abbreviation event_call :: "string \<Rightarrow> string \<Rightarrow> task_event \<Rightarrow> web_env \<Rightarrow> unit handler" where
  "event_call token peer e \<equiv> event_handler token peer (NotificationEvent (Some e))"

lemma event_answer:
  assumes "event_call token peer e env s = (x, t)" and "we_token env = token"
  obtains r where "process_event (we_config env) (we_output_probe env) (we_temporary env) (we_now env)
      (NotificationEvent (Some e)) s = (r, t)" "x \<in> {NoReply, Reply 500 None} \<or> x = Reply 200 None \<and> r = Inr ()"
proof -
  obtain r u where p: "process_event (we_config env) (we_output_probe env) (we_temporary env) (we_now env)
      (NotificationEvent (Some e)) s = (r, u)" by fastforce
  with assms have "u = t" "x \<in> {NoReply, Reply 500 None} \<or> x = Reply 200 None \<and> r = Inr ()"
    by (auto simp: event_handler_def with_token web_event_def envelop_event_def answer_def Let_def split: sum.splits if_splits)
  with p that show thesis by blast
qed

lemma delivered_event:
  assumes "deliver (event_call token peer e) d s = (x, t)" and "carries_token token d" and "db_inv (sdb s)"
  shows "db_inv (sdb t)"
    and "server_log t = server_log s \<and> (x = Reply 200 b \<longrightarrow> is_completed e \<and> event_id e < int (length (server_log s (job_id e)))) \<or>
      recorded_on e (server_log s) (server_log t)"
    and "x \<in> {NoReply, Reply 500 None, Reply 200 None}"
proof -
  have "db_inv (sdb t) \<and> (server_log t = server_log s \<and> (y = Reply 200 b \<longrightarrow> is_completed e \<and> event_id e < int (length (server_log s (job_id e)))) \<or>
      recorded_on e (server_log s) (server_log t)) \<and> y \<in> {NoReply, Reply 500 None, Reply 200 None}"
    if y: "event_call token peer e env s = (y, t)" "we_token env = token" for env y
  proof -
    from event_answer[OF y] obtain r where r: "process_event (we_config env) (we_output_probe env) (we_temporary env) (we_now env)
      (NotificationEvent (Some e)) s = (r, t)" "y \<in> {NoReply, Reply 500 None} \<or> y = Reply 200 None \<and> r = Inr ()" .
    from notification_effect[OF r(1) assms(3)] keepsD[OF inv_event assms(3) r(1)] r(2) show ?thesis by auto
  qed
  note a = this
  have "db_inv (sdb t) \<and> (server_log t = server_log s \<and> (x = Reply 200 b \<longrightarrow> is_completed e \<and> event_id e < int (length (server_log s (job_id e)))) \<or>
      recorded_on e (server_log s) (server_log t)) \<and> x \<in> {NoReply, Reply 500 None, Reply 200 None}"
  proof (cases d)
    case (Answered env)
    with a[of env x] assms(1,2) show ?thesis by simp
  next
    case (Unanswered env)
    with a[of env "fst (event_call token peer e env s)"] assms(1,2) show ?thesis by auto
  next
    case Unreached
    with assms show ?thesis by simp
  qed
  then show "db_inv (sdb t)"
    and "server_log t = server_log s \<and> (x = Reply 200 b \<longrightarrow> is_completed e \<and> event_id e < int (length (server_log s (job_id e)))) \<or>
      recorded_on e (server_log s) (server_log t)"
    and "x \<in> {NoReply, Reply 500 None, Reply 200 None}" by blast+
qed

lemma recorded_next: "recorded_on e l l' \<Longrightarrow> int (length (l' (job_id e))) = event_id e + 1"
  unfolding recorded_on_def by (elim conjE exE) simp

lemma recorded_once: "recorded_on e l l' \<Longrightarrow> \<not> recorded_on e l' l''"
  using recorded_next[of e l l'] by (simp add: recorded_on_def)

text \<open>A call that was not given up has recorded its event, exactly once, however often it was repeated.\<close>

lemma event_call_effect:
  assumes "retries again" and "trusted token n" and "db_inv (sdb (wn_server n))"
    and "event_id e = int (length (server_log (wn_server n) (job_id e)))"
    and "call_retried again (event_call token peer e) n = (x, n')"
  shows "db_inv (sdb (wn_server n'))" "trusted token n'" "wn_given_up n \<Longrightarrow> wn_given_up n'"
    "\<not> wn_given_up n' \<Longrightarrow> recorded_on e (server_log (wn_server n)) (server_log (wn_server n'))"
proof -
  let ?L = "server_log (wn_server n)"
  let ?I = "\<lambda>s. db_inv (sdb s) \<and> (server_log s = ?L \<or> recorded_on e ?L (server_log s))"
  have "db_inv (sdb (wn_server n')) \<and> trusted token n' \<and> (wn_given_up n \<longrightarrow> wn_given_up n') \<and>
    (\<not> wn_given_up n' \<longrightarrow> recorded_on e ?L (server_log (wn_server n')))"
  proof (cases "wn_calls n")
    case Nil
    with assms(2,3,5) show ?thesis by (auto simp: call_retried_def trusted_def)
  next
    case (Cons ds rest)
    obtain r t where t: "attempts again (event_call token peer e) ds (wn_server n) = (r, t)" by fastforce
    have ds: "\<forall>d\<in>set ds. carries_token token d" using assms(2) Cons by (simp add: trusted_def)
    have step: "?I (snd (deliver (event_call token peer e) d s))" if "d \<in> set ds" "?I s" for d s
    proof -
      obtain y u where y: "deliver (event_call token peer e) d s = (y, u)" by fastforce
      from that ds have c: "carries_token token d" "db_inv (sdb s)" by simp_all
      from delivered_event(1)[OF y c] delivered_event(2)[OF y c] that(2) recorded_once[of e ?L "server_log s"]
      show ?thesis using y by auto
    qed
    from attempts_reach[where I = ?I, OF _ _ t] step assms(3)
    have I: "?I t" "\<And>y. r = Some y \<Longrightarrow> \<not> again (reply_status y) \<and>
      (\<exists>u d. d \<in> set ds \<and> ?I u \<and> deliver (event_call token peer e) d u = (y, t))" by blast+
    have "recorded_on e ?L (server_log t)" if y: "r = Some y" for y
    proof -
      from I(2)[OF y] obtain u d where u: "\<not> again (reply_status y)" "d \<in> set ds" "?I u" "deliver (event_call token peer e) d u = (y, t)"
        by blast
      with ds have d: "carries_token token d" by blast
      from u(1) assms(1) delivered_event(3)[OF u(4) d] u(3) have "y = Reply 200 None" by (auto simp: retries_def)
      with delivered_event(2)[OF u(4) d, of None] u(3) assms(4) recorded_once[of e ?L "server_log u"]
      show ?thesis by auto
    qed
    with I(1) t Cons assms(2,5) show ?thesis by (auto simp: call_retried_def trusted_def split: option.splits)
  qed
  then show "db_inv (sdb (wn_server n'))" "trusted token n'" "wn_given_up n \<Longrightarrow> wn_given_up n'"
    "\<not> wn_given_up n' \<Longrightarrow> recorded_on e ?L (server_log (wn_server n'))" by blast+
qed

section \<open>A job on both sides\<close>

text \<open>\<open>in_step token j l p\<close>: unless a call was given up, the log of \<open>j\<close> is \<open>l\<close> and then what was sent, up
  to the clock of the server and the probe it keeps elsewhere; the context file agrees on the last event.\<close>

definition in_step :: "string \<Rightarrow> uuid \<Rightarrow> task_events \<Rightarrow> web_world pipeline \<Rightarrow> bool" where
  "in_step token j l p \<longleftrightarrow> jc_job_id (pl_ctx p) = j \<and> last_id (pl_ctx p) + 1 = int (length l + length (pl_sent p)) \<and>
     (\<forall>c. pl_saved p = Some c \<longrightarrow> jc_job_id c = j \<and> last_id c = last_id (pl_ctx p)) \<and> trusted token (pl_net p) \<and>
     (\<not> wn_given_up (pl_net p) \<longrightarrow> db_inv (sdb (wn_server (pl_net p))) \<and>
       map (store_event 0) (server_log (wn_server (pl_net p)) j) = map (store_event 0) (l @ pl_sent p))"

lemma store_twice [simp]: "store_event 0 (store_event now e) = store_event 0 e"
  by (simp add: store_event_def)

lemma retried_given_up: "call_retried again h n = (x, n') \<Longrightarrow> wn_given_up n \<Longrightarrow> wn_given_up n'"
  by (auto simp: call_retried_def split: list.splits prod.splits option.splits)

lemma retried_trusted: "call_retried again h n = (x, n') \<Longrightarrow> trusted token n \<Longrightarrow> trusted token n'"
  by (auto simp: call_retried_def trusted_def split: list.splits prod.splits option.splits)

lemma context_event_fields:
  "worker_name (event_of_context now name c) = name" "job_id (event_of_context now name c) = jc_job_id c"
  "event_id (event_of_context now name c) = last_id c"
  by (simp_all add: event_of_context_def last_id_def split: option.splits)

lemma own_name: "client_task_event tr name (event_of_context now name c) n =
    exchange (expect_status 200) (tr_event tr (event_of_context now name c)) n"
  by (simp add: client_task_event_def event_of_context_def split: option.splits)

lemma publish_in_step:
  assumes "retries again" and "in_step token j l p" and "\<forall>i. sw_saves w i \<noteq> Not_Opened"
  shows "in_step token j l (publish_task_event (web_transport again token peer) env w ty st msg p)"
proof -
  let ?c = "update_event ty st (event_message ty msg (pl_ctx p)) (pl_ctx p)"
  let ?e = "event_of_context (sw_now w) (pe_transport_name env) ?c"
  let ?n = "pl_net p"
  obtain x n' where n': "call_retried again (event_call token peer ?e) ?n = (x, n')" by fastforce
  then have net: "snd (client_task_event (web_transport again token peer) (pe_transport_name env) ?e ?n) = n'"
    by (simp add: own_name exchange_def web_transport_def Let_def)
  have c: "jc_job_id ?c = j" "last_id ?c = last_id (pl_ctx p) + 1" using assms(2) by (simp_all add: in_step_def)
  note e = context_event_fields[of "sw_now w" "pe_transport_name env" ?c, unfolded c]
  have log: "db_inv (sdb (wn_server n')) \<and> map (store_event 0) (server_log (wn_server n') j) = map (store_event 0) (l @ pl_sent p @ [?e])"
    if g: "\<not> wn_given_up n'"
  proof -
    have g0: "\<not> wn_given_up ?n" using retried_given_up[OF n'] g by blast
    with assms(2) have old: "db_inv (sdb (wn_server ?n))"
      "map (store_event 0) (server_log (wn_server ?n) j) = map (store_event 0) (l @ pl_sent p)" "trusted token ?n"
      by (simp_all add: in_step_def)
    from arg_cong[where f = length, OF old(2)] assms(2) have "event_id ?e = int (length (server_log (wn_server ?n) (job_id ?e)))"
      by (simp add: e in_step_def)
    note eff = event_call_effect[OF assms(1) old(3,1) this n']
    from eff(4)[OF g] old(2) have "map (store_event 0) (server_log (wn_server n') j) = map (store_event 0) (l @ pl_sent p) @ [store_event 0 ?e]"
      unfolding recorded_on_def e by (elim conjE exE) simp
    with eff(1) show ?thesis by simp
  qed
  have saved: "\<forall>d. persist_context (sw_saves w (event_id ?e)) ?c (pl_saved p) = Some d \<longrightarrow> d = ?c"
    using assms(3)[rule_format, of "event_id ?e"] by (cases "sw_saves w (event_id ?e)") auto
  from saved log c retried_trusted[OF n'] assms(2) show ?thesis
    by (auto simp: in_step_def publish_task_event_def Let_def net)
qed

lemma in_step_frame:
  assumes "in_step token j l p" and "pl_sent q = pl_sent p" and "pl_net q = pl_net p"
    and "pl_saved q = pl_saved p \<or> pl_saved q = None" and "jc_job_id (pl_ctx q) = jc_job_id (pl_ctx p)"
    and "last_id (pl_ctx q) = last_id (pl_ctx p)"
  shows "in_step token j l q"
proof -
  have "\<forall>c. pl_saved q = Some c \<longrightarrow> pl_saved p = Some c" using assms(4) by fastforce
  with assms(1) show ?thesis unfolding in_step_def assms(2,3,5,6) by blast
qed

lemma restart_in_step:
  assumes "in_step token j l p"
  shows "in_step token j l (restart p)"
proof (cases "pl_saved p")
  case None
  have "in_step token j l (p\<lparr>pl_at := Gone\<rparr>)" by (rule in_step_frame[OF assms]) simp_all
  with None assms show ?thesis by (simp add: restart_def)
next
  case (Some c)
  with assms have "jc_job_id c = jc_job_id (pl_ctx p)" "last_id c = last_id (pl_ctx p)" by (simp_all add: in_step_def)
  then have "in_step token j l (p\<lparr>pl_ctx := c, pl_at := a\<rparr>)" "in_step token j l (p\<lparr>pl_at := a, pl_saved := None\<rparr>)"
    "in_step token j l (p\<lparr>pl_at := a\<rparr>)" for a
    by (intro in_step_frame[OF assms]; simp)+
  with Some assms show ?thesis by (simp add: restart_def split: resumption.split)
qed

lemma advance_in_step:
  assumes "retries again" and "in_step token j l p" and "\<forall>i. sw_saves w i \<noteq> Not_Opened"
  shows "in_step token j l (advance (web_transport again token peer) env w p)"
proof -
  note pub = publish_in_step[OF assms(1) _ assms(3)]
  note move = in_step_frame[where q = "x\<lparr>pl_at := a\<rparr>" and p = x for x a]
  show ?thesis
  proof (cases "pl_at p")
    case (Queued_At ph)
    have "in_step token j l (p\<lparr>pl_ctx := (pl_ctx p)\<lparr>jc_encode_kind := k, jc_encode_config := f\<rparr>\<rparr>)" for k f
      by (rule in_step_frame[OF assms(2)]) (simp_all add: last_id_def split: option.split)
    with Queued_At assms(2) show ?thesis
      by (auto simp: advance_def begin_encode_def fail_job_def restart_in_step split: sum.splits intro!: move pub)
  next
    case (Begun ph)
    obtain es q where r: "run_actions w (if runners env ph \<le> 0 then [] else phase_actions ph (pl_ctx p)) p = (es, q)" by fastforce
    from run_actions_frame[of w _ p es q] r have "in_step token j l (q\<lparr>pl_at := Acted ph es\<rparr>)"
      by (intro in_step_frame[OF assms(2)]) auto
    with Begun r assms(2) show ?thesis by (simp add: advance_def restart_in_step)
  next
    case (Acted ph es)
    with assms(2) show ?thesis by (auto simp: advance_def intro!: move pub)
  next
    case (Reported ph es)
    with assms(2) show ?thesis
      by (auto simp: advance_def route_def fail_job_def restart_in_step intro!: move pub split: option.splits)
  next
    case Closing
    have "in_step token j l (clean_job w p)"
      by (rule in_step_frame[OF assms(2)]) (use clean_job_saved[of w p] in auto)
    with Closing show ?thesis by (simp add: advance_def)
  next
    case Gone
    with assms(2) show ?thesis by (simp add: advance_def)
  qed
qed

fun opens_context :: "pipeline_move \<Rightarrow> bool" where
  "opens_context (Advance w) = (\<forall>i. sw_saves w i \<noteq> Not_Opened)"
| "opens_context Restart = True"

lemma run_in_step:
  assumes "retries again" and "list_all opens_context moves"
  shows "in_step token j l p \<Longrightarrow> in_step token j l (fold (pipeline_step (web_transport again token peer) env) moves p)"
  using assms(2)
proof (induction moves arbitrary: p)
  case (Cons m ms)
  have "in_step token j l (pipeline_step (web_transport again token peer) env m p)"
    using Cons.prems advance_in_step[OF assms(1)] restart_in_step by (cases m) auto
  with Cons show ?case by simp
qed simp

lemma accepted_in_step:
  assumes "retries again" and "trusted token n" and "db_inv (sdb (wn_server n))" and "\<forall>i. sw_saves w i \<noteq> Not_Opened"
    and "rs_event_id r + 1 = int (length (server_log (wn_server n) (rs_id r)))"
  shows "in_step token (rs_id r) (server_log (wn_server n) (rs_id r))
    (accept_job (web_transport again token peer) env w temp pinned r n)"
  unfolding accept_job_def Let_def
  by (intro publish_in_step[OF assms(1) _ assms(4)])
    (use assms in \<open>auto simp: in_step_def new_context_def last_id_def split: option.splits prod.splits\<close>)

text \<open>The assignment the worker was told of is the last event of the log, whichever attempt was answered.\<close>

lemma deliver_cases: "deliver h d s = (x, t) \<Longrightarrow> x \<noteq> NoReply \<Longrightarrow> \<exists>env. d = Answered env \<and> h env s = (x, t)"
  by (cases d) auto

lemma answered_200:
  assumes "answer st ok m s = (Reply 200 (Some x), t)" and "\<And>e. st e \<noteq> 200" and "\<And>y. ok y = Reply 200 (Some y)"
  shows "m s = (Inr x, t)"
  using assms by (auto simp: answer_def split: prod.splits sum.splits if_splits)

lemma grown_log: "keeps (grown j l) m \<Longrightarrow> m s = (r, t) \<Longrightarrow> job_log s j = l \<Longrightarrow> \<exists>es. job_log t j = l @ es"
  using keepsD[of "grown j l" m s r t] by (auto simp: grown_def)

lemma job_request_effect:
  assumes "client_request_job (web_transport again token peer) name n = (Inr r, n')"
    and "trusted token n" and "db_inv (sdb (wn_server n))" and "short_logs (sdb (wn_server n'))"
  obtains a where "last (server_log (wn_server n') (rs_id r)) = a" "status a = Assigned" "worker_name a = name"
    "event_id a = rs_event_id r" "rs_event_id r + 1 = int (length (server_log (wn_server n') (rs_id r)))"
    "db_inv (sdb (wn_server n'))" "trusted token n'"
proof -
  let ?base = "client_request token peer"
  let ?h = "\<lambda>env. auth_func env ?base (web_request_job env (?base\<lparr>wq_worker := name\<rparr>))"
  from assms(1) have n': "call_retried again ?h n = (Reply 200 (Some r), n')"
    by (auto simp: client_request_job_def exchange_def web_transport_def Let_def
        split: prod.splits http_reply.splits if_splits option.splits)
  then obtain ds rest t where t: "wn_calls n = ds # rest" "attempts again ?h ds (wn_server n) = (Some (Reply 200 (Some r)), t)"
    "wn_server n' = t" by (auto simp: call_retried_def split: list.splits prod.splits option.splits)
  have inv: "db_inv (sdb (snd (?h env s)))" if "db_inv (sdb s)" for env s
    using keepsD[OF keeps_on_db[OF keeps_request_job] that]
    by (auto simp: auth_func_def web_request_job_def refuse_def answer_def that split: prod.splits sum.splits)
  have "\<forall>d\<in>set ds. \<forall>s. db_inv (sdb s) \<longrightarrow> db_inv (sdb (snd (deliver ?h d s)))"
  proof (intro ballI allI impI)
    fix d and s :: server assume "db_inv (sdb s)"
    with inv show "db_inv (sdb (snd (deliver ?h d s)))" by (cases d) simp_all
  qed
  from attempts_reach[where I = "\<lambda>s. db_inv (sdb s)", OF this assms(3) t(2)] obtain u d where
    u: "db_inv (sdb t)" "d \<in> set ds" "db_inv (sdb u)" "deliver ?h d u = (Reply 200 (Some r), t)" by blast
  from deliver_cases[OF u(4)] obtain env where env: "d = Answered env" "?h env u = (Reply 200 (Some r), t)" by auto
  from u(2) env(1) t(1) assms(2) have "we_token env = token" by (auto simp: trusted_def)
  with env(2) have "answer (\<lambda>e. if e = ErrNoJobsAvailable then 204 else 500) (\<lambda>x. Reply 200 (Some x))
      (on_db (request_job (we_now env) name)) u = (Reply 200 (Some r), t)"
    by (auto simp: with_token web_request_job_def refuse_def split: if_splits)
  from answered_200[OF this] have "on_db (request_job (we_now env) name) u = (Inr r, t)" by simp
  then have a: "request_job (we_now env) name (sdb u) = (Inr r, sdb t)" by (auto simp: on_db_def split: prod.splits)
  have "short_logs (sdb u)"
    unfolding short_logs_def
  proof
    fix j
    from grown_log[OF grown_request a refl, of j] obtain es where "job_log (sdb t) j = job_log (sdb u) j @ es" by blast
    with assms(4) t(3) have "int (length (job_log (sdb u) j @ es)) < go_max_int" unfolding short_logs_def by metis
    then show "int (length (job_log (sdb u) j)) < go_max_int" by simp
  qed
  from request_job_effect[OF u(3) this a] obtain e where
    e: "job_log (sdb t) = (job_log (sdb u))(rs_id r := job_log (sdb u) (rs_id r) @ [e])"
    "event_id e = rs_event_id r" "rs_event_id r = int (length (job_log (sdb u) (rs_id r)))" "status e = Assigned" "worker_name e = name" .
  show ?thesis
    by (rule that[of e]) (simp_all add: e t(3) u(1) retried_trusted[OF n' assms(2)])
qed

text \<open>The job on the server and on its worker, with everybody else: whatever the other clients, the dashboard and the
  maintenance do to the server between two steps of the worker, as long as they leave the log of this job alone.\<close>

datatype shared_move = Own_Move pipeline_move | Others_Act server

fun shared_step :: "web_world transport \<Rightarrow> pipeline_env \<Rightarrow> shared_move \<Rightarrow> web_world pipeline \<Rightarrow> web_world pipeline" where
  "shared_step tr env (Own_Move m) p = pipeline_step tr env m p"
| "shared_step tr env (Others_Act s) p = p\<lparr>pl_net := (pl_net p)\<lparr>wn_server := s\<rparr>\<rparr>"

text \<open>What a run asks of its moves: the worker can open its context file, and the others keep the database sane and
  the log of the job as it is.\<close>

fun undisturbed :: "web_world transport \<Rightarrow> pipeline_env \<Rightarrow> shared_move list \<Rightarrow> web_world pipeline \<Rightarrow> bool" where
  "undisturbed tr env [] p = True"
| "undisturbed tr env (Own_Move m # ms) p \<longleftrightarrow> opens_context m \<and> undisturbed tr env ms (shared_step tr env (Own_Move m) p)"
| "undisturbed tr env (Others_Act s # ms) p \<longleftrightarrow> db_inv (sdb s) \<and>
     server_log s (jc_job_id (pl_ctx p)) = server_log (wn_server (pl_net p)) (jc_job_id (pl_ctx p)) \<and>
     undisturbed tr env ms (shared_step tr env (Others_Act s) p)"

lemma shared_in_step:
  assumes "retries again" and "undisturbed (web_transport again token peer) env moves p" and "in_step token j l p"
  shows "in_step token j l (fold (shared_step (web_transport again token peer) env) moves p)"
  using assms(2,3)
proof (induction moves arbitrary: p)
  case (Cons m ms)
  have "in_step token j l (shared_step (web_transport again token peer) env m p)"
  proof (cases m)
    case (Own_Move x)
    with Cons.prems run_in_step[OF assms(1), of "[x]" token j l p peer env] show ?thesis by simp
  next
    case (Others_Act s)
    with Cons.prems show ?thesis by (auto simp: in_step_def trusted_def)
  qed
  with Cons show ?case by (cases m) simp_all
qed simp

text \<open>C2: The server records what the worker does: from the assignment over any course of the job, with
  restarts of the worker and with requests that fail, are repeated or lost, the log of the job on the
  server is the log it was assigned with followed by exactly the events the worker sent, in their order
  and once each. No retried call was given up, the worker could open its context file whenever it saved it, and
  whatever others do to the server between its steps keeps the database sane and leaves the log of this job alone
  (no cancellation, no maintenance and no new intake of it).\<close>

theorem worker_events_recorded:
  fixes again token peer env w temp pinned r n1 moves
  defines "tr \<equiv> web_transport again token peer"
  defines "p \<equiv> fold (shared_step tr env) moves (accept_job tr env w temp pinned r n1)"
  assumes "retries again" and "trusted token n" and "db_inv (sdb (wn_server n))"
    and "client_request_job tr name n = (Inr r, n1)" and "short_logs (sdb (wn_server n1))"
    and "opens_context (Advance w)" and "undisturbed tr env moves (accept_job tr env w temp pinned r n1)"
    and "\<not> wn_given_up (pl_net p)"
  shows "map (store_event 0) (server_log (wn_server (pl_net p)) (rs_id r)) =
      map (store_event 0) (server_log (wn_server n1) (rs_id r) @ pl_sent p) \<and>
    status (last (server_log (wn_server n1) (rs_id r))) = Assigned \<and>
    worker_name (last (server_log (wn_server n1) (rs_id r))) = name"
proof -
  from job_request_effect[OF assms(6)[unfolded tr_def] assms(4,5,7)] obtain a where
    a: "last (server_log (wn_server n1) (rs_id r)) = a" "status a = Assigned" "worker_name a = name"
    "rs_event_id r + 1 = int (length (server_log (wn_server n1) (rs_id r)))" "db_inv (sdb (wn_server n1))" "trusted token n1" .
  from assms(8) have m: "\<forall>i. sw_saves w i \<noteq> Not_Opened" by simp
  from shared_in_step[OF assms(3) assms(9)[unfolded tr_def] accepted_in_step[OF assms(3) a(6,5) m a(4)]]
  have "in_step token (rs_id r) (server_log (wn_server n1) (rs_id r)) p" by (simp add: p_def tr_def)
  with assms(10) a show ?thesis by (simp add: in_step_def)
qed

definition demo_again :: "int option \<Rightarrow> bool" where
  "demo_again st \<longleftrightarrow> (case st of None \<Rightarrow> True | Some c \<Rightarrow> 500 \<le> c)"

lemma demo_retries: "retries demo_again"
  by (simp add: retries_def demo_again_def)

definition world_of :: "sql_db \<Rightarrow> delivery list list \<Rightarrow> web_world" where
  "world_of d calls = \<lparr>wn_server = \<lparr>sdb = d, sfs = demo_files, checksums = []\<rparr>, wn_calls = calls, wn_given_up = False\<rparr>"

text \<open>The first report of the job fails to reach the server twice.\<close>

definition demo_calls :: "delivery list list" where
  "demo_calls = [[Answered demo_web], [Unreached, Unreached, Answered demo_web], [Answered demo_web], [Answered demo_web]]"

definition demo_tr :: "web_world transport" where
  "demo_tr = web_transport demo_again (we_token demo_web) ''10.0.0.7:80''"

definition demo_told :: request_job_response where
  "demo_told = \<lparr>rs_id = ''j1'', rs_event_id = 1, rs_name = ''film.avi''\<rparr>"

definition demo_moves :: "shared_move list" where
  "demo_moves = [Own_Move (Advance demo_world), Own_Move Restart, Own_Move (Advance demo_world)]"

lemma few_events: "length (events_t d) < 100 \<Longrightarrow> short_logs d"
  by (auto simp: short_logs_def job_log_def go_max_int_def intro: le_less_trans[OF length_filter_le])

lemma demo_world_trusted: "trusted ''t'' (world_of d demo_calls)"
  by (simp add: trusted_def world_of_def demo_calls_def demo_web_def)

theorem worker_events_recorded_witness:
  "\<exists>n1. client_request_job demo_tr ''w1'' (world_of queued_db demo_calls) = (Inr demo_told, n1) \<and>
    length (server_log (wn_server (pl_net (fold (shared_step demo_tr demo_pipeline_env) demo_moves
        (accept_job demo_tr demo_pipeline_env demo_world ''/tmp'' None demo_told n1)))) ''j1'') = 5"
proof -
  let ?n = "world_of queued_db demo_calls"
  let ?r = "client_request_job demo_tr ''w1'' ?n"
  let ?p = "\<lambda>n1. fold (shared_step demo_tr demo_pipeline_env) demo_moves
        (accept_job demo_tr demo_pipeline_env demo_world ''/tmp'' None demo_told n1)"
  have v: "map_sum (\<lambda>_. ()) id (fst ?r) = Inr demo_told" "length (events_t (sdb (wn_server (snd ?r)))) = 2"
    "length (server_log (wn_server (snd ?r)) ''j1'') = 2"
    "\<not> wn_given_up (pl_net (?p (snd ?r)))" "length (pl_sent (?p (snd ?r))) = 3" by code_simp+
  from run_value[OF v(1)] obtain n1 where n1: "?r = (Inr demo_told, n1)" by auto
  have t: "trusted (we_token demo_web) ?n" using demo_world_trusted by (simp add: demo_web_def)
  have i: "db_inv (sdb (wn_server ?n))" by (simp add: world_of_def demo_states)
  have sh: "short_logs (sdb (wn_server n1))" by (rule few_events) (use v(2) n1 in simp)
  have o: "opens_context (Advance demo_world)"
    "undisturbed (web_transport demo_again (we_token demo_web) ''10.0.0.7:80'') demo_pipeline_env demo_moves q" for q
    by (simp_all add: demo_moves_def demo_world_def)
  from worker_events_recorded[OF demo_retries t i n1[unfolded demo_tr_def] sh o] v(4) n1
  have "map (store_event 0) (server_log (wn_server (pl_net (?p n1))) (rs_id demo_told)) =
    map (store_event 0) (server_log (wn_server n1) (rs_id demo_told) @ pl_sent (?p n1))" by (simp add: demo_tr_def)
  from arg_cong[where f = length, OF this] v(3,5) n1 have "length (server_log (wn_server (pl_net (?p n1))) ''j1'') = 5"
    by (simp add: demo_told_def)
  with n1 show ?thesis by blast
qed

section \<open>A lost answer\<close>

text \<open>C32: An answer that gets lost is lost for good: when the server took an event that does not complete
  the job and only its answer did not arrive, it refuses every repetition. The retrying client gets no
  answer it accepts however often it tries, although the event is recorded all along.\<close>

theorem lost_answer_never_recovers:
  assumes "retries again" and "event_call token peer e env s = (Reply 200 b, t)" and "we_token env = token"
    and "db_inv (sdb s)" and "\<not> is_completed e" and "\<forall>d\<in>set ds. carries_token token d"
  shows "\<exists>u. attempts again (event_call token peer e) (Unanswered env # ds) s = (None, u) \<and>
    server_log u = server_log t \<and> store_event 0 (last (server_log u (job_id e))) = store_event 0 e"
proof -
  have d: "deliver (event_call token peer e) (Answered env) s = (Reply 200 b, t)" "carries_token token (Answered env)"
    using assms(2,3) by simp_all
  have "recorded_on e (server_log s) (server_log t)"
    using delivered_event(2)[OF d assms(4), of b] assms(5) by simp
  note after = recorded_once[OF this]
  from \<open>recorded_on e (server_log s) (server_log t)\<close> have l: "store_event 0 (last (server_log t (job_id e))) = store_event 0 e"
    unfolding recorded_on_def by (elim conjE exE) simp
  have "\<exists>u. attempts again (event_call token peer e) ds v = (None, u) \<and> server_log u = server_log t"
    if "db_inv (sdb v)" "server_log v = server_log t" for v
    using that assms(6)
  proof (induction ds arbitrary: v)
    case (Cons c ds)
    obtain x w where c: "deliver (event_call token peer e) c v = (x, w)" by fastforce
    have tok: "carries_token token c" using Cons.prems(3) by simp
    have w: "server_log w = server_log t" "x \<noteq> Reply 200 None"
      using delivered_event(2)[OF c tok Cons.prems(1), of None] Cons.prems(2) after assms(5) by auto
    with delivered_event(3)[OF c tok Cons.prems(1)] assms(1) have "again (reply_status x)" by (auto simp: retries_def)
    with Cons.IH[OF delivered_event(1)[OF c tok Cons.prems(1)] w(1)] Cons.prems(3) c show ?case by simp
  qed simp
  from this[OF delivered_event(1)[OF d assms(4)] refl] obtain u where
    u: "attempts again (event_call token peer e) ds t = (None, u)" "server_log u = server_log t" by blast
  with assms(1,2) l show ?thesis by (simp add: retries_def)
qed

definition demo_started :: task_event where
  "demo_started = demo_event 2 Started ''w1''"

theorem lost_answer_never_recovers_witness:
  "\<exists>u. attempts demo_again (event_call ''t'' ''10.0.0.7:80'' demo_started)
      [Unanswered demo_web, Answered demo_web, Unreached, Answered demo_web] (wn_server (world_of assigned_db [])) = (None, u) \<and>
    length (server_log u ''j1'') = 3"
proof -
  let ?s = "wn_server (world_of assigned_db [])"
  have e: "fst (event_call ''t'' ''10.0.0.7:80'' demo_started demo_web ?s) = Reply 200 None"
    "length (server_log (snd (event_call ''t'' ''10.0.0.7:80'' demo_started demo_web ?s)) ''j1'') = 3"
    "\<not> is_completed demo_started" by code_simp+
  from e(1) obtain t where t: "event_call ''t'' ''10.0.0.7:80'' demo_started demo_web ?s = (Reply 200 None, t)" by (metis prod.collapse)
  have w: "we_token demo_web = ''t''" "db_inv (sdb ?s)" "\<forall>d\<in>set [Answered demo_web, Unreached, Answered demo_web]. carries_token ''t'' d"
    by (simp_all add: demo_web_def world_of_def demo_states)
  from lost_answer_never_recovers[OF demo_retries t w(1,2) e(3) w(3)] t e(2) demo_retries show ?thesis by (auto simp: retries_def)
qed

section \<open>Settings\<close>

lemma once_reply:
  assumes "call_once h n = (Reply st b, n')" and "trusted token n"
  obtains env where "h env (wn_server n) = (Reply st b, wn_server n')" "we_token env = token" "trusted token n'"
proof -
  from assms(1) obtain d ds rest where c: "wn_calls n = (d # ds) # rest" "deliver h d (wn_server n) = (Reply st b, wn_server n')"
    "wn_calls n' = rest" by (auto simp: call_once_def split: list.splits prod.splits)
  from deliver_cases[OF c(2)] obtain env where "d = Answered env" "h env (wn_server n) = (Reply st b, wn_server n')" by auto
  with that c assms(2) show thesis by (auto simp: trusted_def)
qed

lemma checked_write:
  assumes "set_worker_settings_checked name ws s = (Inr (), t)"
  shows "\<exists>u. set_worker_settings name ws u = (Inr (), t)"
  using assms unfolding set_worker_settings_checked_def
  by (auto simp: failP_def Let_def elim!: bindP_InrE split: sum.splits if_splits option.splits)

lemma written_settings:
  assumes "client_write_settings (web_transport again token peer) name ws n = (Inr (), n')" and "trusted token n"
  shows "sql_current (sdb (wn_server n')) (trim_space name) = stored_settings ws" "validate_write ws = Inr ()" "trusted token n'"
proof -
  let ?base = "client_request token peer"
  let ?h = "\<lambda>env. auth_func env ?base (web_set_settings (?base\<lparr>wq_worker := name\<rparr>) (Some ws))"
  from assms(1) show v: "validate_write ws = Inr ()"
    by (auto simp: client_write_settings_def failP_def split: sum.splits)
  from assms(1) v obtain b where "call_once ?h n = (Reply 204 b, n')"
    by (auto simp: client_write_settings_def exchange_def web_transport_def Let_def split: prod.splits)
      (metis expect_status.elims sum.distinct(1))
  from once_reply[OF this assms(2)] obtain env where env: "?h env (wn_server n) = (Reply 204 b, wn_server n')"
    "we_token env = token" and t: "trusted token n'" .
  show "trusted token n'" by (rule t)
  from env v have "answer (\<lambda>e. if e = ErrInvalidWorkerSettings then 400 else 500) (\<lambda>_. Reply 204 None)
      (on_db (set_worker_settings_checked (trim_space name) ws)) (wn_server n) = (Reply 204 b, wn_server n')"
    by (auto simp: with_token web_set_settings_def refuse_def worker_name_of_def split: if_splits)
  then obtain d where "set_worker_settings_checked (trim_space name) ws (sdb (wn_server n)) = (Inr (), d)"
    "(wn_server n)\<lparr>sdb := d\<rparr> = wn_server n'"
    by (auto simp: answer_def on_db_def split: prod.splits sum.splits if_splits)
  from checked_write[OF this(1)] arg_cong[where f = sdb, OF this(2)] obtain u where "set_worker_settings (trim_space name) ws u = (Inr (), sdb (wn_server n'))" by auto
  from sql_settings.write_ok[OF this] show "sql_current (sdb (wn_server n')) (trim_space name) = stored_settings ws" by simp
qed

lemma settings_answer:
  assumes "client_settings (web_transport again token peer) name n = (Inr ws, n')" and "trusted token n"
    and "\<forall>k. sql_command (sdb (wn_server n)) (trim_space name) = Some k \<longrightarrow> ctl_state k \<noteq> ''pending''"
  shows "ws = sql_current (sdb (wn_server n)) (trim_space name)"
proof -
  let ?base = "client_request token peer"
  let ?q = "settings_request token peer name"
  from client_settings_Inr(1)[OF assms(1)]
  have "call_once (\<lambda>env. auth_func env ?base (web_get_settings ?q)) n = (Reply 200 (Some ws), n')"
    by (simp add: web_transport_def Let_def)
  from once_reply[OF this assms(2)] obtain env where
    "auth_func env ?base (web_get_settings ?q) (wn_server n) = (Reply 200 (Some ws), wn_server n')" "we_token env = token" by blast
  then have "web_get_settings ?q (wn_server n) = (Reply 200 (Some ws), wn_server n')" by (simp add: with_token)
  then have "bindP (on_db (get_worker_settings (trim_space name))) (\<lambda>v. bindP (on_db (get_worker_control (trim_space name)))
      (\<lambda>c. retP (attach_control remote_control_capability v c))) (wn_server n) = (Inr ws, wn_server n')"
    by (auto simp: web_get_settings_def settings_request_def worker_name_of_def refuse_def Let_def answer_def
        degrade_settings_def split: if_splits prod.splits sum.splits)
  then obtain v u c where v: "on_db (get_worker_settings (trim_space name)) (wn_server n) = (Inr v, u)"
    "on_db (get_worker_control (trim_space name)) u = (Inr c, wn_server n')" "ws = attach_control remote_control_capability v c"
    by (auto simp: retP_def elim!: bindP_InrE)
  from v(1) obtain fs where "v = sql_current (sdb (wn_server n)) (trim_space name)" "sdb u = (sdb (wn_server n))\<lparr>faults := fs\<rparr>"
    by (auto simp: on_db_def get_worker_settings_def sql_current_def split: prod.splits elim!: statement_read)
  moreover from this(2) v(2) have "c = sql_command (sdb (wn_server n)) (trim_space name)"
    by (auto simp: on_db_def get_worker_control_def sql_command_def split: prod.splits elim!: statement_read)
  ultimately show ?thesis using v(3) assms(3) by (auto simp: attach_control_def split: option.splits)
qed

lemma follows_stored: "validate_write ws = Inr () \<Longrightarrow> follows (stored_settings ws) e = follows ws e"
  by (auto simp: follows_def stored_settings_def validate_write_def independent_def split: if_splits option.splits)

text \<open>C31: Settings reach the worker: once a write over the interface was acknowledged, the next synchronisation
  of the worker that succeeds leaves it at exactly these limits, whatever the worker did before, unless a
  command is pending for it or it is being drained.\<close>

theorem settings_reach_worker:
  fixes again token peer d env xs c f managed held net
  defines "tr \<equiv> web_transport again token peer"
  defines "q \<equiv> fold (co_move d tr env) xs (new_coordinator (started_worker c f managed held) net)"
  assumes "client_write_settings tr name ws n = (Inr (), n')" and "trusted token n"
    and "trim_space name = trim_space (co_name env)"
    and "\<forall>k. sql_command (sdb (wn_server n')) (trim_space name) = Some k \<longrightarrow> ctl_state k \<noteq> ''pending''"
    and "sync_worker_settings d tr env now sched (q\<lparr>co_net := n'\<rparr>) = (Inr (), t)"
    and "\<not> ex_finishing (co_worker q)" and "\<not> ex_admission_held (co_worker q)"
  shows "follows ws (co_worker t) \<and> \<not> ex_settings_pending (co_worker t)"
proof -
  note w = written_settings[OF assms(3)[unfolded tr_def] assms(4)]
  from assms(7) obtain v u where v: "client_settings tr (co_name env) n' = (Inr v, u)"
    by (auto simp: sync_worker_settings_def on_net_def split: prod.splits sum.splits elim!: bindP_InrE)
  from settings_answer[OF v[unfolded tr_def] w(3)] assms(5,6) w(1) have "v = stored_settings ws" by simp
  with sync_follows[OF _ assms(7), of v u] v assms(8,9) run_coherent[of d tr env xs c f managed held net] w(2)
  show ?thesis by (simp add: q_def follows_stored) (simp add: stored_settings_def)
qed

definition demo_write :: worker_settings where
  "demo_write = empty_settings\<lparr>cpu_jobs := Some 1, gpu_jobs := Some 2\<rparr>"

abbreviation demo_busy :: "web_world coordinator" where
  "demo_busy \<equiv> fold (co_move (\<lambda>_. []) demo_tr demo_env) [CoLocal (ReqPersistMax True 4)]
    (new_coordinator demo_worker (world_of queued_db []))"

theorem settings_reach_worker_witness:
  "\<exists>n' t. client_write_settings demo_tr ''w1'' demo_write (world_of queued_db [[Answered demo_web], [Answered demo_web]]) = (Inr (), n') \<and>
    sync_worker_settings (\<lambda>_. []) demo_tr demo_env 0 True (demo_busy\<lparr>co_net := n'\<rparr>) = (Inr (), t) \<and>
    ex_max_active (co_worker t) = 3"
proof -
  let ?n = "world_of queued_db [[Answered demo_web], [Answered demo_web]]"
  let ?w = "client_write_settings demo_tr ''w1'' demo_write ?n"
  have v: "map_sum (\<lambda>_. ()) id (fst ?w) = Inr ()" "sql_command (sdb (wn_server (snd ?w))) ''w1'' = None"
    "map_sum (\<lambda>_. ()) id (fst (sync_worker_settings (\<lambda>_. []) demo_tr demo_env 0 True (demo_busy\<lparr>co_net := snd ?w\<rparr>))) = Inr ()"
    by code_simp+
  have e: "\<not> ex_finishing (co_worker demo_busy)" "\<not> ex_admission_held (co_worker demo_busy)"
    "co_name demo_env = ''w1''" "trim_space ''w1'' = ''w1''" by code_simp+
  from run_value[OF v(1)] obtain n' where w: "?w = (Inr (), n')" by auto
  from run_value[OF v(3)] w obtain t where t:
    "sync_worker_settings (\<lambda>_. []) demo_tr demo_env 0 True (demo_busy\<lparr>co_net := n'\<rparr>) = (Inr (), t)" by auto
  have tr: "trusted (we_token demo_web) ?n" by (simp add: trusted_def world_of_def demo_web_def)
  have c: "\<forall>k. sql_command (sdb (wn_server n')) (trim_space ''w1'') = Some k \<longrightarrow> ctl_state k \<noteq> ''pending''"
    using v(2) w e(4) by simp
  have nm: "trim_space ''w1'' = trim_space (co_name demo_env)" using e(3) by simp
  from settings_reach_worker[OF w[unfolded demo_tr_def] tr nm c t[unfolded demo_tr_def] e(1,2)[unfolded demo_tr_def]] w t show ?thesis
    by (auto simp: follows_def demo_write_def empty_settings_def wrap64_def)
qed

end
