(* ===== verification/Job_Transfer.thy ===== *)
theory Job_Transfer
  imports Worker_Server
begin

text \<open>
  The transfers of a job: the download of its source with the comparison of the digests
  (\<open>worker/step/downloadStep.go\<close>) and the upload of its result (\<open>worker/step/uploadStep.go\<close>). A closure
  handed to the retry library works on captured variables: they are the state, beside the files of the
  worker and the network. The library itself is the parameter \<open>te_retry\<close>, given the number of attempts and
  the errors after which to go on; the digest and ffprobe with the decoding of its output are parameters too.
\<close>

datatype transfer_error = TeNetwork | TeCanceled | TeJobNotFound | TeStatus int | TeFile | TeSize int int
  | TeChecksum string string | TeProbe | TePanic

text \<open>How the next file of the worker can be opened, written or read.\<close>

datatype disk_outcome = DiskFine | DiskRefused | DiskFull nat

record 's transfer =
  tf_net :: 's
  tf_files :: "string \<Rightarrow> string option"
  tf_disk :: "disk_outcome list"
  tf_path :: string
  tf_name :: string
  tf_sum :: string
  tf_size :: int
  tf_body :: string

type_synonym ('s, 'a) transfer_op = "('s transfer, transfer_error, 'a) procedure"

record 's transfer_env =
  te_download :: "uuid \<Rightarrow> 's \<Rightarrow> download_body http_reply \<times> 's"
  te_checksum :: "uuid \<Rightarrow> 's \<Rightarrow> string http_reply \<times> 's"
  te_upload :: "uuid \<Rightarrow> string \<Rightarrow> string \<Rightarrow> 's \<Rightarrow> unit http_reply \<times> 's"
  te_retry :: "int \<Rightarrow> (transfer_error \<Rightarrow> bool) \<Rightarrow> ('s, unit) transfer_op \<Rightarrow> ('s, unit) transfer_op"
  te_digest :: "string \<Rightarrow> string"
  te_probe :: "string \<Rightarrow> raw_probe option"
  te_shuffle_audio :: "audio_track list \<Rightarrow> audio_track list"
  te_shuffle_subtitles :: "subtitle_track list \<Rightarrow> subtitle_track list"

definition next_disk :: "'s transfer \<Rightarrow> disk_outcome \<times> 's transfer" where
  "next_disk s = (case tf_disk s of [] \<Rightarrow> (DiskFine, s) | d # ds \<Rightarrow> (d, s\<lparr>tf_disk := ds\<rparr>))"

section \<open>Downloads\<close>

text \<open>\<open>os.Create\<close> and \<open>io.Copy\<close> of a body: an announced length that is not reached is an error of the copy.\<close>

definition copy_body :: "string \<Rightarrow> string \<Rightarrow> int \<Rightarrow> ('s, int) transfer_op" where
  "copy_body path bytes announced = (\<lambda>s. case next_disk s of
      (DiskRefused, s) \<Rightarrow> (Inl TeFile, s)
    | (DiskFull k, s) \<Rightarrow> (Inl TeFile, s\<lparr>tf_files := (tf_files s)(path := Some (take k bytes))\<rparr>)
    | (DiskFine, s) \<Rightarrow> (if int (length bytes) < announced then Inl TeNetwork else Inr (int (length bytes)),
        s\<lparr>tf_files := (tf_files s)(path := Some bytes)\<rparr>))"

definition checksum_attempt :: "'s transfer_env \<Rightarrow> uuid \<Rightarrow> ('s, unit) transfer_op" where
  "checksum_attempt env j = (\<lambda>s. case te_checksum env j (tf_net s) of
      (NoReply, n) \<Rightarrow> (Inl TeNetwork, s\<lparr>tf_net := n\<rparr>)
    | (Reply st b, n) \<Rightarrow> (let s = s\<lparr>tf_net := n\<rparr> in
        if st \<noteq> 200 then (Inl (TeStatus st), s)
        else (case b of None \<Rightarrow> (Inl TeNetwork, s) | Some x \<Rightarrow> (Inr (), s\<lparr>tf_body := x\<rparr>))))"

definition get_remote_checksum :: "'s transfer_env \<Rightarrow> uuid \<Rightarrow> ('s, string) transfer_op" where
  "get_remote_checksum env j =
    bindP (te_retry env 10 (\<lambda>e. e \<noteq> TeCanceled) (checksum_attempt env j)) (\<lambda>_. readP tf_body)"

text \<open>The body of an attempt, once the answer is 200: the name is taken down first, then the file written.\<close>

definition store_download :: "'s transfer_env \<Rightarrow> string \<Rightarrow> uuid \<Rightarrow> download_body \<Rightarrow> ('s, unit) transfer_op" where
  "store_download env wd j b =
    (let path = join_path [wd, j @ file_ext (db_name b)]; bytes = take (nat (db_length b)) (db_bytes b)
     in bindP (writeP (\<lambda>s. s\<lparr>tf_name := (if db_name b = [] then [] else base_name (db_name b)), tf_path := path\<rparr>)) (\<lambda>_.
        bindP (copy_body path bytes (db_length b)) (\<lambda>n.
        bindP (writeP (\<lambda>s. s\<lparr>tf_size := n\<rparr>)) (\<lambda>_.
          if n \<noteq> db_length b then failP (TeSize (db_length b) n)
          else bindP (writeP (\<lambda>s. s\<lparr>tf_sum := te_digest env bytes, tf_body := []\<rparr>)) (\<lambda>_.
            bindP (get_remote_checksum env j) (\<lambda>c.
              if te_digest env bytes \<noteq> c then failP (TeChecksum c (te_digest env bytes)) else retP ()))))))"

definition download_attempt :: "'s transfer_env \<Rightarrow> string \<Rightarrow> uuid \<Rightarrow> ('s, unit) transfer_op" where
  "download_attempt env wd j = (\<lambda>s. case te_download env j (tf_net s) of
      (NoReply, n) \<Rightarrow> (Inl TeNetwork, s\<lparr>tf_net := n\<rparr>)
    | (Reply st b, n) \<Rightarrow> (let s = s\<lparr>tf_net := n\<rparr> in
        if st = 404 then (Inl TeJobNotFound, s)
        else if st \<noteq> 200 then (Inl (TeStatus st), s)
        else (case b of None \<Rightarrow> (Inl TeNetwork, s) | Some x \<Rightarrow> store_download env wd j x s)))"

definition download_goes_on :: "transfer_error \<Rightarrow> bool" where
  "download_goes_on e \<longleftrightarrow> e \<noteq> TeCanceled \<and> e \<noteq> TeJobNotFound"

text \<open>A probe that cannot be normalised panics.\<close>

definition probe_file :: "'s transfer_env \<Rightarrow> string \<Rightarrow> ('s, normalized_probe) transfer_op" where
  "probe_file env path = (\<lambda>s. case tf_files s path of
      None \<Rightarrow> (Inl TeProbe, s)
    | Some bytes \<Rightarrow> (case te_probe env bytes of
          None \<Rightarrow> (Inl TeProbe, s)
        | Some raw \<Rightarrow> (case normalize_probe (te_shuffle_audio env) (te_shuffle_subtitles env) raw of
              Inl _ \<Rightarrow> (Inl TePanic, s) | Inr p \<Rightarrow> (Inr p, s))))"

definition download_source :: "'s transfer_env \<Rightarrow> string \<Rightarrow> uuid \<Rightarrow> ('s, video_data) transfer_op" where
  "download_source env wd j =
    bindP (writeP (\<lambda>s. s\<lparr>tf_path := [], tf_sum := [], tf_name := [], tf_size := 0\<rparr>)) (\<lambda>_.
      bindP (te_retry env 180 download_goes_on (download_attempt env wd j)) (\<lambda>_.
        bindP (readP id) (\<lambda>s. bindP (probe_file env (tf_path s)) (\<lambda>p.
          retP \<lparr>vd_path = tf_path s, vd_name = tf_name s, vd_checksum = tf_sum s, vd_probe = Some p, vd_size = tf_size s\<rparr>))))"

section \<open>Uploads\<close>

text \<open>How the encode step describes its result (the end of \<open>ffmpeg\<close> in \<open>worker/step/ffmpegStep.go\<close>): the encoded file
  is probed, hashed as a whole and measured; each of the two last may find that it cannot be opened or read.\<close>

definition encoded_target :: "'s transfer_env \<Rightarrow> string \<Rightarrow> ('s, video_data) transfer_op" where
  "encoded_target env path = bindP (probe_file env path) (\<lambda>p. (\<lambda>s. case next_disk s of (d, s) \<Rightarrow>
     (case (if d = DiskFine then tf_files s path else None) of
        None \<Rightarrow> (Inl TeFile, s)
      | Some bytes \<Rightarrow> (case next_disk s of (d, s) \<Rightarrow>
          if d \<noteq> DiskFine then (Inl TeFile, s)
          else (Inr \<lparr>vd_path = path, vd_name = [], vd_checksum = te_digest env bytes, vd_probe = Some p,
            vd_size = int (length bytes)\<rparr>, s)))))"

definition upload_attempt :: "'s transfer_env \<Rightarrow> uuid \<Rightarrow> video_data \<Rightarrow> ('s, unit) transfer_op" where
  "upload_attempt env j v = (\<lambda>s. case next_disk s of (d, s) \<Rightarrow>
     (case (if d = DiskFine then tf_files s (vd_path v) else None) of
        None \<Rightarrow> (Inl TeFile, s)
      | Some bytes \<Rightarrow> (case te_upload env j (vd_checksum v) bytes (tf_net s) of
            (NoReply, n) \<Rightarrow> (Inl TeNetwork, s\<lparr>tf_net := n\<rparr>)
          | (Reply st _, n) \<Rightarrow> (if st \<noteq> 201 then Inl (TeStatus st) else Inr (), s\<lparr>tf_net := n\<rparr>))))"

definition upload_target :: "'s transfer_env \<Rightarrow> uuid \<Rightarrow> video_data \<Rightarrow> ('s, unit) transfer_op" where
  "upload_target env j v = te_retry env 17280 (\<lambda>e. e \<noteq> TeCanceled) (upload_attempt env j v)"

section \<open>The server behind the transfers\<close>

text \<open>One request on its way: whether it reaches the server and its answer comes back, after how many blocks a
  download is cut, and in what pieces the body of an upload arrives. The worker names itself and the job.\<close>

record passage =
  pa_delivery :: delivery
  pa_cut :: "nat option"
  pa_pieces :: "string \<Rightarrow> body_read list"

record transfer_world =
  tw_server :: server
  tw_passages :: "passage list"

definition pass_request :: "(passage \<Rightarrow> web_env \<Rightarrow> 'b handler) \<Rightarrow> transfer_world \<Rightarrow> 'b http_reply \<times> transfer_world" where
  "pass_request h n = (case tw_passages n of
      [] \<Rightarrow> (NoReply, n)
    | p # ps \<Rightarrow> (case deliver (h p) (pa_delivery p) (tw_server n) of
        (r, s) \<Rightarrow> (r, \<lparr>tw_server = s, tw_passages = ps\<rparr>)))"

definition transfer_request :: "string \<Rightarrow> uuid \<Rightarrow> web_request" where
  "transfer_request name j = \<lparr>wq_authorization = [], wq_worker = name, wq_control_version = [], wq_capabilities = [],
     wq_uuid = j, wq_address = [], wq_length = [], wq_checksum = []\<rparr>"

definition web_transfer :: "string \<Rightarrow> transfer_world transfer_env \<Rightarrow> transfer_world transfer_env" where
  "web_transfer name env = env\<lparr>
     te_download := (\<lambda>j. pass_request (\<lambda>p we. web_download we (transfer_request name j) (pa_cut p))),
     te_checksum := (\<lambda>j. pass_request (\<lambda>p we. web_checksum we (transfer_request [] j))),
     te_upload := (\<lambda>j c bytes. pass_request (\<lambda>p we. web_upload we ((transfer_request name j)\<lparr>wq_checksum := c,
        wq_length := nat_digits (length bytes)\<rparr>) (pa_pieces p bytes)))\<rparr>"

end
