(* ===== verification/Job_Transfer_Claims.thy ===== *)
theory Job_Transfer_Claims
  imports Job_Transfer Worker_Server_Claims
begin

text \<open>
  The transfers are end to end: a download that succeeds has brought the very bytes of the source on the
  server, whatever requests failed or were cut before, and an upload that succeeds is staged with the digest
  of what was encoded.
\<close>

section \<open>The retry library\<close>

text \<open>What its documentation says of \<open>retry.Do\<close>: the result is that of the last attempt, and every attempt
  before it failed with an error after which to go on.\<close>

definition failed_attempt :: "(transfer_error \<Rightarrow> bool) \<Rightarrow> ('s, unit) transfer_op \<Rightarrow> 's transfer \<Rightarrow> 's transfer \<Rightarrow> bool" where
  "failed_attempt ok f a b \<longleftrightarrow> (\<exists>e. f a = (Inl e, b) \<and> ok e)"

definition repeats :: "(int \<Rightarrow> (transfer_error \<Rightarrow> bool) \<Rightarrow> ('s, unit) transfer_op \<Rightarrow> ('s, unit) transfer_op) \<Rightarrow> bool" where
  "repeats retry \<longleftrightarrow> (\<forall>n ok f s r t. retry n ok f s = (r, t) \<longrightarrow> (\<exists>u. (failed_attempt ok f)\<^sup>*\<^sup>* s u \<and> f u = (r, t)))"

lemma repeated:
  assumes "repeats retry" and "retry n ok f s = (r, t)" and "I s" and "keeps I f"
  obtains u where "I u" "f u = (r, t)"
proof -
  from assms(1,2) obtain u where u: "(failed_attempt ok f)\<^sup>*\<^sup>* s u" "f u = (r, t)" unfolding repeats_def by blast
  from u(1) assms(3) have "I u"
    by (induction rule: rtranclp_induct) (auto simp: failed_attempt_def dest: keepsD[OF assms(4)])
  with u(2) that show thesis by blast
qed

lemma keeps_retry: "repeats retry \<Longrightarrow> keeps I f \<Longrightarrow> keeps I (retry n ok f)"
  by (rule keepsI) (metis repeated keepsD)

section \<open>An attempt of a download\<close>

lemma keeps_next: "(\<And>s ds. I (s\<lparr>tf_disk := ds\<rparr>) = I s) \<Longrightarrow> I (snd (next_disk s)) = I s"
  by (simp add: next_disk_def split: list.split)

definition about_net :: "('s \<Rightarrow> bool) \<Rightarrow> 's transfer \<Rightarrow> bool" where
  "about_net I s \<longleftrightarrow> I (tf_net s)"

definition kept_by :: "('s \<Rightarrow> bool) \<Rightarrow> ('s \<Rightarrow> 'b http_reply \<times> 's) \<Rightarrow> bool" where
  "kept_by I f \<longleftrightarrow> (\<forall>n. I n \<longrightarrow> I (snd (f n)))"

lemma kept_byD: "kept_by I f \<Longrightarrow> I n \<Longrightarrow> f n = (r, m) \<Longrightarrow> I m"
  by (force simp: kept_by_def)

lemma copy_keeps: "keeps (about_net I) (copy_body p b n)"
  by (rule keepsI) (auto simp: copy_body_def about_net_def next_disk_def split: list.splits disk_outcome.splits prod.splits)

lemma checksum_keeps:
  assumes "kept_by I (te_checksum env j)"
  shows "keeps (about_net I) (checksum_attempt env j)"
  by (rule keepsI) (auto simp: checksum_attempt_def about_net_def Let_def
    split: prod.splits http_reply.splits if_splits option.splits dest: kept_byD[OF assms])

lemma store_keeps:
  assumes "kept_by I (te_checksum env j)" and "repeats (te_retry env)"
  shows "keeps (about_net I) (store_download env wd j b)"
  unfolding store_download_def get_remote_checksum_def Let_def
  by (intro keeps_intros copy_keeps keeps_retry[OF assms(2)] checksum_keeps[OF assms(1)])
    (auto intro!: keepsI simp: writeP_def about_net_def)

lemma download_keeps:
  assumes "kept_by I (te_download env j)" "kept_by I (te_checksum env j)" and "repeats (te_retry env)"
  shows "keeps (about_net I) (download_attempt env wd j)"
proof (rule keepsI)
  fix s r t
  assume s: "about_net I s" and d: "download_attempt env wd j s = (r, t)"
  obtain x n where n: "te_download env j (tf_net s) = (x, n)" by fastforce
  with s kept_byD[OF assms(1)] have "I n" by (auto simp: about_net_def)
  then have a: "about_net I (s\<lparr>tf_net := n\<rparr>)" by (simp add: about_net_def)
  from d n a show "about_net I t"
    by (auto simp: download_attempt_def Let_def split: http_reply.splits if_splits option.splits
        dest: keepsD[OF store_keeps[OF assms(2,3)] a])
qed

text \<open>What a successful attempt leaves behind.\<close>

definition stored_from :: "'s transfer_env \<Rightarrow> string \<Rightarrow> uuid \<Rightarrow> download_body \<Rightarrow> 's transfer \<Rightarrow> bool" where
  "stored_from env wd j b t \<longleftrightarrow> int (length (db_bytes b)) \<ge> db_length b \<and> 0 \<le> db_length b \<and> tf_size t = db_length b \<and>
     tf_path t = join_path [wd, j @ file_ext (db_name b)] \<and> tf_files t (tf_path t) = Some (take (nat (db_length b)) (db_bytes b)) \<and>
     tf_sum t = te_digest env (take (nat (db_length b)) (db_bytes b)) \<and> tf_body t = tf_sum t"

lemma retry_frame:
  assumes "repeats (te_retry env)" and "te_retry env n ok (checksum_attempt env j) s = (r, t)"
  shows "tf_files t = tf_files s \<and> tf_path t = tf_path s \<and> tf_sum t = tf_sum s \<and> tf_size t = tf_size s"
proof -
  let ?I = "\<lambda>t. tf_files t = tf_files s \<and> tf_path t = tf_path s \<and> tf_sum t = tf_sum s \<and> tf_size t = tf_size s"
  have "keeps ?I (checksum_attempt env j)"
    by (rule keepsI) (auto simp: checksum_attempt_def Let_def split: prod.splits http_reply.splits if_splits option.splits)
  from keepsD[OF keeps_retry[OF assms(1) this] _ assms(2)] show ?thesis by simp
qed

lemma store_effect:
  assumes "repeats (te_retry env)" and "store_download env wd j b s = (Inr (), t)"
  shows "stored_from env wd j b t"
proof -
  let ?bytes = "take (nat (db_length b)) (db_bytes b)"
  let ?path = "join_path [wd, j @ file_ext (db_name b)]"
  from assms(2) obtain s1 n s2 c t' where
    c: "copy_body ?path ?bytes (db_length b) s1 = (Inr n, s2)" "tf_path s1 = ?path" "n = db_length b"
    and r: "te_retry env 10 (\<lambda>e. e \<noteq> TeCanceled) (checksum_attempt env j)
      (s2\<lparr>tf_size := n, tf_sum := te_digest env ?bytes, tf_body := []\<rparr>) = (Inr (), t)" "tf_body t = te_digest env ?bytes"
    unfolding store_download_def get_remote_checksum_def
    by (auto simp: Let_def bindP_run writeP_def readP_def retP_def failP_def split: sum.splits if_splits prod.splits)
  from c have l: "int (length ?bytes) = db_length b" "tf_files s2 ?path = Some ?bytes" "tf_path s2 = ?path"
    by (auto simp: copy_body_def next_disk_def split: list.splits disk_outcome.splits prod.splits if_splits)
  from retry_frame[OF assms(1) r(1)] l r(2) c(3) show ?thesis by (auto simp: stored_from_def)
qed

lemma attempt_effect:
  assumes "repeats (te_retry env)" and "download_attempt env wd j s = (Inr (), t)"
  obtains b n where "te_download env j (tf_net s) = (Reply 200 (Some b), n)" "stored_from env wd j b t"
proof -
  obtain x n where n: "te_download env j (tf_net s) = (x, n)" by fastforce
  with assms(2) obtain b where "x = Reply 200 (Some b)" "store_download env wd j b (s\<lparr>tf_net := n\<rparr>) = (Inr (), t)"
    by (auto simp: download_attempt_def Let_def split: http_reply.splits if_splits option.splits)
  with n store_effect[OF assms(1)] that show thesis by blast
qed

lemma probe_file_effect:
  "probe_file env p s = (Inr q, t) \<Longrightarrow> t = s \<and> (\<exists>bytes raw. tf_files s p = Some bytes \<and> te_probe env bytes = Some raw \<and>
    normalize_probe (te_shuffle_audio env) (te_shuffle_subtitles env) raw = Inr q)"
  by (auto simp: probe_file_def split: option.splits sum.splits)

text \<open>A download that succeeds: the last body received, whole, is in the file it was probed from.\<close>

lemma download_effect:
  assumes "repeats (te_retry env)" and "download_source env wd j s = (Inr v, t)"
    and "kept_by I (te_download env j)" "kept_by I (te_checksum env j)" and "I (tf_net s)"
  obtains b m n where "I m" "te_download env j m = (Reply 200 (Some b), n)" "stored_from env wd j b t"
    "vd_path v = tf_path t" "vd_checksum v = tf_sum t" "vd_size v = tf_size t" "vd_probe v \<noteq> None"
proof -
  let ?s = "s\<lparr>tf_path := [], tf_sum := [], tf_name := [], tf_size := 0\<rparr>"
  from assms(2) obtain u p where
    u: "te_retry env 180 download_goes_on (download_attempt env wd j) ?s = (Inr (), u)" "probe_file env (tf_path u) u = (Inr p, t)"
    and v: "v = \<lparr>vd_path = tf_path u, vd_name = tf_name u, vd_checksum = tf_sum u, vd_probe = Some p, vd_size = tf_size u\<rparr>"
    unfolding download_source_def by (auto simp: bindP_run writeP_def readP_def retP_def split: sum.splits prod.splits)
  have "about_net I ?s" using assms(5) by (simp add: about_net_def)
  from repeated[OF assms(1) u(1) this download_keeps[OF assms(3,4,1)]] obtain x where
    x: "about_net I x" "download_attempt env wd j x = (Inr (), u)" .
  from attempt_effect[OF assms(1) x(2)] obtain b n where
    "te_download env j (tf_net x) = (Reply 200 (Some b), n)" "stored_from env wd j b u" .
  with that[of "tf_net x" b n] probe_file_effect[OF u(2)] v x(1) show thesis by (simp add: about_net_def)
qed

section \<open>The source on the server\<close>

definition source_file :: "string \<Rightarrow> string \<Rightarrow> file_system \<Rightarrow> bool" where
  "source_file p orig f \<longleftrightarrow> (\<exists>i. node_at f p = Some (File i) \<and> contents f i = orig \<and> sizes f (File i) = int (length orig))"

lemma keeps_source_file [keeps_intros]:
  "keeps (source_file p orig) (os_open q)" "keeps (source_file p orig) (os_read n)"
  "keeps (source_file p orig) os_flush" "keeps (source_file p orig) (os_size n)"
  unfolding os_open_def os_stat_def os_size_def os_read_def os_flush_def
  by (rule keepsI, elim io_call_cases; auto simp: source_file_def retP_def split: option.splits node.splits)+ (rule keeps_read)

definition has_source :: "server_config \<Rightarrow> uuid \<Rightarrow> job_row \<Rightarrow> string \<Rightarrow> server \<Rightarrow> bool" where
  "has_source cfg j row orig s \<longleftrightarrow> job_row_of (sdb s) j = Some row \<and>
     source_file (join_path [cfg_root cfg, jr_source_path row]) orig (sfs s)"

lemma keeps_has_source:
  assumes "keeps (\<lambda>s. job_row_of (sdb s) j = Some row) m" and "keeps (\<lambda>s. source_file (join_path [cfg_root cfg, jr_source_path row]) orig (sfs s)) m"
  shows "keeps (has_source cfg j row orig) m"
  using assms by (auto simp: has_source_def keeps_def)

lemma row_reads:
  assumes "reads_only m"
  shows "keeps (\<lambda>d. job_row_of d j = Some row) m"
proof (rule keepsI)
  fix s r t
  assume l: "job_row_of s j = Some row" and "m s = (r, t)"
  from reads_onlyD[OF assms this(2)] obtain fs where "t = s\<lparr>faults := fs\<rparr>" .
  with l show "job_row_of t j = Some row" by simp
qed

lemma reads_streamable: "reads_only (is_valid_streamable_job j w)"
  unfolding is_valid_streamable_job_def by (intro reads_intros)

lemma opening_keeps: "keeps (has_source cfg j row orig) (get_download_job_writer c i w)"
  unfolding get_download_job_writer_def Let_def
  by (intro keeps_has_source; intro keeps_intros row_reads reads_streamable)

lemma sending_keeps: "keeps (has_source cfg j row orig) (send_file env brk d)"
proof (rule keeps_has_source)
  show "keeps (\<lambda>s. job_row_of (sdb s) j = Some row) (send_file env brk d)"
    unfolding send_file_def download_close_def Let_def
    by (intro keeps_intros) (auto intro!: keepsI simp: writeP_def)
  show "keeps (\<lambda>s. source_file (join_path [cfg_root cfg, jr_source_path row]) orig (sfs s)) (send_file env brk d)"
    unfolding send_file_def download_close_def Let_def
    by (intro keeps_intros) (auto intro!: keepsI simp: writeP_def)
qed

lemma opened_source:
  assumes "get_download_job_writer cfg j w s = (Inr d, t)" and "has_source cfg j row orig s"
  shows "has_source cfg j row orig t" "dl_size d = int (length orig)" "\<exists>i. dl_node d = File i \<and> contents (sfs t) i = orig"
    "dl_name d = base_name (join_path [cfg_root cfg, jr_source_path row])"
proof -
  let ?p = "join_path [cfg_root cfg, jr_source_path row]"
  show t: "has_source cfg j row orig t" using keepsD[OF opening_keeps assms(2,1)] .
  from assms(1) obtain v s1 where v: "on_db (is_valid_streamable_job j w) s = (Inr v, s1)"
    and r: "(if \<not> is_local (source_path v) then failP NonLocalPath
      else (let path = join_path [cfg_root cfg, source_path v]
            in bindP (tryP (on_fs (os_open path))) (\<lambda>f.
              case f of
                Inl e \<Rightarrow> failP (if e = FileNotExist then ErrJobNotFound else e)
              | Inr n \<Rightarrow> bindP (on_fs (os_size n)) (\<lambda>sz.
                  retP \<lparr>dl_path = path, dl_node = n, dl_size = sz, dl_name = base_name path, dl_read = None\<rparr>)))) s1 = (Inr d, t)"
    unfolding get_download_job_writer_def by (elim bindP_InrE) blast
  from v obtain d1 where "is_valid_streamable_job j w (sdb s) = (Inr v, d1)" by (auto simp: on_db_Inr)
  then obtain d2 where "get_job j (sdb s) = (Inr v, d2)"
    unfolding is_valid_streamable_job_def
    by (auto simp: failP_def retP_def elim!: bindP_InrE split: option.splits if_splits)
  from get_job_read[OF this] assms(2) have sp: "source_path v = jr_source_path row"
    by (auto simp: has_source_def read_of_def)
  have "is_local (source_path v)" using r by (auto simp: failP_def split: if_splits)
  with r sp have "bindP (tryP (on_fs (os_open ?p))) (\<lambda>f. case f of
      Inl e \<Rightarrow> failP (if e = FileNotExist then ErrJobNotFound else e)
    | Inr n \<Rightarrow> bindP (on_fs (os_size n)) (\<lambda>sz.
        retP \<lparr>dl_path = ?p, dl_node = n, dl_size = sz, dl_name = base_name ?p, dl_read = None\<rparr>)) s1 = (Inr d, t)"
    by (simp add: Let_def)
  then obtain f s2 where f: "tryP (on_fs (os_open ?p)) s1 = ((Inr f, s2) :: (server_error + _) \<times> _)"
    "(case f of Inl e \<Rightarrow> failP (if e = FileNotExist then ErrJobNotFound else e)
      | Inr n \<Rightarrow> bindP (on_fs (os_size n)) (\<lambda>sz.
        retP \<lparr>dl_path = ?p, dl_node = n, dl_size = sz, dl_name = base_name ?p, dl_read = None\<rparr>)) s2 = (Inr d, t)"
    by (elim bindP_InrE)
  from f(2) obtain n where fn: "f = Inr n" by (cases f) (simp_all add: failP_def)
  with f(1) have "on_fs (os_open ?p) s1 = (Inr n, s2)" by (simp add: tryP_def split: prod.splits)
  moreover from f(2) fn have "dl_node d = n" "dl_name d = base_name ?p" "dl_size d = sizes (sfs s2) n" "t = s2"
    by (auto simp: bindP_run on_fs_def os_size_def readP_def retP_def)
  ultimately have n: "on_fs (os_open ?p) s1 = (Inr n, s2)" "dl_node d = n" "dl_name d = base_name ?p"
    "dl_size d = sizes (sfs s2) n" "t = s2" by blast+
  from n(1) obtain f where f: "os_open ?p (sfs s1) = (Inr n, f)" "s2 = s1\<lparr>sfs := f\<rparr>" by (auto simp: on_fs_Inr)
  from f(1) have "node_at f ?p = Some n"
    unfolding os_open_def os_stat_def by (elim io_call_cases) (auto split: option.splits)
  with t n(2,4,5) f(2) show "dl_size d = int (length orig)" "\<exists>i. dl_node d = File i \<and> contents (sfs t) i = orig"
    by (auto simp: has_source_def source_file_def)
  show "dl_name d = base_name ?p" by (rule n(3))
qed

lemma sent_bytes:
  assumes "send_file env brk d s = (Inr x, t)" and "dl_node d = File i" and "contents (sfs s) i = orig"
  shows "\<exists>b k. x = Reply 200 (Some b) \<and> db_name b = dl_name d \<and> db_length b = dl_size d \<and> db_bytes b = take k orig"
proof -
  from assms(1) obtain r u where r: "tryP (on_fs (os_read (File i))) s = ((Inr r, u) :: (server_error + (server_error + string)) \<times> _)"
    and x: "x = Reply 200 (Some \<lparr>db_name = dl_name d, db_length = dl_size d, db_bytes = (case r of Inl _ \<Rightarrow> [] | Inr bytes \<Rightarrow>
      (case brk of None \<Rightarrow> bytes | Some k \<Rightarrow> take (nat (int k * block_size)) bytes))\<rparr>)"
    unfolding send_file_def Let_def assms(2) by (auto simp: retP_def elim!: bindP_InrE)
  from r have "\<forall>b. r = Inr b \<longrightarrow> b = orig"
    by (auto simp: tryP_def on_fs_def os_read_def assms(3)[symmetric] split: prod.splits elim!: io_call_cases)
  then have "\<exists>k. (case r of Inl _ \<Rightarrow> [] | Inr bytes \<Rightarrow> (case brk of None \<Rightarrow> bytes | Some k \<Rightarrow> take (nat (int k * block_size)) bytes)) = take k orig"
    by (cases r) (auto split: option.split intro: exI[of _ 0] exI[of _ "length orig"])
  with x show ?thesis by auto
qed

lemma answer_keeps: "keeps J m \<Longrightarrow> J s \<Longrightarrow> J (snd (answer st ok m s))"
  by (auto simp: answer_def split: prod.splits sum.splits dest: keepsD)

lemma web_download_keeps:
  assumes "has_source cfg j row orig s"
  shows "has_source cfg j row orig (snd (web_download env q brk s))"
proof -
  have "keeps (has_source cfg j row orig) (bindP (get_download_job_writer (we_config env) (wq_uuid q) (wq_worker q)) (send_file env brk))"
    by (intro keeps_intros opening_keeps sending_keeps)
  from answer_keeps[OF this assms, of stream_code id] assms show ?thesis
    by (auto simp: web_download_def refuse_def split: prod.splits)
qed

lemma web_checksum_keeps:
  assumes "has_source cfg j row orig s"
  shows "has_source cfg j row orig (snd (web_checksum env q s))"
proof -
  have "keeps (has_source cfg j row orig) (get_checksum (we_config env) (wq_uuid q))"
    unfolding get_checksum_def by (intro keeps_has_source; intro keeps_intros row_reads reads_get_job)
  from answer_keeps[OF this assms, of "\<lambda>_. 404" "\<lambda>c. Reply 200 (Some c)"] assms show ?thesis
    by (simp add: web_checksum_def refuse_def)
qed

lemma downloaded_bytes:
  assumes "web_download env q brk s = (Reply 200 (Some b), t)" and "has_source (we_config env) (wq_uuid q) row orig s"
  shows "\<exists>k. db_bytes b = take k orig" "db_length b = int (length orig)"
    "db_name b = base_name (join_path [cfg_root (we_config env), jr_source_path row])"
proof -
  from assms(1) have "bindP (get_download_job_writer (we_config env) (wq_uuid q) (wq_worker q)) (send_file env brk) s = (Inr (Reply 200 (Some b)), t)"
    by (auto simp: web_download_def refuse_def answer_def stream_code_def split: if_splits prod.splits sum.splits
        elim!: restatus.elims)
  then obtain d u where d: "get_download_job_writer (we_config env) (wq_uuid q) (wq_worker q) s = (Inr d, u)"
    "send_file env brk d u = (Inr (Reply 200 (Some b)), t)" by (elim bindP_InrE)
  note o = opened_source[OF d(1) assms(2)]
  from o(3) obtain i where "dl_node d = File i" "contents (sfs u) i = orig" by blast
  from sent_bytes[OF d(2) this] o(2,4) show "\<exists>k. db_bytes b = take k orig" "db_length b = int (length orig)"
    "db_name b = base_name (join_path [cfg_root (we_config env), jr_source_path row])" by auto
qed

fun served_by :: "server_config \<Rightarrow> delivery \<Rightarrow> bool" where
  "served_by cfg (Answered env) = (we_config env = cfg)"
| "served_by cfg (Unanswered env) = (we_config env = cfg)"
| "served_by cfg Unreached = True"

definition source_there :: "server_config \<Rightarrow> uuid \<Rightarrow> job_row \<Rightarrow> string \<Rightarrow> transfer_world \<Rightarrow> bool" where
  "source_there cfg j row orig n \<longleftrightarrow> has_source cfg j row orig (tw_server n) \<and>
     (\<forall>p\<in>set (tw_passages n). served_by cfg (pa_delivery p))"

lemma pass_keeps:
  assumes "\<And>p env s. has_source cfg j row orig s \<Longrightarrow> has_source cfg j row orig (snd (h p env s))"
  shows "kept_by (source_there cfg j row orig) (pass_request h)"
  unfolding kept_by_def
proof (intro allI impI)
  fix n
  assume n: "source_there cfg j row orig n"
  show "source_there cfg j row orig (snd (pass_request h n))"
  proof (cases "tw_passages n")
    case (Cons p ps)
    with n have "has_source cfg j row orig (snd (deliver (h p) (pa_delivery p) (tw_server n)))"
      using assms by (cases "pa_delivery p") (auto simp: source_there_def)
    with n Cons show ?thesis by (auto simp: pass_request_def source_there_def split: prod.splits)
  qed (use n in \<open>simp add: pass_request_def\<close>)
qed

lemma pass_reply:
  assumes "pass_request h n = (Reply st b, n')"
  obtains p ps env where "tw_passages n = p # ps" "pa_delivery p = Answered env" "h p env (tw_server n) = (Reply st b, tw_server n')"
proof -
  from assms obtain p ps s where p: "tw_passages n = p # ps" "deliver (h p) (pa_delivery p) (tw_server n) = (Reply st b, s)"
    "n' = \<lparr>tw_server = s, tw_passages = ps\<rparr>"
    by (auto simp: pass_request_def split: list.splits prod.splits)
  from deliver_cases[OF p(2)] obtain env where "pa_delivery p = Answered env" "h p env (tw_server n) = (Reply st b, s)" by auto
  with that p show thesis by simp
qed

text \<open>C3: A download that succeeds has brought the source: whatever requests failed, were cut or lost on the
  way, and however often it was tried, the file the worker goes on with holds exactly the bytes of the
  job's source on the server, with their size, their digest and a probe of them.\<close>

theorem download_brings_the_source:
  assumes "download_source (web_transfer name env) wd j s = (Inr v, t)" and "repeats (te_retry env)"
    and "source_there cfg j row orig (tf_net s)"
  shows "tf_files t (vd_path v) = Some orig \<and> vd_size v = int (length orig) \<and> vd_checksum v = te_digest env orig \<and>
    vd_probe v \<noteq> None \<and> vd_path v = join_path [wd, j @ file_ext (base_name (join_path [cfg_root cfg, jr_source_path row]))]"
proof -
  let ?env = "web_transfer name env"
  have r: "repeats (te_retry ?env)" using assms(2) by (simp add: web_transfer_def)
  have k: "kept_by (source_there cfg j row orig) (te_download ?env j)" "kept_by (source_there cfg j row orig) (te_checksum ?env j)"
    by (simp_all add: web_transfer_def pass_keeps web_download_keeps web_checksum_keeps)
  from download_effect[OF r assms(1) k assms(3)] obtain b m n where
    m: "source_there cfg j row orig m" "te_download ?env j m = (Reply 200 (Some b), n)" "stored_from ?env wd j b t"
    "vd_path v = tf_path t" "vd_checksum v = tf_sum t" "vd_size v = tf_size t" "vd_probe v \<noteq> None" .
  from m(2) have "pass_request (\<lambda>p we. web_download we (transfer_request name j) (pa_cut p)) m = (Reply 200 (Some b), n)"
    by (simp add: web_transfer_def)
  from pass_reply[OF this] obtain p ps we where p: "tw_passages m = p # ps" and we: "pa_delivery p = Answered we"
    "web_download we (transfer_request name j) (pa_cut p) (tw_server m) = (Reply 200 (Some b), tw_server n)" .
  have "we_config we = cfg" "has_source (we_config we) (wq_uuid (transfer_request name j)) row orig (tw_server m)"
    using m(1) p we(1) by (auto simp: source_there_def transfer_request_def)
  with downloaded_bytes[OF we(2)] have b: "\<exists>k. db_bytes b = take k orig" "db_length b = int (length orig)"
    "db_name b = base_name (join_path [cfg_root cfg, jr_source_path row])" by auto
  from m(3) b(1,2) have "take (nat (db_length b)) (db_bytes b) = orig" by (auto simp: stored_from_def)
  with m(3) b(2,3) show ?thesis by (auto simp: m(4-7) stored_from_def web_transfer_def)
qed

section \<open>The result on its way back\<close>

lemma sound_more [keeps_intros]:
  "keeps io_sound (os_link a b)" "keeps io_sound (os_remove a)" "keeps io_sound (os_open a)" "keeps io_sound (os_read n)"
  "keeps io_sound os_flush"
  unfolding os_link_def os_remove_def os_open_def os_stat_def os_read_def os_flush_def
  by (intro sound_io, auto simp: retP_def split: option.splits node.splits)+

lemma receive_keeps: "keeps io_sound (receive_body rs n u)"
proof (induction rs n u rule: receive_body.induct)
  case (3 b rs n u)
  then show ?case by (auto simp: upload_write_def intro!: keeps_intros)
qed (auto simp: upload_write_def intro!: keeps_intros)

lemma take_keeps: "keeps io_sound (take_upload env q body u)"
  unfolding take_upload_def finish_upload_def upload_close_def upload_commit_def
  by (auto intro!: keeps_intros receive_keeps)

lemma web_upload_keeps:
  assumes "io_sound (sfs s)"
  shows "io_sound (sfs (snd (web_upload env q body s)))"
proof -
  have "keeps (\<lambda>s. io_sound (sfs s)) (bindP (get_upload_job_writer (we_parse_uuid env) (we_config env) (we_random env) (wq_uuid q) (wq_worker q)) (\<lambda>u.
      on_fs (bindP (tryP (take_upload env q body u)) (\<lambda>st.
        bindP (tryP (upload_clean u)) (\<lambda>_. case st of Inl x \<Rightarrow> failP x | Inr n \<Rightarrow> retP (Reply n None :: unit http_reply))))))"
    unfolding get_upload_job_writer_def open_attempt_def upload_clean_def Let_def
    by (intro keeps_intros take_keeps)
  from answer_keeps[OF this assms, of stream_code id] assms show ?thesis
    by (auto simp: web_upload_def refuse_def split: prod.splits)
qed

fun sound_delivery :: "server_config \<Rightarrow> (string \<Rightarrow> uuid option) \<Rightarrow> (string \<Rightarrow> string) \<Rightarrow> delivery \<Rightarrow> bool" where
  "sound_delivery cfg parse digest (Answered env) = (we_config env = cfg \<and> we_parse_uuid env = parse \<and> we_digest env = digest \<and>
     sep \<notin> set (we_random env))"
| "sound_delivery cfg parse digest (Unanswered env) = True"
| "sound_delivery cfg parse digest Unreached = True"

definition sound_world :: "server_config \<Rightarrow> (string \<Rightarrow> uuid option) \<Rightarrow> (string \<Rightarrow> string) \<Rightarrow> transfer_world \<Rightarrow> bool" where
  "sound_world cfg parse digest n \<longleftrightarrow> io_sound (sfs (tw_server n)) \<and> (\<forall>p\<in>set (tw_passages n). sound_delivery cfg parse digest (pa_delivery p))"

lemma upload_attempt_keeps:
  "keeps (about_net (sound_world cfg parse digest)) (upload_attempt (web_transfer name env) j v)"
proof (rule keepsI)
  fix s r t
  assume s: "about_net (sound_world cfg parse digest) s" and u: "upload_attempt (web_transfer name env) j v s = (r, t)"
  let ?h = "\<lambda>bytes p we. web_upload we ((transfer_request name j)\<lparr>wq_checksum := vd_checksum v, wq_length := nat_digits (length bytes)\<rparr>)
    (pa_pieces p bytes)"
  have k: "sound_world cfg parse digest (snd (pass_request (?h bytes) n))" if n: "sound_world cfg parse digest n" for bytes n
  proof (cases "tw_passages n")
    case (Cons p ps)
    with n web_upload_keeps have "io_sound (sfs (snd (deliver (?h bytes p) (pa_delivery p) (tw_server n))))"
      by (cases "pa_delivery p") (auto simp: sound_world_def)
    with n Cons show ?thesis by (auto simp: pass_request_def sound_world_def split: prod.splits)
  qed (use n in \<open>simp add: pass_request_def\<close>)
  obtain d s' where d: "next_disk s = (d, s')" by fastforce
  then have "tf_net s' = tf_net s" by (auto simp: next_disk_def split: list.splits)
  with s have n: "sound_world cfg parse digest (tf_net s')" by (simp add: about_net_def)
  from u d n k[of "tf_net s'"] show "about_net (sound_world cfg parse digest) t"
    by (auto simp: upload_attempt_def about_net_def web_transfer_def split: option.splits prod.splits http_reply.splits if_splits)
      (metis snd_conv)+
qed

lemma uploaded_checksum_is_staged:
  assumes "upload_target (web_transfer name env) j v s = (Inr (), t)" and "repeats (te_retry env)"
    and "is_abs (cfg_root cfg)" and "plain_ids parse" and "sound_world cfg parse digest (tf_net s)"
  shows "\<exists>i row st k. parse j = Some i \<and> job_row_of (sdb (tw_server (tf_net t))) i = Some row \<and>
    upload_staging_path (cfg_root cfg) (jr_source_path row) i = Inr st \<and>
    node_at (sfs (tw_server (tf_net t))) st = Some (File k) \<and>
    digest (contents (sfs (tw_server (tf_net t))) k) = vd_checksum v"
proof -
  let ?env = "web_transfer name env"
  from assms(1) have up: "te_retry env 17280 (\<lambda>e. e \<noteq> TeCanceled) (upload_attempt ?env j v) s = (Inr (), t)"
    by (simp add: upload_target_def web_transfer_def)
  have "about_net (sound_world cfg parse digest) s" using assms(5) by (simp add: about_net_def)
  from repeated[OF assms(2) up this upload_attempt_keeps] obtain u where
    u: "sound_world cfg parse digest (tf_net u)" "upload_attempt ?env j v u = (Inr (), t)" by (auto simp: about_net_def)
  let ?q = "\<lambda>bytes. (transfer_request name j)\<lparr>wq_checksum := vd_checksum v, wq_length := nat_digits (length bytes)\<rparr>"
  from u(2) obtain bytes b where "pass_request (\<lambda>p we. web_upload we (?q bytes) (pa_pieces p bytes)) (tf_net u) = (Reply 201 b, tf_net t)"
    by (auto simp: upload_attempt_def web_transfer_def next_disk_def split: list.splits prod.splits option.splits http_reply.splits if_splits)
  from pass_reply[OF this] obtain p ps we where p: "tw_passages (tf_net u) = p # ps" and we: "pa_delivery p = Answered we"
    "web_upload we (?q bytes) (pa_pieces p bytes) (tw_server (tf_net u)) = (Reply 201 b, tw_server (tf_net t))" .
  from u(1) p we(1) have snd: "we_config we = cfg" "we_parse_uuid we = parse" "we_digest we = digest" "sep \<notin> set (we_random we)"
    "io_sound (sfs (tw_server (tf_net u)))" by (auto simp: sound_world_def)
  from upload_staged[OF we(2)] assms(3,4) snd show ?thesis by (simp add: transfer_request_def) blast
qed

lemma encoded_target_effect:
  assumes "encoded_target env path s = (Inr v, t)"
  shows "vd_path v = path \<and> tf_files t = tf_files s \<and> tf_net t = tf_net s \<and> (\<exists>bytes. tf_files s path = Some bytes \<and> vd_checksum v = te_digest env bytes)"
proof -
  have disk: "next_disk x = (d, y) \<Longrightarrow> tf_files y = tf_files x \<and> tf_net y = tf_net x" for x y :: "'a transfer" and d
    by (auto simp: next_disk_def split: list.splits)
  have probe: "probe_file env path x = (Inr p, y) \<Longrightarrow> y = x" for p x y
    by (auto simp: probe_file_def split: option.splits sum.splits)
  from assms obtain p u where "probe_file env path s = (Inr p, u)" and
    rest: "(case next_disk u of (d, s) \<Rightarrow> (case (if d = DiskFine then tf_files s path else None) of None \<Rightarrow> (Inl TeFile, s)
      | Some bytes \<Rightarrow> (case next_disk s of (d, s) \<Rightarrow> if d \<noteq> DiskFine then (Inl TeFile, s)
          else (Inr \<lparr>vd_path = path, vd_name = [], vd_checksum = te_digest env bytes, vd_probe = Some p,
            vd_size = int (length bytes)\<rparr>, s)))) = (Inr v, t)"
    unfolding encoded_target_def by (elim bindP_InrE) simp
  with probe have "u = s" by blast
  with rest show ?thesis by (auto split: prod.splits option.splits if_splits dest!: disk)
qed

text \<open>C4: An upload that succeeds has staged, on the server, a file with the digest of the file the encoder produced,
  whatever attempts failed before. The encode step has hashed that file and it is still the same when it is sent; no
  file operation of the server fails (the last write of an upload may fail without its answer telling), every request
  that is answered meets the same configuration, and worker and server use the same digest.\<close>

theorem uploaded_result_is_staged:
  assumes "encoded_target (web_transfer name env) path s0 = (Inr v, s1)" and "tf_files s path = tf_files s1 path"
    and "upload_target (web_transfer name env) j v s = (Inr (), t)" and "repeats (te_retry env)"
    and "is_abs (cfg_root cfg)" and "plain_ids parse" and "sound_world cfg parse (te_digest env) (tf_net s)"
  shows "\<exists>bytes i row st k. tf_files s path = Some bytes \<and> parse j = Some i \<and>
    job_row_of (sdb (tw_server (tf_net t))) i = Some row \<and>
    upload_staging_path (cfg_root cfg) (jr_source_path row) i = Inr st \<and>
    node_at (sfs (tw_server (tf_net t))) st = Some (File k) \<and>
    te_digest env (contents (sfs (tw_server (tf_net t))) k) = te_digest env bytes"
  using encoded_target_effect[OF assms(1)] uploaded_checksum_is_staged[OF assms(3-7)] assms(2)
  by (auto simp: web_transfer_def)

section \<open>Examples\<close>

text \<open>A retry that gives up after the second repetition.\<close>

fun retry_times :: "nat \<Rightarrow> (transfer_error \<Rightarrow> bool) \<Rightarrow> ('s, unit) transfer_op \<Rightarrow> ('s, unit) transfer_op" where
  "retry_times 0 ok f s = f s"
| "retry_times (Suc n) ok f s = (case f s of
     (Inl e, t) \<Rightarrow> if ok e then retry_times n ok f t else (Inl e, t) | (Inr x, t) \<Rightarrow> (Inr x, t))"

lemma retry_times_repeats: "repeats (\<lambda>_. retry_times k)"
proof -
  have "\<exists>u. (failed_attempt ok f)\<^sup>*\<^sup>* s u \<and> f u = (r, t)" if "retry_times k ok f s = (r, t)" for k ok f r and s t :: "'a transfer"
    using that
  proof (induction k arbitrary: s)
    case (Suc k)
    obtain x u where x: "f s = (x, u)" by fastforce
    show ?case
    proof (cases "\<exists>e. x = Inl e \<and> ok e")
      case True
      with Suc.prems x have "retry_times k ok f u = (r, t)" by auto
      from Suc.IH[OF this] obtain v where v: "(failed_attempt ok f)\<^sup>*\<^sup>* u v" "f v = (r, t)" by blast
      from True x have "failed_attempt ok f s u" by (auto simp: failed_attempt_def)
      with v show ?thesis by (meson converse_rtranclp_into_rtranclp)
    next
      case False
      with Suc.prems x show ?thesis by (auto split: sum.splits if_splits)
    qed
  qed auto
  then show ?thesis by (simp add: repeats_def)
qed

definition demo_transfer_env :: "transfer_world transfer_env" where
  "demo_transfer_env = \<lparr>te_download = (\<lambda>_ n. (NoReply, n)), te_checksum = (\<lambda>_ n. (NoReply, n)),
     te_upload = (\<lambda>_ _ _ n. (NoReply, n)), te_retry = (\<lambda>_. retry_times 2), te_digest = rev,
     te_probe = (\<lambda>_. Some demo_raw_probe), te_shuffle_audio = id, te_shuffle_subtitles = id\<rparr>"

definition demo_transfer :: "server \<Rightarrow> delivery list \<Rightarrow> transfer_world transfer" where
  "demo_transfer s ds = \<lparr>tf_net = \<lparr>tw_server = s, tw_passages = map (\<lambda>d. \<lparr>pa_delivery = d,
       pa_cut = (case d of Unanswered _ \<Rightarrow> Some 0 | _ \<Rightarrow> None), pa_pieces = (\<lambda>b. [Block (take 2 b), FinalBlock (drop 2 b)])\<rparr>) ds\<rparr>,
     tf_files = (\<lambda>_. None), tf_disk = [], tf_path = [], tf_name = [], tf_sum = [], tf_size = 0, tf_body = []\<rparr>"

definition download_server :: server where
  "download_server = demo_server\<lparr>sfs := demo_files\<lparr>sizes := (\<lambda>_. 5)\<rparr>\<rparr>"

definition download_row :: job_row where
  "download_row = \<lparr>jr_id = ''j1'', jr_source_path = ''a/film.avi'', jr_target_path = ''a/film.mkv'', jr_source_size = 700,
     jr_target_size = 0, jr_source_probe = None, jr_target_probe = None\<rparr>"

theorem download_brings_the_source_witness:
  "\<exists>v t. download_source (web_transfer ''w1'' demo_transfer_env) ''/tmp/j1'' ''j1''
      (demo_transfer download_server [Unreached, Unanswered demo_web, Answered demo_web, Answered demo_web]) = (Inr v, t) \<and>
    tf_files t ''/tmp/j1/j1.avi'' = Some ''other'' \<and> vd_checksum v = ''rehto''"
proof -
  let ?s = "demo_transfer download_server [Unreached, Unanswered demo_web, Answered demo_web, Answered demo_web]"
  let ?d = "download_source (web_transfer ''w1'' demo_transfer_env) ''/tmp/j1'' ''j1'' ?s"
  have "\<not> isl (fst ?d)" by code_simp
  then obtain v t where d: "?d = (Inr v, t)" by (metis isl_def prod.collapse sum.exhaust)
  have r: "repeats (te_retry demo_transfer_env)" by (simp add: demo_transfer_env_def retry_times_repeats)
  have row: "job_row_of (sdb download_server) ''j1'' = Some download_row"
    "node_at (sfs download_server) (join_path [cfg_root demo_config, ''a/film.avi'']) = Some (File 0)"
    "join_path [''/tmp/j1'', ''j1'' @ file_ext (base_name (join_path [cfg_root demo_config, jr_source_path download_row]))] = ''/tmp/j1/j1.avi''"
    by code_simp+
  have "source_there demo_config ''j1'' download_row ''other'' (tf_net ?s)"
    using row by (auto simp: source_there_def has_source_def source_file_def download_row_def demo_transfer_def demo_web_def
        download_server_def demo_server_def demo_files_def)
  from download_brings_the_source[OF d r this] d row(3) show ?thesis by (auto simp: demo_transfer_env_def)
qed

text \<open>The encoder's file, its description, and an upload whose first attempt does not reach the server.\<close>

definition demo_workspace :: "(string \<Rightarrow> string option) \<Rightarrow> transfer_world transfer \<Rightarrow> transfer_world transfer" where
  "demo_workspace fs s = s\<lparr>tf_files := fs\<rparr>"

definition encoded_world :: "transfer_world transfer" where
  "encoded_world = demo_workspace [''/tmp/j1/j1-encoded.mkv'' \<mapsto> ''video''] (demo_transfer (upload_server []) [Unreached, Answered demo_web])"

theorem uploaded_result_is_staged_witness:
  "\<exists>v s t st k. encoded_target (web_transfer ''w1'' demo_transfer_env) ''/tmp/j1/j1-encoded.mkv'' encoded_world = (Inr v, s) \<and>
    upload_target (web_transfer ''w1'' demo_transfer_env) ''j1'' v s = (Inr (), t) \<and>
    node_at (sfs (tw_server (tf_net t))) st = Some (File k) \<and> rev (contents (sfs (tw_server (tf_net t))) k) = ''oediv''"
proof -
  let ?e = "encoded_target (web_transfer ''w1'' demo_transfer_env) ''/tmp/j1/j1-encoded.mkv'' encoded_world"
  let ?u = "case ?e of (Inr v, s) \<Rightarrow> upload_target (web_transfer ''w1'' demo_transfer_env) ''j1'' v s | (Inl x, s) \<Rightarrow> (Inl x, s)"
  have "\<not> isl (fst ?u)" by code_simp
  moreover obtain r s where e: "?e = (r, s)" by fastforce
  ultimately obtain v where v: "r = Inr v" by (cases r) (auto simp: isl_def)
  with \<open>\<not> isl (fst ?u)\<close> e have "\<not> isl (fst (upload_target (web_transfer ''w1'' demo_transfer_env) ''j1'' v s))" by simp
  moreover obtain x t where x: "upload_target (web_transfer ''w1'' demo_transfer_env) ''j1'' v s = (x, t)" by fastforce
  ultimately have t: "upload_target (web_transfer ''w1'' demo_transfer_env) ''j1'' v s = (Inr (), t)" by (cases x) auto
  have r: "repeats (te_retry demo_transfer_env)" by (simp add: demo_transfer_env_def retry_times_repeats)
  have d: "te_digest demo_transfer_env = rev" by (simp add: demo_transfer_env_def)
  have "tf_net s = tf_net encoded_world" using encoded_target_effect[OF e[unfolded v]] by blast
  then have w: "sound_world demo_config (we_parse_uuid demo_web) (te_digest demo_transfer_env) (tf_net s)"
    using demo_web_sound(2,3) by (simp add: sound_world_def encoded_world_def demo_workspace_def demo_transfer_def demo_web_def d)
  have a: "is_abs (cfg_root demo_config)" using demo_web_sound(1) by (simp add: demo_web_def)
  have f: "tf_files s ''/tmp/j1/j1-encoded.mkv'' = Some ''video''"
    using encoded_target_effect[OF e[unfolded v]] by (simp add: encoded_world_def demo_workspace_def)
  from uploaded_result_is_staged[OF e[unfolded v] refl t r a demo_parse w] e v t f show ?thesis by (auto simp: d)
qed

end
