(* ===== verification/Update_Manifest.thy ===== *)
theory Update_Manifest
  imports Path_Facts
begin

text \<open>
  The authenticated description of a Windows installation (\<open>update/managed/manifest.go\<close>) and the record of a
  pending update (\<open>update/managed/state.go\<close>). The semantic-version library, the Ed25519 verification, the JSON
  and base64 decoders, SHA-256, \<open>url.Parse\<close>, the wording of errors, the Setup program and the service it installs
  are fields of the environment. Times are seconds; a zero \<open>time.Time\<close> is \<open>None\<close>.
\<close>

section \<open>Data\<close>

record update_file =
  uf_name :: string
  uf_size :: int
  uf_sha256 :: string

record manifest =
  mf_schema :: int
  mf_version :: string
  mf_architecture :: string
  mf_installer :: update_file
  mf_files :: "update_file list"

record candidate =
  cd_data :: string
  cd_signature :: string
  cd_url :: string

record update_status =
  us_pending :: bool
  us_phase :: string
  us_target :: string
  us_installed :: string
  us_downloaded :: int
  us_total :: int
  us_next_retry :: "int option"
  us_last_check :: "int option"
  us_message :: string
  us_attempts :: int

record update_state = update_status +
  us_candidate :: "candidate option"

datatype update_error = UeKey | UeSignature | UeManifest | UeRelease | UeInstaller | UeFileList | UeFile string
  | UeMissing string | UeMismatch string | UeUnsafe | UeVersion | UeUrl | UeHttp int | UeNetwork | UeTooLarge
  | UeDuplicateAsset | UeTag | UeIntegrity | UeDamaged | UeNoMetadata | UeNotNewer | UeControls | UeMaintenance
  | UeWorker string | UeIdentity | UeSnapshot | UeHealth | UeExit nat | UeText string | UeSystem | UeStopped | UeDied

record url_parts =
  ur_scheme :: string
  ur_host :: string
  ur_hostname :: string
  ur_port :: string
  ur_user :: bool

text \<open>The files below a directory with their contents, in the order in which a walk visits them.\<close>

type_synonym file_tree = "(string \<times> string) list"

record release =
  rl_tag :: string
  rl_draft :: bool
  rl_prerelease :: bool
  rl_assets :: "(string \<times> string) list"

record 'v update_env =
  ue_parse :: "string \<Rightarrow> 'v option"
  ue_pre :: "'v \<Rightarrow> bool"
  ue_newer :: "'v \<Rightarrow> 'v \<Rightarrow> bool"
  ue_same :: "'v \<Rightarrow> 'v \<Rightarrow> bool"
  ue_signed :: "string \<Rightarrow> string \<Rightarrow> string \<Rightarrow> bool"
  ue_decode :: "string \<Rightarrow> manifest option"
  ue_release :: "string \<Rightarrow> release option"
  ue_base64 :: "string \<Rightarrow> string option"
  ue_digest :: "string \<Rightarrow> string"
  ue_url :: "string \<Rightarrow> url_parts option"
  ue_describe :: "update_error \<Rightarrow> string"
  ue_key :: "string option"
  ue_endpoint :: string
  ue_fixture :: bool
  ue_setup :: "nat \<Rightarrow> string \<Rightarrow> file_tree \<Rightarrow> file_tree"
  ue_service :: "file_tree \<Rightarrow> string"

section \<open>The manifest\<close>

definition max_manifest_size :: int where "max_manifest_size = 4194304"
definition max_installer_size :: int where "max_installer_size = 4294967296"

definition public_key :: "'v update_env \<Rightarrow> update_error + string" where
  "public_key env = (case ue_key env of None \<Rightarrow> Inl UeKey
     | Some k \<Rightarrow> if length k \<noteq> 32 then Inl UeKey else Inr k)"

definition version_of :: "'v update_env \<Rightarrow> string \<Rightarrow> update_error + 'v" where
  "version_of env s = (case ue_parse env (if has_prefix s ''v'' then drop 1 s else s) of
     None \<Rightarrow> Inl UeVersion | Some v \<Rightarrow> Inr v)"

text \<open>\<open>hex.DecodeString\<close> succeeds on an even number of hexadecimal digits; a digest has 32 bytes.\<close>

definition is_hex :: "char \<Rightarrow> bool" where
  "is_hex c \<longleftrightarrow> is_digit c \<or> 97 \<le> code c \<and> code c \<le> 102 \<or> 65 \<le> code c \<and> code c \<le> 70"

definition valid_digest :: "string \<Rightarrow> bool" where
  "valid_digest s \<longleftrightarrow> list_all is_hex s \<and> length s = 64"

definition forbidden_char :: "char \<Rightarrow> bool" where
  "forbidden_char c \<longleftrightarrow> code c < 32 \<or> c \<in> {CHR 0x5C, CHR '':'', CHR ''<'', CHR ''>'', CHR 0x22, CHR ''|'', CHR ''?'', CHR ''*''}"

text \<open>The device names of Windows: the part of an element before its first dot, in any case.\<close>

definition device_name :: "string \<Rightarrow> bool" where
  "device_name part = (let base = to_lower (takeWhile (\<lambda>c. c \<noteq> CHR ''.'') part) in
     base \<in> {''con'', ''nul'', ''prn'', ''aux''} \<or>
     (length base = 4 \<and> (has_prefix base ''com'' \<or> has_prefix base ''lpt'') \<and> is_digit (base ! 3)))"

definition safe_part :: "string \<Rightarrow> bool" where
  "safe_part part \<longleftrightarrow> part \<noteq> [] \<and> part \<noteq> dot \<and> part \<noteq> dotdot \<and> \<not> has_suffix part ''.'' \<and>
     \<not> has_suffix part '' '' \<and> \<not> device_name part"

definition safe_name :: "string \<Rightarrow> bool" where
  "safe_name name \<longleftrightarrow> name \<noteq> [] \<and> \<not> list_ex forbidden_char name \<and> \<not> has_prefix name [sep] \<and>
     list_all safe_part (split_on sep name)"

definition max_file_size :: int where "max_file_size = 8589934592"

definition valid_file :: "string list \<Rightarrow> update_file \<Rightarrow> bool" where
  "valid_file seen f \<longleftrightarrow> safe_name (uf_name f) \<and> to_lower (uf_name f) \<notin> set seen \<and>
     0 \<le> uf_size f \<and> uf_size f \<le> max_file_size \<and> valid_digest (uf_sha256 f)"

text \<open>The loop over the files returns the names it has seen.\<close>

fun check_files :: "string list \<Rightarrow> update_file list \<Rightarrow> update_error + string list" where
  "check_files seen [] = Inr seen"
| "check_files seen (f # fs) =
    (if valid_file seen f then check_files (to_lower (uf_name f) # seen) fs else Inl (UeFile (uf_name f)))"

definition required_files :: "string list" where
  "required_files = [''transcoderd-worker.exe'', ''transcoderd-desktop-service.exe'', ''transcoderd-updater.exe'',
     ''transcoderd-tray.exe'', ''wwwroot/index.html'', ''bin/ffmpeg.exe'', ''bin/ffprobe.exe'', ''bin/mkvextract.exe'',
     ''pgs/pgstosrt.exe'', ''pgs/pgstosrt.dll'', ''tessdata/eng.traineddata'']"

definition installer_name :: "string \<Rightarrow> string" where
  "installer_name version = ''transcoderd-worker-'' @ version @ ''-windows-amd64-setup.exe''"

definition supported_release :: "'v update_env \<Rightarrow> manifest \<Rightarrow> bool" where
  "supported_release env m = (case version_of env (mf_version m) of Inl _ \<Rightarrow> False
     | Inr v \<Rightarrow> \<not> ue_pre env v \<and> mf_schema m = 1 \<and> mf_architecture m = ''amd64'')"

definition validate_manifest :: "'v update_env \<Rightarrow> manifest \<Rightarrow> update_error + unit" where
  "validate_manifest env m =
    (let i = mf_installer m in
     if \<not> supported_release env m then Inl UeRelease
     else if uf_name i \<noteq> installer_name (mf_version m) \<or> uf_size i \<le> 0 \<or> max_installer_size < uf_size i \<or>
       \<not> valid_digest (uf_sha256 i) then Inl UeInstaller
     else if mf_files m = [] \<or> 20000 < int (length (mf_files m)) then Inl UeFileList
     else (case check_files [] (mf_files m) of Inl e \<Rightarrow> Inl e
       | Inr seen \<Rightarrow> (case find (\<lambda>r. r \<notin> set seen) required_files of
             Some r \<Rightarrow> Inl (UeMissing r) | None \<Rightarrow> Inr ())))"

text \<open>The decoder refuses unknown fields and data after the manifest; both are part of \<open>ue_decode\<close>.\<close>

definition verify_manifest :: "'v update_env \<Rightarrow> string \<Rightarrow> string \<Rightarrow> string \<Rightarrow> update_error + manifest" where
  "verify_manifest env data sig key =
    (if max_manifest_size < int (length data) \<or> length key \<noteq> 32 \<or> \<not> ue_signed env key data sig then Inl UeSignature
     else (case ue_decode env data of None \<Rightarrow> Inl UeManifest
       | Some m \<Rightarrow> (case validate_manifest env m of Inl e \<Rightarrow> Inl e | Inr _ \<Rightarrow> Inr m)))"

section \<open>Files of an installation\<close>

definition describe_file :: "'v update_env \<Rightarrow> string \<Rightarrow> string \<Rightarrow> update_file" where
  "describe_file env name bytes = \<lparr>uf_name = name, uf_size = int (length bytes), uf_sha256 = ue_digest env bytes\<rparr>"

definition verify_file :: "'v update_env \<Rightarrow> file_tree \<Rightarrow> string \<Rightarrow> update_file \<Rightarrow> update_error + unit" where
  "verify_file env tree path expected = (case map_of tree path of
      None \<Rightarrow> Inl UeSystem
    | Some bytes \<Rightarrow> (let got = describe_file env (uf_name expected) bytes in
        if uf_size got \<noteq> uf_size expected \<or> to_lower (uf_sha256 got) \<noteq> to_lower (uf_sha256 expected)
        then Inl (UeMismatch (uf_name expected)) else Inr ()))"

fun installation_files :: "'v update_env \<Rightarrow> file_tree \<Rightarrow> update_error + update_file list" where
  "installation_files env [] = Inr []"
| "installation_files env ((name, bytes) # rest) =
    (if \<not> safe_name name then Inl UeUnsafe
     else (case installation_files env rest of Inl e \<Rightarrow> Inl e | Inr fs \<Rightarrow> Inr (describe_file env name bytes # fs)))"

fun verify_installation :: "'v update_env \<Rightarrow> file_tree \<Rightarrow> update_file list \<Rightarrow> update_error + unit" where
  "verify_installation env tree [] = Inr ()"
| "verify_installation env tree (f # fs) =
    (if \<not> safe_name (uf_name f) then Inl UeUnsafe
     else (case verify_file env tree (uf_name f) f of Inl e \<Rightarrow> Inl e | Inr _ \<Rightarrow> verify_installation env tree fs))"

section \<open>The state of an update\<close>

definition blank_state :: update_state where
  "blank_state = \<lparr>us_pending = False, us_phase = [], us_target = [], us_installed = [], us_downloaded = 0, us_total = 0,
     us_next_retry = None, us_last_check = None, us_message = [], us_attempts = 0, us_candidate = None\<rparr>"

definition retry_delay :: "'v update_env \<Rightarrow> int \<Rightarrow> int" where
  "retry_delay env attempt =
    (if ue_fixture env then 10 else if attempt \<le> 1 then 900 else if attempt = 2 then 3600 else 21600)"

definition fail_state :: "'v update_env \<Rightarrow> update_error \<Rightarrow> int \<Rightarrow> update_state \<Rightarrow> update_state" where
  "fail_state env e now s = s\<lparr>us_attempts := us_attempts s + 1, us_phase := ''retrying'', us_message := ue_describe env e,
     us_next_retry := Some (now + retry_delay env (us_attempts s + 1))\<rparr>"

definition configuration_allowed :: "update_state \<Rightarrow> string \<Rightarrow> bool" where
  "configuration_allowed s command \<longleftrightarrow> \<not> us_pending s \<or> command \<noteq> ''configure'' \<and> command \<noteq> ''set-max-jobs''"

section \<open>What the checks give\<close>

lemma check_files_names:
  "check_files seen fs = Inr names \<Longrightarrow> set names = set seen \<union> to_lower ` uf_name ` set fs"
  by (induction seen fs rule: check_files.induct) (auto split: if_splits)

lemma check_files_distinct:
  "check_files seen fs = Inr names \<Longrightarrow>
    distinct (map (\<lambda>f. to_lower (uf_name f)) fs) \<and> set seen \<inter> to_lower ` uf_name ` set fs = {} \<and>
    (\<forall>f\<in>set fs. safe_name (uf_name f) \<and> valid_digest (uf_sha256 f))"
proof (induction seen fs rule: check_files.induct)
  case (2 seen f fs)
  then have ok: "valid_file seen f" "check_files (to_lower (uf_name f) # seen) fs = Inr names"
    by (auto split: if_splits)
  have ih: "distinct (map (\<lambda>f. to_lower (uf_name f)) fs)"
    "insert (to_lower (uf_name f)) (set seen) \<inter> to_lower ` uf_name ` set fs = {}"
    "\<forall>g\<in>set fs. safe_name (uf_name g) \<and> valid_digest (uf_sha256 g)"
    using 2(1)[OF ok] by simp_all
  have f: "safe_name (uf_name f)" "to_lower (uf_name f) \<notin> set seen" "valid_digest (uf_sha256 f)"
    using ok(1) by (simp_all add: valid_file_def)
  show ?case
    using ih(1,3) f ih(2)[THEN equalityD1, THEN subsetD] by (simp add: image_image) blast
qed simp

lemma verify_manifest_valid:
  assumes "verify_manifest env data sig key = Inr m"
  shows "ue_signed env key data sig" and "ue_decode env data = Some m" and "validate_manifest env m = Inr ()"
  using assms by (auto simp: verify_manifest_def split: if_splits option.splits sum.splits)

lemma verify_file_ok:
  "verify_file env tree path f = Inr () \<longleftrightarrow> (\<exists>bytes. map_of tree path = Some bytes \<and>
     int (length bytes) = uf_size f \<and> to_lower (ue_digest env bytes) = to_lower (uf_sha256 f))"
  by (auto simp: verify_file_def describe_file_def Let_def split: option.splits)

lemma verify_installation_iff:
  "verify_installation env tree fs = Inr () \<longleftrightarrow>
     (\<forall>f\<in>set fs. safe_name (uf_name f) \<and> verify_file env tree (uf_name f) f = Inr ())"
  by (induction fs) (auto split: sum.splits)

text \<open>The files a manifest accepts stay below the directory they are joined to.\<close>

lemma safe_parts_clean:
  "list_all safe_part ws \<Longrightarrow> foldl (clean_step False) acc ws = acc @ ws"
  by (induction ws arbitrary: acc) (auto simp: clean_step_def safe_part_def)

lemma safe_name_local:
  assumes "safe_name name"
  shows "is_local name" and "path_parts name = split_on sep name"
proof -
  have parts: "list_all safe_part (split_on sep name)" and n: "name \<noteq> []" "\<not> is_abs name"
    using assms by (auto simp: safe_name_def is_abs_def)
  show pp: "path_parts name = split_on sep name"
    using safe_parts_clean[OF parts, of "[]"] n(2) by (simp add: path_parts_def clean_parts_def)
  show "is_local name"
    using n parts unfolding is_local_def pp by (cases "split_on sep name") (auto simp: safe_part_def)
qed

lemma installation_files_describe:
  "installation_files env tree = Inr fs \<Longrightarrow>
    fs = map (\<lambda>(n, b). describe_file env n b) tree \<and> list_all (\<lambda>(n, b). safe_name n) tree"
  by (induction env tree arbitrary: fs rule: installation_files.induct) (auto split: if_splits sum.splits)

lemma installation_files_verify:
  assumes "installation_files env tree = Inr fs" and "distinct (map fst tree)"
    and "map_of copy = map_of tree"
  shows "verify_installation env copy fs = Inr ()"
proof -
  have fs: "fs = map (\<lambda>(n, b). describe_file env n b) tree" "list_all (\<lambda>(n, b). safe_name n) tree"
    using installation_files_describe[OF assms(1)] by auto
  have "safe_name n \<and> verify_file env copy n (describe_file env n b) = Inr ()" if "(n, b) \<in> set tree" for n b
    using that fs(2) assms(2,3) by (auto simp: verify_file_ok list_all_iff describe_file_def)
  then show ?thesis
    by (auto simp: verify_installation_iff fs(1) describe_file_def)
qed

end
