(* ===== verification/Update_Client.thy ===== *)
theory Update_Client
  imports Update_Manifest
begin

text \<open>
  The world of a managed update (\<open>update/managed\<close>): the files it keeps, the calls that reach it, and the release
  client (\<open>client.go\<close>) with the files of \<open>state.go\<close> and \<open>transaction.go\<close>. Every call to the
  system takes its outcome from \<open>uw_plan\<close>: it works, it fails after a part of its effect, or the process (or the
  machine) dies there. An exhausted plan works. A file that is replaced is written beside it and renamed, so that its
  old or its new contents survive a death.
\<close>

record transaction =
  tx_phase :: string
  tx_candidate :: candidate
  tx_install_dir :: string
  tx_owner :: string
  tx_previous :: string
  tx_backup_files :: "update_file list"
  tx_pid :: int
  tx_started :: int
  tx_error :: string
  tx_boot :: int

datatype 'a saved = Absent | Damaged | Saved 'a

datatype outcome = Works | Fails nat | Dies nat string

text \<open>The answer to a request: its status, the pieces of its body, each with whether more than a second has passed
  since progress was last saved, and whether the body ended as announced.\<close>

datatype web_answer = NoAnswer | Answer int "(string \<times> bool) list" bool

text \<open>The staging directory of a release: its files and the copy of the previous installation.\<close>

record stage =
  sg_files :: file_tree
  sg_backup :: file_tree

record update_world =
  uw_state :: "update_state saved"
  uw_transaction :: "transaction saved"
  uw_installation :: "(string \<times> string) saved"
  uw_stages :: "(string \<times> stage) list"
  uw_install :: file_tree
  uw_memory :: update_state
  uw_plan :: "outcome list"
  uw_clock :: "int list"
  uw_answers :: "web_answer list"
  uw_workers :: "(int \<times> int) option list"
  uw_maintenance :: bool
  uw_configured :: bool
  uw_shutdown :: bool
  uw_children :: "string list"
  uw_pid :: int
  uw_boot :: int

type_synonym 'a update_op = "(update_world, update_error, 'a) procedure"

section \<open>System calls\<close>

definition next_call :: "update_world \<Rightarrow> outcome \<times> update_world" where
  "next_call s = (case uw_plan s of [] \<Rightarrow> (Works, s) | p # ps \<Rightarrow> (p, s\<lparr>uw_plan := ps\<rparr>))"

definition sys_call :: "(update_world \<Rightarrow> update_world) \<Rightarrow> (nat \<Rightarrow> update_world \<Rightarrow> update_world)
    \<Rightarrow> (nat \<Rightarrow> string \<Rightarrow> update_world \<Rightarrow> update_world) \<Rightarrow> unit update_op" where
  "sys_call full part died = (\<lambda>s. case next_call s of
      (Works, s) \<Rightarrow> (Inr (), full s)
    | (Fails k, s) \<Rightarrow> (Inl UeSystem, part k s)
    | (Dies k x, s) \<Rightarrow> (Inl UeDied, died k x s))"

definition touch :: "unit update_op" where
  "touch = sys_call id (\<lambda>_. id) (\<lambda>_ _. id)"

definition replace_file :: "(update_world \<Rightarrow> update_world) \<Rightarrow> unit update_op" where
  "replace_file f = sys_call f (\<lambda>_. id) (\<lambda>k _. if k = 0 then id else f)"

text \<open>The error of a call as a value. A dead process handles nothing.\<close>

definition attempt :: "'a update_op \<Rightarrow> (update_error + 'a) update_op" where
  "attempt m = (\<lambda>s. case m s of (r, t) \<Rightarrow> (if r = Inl UeDied then Inl UeDied else Inr r, t))"

definition now_op :: "int update_op" where
  "now_op = (\<lambda>s. case uw_clock s of [] \<Rightarrow> (Inr 0, s) | t # ts \<Rightarrow> (Inr t, s\<lparr>uw_clock := ts\<rparr>))"

section \<open>The saved files\<close>

definition read_saved :: "(update_world \<Rightarrow> 'a saved) \<Rightarrow> 'a option update_op" where
  "read_saved f = bindP touch (\<lambda>_ s. case f s of
      Absent \<Rightarrow> (Inr None, s) | Damaged \<Rightarrow> (Inl UeDamaged, s) | Saved x \<Rightarrow> (Inr (Some x), s))"

definition load_state :: "update_state update_op" where
  "load_state = bindP (read_saved uw_state) (\<lambda>r. retP (case r of None \<Rightarrow> blank_state | Some x \<Rightarrow> x))"

definition save_state :: "update_state \<Rightarrow> unit update_op" where
  "save_state x = replace_file (\<lambda>s. s\<lparr>uw_state := Saved x\<rparr>)"

definition load_transaction :: "transaction option update_op" where
  "load_transaction = read_saved uw_transaction"

definition save_transaction :: "transaction \<Rightarrow> unit update_op" where
  "save_transaction t = replace_file (\<lambda>s. s\<lparr>uw_transaction := Saved t\<rparr>)"

definition transaction_active :: "transaction option \<Rightarrow> bool" where
  "transaction_active t = (case t of None \<Rightarrow> False
     | Some t \<Rightarrow> tx_phase t \<in> {''prepared'', ''installing'', ''verifying'', ''recovering'', ''restart-required''})"

section \<open>Staging directories\<close>

definition stage_dir :: "manifest \<Rightarrow> string" where
  "stage_dir m = uf_sha256 (mf_installer m)"

definition empty_stage :: stage where
  "empty_stage = \<lparr>sg_files = [], sg_backup = []\<rparr>"

definition stage_at :: "string \<Rightarrow> update_world \<Rightarrow> stage" where
  "stage_at d s = (case map_of (uw_stages s) d of None \<Rightarrow> empty_stage | Some g \<Rightarrow> g)"

definition set_stage :: "string \<Rightarrow> stage \<Rightarrow> update_world \<Rightarrow> update_world" where
  "set_stage d g s = s\<lparr>uw_stages := upsert fst (\<lambda>_. (d, g)) (d, g) (uw_stages s)\<rparr>"

definition put_file :: "string \<Rightarrow> string \<Rightarrow> file_tree \<Rightarrow> file_tree" where
  "put_file n b tree = upsert fst (\<lambda>_. (n, b)) (n, b) tree"

definition stage_file :: "string \<Rightarrow> string \<Rightarrow> string \<Rightarrow> update_world \<Rightarrow> update_world" where
  "stage_file d n b s = set_stage d ((stage_at d s)\<lparr>sg_files := put_file n b (sg_files (stage_at d s))\<rparr>) s"

text \<open>\<open>VerifyFile\<close> of a staged file: the path is checked, then the file described and compared.\<close>

definition verify_staged :: "'v update_env \<Rightarrow> string \<Rightarrow> update_file \<Rightarrow> unit update_op" where
  "verify_staged env d f = bindP touch (\<lambda>_ s. (verify_file env (sg_files (stage_at d s)) (uf_name f) f, s))"

section \<open>The release client\<close>

definition validate_url :: "'v update_env \<Rightarrow> string \<Rightarrow> update_error + unit" where
  "validate_url env value = (case ue_url env value of
      None \<Rightarrow> Inl UeUrl
    | Some u \<Rightarrow>
        if ur_user u then Inl UeUrl
        else if ue_fixture env \<and> (case ue_url env (ue_endpoint env) of None \<Rightarrow> False | Some b \<Rightarrow> ur_host u = ur_host b)
          \<and> (ur_scheme u = ''http'' \<or> ur_scheme u = ''https'') then Inr ()
        else if ur_scheme u \<noteq> ''https'' \<or> ur_port u \<noteq> [] then Inl UeUrl
        else (let host = to_lower (ur_hostname u) in
          if host = ''api.github.com'' \<or> host = ''github.com'' \<or> has_suffix host ''.githubusercontent.com''
          then Inr () else Inl UeUrl))"

definition http_get :: "'v update_env \<Rightarrow> string \<Rightarrow> ((string \<times> bool) list \<times> bool) update_op" where
  "http_get env value = bindP (liftP (validate_url env value)) (\<lambda>_ s. case uw_answers s of
      [] \<Rightarrow> (Inl UeNetwork, s)
    | a # rest \<Rightarrow> (let s = s\<lparr>uw_answers := rest\<rparr> in case a of
          NoAnswer \<Rightarrow> (Inl UeNetwork, s)
        | Answer st pieces ended \<Rightarrow> if st \<noteq> 200 then (Inl (UeHttp st), s) else (Inr (pieces, ended), s)))"

definition body_of :: "(string \<times> bool) list \<Rightarrow> string" where
  "body_of pieces = concat (map fst pieces)"

definition http_read :: "'v update_env \<Rightarrow> string \<Rightarrow> int \<Rightarrow> string update_op" where
  "http_read env value limit = bindP (http_get env value) (\<lambda>(pieces, ended).
     if limit < int (length (body_of pieces)) then failP UeTooLarge
     else if \<not> ended then failP UeNetwork else retP (body_of pieces))"

definition manifest_name :: string where "manifest_name = ''windows-update.json''"
definition signature_name :: string where "signature_name = ''windows-update.json.sig''"

text \<open>The manifest, its signature and the installer are read from the assets of a release.\<close>

definition asset_url :: "(string \<times> string) list \<Rightarrow> string \<Rightarrow> string" where
  "asset_url assets name = (case map_of assets name of None \<Rightarrow> [] | Some u \<Rightarrow> u)"

definition check_assets :: "'v update_env \<Rightarrow> string \<Rightarrow> release \<Rightarrow> (candidate \<times> manifest) option update_op" where
  "check_assets env key r =
    (if \<not> distinct (map fst (rl_assets r)) then failP UeDuplicateAsset
     else if asset_url (rl_assets r) manifest_name = [] \<or> asset_url (rl_assets r) signature_name = [] then retP None
     else bindP (http_read env (asset_url (rl_assets r) manifest_name) max_manifest_size) (\<lambda>data.
       bindP (http_read env (asset_url (rl_assets r) signature_name) 1024) (\<lambda>encoded.
       case ue_base64 env (trim_space encoded) of None \<Rightarrow> failP UeSignature
       | Some sig \<Rightarrow> bindP (liftP (verify_manifest env data sig key)) (\<lambda>m.
           if mf_version m \<noteq> rl_tag r then failP UeTag
           else (let url = asset_url (rl_assets r) (uf_name (mf_installer m)) in
             if url = [] then retP None
             else bindP (liftP (validate_url env url)) (\<lambda>_.
               retP (Some (\<lparr>cd_data = data, cd_signature = sig, cd_url = url\<rparr>, m))))))))"

definition check_release :: "'v update_env \<Rightarrow> string \<Rightarrow> string \<Rightarrow> (candidate \<times> manifest) option update_op" where
  "check_release env key current =
    bindP (http_read env (ue_endpoint env) max_manifest_size) (\<lambda>b.
    case ue_release env b of None \<Rightarrow> failP UeRelease
    | Some r \<Rightarrow> bindP (liftP (version_of env (rl_tag r))) (\<lambda>v. bindP (liftP (version_of env current)) (\<lambda>installed.
        if rl_draft r \<or> rl_prerelease r \<or> ue_pre env v \<or> \<not> ue_newer env v installed then retP None
        else check_assets env key r)))"

text \<open>The calls of \<open>Stage\<close> that only succeed or fail, in their order: the protection of the directory, the free
  space, the path, the temporary file, and after the copy the file's synchronisation, closing and protection.
  A download reports each piece it has written; the manager keeps the count and saves it now and then.\<close>

fun report_pieces :: "(int \<Rightarrow> bool \<Rightarrow> unit update_op) \<Rightarrow> int \<Rightarrow> int \<Rightarrow> (string \<times> bool) list \<Rightarrow> int update_op" where
  "report_pieces report room n [] = retP n"
| "report_pieces report room n ((x, late) # xs) =
    (let k = min room (int (length x)) in
     if k = 0 then retP n
     else bindP (report (n + k) late) (\<lambda>_. report_pieces report (room - k) (n + k) xs))"

definition stage_download :: "'v update_env \<Rightarrow> string \<Rightarrow> candidate \<Rightarrow> (int \<Rightarrow> bool \<Rightarrow> unit update_op) \<Rightarrow> string update_op" where
  "stage_download env key c report =
    bindP (liftP (verify_manifest env (cd_data c) (cd_signature c) key)) (\<lambda>m.
    let d = stage_dir m; i = mf_installer m in
    bindP touch (\<lambda>_.
    bindP (attempt (verify_staged env d i)) (\<lambda>present. case present of
      Inr _ \<Rightarrow> bindP (report (uf_size i) False) (\<lambda>_. retP (uf_name i))
    | Inl _ \<Rightarrow>
      bindP touch (\<lambda>_. bindP touch (\<lambda>_. bindP touch (\<lambda>_.
      bindP (http_get env (cd_url c)) (\<lambda>(pieces, ended).
      let body = take (nat (uf_size i + 1)) (body_of pieces) in
      bindP (report_pieces report (uf_size i + 1) 0 pieces) (\<lambda>_.
      if \<not> ended \<and> int (length body) \<le> uf_size i then failP UeNetwork
      else bindP touch (\<lambda>_.
        if int (length body) \<noteq> uf_size i \<or> to_lower (ue_digest env body) \<noteq> to_lower (uf_sha256 i) then failP UeIntegrity
        else bindP touch (\<lambda>_. bindP (replace_file (stage_file d (uf_name i) body)) (\<lambda>_.
          retP (uf_name i))))))))))))"

end
