(* ===== verification/Update_Manager.thy ===== *)
theory Update_Manager
  imports Update_Client
begin

text \<open>
  The manager of mandatory updates inside the Windows service (\<open>update/managed/manager.go\<close>, its hooks in
  \<open>cmd/windows-service/updates_windows.go\<close> and \<open>PrepareInstall\<close> of \<open>native_windows.go\<close>). One \<open>Step\<close> reads the
  saved state and transaction, completes a commit that was cut off, asks for a release when that is due, and drives a
  pending update through download, drain and the hand-over to the helper. The state it holds in memory is
  \<open>uw_memory\<close>; the local copy \<open>s\<close> of a step is threaded as the code threads it.
\<close>

section \<open>Failures\<close>

definition set_op :: "update_state \<Rightarrow> unit update_op" where
  "set_op s = bindP (writeP (\<lambda>w. w\<lparr>uw_memory := s\<rparr>)) (\<lambda>_. save_state s)"

definition failure :: "'v update_env \<Rightarrow> int \<Rightarrow> update_state \<Rightarrow> update_error \<Rightarrow> 'a update_op" where
  "failure env now s e = bindP (attempt (set_op (fail_state env e now s))) (\<lambda>_. failP e)"

definition or_failure :: "'v update_env \<Rightarrow> int \<Rightarrow> update_state \<Rightarrow> 'a update_op \<Rightarrow> ('a \<Rightarrow> 'b update_op) \<Rightarrow> 'b update_op" where
  "or_failure env now s m f = bindP (attempt m) (\<lambda>r. case r of Inl e \<Rightarrow> failure env now s e | Inr x \<Rightarrow> f x)"

section \<open>The hooks of the service\<close>

text \<open>\<open>drainForUpdate\<close>: the admission of both workers is held and their work counted. A worker that should run and
  cannot be reached is an error.\<close>

fun drain_profiles :: "string list \<Rightarrow> int \<Rightarrow> int \<Rightarrow> (int \<times> int) update_op" where
  "drain_profiles [] active reserved = retP (active, reserved)"
| "drain_profiles (p # ps) active reserved = (\<lambda>s.
    if p \<notin> set (uw_children s) then
      (if uw_configured s then (Inl (UeWorker p), s) else drain_profiles ps active reserved s)
    else (case uw_workers s of
        [] \<Rightarrow> (Inl (UeWorker p), s)
      | None # rest \<Rightarrow> (Inl (UeWorker p), s\<lparr>uw_workers := rest\<rparr>)
      | Some (a, r) # rest \<Rightarrow> drain_profiles ps (wrap64 (active + a)) (wrap64 (reserved + r)) (s\<lparr>uw_workers := rest\<rparr>)))"

definition drain_for_update :: "(int \<times> int) update_op" where
  "drain_for_update = (\<lambda>s.
    if uw_maintenance s then (Inl UeMaintenance, s)
    else drain_profiles [''cpu'', ''gpu''] 0 0 (s\<lparr>uw_shutdown := False\<rparr>))"

text \<open>A file is copied beside its target and renamed; a death leaves the temporary file or the copy.\<close>

definition temporary_name :: "string \<Rightarrow> string \<Rightarrow> string" where
  "temporary_name name x = fst (split_file name) @ ''.copy-'' @ x"

definition copy_file :: "(string \<Rightarrow> string \<Rightarrow> update_world \<Rightarrow> update_world) \<Rightarrow> string \<Rightarrow> string \<Rightarrow> unit update_op" where
  "copy_file put name bytes = sys_call (put name bytes) (\<lambda>_. id)
     (\<lambda>k x. if k = 0 then put name bytes else put (temporary_name name x) (take (k - 1) bytes))"

definition updater_name :: string where "updater_name = ''transcoderd-updater.exe''"

definition copy_updater :: "string \<Rightarrow> unit update_op" where
  "copy_updater d = bindP (readP uw_install) (\<lambda>tree. case map_of tree updater_name of
      None \<Rightarrow> failP UeSystem
    | Some bytes \<Rightarrow> copy_file (stage_file d) updater_name bytes)"

text \<open>The Install hook checks the workspaces of the settings, then \<open>PrepareInstall\<close> compares the recorded installation,
  verifies the installer, copies the helper out of the tree to be replaced, and records the transaction before the
  recovery task and the helper are started.\<close>

definition started_or_retrying :: "transaction \<Rightarrow> unit update_op \<Rightarrow> unit update_op" where
  "started_or_retrying t m = bindP (attempt m) (\<lambda>r. case r of Inr _ \<Rightarrow> retP ()
     | Inl e \<Rightarrow> bindP (attempt (save_transaction (t\<lparr>tx_phase := ''retrying''\<rparr>))) (\<lambda>_. failP e))"

definition check_identity :: "string \<Rightarrow> string \<Rightarrow> unit update_op" where
  "check_identity dir owner = bindP (read_saved uw_installation) (\<lambda>i. case i of
      None \<Rightarrow> failP UeSystem
    | Some (d, own) \<Rightarrow> if to_lower d \<noteq> to_lower dir \<or> own \<noteq> owner then failP UeIdentity else retP ())"

definition prepare_install :: "'v update_env \<Rightarrow> string \<Rightarrow> string \<Rightarrow> string \<Rightarrow> candidate \<Rightarrow> manifest \<Rightarrow> unit update_op" where
  "prepare_install env dir owner version c m =
    bindP touch (\<lambda>_.
    bindP (check_identity dir owner) (\<lambda>_.
    bindP (verify_staged env (stage_dir m) (mf_installer m)) (\<lambda>_.
    bindP (copy_updater (stage_dir m)) (\<lambda>_.
    bindP now_op (\<lambda>n.
    let t = \<lparr>tx_phase = ''prepared'', tx_candidate = c, tx_install_dir = dir, tx_owner = owner, tx_previous = version,
             tx_backup_files = [], tx_pid = 0, tx_started = n, tx_error = [], tx_boot = 0\<rparr> in
    bindP (save_transaction t) (\<lambda>_.
    bindP (started_or_retrying t touch) (\<lambda>_.
    started_or_retrying t touch)))))))"

text \<open>\<open>RecoverRunning\<close>: nothing while the recorded helper runs or has just been started, otherwise the task is run.\<close>

definition recover_running :: "'v update_env \<Rightarrow> string \<Rightarrow> transaction \<Rightarrow> unit update_op" where
  "recover_running env key t = (\<lambda>s.
    if tx_pid t \<noteq> 0 \<and> uw_pid s = tx_pid t \<and>
      \<not> isl (verify_manifest env (cd_data (tx_candidate t)) (cd_signature (tx_candidate t)) key) then (Inr (), s)
    else bindP now_op (\<lambda>n. if n - tx_started t < 30 then retP () else touch) s)"

section \<open>The end of a committed update\<close>

definition remove_stage :: "string \<Rightarrow> unit update_op" where
  "remove_stage d =
    (let part = (\<lambda>k s. set_stage d \<lparr>sg_files = drop k (sg_files (stage_at d s)), sg_backup = drop k (sg_backup (stage_at d s))\<rparr> s)
     in sys_call (\<lambda>s. s\<lparr>uw_stages := filter (\<lambda>(n, _). n \<noteq> d) (uw_stages s)\<rparr>) part (\<lambda>k _. part k))"

definition kept_stage :: "'v update_env \<Rightarrow> update_error + transaction option \<Rightarrow> string" where
  "kept_stage env r = (case r of
      Inr (Some t) \<Rightarrow> (case verify_manifest env (cd_data (tx_candidate t)) (cd_signature (tx_candidate t))
          (case public_key env of Inl _ \<Rightarrow> [] | Inr k \<Rightarrow> k) of Inl _ \<Rightarrow> [] | Inr old \<Rightarrow> stage_dir old)
    | _ \<Rightarrow> [])"

definition remove_old_stages :: "string \<Rightarrow> string list \<Rightarrow> unit update_op" where
  "remove_old_stages keep dirs = forP (filter (\<lambda>d. length d = 64 \<and> d \<noteq> keep) dirs) (\<lambda>d.
     bindP (attempt touch) (\<lambda>r. case r of Inl _ \<Rightarrow> retP ()
       | Inr _ \<Rightarrow> bindP (attempt (remove_stage d)) (\<lambda>_. retP ())))"

definition updated_state :: "string \<Rightarrow> update_state \<Rightarrow> update_state" where
  "updated_state installed s = s\<lparr>us_pending := False, us_phase := ''updated'', us_installed := installed, us_target := installed,
     us_message := ''The complete installation was updated successfully.'', us_next_retry := None, us_attempts := 0,
     us_candidate := None\<rparr>"

definition clear_completed :: "'v update_env \<Rightarrow> string \<Rightarrow> unit update_op" where
  "clear_completed env installed =
    bindP load_state (\<lambda>s.
    bindP (save_state (updated_state installed s)) (\<lambda>_.
    bindP touch (\<lambda>_.
    bindP (readP (\<lambda>w. map fst (uw_stages w))) (\<lambda>dirs.
    bindP (attempt load_transaction) (\<lambda>r.
    remove_old_stages (kept_stage env r) dirs)))))"

section \<open>A step of the manager\<close>

text \<open>A newly found release replaces the candidate when there is none, when the one held cannot be verified any more,
  or when it is newer. A verified manifest has a version that parses.\<close>

definition version_test :: "'v update_env \<Rightarrow> ('v \<Rightarrow> 'v \<Rightarrow> bool) \<Rightarrow> string \<Rightarrow> string \<Rightarrow> bool" where
  "version_test env test a b = (case (version_of env a, version_of env b) of (Inr v, Inr w) \<Rightarrow> test v w | _ \<Rightarrow> False)"

definition select_new :: "'v update_env \<Rightarrow> string \<Rightarrow> manifest \<Rightarrow> update_state \<Rightarrow> bool" where
  "select_new env key m s = (case us_candidate s of None \<Rightarrow> True
     | Some c \<Rightarrow> (case verify_manifest env (cd_data c) (cd_signature c) key of Inl _ \<Rightarrow> True
         | Inr old \<Rightarrow> version_test env (ue_newer env) (mf_version m) (mf_version old)))"

definition found_release :: "'v update_env \<Rightarrow> string \<Rightarrow> (candidate \<times> manifest) option \<Rightarrow> update_state \<Rightarrow> update_state" where
  "found_release env key found s = (case found of
      None \<Rightarrow> s
    | Some (c, m) \<Rightarrow> if select_new env key m s then s\<lparr>us_candidate := Some c, us_target := mf_version m,
          us_total := uf_size (mf_installer m), us_downloaded := 0, us_attempts := 0, us_pending := True,
          us_phase := ''pending'', us_message := ''New jobs are blocked while the mandatory update completes.'',
          us_next_retry := None\<rparr>
        else s)"

definition settle_current :: "update_state \<Rightarrow> update_state" where
  "settle_current s = (if us_pending s then s else s\<lparr>us_phase := ''current'',
     us_message := ''Your installation is up to date.'', us_next_retry := None, us_attempts := 0\<rparr>)"

definition retry_due :: "int \<Rightarrow> update_state \<Rightarrow> bool" where
  "retry_due now s = (case us_next_retry s of None \<Rightarrow> True | Some t \<Rightarrow> t \<le> now)"

definition check_due :: "int \<Rightarrow> int \<Rightarrow> bool \<Rightarrow> update_state \<Rightarrow> bool" where
  "check_due interval now force s \<longleftrightarrow> force \<or> retry_due now s \<and>
     ((case us_last_check s of None \<Rightarrow> True | Some t \<Rightarrow> interval \<le> now - t) \<or> us_phase s = ''retrying'')"

definition look_for_release :: "'v update_env \<Rightarrow> string \<Rightarrow> string \<Rightarrow> int \<Rightarrow> update_state \<Rightarrow> update_state update_op" where
  "look_for_release env key version now s =
    bindP (attempt (check_release env key version)) (\<lambda>r.
    let s = s\<lparr>us_last_check := Some now\<rparr> in
    case r of Inl e \<Rightarrow> failure env now s e
    | Inr found \<Rightarrow> (let s = settle_current (found_release env key found s) in
        or_failure env now s (set_op s) (\<lambda>_. retP s)))"

text \<open>The progress of a download is kept in the local state and in memory alike, so that the local state is read back
  from the memory.\<close>

definition report_progress :: "int \<Rightarrow> bool \<Rightarrow> unit update_op" where
  "report_progress n late =
    bindP (writeP (\<lambda>w. w\<lparr>uw_memory := (uw_memory w)\<lparr>us_downloaded := n\<rparr>\<rparr>)) (\<lambda>_.
    if late then bindP (readP uw_memory) (\<lambda>s. bindP (attempt (set_op s)) (\<lambda>_. retP ())) else retP ())"

definition ensure_staged :: "'v update_env \<Rightarrow> string \<Rightarrow> int \<Rightarrow> candidate \<Rightarrow> manifest \<Rightarrow> update_state \<Rightarrow> update_state update_op" where
  "ensure_staged env key now c m s =
    bindP (attempt (verify_staged env (stage_dir m) (mf_installer m))) (\<lambda>r. case r of Inr _ \<Rightarrow> retP s
    | Inl _ \<Rightarrow> (let s = s\<lparr>us_phase := ''downloading'', us_message := ''Downloading the mandatory update. Accepted jobs are finishing.''\<rparr> in
        or_failure env now s (set_op s) (\<lambda>_.
        bindP (attempt (stage_download env key c report_progress)) (\<lambda>r. bindP (readP uw_memory) (\<lambda>s.
          case r of Inl e \<Rightarrow> failure env now s e | Inr _ \<Rightarrow> retP (s\<lparr>us_downloaded := us_total s\<rparr>))))))"

definition hand_over :: "'v update_env \<Rightarrow> string \<Rightarrow> string \<Rightarrow> string \<Rightarrow> int \<Rightarrow> candidate \<Rightarrow> manifest \<Rightarrow> update_state \<Rightarrow> unit update_op" where
  "hand_over env dir owner version now c m s =
    or_failure env now s drain_for_update (\<lambda>(active, reserved).
      if 0 < active \<or> 0 < reserved then
        set_op (s\<lparr>us_phase := ''draining'', us_message := ''Waiting for all accepted jobs and uploads to finish.''\<rparr>)
      else (let s = s\<lparr>us_phase := ''installing'', us_next_retry := None,
              us_message := ''Installing the mandatory update. Configuration remains locked.''\<rparr> in
        or_failure env now s (set_op s) (\<lambda>_.
        or_failure env now s (prepare_install env dir owner version c m) retP)))"

definition drive_pending :: "'v update_env \<Rightarrow> string \<Rightarrow> string \<Rightarrow> string \<Rightarrow> string \<Rightarrow> int \<Rightarrow> update_state \<Rightarrow> unit update_op" where
  "drive_pending env key dir owner version now s = (case us_candidate s of
      None \<Rightarrow> failure env now s UeNoMetadata
    | Some c \<Rightarrow>
        or_failure env now s (liftP (verify_manifest env (cd_data c) (cd_signature c) key)) (\<lambda>m.
        or_failure env now s (liftP (version_of env version)) (\<lambda>_.
        if \<not> version_test env (ue_newer env) (mf_version m) version then failure env now s UeNotNewer
        else or_failure env now s drain_for_update (\<lambda>_.
          bindP (ensure_staged env key now c m s) (hand_over env dir owner version now c m)))))"

definition idle_step :: "'v update_env \<Rightarrow> string \<Rightarrow> string \<Rightarrow> string \<Rightarrow> string \<Rightarrow> int \<Rightarrow> int \<Rightarrow> bool \<Rightarrow> update_state \<Rightarrow> unit update_op" where
  "idle_step env key dir owner version interval now force s =
    (let due = retry_due now s in
     bindP (if check_due interval now force s then look_for_release env key version now s else retP s) (\<lambda>s.
       if \<not> us_pending s \<or> \<not> due then retP () else drive_pending env key dir owner version now s))"

text \<open>The second half of a commit that was cut off between the transaction and the barrier.\<close>

definition same_pending :: "manifest \<Rightarrow> transaction \<Rightarrow> update_state \<Rightarrow> bool" where
  "same_pending m t s \<longleftrightarrow> us_target s = mf_version m \<and>
     (case us_candidate s of None \<Rightarrow> True
      | Some c \<Rightarrow> cd_data c = cd_data (tx_candidate t) \<and> cd_signature c = cd_signature (tx_candidate t))"

definition after_transaction :: "'v update_env \<Rightarrow> string \<Rightarrow> string \<Rightarrow> int \<Rightarrow> transaction option \<Rightarrow> update_state \<Rightarrow> unit update_op \<Rightarrow> unit update_op" where
  "after_transaction env key version now t s rest = (case t of
      None \<Rightarrow> rest
    | Some t \<Rightarrow> if tx_phase t = ''completed'' \<and> us_pending s then
          or_failure env now s (liftP (verify_manifest env (cd_data (tx_candidate t)) (cd_signature (tx_candidate t)) key)) (\<lambda>m.
          or_failure env now s (liftP (version_of env version)) (\<lambda>_.
          if version_test env (ue_same env) version (mf_version m) \<and> same_pending m t s
          then clear_completed env version else rest))
        else rest)"

text \<open>While a transaction is active the helper works: the manager only shows its phase and sees that it runs.\<close>

definition transaction_step :: "'v update_env \<Rightarrow> string \<Rightarrow> string \<Rightarrow> string \<Rightarrow> string \<Rightarrow> int \<Rightarrow> int \<Rightarrow> bool \<Rightarrow> update_state \<Rightarrow> unit update_op" where
  "transaction_step env key dir owner version interval now force s =
    or_failure env now (s\<lparr>us_pending := True\<rparr>) load_transaction (\<lambda>t.
      if transaction_active t then
        (let s = s\<lparr>us_pending := True, us_phase := tx_phase (the t),
               us_message := (if tx_error (the t) \<noteq> [] then tx_error (the t) else us_message s)\<rparr> in
         bindP (writeP (\<lambda>w. w\<lparr>uw_memory := s\<rparr>)) (\<lambda>_. recover_running env key (the t)))
      else after_transaction env key version now t s (idle_step env key dir owner version interval now force s))"

definition manager_step :: "'v update_env \<Rightarrow> string \<Rightarrow> string \<Rightarrow> string \<Rightarrow> string \<Rightarrow> int \<Rightarrow> int \<Rightarrow> bool \<Rightarrow> unit update_op" where
  "manager_step env key dir owner version interval now force =
    bindP (readP uw_memory) (\<lambda>s0.
    bindP (attempt load_state) (\<lambda>r. case r of
      Inl e \<Rightarrow> failure env now (s0\<lparr>us_pending := True\<rparr>) e
    | Inr disk \<Rightarrow>
      bindP (if us_phase disk \<noteq> [] then bindP (writeP (\<lambda>w. w\<lparr>uw_memory := disk\<lparr>us_installed := version\<rparr>\<rparr>)) (\<lambda>_. readP uw_memory)
             else retP s0)
        (transaction_step env key dir owner version interval now force)))"

text \<open>The manager a starting service creates.\<close>

definition new_manager :: "'v update_env \<Rightarrow> string \<Rightarrow> unit update_op" where
  "new_manager env version = bindP (attempt load_state) (\<lambda>r.
     writeP (\<lambda>w. w\<lparr>uw_memory := (case r of Inr s \<Rightarrow> s
       | Inl e \<Rightarrow> blank_state\<lparr>us_pending := True, us_phase := ''retrying'', us_message := ue_describe env e\<rparr>)\<lparr>us_installed := version\<rparr>\<rparr>))"

end
