(* ===== verification/Update_Helper.thy ===== *)
theory Update_Helper
  imports Update_Manager
begin

text \<open>
  The helper that replaces the installation (\<open>RunHelper\<close> in \<open>update/managed/native_windows.go\<close>, the tree operations
  of \<open>update/managed/transaction.go\<close>): the previous installation is copied aside, Setup runs, the result is
  verified, and whatever fails after Setup may have started is rolled back, across deaths of the process. What Setup
  leaves when it ends with a code (or is cut off) is the parameter \<open>ue_setup\<close>, arbitrary in the theorems.
\<close>

section \<open>Trees\<close>

text \<open>\<open>RemoveAll\<close> and \<open>CopyTree\<close> act on one tree of the world, given by a reader and a writer.\<close>

definition put_install :: "string \<Rightarrow> string \<Rightarrow> update_world \<Rightarrow> update_world" where
  "put_install n b s = s\<lparr>uw_install := put_file n b (uw_install s)\<rparr>"

definition put_backup :: "string \<Rightarrow> string \<Rightarrow> string \<Rightarrow> update_world \<Rightarrow> update_world" where
  "put_backup d n b s = set_stage d ((stage_at d s)\<lparr>sg_backup := put_file n b (sg_backup (stage_at d s))\<rparr>) s"

definition drop_install :: "nat \<Rightarrow> update_world \<Rightarrow> update_world" where
  "drop_install k s = s\<lparr>uw_install := drop k (uw_install s)\<rparr>"

definition drop_backup :: "string \<Rightarrow> nat \<Rightarrow> update_world \<Rightarrow> update_world" where
  "drop_backup d k s = set_stage d ((stage_at d s)\<lparr>sg_backup := drop k (sg_backup (stage_at d s))\<rparr>) s"

definition remove_install :: "unit update_op" where
  "remove_install = sys_call (\<lambda>s. s\<lparr>uw_install := []\<rparr>) drop_install (\<lambda>k _. drop_install k)"

definition remove_backup :: "string \<Rightarrow> unit update_op" where
  "remove_backup d = sys_call (\<lambda>s. set_stage d ((stage_at d s)\<lparr>sg_backup := []\<rparr>) s) (drop_backup d) (\<lambda>k _. drop_backup d k)"

definition copy_tree :: "file_tree \<Rightarrow> (string \<Rightarrow> string \<Rightarrow> update_world \<Rightarrow> update_world) \<Rightarrow> unit update_op" where
  "copy_tree source put = bindP touch (\<lambda>_. forP source (\<lambda>(n, b). copy_file put n b))"

text \<open>Each tree is verified or listed from its files; the calls that read them may fail.\<close>

definition list_files :: "'v update_env \<Rightarrow> (update_world \<Rightarrow> file_tree) \<Rightarrow> update_file list update_op" where
  "list_files env tree = bindP touch (\<lambda>_ s. (installation_files env (tree s), s))"

definition check_tree :: "'v update_env \<Rightarrow> (update_world \<Rightarrow> file_tree) \<Rightarrow> update_file list \<Rightarrow> unit update_op" where
  "check_tree env tree fs = bindP touch (\<lambda>_ s. (verify_installation env (tree s) fs, s))"

definition backup_of :: "string \<Rightarrow> update_world \<Rightarrow> file_tree" where
  "backup_of d s = sg_backup (stage_at d s)"

definition restore_tree :: "'v update_env \<Rightarrow> string \<Rightarrow> update_file list \<Rightarrow> unit update_op" where
  "restore_tree env d fs =
    bindP (check_tree env (backup_of d) fs) (\<lambda>_. bindP touch (\<lambda>_. bindP remove_install (\<lambda>_.
    bindP (readP (backup_of d)) (\<lambda>tree. bindP (copy_tree tree put_install) (\<lambda>_.
    check_tree env uw_install fs)))))"

section \<open>Recovery\<close>

text \<open>\<open>health\<close>: the service answers with the expected version before its deadline.\<close>

definition trim_v :: "string \<Rightarrow> string" where
  "trim_v s = (if has_prefix s ''v'' then drop 1 s else s)"

definition health :: "'v update_env \<Rightarrow> string \<Rightarrow> unit update_op" where
  "health env version = bindP touch (\<lambda>_. bindP (readP uw_install) (\<lambda>tree.
     if trim_v (ue_service env tree) = trim_v version then retP () else failP UeHealth))"

text \<open>After the tree, its access rights are set, the service is deleted when it can be opened and installed anew.\<close>

definition rollback :: "'v update_env \<Rightarrow> transaction \<Rightarrow> string \<Rightarrow> unit update_op" where
  "rollback env t d =
    (if tx_backup_files t = [] then failP UeSnapshot
     else bindP touch (\<lambda>_. bindP touch (\<lambda>_.
       bindP (restore_tree env d (tx_backup_files t)) (\<lambda>_.
       bindP touch (\<lambda>_. bindP touch (\<lambda>_. bindP touch (\<lambda>_. bindP touch (\<lambda>_.
         health env (tx_previous t)))))))))"

definition finish_recovery :: "'v update_env \<Rightarrow> transaction \<Rightarrow> unit update_op" where
  "finish_recovery env t =
    bindP load_state (\<lambda>s. bindP now_op (\<lambda>n.
    let cause = (if tx_error t = [] then ''An interrupted update was recovered.'' else tx_error t) in
    bindP (save_state (fail_state env (UeText cause) n (s\<lparr>us_pending := True\<rparr>))) (\<lambda>_.
    bindP (save_transaction (t\<lparr>tx_phase := ''retrying'', tx_pid := 0\<rparr>)) (\<lambda>_.
    bindP (attempt touch) (\<lambda>_. retP ())))))"

text \<open>Between two attempts the helper waits; the wait ends early when its context is cancelled. The fuel counts the
  attempts that are observed: a helper that has not succeeded by then is still waiting.\<close>

definition note_failure :: "'v update_env \<Rightarrow> int \<Rightarrow> update_error \<Rightarrow> unit update_op" where
  "note_failure env n e = bindP (attempt load_state) (\<lambda>r. case r of Inl _ \<Rightarrow> retP ()
     | Inr s \<Rightarrow> bindP now_op (\<lambda>now. bindP now_op (\<lambda>later.
         bindP (attempt (save_state ((fail_state env e now (s\<lparr>us_pending := True\<rparr>))\<lparr>us_phase := ''recovering'',
           us_next_retry := Some (later + retry_delay env n)\<rparr>))) (\<lambda>_. retP ()))))"

fun recover_loop :: "'v update_env \<Rightarrow> nat \<Rightarrow> int \<Rightarrow> transaction \<Rightarrow> string \<Rightarrow> unit update_op" where
  "recover_loop env 0 n t d = failP UeStopped"
| "recover_loop env (Suc fuel) n t d =
    bindP (attempt (rollback env t d)) (\<lambda>r. case r of
      Inr _ \<Rightarrow> finish_recovery env t
    | Inl e \<Rightarrow> (let t = t\<lparr>tx_error := ue_describe env e\<rparr> in
        bindP (attempt (save_transaction t)) (\<lambda>_.
        bindP (note_failure env n e) (\<lambda>_.
        bindP (attempt touch) (\<lambda>w. case w of Inl _ \<Rightarrow> failP UeStopped
          | Inr _ \<Rightarrow> recover_loop env fuel (n + 1) t d)))))"

definition recover_installation :: "'v update_env \<Rightarrow> nat \<Rightarrow> transaction \<Rightarrow> string \<Rightarrow> unit update_op" where
  "recover_installation env fuel t d =
    bindP (readP uw_pid) (\<lambda>pid. let t = t\<lparr>tx_phase := ''recovering'', tx_pid := pid\<rparr> in
    bindP (attempt (save_transaction t)) (\<lambda>_. recover_loop env fuel 1 t d))"

definition recover_after_error :: "'v update_env \<Rightarrow> nat \<Rightarrow> transaction \<Rightarrow> string \<Rightarrow> update_error \<Rightarrow> unit update_op" where
  "recover_after_error env fuel t d cause =
    (let t = t\<lparr>tx_error := ue_describe env cause, tx_phase := ''recovering''\<rparr> in
     bindP (save_transaction t) (\<lambda>_. recover_installation env fuel t d))"

definition or_recover :: "'v update_env \<Rightarrow> nat \<Rightarrow> transaction \<Rightarrow> string \<Rightarrow> 'a update_op \<Rightarrow> ('a \<Rightarrow> unit update_op) \<Rightarrow> unit update_op" where
  "or_recover env fuel t d m f = bindP (attempt m) (\<lambda>r. case r of Inl e \<Rightarrow> recover_after_error env fuel t d e | Inr x \<Rightarrow> f x)"

section \<open>The run of the helper\<close>

definition complete_installation :: "'v update_env \<Rightarrow> transaction \<Rightarrow> manifest \<Rightarrow> unit update_op" where
  "complete_installation env t m =
    bindP (save_transaction (t\<lparr>tx_phase := ''completed'', tx_pid := 0\<rparr>)) (\<lambda>_.
    bindP (clear_completed env (mf_version m)) (\<lambda>_.
    bindP (attempt touch) (\<lambda>_. bindP (attempt touch) (\<lambda>_. retP ()))))"

text \<open>Setup, run from the staged file: what it has done when it ends or is cut off, and its exit code.\<close>

definition run_setup :: "'v update_env \<Rightarrow> string \<Rightarrow> unit update_op" where
  "run_setup env bytes = (\<lambda>s. case next_call s of
      (Works, s) \<Rightarrow> (Inr (), s\<lparr>uw_install := ue_setup env 0 bytes (uw_install s)\<rparr>)
    | (Fails k, s) \<Rightarrow> (Inl (UeExit k), s\<lparr>uw_install := ue_setup env k bytes (uw_install s)\<rparr>)
    | (Dies k x, s) \<Rightarrow> (Inl UeDied, s\<lparr>uw_install := ue_setup env k bytes (uw_install s)\<rparr>))"

definition identify :: "'v update_env \<Rightarrow> transaction \<Rightarrow> manifest update_op" where
  "identify env t =
    bindP (check_identity (tx_install_dir t) (tx_owner t)) (\<lambda>_.
    bindP (liftP (public_key env)) (\<lambda>key.
    liftP (verify_manifest env (cd_data (tx_candidate t)) (cd_signature (tx_candidate t)) key)))"

text \<open>Before anything of the installation changes: the installer is verified, space found, the trays stopped and the
  installation copied. A fresh copy replaces what an earlier run may have left.\<close>

definition snapshot :: "'v update_env \<Rightarrow> manifest \<Rightarrow> update_file list update_op" where
  "snapshot env m = (let d = stage_dir m in
    bindP (verify_staged env d (mf_installer m)) (\<lambda>_.
    bindP (list_files env uw_install) (\<lambda>_.
    bindP touch (\<lambda>_. bindP touch (\<lambda>_. bindP touch (\<lambda>_.
    bindP (remove_backup d) (\<lambda>_.
    bindP (readP uw_install) (\<lambda>tree.
    bindP (copy_tree tree (put_backup d)) (\<lambda>_.
    list_files env (backup_of d))))))))))"

definition set_up :: "'v update_env \<Rightarrow> nat \<Rightarrow> transaction \<Rightarrow> manifest \<Rightarrow> unit update_op" where
  "set_up env fuel t m = (let d = stage_dir m in
    bindP (save_transaction t) (\<lambda>_.
    or_recover env fuel t d touch (\<lambda>_.
    or_recover env fuel t d touch (\<lambda>_.
    bindP (readP (\<lambda>s. map_of (sg_files (stage_at d s)) (uf_name (mf_installer m)))) (\<lambda>bytes.
    bindP (attempt (case bytes of None \<Rightarrow> failP UeSystem | Some b \<Rightarrow> run_setup env b)) (\<lambda>r. case r of
      Inl e \<Rightarrow> if e = UeExit 3010
        then bindP (readP uw_boot) (\<lambda>boot. save_transaction (t\<lparr>tx_phase := ''restart-required'', tx_pid := 0, tx_boot := boot\<rparr>))
        else recover_after_error env fuel t d e
    | Inr _ \<Rightarrow> (let t = t\<lparr>tx_phase := ''verifying''\<rparr> in
        bindP (save_transaction t) (\<lambda>_.
        or_recover env fuel t d (check_tree env uw_install (mf_files m)) (\<lambda>_.
        or_recover env fuel t d touch (\<lambda>_.
        or_recover env fuel t d (health env (mf_version m)) (\<lambda>_.
        complete_installation env t m)))))))))))"

text \<open>A transaction that is still prepared has changed nothing: its failure goes through the bounded retries.\<close>

definition prepared_failure :: "'v update_env \<Rightarrow> transaction \<Rightarrow> update_error \<Rightarrow> unit update_op" where
  "prepared_failure env t e =
    bindP (attempt load_state) (\<lambda>r.
    bindP (case r of Inl _ \<Rightarrow> retP () | Inr s \<Rightarrow> bindP now_op (\<lambda>n.
      bindP (attempt (save_state (fail_state env e n (s\<lparr>us_pending := True\<rparr>)))) (\<lambda>_. retP ()))) (\<lambda>_.
    bindP (attempt (save_transaction (t\<lparr>tx_phase := ''retrying'', tx_pid := 0, tx_error := ue_describe env e\<rparr>))) (\<lambda>_.
    failP e)))"

definition or_prepared :: "'v update_env \<Rightarrow> transaction \<Rightarrow> 'a update_op \<Rightarrow> ('a \<Rightarrow> unit update_op) \<Rightarrow> unit update_op" where
  "or_prepared env t m f = bindP (attempt m) (\<lambda>r. case r of Inl e \<Rightarrow> prepared_failure env t e | Inr x \<Rightarrow> f x)"

text \<open>After the restart that Setup asked for: the machine has booted anew when its boot time moved by ten seconds.\<close>

definition after_restart :: "'v update_env \<Rightarrow> nat \<Rightarrow> transaction \<Rightarrow> manifest \<Rightarrow> unit update_op" where
  "after_restart env fuel t m = bindP (readP uw_boot) (\<lambda>boot.
    if \<bar>boot - tx_boot t\<bar> < 10 then retP ()
    else or_recover env fuel t (stage_dir m)
      (bindP (check_tree env uw_install (mf_files m)) (\<lambda>_. bindP touch (\<lambda>_. health env (mf_version m))))
      (\<lambda>_. complete_installation env t m))"

definition helper_started :: "transaction \<Rightarrow> transaction update_op" where
  "helper_started t = bindP (readP uw_pid) (\<lambda>pid. bindP now_op (\<lambda>n. retP (t\<lparr>tx_pid := pid, tx_started := n\<rparr>)))"

definition run_transaction :: "'v update_env \<Rightarrow> nat \<Rightarrow> transaction \<Rightarrow> unit update_op" where
  "run_transaction env fuel t =
    (if tx_phase t = ''prepared'' then
      or_prepared env t (identify env t) (\<lambda>m. bindP (helper_started t) (\<lambda>t.
        or_prepared env t (snapshot env m) (\<lambda>fs.
          set_up env fuel (t\<lparr>tx_backup_files := fs, tx_phase := ''installing''\<rparr>) m)))
     else bindP (identify env t) (\<lambda>m. bindP (helper_started t) (\<lambda>t.
       if tx_phase t = ''restart-required'' then after_restart env fuel t m
       else recover_installation env fuel t (stage_dir m))))"

definition run_helper :: "'v update_env \<Rightarrow> nat \<Rightarrow> unit update_op" where
  "run_helper env fuel =
    bindP touch (\<lambda>_. bindP touch (\<lambda>_.
    bindP load_transaction (\<lambda>t. case t of
      None \<Rightarrow> retP ()
    | Some t \<Rightarrow> if transaction_active (Some t) then run_transaction env fuel t else retP ())))"

end
