(* ===== verification/Update_Rules.thy ===== *)
theory Update_Rules
  imports Update_Helper
begin

text \<open>
  Hoare triples for the procedures of the updater, composed by rule. A call that fails or dies may have had a part of
  its effect, so a triple speaks of the result and the state together; \<open>steady\<close> says that a predicate does not look at
  the outcomes and times still to come. The last section proves that restoring a copied tree gives the tree.
\<close>

definition triple :: "('s \<Rightarrow> bool) \<Rightarrow> ('s, 'e, 'a) procedure \<Rightarrow> ('e + 'a \<Rightarrow> 's \<Rightarrow> bool) \<Rightarrow> bool" where
  "triple P m Q \<longleftrightarrow> (\<forall>s. P s \<longrightarrow> Q (fst (m s)) (snd (m s)))"

definition steady :: "(update_world \<Rightarrow> bool) \<Rightarrow> bool" where
  "steady P \<longleftrightarrow> (\<forall>s ps. P s \<longrightarrow> P (s\<lparr>uw_plan := ps\<rparr>)) \<and> (\<forall>s cs. P s \<longrightarrow> P (s\<lparr>uw_clock := cs\<rparr>))"

section \<open>Rules\<close>

lemma tripleI: "(\<And>s r t. P s \<Longrightarrow> m s = (r, t) \<Longrightarrow> Q r t) \<Longrightarrow> triple P m Q"
  by (simp add: triple_def)

lemma tripleD: "triple P m Q \<Longrightarrow> P s \<Longrightarrow> m s = (r, t) \<Longrightarrow> Q r t"
  by (force simp: triple_def)

lemma triple_weaken: "triple P m Q \<Longrightarrow> (\<And>s. P' s \<Longrightarrow> P s) \<Longrightarrow> (\<And>r s. Q r s \<Longrightarrow> Q' r s) \<Longrightarrow> triple P' m Q'"
  by (simp add: triple_def)

lemma triple_pre: "triple P m Q \<Longrightarrow> (\<And>s. P' s \<Longrightarrow> P s) \<Longrightarrow> triple P' m Q"
  by (simp add: triple_def)

lemma triple_conj: "triple P m Q \<Longrightarrow> triple P' m Q' \<Longrightarrow> triple (\<lambda>s. P s \<and> P' s) m (\<lambda>r s. Q r s \<and> Q' r s)"
  by (simp add: triple_def)

lemma triple_bind:
  assumes "triple P m (\<lambda>r s. case r of Inl e \<Rightarrow> Q (Inl e) s | Inr x \<Rightarrow> M x s)" and "\<And>x. triple (M x) (f x) Q"
  shows "triple P (bindP m f) Q"
proof (rule tripleI)
  fix s r t
  assume "P s" and run: "bindP m f s = (r, t)"
  from run show "Q r t"
    by (cases rule: bindP_cases) (use tripleD[OF assms(1) \<open>P s\<close>] tripleD[OF assms(2)] in \<open>fastforce+\<close>)
qed

lemma triple_attempt:
  "triple P m (\<lambda>r s. if r = Inl UeDied then Q (Inl UeDied) s else Q (Inr r) s) \<Longrightarrow> triple P (attempt m) Q"
  by (rule tripleI) (force simp: attempt_def triple_def split: prod.splits if_splits)

lemma triple_ret: "(\<And>s. P s \<Longrightarrow> Q (Inr x) s) \<Longrightarrow> triple P (retP x) Q"
  by (simp add: triple_def retP_def)

lemma triple_fail: "(\<And>s. P s \<Longrightarrow> Q (Inl e) s) \<Longrightarrow> triple P (failP e) Q"
  by (simp add: triple_def failP_def)

lemma triple_read: "(\<And>s. P s \<Longrightarrow> Q (Inr (f s)) s) \<Longrightarrow> triple P (readP f) Q"
  by (simp add: triple_def readP_def)

lemma triple_lift: "(\<And>s. P s \<Longrightarrow> Q x s) \<Longrightarrow> triple P (liftP x) Q"
  by (simp add: triple_def liftP_def)

lemma triple_sys:
  assumes "steady P" and "\<And>s. P s \<Longrightarrow> Q (Inr ()) (f s)" and "\<And>k s. P s \<Longrightarrow> Q (Inl UeSystem) (p k s)"
    and "\<And>k x s. P s \<Longrightarrow> Q (Inl UeDied) (q k x s)"
  shows "triple P (sys_call f p q) Q"
  using assms unfolding triple_def sys_call_def next_call_def steady_def
  by (auto split: list.splits outcome.splits)

lemma steadyD: "steady P \<Longrightarrow> P s \<Longrightarrow> P (s\<lparr>uw_plan := ps\<rparr>)" "steady P \<Longrightarrow> P s \<Longrightarrow> P (s\<lparr>uw_clock := cs\<rparr>)"
  by (simp_all add: steady_def)

lemma steady_and: "steady P \<Longrightarrow> steady Q \<Longrightarrow> steady (\<lambda>s. P s \<and> Q s)"
  by (simp add: steady_def)

lemma steady_or: "steady P \<Longrightarrow> steady Q \<Longrightarrow> steady (\<lambda>s. P s \<or> Q s)"
  by (auto simp: steady_def)

text \<open>Whatever a call does to the parts a predicate does not look at.\<close>

lemma kept_sys: "steady P \<Longrightarrow> (\<And>s. P s \<Longrightarrow> P (f s)) \<Longrightarrow> (\<And>k s. P s \<Longrightarrow> P (p k s)) \<Longrightarrow> (\<And>k x s. P s \<Longrightarrow> P (q k x s)) \<Longrightarrow>
    keeps P (sys_call f p q)"
  by (auto simp: keeps_def sys_call_def next_call_def steady_def split: list.splits outcome.splits)

lemma keeps_triple: "keeps P m \<Longrightarrow> triple P m (\<lambda>r s. P s)"
  by (simp add: keeps_def triple_def)

lemma keeps_attempt [keeps_intros]: "keeps P m \<Longrightarrow> keeps P (attempt m)"
  by (simp add: keeps_def attempt_def split: prod.splits) (metis snd_conv)

lemma keeps_touch: "steady P \<Longrightarrow> keeps P touch"
  unfolding touch_def by (rule kept_sys) auto

lemma keeps_now: "steady P \<Longrightarrow> keeps P now_op"
  by (auto simp: keeps_def now_op_def steady_def split: list.splits)

lemma keeps_pure: "keeps P (\<lambda>s. (g s, s))"
  by (simp add: keeps_def)

lemma keeps_read_saved: "steady P \<Longrightarrow> keeps P (read_saved f)"
  unfolding read_saved_def by (intro keeps_bind keeps_touch) (auto simp: keeps_def split: saved.splits)

lemma keeps_load_state: "steady P \<Longrightarrow> keeps P load_state"
  unfolding load_state_def by (intro keeps_bind keeps_read_saved keeps_ret)

lemma keeps_list_files: "steady P \<Longrightarrow> keeps P (list_files env g)"
  unfolding list_files_def by (intro keeps_bind keeps_touch) (auto simp: keeps_def)

lemma keeps_check_tree: "steady P \<Longrightarrow> keeps P (check_tree env g fs)"
  unfolding check_tree_def by (intro keeps_bind keeps_touch) (auto simp: keeps_def)

lemma keeps_verify_staged: "steady P \<Longrightarrow> keeps P (verify_staged env d f)"
  unfolding verify_staged_def by (intro keeps_bind keeps_touch) (auto simp: keeps_def)

lemma keeps_health: "steady P \<Longrightarrow> keeps P (health env v)"
  unfolding health_def by (intro keeps_intros keeps_touch)

lemma keeps_identity: "steady P \<Longrightarrow> keeps P (check_identity dir owner)"
  unfolding check_identity_def by (intro keeps_bind keeps_read_saved) (auto intro: keeps_intros split: option.splits)

lemma keeps_identify: "steady P \<Longrightarrow> keeps P (identify env t)"
  unfolding identify_def by (intro keeps_intros keeps_identity)

lemmas steady_keeps = keeps_touch keeps_now keeps_pure keeps_read_saved keeps_load_state keeps_list_files
  keeps_check_tree keeps_verify_staged keeps_health keeps_identity keeps_identify


lemma triple_then:
  "keeps P m \<Longrightarrow> (\<And>e s. P s \<Longrightarrow> Q (Inl e) s) \<Longrightarrow> (\<And>x. triple P (f x) Q) \<Longrightarrow> triple P (bindP m f) Q"
  by (rule triple_bind[where M="\<lambda>_. P", OF triple_weaken[OF keeps_triple[of P]]]) (auto split: sum.splits)

lemma triple_bind_read:
  assumes "\<And>x. triple (\<lambda>s. P s \<and> g s = x) (f x) Q"
  shows "triple P (bindP (readP g) f) Q"
  using assms by (simp add: triple_def bindP_def readP_def)

lemma triple_bind_lift:
  assumes "\<And>e s. v = Inl e \<Longrightarrow> P s \<Longrightarrow> Q (Inl e) s" and "\<And>x. v = Inr x \<Longrightarrow> triple P (f x) Q"
  shows "triple P (bindP (liftP v) f) Q"
  using assms by (cases v) (auto simp: triple_def bindP_def liftP_def)

lemma keeps_replies: "keeps P m \<Longrightarrow> (\<And>r s. P s \<Longrightarrow> Q r s) \<Longrightarrow> triple P m Q"
  by (simp add: triple_def keeps_def)

section \<open>Trees\<close>

lemma map_of_upsert: "map_of (upsert fst (\<lambda>_. (d, g)) (d, g) xs) = (map_of xs)(d \<mapsto> g)"
  by (induction xs) auto

lemma put_file_fresh: "n \<notin> fst ` set tree \<Longrightarrow> put_file n b tree = tree @ [(n, b)]"
  unfolding put_file_def by (induction tree) auto

lemma stage_at_set: "stage_at d' (set_stage d g s) = (if d' = d then g else stage_at d' s)"
  by (simp add: stage_at_def set_stage_def map_of_upsert)

text \<open>Copying files into an empty tree leaves exactly those files, whatever else the calls may do.\<close>

lemma copies:
  assumes H: "steady H" "\<And>n b s. H s \<Longrightarrow> H (put n b s)"
    and get: "\<And>n b s. get (put n b s) = put_file n b (get s)" "\<And>ps s. get (s\<lparr>uw_plan := ps\<rparr>) = get s"
      "\<And>cs s. get (s\<lparr>uw_clock := cs\<rparr>) = get s"
  shows "distinct (map fst (acc @ src)) \<Longrightarrow> triple (\<lambda>s. H s \<and> get s = acc) (forP src (\<lambda>(n, b). copy_file put n b))
    (\<lambda>r s. H s \<and> (r = Inr () \<longrightarrow> get s = acc @ src))"
proof (induction src arbitrary: acc)
  case Nil
  then show ?case by (auto intro!: triple_ret)
next
  case (Cons f src)
  obtain n b where f: "f = (n, b)" by force
  have st: "steady (\<lambda>s. H s \<and> get s = acc)" using H(1) get(2,3) by (simp add: steady_def)
  have fresh: "put_file n b acc = acc @ [f]"
    using Cons.prems f by (intro put_file_fresh[THEN trans]) auto
  have copy: "triple (\<lambda>s. H s \<and> get s = acc) (copy_file put n b) (\<lambda>r s. H s \<and> (r = Inr () \<longrightarrow> get s = acc @ [f]))"
    unfolding copy_file_def using H(2) get(1) fresh by (intro triple_sys[OF st]) auto
  have rest: "triple (\<lambda>s. H s \<and> get s = acc @ [f]) (forP src (\<lambda>(n, b). copy_file put n b))
      (\<lambda>r s. H s \<and> (r = Inr () \<longrightarrow> get s = acc @ f # src))"
    using Cons.IH[of "acc @ [f]"] Cons.prems by simp
  show ?case
    unfolding forP.simps f prod.case
    by (rule triple_bind[OF triple_weaken[OF copy] rest[unfolded f]]) (auto simp: f split: sum.splits)
qed

lemma copy_tree_copies:
  assumes H: "steady H" "\<And>n b s. H s \<Longrightarrow> H (put n b s)"
    and get: "\<And>n b s. get (put n b s) = put_file n b (get s)" "\<And>ps s. get (s\<lparr>uw_plan := ps\<rparr>) = get s"
      "\<And>cs s. get (s\<lparr>uw_clock := cs\<rparr>) = get s"
    and "distinct (map fst src)"
  shows "triple (\<lambda>s. H s \<and> get s = []) (copy_tree src put) (\<lambda>r s. H s \<and> (r = Inr () \<longrightarrow> get s = src))"
proof -
  have st: "steady (\<lambda>s. H s \<and> get s = [])" using H(1) get(2,3) by (simp add: steady_def)
  show ?thesis
    unfolding copy_tree_def
    by (rule triple_bind[OF triple_weaken[OF keeps_triple[OF keeps_touch[OF st]]]
          copies[OF H get, of "[]" src, simplified]]) (use assms(6) in \<open>auto split: sum.splits\<close>)
qed

text \<open>The parts of the world the two trees live in.\<close>

definition held :: "transaction saved \<Rightarrow> string \<Rightarrow> file_tree \<Rightarrow> update_world \<Rightarrow> bool" where
  "held X d tree s \<longleftrightarrow> uw_transaction s = X \<and> backup_of d s = tree"

definition standing :: "transaction saved \<Rightarrow> file_tree \<Rightarrow> update_world \<Rightarrow> bool" where
  "standing X tree s \<longleftrightarrow> uw_transaction s = X \<and> uw_install s = tree"

lemma stage_at_other [simp]: "stage_at d (s\<lparr>uw_plan := ps\<rparr>) = stage_at d s" "stage_at d (s\<lparr>uw_clock := cs\<rparr>) = stage_at d s"
  "stage_at d (s\<lparr>uw_state := x\<rparr>) = stage_at d s" "stage_at d (s\<lparr>uw_install := f\<rparr>) = stage_at d s"
  "stage_at d (s\<lparr>uw_transaction := t\<rparr>) = stage_at d s" "stage_at d (s\<lparr>uw_memory := u\<rparr>) = stage_at d s"
  by (simp_all add: stage_at_def)

lemma steady_held: "steady (held X d tree)" and steady_standing: "steady (standing X tree)"
  by (simp_all add: steady_def held_def standing_def backup_of_def)

text \<open>The restored installation is the one that was copied; nothing but the installation changes on the way.\<close>

lemma held_put: "held X d tree s \<Longrightarrow> held X d tree (put_install n b s)"
  by (simp add: held_def put_install_def backup_of_def)

lemma remove_install_held:
  "triple (held X d tree) remove_install (\<lambda>r s. held X d tree s \<and> (r = Inr () \<longrightarrow> uw_install s = []))"
  unfolding remove_install_def
  by (rule triple_sys[OF steady_held]) (auto simp: held_def backup_of_def drop_install_def)

lemma copy_back:
  "distinct (map fst src) \<Longrightarrow> triple (\<lambda>s. held X d tree s \<and> uw_install s = []) (copy_tree src put_install)
    (\<lambda>r s. held X d tree s \<and> (r = Inr () \<longrightarrow> uw_install s = src))"
  by (rule copy_tree_copies[OF steady_held held_put]) (auto simp: put_install_def)

lemma restore_tree_restores:
  assumes "distinct (map fst tree)"
  shows "triple (held X d tree) (restore_tree env d fs) (\<lambda>r s. held X d tree s \<and> (r = Inr () \<longrightarrow> uw_install s = tree))"
proof -
  let ?Q = "\<lambda>r s. held X d tree s \<and> (r = Inr () \<longrightarrow> uw_install s = tree)"
  have st: "steady (\<lambda>s. held X d tree s \<and> uw_install s = t)" for t
    using steady_held by (simp add: steady_def)
  have verify: "triple (\<lambda>s. held X d tree s \<and> uw_install s = tree) (check_tree env uw_install fs) ?Q"
    by (rule keeps_replies[OF keeps_check_tree[OF st]]) simp
  have copy: "triple (\<lambda>s. (held X d tree s \<and> uw_install s = []) \<and> backup_of d s = src)
      (bindP (copy_tree src put_install) (\<lambda>_. check_tree env uw_install fs)) ?Q" for src
  proof (cases "src = tree")
    case True
    show ?thesis
      unfolding True
      by (rule triple_bind[OF triple_weaken[OF copy_back[OF assms]] verify]) (auto split: sum.splits)
  next
    case False
    then show ?thesis by (auto simp: triple_def held_def)
  qed
  show ?thesis
    unfolding restore_tree_def
    by (intro triple_then[OF keeps_check_tree[OF steady_held]] triple_then[OF keeps_touch[OF steady_held]]
        triple_bind[OF triple_weaken[OF remove_install_held] triple_bind_read[OF copy]])
      (auto split: sum.splits)
qed

end
