(* ===== verification/Update_Helper_Claims.thy ===== *)
theory Update_Helper_Claims
  imports Update_Rules
begin

text \<open>
  What the installation survives: over any sequence of runs of the helper, each with any failures and cut off
  anywhere, the previous installation is in place or its copy is, until the new one has been verified.
\<close>

section \<open>The states of a transaction\<close>

definition under_way :: "candidate \<Rightarrow> string \<Rightarrow> file_tree \<Rightarrow> update_world \<Rightarrow> bool" where
  "under_way c d tree s \<longleftrightarrow> (\<exists>t. uw_transaction s = Saved t \<and> tx_candidate t = c \<and>
     tx_phase t \<in> {''installing'', ''verifying'', ''recovering'', ''restart-required''} \<and> backup_of d s = tree)"

definition prepared :: "candidate \<Rightarrow> file_tree \<Rightarrow> update_world \<Rightarrow> bool" where
  "prepared c tree s \<longleftrightarrow> (\<exists>t. uw_transaction s = Saved t \<and> tx_candidate t = c \<and> tx_phase t = ''prepared'' \<and> uw_install s = tree)"

definition given_up :: "candidate \<Rightarrow> file_tree \<Rightarrow> update_world \<Rightarrow> bool" where
  "given_up c tree s \<longleftrightarrow> (\<exists>t. uw_transaction s = Saved t \<and> tx_candidate t = c \<and> tx_phase t = ''retrying'' \<and> uw_install s = tree)"

definition committed :: "'v update_env \<Rightarrow> candidate \<Rightarrow> update_file list \<Rightarrow> update_world \<Rightarrow> bool" where
  "committed env c fs s \<longleftrightarrow> (\<exists>t. uw_transaction s = Saved t \<and> tx_candidate t = c \<and> tx_phase t = ''completed'' \<and>
     verify_installation env (uw_install s) fs = Inr ())"

definition guarded :: "'v update_env \<Rightarrow> candidate \<Rightarrow> manifest \<Rightarrow> file_tree \<Rightarrow> update_world \<Rightarrow> bool" where
  "guarded env c m tree s \<longleftrightarrow> prepared c tree s \<or> given_up c tree s \<or> under_way c (stage_dir m) tree s \<or> committed env c (mf_files m) s"

lemmas phase_defs = under_way_def prepared_def given_up_def committed_def

lemma steady_phases: "steady (under_way c d tree)" "steady (prepared c tree)" "steady (given_up c tree)"
  "steady (committed env c fs)"
  by (simp_all add: steady_def phase_defs backup_of_def)

lemma steady_guarded: "steady (guarded env c m tree)"
  unfolding guarded_def by (intro steady_or steady_phases)

lemma guardedI:
  "prepared c tree s \<Longrightarrow> guarded env c m tree s" "given_up c tree s \<Longrightarrow> guarded env c m tree s"
  "under_way c (stage_dir m) tree s \<Longrightarrow> guarded env c m tree s" "committed env c (mf_files m) s \<Longrightarrow> guarded env c m tree s"
  by (simp_all add: guarded_def)

text \<open>Writes to the state file change none of them.\<close>

definition aside :: "(update_world \<Rightarrow> bool) \<Rightarrow> bool" where
  "aside P \<longleftrightarrow> steady P \<and> (\<forall>s x. P s \<longrightarrow> P (s\<lparr>uw_state := x\<rparr>))"

lemma aside_steady: "aside P \<Longrightarrow> steady P"
  by (simp add: aside_def)

lemma aside_phases: "aside (under_way c d tree)" "aside (prepared c tree)" "aside (given_up c tree)"
  "aside (committed env c fs)"
  using steady_phases by (auto simp: aside_def phase_defs backup_of_def)

lemma keeps_save_state: "aside P \<Longrightarrow> keeps P (save_state x)"
  unfolding save_state_def replace_file_def by (intro kept_sys) (auto simp: aside_def)

lemma aside_and_install: "aside P \<Longrightarrow> aside (\<lambda>s. P s \<and> R (uw_install s))"
  by (simp add: aside_def steady_def)

section \<open>Steps that save the transaction\<close>

definition in_progress :: "candidate \<Rightarrow> transaction \<Rightarrow> bool" where
  "in_progress c t \<longleftrightarrow> tx_candidate t = c \<and> tx_phase t \<in> {''installing'', ''verifying'', ''recovering'', ''restart-required''}"

lemma in_progress_simps [simp]:
  "in_progress c (t\<lparr>tx_error := e\<rparr>) = in_progress c t" "in_progress c (t\<lparr>tx_pid := p\<rparr>) = in_progress c t"
  "in_progress c (t\<lparr>tx_boot := b\<rparr>) = in_progress c t" "in_progress c (t\<lparr>tx_backup_files := fs\<rparr>) = in_progress c t"
  by (simp_all add: in_progress_def)

lemma save_transaction_triple:
  assumes "steady P" and "\<And>s. P s \<Longrightarrow> Q (Inr ()) (s\<lparr>uw_transaction := Saved t\<rparr>)" and "\<And>e s. P s \<Longrightarrow> Q (Inl e) s"
    and "\<And>s. P s \<Longrightarrow> Q (Inl UeDied) (s\<lparr>uw_transaction := Saved t\<rparr>)"
  shows "triple P (save_transaction t) Q"
  unfolding save_transaction_def replace_file_def by (rule triple_sys[OF assms(1)]) (auto simp: assms)

lemma save_under_way: "in_progress c t \<Longrightarrow> keeps (under_way c d tree) (save_transaction t)"
  unfolding save_transaction_def replace_file_def
  by (rule kept_sys[OF steady_phases(1)]) (auto simp: under_way_def in_progress_def backup_of_def)

section \<open>Recovery\<close>

lemma rollback_restores:
  assumes "distinct (map fst tree)"
  shows "triple (held X d tree) (rollback env t d) (\<lambda>r s. held X d tree s \<and> (r = Inr () \<longrightarrow> uw_install s = tree))"
proof -
  let ?Q = "\<lambda>r s. held X d tree s \<and> (r = Inr () \<longrightarrow> uw_install s = tree)"
  have st: "steady (\<lambda>s. held X d tree s \<and> uw_install s = tree)"
    using steady_held by (simp add: steady_def)
  have rest: "triple (\<lambda>s. held X d tree s \<and> uw_install s = tree)
      (bindP touch (\<lambda>_. bindP touch (\<lambda>_. bindP touch (\<lambda>_. bindP touch (\<lambda>_. health env v))))) ?Q" for v
    by (rule keeps_replies) (intro keeps_bind keeps_touch[OF st] keeps_health[OF st], simp)
  show ?thesis
    unfolding rollback_def
    by (auto intro!: triple_fail triple_then[OF keeps_touch[OF steady_held]]
        triple_bind[OF triple_weaken[OF restore_tree_restores[OF assms]] rest] split: sum.splits)
qed

lemma rollback_under_way:
  assumes "distinct (map fst tree)"
  shows "triple (under_way c d tree) (rollback env t d) (\<lambda>r s. under_way c d tree s \<and> (r = Inr () \<longrightarrow> uw_install s = tree))"
proof (rule tripleI)
  fix s r w
  assume "under_way c d tree s" and run: "rollback env t d s = (r, w)"
  then obtain x where x: "held (Saved x) d tree s" "in_progress c x"
    by (auto simp: under_way_def held_def in_progress_def)
  from tripleD[OF rollback_restores[OF assms] x(1) run] x(2)
  show "under_way c d tree w \<and> (r = Inr () \<longrightarrow> uw_install w = tree)"
    by (auto simp: under_way_def held_def in_progress_def)
qed

lemma finish_recovery_safe:
  assumes "tx_candidate t = c"
  shows "triple (\<lambda>s. under_way c (stage_dir m) tree s \<and> uw_install s = tree) (finish_recovery env t) (\<lambda>_. guarded env c m tree)"
    (is "triple ?P _ _")
proof -
  have as: "aside ?P" by (rule aside_and_install[OF aside_phases(1)])
  have save: "triple ?P (save_transaction (t\<lparr>tx_phase := ''retrying'', tx_pid := 0\<rparr>)) (\<lambda>_. guarded env c m tree)"
    by (rule save_transaction_triple[OF aside_steady[OF as]]) (auto simp: guarded_def given_up_def assms)
  have rest: "triple (guarded env c m tree) (bindP (attempt touch) (\<lambda>_. retP ())) (\<lambda>_. guarded env c m tree)"
    by (intro keeps_triple keeps_intros keeps_touch steady_guarded)
  show ?thesis
    unfolding finish_recovery_def Let_def
    by (intro triple_then[OF keeps_load_state[OF aside_steady[OF as]]] triple_then[OF keeps_now[OF aside_steady[OF as]]]
        triple_then[OF keeps_save_state[OF as]] triple_bind[OF triple_weaken[OF save] rest])
      (auto intro: guardedI split: sum.splits)
qed

lemma keeps_note_failure: "aside P \<Longrightarrow> keeps P (note_failure env n e)"
  unfolding note_failure_def
  by (intro keeps_intros keeps_load_state keeps_now keeps_save_state aside_steady) auto

lemma recover_loop_safe:
  assumes "distinct (map fst tree)" and "in_progress c t"
  shows "triple (under_way c (stage_dir m) tree) (recover_loop env fuel n t (stage_dir m)) (\<lambda>_. guarded env c m tree)"
  using assms(2)
proof (induction fuel arbitrary: n t)
  case 0
  then show ?case by (auto intro!: triple_fail guardedI(3))
next
  case (Suc fuel)
  let ?P = "under_way c (stage_dir m) tree" and ?G = "\<lambda>_. guarded env c m tree"
  have cand: "tx_candidate t = c" using Suc.prems by (simp add: in_progress_def)
  have wait: "triple ?P (bindP (attempt touch) (\<lambda>w. case w of Inl _ \<Rightarrow> failP UeStopped
      | Inr _ \<Rightarrow> recover_loop env fuel (n + 1) (t\<lparr>tx_error := x\<rparr>) (stage_dir m))) ?G" for x
    by (rule triple_then[OF keeps_attempt[OF keeps_touch[OF steady_phases(1)]]])
      (auto intro!: Suc.IH triple_fail guardedI(3) simp: Suc.prems split: sum.split)
  have again: "triple ?P (let t = t\<lparr>tx_error := ue_describe env e\<rparr> in bindP (attempt (save_transaction t)) (\<lambda>_.
      bindP (note_failure env n e) (\<lambda>_. bindP (attempt touch) (\<lambda>w. case w of Inl _ \<Rightarrow> failP UeStopped
        | Inr _ \<Rightarrow> recover_loop env fuel (n + 1) t (stage_dir m))))) ?G" for e
    unfolding Let_def
    by (intro triple_then[OF keeps_attempt[OF save_under_way]] triple_then[OF keeps_note_failure[OF aside_phases(1)]] wait)
      (auto intro: guardedI simp: Suc.prems)
  show ?case
    unfolding recover_loop.simps
    by (rule triple_bind[where M="\<lambda>r s. ?P s \<and> (r = Inr () \<longrightarrow> uw_install s = tree)",
          OF triple_attempt[OF triple_weaken[OF rollback_under_way[OF assms(1)]]]])
      (auto intro: guardedI triple_weaken[OF again] triple_weaken[OF finish_recovery_safe[OF cand]] split: sum.split)
qed


lemma recover_installation_safe:
  assumes "distinct (map fst tree)" and "tx_candidate t = c"
  shows "triple (under_way c (stage_dir m) tree) (recover_installation env fuel t (stage_dir m)) (\<lambda>_. guarded env c m tree)"
proof -
  have prog: "in_progress c (t\<lparr>tx_phase := ''recovering'', tx_pid := p\<rparr>)" for p
    using assms(2) by (simp add: in_progress_def)
  show ?thesis
    unfolding recover_installation_def Let_def
    by (intro triple_then[OF keeps_read] triple_then[OF keeps_attempt[OF save_under_way[OF prog]]]
        recover_loop_safe[OF assms(1) prog] guardedI(3))
qed

lemma recover_after_error_safe:
  assumes "distinct (map fst tree)" and "tx_candidate t = c"
  shows "triple (under_way c (stage_dir m) tree) (recover_after_error env fuel t (stage_dir m) e) (\<lambda>_. guarded env c m tree)"
proof -
  have prog: "in_progress c (t\<lparr>tx_error := x, tx_phase := ''recovering''\<rparr>)" for x
    using assms(2) by (simp add: in_progress_def)
  show ?thesis
    unfolding recover_after_error_def Let_def
    by (intro triple_then[OF save_under_way[OF prog]] recover_installation_safe[OF assms(1)] guardedI(3))
      (simp_all add: assms(2))
qed

text \<open>A call whose failure starts the recovery.\<close>

lemma or_recover_safe:
  assumes "distinct (map fst tree)" and "tx_candidate t = c"
    and "triple P m (\<lambda>r s. under_way c (stage_dir mf) tree s \<and> (\<forall>x. r = Inr x \<longrightarrow> M x s))"
    and "\<And>x. triple (M x) (f x) (\<lambda>_. guarded env c mf tree)"
  shows "triple P (or_recover env fuel t (stage_dir mf) m f) (\<lambda>_. guarded env c mf tree)"
  unfolding or_recover_def
  by (rule triple_bind[where M="\<lambda>r s. under_way c (stage_dir mf) tree s \<and> (\<forall>x. r = Inr x \<longrightarrow> M x s)",
        OF triple_attempt[OF triple_weaken[OF assms(3)]]])
    (auto intro: guardedI(3) triple_weaken[OF recover_after_error_safe[OF assms(1,2)]] triple_weaken[OF assms(4)]
      split: sum.split)

section \<open>Completion\<close>

lemma keeps_clear_completed:
  assumes "aside P" and "\<And>s x. P s \<Longrightarrow> P (s\<lparr>uw_stages := x\<rparr>)"
  shows "keeps P (clear_completed env v)"
proof -
  note st = aside_steady[OF assms(1)]
  have rm: "keeps P (remove_stage d)" for d
    unfolding remove_stage_def Let_def by (intro kept_sys st) (auto simp: set_stage_def assms(2))
  show ?thesis
    unfolding clear_completed_def remove_old_stages_def load_transaction_def
    by (intro keeps_intros keeps_load_state keeps_save_state keeps_touch keeps_read_saved rm st assms(1))
qed

lemma complete_installation_safe:
  assumes "tx_candidate t = c"
  shows "triple (\<lambda>s. under_way c (stage_dir m) tree s \<and> verify_installation env (uw_install s) (mf_files m) = Inr ())
    (complete_installation env t m) (\<lambda>_. guarded env c m tree)" (is "triple ?P _ _")
proof -
  have st: "steady ?P" using steady_phases(1) by (simp add: steady_def)
  have save: "triple ?P (save_transaction (t\<lparr>tx_phase := ''completed'', tx_pid := 0\<rparr>))
      (\<lambda>r s. guarded env c m tree s \<and> (r = Inr () \<longrightarrow> committed env c (mf_files m) s))"
    by (rule save_transaction_triple[OF st]) (auto simp: guarded_def committed_def assms)
  have keep: "keeps (committed env c (mf_files m)) (bindP (clear_completed env v) (\<lambda>_.
      bindP (attempt touch) (\<lambda>_. bindP (attempt touch) (\<lambda>_. retP ()))))" for v
    by (intro keeps_intros keeps_touch keeps_clear_completed aside_phases steady_phases) (simp add: committed_def)
  show ?thesis
    unfolding complete_installation_def
    by (rule triple_bind[where M="\<lambda>_. committed env c (mf_files m)", OF triple_weaken[OF save]])
      (auto intro: keeps_replies[OF keep] guardedI split: sum.split)
qed

lemma check_tree_checks:
  "steady P \<Longrightarrow> triple P (check_tree env uw_install fs)
    (\<lambda>r s. P s \<and> (r = Inr () \<longrightarrow> verify_installation env (uw_install s) fs = Inr ()))"
  unfolding check_tree_def
  by (rule triple_bind[where M="\<lambda>_. P", OF triple_weaken[OF keeps_triple[OF keeps_touch[of P]]]])
    (auto simp: triple_def split: sum.split)


section \<open>The fresh run\<close>

lemma keeps_run_setup: "keeps (under_way c d tree) (run_setup env b)"
  by (auto simp: keeps_def run_setup_def next_call_def under_way_def backup_of_def split: list.splits outcome.splits)

lemma prepared_failure_safe:
  assumes "tx_candidate t = c"
  shows "triple (prepared c tree) (prepared_failure env t e) (\<lambda>_. guarded env c m tree)"
proof -
  let ?P = "prepared c tree"
  have state: "keeps ?P (case r of Inl _ \<Rightarrow> retP () | Inr s \<Rightarrow> bindP now_op (\<lambda>n.
      bindP (attempt (save_state (fail_state env e n (s\<lparr>us_pending := True\<rparr>)))) (\<lambda>_. retP ())))" for r
    by (intro keeps_intros keeps_now keeps_save_state aside_phases steady_phases)
  have save: "triple ?P (attempt (save_transaction (t\<lparr>tx_phase := ''retrying'', tx_pid := 0, tx_error := x\<rparr>)))
      (\<lambda>_. guarded env c m tree)" for x
    by (intro triple_attempt save_transaction_triple[OF steady_phases(2)])
      (auto intro: guardedI simp: given_up_def prepared_def guarded_def assms)
  show ?thesis
    unfolding prepared_failure_def
    by (intro triple_then[OF keeps_attempt[OF keeps_load_state[OF steady_phases(2)]]] triple_then[OF state]
        triple_bind[where M="\<lambda>_. guarded env c m tree", OF triple_weaken[OF save]] triple_fail)
      (auto intro: guardedI(1) split: sum.split)
qed

lemma or_prepared_safe:
  assumes "tx_candidate t = c"
    and "triple (prepared c tree) m (\<lambda>r s. prepared c tree s \<and> (\<forall>x. r = Inr x \<longrightarrow> M x s))"
    and "\<And>x. triple (\<lambda>s. prepared c tree s \<and> M x s) (f x) (\<lambda>_. guarded env c mf tree)"
  shows "triple (prepared c tree) (or_prepared env t m f) (\<lambda>_. guarded env c mf tree)"
  unfolding or_prepared_def
  by (rule triple_bind[where M="\<lambda>r s. prepared c tree s \<and> (\<forall>x. r = Inr x \<longrightarrow> M x s)",
        OF triple_attempt[OF triple_weaken[OF assms(2)]]])
    (auto intro: guardedI(1) triple_weaken[OF prepared_failure_safe[OF assms(1)]] triple_weaken[OF assms(3)]
      split: sum.split)

lemma prepared_other [simp]: "prepared c tree (set_stage d g s) = prepared c tree s"
  by (simp add: prepared_def set_stage_def)

lemma snapshot_copies:
  assumes "distinct (map fst tree)"
  shows "triple (prepared c tree) (snapshot env m) (\<lambda>r s. prepared c tree s \<and> (\<forall>x. r = Inr x \<longrightarrow> backup_of (stage_dir m) s = tree))"
    (is "triple ?P _ ?Q")
proof -
  let ?d = "stage_dir m"
  note st = steady_phases(2)[of c tree]
  have st2: "steady (\<lambda>s. ?P s \<and> backup_of ?d s = t)" for t
    using st by (simp add: steady_def backup_of_def)
  have remove: "triple ?P (remove_backup ?d) (\<lambda>r s. ?P s \<and> (r = Inr () \<longrightarrow> backup_of ?d s = []))"
    unfolding remove_backup_def by (rule triple_sys[OF st]) (auto simp: drop_backup_def backup_of_def stage_at_set)
  have list: "triple (\<lambda>s. ?P s \<and> backup_of ?d s = tree) (list_files env (backup_of ?d)) ?Q"
    by (rule keeps_replies[OF keeps_list_files[OF st2]]) simp
  have copy: "triple (\<lambda>s. ?P s \<and> backup_of ?d s = []) (copy_tree tree (put_backup ?d))
      (\<lambda>r s. ?P s \<and> (r = Inr () \<longrightarrow> backup_of ?d s = tree))"
    by (rule copy_tree_copies[OF st _ _ _ _ assms]) (simp_all add: put_backup_def backup_of_def stage_at_set)
  have rest: "triple (\<lambda>s. (?P s \<and> backup_of ?d s = []) \<and> uw_install s = src)
      (bindP (copy_tree src (put_backup ?d)) (\<lambda>_. list_files env (backup_of ?d))) ?Q" for src
  proof (cases "src = tree")
    case True
    show ?thesis
      unfolding True by (rule triple_bind[OF triple_weaken[OF copy] list]) (auto split: sum.splits)
  next
    case False
    then show ?thesis by (auto simp: triple_def prepared_def)
  qed
  show ?thesis
    unfolding snapshot_def Let_def
    by (intro triple_then[OF keeps_verify_staged[OF st]] triple_then[OF keeps_list_files[OF st]]
        triple_then[OF keeps_touch[OF st]] triple_bind[OF triple_weaken[OF remove] triple_bind_read[OF rest]])
      (auto split: sum.splits)
qed


lemma keeps_under_way_touch: "keeps (under_way c d tree) touch"
  by (rule keeps_touch[OF steady_phases(1)])

lemma set_up_safe:
  assumes "distinct (map fst tree)" and "tx_candidate t = c" and "tx_phase t = ''installing''"
  shows "triple (\<lambda>s. prepared c tree s \<and> backup_of (stage_dir m) s = tree) (set_up env fuel t m) (\<lambda>_. guarded env c m tree)"
    (is "triple ?P _ ?G")
proof -
  let ?d = "stage_dir m"
  let ?U = "under_way c ?d tree"
  let ?V = "\<lambda>s. ?U s \<and> verify_installation env (uw_install s) (mf_files m) = Inr ()"
  have st: "steady ?P" using steady_phases(2) by (simp add: steady_def backup_of_def)
  have stV: "steady ?V" using steady_phases(1) by (simp add: steady_def)
  have good: "in_progress c (t\<lparr>tx_phase := p\<rparr>)" if "p \<in> {''installing'', ''verifying'', ''recovering'', ''restart-required''}" for p
    using that assms(2) by (auto simp: in_progress_def)
  note recover = or_recover_safe[where c=c and tree=tree and mf=m, OF assms(1)]
  let ?t = "t\<lparr>tx_phase := ''verifying''\<rparr>"
  have verified: "triple ?U (or_recover env fuel ?t ?d (check_tree env uw_install (mf_files m)) (\<lambda>_.
      or_recover env fuel ?t ?d touch (\<lambda>_. or_recover env fuel ?t ?d (health env (mf_version m)) (\<lambda>_.
      complete_installation env ?t m)))) ?G"
    using assms(2)
    by (intro recover[where M="\<lambda>_. ?V"] triple_weaken[OF check_tree_checks[OF steady_phases(1)]]
        keeps_replies[OF keeps_touch[OF stV]] keeps_replies[OF keeps_health[OF stV]] complete_installation_safe) auto
  have reboot: "triple ?U (bindP (readP uw_boot) (\<lambda>boot.
      save_transaction (t\<lparr>tx_phase := ''restart-required'', tx_pid := 0, tx_boot := boot\<rparr>))) ?G"
    by (intro triple_then[OF keeps_read] keeps_replies[OF save_under_way] guardedI(3)) (simp_all add: good)
  have after: "triple ?U (case r of
      Inl e \<Rightarrow> if e = UeExit 3010 then bindP (readP uw_boot) (\<lambda>boot.
          save_transaction (t\<lparr>tx_phase := ''restart-required'', tx_pid := 0, tx_boot := boot\<rparr>))
        else recover_after_error env fuel t ?d e
    | Inr _ \<Rightarrow> (let t = ?t in bindP (save_transaction t) (\<lambda>_.
        or_recover env fuel t ?d (check_tree env uw_install (mf_files m)) (\<lambda>_.
        or_recover env fuel t ?d touch (\<lambda>_. or_recover env fuel t ?d (health env (mf_version m)) (\<lambda>_.
        complete_installation env t m)))))) ?G" for r
    unfolding Let_def
    by (cases r) (auto intro!: reboot recover_after_error_safe[OF assms(1,2)] verified triple_then[OF save_under_way] guardedI(3)
        simp: good)
  have run: "triple ?U (bindP (readP (\<lambda>s. map_of (sg_files (stage_at ?d s)) (uf_name (mf_installer m)))) (\<lambda>bytes.
      bindP (attempt (case bytes of None \<Rightarrow> failP UeSystem | Some b \<Rightarrow> run_setup env b)) f)) ?G"
    if "\<And>r. triple ?U (f r) ?G" for f
    by (intro triple_then[OF keeps_read] triple_then[OF keeps_attempt[OF keeps_option]] keeps_fail keeps_run_setup
        that guardedI(3))
  have saved: "triple ?P (save_transaction t) (\<lambda>r s. guarded env c m tree s \<and> (r = Inr () \<longrightarrow> ?U s))"
    by (rule save_transaction_triple[OF st])
      (auto simp: guarded_def under_way_def backup_of_def prepared_def assms(2,3))
  have rest: "triple ?U (or_recover env fuel t ?d touch (\<lambda>_. or_recover env fuel t ?d touch (\<lambda>_. f))) ?G"
    if "triple ?U f ?G" for f
    by (intro recover[where M="\<lambda>_. ?U", OF assms(2)] that keeps_replies[OF keeps_under_way_touch]) auto
  show ?thesis
    unfolding set_up_def Let_def
    by (rule triple_bind[where M="\<lambda>_. ?U", OF triple_weaken[OF saved] rest[OF run[OF after[unfolded Let_def]]]])
      (auto split: sum.split)
qed

lemma after_restart_safe:
  assumes "distinct (map fst tree)" and "tx_candidate t = c"
  shows "triple (under_way c (stage_dir m) tree) (after_restart env fuel t m) (\<lambda>_. guarded env c m tree)"
proof -
  let ?U = "under_way c (stage_dir m) tree"
  let ?V = "\<lambda>s. ?U s \<and> verify_installation env (uw_install s) (mf_files m) = Inr ()"
  have st: "steady ?V" using steady_phases(1) by (simp add: steady_def)
  have works: "triple ?U (bindP (check_tree env uw_install (mf_files m)) (\<lambda>_. bindP touch (\<lambda>_. health env v)))
      (\<lambda>r s. ?U s \<and> (\<forall>x. r = Inr x \<longrightarrow> ?V s))" for v
    by (rule triple_bind[where M="\<lambda>_. ?V", OF triple_weaken[OF check_tree_checks[OF steady_phases(1)]]
          keeps_replies[OF keeps_bind[OF keeps_touch[OF st] keeps_health[OF st]]]])
      (auto split: sum.split)
  show ?thesis
    unfolding after_restart_def
    by (intro triple_then[OF keeps_read] guardedI(3))
      (auto intro!: triple_ret guardedI(3) or_recover_safe[OF assms works] complete_installation_safe assms(2))
qed

lemma identify_gives:
  assumes "public_key env = Inr key" and "verify_manifest env (cd_data (tx_candidate t)) (cd_signature (tx_candidate t)) key = Inr m"
    and "steady P"
  shows "triple P (identify env t) (\<lambda>r s. P s \<and> (\<forall>x. r = Inr x \<longrightarrow> x = m))"
  unfolding identify_def
  by (intro triple_then[OF keeps_identity[OF assms(3)]] triple_bind_lift triple_lift) (use assms(1,2) in auto)

lemma run_transaction_safe:
  assumes tree: "distinct (map fst tree)"
    and key: "public_key env = Inr key" "verify_manifest env (cd_data c) (cd_signature c) key = Inr m"
    and c: "tx_candidate t = c" and act: "transaction_active (Some t)"
  shows "triple (\<lambda>s. guarded env c m tree s \<and> uw_transaction s = Saved t) (run_transaction env fuel t) (\<lambda>_. guarded env c m tree)"
proof -
  let ?G = "\<lambda>_. guarded env c m tree"
  have ident: "triple P (identify env t) (\<lambda>r s. P s \<and> (\<forall>x. r = Inr x \<longrightarrow> x = m))" if "steady P" for P
    by (rule identify_gives[OF key(1) _ that]) (simp add: c key(2))
  show ?thesis
  proof (cases "tx_phase t = ''prepared''")
    case True
    let ?P = "prepared c tree"
    note st = steady_phases(2)[of c tree]
    have up: "triple (\<lambda>s. ?P s \<and> backup_of (stage_dir m) s = tree)
        (set_up env fuel (u\<lparr>tx_backup_files := fs, tx_phase := ''installing''\<rparr>) m) ?G" if "tx_candidate u = c" for u fs
      by (rule set_up_safe[OF tree]) (simp_all add: that)
    have snap: "triple ?P (or_prepared env u (snapshot env m) (\<lambda>fs.
        set_up env fuel (u\<lparr>tx_backup_files := fs, tx_phase := ''installing''\<rparr>) m)) ?G" if "tx_candidate u = c" for u
      by (rule or_prepared_safe[OF that snapshot_copies[OF tree] up[OF that]])
    have start: "triple (\<lambda>s. ?P s \<and> x = m) (bindP (helper_started t) (\<lambda>t. or_prepared env t (snapshot env x) (\<lambda>fs.
        set_up env fuel (t\<lparr>tx_backup_files := fs, tx_phase := ''installing''\<rparr>) x))) ?G" for x
    proof (cases "x = m")
      case True
      show ?thesis
        unfolding True helper_started_def bindP_assoc
        by (intro triple_then[OF keeps_read] triple_then[OF keeps_now])
          (use st snap c in \<open>auto intro: guardedI(1) simp: steady_def\<close>)
    next
      case False
      then show ?thesis by (simp add: triple_def)
    qed
    have "triple ?P (run_transaction env fuel t) ?G"
      unfolding run_transaction_def if_P[OF True]
      by (rule or_prepared_safe[OF c ident[OF st] start])
    then show ?thesis
      by (rule triple_weaken) (auto simp: guarded_def phase_defs True)
  next
    case False
    let ?U = "under_way c (stage_dir m) tree"
    note st = steady_phases(1)[of c "stage_dir m" tree]
    have go: "triple (\<lambda>s. ?U s \<and> x = m) (bindP (helper_started t) (\<lambda>t.
        if tx_phase t = ''restart-required'' then after_restart env fuel t x
        else recover_installation env fuel t (stage_dir x))) ?G" for x
    proof (cases "x = m")
      case True
      show ?thesis
        unfolding True helper_started_def bindP_assoc
        by (intro triple_then[OF keeps_read] triple_then[OF keeps_now])
          (use st c in \<open>auto intro: guardedI(3) after_restart_safe[OF tree] recover_installation_safe[OF tree] simp: steady_def\<close>)
    next
      case False
      then show ?thesis by (simp add: triple_def)
    qed
    have "triple ?U (run_transaction env fuel t) ?G"
      unfolding run_transaction_def if_not_P[OF False]
      by (rule triple_bind[where M="\<lambda>x s. ?U s \<and> x = m", OF triple_weaken[OF ident[OF st]] go])
        (auto intro: guardedI(3) split: sum.split)
    then show ?thesis
      by (rule triple_weaken) (use False act in \<open>auto simp: guarded_def phase_defs transaction_active_def\<close>)
  qed
qed

lemma guarded_candidate: "guarded env c m tree s \<Longrightarrow> uw_transaction s = Saved t \<Longrightarrow> tx_candidate t = c"
  by (auto simp: guarded_def phase_defs)

lemma load_transaction_reads:
  "steady P \<Longrightarrow> triple P load_transaction (\<lambda>r s. P s \<and> (\<forall>t. r = Inr (Some t) \<longrightarrow> uw_transaction s = Saved t))"
  unfolding load_transaction_def read_saved_def
  by (rule triple_then[OF keeps_touch]) (auto simp: triple_def split: saved.splits)

lemma run_helper_safe:
  assumes "distinct (map fst tree)" and "public_key env = Inr key"
    and "verify_manifest env (cd_data c) (cd_signature c) key = Inr m"
  shows "keeps (guarded env c m tree) (run_helper env fuel)"
proof -
  let ?P = "guarded env c m tree"
  have go: "triple (\<lambda>s. ?P s \<and> (\<forall>t. z = Some t \<longrightarrow> uw_transaction s = Saved t))
      (case z of None \<Rightarrow> retP () | Some t \<Rightarrow> if transaction_active (Some t) then run_transaction env fuel t else retP ()) (\<lambda>_. ?P)" for z
  proof (cases z)
    case None
    then show ?thesis by (auto intro: triple_ret)
  next
    case (Some t)
    have "triple (\<lambda>s. ?P s \<and> uw_transaction s = Saved t) (run_transaction env fuel t) (\<lambda>_. ?P)" if "transaction_active (Some t)"
    proof (cases "tx_candidate t = c")
      case True
      show ?thesis by (rule run_transaction_safe[OF assms True that])
    next
      case False
      then show ?thesis by (auto simp: triple_def dest: guarded_candidate)
    qed
    with Some show ?thesis by (auto intro: triple_ret)
  qed
  have "triple ?P (run_helper env fuel) (\<lambda>_. ?P)"
    unfolding run_helper_def
    by (intro triple_then[OF keeps_touch[OF steady_guarded]]
        triple_bind[OF triple_weaken[OF load_transaction_reads[OF steady_guarded]] go])
      (auto split: sum.split)
  then show ?thesis by (simp add: triple_def keeps_def)
qed

section \<open>Any number of runs\<close>

text \<open>The recovery task starts the helper at every boot and every five minutes: each run has its own outcomes, times,
  process and boot time.\<close>

record helper_run =
  hr_fuel :: nat
  hr_plan :: "outcome list"
  hr_clock :: "int list"
  hr_pid :: int
  hr_boot :: int

definition begin_run :: "helper_run \<Rightarrow> update_world \<Rightarrow> update_world" where
  "begin_run h s = s\<lparr>uw_plan := hr_plan h, uw_clock := hr_clock h, uw_pid := hr_pid h, uw_boot := hr_boot h\<rparr>"

primrec helper_runs :: "'v update_env \<Rightarrow> helper_run list \<Rightarrow> update_world \<Rightarrow> update_world" where
  "helper_runs env [] s = s"
| "helper_runs env (h # hs) s = helper_runs env hs (snd (run_helper env (hr_fuel h) (begin_run h s)))"

lemma guarded_begin: "guarded env c m tree (begin_run h s) = guarded env c m tree s"
  by (simp add: guarded_def phase_defs begin_run_def backup_of_def stage_at_def)

lemma helper_runs_safe:
  assumes "distinct (map fst tree)" and "public_key env = Inr key"
    and "verify_manifest env (cd_data c) (cd_signature c) key = Inr m"
  shows "guarded env c m tree s \<Longrightarrow> guarded env c m tree (helper_runs env hs s)"
proof (induction hs arbitrary: s)
  case (Cons h hs)
  then show ?case
    using keepsD[OF run_helper_safe[OF assms], of "begin_run h s" "hr_fuel h"]
    by (simp add: guarded_begin) (metis prod.collapse)
qed simp

text \<open>C5: An update never loses the installation. From a prepared transaction, after any number of runs of the
  helper, with any calls failing and any run cut off at any call, and whatever Setup does to the installation: either
  the transaction is still prepared or has been given up and the installation is the one of before, or its copy in the
  staging directory is that installation while the transaction is still under way, or the transaction is complete and
  every file of the installation matches the signed manifest.\<close>

theorem update_keeps_an_installation:
  assumes "uw_transaction s = Saved t" and "tx_phase t = ''prepared''" and "distinct (map fst (uw_install s))"
    and "public_key env = Inr key"
    and "verify_manifest env (cd_data (tx_candidate t)) (cd_signature (tx_candidate t)) key = Inr m"
  shows "\<exists>u. uw_transaction (helper_runs env hs s) = Saved u \<and>
    (tx_phase u \<in> {''prepared'', ''retrying''} \<and> uw_install (helper_runs env hs s) = uw_install s \<or>
     tx_phase u \<in> {''installing'', ''verifying'', ''recovering'', ''restart-required''} \<and>
       backup_of (stage_dir m) (helper_runs env hs s) = uw_install s \<or>
     tx_phase u = ''completed'' \<and> verify_installation env (uw_install (helper_runs env hs s)) (mf_files m) = Inr ())"
proof -
  have "guarded env (tx_candidate t) m (uw_install s) s"
    using assms(1,2) by (auto simp: guarded_def prepared_def)
  from helper_runs_safe[OF assms(3-5) this, of hs] show ?thesis
    by (auto simp: guarded_def phase_defs)
qed

end
