(* ===== verification/Update_Recovery.thy ===== *)
theory Update_Recovery
  imports Update_Helper_Claims
begin

text \<open>
  The other half of crash safety: when the calls of the system work again, one run of the helper puts the previous
  installation back and hands the update over to the retries of the manager. The equations give what the procedures do
  when no call fails.
\<close>

named_theorems when_calls_work

lemma sys_call_works [when_calls_work]: "uw_plan s = [] \<Longrightarrow> sys_call f p q s = (Inr (), f s)"
  by (simp add: sys_call_def next_call_def)

lemma touch_works [when_calls_work]: "uw_plan s = [] \<Longrightarrow> touch s = (Inr (), s)"
  by (simp add: touch_def when_calls_work)

lemma replace_works [when_calls_work]: "uw_plan s = [] \<Longrightarrow> replace_file f s = (Inr (), f s)"
  by (simp add: replace_file_def when_calls_work)

lemma save_state_works [when_calls_work]: "uw_plan s = [] \<Longrightarrow> save_state x s = (Inr (), s\<lparr>uw_state := Saved x\<rparr>)"
  by (simp add: save_state_def when_calls_work)

lemma save_transaction_works [when_calls_work]:
  "uw_plan s = [] \<Longrightarrow> save_transaction t s = (Inr (), s\<lparr>uw_transaction := Saved t\<rparr>)"
  by (simp add: save_transaction_def when_calls_work)

lemma attempt_works [when_calls_work]: "m s = (Inr x, w) \<Longrightarrow> attempt m s = (Inr (Inr x), w)"
  by (simp add: attempt_def)

lemma now_works: "\<exists>n cs. now_op s = (Inr n, s\<lparr>uw_clock := cs\<rparr>)"
proof (cases "uw_clock s")
  case Nil
  then have "s = s\<lparr>uw_clock := []\<rparr>" by (cases s) simp
  with Nil have "now_op s = (Inr 0, s\<lparr>uw_clock := []\<rparr>)" by (simp add: now_op_def)
  then show ?thesis by blast
next
  case (Cons t ts)
  then have "now_op s = (Inr t, s\<lparr>uw_clock := ts\<rparr>)" by (simp add: now_op_def)
  then show ?thesis by blast
qed

lemma load_state_works:
  assumes "uw_plan s = []" and "uw_state s \<noteq> Damaged"
  shows "load_state s = (Inr (case uw_state s of Saved x \<Rightarrow> x | _ \<Rightarrow> blank_state), s)"
  using assms by (auto simp: load_state_def read_saved_def proc_simps when_calls_work split: saved.splits)

lemma check_tree_works [when_calls_work]:
  "uw_plan s = [] \<Longrightarrow> verify_installation env (g s) fs = Inr () \<Longrightarrow> check_tree env g fs s = (Inr (), s)"
  by (simp add: check_tree_def proc_simps when_calls_work)

lemma copies_to_install:
  "uw_plan s = [] \<Longrightarrow> forP src (\<lambda>(n, b). copy_file put_install n b) s =
     (Inr (), s\<lparr>uw_install := fold (\<lambda>(n, b). put_file n b) src (uw_install s)\<rparr>)"
proof (induction src arbitrary: s)
  case (Cons f src)
  then show ?case
    by (cases f) (simp add: proc_simps copy_file_def when_calls_work put_install_def)
qed (simp add: retP_def)

lemma fold_put_file: "distinct (map fst (acc @ src)) \<Longrightarrow> fold (\<lambda>(n, b). put_file n b) src acc = acc @ src"
proof (induction src arbitrary: acc)
  case (Cons f src)
  then show ?case using Cons.IH[of "acc @ [f]"] by (cases f) (simp add: put_file_fresh)
qed simp

lemma restore_tree_works:
  assumes "uw_plan s = []" and "distinct (map fst (backup_of d s))" and "installation_files env (backup_of d s) = Inr fs"
  shows "restore_tree env d fs s = (Inr (), s\<lparr>uw_install := backup_of d s\<rparr>)"
proof -
  have ok: "verify_installation env (backup_of d s) fs = Inr ()"
    by (rule installation_files_verify[OF assms(3,2)]) simp
  have b: "backup_of d (s\<lparr>uw_install := x\<rparr>) = backup_of d s" for x by (simp add: backup_of_def)
  show ?thesis
    using assms(1) ok fold_put_file[of "[]" "backup_of d s"] assms(2)
    by (simp add: restore_tree_def remove_install_def copy_tree_def proc_simps when_calls_work copies_to_install b)
qed

lemma rollback_works:
  assumes "uw_plan s = []" and "distinct (map fst (backup_of d s))"
    and "installation_files env (backup_of d s) = Inr (tx_backup_files t)" and "tx_backup_files t \<noteq> []"
    and "trim_v (ue_service env (backup_of d s)) = trim_v (tx_previous t)"
  shows "rollback env t d s = (Inr (), s\<lparr>uw_install := backup_of d s\<rparr>)"
  using assms restore_tree_works[OF assms(1-3)] by (simp add: rollback_def health_def proc_simps when_calls_work)

lemma finish_recovery_works:
  assumes "uw_plan s = []" and "uw_state s \<noteq> Damaged"
  shows "\<exists>x cs. finish_recovery env t s = (Inr (), s\<lparr>uw_clock := cs, uw_state := Saved x,
      uw_transaction := Saved (t\<lparr>tx_phase := ''retrying'', tx_pid := 0\<rparr>)\<rparr>) \<and> us_pending x \<and> us_phase x = ''retrying''"
proof -
  obtain n cs where n: "now_op s = (Inr n, s\<lparr>uw_clock := cs\<rparr>)" using now_works by blast
  show ?thesis
    using assms(1) by (auto simp: finish_recovery_def proc_simps when_calls_work load_state_works[OF assms] n
        fail_state_def Let_def intro!: exI[of _ cs])
qed

lemma recover_installation_works:
  assumes "uw_plan s = []" and "distinct (map fst (backup_of d s))"
    and "installation_files env (backup_of d s) = Inr (tx_backup_files t)" and "tx_backup_files t \<noteq> []"
    and "trim_v (ue_service env (backup_of d s)) = trim_v (tx_previous t)" and "uw_state s \<noteq> Damaged"
  shows "\<exists>w x. recover_installation env (Suc fuel) t d s = (Inr (), w) \<and> uw_install w = backup_of d s \<and>
    uw_transaction w = Saved (t\<lparr>tx_phase := ''retrying'', tx_pid := 0\<rparr>) \<and> uw_state w = Saved x \<and> us_pending x"
proof -
  let ?t = "t\<lparr>tx_phase := ''recovering'', tx_pid := uw_pid s\<rparr>"
  let ?s = "s\<lparr>uw_transaction := Saved ?t\<rparr>"
  have b: "backup_of d ?s = backup_of d s" by (simp add: backup_of_def)
  have roll: "attempt (rollback env ?t d) ?s = (Inr (Inr ()), ?s\<lparr>uw_install := backup_of d s\<rparr>)"
    using rollback_works[of ?s d env ?t] assms by (intro attempt_works) (simp add: b)
  obtain x cs where fin: "finish_recovery env ?t (?s\<lparr>uw_install := backup_of d s\<rparr>) = (Inr (), ?s\<lparr>uw_install := backup_of d s,
      uw_clock := cs, uw_state := Saved x, uw_transaction := Saved (?t\<lparr>tx_phase := ''retrying'', tx_pid := 0\<rparr>)\<rparr>) \<and> us_pending x"
    using finish_recovery_works[of "?s\<lparr>uw_install := backup_of d s\<rparr>" env ?t] assms(1,6) by auto
  show ?thesis
    unfolding recover_installation_def recover_loop.simps Let_def
    using assms(1) roll fin by (simp add: proc_simps when_calls_work)
qed


lemma verify_identity_works:
  assumes "uw_plan s = []" and "uw_installation s = Saved (d, own)"
    and "to_lower d = to_lower (tx_install_dir t)" and "own = tx_owner t"
    and "public_key env = Inr key" and "verify_manifest env (cd_data (tx_candidate t)) (cd_signature (tx_candidate t)) key = Inr m"
  shows "identify env t s = (Inr m, s)"
  using assms by (simp add: identify_def check_identity_def read_saved_def proc_simps when_calls_work)

text \<open>C34: Recovery restores. A helper that finds an interrupted transaction (Setup may have been started, the result not
  committed) whose copy of the previous installation matches the recorded files, and whose calls all work, ends: the
  installation is the previous one again, the transaction is given up and the update stays pending for a later try.\<close>

theorem recovery_restores_the_installation:
  assumes "uw_plan s = []" and "uw_transaction s = Saved t"
    and "tx_phase t \<in> {''installing'', ''verifying'', ''recovering''}"
    and "uw_installation s = Saved (dir, own)" and "to_lower dir = to_lower (tx_install_dir t)" and "own = tx_owner t"
    and "public_key env = Inr key"
    and "verify_manifest env (cd_data (tx_candidate t)) (cd_signature (tx_candidate t)) key = Inr m"
    and "distinct (map fst (backup_of (stage_dir m) s))"
    and "installation_files env (backup_of (stage_dir m) s) = Inr (tx_backup_files t)" and "tx_backup_files t \<noteq> []"
    and "trim_v (ue_service env (backup_of (stage_dir m) s)) = trim_v (tx_previous t)" and "uw_state s \<noteq> Damaged"
  shows "\<exists>w u x. run_helper env (Suc fuel) s = (Inr (), w) \<and> uw_install w = backup_of (stage_dir m) s \<and>
    uw_transaction w = Saved u \<and> tx_phase u = ''retrying'' \<and> uw_state w = Saved x \<and> us_pending x"
proof -
  let ?d = "stage_dir m"
  obtain n cs where n: "now_op s = (Inr n, s\<lparr>uw_clock := cs\<rparr>)" using now_works by blast
  let ?t = "t\<lparr>tx_pid := uw_pid s, tx_started := n\<rparr>" and ?s = "s\<lparr>uw_clock := cs\<rparr>"
  have b: "backup_of ?d ?s = backup_of ?d s" by (simp add: backup_of_def)
  obtain w x where w: "recover_installation env (Suc fuel) ?t ?d ?s = (Inr (), w)" "uw_install w = backup_of ?d s"
      "uw_transaction w = Saved (?t\<lparr>tx_phase := ''retrying'', tx_pid := 0\<rparr>)" "uw_state w = Saved x" "us_pending x"
    using recover_installation_works[of ?s ?d env ?t fuel] assms(1,9-13) unfolding b by auto
  have act: "transaction_active (Some t)" "tx_phase t \<noteq> ''prepared''" "tx_phase t \<noteq> ''restart-required''"
    using assms(3) by (auto simp: transaction_active_def)
  have "run_helper env (Suc fuel) s = (Inr (), w)"
    using assms(1,2) act verify_identity_works[OF assms(1,4-8)] n w(1)
    by (simp add: run_helper_def load_transaction_def read_saved_def run_transaction_def helper_started_def proc_simps
        when_calls_work)
  with w show ?thesis by auto
qed

end
