(* ===== verification/Update_Barrier.thy ===== *)
theory Update_Barrier
  imports Update_Recovery
begin

text \<open>
  The barrier of a mandatory update: once the saved state says that an update is pending, the configuration stays
  locked until an installation that matches a signed manifest is in place. The service may restart, the manager step,
  and the helper run in any order, and every call may fail or be cut off.
\<close>

definition locked :: "update_state saved \<Rightarrow> bool" where
  "locked x \<longleftrightarrow> (\<exists>y. x = Saved y \<and> us_pending y \<and> us_phase y \<noteq> [])"

definition tx_done :: "transaction saved \<Rightarrow> bool" where
  "tx_done x \<longleftrightarrow> (\<exists>t. x = Saved t \<and> tx_phase t = ''completed'')"

definition shut :: "update_world \<Rightarrow> bool" where
  "shut s \<longleftrightarrow> locked (uw_state s) \<and> us_pending (uw_memory s)"

definition sound :: "'v update_env \<Rightarrow> string \<Rightarrow> update_world \<Rightarrow> bool" where
  "sound env key s \<longleftrightarrow> (\<forall>t. uw_transaction s = Saved t \<longrightarrow> tx_phase t = ''completed'' \<longrightarrow>
     (\<exists>m. verify_manifest env (cd_data (tx_candidate t)) (cd_signature (tx_candidate t)) key = Inr m \<and>
        verify_installation env (uw_install s) (mf_files m) = Inr ()))"

text \<open>What the state on disk and the one in memory may name: the candidate of the transaction, or none after a failed
  read of the state.\<close>

definition names_only :: "candidate \<Rightarrow> update_world \<Rightarrow> bool" where
  "names_only c s \<longleftrightarrow> us_candidate (uw_memory s) \<in> {None, Some c} \<and>
     (\<forall>y. uw_state s = Saved y \<longrightarrow> us_candidate y \<in> {None, Some c})"

definition installs :: "candidate \<Rightarrow> update_world \<Rightarrow> bool" where
  "installs c s \<longleftrightarrow> (\<exists>t. uw_transaction s = Saved t \<and> tx_candidate t = c)"

definition barrier :: "'v update_env \<Rightarrow> string \<Rightarrow> candidate \<Rightarrow> update_world \<Rightarrow> bool" where
  "barrier env key c s \<longleftrightarrow> sound env key s \<and> installs c s \<and> (tx_done (uw_transaction s) \<or> shut s \<and> names_only c s)"

section \<open>The manager\<close>

text \<open>Until the hand-over, the manager leaves the transaction and the installation alone, takes the answers of the
  workers one after the other, and writes only states that are pending unless it may end the wait.\<close>

definition drawn :: "update_world \<Rightarrow> update_world \<Rightarrow> bool" where
  "drawn u s \<longleftrightarrow> uw_install s = uw_install u \<and> uw_children s = uw_children u \<and> uw_configured s = uw_configured u \<and>
     uw_maintenance s = uw_maintenance u \<and> (\<exists>pre. uw_workers u = pre @ uw_workers s)"

definition waiting :: "bool \<Rightarrow> transaction saved \<Rightarrow> update_world \<Rightarrow> update_world \<Rightarrow> bool" where
  "waiting b X f s \<longleftrightarrow> uw_transaction s = X \<and> drawn f s \<and> (b \<or> shut s)"

lemma drawn_simps [simp]:
  "drawn u (s\<lparr>uw_plan := ps\<rparr>) = drawn u s" "drawn u (s\<lparr>uw_clock := cs\<rparr>) = drawn u s"
  "drawn u (s\<lparr>uw_memory := m\<rparr>) = drawn u s" "drawn u (s\<lparr>uw_state := x\<rparr>) = drawn u s"
  "drawn u (s\<lparr>uw_transaction := t\<rparr>) = drawn u s" "drawn u (s\<lparr>uw_answers := ws\<rparr>) = drawn u s"
  "drawn u (s\<lparr>uw_shutdown := h\<rparr>) = drawn u s" "drawn u (s\<lparr>uw_stages := g\<rparr>) = drawn u s"
  by (simp_all add: drawn_def)

lemma drawn_refl [simp]: "drawn u u"
  by (simp add: drawn_def)

lemma drawn_more: "drawn u s \<Longrightarrow> uw_workers s = pre @ rest \<Longrightarrow> drawn u (s\<lparr>uw_workers := rest\<rparr>)"
  by (auto simp: drawn_def)

definition fine :: "bool \<Rightarrow> update_state \<Rightarrow> bool" where
  "fine b s \<longleftrightarrow> b \<or> us_pending s \<and> us_phase s \<noteq> []"

lemma steady_waiting: "steady (waiting b X f)"
  by (simp add: steady_def waiting_def shut_def)

lemma fine_simps [simp]:
  "fine b (s\<lparr>us_last_check := t\<rparr>) = fine b s" "fine b (s\<lparr>us_next_retry := t\<rparr>) = fine b s"
  "fine b (s\<lparr>us_message := x\<rparr>) = fine b s" "fine b (s\<lparr>us_downloaded := n\<rparr>) = fine b s"
  "fine b (s\<lparr>us_installed := v\<rparr>) = fine b s"
  by (simp_all add: fine_def)

lemma fine_fail: "us_pending s \<or> fine b s \<Longrightarrow> fine b (fail_state env e now s)"
  by (auto simp: fine_def fail_state_def)

lemma keeps_set_op: "fine b s \<Longrightarrow> keeps (waiting b X f) (set_op s)"
proof -
  assume s: "fine b s"
  then have "keeps (waiting b X f) (writeP (\<lambda>w. w\<lparr>uw_memory := s\<rparr>))"
    by (auto simp: keeps_def writeP_def waiting_def shut_def fine_def)
  moreover have "keeps (waiting b X f) (save_state s)"
    unfolding save_state_def replace_file_def
    by (rule kept_sys[OF steady_waiting]) (use s in \<open>auto simp: waiting_def shut_def fine_def locked_def\<close>)
  ultimately show ?thesis unfolding set_op_def by (intro keeps_bind)
qed

lemma keeps_failure: "us_pending s \<or> fine b s \<Longrightarrow> keeps (waiting b X f) (failure env now s e)"
  unfolding failure_def by (intro keeps_intros keeps_set_op fine_fail)

lemma keeps_or_failure:
  "us_pending s \<or> fine b s \<Longrightarrow> keeps (waiting b X f) m \<Longrightarrow> (\<And>x. keeps (waiting b X f) (g x)) \<Longrightarrow>
    keeps (waiting b X f) (or_failure env now s m g)"
  unfolding or_failure_def by (intro keeps_intros keeps_failure)

text \<open>Calls that touch neither of the parts that matter.\<close>

definition deaf :: "(update_world \<Rightarrow> bool) \<Rightarrow> bool" where
  "deaf P \<longleftrightarrow> steady P \<and> (\<forall>s x. P s \<longrightarrow> P (s\<lparr>uw_answers := x\<rparr>)) \<and> (\<forall>s x xs. P s \<and> uw_workers s = x # xs \<longrightarrow> P (s\<lparr>uw_workers := xs\<rparr>)) \<and>
     (\<forall>s x. P s \<longrightarrow> P (s\<lparr>uw_shutdown := x\<rparr>)) \<and> (\<forall>s x. P s \<longrightarrow> P (s\<lparr>uw_stages := x\<rparr>))"

lemma deaf_waiting: "deaf (waiting b X f)"
  unfolding deaf_def using steady_waiting by (auto simp: waiting_def shut_def intro: drawn_more[of _ _ "[_]"])

lemma deaf_and: "deaf P \<Longrightarrow> deaf Q \<Longrightarrow> deaf (\<lambda>s. P s \<and> Q s)"
  by (auto simp: deaf_def steady_def)

lemma deaf_memory: "deaf (\<lambda>s. R (uw_memory s))"
  by (simp add: deaf_def steady_def)

lemma deaf_steady: "deaf P \<Longrightarrow> steady P"
  by (simp add: deaf_def)

lemma keeps_http_get: "deaf P \<Longrightarrow> keeps P (http_get env url)"
  unfolding http_get_def
  by (intro keeps_bind keeps_lift) (auto simp: keeps_def deaf_def Let_def split: list.splits web_answer.splits)

lemma keeps_http_read: "deaf P \<Longrightarrow> keeps P (http_read env url n)"
  unfolding http_read_def by (intro keeps_intros keeps_http_get)

lemma keeps_check_release: "deaf P \<Longrightarrow> keeps P (check_release env key v)"
  unfolding check_release_def check_assets_def Let_def by (intro keeps_intros keeps_http_read)

lemma keeps_drain_profiles: "deaf P \<Longrightarrow> keeps P (drain_profiles ps a r)"
proof (induction ps arbitrary: a r)
  case Nil
  then show ?case by (simp add: keeps_ret)
next
  case (Cons p ps)
  show ?case
  proof (rule keepsI)
    fix s x w
    assume P: "P s" and run: "drain_profiles (p # ps) a r s = (x, w)"
    have set: "uw_workers s = z # y \<Longrightarrow> P (s\<lparr>uw_workers := y\<rparr>)" for z y using P Cons.prems by (simp add: deaf_def)
    have ih: "drain_profiles ps a' r' v = (x, w) \<Longrightarrow> P v \<Longrightarrow> P w" for a' r' v
      using keepsD[OF Cons.IH[OF Cons.prems]] by blast
    from run show "P w"
      using P set by (auto split: if_splits list.splits option.splits dest!: ih)
  qed
qed

lemma keeps_drain: "deaf P \<Longrightarrow> keeps P drain_for_update"
  using keeps_drain_profiles[of P]
  by (auto simp: keeps_def drain_for_update_def deaf_def simp del: drain_profiles.simps)

lemma keeps_stage_file: "deaf P \<Longrightarrow> P s \<Longrightarrow> P (stage_file d n b s)"
  by (simp add: deaf_def stage_file_def set_stage_def)

lemma keeps_report: "(\<And>n late. keeps P (report n late)) \<Longrightarrow> keeps P (report_pieces report room n pieces)"
  by (induction report room n pieces rule: report_pieces.induct) (auto intro: keeps_intros simp: Let_def)

lemma keeps_stage_download:
  assumes "deaf P" and "\<And>n late. keeps P (report n late)"
  shows "keeps P (stage_download env key c report)"
proof -
  note st = deaf_steady[OF assms(1)]
  have put: "keeps P (replace_file (stage_file d n b))" for d n b
    unfolding replace_file_def by (intro kept_sys st) (auto intro: keeps_stage_file[OF assms(1)])
  show ?thesis
    unfolding stage_download_def Let_def
    by (intro keeps_intros keeps_touch keeps_verify_staged keeps_http_get keeps_report put assms st)
qed


text \<open>What the manager holds in memory while it downloads.\<close>

lemma set_op_memory: "set_op s v = (r, w) \<Longrightarrow> uw_memory w = s"
  by (auto simp: set_op_def save_state_def replace_file_def sys_call_def next_call_def proc_simps
      split: list.splits outcome.splits if_splits)

definition progressed :: "update_state \<Rightarrow> update_state \<Rightarrow> bool" where
  "progressed s x \<longleftrightarrow> (\<exists>n. x = s\<lparr>us_downloaded := n\<rparr>)"

lemma progressedD:
  "progressed s x \<Longrightarrow> fine b x = fine b s" "progressed s x \<Longrightarrow> us_pending x = us_pending s"
  "progressed s x \<Longrightarrow> us_candidate x = us_candidate s"
  by (auto simp: progressed_def)

lemma progressed_refl [simp]: "progressed s s"
  unfolding progressed_def by (cases s) (auto intro: exI[of _ "us_downloaded s"])

lemma keeps_report_progress:
  assumes "fine b s0"
  shows "keeps (\<lambda>s. waiting b X f s \<and> progressed s0 (uw_memory s)) (report_progress n late)"
proof (rule keepsI)
  fix s r w
  assume P: "waiting b X f s \<and> progressed s0 (uw_memory s)" and run: "report_progress n late s = (r, w)"
  let ?m = "(uw_memory s)\<lparr>us_downloaded := n\<rparr>"
  have P': "waiting b X f (s\<lparr>uw_memory := ?m\<rparr>)" "progressed s0 ?m"
    using P by (auto simp: waiting_def shut_def progressed_def)
  show "waiting b X f w \<and> progressed s0 (uw_memory w)"
  proof (cases late)
    case False
    with run P' show ?thesis by (auto simp: report_progress_def proc_simps)
  next
    case True
    obtain x v where v: "set_op ?m (s\<lparr>uw_memory := ?m\<rparr>) = (x, v)" by force
    have "waiting b X f v"
      using keepsD[OF keeps_set_op P'(1) v] P'(2) assms by (metis progressedD(1))
    moreover have "w = v"
      using run True v by (auto simp: report_progress_def attempt_def proc_simps split: if_splits)
    ultimately show ?thesis using P'(2) set_op_memory[OF v] by simp
  qed
qed

lemma set_op_triple: "fine b s \<Longrightarrow> triple (waiting b X f) (set_op s) (\<lambda>r v. waiting b X f v \<and> uw_memory v = s)"
  by (rule tripleI) (auto dest: set_op_memory keepsD[OF keeps_set_op])

lemma failure_triple:
  assumes "us_pending s \<or> fine b s" and "\<And>e v. waiting b X f v \<Longrightarrow> (Q :: update_error + 'a \<Rightarrow> _) (Inl e) v"
  shows "triple (waiting b X f) (failure env now s e :: 'a update_op) Q"
proof (rule tripleI)
  fix v r w
  assume v: "waiting b X f v" and run: "(failure env now s e :: 'a update_op) v = (r, w)"
  have "waiting b X f w" by (rule keepsD[OF keeps_failure[OF assms(1)] v run])
  moreover have "\<exists>e. r = Inl e"
    using run by (auto simp: failure_def proc_simps split: prod.splits sum.splits)
  ultimately show "Q r w" using assms(2) by auto
qed

lemma or_failure_triple:
  assumes "us_pending s \<or> fine b s" and "triple P m (\<lambda>r v. waiting b X f v \<and> (\<forall>x. r = Inr x \<longrightarrow> M x v))"
    and "\<And>x. triple (\<lambda>v. waiting b X f v \<and> M x v) (g x) (\<lambda>r v. Q r v)"
    and "\<And>e v. waiting b X f v \<Longrightarrow> Q (Inl e) v"
  shows "triple P (or_failure env now s m g) Q"
proof -
  have fail: "triple (waiting b X f) (failure env now s e :: 'b update_op) Q" for e
    by (rule failure_triple[OF assms(1)]) (rule assms(4))
  show ?thesis
    unfolding or_failure_def
    by (rule triple_bind[where M="\<lambda>r v. waiting b X f v \<and> (\<forall>x. r = Inr x \<longrightarrow> M x v)", OF triple_attempt[OF triple_weaken[OF assms(2)]]])
      (auto intro: assms(4) triple_weaken[OF fail] triple_weaken[OF assms(3)] split: sum.split)
qed


section \<open>The hand-over\<close>

definition staged_installer :: "'v update_env \<Rightarrow> manifest \<Rightarrow> update_world \<Rightarrow> bool" where
  "staged_installer env m v \<longleftrightarrow>
     verify_file env (sg_files (stage_at (stage_dir m) v)) (uf_name (mf_installer m)) (mf_installer m) = Inr ()"

text \<open>The last answers of the workers: one for each profile that has a worker, and all the jobs and reservations
  they count.\<close>

definition tally :: "('a \<Rightarrow> int) \<Rightarrow> 'a list \<Rightarrow> int" where
  "tally g xs = foldl (\<lambda>n x. wrap64 (n + g x)) 0 xs"

definition asked :: "update_world \<Rightarrow> string list" where
  "asked u = filter (\<lambda>p. p \<in> set (uw_children u)) [''cpu'', ''gpu'']"

definition drained :: "update_world \<Rightarrow> update_world \<Rightarrow> bool" where
  "drained u v \<longleftrightarrow> \<not> uw_maintenance u \<and> (uw_configured u \<longrightarrow> asked u = [''cpu'', ''gpu'']) \<and>
     (\<exists>before used. uw_workers u = before @ map Some used @ uw_workers v \<and> length used = length (asked u) \<and>
       tally fst used \<le> 0 \<and> tally snd used \<le> 0)"

lemma drain_asks:
  assumes "drain_for_update v = (Inr (active, reserved), w)"
  shows "\<not> uw_maintenance v \<and> (uw_configured v \<longrightarrow> asked v = [''cpu'', ''gpu'']) \<and>
    (\<exists>used. uw_workers v = map Some used @ uw_workers w \<and> length used = length (asked v) \<and>
       active = tally fst used \<and> reserved = tally snd used)"
proof -
  let ?c = "''cpu'' \<in> set (uw_children v)" and ?g = "''gpu'' \<in> set (uw_children v)"
  show ?thesis
    using assms
    by (cases ?c; cases ?g)
      (auto simp: drain_for_update_def asked_def tally_def retP_def Cons_eq_map_conv split: if_splits list.splits option.splits)
qed

lemma drain_drained:
  assumes "drawn u v" and "drain_for_update v = (Inr (active, reserved), w)" and "active \<le> 0" and "reserved \<le> 0"
  shows "drained u w"
proof -
  obtain used where "uw_workers v = map Some used @ uw_workers w" "length used = length (asked v)"
    "tally fst used \<le> 0" "tally snd used \<le> 0"
    using drain_asks[OF assms(2)] assms(3,4) by auto
  moreover obtain before where "uw_workers u = before @ uw_workers v" using assms(1) by (auto simp: drawn_def)
  moreover have "asked v = asked u" using assms(1) by (simp add: drawn_def asked_def)
  ultimately show ?thesis
    using drain_asks[OF assms(2)] assms(1) by (auto simp: drained_def drawn_def intro!: exI[of _ before] exI[of _ used])
qed

lemma drained_simps [simp]:
  "drained u (s\<lparr>uw_plan := ps\<rparr>) = drained u s" "drained u (s\<lparr>uw_clock := cs\<rparr>) = drained u s"
  "drained u (s\<lparr>uw_memory := m\<rparr>) = drained u s" "drained u (s\<lparr>uw_state := x\<rparr>) = drained u s"
  "drained u (s\<lparr>uw_transaction := t\<rparr>) = drained u s" "drained u (s\<lparr>uw_stages := g\<rparr>) = drained u s"
  by (simp_all add: drained_def)

definition handed :: "'v update_env \<Rightarrow> string \<Rightarrow> string \<Rightarrow> update_world \<Rightarrow> candidate \<Rightarrow> update_world \<Rightarrow> bool" where
  "handed env key version f c v \<longleftrightarrow> drawn f v \<and> shut v \<and> drained f v \<and> us_candidate (uw_memory v) = Some c \<and>
     (\<exists>y. uw_state v = Saved y \<and> us_candidate y = Some c) \<and> (\<exists>t m.
     uw_transaction v = Saved t \<and> tx_phase t \<in> {''prepared'', ''retrying''} \<and> tx_previous t = version \<and> tx_candidate t = c \<and>
     verify_manifest env (cd_data c) (cd_signature c) key = Inr m \<and>
     version_test env (ue_newer env) (mf_version m) version \<and> staged_installer env m v)"

lemma keeps_ensure_staged:
  assumes "fine b s"
  shows "triple (waiting b X f) (ensure_staged env key now c m s) (\<lambda>r v. waiting b X f v \<and> (\<forall>x. r = Inr x \<longrightarrow> fine b x \<and>
    us_pending x = us_pending s \<and> us_candidate x = us_candidate s))" (is "triple _ _ ?Q")
proof -
  let ?s = "s\<lparr>us_phase := ''downloading'', us_message := ''Downloading the mandatory update. Accepted jobs are finishing.''\<rparr>"
  have fine: "fine b ?s" using assms by (auto simp: fine_def)
  let ?M = "\<lambda>v. waiting b X f v \<and> progressed ?s (uw_memory v)"
  have deaf: "deaf ?M" by (intro deaf_and deaf_waiting deaf_memory)
  have read: "triple ?M (bindP (readP uw_memory) (\<lambda>s. case r of Inl e \<Rightarrow> failure env now s e
      | Inr _ \<Rightarrow> retP (s\<lparr>us_downloaded := us_total s\<rparr>))) ?Q" for r :: "update_error + string"
  proof (rule triple_bind_read)
    fix x
    show "triple (\<lambda>v. ?M v \<and> uw_memory v = x) (case r of Inl e \<Rightarrow> failure env now x e
      | Inr _ \<Rightarrow> retP (x\<lparr>us_downloaded := us_total x\<rparr>)) ?Q"
    proof (cases "progressed ?s x")
      case True
      have fail: "triple (waiting b X f) (failure env now x e :: update_state update_op) ?Q" for e
        by (rule failure_triple) (use progressedD[OF True] fine in auto)
      from progressedD[OF True] fine show ?thesis
        by (auto intro!: triple_ret triple_weaken[OF fail] split: sum.split)
    next
      case False
      then show ?thesis by (auto simp: triple_def)
    qed
  qed
  have load: "triple (\<lambda>v. waiting b X f v \<and> uw_memory v = ?s) (bindP (attempt (stage_download env key c report_progress))
      (\<lambda>r. bindP (readP uw_memory) (\<lambda>s. case r of Inl e \<Rightarrow> failure env now s e
      | Inr _ \<Rightarrow> retP (s\<lparr>us_downloaded := us_total s\<rparr>)))) ?Q"
  proof (rule triple_pre)
    show "triple ?M (bindP (attempt (stage_download env key c report_progress))
      (\<lambda>r. bindP (readP uw_memory) (\<lambda>s. case r of Inl e \<Rightarrow> failure env now s e
      | Inr _ \<Rightarrow> retP (s\<lparr>us_downloaded := us_total s\<rparr>)))) ?Q"
      by (rule triple_then[OF keeps_attempt[OF keeps_stage_download[OF deaf keeps_report_progress[OF fine]]] _ read]) simp
  qed auto
  have set: "triple (waiting b X f) (set_op ?s) (\<lambda>r v. waiting b X f v \<and> (\<forall>x. r = Inr x \<longrightarrow> uw_memory v = ?s))"
    by (rule triple_weaken[OF set_op_triple[OF fine]]) auto
  show ?thesis
    unfolding ensure_staged_def Let_def
    by (rule triple_then[OF keeps_attempt[OF keeps_verify_staged[OF steady_waiting]]])
      (use assms fine in \<open>auto intro!: triple_ret or_failure_triple[OF _ set load] split: sum.split\<close>)
qed


definition to_hand :: "update_world \<Rightarrow> candidate \<Rightarrow> update_world \<Rightarrow> bool" where
  "to_hand f c v \<longleftrightarrow> drawn f v \<and> shut v \<and> drained f v \<and> us_candidate (uw_memory v) = Some c \<and>
     (\<exists>y. uw_state v = Saved y \<and> us_candidate y = Some c)"

lemma to_hand_simps [simp]:
  "to_hand f c (v\<lparr>uw_plan := ps\<rparr>) = to_hand f c v" "to_hand f c (v\<lparr>uw_clock := cs\<rparr>) = to_hand f c v"
  "to_hand f c (v\<lparr>uw_transaction := t\<rparr>) = to_hand f c v" "to_hand f c (v\<lparr>uw_stages := g\<rparr>) = to_hand f c v"
  by (simp_all add: to_hand_def shut_def)

lemma stage_file_simps [simp]:
  "to_hand f c (stage_file d n b v) = to_hand f c v" "uw_transaction (stage_file d n b v) = uw_transaction v"
  by (simp_all add: stage_file_def set_stage_def)

lemma staged_simps [simp]:
  "staged_installer env m (v\<lparr>uw_plan := ps\<rparr>) = staged_installer env m v"
  "staged_installer env m (v\<lparr>uw_clock := cs\<rparr>) = staged_installer env m v"
  "staged_installer env m (v\<lparr>uw_transaction := t\<rparr>) = staged_installer env m v"
  "staged_installer env m (v\<lparr>uw_state := x\<rparr>) = staged_installer env m v"
  "staged_installer env m (v\<lparr>uw_memory := y\<rparr>) = staged_installer env m v"
  by (simp_all add: staged_installer_def)

lemma installer_is_no_updater: "verify_manifest env d sg key = Inr m \<Longrightarrow> uf_name (mf_installer m) \<noteq> updater_name"
  by (auto dest!: verify_manifest_valid(3)
      simp: validate_manifest_def installer_name_def updater_name_def Let_def split: if_splits)

lemma staged_beside:
  "n \<noteq> uf_name (mf_installer m) \<Longrightarrow> staged_installer env m (stage_file d n b v) = staged_installer env m v"
  by (simp add: staged_installer_def stage_file_def stage_at_set verify_file_def put_file_def map_of_upsert)

lemma prepare_install_hands_over:
  assumes m: "verify_manifest env (cd_data c) (cd_signature c) key = Inr m"
    and newer: "version_test env (ue_newer env) (mf_version m) version"
  shows "triple (\<lambda>v. uw_transaction v = X \<and> to_hand f c v) (prepare_install env dir owner version c m)
    (\<lambda>r v. uw_transaction v = X \<and> to_hand f c v \<or> handed env key version f c v)" (is "triple ?B _ (\<lambda>_. ?Q)")
proof -
  let ?S = "\<lambda>v. ?B v \<and> staged_installer env m v"
  have st: "steady ?B" "steady ?S" by (simp_all add: steady_def)
  have staged: "triple ?B (verify_staged env (stage_dir m) (mf_installer m)) (\<lambda>r v. ?B v \<and> (r = Inr () \<longrightarrow> ?S v))"
    unfolding verify_staged_def
    by (rule triple_then[OF keeps_touch[OF st(1)]]) (auto simp: triple_def staged_installer_def)
  have copied: "triple ?S (copy_updater (stage_dir m)) (\<lambda>r v. ?B v \<and> (r = Inr () \<longrightarrow> ?S v))"
    unfolding copy_updater_def
  proof (rule triple_bind_read)
    fix tree
    have sys: "triple ?S (copy_file (stage_file (stage_dir m)) updater_name bytes) (\<lambda>r v. ?B v \<and> (r = Inr () \<longrightarrow> ?S v))" for bytes
      unfolding copy_file_def
      by (rule triple_sys[OF st(2)])
        (use installer_is_no_updater[OF m] in \<open>auto simp: staged_beside\<close>)
    show "triple (\<lambda>v. ?S v \<and> uw_install v = tree) (case map_of tree updater_name of None \<Rightarrow> failP UeSystem
       | Some bytes \<Rightarrow> copy_file (stage_file (stage_dir m)) updater_name bytes) (\<lambda>r v. ?B v \<and> (r = Inr () \<longrightarrow> ?S v))"
    proof (cases "map_of tree updater_name")
      case None
      show ?thesis unfolding None option.case by (rule triple_fail) simp
    next
      case (Some bytes)
      show ?thesis unfolding Some option.case by (rule triple_pre[OF sys]) simp
    qed
  qed
  have rest: "triple ?S (bindP (save_transaction t) (\<lambda>_. bindP (started_or_retrying t touch) (\<lambda>_. started_or_retrying t touch)))
      (\<lambda>_. ?Q)" if t: "tx_candidate t = c" "tx_phase t = ''prepared''" "tx_previous t = version" for t
  proof -
    let ?T = "\<lambda>v. to_hand f c v \<and> staged_installer env m v \<and> uw_transaction v \<in> {Saved t, Saved (t\<lparr>tx_phase := ''retrying''\<rparr>)}"
    have stT: "steady ?T" by (simp add: steady_def)
    have handover: "?T v \<Longrightarrow> handed env key version f c v" for v
      using m newer t by (auto simp: handed_def to_hand_def)
    have start: "keeps ?T (started_or_retrying t touch)"
      unfolding started_or_retrying_def save_transaction_def replace_file_def
      by (intro keeps_intros keeps_touch stT kept_sys) auto
    have save: "triple ?S (save_transaction t) (\<lambda>r v. ?Q v \<and> (r = Inr () \<longrightarrow> ?T v))"
      by (rule save_transaction_triple[OF st(2)]) (auto intro: handover)
    show ?thesis
      by (rule triple_bind[where M="\<lambda>_. ?T", OF triple_weaken[OF save] keeps_replies[OF keeps_bind[OF start start]]])
        (auto intro: handover split: sum.split)
  qed
  have ident: "keeps ?B (check_identity dir owner)" by (rule keeps_identity[OF st(1)])
  show ?thesis
    unfolding prepare_install_def Let_def
    by (intro triple_then[OF keeps_touch[OF st(1)]] triple_then[OF ident]
        triple_bind[where M="\<lambda>_. ?S", OF triple_weaken[OF staged]]
        triple_bind[where M="\<lambda>_. ?S", OF triple_weaken[OF copied]] triple_then[OF keeps_now[OF st(2)]] rest)
      (auto split: sum.split)
qed


section \<open>A step of the manager\<close>

lemma set_op_success:
  "set_op s v = (Inr (), w) \<Longrightarrow> uw_memory w = s \<and> uw_state w = Saved s \<and> uw_transaction w = uw_transaction v \<and>
    (\<forall>u. drawn u w = drawn u v) \<and> (\<forall>u. drained u w = drained u v)"
  by (auto simp: set_op_def save_state_def replace_file_def sys_call_def next_call_def proc_simps
      split: list.splits outcome.splits if_splits)

lemma keeps_handed:
  assumes "us_pending s" and "us_phase s \<noteq> []" and "us_candidate s = Some c"
  shows "keeps (handed env key version f c) (set_op s)"
proof -
  have st: "steady (handed env key version f c)"
    by (auto simp: steady_def handed_def shut_def)
  have mem: "keeps (handed env key version f c) (writeP (\<lambda>w. w\<lparr>uw_memory := s\<rparr>))"
    using assms(1,3) by (auto simp: keeps_def writeP_def handed_def shut_def)
  have "keeps (handed env key version f c) (save_state s)"
    unfolding save_state_def replace_file_def
    by (rule kept_sys[OF st]) (use assms in \<open>auto simp: handed_def shut_def locked_def\<close>)
  with mem show ?thesis unfolding set_op_def by (intro keeps_bind)
qed

text \<open>What a step may end with: nothing handed over, or one justified hand-over.\<close>

definition stepped :: "'v update_env \<Rightarrow> string \<Rightarrow> string \<Rightarrow> bool \<Rightarrow> transaction saved \<Rightarrow> update_world \<Rightarrow> update_world \<Rightarrow> bool" where
  "stepped env key version b X f v \<longleftrightarrow> waiting b X f v \<or> (\<exists>c. handed env key version f c v)"

lemma hand_over_steps:
  assumes s: "us_pending s" "us_candidate s = Some c"
    and m: "verify_manifest env (cd_data c) (cd_signature c) key = Inr m"
    and newer: "version_test env (ue_newer env) (mf_version m) version"
  shows "triple (waiting b X f) (hand_over env dir owner version now c m s) (\<lambda>_. stepped env key version b X f)"
proof -
  let ?Q = "\<lambda>r. stepped env key version b X f"
  let ?s = "s\<lparr>us_phase := ''installing'', us_next_retry := None,
              us_message := ''Installing the mandatory update. Configuration remains locked.''\<rparr>"
  have waits: "waiting b X f v \<Longrightarrow> stepped env key version b X f v" for v by (simp add: stepped_def)
  have drain: "triple (waiting b X f) drain_for_update (\<lambda>r v. waiting b X f v \<and>
      (\<forall>x. r = Inr x \<longrightarrow> fst x \<le> 0 \<and> snd x \<le> 0 \<longrightarrow> drained f v))"
  proof (rule tripleI)
    fix s r v
    assume P: "waiting b X f s" and run: "drain_for_update s = (r, v)"
    from keepsD[OF keeps_drain[OF deaf_waiting] P run] have "waiting b X f v" .
    with P run show "waiting b X f v \<and> (\<forall>x. r = Inr x \<longrightarrow> fst x \<le> 0 \<and> snd x \<le> 0 \<longrightarrow> drained f v)"
      using drain_drained[of f s] by (auto simp: waiting_def)
  qed
  have set: "triple (\<lambda>v. waiting b X f v \<and> drained f v) (set_op ?s)
      (\<lambda>r v. waiting b X f v \<and> (\<forall>x. r = Inr x \<longrightarrow> uw_transaction v = X \<and> to_hand f c v))"
  proof (rule tripleI)
    fix v r w
    assume v: "waiting b X f v \<and> drained f v" and run: "set_op ?s v = (r, w)"
    have "fine b ?s" using s(1) by (simp add: fine_def)
    then have "waiting b X f w" using keepsD[OF keeps_set_op _ run] v by blast
    moreover have "uw_transaction w = X \<and> to_hand f c w" if r: "r = Inr x" for x
    proof -
      have "set_op ?s v = (Inr (), w)" using run r by simp
      from set_op_success[OF this] v s show ?thesis
        by (simp add: to_hand_def waiting_def shut_def locked_def)
    qed
    ultimately show "waiting b X f w \<and> (\<forall>x. r = Inr x \<longrightarrow> uw_transaction w = X \<and> to_hand f c w)" by blast
  qed
  have to_hand_waits: "uw_transaction v = X \<and> to_hand f c v \<Longrightarrow> waiting b X f v" for v
    by (simp add: to_hand_def waiting_def)
  let ?P = "\<lambda>v. uw_transaction v = X \<and> to_hand f c v \<or> handed env key version f c v"
  have fail: "triple ?P (failure env now ?s e :: unit update_op) ?Q" for e
  proof (rule tripleI)
    fix v w and r :: "update_error + unit"
    assume v: "?P v" and run: "failure env now ?s e v = (r, w)"
    from v consider "waiting b X f v" | "handed env key version f c v" using to_hand_waits by blast
    then show "stepped env key version b X f w"
    proof cases
      case 1
      then have "waiting b X f w" using keepsD[OF keeps_failure _ run] s(1) by auto
      then show ?thesis by (rule waits)
    next
      case 2
      have "keeps (handed env key version f c) (failure env now ?s e :: unit update_op)"
        unfolding failure_def by (intro keeps_intros keeps_handed) (simp_all add: fail_state_def s)
      from keepsD[OF this 2 run] show ?thesis by (auto simp: stepped_def)
    qed
  qed
  have fin: "?P v \<Longrightarrow> stepped env key version b X f v" for v
    using to_hand_waits waits by (auto simp: stepped_def)
  have attempted: "triple (\<lambda>v. uw_transaction v = X \<and> to_hand f c v) (attempt (prepare_install env dir owner version c m)) (\<lambda>_. ?P)"
    by (rule triple_attempt[OF triple_weaken[OF prepare_install_hands_over[OF m newer]]]) auto
  have handover: "triple (\<lambda>v. uw_transaction v = X \<and> to_hand f c v) (or_failure env now ?s (prepare_install env dir owner version c m) retP) ?Q"
    unfolding or_failure_def
  proof (rule triple_bind[where M="\<lambda>_. ?P", OF triple_weaken[OF attempted]])
    show "triple ?P (case r of Inl e \<Rightarrow> failure env now ?s e | Inr x \<Rightarrow> retP x) ?Q" for r :: "update_error + unit"
      by (cases r) (auto intro: fail triple_ret[OF fin])
  qed (auto simp: stepped_def waiting_def to_hand_def split: sum.split)
  have busy: "keeps (waiting b X f) (set_op (s\<lparr>us_phase := ''draining'', us_message := x\<rparr>))" for x
    by (rule keeps_set_op) (simp add: fine_def s)
  have hand: "triple (\<lambda>v. waiting b X f v \<and> drained f v) (or_failure env now ?s (set_op ?s) (\<lambda>_.
      or_failure env now ?s (prepare_install env dir owner version c m) retP)) ?Q"
    by (rule or_failure_triple[OF _ set]) (use s waits in \<open>auto intro: triple_pre[OF handover]\<close>)
  have go: "triple (\<lambda>v. waiting b X f v \<and> (fst x \<le> 0 \<and> snd x \<le> 0 \<longrightarrow> drained f v))
      (case x of (active, reserved) \<Rightarrow> if 0 < active \<or> 0 < reserved
        then set_op (s\<lparr>us_phase := ''draining'', us_message := ''Waiting for all accepted jobs and uploads to finish.''\<rparr>)
        else or_failure env now ?s (set_op ?s) (\<lambda>_. or_failure env now ?s (prepare_install env dir owner version c m) retP)) ?Q" for x :: "int \<times> int"
  proof (cases x)
    case (Pair active reserved)
    show ?thesis
    proof (cases "0 < active \<or> 0 < reserved")
      case True
      show ?thesis
        unfolding Pair prod.case if_P[OF True] by (rule triple_pre[OF keeps_replies[OF busy]]) (use waits in auto)
    next
      case False
      show ?thesis
        unfolding Pair prod.case if_not_P[OF False]
        by (rule triple_pre[OF hand]) (use False Pair in \<open>auto simp: not_less\<close>)
    qed
  qed
  show ?thesis
    unfolding hand_over_def Let_def
    by (rule or_failure_triple[OF _ drain go]) (use s waits in auto)
qed


lemma drive_pending_steps:
  assumes s: "us_pending s" and "fine b s"
  shows "triple (waiting b X f) (drive_pending env key dir owner version now s) (\<lambda>_. stepped env key version b X f)"
proof -
  let ?Q = "\<lambda>r. stepped env key version b X f"
  have waits: "waiting b X f v \<Longrightarrow> stepped env key version b X f v" for v by (simp add: stepped_def)
  have fail: "triple (waiting b X f) (failure env now s e :: unit update_op) ?Q" for e
    by (rule failure_triple) (use s waits in auto)
  show ?thesis
  proof (cases "us_candidate s")
    case None
    show ?thesis unfolding drive_pending_def None option.case by (rule fail)
  next
    case (Some c)
    have verify: "triple (waiting b X f) (liftP (verify_manifest env (cd_data c) (cd_signature c) key))
        (\<lambda>r v. waiting b X f v \<and> (\<forall>m. r = Inr m \<longrightarrow> verify_manifest env (cd_data c) (cd_signature c) key = Inr m))"
      by (rule triple_lift) auto
    have version: "triple (waiting b X f) (liftP (version_of env version)) (\<lambda>r v. waiting b X f v \<and> (\<forall>x. r = Inr x \<longrightarrow> True))"
      by (rule triple_lift) auto
    have stage: "triple (waiting b X f) (bindP (ensure_staged env key now c m s) (hand_over env dir owner version now c m)) ?Q"
      if m: "verify_manifest env (cd_data c) (cd_signature c) key = Inr m" "version_test env (ue_newer env) (mf_version m) version" for m
    proof (rule triple_bind[where M="\<lambda>x v. waiting b X f v \<and> us_pending x \<and> us_candidate x = Some c",
            OF triple_weaken[OF keeps_ensure_staged[OF assms(2)]]])
      show "triple (\<lambda>v. waiting b X f v \<and> us_pending x \<and> us_candidate x = Some c) (hand_over env dir owner version now c m x) ?Q" for x
        using hand_over_steps[OF _ _ m, of x b X f dir owner now] by (auto simp: triple_def)
    qed (use s Some waits in \<open>auto split: sum.split\<close>)
    have drain: "triple (waiting b X f) drain_for_update (\<lambda>r v. waiting b X f v \<and> (\<forall>x. r = Inr x \<longrightarrow> True))"
      by (rule keeps_replies[OF keeps_drain[OF deaf_waiting]]) simp
    have go: "triple (\<lambda>v. waiting b X f v \<and> True) (if \<not> version_test env (ue_newer env) (mf_version m) version
        then failure env now s UeNotNewer
        else or_failure env now s drain_for_update (\<lambda>_. bindP (ensure_staged env key now c m s) (hand_over env dir owner version now c m))) ?Q"
      if "verify_manifest env (cd_data c) (cd_signature c) key = Inr m" for m
      using that by (auto intro!: fail or_failure_triple[OF _ drain] stage simp: s waits)
    have parsed: "triple (\<lambda>v. waiting b X f v \<and> verify_manifest env (cd_data c) (cd_signature c) key = Inr m)
        (or_failure env now s (liftP (version_of env version)) (\<lambda>_.
         if \<not> version_test env (ue_newer env) (mf_version m) version then failure env now s UeNotNewer
         else or_failure env now s drain_for_update (\<lambda>_. bindP (ensure_staged env key now c m s) (hand_over env dir owner version now c m)))) ?Q" for m
    proof (cases "verify_manifest env (cd_data c) (cd_signature c) key = Inr m")
      case True
      show ?thesis by (rule triple_pre[OF or_failure_triple[OF _ version go[OF True]]]) (use s waits in auto)
    next
      case False
      then show ?thesis by (simp add: triple_def)
    qed
    show ?thesis
      unfolding drive_pending_def Some option.case
      by (rule or_failure_triple[OF _ verify parsed]) (use s waits in auto)
  qed
qed

lemma found_release_fine: "fine b s \<Longrightarrow> fine b (settle_current (found_release env key found s))"
  by (auto simp: fine_def settle_current_def found_release_def split: option.splits)

lemma look_for_release_steps:
  assumes "fine b s"
  shows "triple (waiting b X f) (look_for_release env key version now s) (\<lambda>r v. waiting b X f v \<and> (\<forall>x. r = Inr x \<longrightarrow> fine b x))"
proof -
  let ?s = "s\<lparr>us_last_check := Some now\<rparr>"
  let ?Q = "\<lambda>r v. waiting b X f v \<and> (\<forall>x. r = Inr x \<longrightarrow> fine b x)"
  have found: "fine b (settle_current (found_release env key found ?s))" for found
    using assms by (intro found_release_fine) simp
  have set: "triple (waiting b X f) (set_op x) (\<lambda>r v. waiting b X f v \<and> (\<forall>y. r = Inr y \<longrightarrow> True))" if "fine b x" for x
    by (rule triple_weaken[OF set_op_triple[OF that]]) auto
  have "triple (waiting b X f) (case r of Inl e \<Rightarrow> failure env now ?s e
      | Inr found \<Rightarrow> (let s = settle_current (found_release env key found ?s) in or_failure env now s (set_op s) (\<lambda>_. retP s))) ?Q" for r
    unfolding Let_def
    by (cases r) (use assms found in \<open>auto intro!: failure_triple or_failure_triple[OF _ set] triple_ret\<close>)
  then show ?thesis
    unfolding look_for_release_def Let_def
    by (intro triple_then[OF keeps_attempt[OF keeps_check_release[OF deaf_waiting]]]) auto
qed

lemma idle_step_steps:
  assumes "fine b s"
  shows "triple (waiting b X f) (idle_step env key dir owner version interval now force s) (\<lambda>_. stepped env key version b X f)"
proof -
  let ?Q = "\<lambda>_. stepped env key version b X f"
  have waits: "waiting b X f v \<Longrightarrow> stepped env key version b X f v" for v by (simp add: stepped_def)
  have look: "triple (waiting b X f) (if check_due interval now force s then look_for_release env key version now s else retP s)
      (\<lambda>r v. waiting b X f v \<and> (\<forall>x. r = Inr x \<longrightarrow> fine b x))"
    using look_for_release_steps[OF assms] assms by (auto intro: triple_ret)
  have drive: "triple (\<lambda>v. waiting b X f v \<and> fine b x) (if \<not> us_pending x \<or> \<not> retry_due now s then retP ()
      else drive_pending env key dir owner version now x) ?Q" for x
  proof (cases "fine b x")
    case True
    then show ?thesis by (auto intro: triple_ret waits triple_pre[OF drive_pending_steps])
  next
    case False
    then show ?thesis by (simp add: triple_def)
  qed
  show ?thesis
    unfolding idle_step_def Let_def
    by (rule triple_bind[where M="\<lambda>x v. waiting b X f v \<and> fine b x", OF triple_weaken[OF look] drive])
      (auto intro: waits split: sum.split)
qed


lemma load_state_fine:
  "triple (waiting b X f) (attempt load_state) (\<lambda>r v. waiting b X f v \<and> (\<forall>x. r = Inr (Inr x) \<longrightarrow> fine b x))"
proof (rule tripleI)
  fix s r w
  assume P: "waiting b X f s" and run: "attempt load_state s = (r, w)"
  have w: "waiting b X f w"
    by (rule keepsD[OF keeps_attempt[OF keeps_load_state[OF steady_waiting]] P run])
  have "uw_state w = Saved x \<or> (uw_state w = Absent \<and> x = blank_state)" if "r = Inr (Inr x)" for x
    using run that
    by (auto simp: attempt_def load_state_def read_saved_def touch_def sys_call_def next_call_def proc_simps
        split: prod.splits sum.splits list.splits outcome.splits saved.splits if_splits)
  with w show "waiting b X f w \<and> (\<forall>x. r = Inr (Inr x) \<longrightarrow> fine b x)"
    by (auto simp: waiting_def fine_def shut_def locked_def)
qed

text \<open>The wait may end when the transaction is complete and is the one of the state that is pending.\<close>

definition settled :: "'v update_env \<Rightarrow> string \<Rightarrow> bool \<Rightarrow> transaction saved \<Rightarrow> update_state \<Rightarrow> bool" where
  "settled env key b X s \<longleftrightarrow> fine b s \<and> (\<forall>t m. X = Saved t \<longrightarrow> tx_phase t = ''completed'' \<longrightarrow>
     verify_manifest env (cd_data (tx_candidate t)) (cd_signature (tx_candidate t)) key = Inr m \<longrightarrow> same_pending m t s \<longrightarrow> b)"

definition unmatched :: "'v update_env \<Rightarrow> string \<Rightarrow> bool \<Rightarrow> transaction saved \<Rightarrow> update_state saved \<Rightarrow> bool" where
  "unmatched env key b X Y \<longleftrightarrow> b \<or> (\<forall>y. Y = Saved y \<longrightarrow> us_pending y \<and> us_phase y \<noteq> [] \<longrightarrow> settled env key b X y)"

lemma settled_installed [simp]: "settled env key b X (s\<lparr>us_installed := v\<rparr>) = settled env key b X s"
  by (simp add: settled_def same_pending_def)

lemma load_state_settled:
  assumes "unmatched env key b X Y"
  shows "triple (\<lambda>s. waiting b X f s \<and> uw_state s = Y) (attempt load_state)
    (\<lambda>r v. waiting b X f v \<and> (\<forall>x. r = Inr (Inr x) \<longrightarrow> settled env key b X x))"
proof (rule tripleI)
  fix s r w
  assume P: "waiting b X f s \<and> uw_state s = Y" and run: "attempt load_state s = (r, w)"
  have "steady (\<lambda>s. waiting b X f s \<and> uw_state s = Y)" using steady_waiting[of b X f] by (simp add: steady_def)
  from keepsD[OF keeps_attempt[OF keeps_load_state[OF this]] P run] have w: "waiting b X f w" "uw_state w = Y" by simp_all
  have "settled env key b X x" if r: "r = Inr (Inr x)" for x
  proof (cases b)
    case True
    then show ?thesis by (simp add: settled_def fine_def)
  next
    case False
    with w have "\<exists>y. uw_state w = Saved y \<and> us_pending y \<and> us_phase y \<noteq> []" by (auto simp: waiting_def shut_def locked_def)
    moreover have "uw_state w = Saved x \<or> (uw_state w = Absent \<and> x = blank_state)"
      using run r
      by (auto simp: attempt_def load_state_def read_saved_def touch_def sys_call_def next_call_def proc_simps
          split: prod.splits sum.splits list.splits outcome.splits saved.splits if_splits)
    ultimately show ?thesis using assms False w(2) by (auto simp: unmatched_def)
  qed
  with w(1) show "waiting b X f w \<and> (\<forall>x. r = Inr (Inr x) \<longrightarrow> settled env key b X x)" by blast
qed

lemma keeps_memory: "us_pending x \<or> b \<Longrightarrow> keeps (waiting b X f) (writeP (\<lambda>w. w\<lparr>uw_memory := x\<rparr>))"
  by (auto simp: keeps_def writeP_def waiting_def shut_def)

lemma after_transaction_steps:
  assumes s: "settled env key b X s" and t: "\<forall>u. t = Some u \<longrightarrow> X = Saved u"
    and rest: "triple (waiting b X f) rest (\<lambda>_. stepped env key version b X f)"
  shows "triple (waiting b X f) (after_transaction env key version now t s rest) (\<lambda>_. stepped env key version b X f)"
proof -
  let ?Q = "\<lambda>_. stepped env key version b X f"
  have waits: "waiting b X f v \<Longrightarrow> stepped env key version b X f v" for v by (simp add: stepped_def)
  have fine: "fine b s" using s by (simp add: settled_def)
  have clear: "triple (waiting b X f) (clear_completed env version) ?Q" if b
  proof -
    have "keeps (waiting b X f) (clear_completed env version)"
      using that by (intro keeps_clear_completed) (auto simp: aside_def steady_def waiting_def)
    then show ?thesis by (rule keeps_replies) (rule waits)
  qed
  show ?thesis
  proof (cases t)
    case None
    then show ?thesis using rest by (simp add: after_transaction_def)
  next
    case (Some u)
    show ?thesis
    proof (cases "tx_phase u = ''completed'' \<and> us_pending s")
      case True
      let ?v = "verify_manifest env (cd_data (tx_candidate u)) (cd_signature (tx_candidate u)) key"
      have verify: "triple (waiting b X f) (liftP ?v) (\<lambda>r v. waiting b X f v \<and> (\<forall>m. r = Inr m \<longrightarrow> ?v = Inr m))"
        by (rule triple_lift) auto
      have version: "triple (waiting b X f) (liftP z) (\<lambda>r v. waiting b X f v \<and> (\<forall>x. r = Inr x \<longrightarrow> True))" for z :: "update_error + 'c"
        by (rule triple_lift) auto
      have ends: "triple (\<lambda>v. waiting b X f v \<and> True) (if z \<and> same_pending m u s then clear_completed env version else rest) ?Q"
        if m: "?v = Inr m" for m z
      proof (cases "z \<and> same_pending m u s")
        case c: True
        then have b using s m True t Some by (auto simp: settled_def)
        with c clear show ?thesis by simp
      next
        case False
        with rest show ?thesis by auto
      qed
      have inner: "triple (\<lambda>v. waiting b X f v \<and> ?v = Inr m) (or_failure env now s (liftP (version_of env version))
          (\<lambda>_. if version_test env (ue_same env) version (mf_version m) \<and> same_pending m u s
               then clear_completed env version else rest)) ?Q" for m
      proof (cases "?v = Inr m")
        case m: True
        show ?thesis
          by (rule triple_pre[OF or_failure_triple[OF _ version ends[OF m]]]) (use fine waits in auto)
      next
        case False
        then show ?thesis by (auto simp: triple_def)
      qed
      show ?thesis
        unfolding after_transaction_def Some option.case if_P[OF True]
        by (rule or_failure_triple[OF _ verify inner]) (use fine waits in auto)
    next
      case False
      show ?thesis unfolding after_transaction_def Some option.case if_not_P[OF False] by (rule rest)
    qed
  qed
qed

lemma load_transaction_steps:
  "triple (waiting b X f) load_transaction (\<lambda>r v. waiting b X f v \<and> (\<forall>t. r = Inr t \<longrightarrow> (\<forall>u. t = Some u \<longrightarrow> X = Saved u)))"
  by (rule triple_weaken[OF load_transaction_reads[OF steady_waiting]]) (auto simp: waiting_def)

lemma keeps_recover_running:
  assumes "steady P"
  shows "keeps P (recover_running env key t)"
proof -
  have "keeps P (bindP now_op (\<lambda>n. if n - tx_started t < 30 then retP () else touch))"
    by (intro keeps_intros keeps_now keeps_touch assms)
  then show ?thesis by (simp add: keeps_def recover_running_def)
qed

lemma manager_step_steps:
  assumes "unmatched env key b X Y"
  shows "triple (\<lambda>s. waiting b X f s \<and> uw_state s = Y) (manager_step env key dir owner version interval now force) (\<lambda>_. stepped env key version b X f)"
proof -
  let ?Q = "\<lambda>_. stepped env key version b X f"
  have waits: "waiting b X f v \<Longrightarrow> stepped env key version b X f v" for v by (simp add: stepped_def)
  have fail: "triple (waiting b X f) (failure env now (s\<lparr>us_pending := True\<rparr>) e :: unit update_op) ?Q" for s e
    by (rule failure_triple) (auto intro: waits)
  have recover: "triple (waiting b X f) (bindP (writeP (\<lambda>w. w\<lparr>uw_memory := x\<rparr>)) (\<lambda>_. recover_running env key t)) ?Q"
    if "us_pending x" for x t
  proof (rule keeps_replies)
    show "keeps (waiting b X f) (bindP (writeP (\<lambda>w. w\<lparr>uw_memory := x\<rparr>)) (\<lambda>_. recover_running env key t))"
      using that by (intro keeps_bind keeps_memory keeps_recover_running steady_waiting) auto
  qed (rule waits)
  have go: "triple (\<lambda>v. waiting b X f v \<and> (\<forall>u. t = Some u \<longrightarrow> X = Saved u)) (if transaction_active t then
        (let s = s\<lparr>us_pending := True, us_phase := tx_phase (the t),
               us_message := (if tx_error (the t) \<noteq> [] then tx_error (the t) else us_message s)\<rparr> in
         bindP (writeP (\<lambda>w. w\<lparr>uw_memory := s\<rparr>)) (\<lambda>_. recover_running env key (the t)))
      else after_transaction env key version now t s (idle_step env key dir owner version interval now force s)) ?Q"
    if s: "settled env key b X s" for s t
  proof (cases "\<forall>u. t = Some u \<longrightarrow> X = Saved u")
    case True
    have "triple (waiting b X f) (after_transaction env key version now t s (idle_step env key dir owner version interval now force s)) ?Q"
      by (rule after_transaction_steps[OF s True idle_step_steps]) (use s in \<open>simp add: settled_def\<close>)
    with True show ?thesis by (auto simp: Let_def intro!: recover)
  next
    case False
    then show ?thesis by (auto simp: triple_def)
  qed
  have loaded: "triple (\<lambda>v. waiting b X f v \<and> settled env key b X s) (transaction_step env key dir owner version interval now force s) ?Q" for s
  proof (cases "settled env key b X s")
    case True
    have "triple (waiting b X f) (transaction_step env key dir owner version interval now force s) ?Q"
      unfolding transaction_step_def
      by (rule or_failure_triple[OF _ load_transaction_steps go[OF True]]) (auto intro: waits)
    then show ?thesis by (rule triple_pre) simp
  next
    case False
    then show ?thesis by (simp add: triple_def)
  qed
  have choose: "triple (\<lambda>v. waiting b X f v \<and> settled env key b X disk) (if us_phase disk \<noteq> []
      then bindP (writeP (\<lambda>w. w\<lparr>uw_memory := disk\<lparr>us_installed := version\<rparr>\<rparr>)) (\<lambda>_. readP uw_memory) else retP s0)
      (\<lambda>r v. case r of Inl e \<Rightarrow> stepped env key version b X f v | Inr s \<Rightarrow> waiting b X f v \<and> settled env key b X s)" for disk s0
  proof (cases "us_phase disk = []")
    case True
    then show ?thesis by (auto simp: triple_def proc_simps waiting_def settled_def fine_def)
  next
    case False
    then show ?thesis by (auto simp: triple_def proc_simps waiting_def shut_def settled_def fine_def same_pending_def)
  qed
  have body: "triple (\<lambda>v. waiting b X f v \<and> (\<forall>x. r = Inr x \<longrightarrow> settled env key b X x)) (case r of
      Inl e \<Rightarrow> failure env now (s0\<lparr>us_pending := True\<rparr>) e
    | Inr disk \<Rightarrow> bindP (if us_phase disk \<noteq> [] then bindP (writeP (\<lambda>w. w\<lparr>uw_memory := disk\<lparr>us_installed := version\<rparr>\<rparr>)) (\<lambda>_. readP uw_memory)
             else retP s0) (transaction_step env key dir owner version interval now force)) ?Q" for r s0
  proof (cases r)
    case (Inl e)
    then show ?thesis by (auto intro: triple_pre[OF fail])
  next
    case (Inr disk)
    show ?thesis
      unfolding Inr sum.case
      by (rule triple_pre[OF triple_bind[where M="\<lambda>s v. waiting b X f v \<and> settled env key b X s", OF choose loaded]]) auto
  qed
  show ?thesis
    unfolding manager_step_def
    by (intro triple_then[OF keeps_read] triple_bind[OF triple_weaken[OF load_state_settled[OF assms]] body])
      (auto intro: waits split: sum.split)
qed

end
