(* ===== verification/Update_Claims.thy ===== *)
theory Update_Claims
  imports Update_Barrier
begin

text \<open>
  The helper keeps the barrier, and the claims about the manager and the barrier.
\<close>

section \<open>The helper\<close>

definition going :: "candidate \<Rightarrow> update_world \<Rightarrow> bool" where
  "going c s \<longleftrightarrow> shut s \<and> \<not> tx_done (uw_transaction s) \<and> names_only c s \<and> installs c s"

lemma going_simps [simp]:
  "going c (s\<lparr>uw_plan := ps\<rparr>) = going c s" "going c (s\<lparr>uw_clock := cs\<rparr>) = going c s"
  "going c (s\<lparr>uw_install := f\<rparr>) = going c s" "going c (s\<lparr>uw_stages := g\<rparr>) = going c s"
  by (simp_all add: going_def shut_def names_only_def installs_def)

lemma steady_going: "steady (going c)"
  by (simp add: steady_def)

lemma going_barrier: "going c s \<Longrightarrow> barrier env key c s"
  by (auto simp: going_def barrier_def sound_def tx_done_def)

lemma load_names:
  assumes "steady P" and "\<And>s. P s \<Longrightarrow> names_only c s"
  shows "triple P load_state (\<lambda>r s. P s \<and> (\<forall>x. r = Inr x \<longrightarrow> us_candidate x \<in> {None, Some c}))"
proof (rule tripleI)
  fix s r w
  assume P: "P s" and run: "load_state s = (r, w)"
  from keepsD[OF keeps_load_state[OF assms(1)] P run] have w: "P w" .
  have "uw_state w = Saved x \<or> us_candidate x = None" if "r = Inr x" for x
    using run that
    by (auto simp: load_state_def read_saved_def touch_def sys_call_def next_call_def proc_simps blank_state_def
        split: prod.splits sum.splits list.splits outcome.splits saved.splits if_splits)
  with w assms(2)[OF w] show "P w \<and> (\<forall>x. r = Inr x \<longrightarrow> us_candidate x \<in> {None, Some c})"
    by (auto simp: names_only_def)
qed

lemma going_names: "going c s \<Longrightarrow> names_only c s"
  by (simp add: going_def)

lemmas load_state_names = load_names[OF steady_going going_names]

lemma keeps_load:
  assumes "\<And>x. us_candidate x \<in> {None, Some c} \<Longrightarrow> keeps (going c) (f x)"
  shows "keeps (going c) (bindP load_state f)"
proof -
  have "triple (\<lambda>s. going c s \<and> us_candidate x \<in> {None, Some c}) (f x) (\<lambda>_. going c)" for x
    using assms[of x] by (auto simp: triple_def keeps_def)
  then have "triple (going c) (bindP load_state f) (\<lambda>_. going c)"
    by (rule triple_bind[OF triple_weaken[OF load_state_names], rotated -1]) (auto split: sum.split)
  then show ?thesis by (simp add: triple_def keeps_def)
qed

lemma keeps_load_attempt:
  assumes "\<And>x. us_candidate x \<in> {None, Some c} \<Longrightarrow> keeps (going c) (f (Inr x))" and "\<And>e. keeps (going c) (f (Inl e))"
  shows "keeps (going c) (bindP (attempt load_state) f)"
proof -
  have "triple (\<lambda>s. going c s \<and> (\<forall>x. r = Inr x \<longrightarrow> us_candidate x \<in> {None, Some c})) (f r) (\<lambda>_. going c)" for r
    using assms by (cases r) (auto simp: triple_def keeps_def)
  then have "triple (going c) (bindP (attempt load_state) f) (\<lambda>_. going c)"
    by (rule triple_bind[OF triple_attempt[OF triple_weaken[OF load_state_names]], rotated -1]) auto
  then show ?thesis by (simp add: triple_def keeps_def)
qed

lemma going_save_state: "us_pending x \<Longrightarrow> us_phase x \<noteq> [] \<Longrightarrow> us_candidate x \<in> {None, Some c} \<Longrightarrow> keeps (going c) (save_state x)"
  unfolding save_state_def replace_file_def
  by (rule kept_sys[OF steady_going]) (auto simp: going_def shut_def locked_def names_only_def installs_def)

lemma going_save_transaction: "tx_phase t \<noteq> ''completed'' \<Longrightarrow> tx_candidate t = c \<Longrightarrow> keeps (going c) (save_transaction t)"
  unfolding save_transaction_def replace_file_def
  by (rule kept_sys[OF steady_going]) (auto simp: going_def shut_def tx_done_def names_only_def installs_def)

lemma going_copy_tree:
  assumes "\<And>n b s. going c s \<Longrightarrow> going c (put n b s)"
  shows "keeps (going c) (copy_tree src put)"
proof -
  have "keeps (going c) (copy_file put n b)" for n b
    unfolding copy_file_def by (rule kept_sys[OF steady_going]) (auto simp: assms)
  then show ?thesis
    unfolding copy_tree_def by (intro keeps_bind keeps_touch steady_going keeps_for) (auto split: prod.splits)
qed

lemma going_rollback: "keeps (going c) (rollback env t d)"
  unfolding rollback_def restore_tree_def remove_install_def
  by (intro keeps_intros steady_keeps steady_going kept_sys going_copy_tree)
    (auto simp: put_install_def drop_install_def)

lemma going_finish_recovery: "tx_candidate t = c \<Longrightarrow> keeps (going c) (finish_recovery env t)"
  unfolding finish_recovery_def Let_def
  by (intro keeps_load keeps_bind keeps_intros steady_keeps steady_going going_save_state going_save_transaction)
    (simp_all add: fail_state_def)

lemma going_note_failure: "keeps (going c) (note_failure env n e)"
  unfolding note_failure_def
  by (rule keeps_load_attempt; unfold sum.case; intro keeps_intros steady_keeps steady_going going_save_state)
    (simp_all add: fail_state_def)

lemma going_recover_loop: "tx_phase t \<noteq> ''completed'' \<Longrightarrow> tx_candidate t = c \<Longrightarrow> keeps (going c) (recover_loop env fuel n t d)"
proof (induction fuel arbitrary: n t)
  case (Suc fuel)
  then show ?case
    unfolding recover_loop.simps Let_def
    by (intro keeps_intros going_rollback going_finish_recovery going_save_transaction going_note_failure
        steady_keeps steady_going Suc.IH) simp_all
qed (simp add: keeps_fail)

lemma going_recover_after_error: "tx_candidate t = c \<Longrightarrow> keeps (going c) (recover_after_error env fuel t d e)"
  unfolding recover_after_error_def recover_installation_def Let_def
  by (intro keeps_intros going_save_transaction going_recover_loop) simp_all

lemma going_recover_installation: "tx_candidate t = c \<Longrightarrow> keeps (going c) (recover_installation env fuel t d)"
  unfolding recover_installation_def Let_def
  by (intro keeps_intros going_save_transaction going_recover_loop) simp_all

lemma going_snapshot: "keeps (going c) (snapshot env m)"
  unfolding snapshot_def remove_backup_def Let_def
  by (intro keeps_intros steady_keeps steady_going kept_sys going_copy_tree)
    (auto simp: put_backup_def drop_backup_def set_stage_def)

lemma going_prepared_failure: "tx_candidate t = c \<Longrightarrow> keeps (going c) (prepared_failure env t e)"
  unfolding prepared_failure_def
  by (rule keeps_load_attempt; unfold sum.case; intro keeps_intros steady_keeps steady_going going_save_state going_save_transaction)
    (simp_all add: fail_state_def)

lemma going_run_setup: "keeps (going c) (run_setup env b)"
  by (auto simp: keeps_def run_setup_def next_call_def split: list.splits outcome.splits)

text \<open>The commit itself.\<close>

lemma complete_installation_commits:
  assumes "verify_manifest env (cd_data (tx_candidate t)) (cd_signature (tx_candidate t)) key = Inr m" and "tx_candidate t = c"
  shows "triple (\<lambda>s. going c s \<and> verify_installation env (uw_install s) (mf_files m) = Inr ())
    (complete_installation env t m) (\<lambda>_. barrier env key c)" (is "triple ?P _ _")
proof -
  let ?D = "\<lambda>s. tx_done (uw_transaction s) \<and> sound env key s \<and> installs c s"
  have st: "steady ?P" "steady ?D" by (simp_all add: steady_def sound_def installs_def)
  have save: "triple ?P (save_transaction (t\<lparr>tx_phase := ''completed'', tx_pid := 0\<rparr>))
      (\<lambda>r s. barrier env key c s \<and> (r = Inr () \<longrightarrow> ?D s))"
    by (rule save_transaction_triple[OF st(1)])
      (use assms in \<open>auto simp: going_def barrier_def tx_done_def sound_def installs_def\<close>)
  have keep: "keeps ?D (bindP (clear_completed env v) (\<lambda>_. bindP (attempt touch) (\<lambda>_. bindP (attempt touch) (\<lambda>_. retP ()))))" for v
    by (intro keeps_intros keeps_touch keeps_clear_completed st)
      (use st(2) in \<open>simp_all add: aside_def sound_def installs_def\<close>)
  have done_barrier: "?D s \<Longrightarrow> barrier env key c s" for s by (simp add: barrier_def)
  show ?thesis
    unfolding complete_installation_def
    by (rule triple_bind[where M="\<lambda>_. ?D", OF triple_weaken[OF save] keeps_replies[OF keep done_barrier]])
      (auto split: sum.split)
qed

lemma or_recover_commits:
  assumes "triple P m (\<lambda>r s. going c s \<and> (\<forall>x. r = Inr x \<longrightarrow> M x s))"
    and "\<And>x. triple (M x) (f x) (\<lambda>_. barrier env key c)" and "tx_candidate t = c"
  shows "triple P (or_recover env fuel t d m f) (\<lambda>_. barrier env key c)"
  unfolding or_recover_def
  by (rule triple_bind[where M="\<lambda>r s. going c s \<and> (\<forall>x. r = Inr x \<longrightarrow> M x s)", OF triple_attempt[OF triple_weaken[OF assms(1)]]])
    (auto intro: going_barrier triple_pre[OF assms(2)] triple_pre[OF keeps_replies[OF going_recover_after_error[OF assms(3)] going_barrier]]
      split: sum.split)

lemma verified_commits:
  assumes "verify_manifest env (cd_data (tx_candidate t)) (cd_signature (tx_candidate t)) key = Inr m" and "tx_candidate t = c"
  shows "triple (going c) (or_recover env fuel t d (check_tree env uw_install (mf_files m)) (\<lambda>_.
      or_recover env fuel t d touch (\<lambda>_. or_recover env fuel t d (health env (mf_version m)) (\<lambda>_.
      complete_installation env t m)))) (\<lambda>_. barrier env key c)"
proof -
  let ?V = "\<lambda>s. going c s \<and> verify_installation env (uw_install s) (mf_files m) = Inr ()"
  have st: "steady ?V" by (simp add: steady_def)
  show ?thesis
    by (intro or_recover_commits[where M="\<lambda>_. ?V"] triple_weaken[OF check_tree_checks[OF steady_going]]
        keeps_replies[OF keeps_touch[OF st]] keeps_replies[OF keeps_health[OF st]] complete_installation_commits assms) auto
qed

lemma set_up_commits:
  assumes "verify_manifest env (cd_data (tx_candidate t)) (cd_signature (tx_candidate t)) key = Inr m" and "tx_candidate t = c"
    and "tx_phase t = ''installing''"
  shows "triple (going c) (set_up env fuel t m) (\<lambda>_. barrier env key c)"
proof -
  let ?d = "stage_dir m" and ?t = "t\<lparr>tx_phase := ''verifying''\<rparr>"
  let ?G = "\<lambda>_. barrier env key c"
  have reboot: "triple (going c) (bindP (readP uw_boot) (\<lambda>boot.
      save_transaction (t\<lparr>tx_phase := ''restart-required'', tx_pid := 0, tx_boot := boot\<rparr>))) ?G"
    by (rule keeps_replies[OF keeps_bind[OF keeps_read going_save_transaction] going_barrier]) (simp_all add: assms(2))
  have fail: "triple (going c) (recover_after_error env fuel t ?d e) ?G" for e
    by (rule keeps_replies[OF going_recover_after_error[OF assms(2)] going_barrier])
  have verified: "triple (going c) (bindP (save_transaction ?t) (\<lambda>_.
        or_recover env fuel ?t ?d (check_tree env uw_install (mf_files m)) (\<lambda>_.
        or_recover env fuel ?t ?d touch (\<lambda>_. or_recover env fuel ?t ?d (health env (mf_version m)) (\<lambda>_.
        complete_installation env ?t m))))) ?G"
    by (rule triple_then[OF going_save_transaction going_barrier verified_commits]) (use assms(1,2) in simp_all)
  have after: "triple (going c) (case r of
      Inl e \<Rightarrow> if e = UeExit 3010 then bindP (readP uw_boot) (\<lambda>boot.
          save_transaction (t\<lparr>tx_phase := ''restart-required'', tx_pid := 0, tx_boot := boot\<rparr>))
        else recover_after_error env fuel t ?d e
    | Inr _ \<Rightarrow> (let t = ?t in bindP (save_transaction t) (\<lambda>_.
        or_recover env fuel t ?d (check_tree env uw_install (mf_files m)) (\<lambda>_.
        or_recover env fuel t ?d touch (\<lambda>_. or_recover env fuel t ?d (health env (mf_version m)) (\<lambda>_.
        complete_installation env t m)))))) ?G" for r :: "update_error + unit"
    unfolding Let_def by (cases r) (auto intro: reboot fail verified)
  have run: "triple (going c) (bindP (readP (\<lambda>s. map_of (sg_files (stage_at ?d s)) (uf_name (mf_installer m)))) (\<lambda>bytes.
      bindP (attempt (case bytes of None \<Rightarrow> failP UeSystem | Some b \<Rightarrow> run_setup env b)) f)) ?G"
    if "\<And>r. triple (going c) (f r) ?G" for f
    by (intro triple_then[OF keeps_read] triple_then[OF keeps_attempt[OF keeps_option]] keeps_fail going_run_setup
        that going_barrier)
  have rest: "triple (going c) (or_recover env fuel t ?d touch (\<lambda>_. or_recover env fuel t ?d touch (\<lambda>_. f))) ?G"
    if "triple (going c) f ?G" for f
    by (intro or_recover_commits[where M="\<lambda>_. going c"] that keeps_replies[OF keeps_touch[OF steady_going]]) (auto simp: assms(2))
  show ?thesis
    unfolding set_up_def Let_def
    by (rule triple_then[OF going_save_transaction going_barrier rest[OF run[OF after[unfolded Let_def]]]])
      (simp_all add: assms(2,3))
qed


lemma after_restart_commits:
  assumes "verify_manifest env (cd_data (tx_candidate t)) (cd_signature (tx_candidate t)) key = Inr m" and "tx_candidate t = c"
  shows "triple (going c) (after_restart env fuel t m) (\<lambda>_. barrier env key c)"
proof -
  let ?V = "\<lambda>s. going c s \<and> verify_installation env (uw_install s) (mf_files m) = Inr ()"
  have st: "steady ?V" by (simp add: steady_def)
  have works: "triple (going c) (bindP (check_tree env uw_install (mf_files m)) (\<lambda>_. bindP touch (\<lambda>_. health env v)))
      (\<lambda>r s. going c s \<and> (\<forall>x. r = Inr x \<longrightarrow> ?V s))" for v
    by (rule triple_bind[where M="\<lambda>_. ?V", OF triple_weaken[OF check_tree_checks[OF steady_going]]
          keeps_replies[OF keeps_bind[OF keeps_touch[OF st] keeps_health[OF st]]]])
      (auto split: sum.split)
  show ?thesis
    unfolding after_restart_def
    by (intro triple_then[OF keeps_read] going_barrier)
      (auto intro!: triple_ret going_barrier or_recover_commits[OF works] complete_installation_commits assms)
qed

lemma identify_verifies:
  assumes "public_key env = Inr key"
  shows "triple (going c) (identify env t) (\<lambda>r s. going c s \<and> (\<forall>m. r = Inr m \<longrightarrow>
    verify_manifest env (cd_data (tx_candidate t)) (cd_signature (tx_candidate t)) key = Inr m))"
  unfolding identify_def
  by (intro triple_then[OF keeps_identity[OF steady_going]] triple_bind_lift triple_lift) (use assms in auto)

lemma or_prepared_commits:
  assumes "triple (going c) m (\<lambda>r s. going c s \<and> (\<forall>x. r = Inr x \<longrightarrow> R x))"
    and "\<And>x. triple (\<lambda>s. going c s \<and> R x) (g x) (\<lambda>_. barrier env key c)" and "tx_candidate u = c"
  shows "triple (going c) (or_prepared env u m g) (\<lambda>_. barrier env key c)"
  unfolding or_prepared_def
  by (rule triple_bind[where M="\<lambda>r s. going c s \<and> (\<forall>x. r = Inr x \<longrightarrow> R x)", OF triple_attempt[OF triple_weaken[OF assms(1)]]])
    (auto intro: going_barrier triple_pre[OF keeps_replies[OF going_prepared_failure[OF assms(3)] going_barrier]] triple_pre[OF assms(2)]
      split: sum.split)

lemma run_transaction_commits:
  assumes "public_key env = Inr key" and "tx_candidate t = c"
  shows "triple (going c) (run_transaction env fuel t) (\<lambda>_. barrier env key c)"
proof -
  let ?G = "\<lambda>_. barrier env key c"
  have ident: "triple (\<lambda>s. going c s \<and> verify_manifest env (cd_data (tx_candidate t)) (cd_signature (tx_candidate t)) key = Inr m) (f m) ?G"
    if "verify_manifest env (cd_data (tx_candidate t)) (cd_signature (tx_candidate t)) key = Inr m \<Longrightarrow> triple (going c) (f m) ?G" for f m
    using that by (auto simp: triple_def)
  have start: "triple (going c) (bindP (helper_started t) f) ?G"
    if "\<And>p n. triple (going c) (f (t\<lparr>tx_pid := p, tx_started := n\<rparr>)) ?G" for f
    unfolding helper_started_def bindP_assoc
    by (intro triple_then[OF keeps_read] triple_then[OF keeps_now[OF steady_going]] going_barrier)
      (simp_all add: that)
  have snap: "triple (going c) (or_prepared env u (snapshot env m) (\<lambda>fs.
      set_up env fuel (u\<lparr>tx_backup_files := fs, tx_phase := ''installing''\<rparr>) m)) ?G"
    if "verify_manifest env (cd_data (tx_candidate u)) (cd_signature (tx_candidate u)) key = Inr m" "tx_candidate u = c" for u m
    by (rule or_prepared_commits[where R="\<lambda>_. True", OF keeps_replies[OF going_snapshot] triple_pre[OF set_up_commits]])
      (use that in simp_all)
  show ?thesis
  proof (cases "tx_phase t = ''prepared''")
    case True
    show ?thesis
      unfolding run_transaction_def if_P[OF True]
      by (rule or_prepared_commits[OF identify_verifies[OF assms(1)] ident[OF start[OF snap]]]) (simp_all add: assms(2))
  next
    case False
    have rest: "triple (going c) (if tx_phase u = ''restart-required'' then after_restart env fuel u m
        else recover_installation env fuel u (stage_dir m)) ?G"
      if "verify_manifest env (cd_data (tx_candidate u)) (cd_signature (tx_candidate u)) key = Inr m" "tx_candidate u = c" for u m
      using that by (auto intro: after_restart_commits keeps_replies[OF going_recover_installation going_barrier])
    show ?thesis
      unfolding run_transaction_def if_not_P[OF False]
      by (rule triple_bind[where M="\<lambda>m s. going c s \<and>
            verify_manifest env (cd_data (tx_candidate t)) (cd_signature (tx_candidate t)) key = Inr m",
            OF triple_weaken[OF identify_verifies[OF assms(1)]] ident[OF start[OF rest]]])
        (auto intro: going_barrier simp: assms(2) split: sum.split)
  qed
qed

text \<open>Between two events: what is complete is in place, and an active transaction belongs to the update that is
  pending.\<close>

definition ordered :: "'v update_env \<Rightarrow> string \<Rightarrow> update_world \<Rightarrow> bool" where
  "ordered env key s \<longleftrightarrow> sound env key s \<and> (\<forall>t. uw_transaction s = Saved t \<longrightarrow> transaction_active (Some t) \<longrightarrow>
     shut s \<and> names_only (tx_candidate t) s)"

text \<open>The end of a wait: the transaction on disk is complete, its candidate the one that was pending, and every file of
  the installation as its manifest says.\<close>

definition released :: "'v update_env \<Rightarrow> string \<Rightarrow> update_state saved \<Rightarrow> update_world \<Rightarrow> bool" where
  "released env key x w \<longleftrightarrow> (\<exists>y t m. x = Saved y \<and> us_pending y \<and> uw_transaction w = Saved t \<and> tx_phase t = ''completed'' \<and>
     verify_manifest env (cd_data (tx_candidate t)) (cd_signature (tx_candidate t)) key = Inr m \<and>
     verify_installation env (uw_install w) (mf_files m) = Inr () \<and>
     (\<forall>c. us_candidate y = Some c \<longrightarrow> cd_data c = cd_data (tx_candidate t) \<and> cd_signature c = cd_signature (tx_candidate t)))"

definition obeys :: "'v update_env \<Rightarrow> string \<Rightarrow> update_world \<Rightarrow> update_world \<Rightarrow> bool" where
  "obeys env key s w \<longleftrightarrow> ordered env key w \<and> (shut s \<longrightarrow> shut w \<or> released env key (uw_state s) w)"

lemma barrier_obeys:
  assumes "barrier env key c w" and "names_only c s"
  shows "obeys env key s w"
proof -
  obtain t where t: "uw_transaction w = Saved t" "tx_candidate t = c" using assms(1) by (auto simp: barrier_def installs_def)
  have not_both: "tx_phase t = ''completed'' \<Longrightarrow> \<not> transaction_active (Some t)" by (simp add: transaction_active_def)
  have ord: "ordered env key w"
    using assms(1) t not_both by (auto simp: ordered_def barrier_def tx_done_def)
  have "released env key (uw_state s) w" if "shut s" "\<not> shut w"
  proof -
    from that assms(1) t have d: "tx_phase t = ''completed''" "sound env key w" by (auto simp: barrier_def tx_done_def)
    with t obtain m where "verify_manifest env (cd_data c) (cd_signature c) key = Inr m"
      "verify_installation env (uw_install w) (mf_files m) = Inr ()" by (auto simp: sound_def)
    with t d(1) that(1) assms(2) show ?thesis by (auto simp: released_def shut_def locked_def names_only_def)
  qed
  with ord show ?thesis by (auto simp: obeys_def)
qed

lemma run_helper_obeys:
  assumes "public_key env = Inr key" and "ordered env key s" and run: "run_helper env fuel s = (r, w)"
  shows "obeys env key s w"
proof (cases "\<exists>t. uw_transaction s = Saved t \<and> transaction_active (Some t)")
  case True
  then obtain t where t: "uw_transaction s = Saved t" "transaction_active (Some t)" by blast
  let ?G = "going (tx_candidate t)"
  have s: "?G s" using assms(2) t by (auto simp: ordered_def going_def installs_def tx_done_def transaction_active_def)
  have st: "steady (\<lambda>v. ?G v \<and> uw_transaction v = Saved t)" using steady_going by (simp add: steady_def)
  have go: "triple (\<lambda>v. ?G v \<and> uw_transaction v = Saved t \<and> (\<forall>u. z = Some u \<longrightarrow> Saved t = Saved u))
      (case z of None \<Rightarrow> retP () | Some u \<Rightarrow> if transaction_active (Some u) then run_transaction env fuel u else retP ())
      (\<lambda>_. barrier env key (tx_candidate t))" for z
  proof (cases z)
    case None
    then show ?thesis by (auto intro: triple_ret going_barrier)
  next
    case (Some u)
    show ?thesis
    proof (cases "u = t")
      case True
      with Some show ?thesis using t(2) run_transaction_commits[OF assms(1) refl, of t fuel] by (auto intro: triple_pre)
    next
      case False
      with Some show ?thesis by (auto simp: triple_def)
    qed
  qed
  have "triple (\<lambda>v. ?G v \<and> uw_transaction v = Saved t) (run_helper env fuel) (\<lambda>_. barrier env key (tx_candidate t))"
    unfolding run_helper_def
    by (intro triple_then[OF keeps_touch[OF st]] triple_bind[OF triple_weaken[OF load_transaction_reads[OF st]] go])
      (auto intro: going_barrier split: sum.split)
  from tripleD[OF this _ run] s t(1) have "barrier env key (tx_candidate t) w" by simp
  then show ?thesis using s going_names by (blast intro: barrier_obeys)
next
  case False
  let ?P = "\<lambda>v. uw_transaction v = uw_transaction s \<and> uw_state v = uw_state s \<and> uw_memory v = uw_memory s \<and> uw_install v = uw_install s"
  have st: "steady ?P" by (simp add: steady_def)
  have go: "triple (\<lambda>v. ?P v \<and> (\<forall>u. z = Some u \<longrightarrow> uw_transaction v = Saved u))
      (case z of None \<Rightarrow> retP () | Some u \<Rightarrow> if transaction_active (Some u) then run_transaction env fuel u else retP ()) (\<lambda>_. ?P)" for z
    using False by (cases z) (auto simp: triple_def proc_simps)
  have "triple ?P (run_helper env fuel) (\<lambda>_. ?P)"
    unfolding run_helper_def
    by (intro triple_then[OF keeps_touch[OF st]] triple_bind[OF triple_weaken[OF load_transaction_reads[OF st]] go])
      (auto split: sum.split)
  from tripleD[OF this _ run] have "?P w" by simp
  with assms(2) show ?thesis by (simp add: obeys_def ordered_def sound_def shut_def names_only_def)
qed

section \<open>The manager and a starting service\<close>

text \<open>While a transaction is active, only states that name its candidate are written.\<close>

definition named :: "transaction \<Rightarrow> update_world \<Rightarrow> bool" where
  "named t s \<longleftrightarrow> uw_transaction s = Saved t \<and> names_only (tx_candidate t) s"

lemma steady_named: "steady (named t)"
  by (simp add: steady_def named_def names_only_def)

lemma named_names: "named t s \<Longrightarrow> names_only (tx_candidate t) s"
  by (simp add: named_def)

lemma named_failure:
  assumes "us_candidate x \<in> {None, Some (tx_candidate t)}"
  shows "keeps (named t) (failure env now x e)"
proof -
  have "us_candidate y \<in> {None, Some (tx_candidate t)} \<Longrightarrow> keeps (named t) (set_op y)" for y
    unfolding set_op_def save_state_def replace_file_def
    by (intro keeps_bind kept_sys[OF steady_named]) (auto simp: keeps_def writeP_def named_def names_only_def)
  with assms show ?thesis
    unfolding failure_def by (intro keeps_intros) (simp add: fail_state_def)
qed

lemma named_step:
  assumes "transaction_active (Some t)"
  shows "triple (named t) (manager_step env key dir owner version interval now force) (\<lambda>_. named t)"
proof -
  let ?C = "{None, Some (tx_candidate t)}"
  have fail: "triple (named t) (failure env now (x\<lparr>us_pending := True\<rparr>) e :: unit update_op) (\<lambda>_. named t)" if "us_candidate x \<in> ?C" for x e
    by (rule keeps_triple[OF named_failure]) (use that in simp)
  have load: "triple (named t) load_transaction (\<lambda>r v. named t v \<and> (\<forall>z. r = Inr z \<longrightarrow> z = Some t))"
    unfolding load_transaction_def read_saved_def
    by (rule triple_then[OF keeps_touch[OF steady_named]]) (auto simp: triple_def named_def)
  have memory: "keeps (named t) (writeP (\<lambda>w. w\<lparr>uw_memory := y\<rparr>))" if "us_candidate y \<in> ?C" for y
    using that by (auto simp: keeps_def writeP_def named_def names_only_def)
  have step: "triple (\<lambda>v. named t v \<and> us_candidate x \<in> ?C) (transaction_step env key dir owner version interval now force x) (\<lambda>_. named t)" for x
  proof (cases "us_candidate x \<in> ?C")
    case x: True
    have body: "triple (\<lambda>v. named t v \<and> (\<forall>z. r = Inr z \<longrightarrow> z = Some t)) (case r of Inl e \<Rightarrow> failure env now (x\<lparr>us_pending := True\<rparr>) e
        | Inr u \<Rightarrow> if transaction_active u then
        (let s = x\<lparr>us_pending := True, us_phase := tx_phase (the u),
               us_message := (if tx_error (the u) \<noteq> [] then tx_error (the u) else us_message x)\<rparr> in
         bindP (writeP (\<lambda>w. w\<lparr>uw_memory := s\<rparr>)) (\<lambda>_. recover_running env key (the u)))
      else after_transaction env key version now u x (idle_step env key dir owner version interval now force x)) (\<lambda>_. named t)"
      for r :: "update_error + transaction option"
    proof (cases r)
      case (Inl e)
      show ?thesis unfolding Inl sum.case by (rule triple_pre[OF fail[OF x]]) simp
    next
      case (Inr u)
      show ?thesis
      proof (cases "u = Some t")
        case True
        have "keeps (named t) (bindP (writeP (\<lambda>w. w\<lparr>uw_memory := x\<lparr>us_pending := True, us_phase := p, us_message := q\<rparr>\<rparr>))
            (\<lambda>_. recover_running env key t))" for p q
          by (intro keeps_bind memory keeps_recover_running steady_named) (use x in simp)
        from keeps_triple[OF this] show ?thesis
          unfolding Inr True sum.case if_P[OF assms] Let_def option.sel by (rule triple_pre) simp
      next
        case False
        with Inr show ?thesis by (auto simp: triple_def)
      qed
    qed
    have "triple (named t) (transaction_step env key dir owner version interval now force x) (\<lambda>_. named t)"
      unfolding transaction_step_def or_failure_def
      by (rule triple_bind[where M="\<lambda>r v. named t v \<and> (\<forall>z. r = Inr z \<longrightarrow> z = Some t)", OF triple_attempt[OF triple_weaken[OF load]] body])
        (auto split: sum.split)
    then show ?thesis by (rule triple_pre) simp
  next
    case False
    then show ?thesis unfolding triple_def by blast
  qed
  have choose: "triple (\<lambda>v. named t v \<and> us_candidate disk \<in> ?C \<and> us_candidate s0 \<in> ?C) (if us_phase disk \<noteq> []
      then bindP (writeP (\<lambda>w. w\<lparr>uw_memory := disk\<lparr>us_installed := version\<rparr>\<rparr>)) (\<lambda>_. readP uw_memory) else retP s0)
      (\<lambda>r v. case r of Inl e \<Rightarrow> named t v | Inr s \<Rightarrow> named t v \<and> us_candidate s \<in> ?C)" for disk s0
    by (auto simp: triple_def proc_simps named_def names_only_def)
  have body: "triple (\<lambda>v. named t v \<and> us_candidate s0 \<in> ?C \<and> (\<forall>x. r = Inr x \<longrightarrow> us_candidate x \<in> ?C)) (case r of
      Inl e \<Rightarrow> failure env now (s0\<lparr>us_pending := True\<rparr>) e
    | Inr disk \<Rightarrow> bindP (if us_phase disk \<noteq> [] then bindP (writeP (\<lambda>w. w\<lparr>uw_memory := disk\<lparr>us_installed := version\<rparr>\<rparr>)) (\<lambda>_. readP uw_memory)
             else retP s0) (transaction_step env key dir owner version interval now force)) (\<lambda>_. named t)" for r s0
  proof (cases r)
    case (Inl e)
    then show ?thesis using fail[of s0 e] by (auto simp: triple_def)
  next
    case (Inr disk)
    show ?thesis
      unfolding Inr sum.case
      by (rule triple_pre[OF triple_bind[where M="\<lambda>s v. named t v \<and> us_candidate s \<in> ?C", OF choose step]]) auto
  qed
  have stead: "steady (\<lambda>v. named t v \<and> us_candidate s0 \<in> ?C)" for s0 using steady_named by (simp add: steady_def)
  have loaded: "triple (\<lambda>v. named t v \<and> us_candidate s0 \<in> ?C) (attempt load_state)
      (\<lambda>r v. case r of Inl e \<Rightarrow> named t v | Inr r \<Rightarrow> named t v \<and> us_candidate s0 \<in> ?C \<and> (\<forall>x. r = Inr x \<longrightarrow> us_candidate x \<in> ?C))" for s0
    by (rule triple_attempt[OF triple_weaken[OF load_names[OF stead]]]) (auto dest: named_names)
  have rest: "triple (\<lambda>v. named t v \<and> uw_memory v = s0) (bindP (attempt load_state) (\<lambda>r. case r of
      Inl e \<Rightarrow> failure env now (s0\<lparr>us_pending := True\<rparr>) e
    | Inr disk \<Rightarrow> bindP (if us_phase disk \<noteq> [] then bindP (writeP (\<lambda>w. w\<lparr>uw_memory := disk\<lparr>us_installed := version\<rparr>\<rparr>)) (\<lambda>_. readP uw_memory)
             else retP s0) (transaction_step env key dir owner version interval now force))) (\<lambda>_. named t)" for s0
    by (rule triple_pre[OF triple_bind[OF loaded body]]) (auto simp: named_def names_only_def)
  show ?thesis
    unfolding manager_step_def by (rule triple_bind_read) (rule rest)
qed

lemma handed_ordered: "handed env key version f c w \<Longrightarrow> ordered env key w \<and> shut w"
  by (auto simp: handed_def ordered_def sound_def names_only_def)

lemma manager_step_obeys:
  assumes s: "ordered env key s" and run: "manager_step env key dir owner version interval now force s = (r, w)"
  shows "obeys env key s w"
proof -
  let ?X = "uw_transaction s"
  have step: "stepped env key version b ?X s w" if "b \<or> shut s" "unmatched env key b ?X (uw_state s)" for b
    using tripleD[OF manager_step_steps[OF that(2)] _ run] that(1) by (simp add: waiting_def)
  have hand: "handed env key version s c w \<Longrightarrow> obeys env key s w" for c
    using handed_ordered[of env key version s c w] by (simp add: obeys_def)
  have sound: "sound env key w" if "waiting b ?X s w" for b
    using that s by (simp add: waiting_def drawn_def ordered_def sound_def)
  show ?thesis
  proof (cases "\<exists>t. ?X = Saved t \<and> transaction_active (Some t)")
    case True
    then obtain t where t: "?X = Saved t" "transaction_active (Some t)" by blast
    then have x: "shut s" "named t s" using s by (auto simp: ordered_def named_def)
    have "unmatched env key False ?X (uw_state s)"
      using t by (auto simp: unmatched_def settled_def fine_def transaction_active_def)
    with step[of False] x(1) consider "waiting False ?X s w" | c where "handed env key version s c w"
      by (auto simp: stepped_def)
    then show ?thesis
    proof cases
      case 1
      with sound tripleD[OF named_step[OF t(2)] x(2) run] show ?thesis
        by (auto simp: obeys_def ordered_def waiting_def named_def)
    qed (rule hand)
  next
    case False
    have free: "waiting True ?X s w \<or> (\<exists>c. handed env key version s c w)"
      using step[of True] by (auto simp: unmatched_def stepped_def)
    have ord: "ordered env key w" if "waiting True ?X s w"
      using that False sound[OF that] by (auto simp: ordered_def waiting_def)
    have rel: "shut w \<or> released env key (uw_state s) w" if "shut s" "waiting True ?X s w"
    proof (cases "unmatched env key False ?X (uw_state s)")
      case True
      with step[of False] that(1) hand show ?thesis by (auto simp: stepped_def waiting_def handed_def)
    next
      case un: False
      then obtain y t m where y: "uw_state s = Saved y" "us_pending y" "?X = Saved t" "tx_phase t = ''completed''"
        "verify_manifest env (cd_data (tx_candidate t)) (cd_signature (tx_candidate t)) key = Inr m" "same_pending m t y"
        by (auto simp: unmatched_def settled_def fine_def)
      have "verify_installation env (uw_install w) (mf_files m) = Inr ()"
        using sound[OF that(2)] that(2) y by (auto simp: sound_def waiting_def)
      with y that(2) show ?thesis by (auto simp: released_def waiting_def same_pending_def)
    qed
    from free show ?thesis
    proof
      assume "waiting True ?X s w"
      with ord rel show ?thesis by (auto simp: obeys_def)
    qed (use hand in blast)
  qed
qed

lemma new_manager_obeys:
  assumes s: "ordered env key s" and run: "new_manager env version s = (r, w)"
  shows "obeys env key s w"
proof -
  let ?X = "uw_transaction s"
  have steps: "waiting b ?X s w" if "b \<or> shut s" for b
  proof -
    have "triple (waiting b ?X s) (new_manager env version) (\<lambda>_. waiting b ?X s)"
      unfolding new_manager_def
      by (rule triple_bind[where M="\<lambda>r v. waiting b ?X s v \<and> (\<forall>x. r = Inr x \<longrightarrow> fine b x)", OF triple_weaken[OF load_state_fine]])
        (auto simp: triple_def writeP_def waiting_def shut_def fine_def split: sum.split)
    from tripleD[OF this _ run] that show ?thesis by (simp add: waiting_def)
  qed
  have "named t w" if "named t s" for t
  proof -
    have "triple (named t) (new_manager env version) (\<lambda>_. named t)"
      unfolding new_manager_def
      by (rule triple_bind[where M="\<lambda>r v. named t v \<and> (\<forall>x. r = Inr x \<longrightarrow> us_candidate x \<in> {None, Some (tx_candidate t)})",
            OF triple_attempt[OF triple_weaken[OF load_names[OF steady_named named_names]]]])
        (auto simp: triple_def writeP_def named_def names_only_def blank_state_def split: sum.split)
    from tripleD[OF this that run] show ?thesis .
  qed
  with steps[of True] steps[of False] s show ?thesis
    by (auto simp: obeys_def ordered_def sound_def waiting_def drawn_def named_def)
qed

section \<open>Histories\<close>

text \<open>The events of an update: the service starts with the version of its binary, its manager steps, the helper runs. Each
  brings its own outcomes, times, answers and workers.\<close>

record manager_run =
  mr_version :: string
  mr_interval :: int
  mr_now :: int
  mr_force :: bool
  mr_plan :: "outcome list"
  mr_clock :: "int list"
  mr_answers :: "web_answer list"
  mr_workers :: "(int \<times> int) option list"
  mr_maintenance :: bool
  mr_configured :: bool
  mr_children :: "string list"

datatype install_event = ServiceStarts string "outcome list" | ManagerSteps manager_run | HelperRuns helper_run

definition begin_step :: "manager_run \<Rightarrow> update_world \<Rightarrow> update_world" where
  "begin_step r s = s\<lparr>uw_plan := mr_plan r, uw_clock := mr_clock r, uw_answers := mr_answers r, uw_workers := mr_workers r,
     uw_maintenance := mr_maintenance r, uw_configured := mr_configured r, uw_children := mr_children r\<rparr>"

primrec install_event_step :: "'v update_env \<Rightarrow> string \<Rightarrow> string \<Rightarrow> string \<Rightarrow> install_event \<Rightarrow> update_world \<Rightarrow> update_world" where
  "install_event_step env key dir owner (ServiceStarts v plan) s = snd (new_manager env v (s\<lparr>uw_plan := plan\<rparr>))"
| "install_event_step env key dir owner (ManagerSteps r) s =
     snd (manager_step env key dir owner (mr_version r) (mr_interval r) (mr_now r) (mr_force r) (begin_step r s))"
| "install_event_step env key dir owner (HelperRuns h) s = snd (run_helper env (hr_fuel h) (begin_run h s))"

definition update_history :: "'v update_env \<Rightarrow> string \<Rightarrow> string \<Rightarrow> string \<Rightarrow> install_event list \<Rightarrow> update_world \<Rightarrow> update_world" where
  "update_history env key dir owner es s = foldl (\<lambda>w e. install_event_step env key dir owner e w) s es"

lemma install_event_obeys:
  assumes "public_key env = Inr key" and "ordered env key s"
  shows "obeys env key s (install_event_step env key dir owner e s)"
proof (cases e)
  case (ServiceStarts v plan)
  let ?s = "s\<lparr>uw_plan := plan\<rparr>"
  have "ordered env key ?s" using assms(2) by (simp add: ordered_def sound_def shut_def names_only_def)
  from new_manager_obeys[OF this, of v "fst (new_manager env v ?s)" "snd (new_manager env v ?s)"] ServiceStarts
  show ?thesis by (simp add: obeys_def shut_def)
next
  case (ManagerSteps r)
  let ?s = "begin_step r s"
  let ?m = "manager_step env key dir owner (mr_version r) (mr_interval r) (mr_now r) (mr_force r) ?s"
  have "ordered env key ?s" using assms(2) by (simp add: ordered_def sound_def shut_def names_only_def begin_step_def)
  from manager_step_obeys[OF this, of dir owner "mr_version r" "mr_interval r" "mr_now r" "mr_force r" "fst ?m" "snd ?m"] ManagerSteps
  show ?thesis by (simp add: obeys_def shut_def begin_step_def)
next
  case (HelperRuns h)
  let ?s = "begin_run h s"
  have "ordered env key ?s" using assms(2) by (simp add: ordered_def sound_def shut_def names_only_def begin_run_def)
  from run_helper_obeys[OF assms(1) this, of "hr_fuel h" "fst (run_helper env (hr_fuel h) ?s)" "snd (run_helper env (hr_fuel h) ?s)"] HelperRuns
  show ?thesis by (simp add: obeys_def shut_def begin_run_def)
qed

lemma update_history_snoc:
  "update_history env key dir owner (es @ [e]) s = install_event_step env key dir owner e (update_history env key dir owner es s)"
  by (simp add: update_history_def)

lemma update_history_ordered:
  "public_key env = Inr key \<Longrightarrow> ordered env key s \<Longrightarrow> ordered env key (update_history env key dir owner es s)"
proof (induction es rule: rev_induct)
  case (snoc e es)
  from install_event_obeys[OF snoc(2) snoc(1)[OF snoc(2,3)]] show ?case by (simp add: update_history_snoc obeys_def)
qed (simp add: update_history_def)

lemma update_history_waits:
  assumes "public_key env = Inr key" and "ordered env key s" and "shut s"
  shows "shut (update_history env key dir owner es s) \<or> (\<exists>es1 e es2. es = es1 @ e # es2 \<and>
    released env key (uw_state (update_history env key dir owner es1 s)) (update_history env key dir owner (es1 @ [e]) s))"
proof (induction es rule: rev_induct)
  case Nil
  with assms(3) show ?case by (simp add: update_history_def)
next
  case (snoc e es)
  show ?case
  proof (cases "shut (update_history env key dir owner es s)")
    case True
    with install_event_obeys[OF assms(1) update_history_ordered[OF assms(1,2)], of dir owner es dir owner e]
    show ?thesis unfolding update_history_snoc obeys_def by blast
  next
    case False
    with snoc obtain es1 e' es2 where "es = es1 @ e' # es2"
      "released env key (uw_state (update_history env key dir owner es1 s)) (update_history env key dir owner (es1 @ [e']) s)" by blast
    then show ?thesis by (intro disjI2 exI[of _ es1] exI[of _ e'] exI[of _ "es2 @ [e]"]) simp
  qed
qed

section \<open>Claims\<close>

text \<open>C6: A pending update locks the configuration until that update is installed. Start where the saved state and the
  manager say that an update is pending, where the files of a transaction that is already complete, if there is one, are
  in place, and where a transaction that is under way belongs to the pending update. After any history of service starts,
  manager steps and helper runs, with any calls failing or cut off: either the update is still pending, on disk and in
  memory, so that the service refuses to configure; or there was an event that ended the wait, and right after it the
  transaction on disk was complete, every file of the installation matched a manifest signed with the release key, and
  the candidate of the transaction was the one that was pending right before (if the state named one: after a failed
  read of the state it may name none). An old transaction that is complete does not end the wait for a new update.\<close>

theorem update_barrier_holds:
  fixes env key dir owner es s
  defines "after \<equiv> \<lambda>hs. update_history env key dir owner hs s"
  assumes "public_key env = Inr key" and "uw_state s = Saved x" and "us_pending x" and "us_phase x \<noteq> []"
    and "us_pending (uw_memory s)"
    and "\<forall>t. uw_transaction s = Saved t \<and> tx_phase t = ''completed'' \<longrightarrow>
      (\<exists>m. verify_manifest env (cd_data (tx_candidate t)) (cd_signature (tx_candidate t)) key = Inr m \<and>
         verify_installation env (uw_install s) (mf_files m) = Inr ())"
    and "\<forall>t. uw_transaction s = Saved t \<and> transaction_active (Some t) \<longrightarrow>
      us_candidate x = Some (tx_candidate t) \<and> us_candidate (uw_memory s) = Some (tx_candidate t)"
  shows "(\<exists>y. uw_state (after es) = Saved y \<and> us_pending y \<and> \<not> configuration_allowed (uw_memory (after es)) ''configure'') \<or>
    (\<exists>es1 e es2 y t m. es = es1 @ e # es2 \<and> uw_state (after es1) = Saved y \<and> us_pending y \<and>
      uw_transaction (after (es1 @ [e])) = Saved t \<and> tx_phase t = ''completed'' \<and>
      verify_manifest env (cd_data (tx_candidate t)) (cd_signature (tx_candidate t)) key = Inr m \<and>
      verify_installation env (uw_install (after (es1 @ [e]))) (mf_files m) = Inr () \<and>
      (\<forall>c. us_candidate y = Some c \<longrightarrow> cd_data c = cd_data (tx_candidate t) \<and> cd_signature c = cd_signature (tx_candidate t)))"
proof -
  have shut: "shut s" using assms(3-6) by (simp add: shut_def locked_def)
  have "ordered env key s" using assms(3,7,8) shut by (auto simp: ordered_def sound_def names_only_def)
  from update_history_waits[OF assms(2) this shut, of dir owner es]
  consider "shut (after es)" | es1 e es2 where "es = es1 @ e # es2" "released env key (uw_state (after es1)) (after (es1 @ [e]))"
    unfolding after_def by blast
  then show ?thesis
  proof cases
    case 1
    then show ?thesis by (auto simp: shut_def locked_def configuration_allowed_def)
  next
    case 2
    then show ?thesis unfolding released_def by blast
  qed
qed

text \<open>C7: The manager hands over only a verified, newer, staged and drained update. When a step of the manager changes
  the transaction on disk, the new one names the version it replaces and a candidate whose manifest is signed with the
  key, whose version is newer than the installed one and whose installer is in the staging directory with the size and
  digest of the manifest; the saved state is pending with that candidate. The service was not in maintenance, and when it
  is configured both workers ran; every worker that ran answered the last question of the step, the answers are
  the last ones taken from what the workers had to say, and the active jobs and the reservations they count, added in
  64 bits, are not positive.\<close>

theorem only_verified_updates_are_handed_over:
  assumes "manager_step env key dir owner version interval now force s = (r, w)" and "uw_transaction w \<noteq> uw_transaction s"
  shows "\<exists>t m y before used. uw_transaction w = Saved t \<and> tx_phase t \<in> {''prepared'', ''retrying''} \<and> tx_previous t = version \<and>
    verify_manifest env (cd_data (tx_candidate t)) (cd_signature (tx_candidate t)) key = Inr m \<and>
    version_test env (ue_newer env) (mf_version m) version \<and>
    verify_file env (sg_files (stage_at (stage_dir m) w)) (uf_name (mf_installer m)) (mf_installer m) = Inr () \<and>
    uw_state w = Saved y \<and> us_pending y \<and> us_candidate y = Some (tx_candidate t) \<and> uw_install w = uw_install s \<and>
    \<not> uw_maintenance s \<and> (uw_configured s \<longrightarrow> {''cpu'', ''gpu''} \<subseteq> set (uw_children s)) \<and>
    uw_workers s = before @ map Some used @ uw_workers w \<and>
    length used = length (filter (\<lambda>p. p \<in> set (uw_children s)) [''cpu'', ''gpu'']) \<and>
    foldl (\<lambda>n a. wrap64 (n + fst a)) 0 used \<le> 0 \<and> foldl (\<lambda>n a. wrap64 (n + snd a)) 0 used \<le> 0"
proof -
  have start: "waiting True (uw_transaction s) s s \<and> uw_state s = uw_state s" by (simp add: waiting_def)
  have "unmatched env key True (uw_transaction s) (uw_state s)" by (simp add: unmatched_def)
  from tripleD[OF manager_step_steps[OF this] start assms(1)]
  obtain c where "handed env key version s c w"
    using assms(2) by (auto simp: stepped_def waiting_def)
  then obtain t m y where t: "uw_transaction w = Saved t" "tx_phase t \<in> {''prepared'', ''retrying''}" "tx_previous t = version"
    "tx_candidate t = c" "verify_manifest env (cd_data c) (cd_signature c) key = Inr m"
    "version_test env (ue_newer env) (mf_version m) version" "staged_installer env m w" "drained s w"
    "uw_state w = Saved y" "us_pending y" "us_candidate y = Some c" "uw_install w = uw_install s"
    by (auto simp: handed_def shut_def locked_def drawn_def)
  from t(8) obtain before used where u: "uw_workers s = before @ map Some used @ uw_workers w"
    "length used = length (asked s)" "tally fst used \<le> 0" "tally snd used \<le> 0" by (auto simp: drained_def)
  have "uw_configured s \<longrightarrow> {''cpu'', ''gpu''} \<subseteq> set (uw_children s)"
    using t(8) by (auto simp: drained_def asked_def split: if_splits)
  with t u show ?thesis
    unfolding asked_def tally_def by (intro exI[of _ t] exI[of _ m] exI[of _ y] exI[of _ before] exI[of _ used])
      (simp add: staged_installer_def drained_def)
qed

end
