(* ===== verification/Update_Witness.thy ===== *)
theory Update_Witness
  imports Update_Claims
begin

text \<open>
  A concrete release, its installation and runs of manager and helper on them: the hypotheses of the claims about
  managed updates can hold together.
\<close>

definition sample_digest :: "string \<Rightarrow> string" where
  "sample_digest b = replicate 63 (CHR ''a'') @ (if b = ''setup'' then ''1'' else if b = ''new'' then ''2'' else ''3'')"

definition sample_file :: "string \<Rightarrow> string \<Rightarrow> update_file" where
  "sample_file name b = \<lparr>uf_name = name, uf_size = int (length b), uf_sha256 = sample_digest b\<rparr>"

definition sample_manifest :: manifest where
  "sample_manifest = \<lparr>mf_schema = 1, mf_version = ''v2'', mf_architecture = ''amd64'',
     mf_installer = sample_file (installer_name ''v2'') ''setup'', mf_files = map (\<lambda>n. sample_file n ''new'') required_files\<rparr>"

definition sample_candidate :: candidate where
  "sample_candidate = \<lparr>cd_data = ''m'', cd_signature = ''s'', cd_url = ''https://github.com/setup''\<rparr>"

definition sample_old :: file_tree where
  "sample_old = [(''transcoderd-updater.exe'', ''old helper''), (''transcoderd-worker.exe'', ''old'')]"

definition sample_update :: "nat update_env" where
  "sample_update = \<lparr>ue_parse = (\<lambda>s. if s = ''1'' then Some 1 else if s = ''2'' then Some 2 else None), ue_pre = (\<lambda>_. False),
     ue_newer = (\<lambda>a b. b < a), ue_same = (=), ue_signed = (\<lambda>k d s. s = ''s''),
     ue_decode = (\<lambda>d. if d = ''m'' then Some sample_manifest else None),
     ue_release = (\<lambda>_. Some \<lparr>rl_tag = ''v2'', rl_draft = False, rl_prerelease = False,
       rl_assets = [(manifest_name, ''u''), (signature_name, ''u''), (installer_name ''v2'', ''u'')]\<rparr>),
     ue_base64 = Some, ue_digest = sample_digest,
     ue_url = (\<lambda>_. Some \<lparr>ur_scheme = ''https'', ur_host = ''github.com'', ur_hostname = ''github.com'', ur_port = [], ur_user = False\<rparr>),
     ue_describe = (\<lambda>_. ''failed''), ue_key = Some (replicate 32 (CHR ''k'')), ue_endpoint = ''e'', ue_fixture = False,
     ue_setup = (\<lambda>k b t. if k = 0 then map (\<lambda>n. (n, ''new'')) required_files else take k t),
     ue_service = (\<lambda>t. if t = sample_old then ''v1'' else ''v2'')\<rparr>"

definition sample_key :: string where
  "sample_key = replicate 32 (CHR ''k'')"

definition sample_pending :: update_state where
  "sample_pending = \<lparr>us_pending = True, us_phase = ''draining'', us_target = ''v2'', us_installed = ''v1'', us_downloaded = 5,
     us_total = 5, us_next_retry = None, us_last_check = Some 90, us_message = [], us_attempts = 0,
     us_candidate = Some sample_candidate\<rparr>"

definition sample_world :: update_world where
  "sample_world = \<lparr>uw_state = Saved sample_pending, uw_transaction = Absent, uw_installation = Saved (''dir'', ''me''),
     uw_stages = [(sample_digest ''setup'', \<lparr>sg_files = [(installer_name ''v2'', ''setup'')], sg_backup = []\<rparr>)],
     uw_install = sample_old, uw_memory = sample_pending, uw_plan = [], uw_clock = [], uw_answers = [],
     uw_workers = [Some (1, 0), Some (0, 0), Some (0, 0), Some (0, 0)], uw_maintenance = False, uw_configured = True,
     uw_shutdown = False, uw_children = [''cpu'', ''gpu''], uw_pid = 7, uw_boot = 0\<rparr>"

definition sample_step :: "(update_error + unit) \<times> update_world" where
  "sample_step = manager_step sample_update sample_key ''dir'' ''me'' ''v1'' 3600 100 False sample_world"

lemma sample_key: "public_key sample_update = Inr sample_key"
  by code_simp

lemma sample_verified: "verify_manifest sample_update ''m'' ''s'' sample_key = Inr sample_manifest"
  by code_simp

definition sample_idle :: update_world where
  "sample_idle = sample_world\<lparr>uw_workers := [Some (0, 0), Some (0, 0)]\<rparr>"

lemma sample_drained: "drain_for_update sample_world = (Inr (1, 0), sample_idle)"
  by code_simp

lemma sample_staged: "verify_staged sample_update (stage_dir sample_manifest) (mf_installer sample_manifest) sample_idle
    = (Inr (), sample_idle)"
  by code_simp

lemma sample_tests: "check_due 3600 100 False sample_pending = False" "retry_due 100 sample_pending = True"
  "version_of sample_update ''v1'' = Inr 1" "version_test sample_update (ue_newer sample_update) (mf_version sample_manifest) ''v1'' = True"
  by code_simp+

lemma sample_fields: "uw_plan sample_world = []" "uw_state sample_world = Saved sample_pending" "uw_transaction sample_world = Absent"
  "sample_world\<lparr>uw_memory := sample_pending\<rparr> = sample_world"
  "sample_pending\<lparr>us_installed := ''v1''\<rparr> = sample_pending" "uw_memory sample_world = sample_pending"
  "us_phase sample_pending \<noteq> []" "us_pending sample_pending" "us_candidate sample_pending = Some sample_candidate"
  "cd_data sample_candidate = ''m''" "cd_signature sample_candidate = ''s''"
  by (simp_all add: sample_world_def sample_pending_def sample_candidate_def)

lemma sample_loaded: "load_state sample_world = (Inr sample_pending, sample_world)"
  "load_transaction sample_world = (Inr None, sample_world)"
  using load_state_works[of sample_world]
  by (simp_all add: sample_fields attempt_def load_transaction_def read_saved_def proc_simps when_calls_work)

lemma sample_step_hands: "sample_step = hand_over sample_update ''dir'' ''me'' ''v1'' 100 sample_candidate sample_manifest sample_pending sample_idle"
  by (simp add: sample_step_def manager_step_def transaction_step_def or_failure_def idle_step_def after_transaction_def
      drive_pending_def ensure_staged_def proc_simps sample_fields sample_loaded sample_tests sample_verified sample_drained
      sample_staged transaction_active_def attempt_def)

lemma sample_step_changes: "uw_transaction (snd sample_step) \<noteq> uw_transaction sample_world"
proof -
  have "(case uw_transaction (snd (hand_over sample_update ''dir'' ''me'' ''v1'' 100 sample_candidate sample_manifest
      sample_pending sample_idle)) of Absent \<Rightarrow> False | _ \<Rightarrow> True) = True"
    by code_simp
  then show ?thesis by (auto simp: sample_step_hands sample_fields)
qed


theorem only_verified_updates_are_handed_over_witness:
  "\<exists>t. uw_transaction (snd sample_step) = Saved t \<and> tx_phase t \<in> {''prepared'', ''retrying''} \<and> tx_previous t = ''v1''"
proof -
  have "manager_step sample_update sample_key ''dir'' ''me'' ''v1'' 3600 100 False sample_world = (fst sample_step, snd sample_step)"
    by (simp add: sample_step_def)
  from only_verified_updates_are_handed_over[OF this sample_step_changes] show ?thesis by blast
qed

text \<open>A machine that is switched off while Setup runs, and again while the recovery copies the installation back.\<close>

definition sample_transaction :: transaction where
  "sample_transaction = \<lparr>tx_phase = ''prepared'', tx_candidate = sample_candidate, tx_install_dir = ''DIR'', tx_owner = ''me'',
     tx_previous = ''1'', tx_backup_files = [], tx_pid = 0, tx_started = 0, tx_error = [], tx_boot = 0\<rparr>"

definition sample_prepared :: update_world where
  "sample_prepared = sample_world\<lparr>uw_transaction := Saved sample_transaction\<rparr>"

definition sample_run :: "outcome list \<Rightarrow> helper_run" where
  "sample_run plan = \<lparr>hr_fuel = 1, hr_plan = plan, hr_clock = [], hr_pid = 9, hr_boot = 0\<rparr>"

theorem update_keeps_an_installation_witness:
  "\<exists>u. uw_transaction (helper_runs sample_update [sample_run (replicate 20 Works @ [Dies 1 ''x'']), sample_run []] sample_prepared) = Saved u \<and>
    tx_phase u \<in> {''prepared'', ''retrying'', ''installing'', ''verifying'', ''recovering'', ''restart-required'', ''completed''}"
proof -
  have "uw_transaction sample_prepared = Saved sample_transaction" "tx_phase sample_transaction = ''prepared''"
    "distinct (map fst (uw_install sample_prepared))"
    by (simp_all add: sample_prepared_def sample_transaction_def sample_world_def sample_old_def)
  moreover have "verify_manifest sample_update (cd_data (tx_candidate sample_transaction))
      (cd_signature (tx_candidate sample_transaction)) sample_key = Inr sample_manifest"
    using sample_verified by (simp add: sample_transaction_def sample_candidate_def)
  ultimately show ?thesis
    using update_keeps_an_installation[OF _ _ _ sample_key, of sample_prepared sample_transaction sample_manifest] by fast
qed

definition sample_interrupted :: transaction where
  "sample_interrupted = sample_transaction\<lparr>tx_phase := ''installing'', tx_backup_files := [sample_file ''transcoderd-updater.exe'' ''old helper'',
     sample_file ''transcoderd-worker.exe'' ''old'']\<rparr>"

definition sample_broken :: update_world where
  "sample_broken = sample_world\<lparr>uw_transaction := Saved sample_interrupted, uw_install := [],
     uw_stages := [(sample_digest ''setup'', \<lparr>sg_files = [], sg_backup = sample_old\<rparr>)]\<rparr>"

lemma sample_backup: "backup_of (stage_dir sample_manifest) sample_broken = sample_old"
  by code_simp

theorem recovery_restores_the_installation_witness:
  "\<exists>w u x. run_helper sample_update 1 sample_broken = (Inr (), w) \<and> uw_install w = sample_old \<and>
    uw_transaction w = Saved u \<and> tx_phase u = ''retrying'' \<and> uw_state w = Saved x \<and> us_pending x"
proof -
  have base: "uw_plan sample_broken = []" "uw_transaction sample_broken = Saved sample_interrupted"
    "tx_phase sample_interrupted \<in> {''installing'', ''verifying'', ''recovering''}"
    "uw_installation sample_broken = Saved (''dir'', ''me'')" "''me'' = tx_owner sample_interrupted"
    "tx_backup_files sample_interrupted \<noteq> []" "uw_state sample_broken \<noteq> Damaged" "distinct (map fst sample_old)"
    by (simp_all add: sample_broken_def sample_interrupted_def sample_transaction_def sample_world_def sample_old_def)
  have dir: "to_lower ''dir'' = to_lower (tx_install_dir sample_interrupted)"
    by code_simp
  have files: "installation_files sample_update sample_old = Inr (tx_backup_files sample_interrupted)"
    by code_simp
  have reports: "trim_v (ue_service sample_update sample_old) = trim_v (tx_previous sample_interrupted)"
    by code_simp
  have verified: "verify_manifest sample_update (cd_data (tx_candidate sample_interrupted))
      (cd_signature (tx_candidate sample_interrupted)) sample_key = Inr sample_manifest"
    using sample_verified by (simp add: sample_interrupted_def sample_transaction_def sample_candidate_def)
  show ?thesis
    using recovery_restores_the_installation[OF base(1-4) dir base(5) sample_key verified, of 0, unfolded sample_backup]
      base(6-8) files reports by simp
qed

text \<open>An update of the past is complete, and its files are in place, when the next one is found.\<close>

definition sample_past :: update_world where
  "sample_past = sample_world\<lparr>uw_install := map (\<lambda>n. (n, ''new'')) required_files,
     uw_transaction := Saved (sample_transaction\<lparr>tx_phase := ''completed''\<rparr>),
     uw_state := Saved (sample_pending\<lparr>us_candidate := Some (sample_candidate\<lparr>cd_data := ''m3''\<rparr>)\<rparr>)\<rparr>"

definition sample_events :: "install_event list" where
  "sample_events = [ServiceStarts ''v2'' [], ManagerSteps \<lparr>mr_version = ''v2'', mr_interval = 3600, mr_now = 100, mr_force = False,
     mr_plan = [], mr_clock = [], mr_answers = [], mr_workers = [], mr_maintenance = False, mr_configured = True,
     mr_children = [''cpu'', ''gpu'']\<rparr>, HelperRuns (sample_run [])]"

abbreviation sample_after :: "install_event list \<Rightarrow> update_world" where
  "sample_after es \<equiv> update_history sample_update sample_key ''dir'' ''me'' es sample_past"

lemma sample_past_installed: "verify_installation sample_update (uw_install sample_past) (mf_files sample_manifest) = Inr ()"
  by code_simp

theorem update_barrier_holds_witness:
  "(\<exists>y. uw_state (sample_after sample_events) = Saved y \<and> us_pending y \<and>
      \<not> configuration_allowed (uw_memory (sample_after sample_events)) ''configure'') \<or>
    (\<exists>es1 e es2 t. sample_events = es1 @ e # es2 \<and> uw_transaction (sample_after (es1 @ [e])) = Saved t \<and> tx_phase t = ''completed'')"
proof -
  let ?x = "sample_pending\<lparr>us_candidate := Some (sample_candidate\<lparr>cd_data := ''m3''\<rparr>)\<rparr>"
  have x: "uw_state sample_past = Saved ?x" "us_pending ?x" "us_phase ?x \<noteq> []" "us_pending (uw_memory sample_past)"
    by (simp_all add: sample_past_def sample_fields)
  have "\<forall>t. uw_transaction sample_past = Saved t \<and> tx_phase t = ''completed'' \<longrightarrow>
      (\<exists>m. verify_manifest sample_update (cd_data (tx_candidate t)) (cd_signature (tx_candidate t)) sample_key = Inr m \<and>
         verify_installation sample_update (uw_install sample_past) (mf_files m) = Inr ())"
    using sample_verified sample_past_installed
    by (auto simp: sample_past_def sample_transaction_def sample_candidate_def)
  moreover have "\<forall>t. uw_transaction sample_past = Saved t \<and> transaction_active (Some t) \<longrightarrow>
      us_candidate ?x = Some (tx_candidate t) \<and> us_candidate (uw_memory sample_past) = Some (tx_candidate t)"
    by (simp add: sample_past_def sample_transaction_def transaction_active_def)
  ultimately show ?thesis
    using update_barrier_holds[OF sample_key x, of "''dir''" "''me''" sample_events] by blast
qed

end
