(* ===== verification/Media_Path.thy ===== *)
theory Media_Path
  imports Path_Facts
begin

text \<open>
  The names of the media library (\<open>server/library/library.go\<close>): which root identifiers and paths it accepts, what it
  takes for a video, and the opaque identifier of a file, the base64 text of root and path. \<open>unicode/utf8\<close>,
  \<open>io/fs.ValidPath\<close> and the unpadded URL alphabet of \<open>encoding/base64\<close> are modelled as the standard library
  documents them: a decoder skips line breaks and ignores the unused low bits of the last digit.
\<close>

section \<open>Paths\<close>

definition valid_root_id :: "string \<Rightarrow> bool" where
  "valid_root_id s \<longleftrightarrow> s \<noteq> [] \<and> length s \<le> 32 \<and>
     list_all (\<lambda>c. 97 \<le> code c \<and> code c \<le> 122 \<or> is_digit c \<or> c = CHR ''-'' \<or> c = CHR ''_'') s"

definition continuation :: "char \<Rightarrow> bool" where
  "continuation c \<longleftrightarrow> 128 \<le> code c \<and> code c \<le> 191"

fun valid_utf8 :: "string \<Rightarrow> bool" where
  "valid_utf8 [] = True"
| "valid_utf8 (a # s) =
    (if code a < 128 then valid_utf8 s
     else if 194 \<le> code a \<and> code a \<le> 223 then
       (case s of b # s \<Rightarrow> continuation b \<and> valid_utf8 s | _ \<Rightarrow> False)
     else if 224 \<le> code a \<and> code a \<le> 239 then
       (case s of b # c # s \<Rightarrow> continuation b \<and> continuation c \<and> (code a = 224 \<longrightarrow> 160 \<le> code b) \<and>
          (code a = 237 \<longrightarrow> code b \<le> 159) \<and> valid_utf8 s | _ \<Rightarrow> False)
     else if 240 \<le> code a \<and> code a \<le> 244 then
       (case s of b # c # d # s \<Rightarrow> continuation b \<and> continuation c \<and> continuation d \<and> (code a = 240 \<longrightarrow> 144 \<le> code b) \<and>
          (code a = 244 \<longrightarrow> code b \<le> 143) \<and> valid_utf8 s | _ \<Rightarrow> False)
     else False)"

definition fs_valid_path :: "string \<Rightarrow> bool" where
  "fs_valid_path p \<longleftrightarrow> valid_utf8 p \<and>
     (p = dot \<or> list_all (\<lambda>w. w \<noteq> [] \<and> w \<noteq> dot \<and> w \<noteq> dotdot) (split_on sep p))"

definition valid_media_path :: "string \<Rightarrow> bool \<Rightarrow> bool" where
  "valid_media_path p directory =
    (if directory \<and> (p = [] \<or> p = dot) then True
     else fs_valid_path p \<and> CHR 0x5C \<notin> set p \<and> CHR 0x00 \<notin> set p \<and>
       list_all (\<lambda>w. \<not> has_prefix w ''.'') (split_on sep p))"

definition is_video :: "string \<Rightarrow> bool" where
  "is_video p \<longleftrightarrow> to_lower (file_ext p) \<in> {''.mkv'', ''.mp4'', ''.m4v'', ''.avi'', ''.mov'', ''.webm'', ''.mpg'', ''.mpeg'',
     ''.ts'', ''.m2ts'', ''.vob'', ''.ogv'', ''.wmv''}"

section \<open>Identifiers\<close>

definition b64_alphabet :: string where
  "b64_alphabet = ''ABCDEFGHIJKLMNOPQRSTUVWXYZabcdefghijklmnopqrstuvwxyz0123456789-_''"

definition b64_digit :: "nat \<Rightarrow> char" where
  "b64_digit n = b64_alphabet ! n"

definition b64_value :: "char \<Rightarrow> nat option" where
  "b64_value c = map_of (zip b64_alphabet [0..<64]) c"

fun b64_sextets :: "nat list \<Rightarrow> nat list" where
  "b64_sextets [] = []"
| "b64_sextets [a] = [a div 4, a mod 4 * 16]"
| "b64_sextets [a, b] = [a div 4, a mod 4 * 16 + b div 16, b mod 16 * 4]"
| "b64_sextets (a # b # c # rest) =
     [a div 4, a mod 4 * 16 + b div 16, b mod 16 * 4 + c div 64, c mod 64] @ b64_sextets rest"

fun b64_octets :: "nat list \<Rightarrow> nat list option" where
  "b64_octets [] = Some []"
| "b64_octets [p] = None"
| "b64_octets [p, q] = Some [p * 4 + q div 16]"
| "b64_octets [p, q, r] = Some [p * 4 + q div 16, q mod 16 * 16 + r div 4]"
| "b64_octets (p # q # r # s # rest) =
     map_option (\<lambda>bs. [p * 4 + q div 16, q mod 16 * 16 + r div 4, r mod 4 * 64 + s] @ bs) (b64_octets rest)"

definition b64_encode :: "string \<Rightarrow> string" where
  "b64_encode s = map b64_digit (b64_sextets (map code s))"

definition b64_decode :: "string \<Rightarrow> string option" where
  "b64_decode s = (case those (map b64_value (filter (\<lambda>c. code c \<noteq> 10 \<and> code c \<noteq> 13) s)) of
      None \<Rightarrow> None | Some vs \<Rightarrow> map_option (map char_of) (b64_octets vs))"

definition file_id :: "string \<Rightarrow> string \<Rightarrow> string" where
  "file_id rt p = b64_encode (rt @ CHR 0x00 # p)"

definition decode_id :: "string \<Rightarrow> (string \<times> string) option" where
  "decode_id s =
    (if 8192 < int (length s) then None
     else (case b64_decode s of None \<Rightarrow> None
       | Some raw \<Rightarrow> (case split_on (CHR 0x00) raw of
             [rt, p] \<Rightarrow> if valid_root_id rt \<and> valid_media_path p False \<and> is_video p then Some (rt, p) else None
           | _ \<Rightarrow> None)))"

section \<open>Decoding what was encoded\<close>

lemma code_less [simp]: "code c < 256"
  by (simp add: code_def)

lemma char_of_code [simp]: "char_of (code c) = c"
  by (simp add: code_def)

lemma b64_value_digit: "n < 64 \<Longrightarrow> b64_value (b64_digit n) = Some n \<and> code (b64_digit n) \<noteq> 10 \<and> code (b64_digit n) \<noteq> 13"
proof -
  have "list_all (\<lambda>n. b64_value (b64_digit n) = Some n \<and> code (b64_digit n) \<noteq> 10 \<and> code (b64_digit n) \<noteq> 13) [0..<64]"
    by code_simp
  then show "n < 64 \<Longrightarrow> ?thesis" by (simp add: list_all_iff)
qed

lemma sextets_less: "\<forall>b\<in>set bs. b < 256 \<Longrightarrow> \<forall>n\<in>set (b64_sextets bs). n < 64"
  by (induction bs rule: b64_sextets.induct) auto

lemma octets_sextets: "\<forall>b\<in>set bs. b < 256 \<Longrightarrow> b64_octets (b64_sextets bs) = Some bs"
proof (induction bs rule: b64_sextets.induct)
  case (4 a b c rest)
  then have "b64_octets (b64_sextets rest) = Some rest" "a < 256" "b < 256" "c < 256" by simp_all
  then show ?case by simp
next
  case (3 a b)
  then have "b div 16 < 16" by (simp add: less_mult_imp_div_less)
  then have "b div 16 div 16 = 0" "b div 16 mod 16 * 16 + b mod 16 = b" by simp_all
  then show ?case by simp
qed simp_all

lemma those_map: "(\<And>x. x \<in> set xs \<Longrightarrow> f x = Some (g x)) \<Longrightarrow> those (map f xs) = Some (map g xs)"
  by (induction xs) auto

lemma b64_roundtrip: "b64_decode (b64_encode s) = Some s"
proof -
  let ?v = "b64_sextets (map code s)"
  have v: "\<forall>n\<in>set ?v. n < 64" by (rule sextets_less) auto
  then have keep: "filter (\<lambda>c. code c \<noteq> 10 \<and> code c \<noteq> 13) (map b64_digit ?v) = map b64_digit ?v"
    using b64_value_digit by (auto simp: filter_id_conv)
  have "those (map (b64_value \<circ> b64_digit) ?v) = Some (map id ?v)"
    by (rule those_map) (use v b64_value_digit in auto)
  then have "those (map b64_value (map b64_digit ?v)) = Some ?v" by simp
  then show ?thesis
    unfolding b64_decode_def b64_encode_def keep by (simp add: octets_sextets o_def)
qed

lemma sextets_length: "length (b64_sextets bs) * 3 \<le> 4 * length bs + 2"
  by (induction bs rule: b64_sextets.induct) auto

lemma valid_path_local:
  assumes "valid_media_path p False" and "p \<noteq> dot"
  shows "is_local p" and "path_parts p = split_on sep p"
proof -
  have parts: "list_all (\<lambda>w. w \<noteq> [] \<and> w \<noteq> dot \<and> w \<noteq> dotdot) (split_on sep p)"
    using assms by (simp add: valid_media_path_def fs_valid_path_def)
  have "\<not> is_abs p"
    using parts by (cases p) (auto simp: is_abs_def split: list.splits if_splits)
  moreover have fold: "list_all (\<lambda>w. w \<noteq> [] \<and> w \<noteq> dot \<and> w \<noteq> dotdot) ws \<Longrightarrow> foldl (clean_step False) acc ws = acc @ ws" for acc ws
    by (induction ws arbitrary: acc) (auto simp: clean_step_def)
  ultimately show pp: "path_parts p = split_on sep p"
    using fold[OF parts, of "[]"] by (simp add: path_parts_def clean_parts_def)
  have "p \<noteq> []" using parts by auto
  then show "is_local p"
    using \<open>\<not> is_abs p\<close> parts unfolding is_local_def pp by (cases "split_on sep p") auto
qed


lemma valid_root_no_nul: "valid_root_id rt \<Longrightarrow> CHR 0x00 \<notin> set rt"
  by (auto simp: valid_root_id_def list_all_iff is_digit_def code_def)

lemma video_is_no_dot: "is_video p \<Longrightarrow> p \<noteq> dot"
proof -
  have "\<not> is_video dot" by code_simp
  then show "is_video p \<Longrightarrow> p \<noteq> dot" by auto
qed

text \<open>C11: Identifiers of media files. The identifier of a video below a root decodes to that root and path (up to the length
  the library accepts), and whatever an identifier decodes to is a root identifier with the path of a video that stays
  below the root: local, with no hidden and no parent element.\<close>

theorem media_id_roundtrip:
  "(valid_root_id rt \<longrightarrow> valid_media_path p False \<longrightarrow> is_video p \<longrightarrow> length rt + length p < 6144 \<longrightarrow>
      decode_id (file_id rt p) = Some (rt, p)) \<and>
   (decode_id i = Some (rt', p') \<longrightarrow> valid_root_id rt' \<and> is_video p' \<and> is_local p' \<and>
      (\<forall>w\<in>set (path_parts p'). w \<noteq> dotdot \<and> \<not> has_prefix w ''.''))"
proof
  show "valid_root_id rt \<longrightarrow> valid_media_path p False \<longrightarrow> is_video p \<longrightarrow> length rt + length p < 6144 \<longrightarrow>
      decode_id (file_id rt p) = Some (rt, p)"
  proof (intro impI)
    assume ok: "valid_root_id rt" "valid_media_path p False" "is_video p" and len: "length rt + length p < 6144"
    have "CHR 0x00 \<notin> set p" using ok(2) by (simp add: valid_media_path_def)
    then have parts: "split_on (CHR 0x00) (rt @ CHR 0x00 # p) = [rt, p]"
      using valid_root_no_nul[OF ok(1)] by (simp add: split_on_append split_on_atom)
    have "length (file_id rt p) \<le> 8192"
      using sextets_length[of "map code (rt @ CHR 0x00 # p)"] len by (simp add: file_id_def b64_encode_def)
    with parts ok show "decode_id (file_id rt p) = Some (rt, p)"
      by (simp add: decode_id_def file_id_def b64_roundtrip)
  qed
  show "decode_id i = Some (rt', p') \<longrightarrow> valid_root_id rt' \<and> is_video p' \<and> is_local p' \<and>
      (\<forall>w\<in>set (path_parts p'). w \<noteq> dotdot \<and> \<not> has_prefix w ''.'')"
  proof
    assume "decode_id i = Some (rt', p')"
    then have ok: "valid_root_id rt'" "valid_media_path p' False" "is_video p'"
      by (auto simp: decode_id_def split: if_splits option.splits list.splits)
    note plain = valid_path_local[OF ok(2) video_is_no_dot[OF ok(3)]]
    have "\<forall>w\<in>set (path_parts p'). \<not> has_prefix w ''.''"
      using ok(2) unfolding plain(2) by (simp add: valid_media_path_def list_all_iff)
    with ok plain(1) show "valid_root_id rt' \<and> is_video p' \<and> is_local p' \<and>
        (\<forall>w\<in>set (path_parts p'). w \<noteq> dotdot \<and> \<not> has_prefix w ''.'')"
      by (auto simp: dotdot_def)
  qed
qed

theorem media_id_roundtrip_witness:
  "decode_id (file_id ''source'' ''Films/a.mkv'') = Some (''source'', ''Films/a.mkv'')"
proof -
  have "valid_root_id ''source''" "valid_media_path ''Films/a.mkv'' False" "is_video ''Films/a.mkv''" by code_simp+
  then show ?thesis using media_id_roundtrip[of "''source''" "''Films/a.mkv''"] by simp
qed

end
