(* ===== verification/Media_Library.thy ===== *)
theory Media_Library
  imports Publication Media_Path Probe_Data
begin

text \<open>
  The media library of the server (\<open>server/library\<close>, \<open>scheduler/media.go\<close>, \<open>repository/media.go\<close>): browsing its
  roots, scanning them for candidates, and queueing a reviewed selection. A scan or a batch runs beside the rest of the
  server: \<open>mw_between\<close> says what others do to the server before each file a batch looks at. Random identifiers come
  from \<open>mw_uuids\<close>; the clock is \<open>mw_now\<close>; SHA-256 and \<open>ffprobe\<close> are parameters. Symbolic links are outside the file
  model, so the checks against them always pass.
\<close>

section \<open>Data\<close>

record media_metadata =
  mm_duration :: float64
  mm_width :: int
  mm_height :: int
  mm_codec :: string
  mm_bitrate :: float64
  mm_probe :: "media_probe option"

record media_job_state =
  mj_id :: string
  mj_state :: string
  mj_role :: string

record media_file =
  md_id :: string
  md_root :: string
  md_path :: string
  md_name :: string
  md_directory :: bool
  md_size :: int
  md_modified :: int
  md_metadata :: "media_metadata option"
  md_job :: "media_job_state option"
  md_eligible :: bool
  md_reason :: string

record media_filters =
  mf_root :: string
  mf_path :: string
  mf_recursive :: bool
  mf_contains :: string
  mf_exclude :: string
  mf_min_bytes :: int
  mf_max_bytes :: int
  mf_min_width :: int
  mf_min_bitrate :: float64
  mf_include :: "string list"
  mf_exclude_codecs :: "string list"
  mf_limit :: int
  mf_only_eligible :: bool
  mf_retry_failed :: bool
  mf_retry_canceled :: bool

record media_result =
  lr_id :: string
  lr_path :: string
  lr_state :: string
  lr_job :: string
  lr_message :: string

record media_operation =
  mo_kind :: string
  mo_state :: string
  mo_stage :: string
  mo_updated :: int
  mo_filters :: media_filters
  mo_discovered :: int
  mo_candidates :: int
  mo_examined :: int
  mo_matched :: int
  mo_target :: int
  mo_scheduled :: int
  mo_skipped :: int
  mo_failed :: int
  mo_truncated :: bool
  mo_error :: string
  mo_files :: "media_file list"
  mo_results :: "media_result list"

datatype media_error = MeServer server_error | MeInvalidPath | MeUnavailable | MeBusy | MeNotFound | MePlayback | MeChanged
  | MeFilters | MeSelection | MeCanceled

record media_world =
  mw_server :: server
  mw_roots :: "(string \<times> string) list"
  mw_ops :: "(string \<times> media_operation) list"
  mw_canceled :: "string list"
  mw_uuids :: "string list"
  mw_now :: int
  mw_between :: "(server \<Rightarrow> server) list"

type_synonym 'a media_op = "(media_world, media_error, 'a) procedure"

definition on_server :: "'a server_op \<Rightarrow> 'a media_op" where
  "on_server m = (\<lambda>w. case m (mw_server w) of (r, s) \<Rightarrow> (map_sum MeServer id r, w\<lparr>mw_server := s\<rparr>))"

section \<open>What the database says of a path\<close>

definition media_state_of :: "task_event \<Rightarrow> string" where
  "media_state_of e = (if notification_type e \<noteq> JobNotification then ''active''
     else (case status e of Queued \<Rightarrow> ''queued'' | Completed \<Rightarrow> ''completed'' | Failed \<Rightarrow> ''failed'' | Canceled \<Rightarrow> ''canceled''
       | _ \<Rightarrow> ''active''))"

definition note_media_row :: "string list \<Rightarrow> job_row \<times> task_event \<Rightarrow> (string \<Rightarrow> media_job_state option) \<Rightarrow> string \<Rightarrow> media_job_state option" where
  "note_media_row paths = (\<lambda>(j, e) m.
    (let st = \<lparr>mj_id = jr_id j, mj_state = media_state_of e, mj_role = ''source''\<rparr>;
         m = (if jr_source_path j \<in> set paths then m(jr_source_path j \<mapsto> st) else m)
     in if jr_target_path j \<in> set paths \<and> jr_target_path j \<noteq> jr_source_path j \<and> media_state_of e = ''completed'' \<and>
          (case m (jr_target_path j) of None \<Rightarrow> True | Some x \<Rightarrow> mj_role x \<noteq> ''source'')
        then m(jr_target_path j \<mapsto> st\<lparr>mj_role := ''output''\<rparr>) else m))"

definition get_media_job_states :: "string list \<Rightarrow> (string \<Rightarrow> media_job_state option) db_op" where
  "get_media_job_states paths =
    (if paths = [] then retP (\<lambda>_. None)
     else statement (readP (\<lambda>s. fold (note_media_row paths)
       (sort_slice (\<lambda>x y. event_time (snd x) < event_time (snd y))
         (filter (\<lambda>(j, _). jr_source_path j \<in> set paths \<or> jr_target_path j \<in> set paths) (joined s)))
       (\<lambda>_. None))))"

section \<open>Files\<close>

text \<open>A root that is configured, absolute and can be opened.\<close>

definition open_root :: "string \<Rightarrow> string media_op" where
  "open_root rt = (\<lambda>w. case map_of (mw_roots w) rt of
      None \<Rightarrow> (Inl MeInvalidPath, w)
    | Some dir \<Rightarrow> if \<not> is_abs dir then (Inl MeUnavailable, w)
        else (case on_server (on_fs (os_stat dir)) w of
            (Inr Directory, w) \<Rightarrow> (Inr dir, w) | (_, w) \<Rightarrow> (Inl MeUnavailable, w)))"

text \<open>Every element on the way is looked at.\<close>

fun stat_parts :: "string \<Rightarrow> string list \<Rightarrow> string list \<Rightarrow> unit fs_op" where
  "stat_parts dir done [] = retP ()"
| "stat_parts dir done (w # ws) = bindP (os_stat (join_path [dir, join_with sep (done @ [w])])) (\<lambda>_. stat_parts dir (done @ [w]) ws)"

definition check_media_path :: "string \<Rightarrow> string \<Rightarrow> bool \<Rightarrow> unit fs_op" where
  "check_media_path dir p directory =
    (if \<not> valid_media_path p directory then failP InvalidPath
     else if p = [] \<or> p = dot then retP () else stat_parts dir [] (split_on sep p))"

definition media_file_of :: "string \<Rightarrow> string \<Rightarrow> node \<Rightarrow> file_system \<Rightarrow> media_file" where
  "media_file_of rt p n s = \<lparr>md_id = file_id rt p, md_root = rt, md_path = p, md_name = base_name p, md_directory = (n = Directory),
     md_size = sizes s n, md_modified = mtimes s n, md_metadata = None, md_job = None, md_eligible = False, md_reason = []\<rparr>"

definition regular :: "node \<Rightarrow> bool" where
  "regular n \<longleftrightarrow> (case n of File _ \<Rightarrow> True | Directory \<Rightarrow> False)"

definition media_open :: "string \<Rightarrow> (node \<times> media_file) media_op" where
  "media_open i = (case decode_id i of
      None \<Rightarrow> failP MeInvalidPath
    | Some (rt, p) \<Rightarrow> bindP (open_root rt) (\<lambda>dir.
        bindP (on_server (on_fs (check_media_path dir p False))) (\<lambda>_.
        bindP (on_server (on_fs (os_open (join_path [dir, p])))) (\<lambda>n w.
          if \<not> regular n then (Inl MeInvalidPath, w) else (Inr (n, media_file_of rt p n (sfs (mw_server w))), w)))))"

text \<open>The verdict on a file from its place, its size and its job.\<close>

definition annotate_file :: "int \<Rightarrow> media_filters \<Rightarrow> (string \<Rightarrow> media_job_state option) \<Rightarrow> media_file \<Rightarrow> media_file" where
  "annotate_file minimum filters states f =
    (let f = (if md_directory f then f\<lparr>md_eligible := False, md_reason := ''Folder''\<rparr>
       else if md_root f \<noteq> ''source'' then f\<lparr>md_eligible := False, md_reason := ''Output library (playback only)''\<rparr>
       else if md_size f < minimum then f\<lparr>md_eligible := False, md_reason := ''Below the server minimum file size''\<rparr>
       else f\<lparr>md_eligible := True\<rparr>)
     in case (if md_root f = ''source'' then states (md_path f) else None) of
        None \<Rightarrow> f
      | Some st \<Rightarrow> (let f = f\<lparr>md_job := Some st, md_eligible := False, md_reason := ''Already has a job: '' @ mj_state st\<rparr>
          in if mj_role st = ''output'' then f\<lparr>md_reason := ''Output of a completed job''\<rparr>
             else if minimum \<le> md_size f \<and> (mj_state st = ''failed'' \<and> mf_retry_failed filters \<or>
               mj_state st = ''canceled'' \<and> mf_retry_canceled filters)
             then f\<lparr>md_eligible := True, md_reason := ''Explicit retry''\<rparr> else f))"

definition annotate :: "server_config \<Rightarrow> media_filters \<Rightarrow> media_file list \<Rightarrow> media_file list media_op" where
  "annotate cfg filters files =
    bindP (on_server (on_db (get_media_job_states
      (map md_path (filter (\<lambda>f. \<not> md_directory f \<and> md_root f = ''source'') files))))) (\<lambda>states.
      retP (map (annotate_file (cfg_min_size cfg) filters states) files))"

definition no_filters :: media_filters where
  "no_filters = \<lparr>mf_root = [], mf_path = [], mf_recursive = False, mf_contains = [], mf_exclude = [], mf_min_bytes = 0, mf_max_bytes = 0,
     mf_min_width = 0, mf_min_bitrate = Fin 0, mf_include = [], mf_exclude_codecs = [], mf_limit = 0, mf_only_eligible = False,
     mf_retry_failed = False, mf_retry_canceled = False\<rparr>"

text \<open>Browsing lists folders first, then videos, by name without regard to case, and shows a page of them.\<close>

definition shown_entry :: "string \<times> node \<Rightarrow> bool" where
  "shown_entry = (\<lambda>(q, n). \<not> has_prefix (base_name q) ''.'' \<and> (n = Directory \<or> is_video (base_name q)))"

definition browse_less :: "string \<times> node \<Rightarrow> string \<times> node \<Rightarrow> bool" where
  "browse_less = (\<lambda>(p, m) (q, n). if (m = Directory) \<noteq> (n = Directory) then m = Directory
     else string_less (to_lower (base_name p)) (to_lower (base_name q)))"

definition media_browse :: "server_config \<Rightarrow> string \<Rightarrow> string \<Rightarrow> int \<Rightarrow> int \<Rightarrow> (int \<times> media_file list) media_op" where
  "media_browse cfg rt p offset limit =
    (let p = (if p = [] then dot else p) in
     if offset < 0 \<or> limit < 1 \<or> 200 < limit then failP MeInvalidPath
     else bindP (open_root rt) (\<lambda>dir. bindP (on_server (on_fs (check_media_path dir p True))) (\<lambda>_.
       bindP (on_server (on_fs (os_stat (join_path [dir, p])))) (\<lambda>n.
       if n \<noteq> Directory then failP (MeServer OtherFileError)
       else bindP (readP (\<lambda>w. names (sfs (mw_server w)))) (\<lambda>ns.
         let d = join_path [dir, p];
             entries = sort_slice browse_less (filter (\<lambda>e. fst e \<noteq> d \<and> dir_name (fst e) = d \<and> shown_entry e) ns)
         in bindP (readP (\<lambda>w. map (\<lambda>(q, n). media_file_of rt (join_path [p, base_name q]) n (sfs (mw_server w)))
              (take (nat limit) (drop (nat offset) entries)))) (\<lambda>files.
            bindP (annotate cfg no_filters files) (\<lambda>files. retP (int (length entries), files))))))))"

section \<open>Filters\<close>

definition normalize_filters :: "media_filters \<Rightarrow> media_error + media_filters" where
  "normalize_filters f =
    (let f = f\<lparr>mf_root := (if mf_root f = [] then ''source'' else mf_root f), mf_path := (if mf_path f = [] then dot else mf_path f)\<rparr>
     in if \<not> valid_media_path (mf_path f) True then Inl MeInvalidPath
        else (let f = f\<lparr>mf_limit := (if mf_limit f = 0 then 1000 else mf_limit f)\<rparr> in
          if mf_limit f < 1 \<or> 5000 < mf_limit f \<or> mf_min_bytes f < 0 \<or> mf_max_bytes f < 0 \<or> mf_min_width f < 0 \<or>
             float_less (mf_min_bitrate f) (Fin 0) \<or> is_nan_or_inf (mf_min_bitrate f) \<or> 1024 < int (length (mf_contains f)) \<or>
             1024 < int (length (mf_exclude f)) \<or> 32 < int (length (mf_include f)) \<or> 32 < int (length (mf_exclude_codecs f))
          then Inl MeFilters
          else if 0 < mf_max_bytes f \<and> mf_max_bytes f < mf_min_bytes f then Inl MeFilters
          else Inr f))"

definition cheap_match :: "media_file \<Rightarrow> media_filters \<Rightarrow> bool" where
  "cheap_match f fl \<longleftrightarrow> (let p = to_lower (md_path f) in
     \<not> (mf_contains fl \<noteq> [] \<and> \<not> contains p (to_lower (mf_contains fl))) \<and>
     \<not> (mf_exclude fl \<noteq> [] \<and> contains p (to_lower (mf_exclude fl))) \<and>
     mf_min_bytes fl \<le> md_size f \<and> (mf_max_bytes fl = 0 \<or> md_size f \<le> mf_max_bytes fl))"

definition codec_key :: "string \<Rightarrow> string" where
  "codec_key s = (let s = to_lower (trim_space s) in
     if s = ''h265'' \<or> s = ''x265'' then ''hevc'' else if s = ''x264'' then ''h264'' else s)"

definition metadata_match :: "media_metadata option \<Rightarrow> media_filters \<Rightarrow> bool" where
  "metadata_match m f = (case m of None \<Rightarrow> False
     | Some m \<Rightarrow> mm_codec m \<noteq> [] \<and> \<not> (0 < mf_min_width f \<and> mm_width m \<le> mf_min_width f) \<and>
         \<not> (float_less (Fin 0) (mf_min_bitrate f) \<and> \<not> float_less (mf_min_bitrate f) (mm_bitrate m)) \<and>
         \<not> list_ex (\<lambda>c. codec_key c = codec_key (mm_codec m)) (mf_exclude_codecs f) \<and>
         (mf_include f = [] \<or> list_ex (\<lambda>c. codec_key c = codec_key (mm_codec m)) (mf_include f)))"

end
