(* ===== verification/Media_Operations.thy ===== *)
theory Media_Operations
  imports Media_Library
begin

text \<open>
  The operations of the media library (\<open>server/library/operations.go\<close>, \<open>probe.go\<close>, \<open>QueueMediaFile\<close>): the registry with
  its bounds, the scan and the batch. The two probing goroutines of a scan are run one after the other; the timeout of an
  operation and its cancellation are its entry in \<open>mw_canceled\<close>.
\<close>

section \<open>The registry\<close>

definition blank_operation :: "string \<Rightarrow> int \<Rightarrow> media_operation" where
  "blank_operation kind now = \<lparr>mo_kind = kind, mo_state = ''running'', mo_stage = ''starting'', mo_updated = now,
     mo_filters = no_filters, mo_discovered = 0, mo_candidates = 0, mo_examined = 0, mo_matched = 0, mo_target = 0,
     mo_scheduled = 0, mo_skipped = 0, mo_failed = 0, mo_truncated = False, mo_error = [], mo_files = [], mo_results = []\<rparr>"

definition operation_expired :: "int \<Rightarrow> media_operation \<Rightarrow> bool" where
  "operation_expired now d \<longleftrightarrow> mo_state d \<noteq> ''running'' \<and> 1800 < now - mo_updated d"

text \<open>The entry that has not been updated for longest among those that have ended; the order of the map decides ties.\<close>

fun oldest_ended :: "(string \<times> media_operation) list \<Rightarrow> (string \<times> media_operation) option" where
  "oldest_ended [] = None"
| "oldest_ended ((i, d) # rest) =
    (if mo_state d = ''running'' then oldest_ended rest
     else (case oldest_ended rest of None \<Rightarrow> Some (i, d)
       | Some (j, e) \<Rightarrow> if mo_updated e < mo_updated d then Some (j, e) else Some (i, d)))"

definition new_operation :: "string \<Rightarrow> string media_op" where
  "new_operation kind = (\<lambda>w.
    (let active = length (filter (\<lambda>(_, d). mo_state d = ''running'') (mw_ops w));
         kept = filter (\<lambda>(_, d). \<not> operation_expired (mw_now w) d) (mw_ops w);
         w = w\<lparr>mw_ops := kept\<rparr>
     in if 2 \<le> active then (Inl MeBusy, w)
        else (case (if 8 \<le> length kept then map_option fst (oldest_ended kept) else Some []) of
            None \<Rightarrow> (Inl MeBusy, w)
          | Some old \<Rightarrow> (let kept = (if 8 \<le> length kept then filter (\<lambda>(i, _). i \<noteq> old) kept else kept);
                i = hd (mw_uuids w)
              in (Inr i, w\<lparr>mw_ops := kept @ [(i, blank_operation kind (mw_now w))], mw_uuids := tl (mw_uuids w)\<rparr>)))))"

definition update_operation :: "string \<Rightarrow> (media_operation \<Rightarrow> media_operation) \<Rightarrow> unit media_op" where
  "update_operation i f = writeP (\<lambda>w. w\<lparr>mw_ops := map (\<lambda>(j, d). (j, if j = i then (f d)\<lparr>mo_updated := mw_now w\<rparr> else d)) (mw_ops w)\<rparr>)"

definition finish_operation :: "string \<Rightarrow> (media_error \<Rightarrow> string) \<Rightarrow> media_error + unit \<Rightarrow> unit media_op" where
  "finish_operation i describe r = bindP (update_operation i (\<lambda>d. (case r of
      Inr _ \<Rightarrow> d\<lparr>mo_state := ''completed'', mo_stage := ''done''\<rparr>
    | Inl e \<Rightarrow> if e = MeCanceled then d\<lparr>mo_state := ''canceled'', mo_stage := ''done''\<rparr>
        else d\<lparr>mo_state := ''failed'', mo_stage := ''done'', mo_error := describe e\<rparr>)))
    (\<lambda>_. writeP (\<lambda>w. w\<lparr>mw_canceled := i # mw_canceled w\<rparr>))"

definition get_operation :: "string \<Rightarrow> media_operation media_op" where
  "get_operation i = (\<lambda>w. case map_of (mw_ops w) i of
      None \<Rightarrow> (Inl MeNotFound, w)
    | Some d \<Rightarrow> if operation_expired (mw_now w) d
        then (Inl MeNotFound, w\<lparr>mw_ops := filter (\<lambda>(j, _). j \<noteq> i) (mw_ops w)\<rparr>) else (Inr d, w))"

definition cancel_operation :: "string \<Rightarrow> unit media_op" where
  "cancel_operation i = (\<lambda>w. if map_of (mw_ops w) i = None then (Inl MeNotFound, w)
     else (Inr (), w\<lparr>mw_canceled := i # mw_canceled w\<rparr>))"

definition check_canceled :: "string \<Rightarrow> unit media_op" where
  "check_canceled i = (\<lambda>w. (if i \<in> set (mw_canceled w) then Inl MeCanceled else Inr (), w))"

section \<open>Queueing a file\<close>

text \<open>\<open>QueueMediaFile\<close>: the reviewed file is looked at again under the lock of the intake before it is scheduled.\<close>

definition media_request :: "media_filters \<Rightarrow> media_file \<Rightarrow> media_probe \<Rightarrow> job_request" where
  "media_request filters f probe =
    (let t = format_target_name (md_path f) in
     \<lparr>rq_source_probe = Some probe, rq_source_path = md_path f, force_completed = False, force_failed = mf_retry_failed filters,
      force_canceled = mf_retry_canceled filters, force_assigned = False, rq_source_size = md_size f,
      rq_target_path = (if t = md_path f then trim_suffix (md_path f) (file_ext (md_path f)) @ ''_encoded.mkv'' else t)\<rparr>)"

definition queue_media_file :: "server_config \<Rightarrow> bool \<Rightarrow> int \<Rightarrow> uuid \<Rightarrow> media_filters \<Rightarrow> media_file \<Rightarrow> job server_op" where
  "queue_media_file cfg canceled now fresh filters f =
    (if canceled then failP ContextDone
     else if md_root f \<noteq> ''source'' \<or> \<not> valid_media_path (md_path f) False \<or> \<not> is_video (md_path f) then failP InvalidPath
     else bindP (on_fs (os_stat (cfg_root cfg))) (\<lambda>_.
       bindP (on_fs (check_media_path (cfg_root cfg) (md_path f) False)) (\<lambda>_.
       bindP (on_fs (os_open (join_path [cfg_root cfg, md_path f]))) (\<lambda>n.
       bindP (readP (\<lambda>s. (sizes (sfs s) n, mtimes (sfs s) n))) (\<lambda>(sz, modified).
         if \<not> regular n \<or> sz \<noteq> md_size f \<or> modified \<noteq> md_modified f then failP MediaChanged
         else if sz < cfg_min_size cfg then failP BelowMinimumSize
         else (case (case md_metadata f of None \<Rightarrow> None | Some m \<Rightarrow> mm_probe m) of
             None \<Rightarrow> failP MetadataRequired
           | Some probe \<Rightarrow> on_db (schedule_job_request canceled now fresh (\<lambda>_. None) (cfg_root cfg)
               (media_request filters f probe))))))))"

section \<open>Batches\<close>

definition blank_result :: "media_file \<Rightarrow> media_result" where
  "blank_result f = \<lparr>lr_id = md_id f, lr_path = md_path f, lr_state = ''skipped'', lr_job = [], lr_message = []\<rparr>"

definition gone :: string where
  "gone = ''The file changed or is no longer available''"

text \<open>A file that cannot be queued: another intake may have won since its state was read.\<close>

definition queue_failed :: "server_config \<Rightarrow> (media_error \<Rightarrow> string) \<Rightarrow> string \<Rightarrow> media_filters \<Rightarrow> media_file \<Rightarrow> media_error \<Rightarrow> media_result media_op" where
  "queue_failed cfg describe i filters f e = bindP (check_canceled i) (\<lambda>_.
     if e \<in> {MeServer MediaChanged, MeServer FileNotExist, MeServer InvalidPath}
     then retP ((blank_result f)\<lparr>lr_message := gone\<rparr>)
     else bindP (tryP (annotate cfg filters [f])) (\<lambda>r. case r of
         Inr [g] \<Rightarrow> if \<not> md_eligible g then retP ((blank_result f)\<lparr>lr_message := md_reason g\<rparr>)
           else retP ((blank_result f)\<lparr>lr_state := ''failed'', lr_message := describe e\<rparr>)
       | _ \<Rightarrow> retP ((blank_result f)\<lparr>lr_state := ''failed'', lr_message := describe e\<rparr>)))"

definition file_unchanged :: "string \<Rightarrow> media_file \<Rightarrow> unit media_op" where
  "file_unchanged i f = bindP (media_open i) (\<lambda>(_, g).
     if md_size g \<noteq> md_size f \<or> md_modified g \<noteq> md_modified f then failP MeChanged else retP ())"

definition load_file :: "server_config \<Rightarrow> (media_error \<Rightarrow> string) \<Rightarrow> string \<Rightarrow> media_filters \<Rightarrow> media_file \<Rightarrow> media_result media_op" where
  "load_file cfg describe i filters f =
    bindP (tryP (file_unchanged (md_id f) f)) (\<lambda>r. case r of
      Inl _ \<Rightarrow> retP ((blank_result f)\<lparr>lr_message := gone\<rparr>)
    | Inr _ \<Rightarrow> bindP (annotate cfg filters [f]) (\<lambda>gs.
        if \<not> md_eligible (hd gs) then retP ((blank_result f)\<lparr>lr_message := md_reason (hd gs)\<rparr>)
        else bindP (readP (\<lambda>w. (i \<in> set (mw_canceled w), mw_now w, hd (mw_uuids w)))) (\<lambda>(canceled, now, fresh).
          bindP (writeP (\<lambda>w. w\<lparr>mw_uuids := tl (mw_uuids w)\<rparr>)) (\<lambda>_.
          bindP (tryP (on_server (queue_media_file cfg canceled now fresh filters f))) (\<lambda>q. case q of
              Inr j \<Rightarrow> retP ((blank_result f)\<lparr>lr_state := ''scheduled'', lr_job := jid j\<rparr>)
            | Inl e \<Rightarrow> queue_failed cfg describe i filters f e)))))"

definition count_result :: "media_result \<Rightarrow> media_operation \<Rightarrow> media_operation" where
  "count_result r d =
    (let d = d\<lparr>mo_examined := mo_examined d + 1, mo_results := mo_results d @ [r]\<rparr> in
     if lr_state r = ''scheduled'' then d\<lparr>mo_scheduled := mo_scheduled d + 1\<rparr>
     else if lr_state r = ''skipped'' then d\<lparr>mo_skipped := mo_skipped d + 1\<rparr>
     else if lr_state r = ''failed'' then d\<lparr>mo_failed := mo_failed d + 1\<rparr> else d)"

definition others_act :: "unit media_op" where
  "others_act = writeP (\<lambda>w. case mw_between w of [] \<Rightarrow> w | g # gs \<Rightarrow> w\<lparr>mw_server := g (mw_server w), mw_between := gs\<rparr>)"

fun load_files :: "server_config \<Rightarrow> (media_error \<Rightarrow> string) \<Rightarrow> string \<Rightarrow> media_filters \<Rightarrow> int \<Rightarrow> int \<Rightarrow> media_file list \<Rightarrow> unit media_op" where
  "load_files cfg describe i filters target scheduled [] = retP ()"
| "load_files cfg describe i filters target scheduled (f # fs) =
    bindP others_act (\<lambda>_. bindP (check_canceled i) (\<lambda>_.
      if target \<le> scheduled then retP ()
      else bindP (load_file cfg describe i filters f) (\<lambda>r.
        bindP (update_operation i (count_result r)) (\<lambda>_.
          load_files cfg describe i filters target (if lr_state r = ''scheduled'' then scheduled + 1 else scheduled) fs))))"

text \<open>\<open>StartBatch\<close> up to the goroutine, and the goroutine.\<close>

definition batch_selection :: "media_operation \<Rightarrow> string list \<Rightarrow> media_error + media_file list" where
  "batch_selection d ids =
    (if \<not> distinct ids then Inl MeSelection
     else (case find (\<lambda>f. md_id f \<in> set ids \<and> \<not> md_eligible f) (mo_files d) of
         Some _ \<Rightarrow> Inl MeSelection
       | None \<Rightarrow> if \<not> set ids \<subseteq> md_id ` set (mo_files d) then Inl MeSelection
           else Inr (filter (\<lambda>f. md_id f \<in> set ids) (mo_files d))))"

definition start_batch :: "string \<Rightarrow> string list \<Rightarrow> int \<Rightarrow> (string \<times> media_file list \<times> media_filters) media_op" where
  "start_batch scan_id ids target =
    (if target < 1 \<or> 5000 < target \<or> ids = [] \<or> 5000 < int (length ids) then failP MeSelection
     else bindP (get_operation scan_id) (\<lambda>d.
       if mo_kind d \<noteq> ''scan'' \<or> mo_state d \<noteq> ''completed'' \<or> mf_root (mo_filters d) \<noteq> ''source'' then failP MeSelection
       else bindP (liftP (batch_selection d ids)) (\<lambda>files.
         bindP (new_operation ''queue'') (\<lambda>i.
         bindP (update_operation i (\<lambda>o1. o1\<lparr>mo_target := target, mo_candidates := int (length files),
             mo_filters := mo_filters d, mo_stage := ''queueing''\<rparr>)) (\<lambda>_.
           retP (i, files, mo_filters d))))))"

definition run_batch :: "server_config \<Rightarrow> (media_error \<Rightarrow> string) \<Rightarrow> string \<Rightarrow> media_filters \<Rightarrow> int \<Rightarrow> media_file list \<Rightarrow> unit media_op" where
  "run_batch cfg describe i filters target files =
    bindP (tryP (load_files cfg describe i filters target 0 files)) (finish_operation i describe)"

section \<open>Scans\<close>

text \<open>The videos below the scanned folder that the walk reaches: no hidden element below the folder, and only the folder
  itself unless the scan is recursive. Reading a folder below an existing one is taken not to fail.\<close>

definition walked :: "media_filters \<Rightarrow> string \<Rightarrow> string \<times> node \<Rightarrow> string option" where
  "walked filters dir = (\<lambda>(q, n). case rel_path (join_path [dir, mf_path filters]) q of
      None \<Rightarrow> None
    | Some r \<Rightarrow> (let parts = split_on sep r in
        if r = dot then (if regular n \<and> is_video (mf_path filters) then Some (mf_path filters) else None)
        else if \<not> regular n \<or> list_ex (\<lambda>w. has_prefix w ''.'') parts \<or> (\<not> mf_recursive filters \<and> 1 < length parts) \<or> \<not> is_video r
        then None else Some (join_path [mf_path filters, r])))"

definition scan_walk :: "string \<Rightarrow> media_filters \<Rightarrow> (string \<times> node) list media_op" where
  "scan_walk dir filters = readP (\<lambda>w. concat (map (\<lambda>e. case walked filters dir e of None \<Rightarrow> [] | Some p \<Rightarrow> [(p, snd e)])
     (names (sfs (mw_server w)))))"

definition larger_first :: "media_file \<Rightarrow> media_file \<Rightarrow> bool" where
  "larger_first f g \<longleftrightarrow> md_size g < md_size f \<or> md_size f = md_size g \<and> string_less (md_path f) (md_path g)"

definition discover :: "string \<Rightarrow> string \<Rightarrow> media_filters \<Rightarrow> (int \<times> media_file list) media_op" where
  "discover i dir filters = bindP (on_server (on_fs (os_stat (join_path [dir, mf_path filters])))) (\<lambda>_.
     bindP (scan_walk dir filters) (\<lambda>found.
     bindP (if 100000 < int (length found) then update_operation i (\<lambda>d. d\<lparr>mo_truncated := True\<rparr>) else retP ()) (\<lambda>_.
     bindP (readP (\<lambda>w. map (\<lambda>(p, n). media_file_of (mf_root filters) p n (sfs (mw_server w)))
       (if 100000 < int (length found) then take (nat 100000) found else found))) (\<lambda>files.
     retP (min (int (length found)) 100000, sort_slice larger_first (filter (\<lambda>f. cheap_match f filters) files))))))"

text \<open>The states are looked up in chunks of 500 files.\<close>

function annotate_chunks :: "server_config \<Rightarrow> media_filters \<Rightarrow> media_file list \<Rightarrow> media_file list media_op" where
  "annotate_chunks cfg filters fs =
    (if fs = [] then retP []
     else bindP (annotate cfg filters (take 500 fs)) (\<lambda>chunk.
       bindP (annotate_chunks cfg filters (drop 500 fs)) (\<lambda>rest.
         retP (filter (\<lambda>f. \<not> mf_only_eligible filters \<or> md_eligible f) chunk @ rest))))"
  by pat_completeness auto
termination by (relation "measure (\<lambda>(_, _, fs). length fs)") auto

declare annotate_chunks.simps [simp del]

text \<open>The metadata of a file: from the cache, or from ffprobe with the file looked at again before it is cached.\<close>

definition first_video :: "media_probe \<Rightarrow> media_stream option" where
  "first_video p = find (\<lambda>s. codec_type s = ''video'') (streams p)"

definition metadata_of :: "int \<Rightarrow> media_probe \<Rightarrow> media_metadata" where
  "metadata_of sz p =
    (let d = (if float_less (duration_seconds p) (Fin 0) \<or> is_nan_or_inf (duration_seconds p) then Fin 0 else duration_seconds p);
         bitrate = (case d of Fin x \<Rightarrow> if 0 < x then Fin (rat_of_int sz * 8 / x / 1000000) else Fin 0 | _ \<Rightarrow> Fin 0)
     in case first_video p of
        None \<Rightarrow> \<lparr>mm_duration = d, mm_width = 0, mm_height = 0, mm_codec = [], mm_bitrate = bitrate, mm_probe = Some p\<rparr>
      | Some v \<Rightarrow> \<lparr>mm_duration = d, mm_width = ms_width v, mm_height = ms_height v, mm_codec = to_lower (codec_name v),
          mm_bitrate = bitrate, mm_probe = Some p\<rparr>)"

definition media_info :: "(string \<Rightarrow> raw_probe option) \<Rightarrow> (string \<Rightarrow> string) \<Rightarrow> string \<Rightarrow> media_file media_op" where
  "media_info ffprobe digest i =
    bindP (media_open i) (\<lambda>(n, f).
    bindP (open_root (md_root f)) (\<lambda>dir.
    bindP (on_server (on_db (get_media_probe (digest dir) (md_path f) (md_size f) (md_modified f)))) (\<lambda>cached.
    bindP (case cached of Some p \<Rightarrow> retP p
      | None \<Rightarrow> bindP (on_server (on_fs (os_read n))) (\<lambda>bytes. case ffprobe bytes of
            None \<Rightarrow> failP (MeServer server_error.ProbeFailed)
          | Some raw \<Rightarrow> bindP others_act (\<lambda>_.
              bindP (readP (\<lambda>w. (sizes (sfs (mw_server w)) n, mtimes (sfs (mw_server w)) n))) (\<lambda>now.
              if now \<noteq> (md_size f, md_modified f) then failP MeChanged
              else bindP (on_server (on_db (put_media_probe (digest dir) (md_path f) (md_size f) (md_modified f) (media_probe_of raw)))) (\<lambda>_.
                retP (media_probe_of raw)))))) (\<lambda>p.
    retP (f\<lparr>md_metadata := Some (metadata_of (md_size f) p)\<rparr>)))))"

definition probed :: "media_filters \<Rightarrow> media_file \<Rightarrow> media_error + media_file \<Rightarrow> media_operation \<Rightarrow> media_operation" where
  "probed filters f r d =
    (let d = d\<lparr>mo_examined := mo_examined d + 1\<rparr>;
         failed = (\<lambda>m. d\<lparr>mo_failed := mo_failed d + 1, mo_results := mo_results d @ [(blank_result f)\<lparr>lr_state := ''failed'', lr_message := m\<rparr>]\<rparr>)
     in case r of
        Inl _ \<Rightarrow> failed ''Could not analyze the video''
      | Inr g \<Rightarrow> if md_size g \<noteq> md_size f \<or> md_modified g \<noteq> md_modified f then failed ''The file changed during analysis''
          else (let g = g\<lparr>md_job := md_job f, md_eligible := md_eligible f, md_reason := md_reason f\<rparr> in
            if metadata_match (md_metadata g) filters then d\<lparr>mo_matched := mo_matched d + 1, mo_files := mo_files d @ [g]\<rparr> else d))"

definition scan :: "server_config \<Rightarrow> (string \<Rightarrow> raw_probe option) \<Rightarrow> (string \<Rightarrow> string) \<Rightarrow> string \<Rightarrow> media_filters \<Rightarrow> unit media_op" where
  "scan cfg ffprobe digest i filters =
    bindP (open_root (mf_root filters)) (\<lambda>dir. bindP (check_canceled i) (\<lambda>_.
    bindP (discover i dir filters) (\<lambda>(discovered, candidates).
    bindP (annotate_chunks cfg filters candidates) (\<lambda>eligible.
    let chosen = (if mf_limit filters < int (length eligible) then take (nat (mf_limit filters)) eligible else eligible) in
    bindP (update_operation i (\<lambda>d. d\<lparr>mo_truncated := mo_truncated d \<or> mf_limit filters < int (length eligible),
      mo_discovered := discovered, mo_candidates := int (length chosen), mo_stage := ''probing''\<rparr>)) (\<lambda>_.
    bindP (forP chosen (\<lambda>f. bindP (check_canceled i) (\<lambda>_.
      bindP (tryP (media_info ffprobe digest (md_id f))) (\<lambda>r. update_operation i (probed filters f r))))) (\<lambda>_.
    bindP (update_operation i (\<lambda>d. d\<lparr>mo_files := sort_slice larger_first (mo_files d)\<rparr>)) (\<lambda>_.
    check_canceled i)))))))"

definition start_scan :: "media_filters \<Rightarrow> (string \<times> media_filters) media_op" where
  "start_scan filters =
    bindP (liftP (normalize_filters filters)) (\<lambda>filters.
    bindP (open_root (mf_root filters)) (\<lambda>dir.
    bindP (on_server (on_fs (check_media_path dir (mf_path filters) True))) (\<lambda>_.
    bindP (on_server (on_fs (os_stat (join_path [dir, mf_path filters])))) (\<lambda>n.
    if n \<noteq> Directory then failP MeInvalidPath
    else bindP (new_operation ''scan'') (\<lambda>i.
      bindP (update_operation i (\<lambda>d. d\<lparr>mo_filters := filters, mo_stage := ''discovering''\<rparr>)) (\<lambda>_.
      retP (i, filters)))))))"

definition run_scan :: "server_config \<Rightarrow> (string \<Rightarrow> raw_probe option) \<Rightarrow> (string \<Rightarrow> string) \<Rightarrow> (media_error \<Rightarrow> string) \<Rightarrow> string \<Rightarrow> media_filters \<Rightarrow> unit media_op" where
  "run_scan cfg ffprobe digest describe i filters =
    bindP (tryP (scan cfg ffprobe digest i filters)) (finish_operation i describe)"

section \<open>Playback\<close>

text \<open>The assets of a job that is waiting or complete; the roots are tried in the order they are shown.\<close>

definition root_order :: "string \<times> string \<Rightarrow> string \<times> string \<Rightarrow> bool" where
  "root_order = (\<lambda>(a, _) (b, _). let name = (\<lambda>i. if i = ''encoded'' then ''Encoded files'' else i) in
     if a = ''source'' then True else if b = ''source'' then False else string_less (name a) (name b))"

fun first_asset :: "string \<Rightarrow> string list \<Rightarrow> media_file option media_op" where
  "first_asset p [] = retP None"
| "first_asset p (rt # rts) = bindP (tryP (media_open (file_id rt p))) (\<lambda>r. case r of
      Inr (_, f) \<Rightarrow> retP (Some f) | Inl _ \<Rightarrow> first_asset p rts)"

definition job_assets :: "uuid \<Rightarrow> media_file list media_op" where
  "job_assets j = bindP (on_server (on_db (get_job j))) (\<lambda>v.
    case fst (get_latest (events v)) of
      None \<Rightarrow> failP MePlayback
    | Some e \<Rightarrow>
        if notification_type e \<noteq> JobNotification \<or> (status e \<noteq> Queued \<and> status e \<noteq> Completed) then failP MePlayback
        else bindP (readP (\<lambda>w. map fst (sort_slice root_order (mw_roots w)))) (\<lambda>rts.
          bindP (if status e = Completed then first_asset (target_path v) rts
                 else first_asset (source_path v) (filter (\<lambda>i. i = ''source'') rts)) (\<lambda>a.
          retP (case a of None \<Rightarrow> [] | Some f \<Rightarrow> [f\<lparr>md_job := Some \<lparr>mj_id = j, mj_state = media_state_of e,
            mj_role = (if status e = Completed then ''output'' else ''source'')\<rparr>\<rparr>]))))"

end
