(* ===== verification/Media_Claims.thy ===== *)
theory Media_Claims
  imports Media_Operations Publication_Claims
begin

text \<open>
  What the media library guarantees: the registry stays within its bounds whatever its clients ask for, a batch handles
  a prefix of the reviewed files and never schedules more than its target, and a file reported as scheduled is the
  unchanged, eligible file of the review, whose job is queued in the database.
\<close>

section \<open>What each operation leaves alone\<close>

lemma on_server_run: "on_server m w = (r, w') \<Longrightarrow> \<exists>q s. m (mw_server w) = (q, s) \<and> r = map_sum MeServer id q \<and> w' = w\<lparr>mw_server := s\<rparr>"
  by (auto simp: on_server_def split: prod.splits)

lemma on_server_InrE:
  assumes "on_server m w = (Inr x, w')"
  obtains s where "m (mw_server w) = (Inr x, s)" "w' = w\<lparr>mw_server := s\<rparr>"
proof -
  from on_server_run[OF assms] obtain q s where q: "m (mw_server w) = (q, s)" "Inr x = map_sum MeServer id q"
    "w' = w\<lparr>mw_server := s\<rparr>" by auto
  then show ?thesis using that by (cases q) auto
qed

lemma keeps_list [keeps_intros]:
  "keeps I m \<Longrightarrow> (\<And>x xs. keeps I (f x xs)) \<Longrightarrow> keeps I (case z of [] \<Rightarrow> m | x # xs \<Rightarrow> f x xs)"
  by (simp split: list.splits)

text \<open>A predicate on the registry alone, and on the requests to stop.\<close>

definition of_registry :: "(media_world \<Rightarrow> bool) \<Rightarrow> bool" where
  "of_registry I \<longleftrightarrow> (\<forall>w w'. mw_ops w' = mw_ops w \<longrightarrow> mw_canceled w' = mw_canceled w \<longrightarrow> I w = I w')"

lemma of_registryD: "of_registry I \<Longrightarrow> I w \<Longrightarrow> mw_ops w' = mw_ops w \<Longrightarrow> mw_canceled w' = mw_canceled w \<Longrightarrow> I w'"
  unfolding of_registry_def by blast

lemma registry_frame:
  assumes "of_registry I" "\<And>w r w'. m w = (r, w') \<Longrightarrow> mw_ops w' = mw_ops w \<and> mw_canceled w' = mw_canceled w"
  shows "keeps I m"
proof (rule keepsI)
  fix w r w' assume "I w" "m w = (r, w')"
  with assms(2) show "I w'" using of_registryD[OF assms(1)] by blast
qed

lemma keeps_open_root [keeps_intros]: "of_registry I \<Longrightarrow> keeps I (open_root rt)"
  by (erule registry_frame) (auto simp: open_root_def dest!: on_server_run
      split: option.splits if_splits prod.splits sum.splits node.splits)

lemma keeps_server_registry [keeps_intros]: "of_registry I \<Longrightarrow> keeps I (on_server m)"
  by (erule registry_frame) (auto dest!: on_server_run)

lemma keeps_media_open [keeps_intros]: assumes "of_registry I" shows "keeps I (media_open i)"
proof -
  have "keeps I (\<lambda>w. if \<not> regular n then (Inl MeInvalidPath, w) else (Inr (n, media_file_of rt p n (sfs (mw_server w))), w))"
    for n rt p by (simp add: keeps_def)
  then show ?thesis using assms unfolding media_open_def by (intro keeps_intros)
qed

lemma keeps_annotate [keeps_intros]: "of_registry I \<Longrightarrow> keeps I (annotate cfg filters fs)"
  unfolding annotate_def by (intro keeps_intros)

lemma keeps_check_canceled [keeps_intros]: "keeps I (check_canceled i)"
  by (simp add: keeps_def check_canceled_def)

lemma keeps_others_act [keeps_intros]: "of_registry I \<Longrightarrow> keeps I others_act"
  by (erule registry_frame) (auto simp: others_act_def writeP_def split: list.splits)

lemma keeps_new_id [keeps_intros]: "of_registry I \<Longrightarrow> keeps I (writeP (\<lambda>w. w\<lparr>mw_uuids := f w\<rparr>))"
  by (erule registry_frame) (auto simp: writeP_def)

lemma keeps_queue_failed [keeps_intros]: "of_registry I \<Longrightarrow> keeps I (queue_failed cfg describe i filters f e)"
  unfolding queue_failed_def
  by (intro keeps_intros keeps_list | assumption)+

lemma keeps_load_file [keeps_intros]: "of_registry I \<Longrightarrow> keeps I (load_file cfg describe i filters f)"
  unfolding load_file_def file_unchanged_def
  by (intro keeps_intros | assumption)+

lemma keeps_media_info [keeps_intros]: "of_registry I \<Longrightarrow> keeps I (media_info ffprobe digest i)"
  unfolding media_info_def by (intro keeps_intros | assumption)+

lemma keeps_annotate_chunks [keeps_intros]: "of_registry I \<Longrightarrow> keeps I (annotate_chunks cfg filters fs)"
proof (induction cfg filters fs rule: annotate_chunks.induct)
  case (1 cfg filters fs)
  then show ?case by (subst annotate_chunks.simps) (intro keeps_intros | simp)+
qed

section \<open>The bounds of the registry\<close>

definition running :: "(string \<times> media_operation) list \<Rightarrow> nat" where
  "running ops = length (filter (\<lambda>(_, d). mo_state d = ''running'') ops)"

definition registry_ok :: "media_world \<Rightarrow> bool" where
  "registry_ok w \<longleftrightarrow> running (mw_ops w) \<le> 2 \<and> length (mw_ops w) \<le> 8"

text \<open>A client of the library: scans and batches are started and later run, looked at and canceled; between two calls time
  passes and the rest of the server works.\<close>

datatype media_call = StartScan media_filters | RunScan string media_filters | StartBatch string "string list" int
  | RunBatch string media_filters int "media_file list" | LookAt string | Stop string | Pass int server "(server \<Rightarrow> server) list"

fun media_call_step :: "server_config \<Rightarrow> (string \<Rightarrow> raw_probe option) \<Rightarrow> (string \<Rightarrow> string) \<Rightarrow> (media_error \<Rightarrow> string) \<Rightarrow>
    media_call \<Rightarrow> media_world \<Rightarrow> media_world" where
  "media_call_step cfg ffprobe digest describe (StartScan filters) w = snd (start_scan filters w)"
| "media_call_step cfg ffprobe digest describe (RunScan i filters) w = snd (run_scan cfg ffprobe digest describe i filters w)"
| "media_call_step cfg ffprobe digest describe (StartBatch preview ids target) w = snd (start_batch preview ids target w)"
| "media_call_step cfg ffprobe digest describe (RunBatch i filters target fs) w = snd (run_batch cfg describe i filters target fs w)"
| "media_call_step cfg ffprobe digest describe (LookAt i) w = snd (get_operation i w)"
| "media_call_step cfg ffprobe digest describe (Stop i) w = snd (cancel_operation i w)"
| "media_call_step cfg ffprobe digest describe (Pass t sv between) w = w\<lparr>mw_now := t, mw_server := sv, mw_between := between\<rparr>"

lemma registry_ok_frame: "of_registry registry_ok"
  by (simp add: of_registry_def registry_ok_def)

lemma running_simps [simp]:
  "running [] = 0"
  "running ((i, d) # ops) = (if mo_state d = ''running'' then Suc (running ops) else running ops)"
  "running (xs @ ys) = running xs + running ys"
  by (simp_all add: running_def)

lemma running_filter: "running (filter P ops) \<le> running ops"
  by (induction ops) auto

lemma running_map:
  assumes "\<And>d. mo_state (f d) = mo_state d \<or> mo_state (f d) \<noteq> ''running''"
  shows "running (map (\<lambda>(j, d). (j, if j = i then (f d)\<lparr>mo_updated := t\<rparr> else d)) ops) \<le> running ops"
proof (induction ops)
  case (Cons x ops)
  obtain j d where x: "x = (j, d)" by (cases x)
  show ?case using Cons assms[of d] unfolding x by (cases "j = i") auto
qed simp

lemma oldest_is_ended: "oldest_ended ops = Some e \<Longrightarrow> e \<in> set ops \<and> mo_state (snd e) \<noteq> ''running''"
proof (induction ops arbitrary: e rule: oldest_ended.induct)
  case (2 i d rest)
  then show ?case
    by (cases "mo_state d = ''running''"; cases "oldest_ended rest") (force split: prod.splits if_splits)+
qed simp

lemma keeps_update [keeps_intros]:
  assumes "\<And>d. mo_state (f d) = mo_state d \<or> mo_state (f d) \<noteq> ''running''"
  shows "keeps registry_ok (update_operation i f)"
  unfolding update_operation_def
proof (rule keeps_write)
  fix w assume "registry_ok w"
  then show "registry_ok (w\<lparr>mw_ops := map (\<lambda>(j, d). (j, if j = i then (f d)\<lparr>mo_updated := mw_now w\<rparr> else d)) (mw_ops w)\<rparr>)"
    using running_map[OF assms, of i "mw_now w" "mw_ops w"] by (simp add: registry_ok_def)
qed

lemma keeps_get_operation [keeps_intros]: "keeps registry_ok (get_operation i)"
proof (rule keepsI)
  fix w r w' assume ok: "registry_ok w" and g: "get_operation i w = (r, w')"
  from g have "mw_ops w' = mw_ops w \<or> mw_ops w' = filter (\<lambda>(j, _). j \<noteq> i) (mw_ops w)"
    by (auto simp: get_operation_def split: option.splits if_splits)
  with ok show "registry_ok w'"
    using running_filter[of "\<lambda>(j, _). j \<noteq> i" "mw_ops w"] length_filter_le[of "\<lambda>(j, _). j \<noteq> i" "mw_ops w"]
    by (elim disjE) (auto simp: registry_ok_def intro: order_trans[OF length_filter_le])
qed

lemma keeps_new_operation [keeps_intros]: "keeps registry_ok (new_operation kind)"
proof (rule keepsI)
  fix w r w' assume ok: "registry_ok w" and n: "new_operation kind w = (r, w')"
  define kept where "kept = filter (\<lambda>(_, d). \<not> operation_expired (mw_now w) d) (mw_ops w)"
  let ?new = "(hd (mw_uuids w), blank_operation kind (mw_now w))"
  have k: "running kept \<le> running (mw_ops w)" "length kept \<le> length (mw_ops w)"
    unfolding kept_def by (rule running_filter, rule length_filter_le)
  have one: "running [?new] \<le> 1" by simp
  consider "mw_ops w' = kept"
    | "running (mw_ops w) < 2" "length kept < 8" "mw_ops w' = kept @ [?new]"
    | e where "running (mw_ops w) < 2" "oldest_ended kept = Some e"
        "mw_ops w' = filter (\<lambda>(i, _). i \<noteq> fst e) kept @ [?new]"
    using n unfolding new_operation_def Let_def kept_def[symmetric] running_def[symmetric]
    by (auto simp: not_le split: if_splits option.splits)
  then show "registry_ok w'"
  proof cases
    case 1
    with ok k show ?thesis by (simp add: registry_ok_def)
  next
    case 2
    with k one show ?thesis by (simp add: registry_ok_def del: running_simps(2))
  next
    case (3 e)
    let ?less = "filter (\<lambda>(i, _). i \<noteq> fst e) kept"
    have "length ?less < length kept"
      using oldest_is_ended[OF 3(2)] by (intro length_filter_less[of e]) auto
    moreover have "running ?less \<le> running kept" by (rule running_filter)
    ultimately show ?thesis using 3 ok k one by (simp add: registry_ok_def del: running_simps(2))
  qed
qed

lemma keeps_finish [keeps_intros]: "keeps registry_ok (finish_operation i describe r)"
  unfolding finish_operation_def
  by (intro keeps_intros keeps_write) (auto simp: registry_ok_def split: sum.splits)

lemma keeps_cancel [keeps_intros]: "keeps registry_ok (cancel_operation i)"
  by (simp add: keeps_def cancel_operation_def registry_ok_def)

lemma count_result_state [simp]: "mo_state (count_result r d) = mo_state d"
  by (simp add: count_result_def Let_def)

lemma probed_state [simp]: "mo_state (probed filters f r d) = mo_state d"
  by (simp add: probed_def Let_def split: sum.splits)

lemma keeps_load_files [keeps_intros]: "keeps registry_ok (load_files cfg describe i filters target n fs)"
  by (induction fs arbitrary: n) (simp_all add: keeps_intros registry_ok_frame)

lemma keeps_discover [keeps_intros]: "keeps registry_ok (discover i dir filters)"
  unfolding discover_def scan_walk_def by (intro keeps_intros registry_ok_frame) simp

lemma keeps_start_scan: "keeps registry_ok (start_scan filters)"
  unfolding start_scan_def by (intro keeps_intros registry_ok_frame) simp

lemma keeps_run_scan: "keeps registry_ok (run_scan cfg ffprobe digest describe i filters)"
  unfolding run_scan_def scan_def Let_def by (intro keeps_intros registry_ok_frame) simp_all

lemma keeps_start_batch: "keeps registry_ok (start_batch preview ids target)"
  unfolding start_batch_def by (intro keeps_intros) simp

lemma keeps_run_batch: "keeps registry_ok (run_batch cfg describe i filters target fs)"
  unfolding run_batch_def by (intro keeps_intros)

lemma media_call_keeps: "registry_ok w \<Longrightarrow> registry_ok (media_call_step cfg ffprobe digest describe c w)"
  using keeps_start_scan keeps_run_scan keeps_start_batch keeps_run_batch keeps_get_operation keeps_cancel
  by (cases c) (auto simp: keeps_def registry_ok_def)

text \<open>C10: Whatever sequence of scans, batches, looks and cancellations the clients of the library ask for, with the rest of
  the server working in between, at most two operations run at a time and at most eight are kept.\<close>

theorem operations_bounded:
  assumes "mw_ops w = []"
  shows "running (mw_ops (fold (media_call_step cfg ffprobe digest describe) calls w)) \<le> 2 \<and>
    length (mw_ops (fold (media_call_step cfg ffprobe digest describe) calls w)) \<le> 8"
proof -
  have "registry_ok w \<Longrightarrow> registry_ok (fold (media_call_step cfg ffprobe digest describe) calls w)" for w
    by (induction calls arbitrary: w) (simp_all add: media_call_keeps)
  then show ?thesis using assms by (simp add: registry_ok_def)
qed

section \<open>Batches\<close>

text \<open>The entry of an operation after an update, and after everything that leaves the registry alone.\<close>

lemma update_operation_run:
  "map_of (mw_ops w) i = Some d \<Longrightarrow> update_operation i f w = (r, w') \<Longrightarrow> r = Inr () \<and> mw_canceled w' = mw_canceled w \<and>
    map_of (mw_ops w') = (map_of (mw_ops w))(i \<mapsto> (f d)\<lparr>mo_updated := mw_now w\<rparr>)"
proof -
  assume i: "map_of (mw_ops w) i = Some d" and u: "update_operation i f w = (r, w')"
  have "map_of (map (\<lambda>(j, d). (j, if j = i then g d else d)) ops) j = (if j = i then map_option g (map_of ops i) else map_of ops j)"
    for g :: "media_operation \<Rightarrow> media_operation" and ops j
    by (induction ops) auto
  with i u show ?thesis by (auto simp: update_operation_def writeP_def)
qed

lemma load_file_registry:
  assumes "load_file cfg describe i filters f w = (r, w')"
  shows "mw_ops w' = mw_ops w" "mw_canceled w' = mw_canceled w"
proof -
  let ?I = "\<lambda>v. mw_ops v = mw_ops w \<and> mw_canceled v = mw_canceled w"
  have "of_registry ?I" unfolding of_registry_def by simp
  from keepsD[OF keeps_load_file[OF this] _ assms] show "mw_ops w' = mw_ops w" "mw_canceled w' = mw_canceled w" by simp_all
qed

lemma others_act_registry: "others_act w = (r, w') \<Longrightarrow> r = Inr () \<and> mw_ops w' = mw_ops w \<and> mw_canceled w' = mw_canceled w"
  by (auto simp: others_act_def writeP_def split: list.splits)

definition about :: "media_file \<Rightarrow> media_result \<Rightarrow> bool" where
  "about f r \<longleftrightarrow> lr_id r = md_id f \<and> lr_path r = md_path f \<and> lr_state r \<in> {''scheduled'', ''skipped'', ''failed''}"

lemma about_result [simp]:
  "about f ((blank_result f)\<lparr>lr_message := m\<rparr>)"
  "about f ((blank_result f)\<lparr>lr_state := ''failed'', lr_message := m\<rparr>)"
  "about f ((blank_result f)\<lparr>lr_state := ''scheduled'', lr_job := j\<rparr>)"
  by (simp_all add: about_def blank_result_def)

lemma queue_failed_result: "queue_failed cfg describe i filters f e w = (Inr r, w') \<Longrightarrow> about f r \<and> lr_state r \<noteq> ''scheduled''"
  unfolding queue_failed_def
  by (auto simp: retP_def blank_result_def about_def elim!: bindP_InrE split: if_splits sum.splits list.splits)

lemma load_file_result: "load_file cfg describe i filters f w = (Inr r, w') \<Longrightarrow> about f r"
  unfolding load_file_def
  by (auto simp: retP_def elim!: bindP_InrE dest!: queue_failed_result split: if_splits sum.splits)

definition results_in :: "string \<Rightarrow> media_result list \<Rightarrow> int" where
  "results_in st rs = int (length (filter (\<lambda>r. lr_state r = st) rs))"

lemma results_in_simps [simp]:
  "results_in st [] = 0" "results_in st (r # rs) = (if lr_state r = st then 1 else 0) + results_in st rs"
  by (simp_all add: results_in_def)

lemma results_in_nonneg [simp]: "0 \<le> results_in st rs"
  by (simp add: results_in_def)

text \<open>The tally of an operation that has handled further files.\<close>

definition tallied :: "media_operation \<Rightarrow> media_result list \<Rightarrow> media_operation \<Rightarrow> bool" where
  "tallied d rs d' \<longleftrightarrow> mo_results d' = mo_results d @ rs \<and> mo_state d' = mo_state d \<and>
     mo_examined d' = mo_examined d + int (length rs) \<and> mo_scheduled d' = mo_scheduled d + results_in ''scheduled'' rs \<and>
     mo_skipped d' = mo_skipped d + results_in ''skipped'' rs \<and> mo_failed d' = mo_failed d + results_in ''failed'' rs"

lemma tallied_none [simp]: "tallied d [] d"
  by (simp add: tallied_def)

lemma tallied_cons: "about f r \<Longrightarrow> tallied ((count_result r d)\<lparr>mo_updated := t\<rparr>) rs d' \<Longrightarrow> tallied d (r # rs) d'"
  by (auto simp: tallied_def count_result_def about_def Let_def split: if_splits)

lemma load_files_effect:
  assumes "load_files cfg describe i filters target n fs w = (q, w')" "map_of (mw_ops w) i = Some d"
  shows "\<exists>rs d'. map_of (mw_ops w') = (map_of (mw_ops w))(i \<mapsto> d') \<and> tallied d rs d' \<and>
    list_all2 about (take (length rs) fs) rs \<and> n + results_in ''scheduled'' rs \<le> max n target \<and>
    (q = Inr () \<longrightarrow> length rs = length fs \<or> target \<le> n + results_in ''scheduled'' rs)"
  using assms
proof (induction fs arbitrary: n w d)
  case Nil
  then show ?case by (intro exI[of _ "[]"] exI[of _ d]) (auto simp: retP_def)
next
  case (Cons f fs)
  let ?stop = "\<exists>rs d'. map_of (mw_ops w') = (map_of (mw_ops w))(i \<mapsto> d') \<and> tallied d rs d' \<and>
    list_all2 about (take (length rs) (f # fs)) rs \<and> n + results_in ''scheduled'' rs \<le> max n target \<and>
    (q = Inr () \<longrightarrow> length rs = length (f # fs) \<or> target \<le> n + results_in ''scheduled'' rs)"
  have none: ?stop if "mw_ops w' = mw_ops w" "q = Inr () \<longrightarrow> target \<le> n"
    using that Cons.prems(2) by (intro exI[of _ "[]"] exI[of _ d]) auto
  from Cons.prems(1) obtain x u where u: "others_act w = (x, u)" by (cases "others_act w")
  note u = others_act_registry[OF u] u
  from Cons.prems(1) u have c: "bindP (check_canceled i) (\<lambda>_. if target \<le> n then retP ()
      else bindP (load_file cfg describe i filters f) (\<lambda>r. bindP (update_operation i (count_result r)) (\<lambda>_.
        load_files cfg describe i filters target (if lr_state r = ''scheduled'' then n + 1 else n) fs))) u = (q, w')"
    by (simp add: bindP_def[of others_act])
  show ?case
  proof (cases "i \<in> set (mw_canceled u) \<or> target \<le> n")
    case True
    with c have "w' = u \<and> (q = Inr () \<longrightarrow> target \<le> n)"
      by (auto simp: check_canceled_def bindP_run retP_def split: if_splits)
    with u show ?thesis by (intro none) simp_all
  next
    case False
    with c have c: "bindP (load_file cfg describe i filters f) (\<lambda>r. bindP (update_operation i (count_result r)) (\<lambda>_.
        load_files cfg describe i filters target (if lr_state r = ''scheduled'' then n + 1 else n) fs)) u = (q, w')"
      by (auto simp: check_canceled_def bindP_run)
    then show ?thesis
    proof (cases rule: bindP_cases)
      case (fails e)
      with load_file_registry(1)[OF fails(1)] u show ?thesis by (intro none) simp_all
    next
      case (continues r v)
      note v = load_file_registry[OF continues(1)] load_file_result[OF continues(1)]
      have i: "map_of (mw_ops v) i = Some d" using Cons.prems(2) u v by simp
      obtain y z where up: "update_operation i (count_result r) v = (y, z)" by (cases "update_operation i (count_result r) v")
      note z = update_operation_run[OF i up]
      let ?d = "(count_result r d)\<lparr>mo_updated := mw_now v\<rparr>"
      let ?n = "if lr_state r = ''scheduled'' then n + 1 else n"
      from continues(2) up z have l: "load_files cfg describe i filters target ?n fs z = (q, w')" by (auto elim!: bindP_cases)
      have iz: "map_of (mw_ops z) i = Some ?d" using z by simp
      from Cons.IH[OF l iz] obtain rs d' where
        rs: "map_of (mw_ops w') = (map_of (mw_ops z))(i \<mapsto> d')" "tallied ?d rs d'" "list_all2 about (take (length rs) fs) rs"
          "?n + results_in ''scheduled'' rs \<le> max ?n target"
          "q = Inr () \<longrightarrow> length rs = length fs \<or> target \<le> ?n + results_in ''scheduled'' rs" by blast
      show ?thesis
        by (intro exI[of _ "r # rs"] exI[of _ d']) (use rs z u v False tallied_cons[OF v(3) rs(2)] in \<open>auto split: if_splits\<close>)
    qed
  qed
qed

text \<open>C9: A batch that runs handles the reviewed files in their order up to some point, with one result for each of them
  and its counters equal to the numbers of results; it schedules no more than its target; it always ends, and when it ends
  as completed it has handled every file or reached the target. No other operation is touched.\<close>

theorem batch_respects_its_target:
  assumes "map_of (mw_ops w) i = Some d" "mo_results d = []" "mo_examined d = 0" "mo_scheduled d = 0" "mo_skipped d = 0"
    "mo_failed d = 0" "0 \<le> target"
  shows "\<exists>d'. map_of (mw_ops (snd (run_batch cfg describe i filters target fs w))) = (map_of (mw_ops w))(i \<mapsto> d') \<and>
    list_all2 about (take (length (mo_results d')) fs) (mo_results d') \<and> mo_examined d' = int (length (mo_results d')) \<and>
    mo_scheduled d' = results_in ''scheduled'' (mo_results d') \<and> mo_skipped d' = results_in ''skipped'' (mo_results d') \<and>
    mo_failed d' = results_in ''failed'' (mo_results d') \<and> mo_scheduled d' \<le> target \<and>
    mo_state d' \<in> {''completed'', ''canceled'', ''failed''} \<and>
    (mo_state d' = ''completed'' \<longrightarrow> length (mo_results d') = length fs \<or> mo_scheduled d' = target)"
proof -
  obtain q v where q: "load_files cfg describe i filters target 0 fs w = (q, v)"
    by (cases "load_files cfg describe i filters target 0 fs w")
  from load_files_effect[OF q assms(1)] obtain rs e where
    e: "map_of (mw_ops v) = (map_of (mw_ops w))(i \<mapsto> e)" "tallied d rs e" "list_all2 about (take (length rs) fs) rs"
      "results_in ''scheduled'' rs \<le> target" "q = Inr () \<longrightarrow> length rs = length fs \<or> target \<le> results_in ''scheduled'' rs"
    using assms(7) by auto
  define ended :: "media_operation \<Rightarrow> media_operation" where "ended = (\<lambda>d. case q of Inr _ \<Rightarrow> d\<lparr>mo_state := ''completed'', mo_stage := ''done''\<rparr>
    | Inl e \<Rightarrow> if e = MeCanceled then d\<lparr>mo_state := ''canceled'', mo_stage := ''done''\<rparr>
        else d\<lparr>mo_state := ''failed'', mo_stage := ''done'', mo_error := describe e\<rparr>)"
  obtain y z where up: "update_operation i ended v = (y, z)" by (cases "update_operation i ended v")
  have i: "map_of (mw_ops v) i = Some e" using e(1) by simp
  note z = update_operation_run[OF i up]
  have "mw_ops (snd (run_batch cfg describe i filters target fs w)) = mw_ops z"
    using q up z by (simp add: run_batch_def finish_operation_def ended_def[symmetric] bindP_run tryP_def writeP_def)
  then show ?thesis using z e assms(2-6)
    by (intro exI[of _ "(ended e)\<lparr>mo_updated := mw_now v\<rparr>"]) (auto simp: ended_def tallied_def split: sum.splits)
qed

section \<open>Queueing a file\<close>

text \<open>A server of which nothing but the pending faults has changed.\<close>

definition same_data :: "server \<Rightarrow> server \<Rightarrow> bool" where
  "same_data s t \<longleftrightarrow> (\<exists>fs. sdb t = (sdb s)\<lparr>faults := fs\<rparr>) \<and> (\<exists>fs. sfs t = (sfs s)\<lparr>io_faults := fs\<rparr>)"

lemma same_data_refl [simp]: "same_data s s"
proof -
  have "sdb s = (sdb s)\<lparr>faults := faults (sdb s)\<rparr>" "sfs s = (sfs s)\<lparr>io_faults := io_faults (sfs s)\<rparr>" by simp_all
  then show ?thesis unfolding same_data_def by blast
qed

lemma keeps_data_on_db:
  "(\<And>d. \<exists>fs. snd (m d) = d\<lparr>faults := fs\<rparr>) \<Longrightarrow> keeps (same_data s) (on_db m)"
proof (rule keepsI)
  fix t r u assume m: "\<And>d. \<exists>fs. snd (m d) = d\<lparr>faults := fs\<rparr>" and t: "same_data s t" "on_db m t = (r, u)"
  from m[of "sdb t"] t show "same_data s u" by (auto simp: same_data_def on_db_def split: prod.splits)
qed

lemma keeps_data_on_fs:
  "(\<And>d. \<exists>fs. snd (m d) = d\<lparr>io_faults := fs\<rparr>) \<Longrightarrow> keeps (same_data s) (on_fs m)"
proof (rule keepsI)
  fix t r u assume m: "\<And>d. \<exists>fs. snd (m d) = d\<lparr>io_faults := fs\<rparr>" and t: "same_data s t" "on_fs m t = (r, u)"
  from m[of "sfs t"] t show "same_data s u" by (auto simp: same_data_def on_fs_def split: prod.splits)
qed

lemma media_same_faults: "\<exists>fs. (d :: sql_db) = d\<lparr>faults := fs\<rparr>" "\<exists>fs. (f :: file_system) = f\<lparr>io_faults := fs\<rparr>"
  by (rule exI[of _ "faults d"], simp) (rule exI[of _ "io_faults f"], simp)

lemma states_read: "\<exists>fs. snd (get_media_job_states ps d) = d\<lparr>faults := fs\<rparr>"
  using media_same_faults(1)[of d]
  by (auto simp: get_media_job_states_def statement_def retP_def readP_def split: list.splits)

lemma stat_read: "\<exists>fs. snd (os_stat p f) = f\<lparr>io_faults := fs\<rparr>"
  using media_same_faults(2)[of f] by (auto simp: os_stat_def io_call_def split: list.splits option.splits)

lemma stat_parts_read: "\<exists>fs. snd (stat_parts dir ws vs f) = f\<lparr>io_faults := fs\<rparr>"
proof (induction vs arbitrary: ws f)
  case Nil
  show ?case using media_same_faults(2)[of f] by (simp add: retP_def)
next
  case (Cons v vs)
  obtain r g where g: "os_stat (join_path [dir, join_with sep (ws @ [v])]) f = (r, g)" by (cases "os_stat (join_path [dir, join_with sep (ws @ [v])]) f")
  from stat_read[of _ f] obtain fs where "g = f\<lparr>io_faults := fs\<rparr>" using g by (metis snd_conv)
  then show ?case using g Cons[of "ws @ [v]" g] by (auto simp: bindP_run split: sum.splits)
qed

lemma check_path_read: "\<exists>fs. snd (check_media_path dir p b f) = f\<lparr>io_faults := fs\<rparr>"
  using media_same_faults(2)[of f] stat_parts_read by (simp add: check_media_path_def failP_def retP_def)

lemmas reads_only [keeps_intros] = keeps_data_on_db[OF states_read] keeps_data_on_fs[OF stat_read]
  keeps_data_on_fs[OF check_path_read] keeps_data_on_fs[OF stat_read, folded os_open_def]

lemma keeps_world_server: "keeps I m \<Longrightarrow> keeps (\<lambda>w. I (mw_server w)) (on_server m)"
  by (rule keepsI) (auto dest!: on_server_run dest: keepsD)

lemma keeps_world_root: "keeps (\<lambda>w. same_data s (mw_server w)) (open_root rt)"
proof (rule keepsI)
  fix w r w' assume w: "same_data s (mw_server w)" and r: "open_root rt w = (r, w')"
  have "w' = w \<or> (\<exists>dir. w' = snd (on_server (on_fs (os_stat dir)) w))"
    using r by (auto simp: open_root_def split: option.splits if_splits prod.splits sum.splits node.splits) (metis snd_conv)+
  with w show "same_data s (mw_server w')"
    using keeps_world_server[OF reads_only(2)] by (auto simp: keeps_def)
qed

lemma keeps_world_open: "keeps (\<lambda>w. same_data s (mw_server w)) (media_open i)"
proof -
  have "keeps (\<lambda>w. same_data s (mw_server w))
      (\<lambda>w. if \<not> regular n then (Inl MeInvalidPath, w) else (Inr (n, media_file_of rt p n (sfs (mw_server w))), w))"
    for n rt p by (simp add: keeps_def)
  then show ?thesis unfolding media_open_def by (intro keeps_intros keeps_world_root keeps_world_server)
qed

lemma keeps_world_annotate: "keeps (\<lambda>w. same_data s (mw_server w)) (annotate cfg filters fs)"
  unfolding annotate_def by (intro keeps_intros keeps_world_server)

lemma unchanged_run:
  assumes "file_unchanged i f w = (Inr (), w')"
  shows "same_data (mw_server w) (mw_server w')"
proof -
  have "keeps (\<lambda>v. same_data (mw_server w) (mw_server v)) (file_unchanged i f)"
    unfolding file_unchanged_def by (intro keeps_intros keeps_world_open)
  from keepsD[OF this _ assms] show ?thesis by simp
qed

lemma same_data_trans: "same_data s t \<Longrightarrow> same_data t u \<Longrightarrow> same_data s u"
  by (auto simp: same_data_def)

text \<open>What \<open>QueueMediaFile\<close> did when it returned a job.\<close>

lemma queue_media_file_effect:
  assumes "queue_media_file cfg canceled now fresh filters f s = (Inr v, t)"
  shows "\<not> canceled \<and> md_root f = ''source'' \<and> valid_media_path (md_path f) False \<and> is_video (md_path f) \<and>
    cfg_min_size cfg \<le> md_size f \<and>
    (\<exists>n. node_at (sfs t) (join_path [cfg_root cfg, md_path f]) = Some (File n) \<and> sizes (sfs t) (File n) = md_size f \<and>
      mtimes (sfs t) (File n) = md_modified f) \<and>
    (\<exists>probe u. same_data s u \<and> (case md_metadata f of None \<Rightarrow> None | Some m \<Rightarrow> mm_probe m) = Some probe \<and>
      schedule_job_request canceled now fresh (\<lambda>_. None) (cfg_root cfg) (media_request filters f probe) (sdb u) = (Inr v, sdb t))"
proof -
  from assms have g: "\<not> canceled" "md_root f = ''source''" "valid_media_path (md_path f) False" "is_video (md_path f)"
    by (auto simp: queue_media_file_def failP_def split: if_splits)
  let ?probe = "case md_metadata f of None \<Rightarrow> None | Some m \<Rightarrow> mm_probe m"
  from assms g have "\<exists>d s1 s2 n s3 probe. on_fs (os_stat (cfg_root cfg)) s = (Inr d, s1) \<and>
    on_fs (check_media_path (cfg_root cfg) (md_path f) False) s1 = (Inr (), s2) \<and>
    on_fs (os_open (join_path [cfg_root cfg, md_path f])) s2 = (Inr n, s3) \<and> ?probe = Some probe \<and> regular n \<and>
    sizes (sfs s3) n = md_size f \<and> mtimes (sfs s3) n = md_modified f \<and> cfg_min_size cfg \<le> md_size f \<and>
    on_db (schedule_job_request canceled now fresh (\<lambda>_. None) (cfg_root cfg) (media_request filters f probe)) s3 = (Inr v, t)"
    by (simp add: queue_media_file_def)
      (fastforce elim!: bindP_InrE simp: readP_def failP_def split: if_splits option.splits)
  then obtain d s1 s2 n s3 probe where
    d: "on_fs (os_stat (cfg_root cfg)) s = (Inr d, s1)" and
    c: "on_fs (check_media_path (cfg_root cfg) (md_path f) False) s1 = (Inr (), s2)" and
    o1: "on_fs (os_open (join_path [cfg_root cfg, md_path f])) s2 = (Inr n, s3)" and p: "?probe = Some probe"
    and r: "regular n" "sizes (sfs s3) n = md_size f" "mtimes (sfs s3) n = md_modified f" "cfg_min_size cfg \<le> md_size f"
    and j: "on_db (schedule_job_request canceled now fresh (\<lambda>_. None) (cfg_root cfg) (media_request filters f probe)) s3 = (Inr v, t)"
    by blast
  have "same_data s s1" using keepsD[OF reads_only(2) _ d, of s] by simp
  with keepsD[OF reads_only(3) _ c] have "same_data s s2" .
  with keepsD[OF reads_only(4) _ o1] have s3: "same_data s s3" .
  have n: "node_at (sfs s3) (join_path [cfg_root cfg, md_path f]) = Some n"
    using o1 by (auto simp: on_fs_def os_open_def os_stat_def io_call_def node_at_def split: prod.splits list.splits if_splits option.splits)
  from j have t: "sfs t = sfs s3" "schedule_job_request canceled now fresh (\<lambda>_. None) (cfg_root cfg) (media_request filters f probe)
      (sdb s3) = (Inr v, sdb t)"
    by (auto simp: on_db_def split: prod.splits)
  from r(1) obtain k where "n = File k" by (cases n) (auto simp: regular_def)
  with g p r n s3 t show ?thesis by auto
qed

lemma bind_read: "bindP (readP f) g w = g (f w) w"
  by (simp add: bindP_def readP_def)

lemma bind_write: "bindP (writeP f) g w = g () (f w)"
  by (simp add: bindP_def writeP_def)

lemma load_file_scheduled:
  assumes "load_file cfg describe i filters f w = (Inr r, w')" "lr_state r = ''scheduled''"
  obtains u now fresh v where "same_data (mw_server w) u" "i \<notin> set (mw_canceled w)" "lr_job r = jid v"
    "queue_media_file cfg False now fresh filters f u = (Inr v, mw_server w')"
proof -
  have blank: "lr_state ((blank_result f)\<lparr>lr_message := m\<rparr>) \<noteq> ''scheduled''" for m by (simp add: blank_result_def)
  from assms obtain u1 where u1: "file_unchanged (md_id f) f w = (Inr (), u1)" and
    a: "bindP (annotate cfg filters [f]) (\<lambda>gs.
        if \<not> md_eligible (hd gs) then retP ((blank_result f)\<lparr>lr_message := md_reason (hd gs)\<rparr>)
        else bindP (readP (\<lambda>w. (i \<in> set (mw_canceled w), mw_now w, hd (mw_uuids w)))) (\<lambda>(canceled, now, fresh).
          bindP (writeP (\<lambda>w. w\<lparr>mw_uuids := tl (mw_uuids w)\<rparr>)) (\<lambda>_.
          bindP (tryP (on_server (queue_media_file cfg canceled now fresh filters f))) (\<lambda>q. case q of
              Inr j \<Rightarrow> retP ((blank_result f)\<lparr>lr_state := ''scheduled'', lr_job := jid j\<rparr>)
            | Inl e \<Rightarrow> queue_failed cfg describe i filters f e)))) u1 = (Inr r, w')"
    using blank unfolding load_file_def
    by (auto simp: bindP_run tryP_def retP_def split: prod.splits sum.splits)
  from a obtain gs u2 where gs: "annotate cfg filters [f] u1 = (Inr gs, u2)" by (rule bindP_InrE)
  with a blank assms(2) have
    q: "bindP (tryP (on_server (queue_media_file cfg (i \<in> set (mw_canceled u2)) (mw_now u2) (hd (mw_uuids u2)) filters f)))
        (\<lambda>q. case q of Inr j \<Rightarrow> retP ((blank_result f)\<lparr>lr_state := ''scheduled'', lr_job := jid j\<rparr>)
            | Inl e \<Rightarrow> queue_failed cfg describe i filters f e) (u2\<lparr>mw_uuids := tl (mw_uuids u2)\<rparr>) = (Inr r, w')"
    by (auto simp: bindP_def[of "annotate cfg filters [f]"] bind_read bind_write retP_def[of "blank_result f\<lparr>lr_message := m\<rparr>" for m]
        split: if_splits)
  have s: "same_data (mw_server w) (mw_server u2)"
    using unchanged_run[OF u1] keepsD[OF keeps_world_annotate _ gs] by blast
  have c: "mw_canceled u2 = mw_canceled w"
  proof -
    let ?I = "\<lambda>v. mw_canceled v = mw_canceled w"
    have I: "of_registry ?I" by (simp add: of_registry_def)
    have "keeps ?I (file_unchanged (md_id f) f)" unfolding file_unchanged_def using I by (intro keeps_intros)
    from keepsD[OF this _ u1] keepsD[OF keeps_annotate[OF I] _ gs] show ?thesis by simp
  qed
  from q assms(2) obtain v where
    v: "on_server (queue_media_file cfg (i \<in> set (mw_canceled u2)) (mw_now u2) (hd (mw_uuids u2)) filters f)
      (u2\<lparr>mw_uuids := tl (mw_uuids u2)\<rparr>) = (Inr v, w')" "lr_job r = jid v"
    by (auto simp: bindP_run tryP_def retP_def split: prod.splits sum.splits dest!: queue_failed_result)
  obtain t where
    t: "queue_media_file cfg (i \<in> set (mw_canceled u2)) (mw_now u2) (hd (mw_uuids u2)) filters f (mw_server u2) = (Inr v, t)"
      "mw_server w' = t"
    by (rule on_server_InrE[OF v(1)]) simp
  with queue_media_file_effect[OF t(1)] s c v(2) show ?thesis by (intro that) auto
qed

lemma intake_effect_faults [simp]: "intake_effect rq (s\<lparr>faults := fs\<rparr>) j es = intake_effect rq s j es"
  by (simp add: intake_effect_def)

text \<open>C8: A file that a batch reports as scheduled is, on the server, still the regular file of the review, with its size and
  modification time, a video of the source library that is not below the minimum size; the batch had not been stopped; and
  the log of exactly one job has grown, by the events the intake allows for a request that forces no completed and no
  assigned job, so that the job is queued.\<close>

theorem scheduled_files_are_queued:
  assumes "load_file cfg describe i filters f w = (Inr r, w')" "lr_state r = ''scheduled''" "db_inv (sdb (mw_server w))"
  shows "i \<notin> set (mw_canceled w) \<and> md_root f = ''source'' \<and> valid_media_path (md_path f) False \<and> is_video (md_path f) \<and>
    cfg_min_size cfg \<le> md_size f \<and>
    (\<exists>n. node_at (sfs (mw_server w')) (join_path [cfg_root cfg, md_path f]) = Some (File n) \<and>
      sizes (sfs (mw_server w')) (File n) = md_size f \<and> mtimes (sfs (mw_server w')) (File n) = md_modified f) \<and>
    (\<exists>es probe. job_log (sdb (mw_server w')) =
        (job_log (sdb (mw_server w)))(lr_job r := job_log (sdb (mw_server w)) (lr_job r) @ es) \<and>
      intake_effect (media_request filters f probe) (sdb (mw_server w)) (lr_job r) es \<and>
      map_option status (job_state (sdb (mw_server w')) (lr_job r)) = Some Queued)"
proof -
  from load_file_scheduled[OF assms(1,2)] obtain u now fresh v where
    u: "same_data (mw_server w) u" "i \<notin> set (mw_canceled w)" "lr_job r = jid v"
      "queue_media_file cfg False now fresh filters f u = (Inr v, mw_server w')" .
  note q = queue_media_file_effect[OF u(4)]
  then obtain probe x where x: "same_data u x" "schedule_job_request False now fresh (\<lambda>_. None) (cfg_root cfg)
      (media_request filters f probe) (sdb x) = (Inr v, sdb (mw_server w'))" by blast
  from same_data_trans[OF u(1) x(1)] obtain fs where fs: "sdb x = (sdb (mw_server w))\<lparr>faults := fs\<rparr>" by (auto simp: same_data_def)
  have "db_inv (sdb x)" using assms(3) fs by simp
  from schedule_effect[OF this x(2)] obtain es where
    "job_log (sdb (mw_server w')) = (job_log (sdb (mw_server w)))(jid v := job_log (sdb (mw_server w)) (jid v) @ es)"
    "intake_effect (media_request filters f probe) (sdb (mw_server w)) (jid v) es"
    "map_option status (job_state (sdb (mw_server w')) (jid v)) = Some Queued"
    unfolding fs by auto
  with q u(2,3) show ?thesis by auto
qed

section \<open>An example library\<close>

definition sample_media_file :: media_file where
  "sample_media_file = \<lparr>md_id = file_id ''source'' ''a.mkv'', md_root = ''source'', md_path = ''a.mkv'', md_name = ''a.mkv'',
     md_directory = False, md_size = 500, md_modified = 7, md_metadata = Some \<lparr>mm_duration = Fin 5, mm_width = 640, mm_height = 360,
       mm_codec = ''h264'', mm_bitrate = Fin 6, mm_probe = Some \<lparr>duration_seconds = Fin 5, streams = []\<rparr>\<rparr>,
     md_job = None, md_eligible = True, md_reason = []\<rparr>"

definition sample_library :: media_world where
  "sample_library = \<lparr>mw_server = \<lparr>sdb = empty_db, sfs = demo_files\<lparr>names := [(''/lib'', Directory), (''/lib/a.mkv'', File 0)],
       sizes := (\<lambda>_. 500), mtimes := (\<lambda>_. 7)\<rparr>, checksums = []\<rparr>,
     mw_roots = [(''source'', ''/lib'')], mw_ops = [], mw_canceled = [], mw_uuids = [''id1'', ''id2'', ''id3''], mw_now = 3, mw_between = []\<rparr>"

definition three_scans :: "media_call list" where
  "three_scans = [StartScan no_filters, StartScan no_filters, StartScan no_filters]"

lemma three_scans_run:
  "running (mw_ops (fold (media_call_step demo_config (\<lambda>_. None) (\<lambda>x. x) (\<lambda>_. [])) three_scans sample_library)) = 2"
  by code_simp

lemma operations_bounded_witness:
  "running (mw_ops (fold (media_call_step demo_config (\<lambda>_. None) (\<lambda>x. x) (\<lambda>_. [])) three_scans sample_library)) = 2 \<and>
   length (mw_ops (fold (media_call_step demo_config (\<lambda>_. None) (\<lambda>x. x) (\<lambda>_. [])) three_scans sample_library)) \<le> 8"
proof -
  have "mw_ops sample_library = []" by (simp add: sample_library_def)
  from operations_bounded[OF this] three_scans_run show ?thesis by blast
qed

lemma batch_respects_its_target_witness:
  "\<exists>d'. map_of (mw_ops (snd (run_batch demo_config (\<lambda>_. []) ''b1'' no_filters 1 [sample_media_file, sample_media_file]
      (sample_library\<lparr>mw_ops := [(''b1'', blank_operation ''queue'' 3)]\<rparr>)))) ''b1'' = Some d' \<and> mo_scheduled d' \<le> 1 \<and>
    mo_state d' \<in> {''completed'', ''canceled'', ''failed''}"
  using batch_respects_its_target[of "sample_library\<lparr>mw_ops := [(''b1'', blank_operation ''queue'' 3)]\<rparr>" "''b1''"
      "blank_operation ''queue'' 3" 1 demo_config "\<lambda>_. []" no_filters "[sample_media_file, sample_media_file]"]
  by (auto simp: blank_operation_def)

lemma sample_batch_run:
  "map_sum (\<lambda>_. ()) (\<lambda>r. (lr_state r, lr_job r))
     (fst (load_file demo_config (\<lambda>_. []) ''b1'' no_filters sample_media_file sample_library)) = Inr (''scheduled'', ''id1'')"
  by code_simp

lemma scheduled_files_are_queued_witness:
  "\<exists>r w'. load_file demo_config (\<lambda>_. []) ''b1'' no_filters sample_media_file sample_library = (Inr r, w') \<and>
     map_option status (job_state (sdb (mw_server w')) (lr_job r)) = Some Queued"
proof -
  from run_value[OF sample_batch_run] obtain r w' where
    r: "load_file demo_config (\<lambda>_. []) ''b1'' no_filters sample_media_file sample_library = (Inr r, w')" "lr_state r = ''scheduled''"
    by (metis Pair_inject)
  have "db_inv (sdb (mw_server sample_library))" by (simp add: sample_library_def db_inv_empty)
  from scheduled_files_are_queued[OF r this] r show ?thesis by blast
qed

end
