(* ===== verification/Control_Socket.thy ===== *)
theory Control_Socket
  imports Worker_Admission
begin

text \<open>
  The local control endpoint of the worker (\<open>worker/control/control.go\<close>): what each command of the
  socket does to the executor, and how the command line is turned into a command. The executor
  offers every optional control, so the interface tests of \<open>handle\<close> succeed. The wording of errors
  is left out; the connection and its JSON are a library.
\<close>

record control_request =
  cq_cpu_jobs :: "int option"
  cq_gpu_jobs :: "int option"
  cq_job_id :: string
  cq_pause_mode :: string
  cq_command :: string
  cq_max_jobs :: int

datatype control_error = CtUnknown | CtPairRequired | CtNoShutdown | CtExecutor executor_error

record control_response =
  cr_status :: status_report
  cr_error :: "control_error option"

text \<open>What the surroundings contribute: the platform, how identifiers are read, how processes are
  inspected, whether the server stores a limit, the schedule, and whether the worker can be shut
  down from here.\<close>

record control_env =
  ce_goos :: string
  ce_parse_uuid :: "string \<Rightarrow> string option"
  ce_active :: inspection
  ce_saved :: bool
  ce_on_schedule :: bool
  ce_shutdown :: bool

definition as_control :: "unit executor_op \<Rightarrow> job_executor \<Rightarrow> control_error option \<times> job_executor" where
  "as_control m e = (case m e of (Inl x, e') \<Rightarrow> (Some (CtExecutor x), e') | (Inr _, e') \<Rightarrow> (None, e'))"

definition control_action :: "control_env \<Rightarrow> control_request \<Rightarrow> job_executor \<Rightarrow> control_error option \<times> job_executor" where
  "control_action env r e =
    (let c = cq_command r in
     if c = ''status'' then (None, e)
     else if c = ''hold-admission'' then as_control hold_admission e
     else if c = ''pause-job'' \<or> c = ''resume-job''
       then as_control (set_job_hold (ce_parse_uuid env) (ce_goos env) (ce_active env) (cq_job_id r) (c = ''pause-job'')) e
     else if c = ''set-pause-mode'' then as_control (set_pause_mode (ce_goos env) (cq_pause_mode r)) e
     else if c = ''pause-encodes'' \<or> c = ''resume-encodes''
       then as_control (set_ram_paused (ce_goos env) (c = ''pause-encodes'')) e
     else if c = ''set-admission-limit'' then as_control (persist_admission_limit (ce_saved env) (cq_max_jobs r)) e
     else if c = ''set-encoder-jobs''
       then (case (cq_cpu_jobs r, cq_gpu_jobs r) of
           (Some cpu, Some gpu) \<Rightarrow> as_control (persist_encoder_limits (ce_saved env) cpu gpu) e
         | _ \<Rightarrow> (Some CtPairRequired, e))
     else if c = ''set-max-jobs'' then as_control (persist_max_active_jobs (ce_saved env) (cq_max_jobs r)) e
     else if c = ''finish-accepted'' then as_control finish_accepted_jobs e
     else if c = ''drain'' then as_control drain_accepted_jobs e
     else if c = ''shutdown'' then (if ce_shutdown env then None else Some CtNoShutdown, e)
     else (Some CtUnknown, e))"

text \<open>The answer is the status after the command; the flag asks for the shutdown.\<close>

definition handle_control :: "control_env \<Rightarrow> control_request \<Rightarrow> job_executor \<Rightarrow> control_response \<times> bool \<times> job_executor" where
  "handle_control env r e = (case control_action env r e of (err, e') \<Rightarrow>
     (\<lparr>cr_status = admission_status (ce_on_schedule env) e', cr_error = err\<rparr>,
      cq_command r = ''shutdown'' \<and> ce_shutdown env, e'))"

section \<open>The command line\<close>

datatype cli_error = CliUsage string | CliCpuNegative | CliGpuInvalid | CliMaxNegative | CliUnknown string

definition cli_command :: "string \<Rightarrow> control_request" where
  "cli_command c = \<lparr>cq_cpu_jobs = None, cq_gpu_jobs = None, cq_job_id = [], cq_pause_mode = [], cq_command = c,
     cq_max_jobs = 0\<rparr>"

definition parse_pair :: "string \<Rightarrow> string \<Rightarrow> cli_error + int \<times> int" where
  "parse_pair a b = (case atoi a of
      None \<Rightarrow> Inl CliCpuNegative
    | Some cpu \<Rightarrow> if cpu < 0 then Inl CliCpuNegative
        else (case atoi b of
            None \<Rightarrow> Inl CliGpuInvalid
          | Some gpu \<Rightarrow> if gpu < 0 \<or> cpu > wrap64 (go_max_int - gpu) then Inl CliGpuInvalid else Inr (cpu, gpu)))"

definition cli_request :: "string list \<Rightarrow> cli_error + control_request" where
  "cli_request args = (case args of [] \<Rightarrow> Inl (CliUsage [])
    | c # ps \<Rightarrow>
      if c = ''set-encoder-jobs''
        then (case ps of [a, b] \<Rightarrow> (case parse_pair a b of Inl x \<Rightarrow> Inl x
              | Inr (cpu, gpu) \<Rightarrow> Inr ((cli_command c)\<lparr>cq_cpu_jobs := Some cpu, cq_gpu_jobs := Some gpu\<rparr>))
            | _ \<Rightarrow> Inl (CliUsage c))
      else if c = ''status'' \<or> c = ''pause-encodes'' \<or> c = ''resume-encodes''
        then (if ps = [] then Inr (cli_command c) else Inl (CliUsage c))
      else if c = ''pause-job'' \<or> c = ''resume-job''
        then (case ps of [j] \<Rightarrow> if j = [] then Inl (CliUsage c) else Inr ((cli_command c)\<lparr>cq_job_id := j\<rparr>)
            | _ \<Rightarrow> Inl (CliUsage c))
      else if c = ''set-pause-mode''
        then (case ps of [m] \<Rightarrow> if m = ''finish'' \<or> m = ''ram'' then Inr ((cli_command c)\<lparr>cq_pause_mode := m\<rparr>)
              else Inl (CliUsage c)
            | _ \<Rightarrow> Inl (CliUsage c))
      else if c = ''set-max-jobs'' \<or> c = ''set-admission-limit''
        then (case ps of [n] \<Rightarrow> (case atoi n of None \<Rightarrow> Inl CliMaxNegative
              | Some m \<Rightarrow> if m < 0 then Inl CliMaxNegative else Inr ((cli_command c)\<lparr>cq_max_jobs := m\<rparr>))
            | _ \<Rightarrow> Inl (CliUsage c))
      else Inl (CliUnknown c))"

section \<open>What the command line can send\<close>

text \<open>The errors that blame the request rather than the state of the worker.\<close>

definition malformed :: "control_error \<Rightarrow> bool" where
  "malformed x = (case x of CtExecutor y \<Rightarrow> (case y of ExNegativeMax \<Rightarrow> True | ExBadMode \<Rightarrow> True | ExLimits _ \<Rightarrow> True | ExBadJobId \<Rightarrow> True | _ \<Rightarrow> False)
     | _ \<Rightarrow> True)"

definition well_formed_op :: "unit executor_op \<Rightarrow> bool" where
  "well_formed_op m \<longleftrightarrow> (\<forall>e x. fst (as_control m e) = Some x \<longrightarrow> \<not> malformed x)"

lemma well_formed_bind:
  assumes "\<And>e x e'. m e = (Inl x, e') \<Longrightarrow> \<not> malformed (CtExecutor x)"
  shows "well_formed_op (bindP m (\<lambda>_. modify_executor f))"
  using assms by (auto simp: well_formed_op_def as_control_def bindP_def modify_executor_def writeP_def
      split: prod.splits sum.splits)

lemma on_pauses_well: "on_pauses m e = (Inl x, e') \<Longrightarrow> \<not> malformed (CtExecutor x)"
  by (auto simp: on_pauses_def malformed_def split: prod.splits sum.splits)

lemma limits_well:
  assumes "set_encoder_limits c g e = (Inl x, e')" and "total_jobs (pair_settings c g) = Inr t"
  shows "\<not> malformed (CtExecutor x)"
  using assms by (auto simp: set_encoder_limits_def bindP_def modify_executor_def writeP_def
      split: prod.splits sum.splits dest: on_pauses_well)

lemma apply_well: "apply_limit_locked n m ram e = (Inl x, e') \<Longrightarrow> \<not> malformed (CtExecutor x)"
  by (auto simp: apply_limit_locked_def bindP_def modify_executor_def writeP_def
      split: prod.splits sum.splits dest: on_pauses_well)

lemma persist_well: "0 \<le> n \<Longrightarrow> well_formed_op (persist_limit ok b n)"
proof -
  assume n: "0 \<le> n"
  have "well_formed_op (bindP (\<lambda>e. apply_limit_locked n (md e) (ram e) e) (\<lambda>_. modify_executor mark_settings_resolved))"
    for md ram
    by (rule well_formed_bind) (erule apply_well)
  with n show ?thesis
    by (cases ok) (simp_all add: persist_limit_def Let_def well_formed_op_def as_control_def malformed_def failP_def)
qed

lemma pair_well:
  assumes "total_jobs (pair_settings c g) = Inr t"
  shows "well_formed_op (persist_encoder_limits ok c g)"
proof -
  have v: "validate_write (pair_settings c g) = Inr ()"
    using assms by (simp add: validate_write_def pair_settings_def independent_def empty_settings_def)
  have "well_formed_op (bindP (set_encoder_limits c g) (\<lambda>_. modify_executor mark_settings_resolved))"
    by (rule well_formed_bind) (rule limits_well[OF _ assms])
  with v show ?thesis
    by (auto simp: persist_encoder_limits_def well_formed_op_def as_control_def malformed_def failP_def)
qed

lemma holds_well:
  assumes "resolve_pause_mode goos ''ram'' \<noteq> None"
  shows "well_formed_op (set_ram_paused goos b)"
    "fst (as_control (set_job_hold uuids goos act j b) e) = Some x \<Longrightarrow> malformed x \<Longrightarrow> uuids j = None"
    "m = ''finish'' \<or> m = ''ram'' \<Longrightarrow> well_formed_op (set_pause_mode goos m)"
proof -
  have "well_formed_op (bindP (on_pauses (set_paused b)) (\<lambda>_. modify_executor f))" for f
    by (rule well_formed_bind) (rule on_pauses_well)
  then show "well_formed_op (set_ram_paused goos b)"
    using assms by (auto simp: set_ram_paused_def well_formed_op_def as_control_def malformed_def split: if_splits)
  show "fst (as_control (set_job_hold uuids goos act j b) e) = Some x \<Longrightarrow> malformed x \<Longrightarrow> uuids j = None"
  proof (cases "uuids j")
    case (Some i)
    with assms have "well_formed_op (set_job_hold uuids goos act j b)"
      by (auto simp: set_job_hold_def well_formed_op_def as_control_def malformed_def failP_def on_pauses_def
          split: option.splits if_splits prod.splits sum.splits executor_error.splits pause_error.splits)
    then show "fst (as_control (set_job_hold uuids goos act j b) e) = Some x \<Longrightarrow> malformed x \<Longrightarrow> uuids j = None"
      by (simp add: well_formed_op_def)
  qed
  assume "m = ''finish'' \<or> m = ''ram''"
  then obtain v where "resolve_pause_mode goos m = Some v"
    using assms by (auto simp: resolve_pause_mode_def Let_def split: if_splits)
  then show "well_formed_op (set_pause_mode goos m)"
    unfolding set_pause_mode_def by (simp, intro well_formed_bind) (erule on_pauses_well)
qed

lemma atoi_range: "atoi s = Some v \<Longrightarrow> int_range v"
  by (auto simp: atoi_def Let_def split: prod.splits if_splits)

lemma parse_pair_total:
  assumes "parse_pair a b = Inr (cpu, gpu)"
  shows "\<exists>t. total_jobs (pair_settings cpu gpu) = Inr t"
  using assms by (auto simp: parse_pair_def total_jobs_def pair_settings_def split: option.splits if_splits)

lemma control_of:
  "cq_command r = ''status'' \<Longrightarrow> control_action env r e = (None, e)"
  "cq_command r = ''pause-encodes'' \<Longrightarrow> control_action env r e = as_control (set_ram_paused (ce_goos env) True) e"
  "cq_command r = ''resume-encodes'' \<Longrightarrow> control_action env r e = as_control (set_ram_paused (ce_goos env) False) e"
  "cq_command r = ''pause-job'' \<Longrightarrow> control_action env r e =
    as_control (set_job_hold (ce_parse_uuid env) (ce_goos env) (ce_active env) (cq_job_id r) True) e"
  "cq_command r = ''resume-job'' \<Longrightarrow> control_action env r e =
    as_control (set_job_hold (ce_parse_uuid env) (ce_goos env) (ce_active env) (cq_job_id r) False) e"
  "cq_command r = ''set-pause-mode'' \<Longrightarrow> control_action env r e = as_control (set_pause_mode (ce_goos env) (cq_pause_mode r)) e"
  "cq_command r = ''set-max-jobs'' \<Longrightarrow> control_action env r e =
    as_control (persist_limit (ce_saved env) False (cq_max_jobs r)) e"
  "cq_command r = ''set-admission-limit'' \<Longrightarrow> control_action env r e =
    as_control (persist_limit (ce_saved env) True (cq_max_jobs r)) e"
  "cq_command r = ''set-encoder-jobs'' \<Longrightarrow> cq_cpu_jobs r = Some c \<Longrightarrow> cq_gpu_jobs r = Some g \<Longrightarrow>
    control_action env r e = as_control (persist_encoder_limits (ce_saved env) c g) e"
  by (simp_all add: control_action_def persist_max_active_jobs_def persist_admission_limit_def)

lemma cli_cases:
  assumes "cli_request args = Inr r"
  obtains (pair) a b c g where "parse_pair a b = Inr (c, g)" "cq_command r = ''set-encoder-jobs''"
      "cq_cpu_jobs r = Some c" "cq_gpu_jobs r = Some g"
  | (plain) "cq_command r = ''status'' \<or> cq_command r = ''pause-encodes'' \<or> cq_command r = ''resume-encodes''"
  | (job) "cq_command r = ''pause-job'' \<or> cq_command r = ''resume-job''"
  | (mode) "cq_command r = ''set-pause-mode''" "cq_pause_mode r = ''finish'' \<or> cq_pause_mode r = ''ram''"
  | (limit) "cq_command r = ''set-max-jobs'' \<or> cq_command r = ''set-admission-limit''" "0 \<le> cq_max_jobs r"
proof -
  obtain c ps where args: "args = c # ps" using assms by (cases args) (auto simp: cli_request_def)
  note h = assms[unfolded cli_request_def args list.case]
  have cmd: "cq_command (cli_command c) = c" by (simp add: cli_command_def)
  show thesis
  proof (cases "c = ''set-encoder-jobs''")
    case True
    with h obtain a b where ps: "ps = [a, b]" by (auto split: list.splits)
    with True h pair[of a b] show thesis
      by (cases "parse_pair a b") (auto simp: cli_command_def)
  next
    case 1: False
    show thesis
    proof (cases "c = ''status'' \<or> c = ''pause-encodes'' \<or> c = ''resume-encodes''")
      case True
      with 1 h have "r = cli_command c" by (simp split: if_splits)
      with True plain cmd show thesis by simp
    next
      case 2: False
      show thesis
      proof (cases "c = ''pause-job'' \<or> c = ''resume-job''")
        case True
        from h[unfolded if_not_P[OF 1] if_not_P[OF 2] if_P[OF True]] obtain j
          where "r = (cli_command c)\<lparr>cq_job_id := j\<rparr>" by (cases ps; cases "tl ps") (auto split: if_splits)
        with True job cmd show thesis by simp
      next
        case 3: False
        show thesis
        proof (cases "c = ''set-pause-mode''")
          case True
          from h[unfolded if_not_P[OF 1] if_not_P[OF 2] if_not_P[OF 3] if_P[OF True]] obtain m
            where "r = (cli_command c)\<lparr>cq_pause_mode := m\<rparr>" "m = ''finish'' \<or> m = ''ram''"
            by (cases ps; cases "tl ps") (auto split: if_splits)
          with True mode cmd show thesis by simp
        next
          case 4: False
          note h = h[unfolded if_not_P[OF 1] if_not_P[OF 2] if_not_P[OF 3] if_not_P[OF 4]]
          then have l: "c = ''set-max-jobs'' \<or> c = ''set-admission-limit''" by (rule contrapos_pp) simp
          from h[unfolded if_P[OF l]] obtain n where "r = (cli_command c)\<lparr>cq_max_jobs := n\<rparr>" "0 \<le> n"
            by (cases ps; cases "tl ps") (auto split: if_splits option.splits)
          with l limit cmd show thesis by simp
        qed
      qed
    qed
  qed
qed

text \<open>C35: Every request the command line accepts has a form the worker understands, but for the identifier of a job,
  which only the worker reads: on a platform that can hold encoders in memory, the one error that blames the request
  itself is that of \<open>pause-job\<close> or \<open>resume-job\<close> with an identifier that is not one. Any other error blames the state of
  the worker (a drain, a pause that failed, a limit the server did not store). No such request stops the worker.\<close>

theorem cli_requests_well_formed:
  assumes "cli_request args = Inr r" and "resolve_pause_mode (ce_goos env) ''ram'' \<noteq> None"
    and "handle_control env r e = (resp, stop, e')"
  shows "\<not> stop \<and> (\<forall>x. cr_error resp = Some x \<and> malformed x \<longrightarrow>
    (cq_command r = ''pause-job'' \<or> cq_command r = ''resume-job'') \<and> ce_parse_uuid env (cq_job_id r) = None)"
proof -
  note w = holds_well(1,3)[OF assms(2), unfolded well_formed_op_def] persist_well[unfolded well_formed_op_def]
    pair_well[unfolded well_formed_op_def]
  have "cq_command r \<noteq> ''shutdown'' \<and> (\<forall>x. fst (control_action env r e) = Some x \<and> malformed x \<longrightarrow>
    (cq_command r = ''pause-job'' \<or> cq_command r = ''resume-job'') \<and> ce_parse_uuid env (cq_job_id r) = None)"
    using assms(1)
  proof (cases rule: cli_cases)
    case (pair a b c g)
    with parse_pair_total[OF pair(1)] w(4) control_of(9)[OF pair(2-4)] show ?thesis by auto
  next
    case plain
    with w(1) control_of(1-3)[of r env e] show ?thesis by auto
  next
    case job
    then have "\<exists>b. control_action env r e = as_control (set_job_hold (ce_parse_uuid env) (ce_goos env) (ce_active env) (cq_job_id r) b) e"
      using control_of(4,5)[of r env e] by auto
    with job holds_well(2)[OF assms(2)] show ?thesis by auto
  next
    case mode
    with w(2) control_of(6)[of r env e] show ?thesis by auto
  next
    case limit
    with w(3) control_of(7,8)[of r env e] show ?thesis by auto
  qed
  then show ?thesis using assms(3) by (auto simp: handle_control_def split: prod.splits)
qed

definition demo_control_env :: control_env where
  "demo_control_env = \<lparr>ce_goos = ''linux'', ce_parse_uuid = (\<lambda>s. Some s), ce_active = (\<lambda>_. Inr True),
     ce_saved = True, ce_on_schedule = True, ce_shutdown = True\<rparr>"

definition demo_cli :: control_request where
  "demo_cli = (cli_command ''set-encoder-jobs'')\<lparr>cq_cpu_jobs := Some 1, cq_gpu_jobs := Some 2\<rparr>"

theorem cli_requests_well_formed_witness:
  "cli_request [''set-encoder-jobs'', ''1'', ''2''] = Inr demo_cli \<and>
    (\<forall>e. \<not> fst (snd (handle_control demo_control_env demo_cli e)))"
proof
  show c: "cli_request [''set-encoder-jobs'', ''1'', ''2''] = Inr demo_cli" by code_simp
  have m: "resolve_pause_mode (ce_goos demo_control_env) ''ram'' \<noteq> None" by code_simp
  show "\<forall>e. \<not> fst (snd (handle_control demo_control_env demo_cli e))"
  proof
    fix e
    show "\<not> fst (snd (handle_control demo_control_env demo_cli e))"
      using cli_requests_well_formed[OF c m] by (metis prod.collapse)
  qed
qed

end
