(* ===== verification/Dashboard_Query.thy ===== *)
theory Dashboard_Query
  imports Media_Library Go_Float
begin

text \<open>
  What the dashboard reads (\<open>server/repository/dashboard.go\<close>, \<open>model/dashboard.go\<close>, \<open>model/dashboardRange.go\<close>): the
  counts of the jobs by state, the timeline, the workers, a page of jobs with their progress, the codecs, the recent
  activity. Each query is one statement over the tables, all of them in one transaction that only reads. Times are
  nanoseconds in UTC; names are ordered by their bytes; sums and averages are exact.
\<close>

section \<open>Data\<close>

record dash_summary =
  su_total :: int
  su_queued :: int
  su_active :: int
  su_completed :: int
  su_failed :: int
  su_canceled :: int
  su_source_bytes :: int
  su_target_bytes :: int
  su_saved_bytes :: int
  su_compression :: rat
  su_completed_in_range :: int
  su_failed_in_range :: int
  su_average_seconds :: rat

record dash_bucket =
  bu_time :: int
  bu_completed :: int
  bu_failed :: int
  bu_source_bytes :: int
  bu_target_bytes :: int

record dash_worker =
  dw_name :: string
  dw_ip :: string
  dw_last_seen :: int
  dw_online :: bool
  dw_runtime :: "worker_runtime option"
  dw_control :: "worker_control option"
  dw_desired_max :: "int option"
  dw_desired_cpu :: "int option"
  dw_desired_gpu :: "int option"
  dw_active :: int
  dw_completed :: int
  dw_failed :: int
  dw_source_bytes :: int
  dw_target_bytes :: int

record dash_progress =
  dp_id :: string
  dp_phase :: notification_type
  dp_percent :: float64
  dp_eta :: float64
  dp_updated :: int
  dp_stale :: bool

record dash_job =
  dj_id :: string
  dj_source_path :: string
  dj_source_bytes :: int
  dj_target_bytes :: int
  dj_state :: string
  dj_phase :: notification_type
  dj_worker :: string
  dj_message :: string
  dj_updated :: int
  dj_progress :: "dash_progress list"

record dash_codec =
  dc_name :: string
  dc_jobs :: int
  dc_source_bytes :: int
  dc_target_bytes :: int

record dash_activity =
  da_job :: string
  da_source_path :: string
  da_worker :: string
  da_phase :: notification_type
  da_status :: notification_status
  da_message :: string
  da_time :: int

record dashboard =
  db_generated :: int
  db_hours :: int
  db_range :: "int \<times> int"
  db_period :: dash_summary
  db_summary :: dash_summary
  db_timeline :: "dash_bucket list"
  db_workers :: "dash_worker list"
  db_jobs :: "dash_job list"
  db_codecs :: "dash_codec list"
  db_activity :: "dash_activity list"

record jobs_query =
  jy_state :: string
  jy_search :: string
  jy_offset :: int
  jy_limit :: int

record job_page =
  pg_jobs :: "dash_job list"
  pg_total :: int
  pg_offset :: int
  pg_limit :: int

definition second :: int where
  "second = 10 ^ 9"

definition day :: int where
  "day = 24 * 3600 * second"

text \<open>The range of a report: an interval that is given (\<open>None\<close> for a zero time), or the last hours.\<close>

definition resolve_range :: "int \<Rightarrow> int \<Rightarrow> (int option \<times> int option) option \<Rightarrow> (int \<times> int) option" where
  "resolve_range hours now given = (case given of
      Some (Some start, Some stop) \<Rightarrow> if \<not> start < stop \<or> 3660 * day < stop - start then None else Some (start, stop)
    | Some _ \<Rightarrow> None
    | None \<Rightarrow> if hours \<noteq> 24 \<and> hours \<noteq> 168 \<and> hours \<noteq> 720 then None else Some (now - hours * 3600 * second, now))"

definition range_step :: "int \<times> int \<Rightarrow> int" where
  "range_step r = (if snd r - fst r \<le> day then 3600 * second else day)"

definition in_range :: "int \<times> int \<Rightarrow> int \<Rightarrow> bool" where
  "in_range r t \<longleftrightarrow> fst r \<le> t \<and> t < snd r"

section \<open>The fleet\<close>

text \<open>Every job with its last event; \<open>media_state_of\<close> is the state the query gives it.\<close>

type_synonym fleet_row = "job_row \<times> task_event"

definition fleet_state :: "fleet_row \<Rightarrow> string" where
  "fleet_state f = media_state_of (snd f)"

definition fleet_time :: "fleet_row \<Rightarrow> int" where
  "fleet_time f = event_time (snd f)"

definition measured :: "fleet_row \<Rightarrow> bool" where
  "measured f \<longleftrightarrow> fleet_state f = ''completed'' \<and> 0 < jr_source_size (fst f) \<and> 0 < jr_target_size (fst f)"

definition counted :: "('a \<Rightarrow> bool) \<Rightarrow> 'a list \<Rightarrow> int" where
  "counted P xs = int (length (filter P xs))"

definition summed :: "('a \<Rightarrow> int) \<Rightarrow> ('a \<Rightarrow> bool) \<Rightarrow> 'a list \<Rightarrow> int" where
  "summed g P xs = sum_list (map g (filter P xs))"

text \<open>The time of the last start of a job before its last event.\<close>

definition started_at :: "sql_db \<Rightarrow> fleet_row \<Rightarrow> int option" where
  "started_at s f = (case map event_time (filter (\<lambda>e. job_id e = jr_id (fst f) \<and> notification_type e = JobNotification \<and>
       status e = Started \<and> event_id e < event_id (snd f)) (events_t s)) of
      [] \<Rightarrow> None | t # ts \<Rightarrow> Some (fold max ts t))"

definition average_seconds :: "sql_db \<Rightarrow> int \<times> int \<Rightarrow> rat" where
  "average_seconds s r =
    (let ds = concat (map (\<lambda>f. case started_at s f of None \<Rightarrow> [] | Some t \<Rightarrow> [fleet_time f - t])
         (filter (\<lambda>f. fleet_state f = ''completed'' \<and> in_range r (fleet_time f)) (joined s)))
     in if ds = [] then 0 else rat_of_int (sum_list ds) / rat_of_nat (length ds) / rat_of_int second)"

definition no_summary :: dash_summary where
  "no_summary = \<lparr>su_total = 0, su_queued = 0, su_active = 0, su_completed = 0, su_failed = 0, su_canceled = 0, su_source_bytes = 0,
     su_target_bytes = 0, su_saved_bytes = 0, su_compression = 0, su_completed_in_range = 0, su_failed_in_range = 0, su_average_seconds = 0\<rparr>"

definition read_summary :: "int \<times> int \<Rightarrow> sql_db \<Rightarrow> dash_summary \<times> dash_summary" where
  "read_summary r s =
    (let fleet = joined s; is = (\<lambda>st f. fleet_state f = st); now = (\<lambda>f. in_range r (fleet_time f)) in
     (no_summary\<lparr>su_total := int (length fleet), su_queued := counted (is ''queued'') fleet, su_active := counted (is ''active'') fleet,
        su_completed := counted (is ''completed'') fleet, su_failed := counted (is ''failed'') fleet,
        su_canceled := counted (is ''canceled'') fleet,
        su_source_bytes := summed (\<lambda>f. jr_source_size (fst f)) measured fleet,
        su_target_bytes := summed (\<lambda>f. jr_target_size (fst f)) measured fleet,
        su_completed_in_range := counted (\<lambda>f. is ''completed'' f \<and> now f) fleet,
        su_failed_in_range := counted (\<lambda>f. is ''failed'' f \<and> now f) fleet,
        su_average_seconds := average_seconds s r\<rparr>,
      no_summary\<lparr>su_source_bytes := summed (\<lambda>f. jr_source_size (fst f)) (\<lambda>f. measured f \<and> now f) fleet,
        su_target_bytes := summed (\<lambda>f. jr_target_size (fst f)) (\<lambda>f. measured f \<and> now f) fleet\<rparr>))"

section \<open>The timeline\<close>

definition empty_bucket :: "int \<Rightarrow> dash_bucket" where
  "empty_bucket t = \<lparr>bu_time = t, bu_completed = 0, bu_failed = 0, bu_source_bytes = 0, bu_target_bytes = 0\<rparr>"

function bucket_times :: "int \<Rightarrow> int \<Rightarrow> int \<Rightarrow> int list" where
  "bucket_times step stop t = (if 0 < step \<and> t < stop then t # bucket_times step stop (t + step) else [])"
  by pat_completeness auto
termination by (relation "measure (\<lambda>(step, stop, t). nat (stop - t))") auto

declare bucket_times.simps [simp del]

text \<open>A bucket of the report with the counts of its jobs; a bucket without any keeps its zeros.\<close>

definition fill_bucket :: "int \<times> int \<Rightarrow> sql_db \<Rightarrow> dash_bucket \<Rightarrow> dash_bucket" where
  "fill_bucket r s b =
    (let step = range_step r;
         rows = filter (\<lambda>f. in_range r (fleet_time f) \<and> fleet_state f \<in> {''completed'', ''failed''} \<and>
           fleet_time f - fleet_time f mod step = bu_time b) (joined s)
     in if rows = [] then b
        else b\<lparr>bu_completed := counted (\<lambda>f. fleet_state f = ''completed'') rows, bu_failed := counted (\<lambda>f. fleet_state f = ''failed'') rows,
          bu_source_bytes := summed (\<lambda>f. jr_source_size (fst f)) measured rows,
          bu_target_bytes := summed (\<lambda>f. jr_target_size (fst f)) measured rows\<rparr>)"

definition read_timeline :: "int \<times> int \<Rightarrow> sql_db \<Rightarrow> dash_bucket list" where
  "read_timeline r s = map (fill_bucket r s) (map empty_bucket
     (bucket_times (range_step r) (snd r) (fst r - fst r mod range_step r)))"

section \<open>Jobs\<close>

definition matches_query :: "jobs_query \<Rightarrow> fleet_row \<Rightarrow> bool" where
  "matches_query q f \<longleftrightarrow> (jy_state q = ''all'' \<or> jy_state q = [] \<or> fleet_state f = jy_state q) \<and>
     (jy_search q = [] \<or> contains (to_lower (jr_source_path (fst f) @ '' '' @ worker_name (snd f) @ '' '' @ jr_id (fst f)))
        (to_lower (jy_search q)))"

definition state_rank :: "fleet_row \<Rightarrow> nat" where
  "state_rank f = (if fleet_state f = ''active'' then 0 else if fleet_state f = ''queued'' then 1 else 2)"

definition job_order :: "fleet_row \<Rightarrow> fleet_row \<Rightarrow> bool" where
  "job_order f g \<longleftrightarrow> state_rank f < state_rank g \<or> state_rank f = state_rank g \<and>
     (fleet_time g < fleet_time f \<or> fleet_time f = fleet_time g \<and> string_less (jr_id (fst f)) (jr_id (fst g)))"

definition matching :: "jobs_query \<Rightarrow> sql_db \<Rightarrow> fleet_row list" where
  "matching q s = sort_slice job_order (filter (matches_query q) (joined s))"

definition dash_job_of :: "fleet_row \<Rightarrow> dash_job" where
  "dash_job_of f = \<lparr>dj_id = jr_id (fst f), dj_source_path = jr_source_path (fst f), dj_source_bytes = jr_source_size (fst f),
     dj_target_bytes = jr_target_size (fst f), dj_state = fleet_state f, dj_phase = notification_type (snd f),
     dj_worker = worker_name (snd f), dj_message = message (snd f), dj_updated = event_time (snd f), dj_progress = []\<rparr>"

definition normalize_progress :: "int \<Rightarrow> dash_progress \<Rightarrow> dash_progress" where
  "normalize_progress now p =
    (let pc = (if is_nan_or_inf (dp_percent p) then Fin 0 else dp_percent p);
         pc = (if float_less (Fin 100) pc then Fin 100 else pc);
         pc = (if float_less pc (Fin 0) then Fin 0 else pc);
         eta = (if is_nan_or_inf (dp_eta p) \<or> float_less (dp_eta p) (Fin 0) then Fin 0 else dp_eta p)
     in p\<lparr>dp_percent := pc, dp_eta := eta, dp_stale := 60 * second < now - dp_updated p\<rparr>)"

text \<open>The progress of the current assignment and phase of a job.\<close>

definition current_progress :: "int \<Rightarrow> sql_db \<Rightarrow> string \<Rightarrow> dash_progress list" where
  "current_progress now s j = map (\<lambda>p. normalize_progress now \<lparr>dp_id = pr_progress_id p, dp_phase = pr_type p,
       dp_percent = pr_percent p, dp_eta = Fin (rat_of_int (pr_eta p)), dp_updated = pr_last_update p, dp_stale = False\<rparr>)
     (sort_slice (\<lambda>p q. string_less (pr_progress_id p) (pr_progress_id q))
       (filter (\<lambda>p. pr_job_id p = j \<and> (case lookup_row status_key j (status_t s) of None \<Rightarrow> False
         | Some t \<Rightarrow> worker_name (sr_event t) = pr_worker_name p \<and> notification_type (sr_event t) = pr_type p \<and>
             notification_type (sr_event t) \<noteq> JobNotification \<and> status (sr_event t) = Started)) (progress_t s)))"

definition read_dashboard_jobs :: "int \<Rightarrow> jobs_query \<Rightarrow> dash_job list db_op" where
  "read_dashboard_jobs now q =
    bindP (statement (readP (\<lambda>s. map dash_job_of (take (nat (jy_limit q)) (drop (nat (jy_offset q)) (matching q s)))))) (\<lambda>js.
      if js = [] then retP []
      else statement (readP (\<lambda>s. map (\<lambda>j. j\<lparr>dj_progress := current_progress now s (dj_id j)\<rparr>) js)))"

definition read_job_page :: "int \<Rightarrow> jobs_query \<Rightarrow> job_page db_op" where
  "read_job_page now q = bindP (statement (readP (\<lambda>s. counted (matches_query q) (joined s)))) (\<lambda>total.
     bindP (read_dashboard_jobs now q) (\<lambda>js.
       retP \<lparr>pg_jobs = js, pg_total = total, pg_offset = jy_offset q, pg_limit = jy_limit q\<rparr>))"

definition get_dashboard_jobs :: "int \<Rightarrow> jobs_query \<Rightarrow> job_page db_op" where
  "get_dashboard_jobs now q = with_transaction (read_job_page now q)"

section \<open>Workers, codecs and activity\<close>

definition dash_worker_of :: "int \<times> int \<Rightarrow> sql_db \<Rightarrow> worker \<Rightarrow> dash_worker" where
  "dash_worker_of r s w =
    (let mine = filter (\<lambda>f. worker_name (snd f) = wk_name w) (joined s); ws = lookup_row wr_name (wk_name w) (settings_t s);
         now = (\<lambda>f. in_range r (fleet_time f)) in
     \<lparr>dw_name = wk_name w, dw_ip = wk_ip w, dw_last_seen = wk_last_seen w, dw_online = False, dw_runtime = wk_runtime w,
      dw_control = map_option (\<lambda>c. c\<lparr>ctl_cpu_jobs := None, ctl_gpu_jobs := None, ctl_max_active_jobs := None\<rparr>)
        (map_of (controls_t s) (wk_name w)),
      dw_desired_max = map_option wr_max ws, dw_desired_cpu = (case ws of None \<Rightarrow> None | Some x \<Rightarrow> wr_cpu x),
      dw_desired_gpu = (case ws of None \<Rightarrow> None | Some x \<Rightarrow> wr_gpu x),
      dw_active = counted (\<lambda>f. fleet_state f = ''active'') mine,
      dw_completed = counted (\<lambda>f. fleet_state f = ''completed'' \<and> now f) mine,
      dw_failed = counted (\<lambda>f. fleet_state f = ''failed'' \<and> now f) mine,
      dw_source_bytes = summed (\<lambda>f. jr_source_size (fst f)) (\<lambda>f. measured f \<and> now f) mine,
      dw_target_bytes = summed (\<lambda>f. jr_target_size (fst f)) (\<lambda>f. measured f \<and> now f) mine\<rparr>)"

definition read_dashboard_workers :: "int \<Rightarrow> int \<times> int \<Rightarrow> sql_db \<Rightarrow> dash_worker list" where
  "read_dashboard_workers now r s = map (dash_worker_of r s)
     (sort_slice (\<lambda>v w. string_less (wk_name v) (wk_name w)) (filter (\<lambda>w. now - 30 * day \<le> wk_last_seen w) (workers_t s)))"

definition codec_of :: "fleet_row \<Rightarrow> string" where
  "codec_of f = (case jr_target_probe (fst f) of None \<Rightarrow> ''unknown''
     | Some p \<Rightarrow> (case find (\<lambda>x. codec_type x = ''video'') (streams p) of None \<Rightarrow> ''unknown'' | Some x \<Rightarrow> codec_name x))"

definition read_codecs :: "int \<times> int \<Rightarrow> sql_db \<Rightarrow> dash_codec list" where
  "read_codecs r s =
    (let rows = filter (\<lambda>f. measured f \<and> in_range r (fleet_time f)) (joined s)
     in take 12 (sort_slice (\<lambda>a b. dc_jobs b < dc_jobs a \<or> dc_jobs a = dc_jobs b \<and> string_less (dc_name a) (dc_name b))
          (map (\<lambda>c. \<lparr>dc_name = c, dc_jobs = counted (\<lambda>f. codec_of f = c) rows,
             dc_source_bytes = summed (\<lambda>f. jr_source_size (fst f)) (\<lambda>f. codec_of f = c) rows,
             dc_target_bytes = summed (\<lambda>f. jr_target_size (fst f)) (\<lambda>f. codec_of f = c) rows\<rparr>) (remdups (map codec_of rows)))))"

definition activity_order :: "task_event \<Rightarrow> task_event \<Rightarrow> bool" where
  "activity_order a b \<longleftrightarrow> event_time b < event_time a \<or> event_time a = event_time b \<and>
     (string_less (job_id a) (job_id b) \<or> job_id a = job_id b \<and> event_id b < event_id a)"

definition read_activity :: "int \<times> int \<Rightarrow> sql_db \<Rightarrow> dash_activity list" where
  "read_activity r s = map (\<lambda>e. \<lparr>da_job = job_id e,
       da_source_path = (case job_row_of s (job_id e) of None \<Rightarrow> [] | Some j \<Rightarrow> jr_source_path j),
       da_worker = worker_name e, da_phase = notification_type e, da_status = status e, da_message = message e, da_time = event_time e\<rparr>)
     (take 30 (sort_slice activity_order (filter (\<lambda>e. job_row_of s (job_id e) \<noteq> None \<and> in_range r (event_time e) \<and>
       (notification_type e = JobNotification \<or> status e = Failed)) (events_t s))))"

section \<open>The dashboard\<close>

definition compression :: "int \<Rightarrow> int \<Rightarrow> rat" where
  "compression source saved = (if 0 < source then 100 * rat_of_int saved / rat_of_int source else 0)"

definition worker_order :: "dash_worker \<Rightarrow> dash_worker \<Rightarrow> bool" where
  "worker_order a b \<longleftrightarrow>
    (if dw_online a \<noteq> dw_online b then dw_online a
     else if dw_active a \<noteq> dw_active b then dw_active b < dw_active a else string_less (dw_name a) (dw_name b))"

definition finalize :: "dashboard \<Rightarrow> dashboard" where
  "finalize d =
    (let p = db_period d; v = db_summary d;
         p = p\<lparr>su_saved_bytes := su_source_bytes p - su_target_bytes p,
           su_compression := compression (su_source_bytes p) (su_source_bytes p - su_target_bytes p),
           su_completed := su_completed_in_range v, su_failed := su_failed_in_range v, su_average_seconds := su_average_seconds v\<rparr>;
         v = v\<lparr>su_saved_bytes := su_source_bytes v - su_target_bytes v,
           su_compression := compression (su_source_bytes v) (su_source_bytes v - su_target_bytes v)\<rparr>
     in d\<lparr>db_period := p, db_summary := v, db_workers := sort_slice worker_order
          (map (\<lambda>w. w\<lparr>dw_online := db_generated d - dw_last_seen w \<le> 30 * second\<rparr>)
            (filter (\<lambda>w. db_generated d - 30 * day \<le> dw_last_seen w) (db_workers d)))\<rparr>)"

definition read_dashboard :: "int \<Rightarrow> int \<Rightarrow> int \<times> int \<Rightarrow> dashboard db_op" where
  "read_dashboard hours now r =
    bindP (statement (readP (read_summary r))) (\<lambda>(v, p).
    bindP (statement (readP (read_timeline r))) (\<lambda>timeline.
    bindP (statement (readP (read_dashboard_workers now r))) (\<lambda>workers.
    bindP (read_dashboard_jobs now \<lparr>jy_state = [], jy_search = [], jy_offset = 0, jy_limit = 100\<rparr>) (\<lambda>js.
    bindP (statement (readP (read_codecs r))) (\<lambda>codecs.
    bindP (statement (readP (read_activity r))) (\<lambda>recent.
      retP (finalize \<lparr>db_generated = now, db_hours = hours, db_range = r, db_period = p, db_summary = v, db_timeline = timeline,
        db_workers = workers, db_jobs = js, db_codecs = codecs, db_activity = recent\<rparr>)))))))"

definition get_dashboard :: "int \<Rightarrow> int \<Rightarrow> (int option \<times> int option) option \<Rightarrow> dashboard db_op" where
  "get_dashboard hours now given = (case resolve_range hours now given of
      None \<Rightarrow> failP DbFault
    | Some r \<Rightarrow> with_transaction (read_dashboard hours now r))"

end
