(* ===== verification/Dashboard_Claims.thy ===== *)
theory Dashboard_Claims
  imports Dashboard_Query Server_Claims
begin

text \<open>
  What the dashboard shows: each job counted once and in the state its last event gives it, a timeline that adds up to the
  totals of its range, pages that tile the list of jobs. Every read sees the tables as they are and changes none.
\<close>

section \<open>The fleet\<close>

lemma joined_log:
  assumes "db_inv s"
  shows "joined s = map (\<lambda>r. (r, last (job_log s (jr_id r)))) (filter (\<lambda>r. job_log s (jr_id r) \<noteq> []) (jobs_t s))"
proof -
  have l: "map_option sr_event (lookup_row status_key j (status_t s)) =
      (if job_log s j = [] then None else Some (last (job_log s j)))" for j
    using assms unfolding db_inv_def status_ok_def by blast
  have "(case lookup_row status_key j (status_t s) of None \<Rightarrow> [] | Some t \<Rightarrow> [(r, sr_event t)]) =
      (if job_log s j = [] then [] else [(r, last (job_log s j))])" for j and r :: job_row
    using l[of j] by (cases "lookup_row status_key j (status_t s)") (auto split: if_splits)
  moreover have "concat (map (\<lambda>r. if P r then [] else [(r, g r)]) rs) = map (\<lambda>r. (r, g r)) (filter (\<lambda>r. \<not> P r) rs)"
    for P and g :: "job_row \<Rightarrow> task_event" and rs by (induction rs) auto
  ultimately show ?thesis unfolding joined_def by simp
qed

lemma joined_faults [simp]: "joined (s\<lparr>faults := fs\<rparr>) = joined s"
  by (simp add: joined_def)

lemma matching_faults [simp]: "matching q (s\<lparr>faults := fs\<rparr>) = matching q s"
  by (simp add: matching_def)

lemma joined_distinct: "db_inv s \<Longrightarrow> distinct (map (\<lambda>f. jr_id (fst f)) (joined s))"
  by (simp add: joined_log comp_def distinct_map_filter db_inv_def)

lemma fleet_states: "fleet_state f \<in> {''queued'', ''active'', ''completed'', ''failed'', ''canceled''}"
  by (simp add: fleet_state_def media_state_of_def split: notification_status.splits)

lemma counted_simps [simp]:
  "counted P [] = 0" "counted P (x # xs) = (if P x then 1 else 0) + counted P xs"
  by (simp_all add: counted_def)

lemma states_add_up:
  "counted (\<lambda>f. fleet_state f = ''queued'') fs + counted (\<lambda>f. fleet_state f = ''active'') fs +
   counted (\<lambda>f. fleet_state f = ''completed'') fs + counted (\<lambda>f. fleet_state f = ''failed'') fs +
   counted (\<lambda>f. fleet_state f = ''canceled'') fs = int (length fs)"
proof (induction fs)
  case (Cons f fs)
  then show ?case using fleet_states[of f] by auto
qed simp

text \<open>The jobs in a state, by their logs.\<close>

definition jobs_in_state :: "string \<Rightarrow> sql_db \<Rightarrow> string set" where
  "jobs_in_state st s = {j \<in> jr_id ` set (jobs_t s). job_log s j \<noteq> [] \<and> media_state_of (last (job_log s j)) = st}"

lemma counted_state:
  assumes "db_inv s"
  shows "counted (\<lambda>f. fleet_state f = st) (joined s) = int (card (jobs_in_state st s))"
proof -
  let ?fs = "filter (\<lambda>f. fleet_state f = st) (joined s)"
  have "distinct (map (\<lambda>f. jr_id (fst f)) ?fs)" using joined_distinct[OF assms] by (rule distinct_map_filter)
  then have "card (set (map (\<lambda>f. jr_id (fst f)) ?fs)) = length ?fs" using distinct_card length_map by metis
  moreover have "set (map (\<lambda>f. jr_id (fst f)) ?fs) = jobs_in_state st s"
    unfolding joined_log[OF assms] jobs_in_state_def by (auto simp: fleet_state_def image_iff)
  ultimately show ?thesis by (simp add: counted_def)
qed

section \<open>The timeline\<close>

lemma bucket_times_set:
  assumes "0 < step" "t mod step = 0" "x mod step = 0" "t \<le> x" "x < stop"
  shows "x \<in> set (bucket_times step stop t)"
  using assms
proof (induction step stop t rule: bucket_times.induct)
  case (1 step stop t)
  show ?case
  proof (cases "x = t")
    case True
    with 1 show ?thesis by (subst bucket_times.simps) simp
  next
    case False
    obtain k m where km: "x = step * k" "t = step * m" using 1(3,4) by (auto simp: mod_eq_0_iff_dvd dvd_def)
    with 1 False have "m < k" by (simp add: mult_less_cancel_left_pos le_less)
    then have "step * (m + 1) \<le> step * k" using 1(2) by (intro mult_left_mono) auto
    then have "t + step \<le> x" using km by (simp add: algebra_simps)
    with 1 have "x \<in> set (bucket_times step stop (t + step))" by (intro 1(1)) auto
    with 1 show ?thesis by (subst bucket_times.simps) auto
  qed
qed

lemma bucket_times_above: "x \<in> set (bucket_times step stop t) \<Longrightarrow> t \<le> x"
proof (induction step stop t rule: bucket_times.induct)
  case (1 step stop t)
  from 1(2) have "0 < step \<and> t < stop" "x = t \<or> x \<in> set (bucket_times step stop (t + step))"
    by (subst (asm) bucket_times.simps, simp split: if_splits)+
  with 1(1) show ?case by auto
qed

lemma bucket_times_distinct: "distinct (bucket_times step stop t)"
proof (induction step stop t rule: bucket_times.induct)
  case (1 step stop t)
  show ?case
  proof (cases "0 < step \<and> t < stop")
    case True
    with 1 have "distinct (bucket_times step stop (t + step))" by blast
    with True show ?thesis using bucket_times_above[of t step stop "t + step"] by (subst bucket_times.simps) auto
  next
    case False
    then show ?thesis by (subst bucket_times.simps) auto
  qed
qed

lemma sum_list_absent: "y \<notin> set ts \<Longrightarrow> sum_list (map (\<lambda>t. if y = t then 1 else 0) ts) = (0 :: int)"
  by (induction ts) auto

text \<open>Counting by bucket counts everything once when every bucket is there once.\<close>

lemma count_by_bucket:
  assumes "distinct ts" "\<And>f. f \<in> set fs \<Longrightarrow> P f \<Longrightarrow> g f \<in> set ts"
  shows "sum_list (map (\<lambda>t. counted (\<lambda>f. P f \<and> g f = t) fs) ts) = counted P fs"
  using assms(2)
proof (induction fs)
  case Nil
  then show ?case by (induction ts) auto
next
  case (Cons f fs)
  have one: "sum_list (map (\<lambda>t. if P f \<and> g f = t then 1 else 0) ts) = (if P f then 1 else (0 :: int))"
    using assms(1) Cons(2)[of f] by (induction ts) (auto simp: sum_list_absent)
  have "sum_list (map (\<lambda>t. counted (\<lambda>f. P f \<and> g f = t) (f # fs)) ts) =
      sum_list (map (\<lambda>t. if P f \<and> g f = t then 1 else 0) ts) + sum_list (map (\<lambda>t. counted (\<lambda>f. P f \<and> g f = t) fs) ts)"
    by (induction ts) auto
  with one Cons show ?case by simp
qed

lemma range_step_pos: "0 < range_step r"
  by (simp add: range_step_def day_def second_def)

lemma counted_filter: "counted P (filter Q xs) = counted (\<lambda>x. P x \<and> Q x) xs"
  by (induction xs) auto

lemma counted_none: "filter Q xs = [] \<Longrightarrow> counted (\<lambda>x. P x \<and> Q x) xs = 0"
  by (induction xs) (auto split: if_splits)

lemma counted_cong: "(\<And>x. P x = Q x) \<Longrightarrow> counted P xs = counted Q xs"
  by (induction xs) auto

lemma fill_bucket_counts:
  "bu_completed (fill_bucket r s (empty_bucket t)) = counted (\<lambda>f. (fleet_state f = ''completed'' \<and> in_range r (fleet_time f)) \<and>
     fleet_time f - fleet_time f mod range_step r = t) (joined s)" (is ?done)
  "bu_failed (fill_bucket r s (empty_bucket t)) = counted (\<lambda>f. (fleet_state f = ''failed'' \<and> in_range r (fleet_time f)) \<and>
     fleet_time f - fleet_time f mod range_step r = t) (joined s)" (is ?gone)
proof -
  let ?Q = "\<lambda>f. in_range r (fleet_time f) \<and> fleet_state f \<in> {''completed'', ''failed''} \<and>
      fleet_time f - fleet_time f mod range_step r = t"
  have b: "bu_completed (fill_bucket r s (empty_bucket t)) = (if filter ?Q (joined s) = [] then 0
        else counted (\<lambda>f. fleet_state f = ''completed'') (filter ?Q (joined s)))"
    "bu_failed (fill_bucket r s (empty_bucket t)) = (if filter ?Q (joined s) = [] then 0
        else counted (\<lambda>f. fleet_state f = ''failed'') (filter ?Q (joined s)))"
    unfolding fill_bucket_def empty_bucket_def Let_def dash_bucket.select_convs by simp_all
  have "(if filter ?Q (joined s) = [] then 0 else counted (\<lambda>f. fleet_state f = st) (filter ?Q (joined s))) =
      counted (\<lambda>f. fleet_state f = st \<and> ?Q f) (joined s)" for st
    using counted_none[of ?Q "joined s" "\<lambda>f. fleet_state f = st"] unfolding counted_filter
    by (cases "filter ?Q (joined s) = []") (simp_all only: if_True if_False simp_thms)
  note b[unfolded this]
  then show ?done ?gone by (auto intro!: counted_cong)
qed

lemma bucket_of_range:
  assumes "in_range r x"
  shows "x - x mod range_step r \<in> set (bucket_times (range_step r) (snd r) (fst r - fst r mod range_step r))"
proof -
  let ?n = "range_step r"
  have n: "0 < ?n" by (rule range_step_pos)
  have "fst r div ?n \<le> x div ?n" using assms n by (intro zdiv_mono1) (auto simp: in_range_def)
  then have "?n * (fst r div ?n) \<le> ?n * (x div ?n)" using n by simp
  then have le: "fst r - fst r mod ?n \<le> x - x mod ?n" by (simp add: minus_mod_eq_mult_div)
  have "x - x mod ?n \<le> x" using n by simp
  with assms have lt: "x - x mod ?n < snd r" by (simp add: in_range_def)
  show ?thesis using n le lt by (intro bucket_times_set) (simp_all add: minus_mod_eq_mult_div)
qed

lemma timeline_adds_up:
  "sum_list (map bu_completed (read_timeline r s)) = counted (\<lambda>f. fleet_state f = ''completed'' \<and> in_range r (fleet_time f)) (joined s)"
  "sum_list (map bu_failed (read_timeline r s)) = counted (\<lambda>f. fleet_state f = ''failed'' \<and> in_range r (fleet_time f)) (joined s)"
  unfolding read_timeline_def map_map comp_def fill_bucket_counts
  by (rule count_by_bucket[OF bucket_times_distinct]; simp add: bucket_of_range)+

section \<open>Pages\<close>

lemma read_jobs_reads:
  assumes "read_dashboard_jobs now q s = (Inr js, t)"
  shows "(\<exists>fs. t = s\<lparr>faults := fs\<rparr>) \<and>
    map dj_id js = map (\<lambda>f. jr_id (fst f)) (take (nat (jy_limit q)) (drop (nat (jy_offset q)) (matching q s)))"
proof -
  let ?rows = "take (nat (jy_limit q)) (drop (nat (jy_offset q)) (matching q s))"
  have ids: "map dj_id (map dash_job_of fs) = map (\<lambda>f. jr_id (fst f)) fs" for fs
    by (simp add: dash_job_of_def comp_def)
  from assms obtain xs u where x: "statement (readP (\<lambda>s. map dash_job_of (take (nat (jy_limit q)) (drop (nat (jy_offset q))
        (matching q s))))) s = (Inr xs, u)"
    and y: "(if xs = [] then retP [] else statement (readP (\<lambda>s. map (\<lambda>j. j\<lparr>dj_progress := current_progress now s (dj_id j)\<rparr>) xs))) u
      = (Inr js, t)"
    unfolding read_dashboard_jobs_def by (rule bindP_InrE)
  from x obtain fs where u: "u = s\<lparr>faults := fs\<rparr>" "xs = map dash_job_of ?rows" by (rule statement_read) simp
  show ?thesis
  proof (cases "xs = []")
    case True
    with y u show ?thesis by (auto simp: retP_def)
  next
    case False
    with y have "statement (readP (\<lambda>s. map (\<lambda>j. j\<lparr>dj_progress := current_progress now s (dj_id j)\<rparr>) xs)) u = (Inr js, t)" by simp
    then obtain fs' where "t = u\<lparr>faults := fs'\<rparr>" "js = map (\<lambda>j. j\<lparr>dj_progress := current_progress now (u\<lparr>faults := fs'\<rparr>) (dj_id j)\<rparr>) xs"
      by (rule statement_read) simp
    with u ids[of ?rows] show ?thesis by (auto simp: comp_def)
  qed
qed

lemma job_page_reads:
  assumes "get_dashboard_jobs now q s = (Inr pg, t)"
  shows "t = s\<lparr>faults := faults t\<rparr> \<and> pg_total pg = int (length (matching q s)) \<and>
    map dj_id (pg_jobs pg) = map (\<lambda>f. jr_id (fst f)) (take (nat (jy_limit q)) (drop (nat (jy_offset q)) (matching q s)))"
proof -
  from assms obtain fs u fs' where r: "read_job_page now q (s\<lparr>faults := fs\<rparr>) = (Inr pg, u)" and t: "t = u\<lparr>faults := fs'\<rparr>"
    unfolding get_dashboard_jobs_def by (rule transaction_committed)
  from r obtain n v where n: "statement (readP (\<lambda>s. counted (matches_query q) (joined s))) (s\<lparr>faults := fs\<rparr>) = (Inr n, v)"
    and w: "bindP (read_dashboard_jobs now q) (\<lambda>js. retP \<lparr>pg_jobs = js, pg_total = n, pg_offset = jy_offset q, pg_limit = jy_limit q\<rparr>) v
      = (Inr pg, u)"
    unfolding read_job_page_def by (rule bindP_InrE)
  from n obtain gs where v: "v = s\<lparr>faults := gs\<rparr>" "n = counted (matches_query q) (joined s)" by (rule statement_read) simp
  from w obtain js where js: "read_dashboard_jobs now q v = (Inr js, u)" "pg_jobs pg = js" "pg_total pg = n"
    by (auto elim!: bindP_InrE simp: retP_def)
  have "pg_total pg = int (length (matching q s))" using js(3) v(2) by (simp add: counted_def matching_def)
  with read_jobs_reads[OF js(1)] js(2) v t show ?thesis by auto
qed

lemma pages_tile: "concat (map (\<lambda>k. take L (drop (k * L) xs)) [0..<n]) = take (n * L) xs"
proof (induction n)
  case (Suc n)
  then show ?case by (simp add: take_add add.commute[of L])
qed simp

text \<open>The tables of a database have no order: a query may find the rows in any. What decides the order of the pages is the
  ordering of the query alone, which no two jobs tie in.\<close>

lemma job_order_total: "jr_id (fst f) \<noteq> jr_id (fst g) \<Longrightarrow> job_order f g \<or> job_order g f"
  using string_less_linear[of "jr_id (fst f)" "jr_id (fst g)"] by (auto simp: job_order_def)

interpretation page_order: strict_weak job_order
proof
  show "job_order f g \<Longrightarrow> \<not> job_order g f" for f g
    by (auto simp: job_order_def dest: string_less_trans)
  show "\<not> job_order f g \<Longrightarrow> \<not> job_order g h \<Longrightarrow> \<not> job_order f h" for f g h
    using string_less_linear[of "jr_id (fst f)" "jr_id (fst g)"] string_less_linear[of "jr_id (fst g)" "jr_id (fst h)"]
    by (auto simp: job_order_def dest: string_less_trans)
qed

lemma sorted_unique:
  assumes "mset xs = mset ys" and "sorted_wrt R xs" and "sorted_wrt R ys"
    and "\<And>x y. x \<in> set xs \<Longrightarrow> y \<in> set xs \<Longrightarrow> R x y \<Longrightarrow> R y x \<Longrightarrow> x = y"
  shows "xs = ys"
  using assms
proof (induction xs arbitrary: ys)
  case (Cons x xs)
  then obtain y zs where ys: "ys = y # zs" by (cases ys) auto
  have "x \<in> set ys" "y \<in> set (x # xs)" using Cons(2) ys by (metis list.set_intros(1) mset_eq_setD)+
  with Cons(3,4) ys Cons(5)[of x y] have "x = y" by auto
  with Cons ys show ?case by simp
qed simp

definition reordered :: "sql_db \<Rightarrow> sql_db \<Rightarrow> bool" where
  "reordered s u \<longleftrightarrow> mset (jobs_t u) = mset (jobs_t s) \<and> mset (status_t u) = mset (status_t s)"

lemma lookup_reordered:
  assumes "distinct (map key xs)" and "mset ys = mset xs"
  shows "lookup_row key k ys = lookup_row key k xs"
proof -
  have d: "distinct (map key ys)" using assms by (metis mset_eq_imp_distinct_iff mset_map)
  have "lookup_row key k ys = Some r \<longleftrightarrow> lookup_row key k xs = Some r" for r
    using lookup_row_distinct[OF assms(1)] lookup_row_distinct[OF d] assms(2) lookup_row_Some
    by (metis mset_eq_setD)
  then show ?thesis by (metis option.exhaust)
qed

lemma mset_concat_map: "mset (concat (map g xs)) = sum_mset (image_mset (\<lambda>x. mset (g x)) (mset xs))"
  by (induction xs) auto

lemma matching_reordered:
  assumes "db_inv s" and "reordered s u"
  shows "matching q u = matching q s"
proof -
  have "lookup_row status_key k (status_t u) = lookup_row status_key k (status_t s)" for k
    using assms by (intro lookup_reordered) (auto simp: db_inv_def status_ok_def reordered_def)
  then have l: "lookup_row status_key k (status_t u) = lookup_row status_key k (status_t s)" for k .
  have "mset (joined u) = mset (joined s)"
    unfolding joined_def l mset_concat_map using assms(2) by (simp only: reordered_def)
  then have m: "mset (matching q s) = mset (matching q u)" by (simp add: matching_def)
  have d: "distinct (map (\<lambda>f. jr_id (fst f)) (matching q s))"
  proof -
    have "mset (map (\<lambda>f. jr_id (fst f)) (matching q s)) = mset (map (\<lambda>f. jr_id (fst f)) (filter (matches_query q) (joined s)))"
      by (simp add: matching_def)
    from mset_eq_imp_distinct_iff[OF this] show ?thesis using distinct_map_filter[OF joined_distinct[OF assms(1)]] by blast
  qed
  have "matching q s = matching q u"
  proof (rule sorted_unique[where R="\<lambda>x y. \<not> job_order y x", OF m])
    show "x = y" if "x \<in> set (matching q s)" "y \<in> set (matching q s)" "\<not> job_order y x" "\<not> job_order x y" for x y
      using that job_order_total[of x y] d by (fastforce simp: distinct_map dest: inj_onD)
  qed (simp_all only: matching_def page_order.sorted_sort_slice)
  then show ?thesis by simp
qed

text \<open>C16: The dashboard adds up. In the totals every job with a log is counted exactly once, in the state its last event
  gives it; the completed and failed jobs of the reported range are those of the timeline, bucket by bucket; and the read
  changes no table.\<close>

theorem dashboard_adds_up:
  assumes "get_dashboard hours now given s = (Inr d, t)" "db_inv s"
  shows "t = s\<lparr>faults := faults t\<rparr> \<and>
    su_total (db_summary d) = int (card {j \<in> jr_id ` set (jobs_t s). job_log s j \<noteq> []}) \<and>
    su_total (db_summary d) = su_queued (db_summary d) + su_active (db_summary d) + su_completed (db_summary d) +
      su_failed (db_summary d) + su_canceled (db_summary d) \<and>
    su_queued (db_summary d) = int (card (jobs_in_state ''queued'' s)) \<and>
    su_active (db_summary d) = int (card (jobs_in_state ''active'' s)) \<and>
    su_completed (db_summary d) = int (card (jobs_in_state ''completed'' s)) \<and>
    su_failed (db_summary d) = int (card (jobs_in_state ''failed'' s)) \<and>
    su_completed (db_period d) = sum_list (map bu_completed (db_timeline d)) \<and>
    su_failed (db_period d) = sum_list (map bu_failed (db_timeline d))"
proof -
  from assms(1) obtain r where r: "with_transaction (read_dashboard hours now r) s = (Inr d, t)"
    by (auto simp: get_dashboard_def failP_def split: option.splits)
  then obtain fs u fs' where m: "read_dashboard hours now r (s\<lparr>faults := fs\<rparr>) = (Inr d, u)" and t: "t = u\<lparr>faults := fs'\<rparr>"
    by (rule transaction_committed)
  from m obtain vp u1 tl u2 ws u3 js u4 cs u5 ac where
    1: "statement (readP (read_summary r)) (s\<lparr>faults := fs\<rparr>) = (Inr vp, u1)" and
    2: "statement (readP (read_timeline r)) u1 = (Inr tl, u2)" and
    3: "statement (readP (read_dashboard_workers now r)) u2 = (Inr ws, u3)" and
    4: "read_dashboard_jobs now \<lparr>jy_state = [], jy_search = [], jy_offset = 0, jy_limit = 100\<rparr> u3 = (Inr js, u4)" and
    5: "statement (readP (read_codecs r)) u4 = (Inr cs, u5)" and
    6: "statement (readP (read_activity r)) u5 = (Inr ac, u)" and
    d: "d = finalize \<lparr>db_generated = now, db_hours = hours, db_range = r, db_period = snd vp, db_summary = fst vp, db_timeline = tl,
        db_workers = ws, db_jobs = js, db_codecs = cs, db_activity = ac\<rparr>"
    unfolding read_dashboard_def by (auto elim!: bindP_InrE simp: retP_def)
  from 1 obtain g1 where u1: "u1 = s\<lparr>faults := g1\<rparr>" "vp = read_summary r (s\<lparr>faults := g1\<rparr>)" by (rule statement_read) simp
  from 2 obtain g2 where u2: "u2 = s\<lparr>faults := g2\<rparr>" "tl = read_timeline r (s\<lparr>faults := g2\<rparr>)"
    unfolding u1 by (rule statement_read) simp
  from 3 obtain g3 where u3: "u3 = s\<lparr>faults := g3\<rparr>" unfolding u2 by (rule statement_read) simp
  from read_jobs_reads[OF 4] u3 obtain g4 where u4: "u4 = s\<lparr>faults := g4\<rparr>" by auto
  from 5 obtain g5 where u5: "u5 = s\<lparr>faults := g5\<rparr>" unfolding u4 by (rule statement_read) simp
  from 6 obtain g6 where u6: "u = s\<lparr>faults := g6\<rparr>" unfolding u5 by (rule statement_read) simp
  have sum: "db_summary d = (fst vp)\<lparr>su_saved_bytes := su_saved_bytes (db_summary d), su_compression := su_compression (db_summary d)\<rparr>"
    "su_completed (db_period d) = su_completed_in_range (fst vp)" "su_failed (db_period d) = su_failed_in_range (fst vp)"
    "db_timeline d = tl"
    unfolding d finalize_def Let_def by simp_all
  have tl: "sum_list (map bu_completed tl) = counted (\<lambda>f. fleet_state f = ''completed'' \<and> in_range r (fleet_time f)) (joined s)"
    "sum_list (map bu_failed tl) = counted (\<lambda>f. fleet_state f = ''failed'' \<and> in_range r (fleet_time f)) (joined s)"
    unfolding u2 by (simp_all only: timeline_adds_up joined_faults)
  have v: "su_total (fst vp) = int (length (joined s))" "su_queued (fst vp) = counted (\<lambda>f. fleet_state f = ''queued'') (joined s)"
    "su_active (fst vp) = counted (\<lambda>f. fleet_state f = ''active'') (joined s)"
    "su_completed (fst vp) = counted (\<lambda>f. fleet_state f = ''completed'') (joined s)"
    "su_failed (fst vp) = counted (\<lambda>f. fleet_state f = ''failed'') (joined s)"
    "su_canceled (fst vp) = counted (\<lambda>f. fleet_state f = ''canceled'') (joined s)"
    "su_completed_in_range (fst vp) = counted (\<lambda>f. fleet_state f = ''completed'' \<and> in_range r (fleet_time f)) (joined s)"
    "su_failed_in_range (fst vp) = counted (\<lambda>f. fleet_state f = ''failed'' \<and> in_range r (fleet_time f)) (joined s)"
    unfolding u1 read_summary_def Let_def joined_faults by simp_all
  have keep: "su_total (db_summary d) = su_total (fst vp)" "su_queued (db_summary d) = su_queued (fst vp)"
    "su_active (db_summary d) = su_active (fst vp)" "su_completed (db_summary d) = su_completed (fst vp)"
    "su_failed (db_summary d) = su_failed (fst vp)" "su_canceled (db_summary d) = su_canceled (fst vp)"
    by (subst sum(1), simp)+
  have total: "int (length (joined s)) = int (card {j \<in> jr_id ` set (jobs_t s). job_log s j \<noteq> []})"
  proof -
    have "card (set (map (\<lambda>f. jr_id (fst f)) (joined s))) = length (joined s)"
      using distinct_card[OF joined_distinct[OF assms(2)]] by simp
    moreover have "set (map (\<lambda>f. jr_id (fst f)) (joined s)) = {j \<in> jr_id ` set (jobs_t s). job_log s j \<noteq> []}"
      unfolding joined_log[OF assms(2)] by (auto simp: image_iff)
    ultimately show ?thesis by simp
  qed
  show ?thesis using states_add_up[of "joined s"] total v keep sum tl t u6 counted_state[OF assms(2)] by simp
qed

text \<open>C17: Consecutive pages of the job list tile it, in whatever order each query finds the rows of the tables. Let each
  page be read from the same jobs and statuses, their rows in an order of its own: every page tells the number of matching
  jobs, the pages of one size put together are the beginning of one list that holds each matching job once, so that no
  job is shown twice or passed over; and reading them changes no table.\<close>

theorem dashboard_pages_tile:
  assumes "db_inv s" "0 \<le> limit"
    "\<And>k. k < n \<Longrightarrow> mset (jobs_t (u k)) = mset (jobs_t s) \<and> mset (status_t (u k)) = mset (status_t s)"
    "\<And>k. k < n \<Longrightarrow> get_dashboard_jobs now (q\<lparr>jy_offset := int k * limit, jy_limit := limit\<rparr>) (u k) = (Inr (pg k), t k)"
  shows "\<exists>ids. distinct ids \<and> set ids = {jr_id (fst f) |f. f \<in> set (joined s) \<and> matches_query q f} \<and>
    concat (map (\<lambda>k. map dj_id (pg_jobs (pg k))) [0..<n]) = take (n * nat limit) ids \<and>
    (\<forall>k<n. pg_total (pg k) = int (length ids) \<and> t k = (u k)\<lparr>faults := faults (t k)\<rparr>)"
proof (intro exI conjI)
  let ?ids = "map (\<lambda>f. jr_id (fst f)) (matching q s)"
  have "mset ?ids = mset (map (\<lambda>f. jr_id (fst f)) (filter (matches_query q) (joined s)))" by (simp add: matching_def)
  moreover have "distinct (map (\<lambda>f. jr_id (fst f)) (filter (matches_query q) (joined s)))"
    using joined_distinct[OF assms(1)] by (rule distinct_map_filter)
  ultimately show "distinct ?ids" by (metis mset_eq_imp_distinct_iff)
  show "set ?ids = {jr_id (fst f) |f. f \<in> set (joined s) \<and> matches_query q f}" by (force simp: matching_def)
  have same: "matching (q\<lparr>jy_offset := a, jy_limit := b\<rparr>) s = matching q s" for a b
  proof -
    have "matches_query (q\<lparr>jy_offset := a, jy_limit := b\<rparr>) = matches_query q" by (simp add: matches_query_def fun_eq_iff)
    then show ?thesis by (simp add: matching_def)
  qed
  have page: "map dj_id (pg_jobs (pg k)) = take (nat limit) (drop (k * nat limit) ?ids) \<and>
      pg_total (pg k) = int (length ?ids) \<and> t k = (u k)\<lparr>faults := faults (t k)\<rparr>" if "k < n" for k
  proof -
    have "matching (q\<lparr>jy_offset := int k * limit, jy_limit := limit\<rparr>) (u k) = matching q s"
      using matching_reordered[OF assms(1), of "u k"] assms(3)[OF that] by (simp add: reordered_def same)
    with job_page_reads[OF assms(4)[OF that]] assms(2) show ?thesis by (simp add: take_map drop_map nat_mult_distrib)
  qed
  have "map (\<lambda>k. map dj_id (pg_jobs (pg k))) [0..<n] = map (\<lambda>k. take (nat limit) (drop (k * nat limit) ?ids)) [0..<n]"
    using page by simp
  then show "concat (map (\<lambda>k. map dj_id (pg_jobs (pg k))) [0..<n]) = take (n * nat limit) ?ids" by (simp only: pages_tile)
  show "\<forall>k<n. pg_total (pg k) = int (length ?ids) \<and> t k = (u k)\<lparr>faults := faults (t k)\<rparr>" using page by blast
qed

section \<open>Examples\<close>

lemma dashboard_run:
  "map_sum (\<lambda>_. ()) (\<lambda>d. (su_total (db_summary d), su_queued (db_summary d), length (db_timeline d)))
     (fst (get_dashboard 24 50 None queued_db)) = Inr (1, 1, 25)"
  by code_simp

lemma dashboard_adds_up_witness:
  "\<exists>d t. get_dashboard 24 50 None queued_db = (Inr d, t) \<and> su_queued (db_summary d) = 1 \<and> card (jobs_in_state ''queued'' queued_db) = 1"
proof -
  from run_value[OF dashboard_run] obtain d t where
    r: "get_dashboard 24 50 None queued_db = (Inr d, t)" "su_queued (db_summary d) = 1" by (metis Pair_inject)
  from dashboard_adds_up[OF r(1) demo_states(1)] r show ?thesis by auto
qed

definition all_jobs :: jobs_query where
  "all_jobs = \<lparr>jy_state = [], jy_search = [], jy_offset = 0, jy_limit = 0\<rparr>"

text \<open>The same two jobs, the rows of the tables the other way round.\<close>

definition two_db_turned :: sql_db where
  "two_db_turned = two_db\<lparr>jobs_t := rev (jobs_t two_db), status_t := rev (status_t two_db)\<rparr>"

lemma page_run:
  "map_sum (\<lambda>_. ()) (\<lambda>p. (pg_total p, map dj_id (pg_jobs p)))
     (fst (get_dashboard_jobs 50 (all_jobs\<lparr>jy_offset := 0, jy_limit := 1\<rparr>) two_db)) = Inr (2, [''j2''])"
  "map_sum (\<lambda>_. ()) (\<lambda>p. (pg_total p, map dj_id (pg_jobs p)))
     (fst (get_dashboard_jobs 50 (all_jobs\<lparr>jy_offset := 1, jy_limit := 1\<rparr>) two_db_turned)) = Inr (2, [''j1''])"
  by code_simp+

lemma dashboard_pages_tile_witness:
  "\<exists>p0 t0 p1 t1 ids. get_dashboard_jobs 50 (all_jobs\<lparr>jy_offset := 0, jy_limit := 1\<rparr>) two_db = (Inr p0, t0) \<and>
     get_dashboard_jobs 50 (all_jobs\<lparr>jy_offset := 1, jy_limit := 1\<rparr>) two_db_turned = (Inr p1, t1) \<and>
     map dj_id (pg_jobs p0) @ map dj_id (pg_jobs p1) = take 2 ids \<and> distinct ids \<and> length ids = 2"
proof -
  from run_value[OF page_run(1)] run_value[OF page_run(2)] obtain p0 t0 p1 t1 where
    p: "get_dashboard_jobs 50 (all_jobs\<lparr>jy_offset := 0, jy_limit := 1\<rparr>) two_db = (Inr p0, t0)" "pg_total p0 = 2"
    "get_dashboard_jobs 50 (all_jobs\<lparr>jy_offset := 1, jy_limit := 1\<rparr>) two_db_turned = (Inr p1, t1)"
    by (metis Pair_inject)
  define pg t u where "pg = (\<lambda>k :: nat. if k = 0 then p0 else p1)" and "t = (\<lambda>k :: nat. if k = 0 then t0 else t1)"
    and "u = (\<lambda>k :: nat. if k = 0 then two_db else two_db_turned)"
  have k: "get_dashboard_jobs 50 (all_jobs\<lparr>jy_offset := int k * 1, jy_limit := 1\<rparr>) (u k) = (Inr (pg k), t k)"
    if "k < 2" for k
  proof -
    have "k = 0 \<or> k = 1" using that by auto
    with p show ?thesis by (auto simp: pg_def t_def u_def)
  qed
  have rows: "mset (jobs_t (u k)) = mset (jobs_t two_db) \<and> mset (status_t (u k)) = mset (status_t two_db)" for k
    by (simp add: u_def two_db_turned_def)
  from dashboard_pages_tile[of two_db 1 2 u 50 all_jobs pg t, OF two_db_inv _ rows k] obtain ids where
    ids: "distinct ids" "concat (map (\<lambda>k. map dj_id (pg_jobs (pg k))) [0..<2]) = take (2 * nat 1) ids"
      "pg_total (pg 0) = int (length ids)" by force
  have "[0..<2] = [0, 1 :: nat]" by (simp add: upt_rec)
  with ids p(2) have "map dj_id (pg_jobs p0) @ map dj_id (pg_jobs p1) = take 2 ids" "length ids = 2" by (simp_all add: pg_def)
  with p ids(1) show ?thesis by blast
qed

end
