(* ===== verification/Dashboard_Auth.thy ===== *)
theory Dashboard_Auth
  imports Go_Lib
begin

text \<open>
  The sessions of the dashboard API (\<open>server/web/dashboardAuth.go\<close>): the token, the sessions kept under the digest of
  their cookie, and the test against requests of other sites. SHA-256 and \<open>url.Parse\<close> are parameters; the clock counts
  whole seconds; a random value is given with the call that draws it.
\<close>

section \<open>Requests and answers\<close>

record web_url =
  wu_scheme :: string
  wu_host :: string
  wu_hostname :: string
  wu_port :: string
  wu_user :: bool
  wu_path :: string
  wu_query :: string
  wu_force_query :: bool
  wu_fragment :: string
  wu_opaque :: string

text \<open>A missing header is empty.\<close>

record dash_request =
  dq_method :: string
  dq_path :: string
  dq_authorization :: string
  dq_cookies :: "(string \<times> string) list"
  dq_marker :: string
  dq_site :: string
  dq_origin :: string
  dq_host :: string
  dq_tls :: bool

datatype same_site = Lax | Strict

record dash_cookie =
  ck_name :: string
  ck_value :: string
  ck_path :: string
  ck_http_only :: bool
  ck_secure :: bool
  ck_same_site :: same_site
  ck_expires :: int
  ck_max_age :: int

definition request_cookie :: "dash_request \<Rightarrow> string \<Rightarrow> string option" where
  "request_cookie q name = map_of (dq_cookies q) name"

text \<open>What a call meets: the configuration, the clock, the parser of URLs, SHA-256, the next random text.\<close>

record dash_env =
  de_token :: string
  de_domain :: string
  de_parse_url :: "string \<Rightarrow> web_url option"
  de_digest :: "string \<Rightarrow> string"
  de_now :: int
  de_random :: string

text \<open>The sessions: the digest of the cookie with the time at which it expires.\<close>

type_synonym sessions = "(string \<times> int) list"

definition drop_session :: "string \<Rightarrow> sessions \<Rightarrow> sessions" where
  "drop_session k ss = filter (\<lambda>(k', _). k' \<noteq> k) ss"

definition dashboard_cookie :: string where
  "dashboard_cookie = ''transcoderd_dashboard''"

definition session_lifetime :: int where
  "session_lifetime = 12 * 3600"

section \<open>The token and the sessions\<close>

definition dashboard_token :: "dash_env \<Rightarrow> string" where
  "dashboard_token env = (if de_token env = [] then ''encoding123'' else de_token env)"

definition valid_dashboard_token :: "dash_env \<Rightarrow> string \<Rightarrow> bool" where
  "valid_dashboard_token env token \<longleftrightarrow> token \<noteq> [] \<and> de_digest env token = de_digest env (dashboard_token env)"

definition dashboard_authenticated :: "dash_env \<Rightarrow> dash_request \<Rightarrow> sessions \<Rightarrow> bool \<times> sessions" where
  "dashboard_authenticated env q ss =
    (if dq_authorization q \<noteq> []
     then (has_prefix (dq_authorization q) ''Bearer '' \<and> valid_dashboard_token env (drop 7 (dq_authorization q)), ss)
     else (case request_cookie q dashboard_cookie of
         None \<Rightarrow> (False, ss)
       | Some v \<Rightarrow> if 128 < length v then (False, ss)
           else (case map_of ss (de_digest env v) of
               None \<Rightarrow> (False, drop_session (de_digest env v) ss)
             | Some expires \<Rightarrow> if de_now env < expires then (True, ss) else (False, drop_session (de_digest env v) ss))))"

definition dashboard_mutation_allowed :: "dash_env \<Rightarrow> dash_request \<Rightarrow> bool" where
  "dashboard_mutation_allowed env q \<longleftrightarrow>
    dq_marker q = ''1'' \<and> dq_site q \<noteq> ''cross-site'' \<and>
    (dq_origin q = [] \<or> (case de_parse_url env (dq_origin q) of
        None \<Rightarrow> False
      | Some u \<Rightarrow> wu_host u = dq_host q \<and>
          wu_scheme u = (if dq_tls q \<or> (case de_parse_url env (de_domain env) of None \<Rightarrow> False | Some c \<Rightarrow> wu_scheme c = ''https'')
            then ''https'' else ''http'') \<and>
          \<not> wu_user u \<and> wu_path u = [] \<and> wu_query u = [] \<and> wu_fragment u = []))"

definition dashboard_session_cookie :: "dash_env \<Rightarrow> dash_request \<Rightarrow> string \<Rightarrow> int \<Rightarrow> int \<Rightarrow> dash_cookie" where
  "dashboard_session_cookie env q v expires max_age = \<lparr>ck_name = dashboard_cookie, ck_value = v, ck_path = ''/dashboard/'',
     ck_http_only = True,
     ck_secure = (dq_tls q \<or> (case de_parse_url env (de_domain env) of None \<Rightarrow> False | Some c \<Rightarrow> wu_scheme c = ''https'')),
     ck_same_site = Strict, ck_expires = expires, ck_max_age = max_age\<rparr>"

text \<open>The handlers of the sessions: a status with the cookies it sets. A body that does not decode is \<open>None\<close>.\<close>

definition dashboard_login :: "dash_env \<Rightarrow> dash_request \<Rightarrow> string option \<Rightarrow> sessions \<Rightarrow> (int \<times> dash_cookie list) \<times> sessions" where
  "dashboard_login env q token ss =
    (if \<not> dashboard_mutation_allowed env q then ((403, []), ss)
     else (case token of
         None \<Rightarrow> ((400, []), ss)
       | Some tok \<Rightarrow> if \<not> valid_dashboard_token env tok then ((401, []), ss)
           else (let expires = de_now env + session_lifetime;
               live = filter (\<lambda>(_, expiry). \<not> expiry < de_now env) ss
             in if 1024 \<le> length live then ((503, []), live)
                else ((204, [dashboard_session_cookie env q (de_random env) expires session_lifetime]),
                  (de_digest env (de_random env), expires) # drop_session (de_digest env (de_random env)) live))))"

definition dashboard_logout :: "dash_env \<Rightarrow> dash_request \<Rightarrow> sessions \<Rightarrow> (int \<times> dash_cookie list) \<times> sessions" where
  "dashboard_logout env q ss =
    (if \<not> dashboard_mutation_allowed env q then ((403, []), ss)
     else ((204, [dashboard_session_cookie env q [] 1 (- 1)]),
       (case request_cookie q dashboard_cookie of None \<Rightarrow> ss | Some v \<Rightarrow> drop_session (de_digest env v) ss)))"

section \<open>What the sessions guarantee\<close>

text \<open>A session is live while its digest is kept with a time that has not come.\<close>

definition session_live :: "dash_env \<Rightarrow> string \<Rightarrow> sessions \<Rightarrow> bool" where
  "session_live env v ss \<longleftrightarrow> (\<exists>e. map_of ss (de_digest env v) = Some e \<and> de_now env < e)"

lemma map_of_drop_session: "map_of (drop_session k ss) k' = (if k' = k then None else map_of ss k')"
  by (induction ss) (auto simp: drop_session_def)

lemma length_drop_session: "length (drop_session k ss) \<le> length ss"
  by (simp add: drop_session_def)

lemma map_of_live:
  assumes "distinct (map fst ss)"
  shows "map_of (filter (\<lambda>(_, e). P e) ss) k = (case map_of ss k of None \<Rightarrow> None | Some e \<Rightarrow> if P e then Some e else None)"
  using assms
proof (induction ss)
  case (Cons x ss)
  then have "map_of ss (fst x) = None" by (simp add: map_of_eq_None_iff)
  with Cons show ?case by (cases x) (auto split: option.splits)
qed simp

lemma distinct_drop: "distinct (map fst ss) \<Longrightarrow> distinct (map fst (drop_session k ss)) \<and> k \<notin> fst ` set (drop_session k ss)"
  by (auto simp: drop_session_def distinct_map_filter)

lemma authenticated_by_cookie:
  assumes "dashboard_authenticated env q ss = (True, ss')" "dq_authorization q = []"
  shows "ss' = ss \<and> (\<exists>v. request_cookie q dashboard_cookie = Some v \<and> length v \<le> 128 \<and> session_live env v ss)"
  using assms by (auto simp: dashboard_authenticated_def session_live_def split: option.splits if_splits)

lemma authenticated_sessions:
  "snd (dashboard_authenticated env q ss) = ss \<or> (\<exists>k. snd (dashboard_authenticated env q ss) = drop_session k ss)"
  by (auto simp: dashboard_authenticated_def split: option.splits)

end
