(* ===== verification/Dashboard_Api.thy ===== *)
theory Dashboard_Api
  imports Dashboard_Query Dashboard_Auth Media_Operations
begin

text \<open>
  The HTTP interface of the server for the dashboard (\<open>server/web/dashboard.go\<close>, \<open>dashboardAuth.go\<close>, \<open>media.go\<close>): each
  handler with its checks, its status and what it answers, behind the test of the session. A body or a time is given
  decoded, \<open>None\<close> where it does not decode. The router is a library; the table of routes is read as it documents.
\<close>

section \<open>Calls and answers\<close>

text \<open>The parameters of a list of jobs and of a report as they are in the query: \<open>None\<close> where the parameter is missing.\<close>

record jobs_params =
  qp_state :: string
  qp_search :: string
  qp_offset :: "string option"
  qp_limit :: "string option"

record stats_params =
  sp_start :: "string option"
  sp_end :: "string option"
  sp_hours :: "string option"

datatype api_call =
    ApiLogin "string option"
  | ApiLogout
  | ApiSession
  | ApiJobs jobs_params
  | ApiStats stats_params
  | ApiControl string "(string \<times> string) option"
  | ApiSettings string "worker_settings option"
  | ApiRoots
  | ApiBrowse string string string
  | ApiInfo string
  | ApiFile string
  | ApiPreview string string
  | ApiAssets string
  | ApiScan "media_filters option"
  | ApiBatch "(string \<times> string list \<times> int) option"
  | ApiOperation string
  | ApiCancel string

datatype api_body =
    EmptyBody
  | JobsBody job_page
  | StatsBody dashboard
  | ControlBody worker_control
  | RootsBody "(string \<times> string \<times> bool \<times> bool) list"
  | BrowseBody int "media_file list"
  | FileBody media_file
  | ContentBody media_file string
  | PreviewBody string
  | AssetsBody "media_file list"
  | OperationBody media_operation

record api_reply =
  ar_status :: int
  ar_cookies :: "dash_cookie list"
  ar_body :: api_body

record dash_world =
  dw_sessions :: sessions
  dw_media :: media_world

text \<open>\<open>ap_clock\<close> is the clock in nanoseconds; \<open>ffprobe\<close> and the digest of a root are parameters, and so is what \<open>ffmpeg\<close> makes of
  a file from a second on: the bytes it writes and whether it ends well. \<open>ap_slot\<close> says that a stream slot gets free in time.\<close>

record api_env =
  ap_dash :: dash_env
  ap_config :: server_config
  ap_clock :: int
  ap_fresh :: uuid
  ap_parse_uuid :: "string \<Rightarrow> uuid option"
  ap_parse_time :: "string \<Rightarrow> int option"
  ap_library :: bool
  ap_ffprobe :: "string \<Rightarrow> raw_probe option"
  ap_root_digest :: "string \<Rightarrow> string"
  ap_ffmpeg :: "string \<Rightarrow> float64 \<Rightarrow> string \<times> bool"
  ap_slot :: bool

type_synonym api_handler = "dash_world \<Rightarrow> api_reply \<times> dash_world"

definition reply :: "int \<Rightarrow> api_body \<Rightarrow> api_handler" where
  "reply st b = (\<lambda>w. (\<lparr>ar_status = st, ar_cookies = [], ar_body = b\<rparr>, w))"

text \<open>An operation of the library, and of the database, answered with a code for its errors.\<close>

definition on_media :: "'a media_op \<Rightarrow> (media_error \<Rightarrow> int) \<Rightarrow> int \<Rightarrow> ('a \<Rightarrow> api_body) \<Rightarrow> api_handler" where
  "on_media m err_code ok_code body = (\<lambda>w. case m (dw_media w) of
      (Inl e, mw) \<Rightarrow> reply (err_code e) EmptyBody (w\<lparr>dw_media := mw\<rparr>)
    | (Inr x, mw) \<Rightarrow> reply ok_code (body x) (w\<lparr>dw_media := mw\<rparr>))"

definition on_database :: "'a db_op \<Rightarrow> (server_error \<Rightarrow> int) \<Rightarrow> int \<Rightarrow> ('a \<Rightarrow> api_body) \<Rightarrow> api_handler" where
  "on_database m err_code = on_media (on_server (on_db m)) (\<lambda>e. case e of MeServer x \<Rightarrow> err_code x | _ \<Rightarrow> 500)"

section \<open>Jobs, statistics, workers\<close>

definition count_param :: "int \<Rightarrow> int \<Rightarrow> int \<Rightarrow> string option \<Rightarrow> int option" where
  "count_param low high initial v = (case v of None \<Rightarrow> Some initial
     | Some x \<Rightarrow> (case atoi x of None \<Rightarrow> None | Some n \<Rightarrow> if n < low \<or> high < n then None else Some n))"

definition dashboard_jobs :: "api_env \<Rightarrow> jobs_params \<Rightarrow> api_handler" where
  "dashboard_jobs env p =
    (if qp_state p \<notin> {[], ''all'', ''active'', ''queued'', ''completed'', ''failed'', ''canceled''} then reply 400 EmptyBody
     else (case count_param 0 go_max_int 0 (qp_offset p) of
         None \<Rightarrow> reply 400 EmptyBody
       | Some offset \<Rightarrow> (case count_param 1 100 25 (qp_limit p) of
           None \<Rightarrow> reply 400 EmptyBody
         | Some limit \<Rightarrow> if 256 < length (trim_space (qp_search p)) then reply 400 EmptyBody
             else on_database (get_dashboard_jobs (ap_clock env)
                 \<lparr>jy_state = qp_state p, jy_search = trim_space (qp_search p), jy_offset = offset, jy_limit = limit\<rparr>)
               (\<lambda>_. 500) 200 JobsBody)))"

definition time_param :: "api_env \<Rightarrow> string option \<Rightarrow> int option" where
  "time_param env v = (case v of None \<Rightarrow> None | Some x \<Rightarrow> ap_parse_time env x)"

definition dashboard_stats :: "api_env \<Rightarrow> stats_params \<Rightarrow> api_handler" where
  "dashboard_stats env p =
    (let ranged = sp_start p \<noteq> None \<or> sp_end p \<noteq> None; start = time_param env (sp_start p); stop = time_param env (sp_end p);
         hours = (case sp_hours p of None \<Rightarrow> Some (if ranged then 0 else 168) | Some raw \<Rightarrow> if raw = [] then Some (if ranged then 0 else 168)
           else (case atoi raw of None \<Rightarrow> None | Some h \<Rightarrow> if h \<noteq> 24 \<and> h \<noteq> 168 \<and> h \<noteq> 720 then None else Some h))
     in if ranged \<and> (sp_hours p \<noteq> None \<or> start = None \<or> stop = None \<or> resolve_range 0 (ap_clock env) (Some (start, stop)) = None)
        then reply 400 EmptyBody
        else (case hours of
            None \<Rightarrow> reply 400 EmptyBody
          | Some h \<Rightarrow> on_database (get_dashboard h (ap_clock env) (if ranged then Some (start, stop) else None)) (\<lambda>_. 500) 200 StatsBody))"

definition bad_worker_name :: "string \<Rightarrow> bool" where
  "bad_worker_name name \<longleftrightarrow> name = [] \<or> 100 < length name \<or> list_ex (\<lambda>c. code c \<in> {0, 10, 13}) name"

definition dashboard_worker_settings :: "api_env \<Rightarrow> dash_request \<Rightarrow> string \<Rightarrow> worker_settings option \<Rightarrow> api_handler" where
  "dashboard_worker_settings env q worker body =
    (if \<not> dashboard_mutation_allowed (ap_dash env) q then reply 403 EmptyBody
     else if bad_worker_name (trim_space worker) then reply 400 EmptyBody
     else (case body of
         None \<Rightarrow> reply 400 EmptyBody
       | Some ws \<Rightarrow> (case validate_write ws of
           Inl _ \<Rightarrow> reply 400 EmptyBody
         | Inr _ \<Rightarrow> on_database (set_worker_settings_checked (trim_space worker) ws)
             (\<lambda>e. if e = ErrInvalidWorkerSettings then 400 else 500) 204 (\<lambda>_. EmptyBody))))"

definition dashboard_worker_control :: "api_env \<Rightarrow> dash_request \<Rightarrow> string \<Rightarrow> (string \<times> string) option \<Rightarrow> api_handler" where
  "dashboard_worker_control env q worker body =
    (if \<not> dashboard_mutation_allowed (ap_dash env) q then reply 403 EmptyBody
     else if bad_worker_name (trim_space worker) then reply 400 EmptyBody
     else (case body of
         None \<Rightarrow> reply 400 EmptyBody
       | Some (action, job) \<Rightarrow> on_database (control_worker (ap_parse_uuid env) (ap_clock env) (ap_fresh env) (trim_space worker) action [job])
           (\<lambda>e. if e = ErrWorkerControlUnavailable then 409 else if e = ErrInvalidWorkerSettings then 400 else 500) 202 ControlBody))"

section \<open>Media\<close>

text \<open>The roots of the library: the source, and the configured ones with a valid name and an absolute directory.\<close>

definition library_roots :: "server_config \<Rightarrow> (string \<times> string) list \<Rightarrow> (string \<times> string) list" where
  "library_roots cfg extra = (''source'', cfg_root cfg) #
     filter (\<lambda>(i, dir). i \<noteq> ''source'' \<and> valid_root_id i \<and> is_abs dir) extra"

fun media_code :: "media_error \<Rightarrow> int" where
  "media_code MeInvalidPath = 400"
| "media_code MeUnavailable = 503"
| "media_code MeBusy = 429"
| "media_code MeNotFound = 404"
| "media_code MePlayback = 409"
| "media_code MeChanged = 409"
| "media_code (MeServer InvalidPath) = 400"
| "media_code (MeServer FileNotExist) = 404"
| "media_code (MeServer ErrElementNotFound) = 404"
| "media_code (MeServer MediaChanged) = 409"
| "media_code _ = 500"

definition media_ready :: "api_env \<Rightarrow> api_handler \<Rightarrow> api_handler" where
  "media_ready env h = (if ap_library env then h else reply 503 EmptyBody)"

definition media_roots :: "(string \<times> string \<times> bool \<times> bool) list media_op" where
  "media_roots = (\<lambda>w. fold (\<lambda>(i, dir) (r, w). case open_root i w of (opened, w') \<Rightarrow>
       (map_sum id (\<lambda>rs. rs @ [(i, if i = ''source'' then ''Source'' else if i = ''encoded'' then ''Encoded files'' else i, i = ''source'',
          opened \<noteq> Inl MeUnavailable \<and> opened \<noteq> Inl MeInvalidPath)]) r, w')) (sort_slice root_order (mw_roots w)) (Inr [], w))"

definition media_info_shown :: "api_env \<Rightarrow> string \<Rightarrow> media_file media_op" where
  "media_info_shown env i = bindP (media_info (ap_ffprobe env) (ap_root_digest env) i) (\<lambda>f.
     bindP (annotate (ap_config env) no_filters [f]) (\<lambda>fs. retP (hd fs)))"

text \<open>The file itself; which part of it a request asks for is the library's.\<close>

definition media_content :: "string \<Rightarrow> (media_file \<times> string) media_op" where
  "media_content i = bindP (media_open i) (\<lambda>(n, f). bindP (on_server (on_fs (os_read n))) (\<lambda>bytes. retP (f, bytes)))"

text \<open>The preview: an error after the first byte is no longer answered.\<close>

definition media_preview :: "api_env \<Rightarrow> string \<Rightarrow> float64 \<Rightarrow> (string \<times> bool) media_op" where
  "media_preview env i start =
    (if is_nan_or_inf start \<or> float_less start (Fin 0) \<or> float_less (Fin (7 * 24 * 3600)) start then failP MeInvalidPath
     else bindP (media_open i) (\<lambda>(n, _).
       if \<not> ap_slot env then failP MeBusy
       else bindP (on_server (on_fs (os_read n))) (\<lambda>bytes. retP (ap_ffmpeg env bytes start))))"

definition media_preview_call :: "api_env \<Rightarrow> string \<Rightarrow> string \<Rightarrow> api_handler" where
  "media_preview_call env i raw =
    (case (if raw = [] then Some (Fin 0) else parse_float raw) of
       None \<Rightarrow> reply (media_code MeInvalidPath) EmptyBody
     | Some start \<Rightarrow> (\<lambda>w. case media_preview env i start (dw_media w) of
           (Inl e, mw) \<Rightarrow> reply (media_code e) EmptyBody (w\<lparr>dw_media := mw\<rparr>)
         | (Inr (bytes, fine), mw) \<Rightarrow> reply (if \<not> fine \<and> bytes = [] then 500 else 200) (PreviewBody bytes) (w\<lparr>dw_media := mw\<rparr>)))"

definition media_browse_call :: "api_env \<Rightarrow> string \<Rightarrow> string \<Rightarrow> string \<Rightarrow> api_handler" where
  "media_browse_call env rt p offset =
    (case (if offset = [] then Some 0 else atoi offset) of
       None \<Rightarrow> reply (media_code MeInvalidPath) EmptyBody
     | Some n \<Rightarrow> on_media (media_browse (ap_config env) (if rt = [] then ''source'' else rt) p n 100) media_code 200
         (\<lambda>(total, fs). BrowseBody total fs))"

definition media_start_scan :: "api_env \<Rightarrow> dash_request \<Rightarrow> media_filters option \<Rightarrow> api_handler" where
  "media_start_scan env q filters =
    (if \<not> dashboard_mutation_allowed (ap_dash env) q then reply 403 EmptyBody
     else (case filters of
         None \<Rightarrow> reply 400 EmptyBody
       | Some f \<Rightarrow> on_media (bindP (start_scan f) (\<lambda>(i, _). get_operation i))
           (\<lambda>e. if e \<in> {MeUnavailable, MeBusy, MeServer FileNotExist} then media_code e else 400) 202 OperationBody))"

definition media_start_batch :: "api_env \<Rightarrow> dash_request \<Rightarrow> (string \<times> string list \<times> int) option \<Rightarrow> api_handler" where
  "media_start_batch env q selection =
    (if \<not> dashboard_mutation_allowed (ap_dash env) q then reply 403 EmptyBody
     else (case selection of
         None \<Rightarrow> reply 400 EmptyBody
       | Some (preview, ids, target) \<Rightarrow> on_media (bindP (start_batch preview ids target) (\<lambda>(i, _, _). get_operation i))
           (\<lambda>e. if e \<in> {MeBusy, MeNotFound} then media_code e else 400) 202 OperationBody))"

definition media_cancel :: "api_env \<Rightarrow> dash_request \<Rightarrow> string \<Rightarrow> api_handler" where
  "media_cancel env q i =
    (if \<not> dashboard_mutation_allowed (ap_dash env) q then reply 403 EmptyBody
     else on_media (cancel_operation i) media_code 204 (\<lambda>_. EmptyBody))"

definition preset :: "string \<Rightarrow> string list \<Rightarrow> media_filters" where
  "preset text codecs = no_filters\<lparr>mf_root := ''source'', mf_path := dot, mf_recursive := True, mf_contains := text, mf_min_width := 1800,
     mf_min_bitrate := Fin 4, mf_exclude_codecs := codecs, mf_limit := 1000, mf_only_eligible := True\<rparr>"

definition presets :: "(string \<times> media_filters) list" where
  "presets = [(''movies'', preset ''Peliculas'' [''hevc'', ''h265'', ''av1'']), (''series'', preset ''Series'' [''hevc'', ''h265'']),
     (''all'', no_filters\<lparr>mf_root := ''source'', mf_path := dot, mf_recursive := True, mf_limit := 1000, mf_only_eligible := True\<rparr>)]"

section \<open>The interface\<close>

definition on_sessions :: "(sessions \<Rightarrow> (int \<times> dash_cookie list) \<times> sessions) \<Rightarrow> api_handler" where
  "on_sessions m = (\<lambda>w. case m (dw_sessions w) of
      ((st, cs), ss) \<Rightarrow> (\<lparr>ar_status = st, ar_cookies = cs, ar_body = EmptyBody\<rparr>, w\<lparr>dw_sessions := ss\<rparr>))"

definition protect_dashboard :: "api_env \<Rightarrow> dash_request \<Rightarrow> api_handler \<Rightarrow> api_handler" where
  "protect_dashboard env q h = (\<lambda>w. case dashboard_authenticated (ap_dash env) q (dw_sessions w) of
      (ok, ss) \<Rightarrow> (if ok then h else reply 401 EmptyBody) (w\<lparr>dw_sessions := ss\<rparr>))"

fun protected_call :: "api_env \<Rightarrow> dash_request \<Rightarrow> api_call \<Rightarrow> api_handler" where
  "protected_call env q (ApiLogin token) = on_sessions (dashboard_login (ap_dash env) q token)"
| "protected_call env q ApiLogout = on_sessions (dashboard_logout (ap_dash env) q)"
| "protected_call env q ApiSession = reply 204 EmptyBody"
| "protected_call env q (ApiJobs p) = dashboard_jobs env p"
| "protected_call env q (ApiStats p) = dashboard_stats env p"
| "protected_call env q (ApiControl worker body) = dashboard_worker_control env q worker body"
| "protected_call env q (ApiSettings worker body) = dashboard_worker_settings env q worker body"
| "protected_call env q ApiRoots = media_ready env (on_media media_roots media_code 200 RootsBody)"
| "protected_call env q (ApiBrowse rt p offset) = media_ready env (media_browse_call env rt p offset)"
| "protected_call env q (ApiInfo i) = media_ready env (on_media (media_info_shown env i) media_code 200 FileBody)"
| "protected_call env q (ApiFile i) = media_ready env (on_media (media_content i) media_code 200 (\<lambda>(f, bytes). ContentBody f bytes))"
| "protected_call env q (ApiPreview i start) = media_ready env (media_preview_call env i start)"
| "protected_call env q (ApiAssets j) = media_ready env (on_media (job_assets j) media_code 200 AssetsBody)"
| "protected_call env q (ApiScan filters) = media_ready env (media_start_scan env q filters)"
| "protected_call env q (ApiBatch selection) = media_ready env (media_start_batch env q selection)"
| "protected_call env q (ApiOperation i) = media_ready env (on_media (get_operation i) media_code 200 OperationBody)"
| "protected_call env q (ApiCancel i) = media_ready env (media_cancel env q i)"

text \<open>The login is the one call without a session.\<close>

definition api_handle :: "api_env \<Rightarrow> dash_request \<Rightarrow> api_call \<Rightarrow> api_handler" where
  "api_handle env q call = (case call of ApiLogin _ \<Rightarrow> protected_call env q call | _ \<Rightarrow> protect_dashboard env q (protected_call env q call))"

text \<open>The table of routes; an element of a path in braces is one not empty element. What a handler decodes from the query
  or the body is given with the call.\<close>

record api_input =
  in_token :: "string option"
  in_jobs :: jobs_params
  in_stats :: stats_params
  in_control :: "(string \<times> string) option"
  in_settings :: "worker_settings option"
  in_browse :: "string \<times> string \<times> string"
  in_start :: string
  in_filters :: "media_filters option"
  in_batch :: "(string \<times> string list \<times> int) option"

definition media_object :: "string \<Rightarrow> string \<Rightarrow> string \<Rightarrow> api_input \<Rightarrow> api_call option" where
  "media_object method kind i input = (if i = [] then None else map_of
    [((''GET'', ''info''), ApiInfo i), ((''GET'', ''file''), ApiFile i), ((''HEAD'', ''file''), ApiFile i),
     ((''GET'', ''preview''), ApiPreview i (in_start input)), ((''GET'', ''jobs''), ApiAssets i),
     ((''GET'', ''operations''), ApiOperation i), ((''DELETE'', ''operations''), ApiCancel i)] (method, kind))"

definition worker_object :: "string \<Rightarrow> string \<Rightarrow> string \<Rightarrow> api_input \<Rightarrow> api_call option" where
  "worker_object method name what input = (if name = [] then None else map_of
    [((''POST'', ''control''), ApiControl name (in_control input)), ((''PUT'', ''settings''), ApiSettings name (in_settings input))]
    (method, what))"

definition plain_route :: "string \<Rightarrow> string list \<Rightarrow> api_input \<Rightarrow> api_call option" where
  "plain_route method parts input = map_of
    [((''POST'', [''login'']), ApiLogin (in_token input)), ((''POST'', [''logout'']), ApiLogout), ((''GET'', [''session'']), ApiSession),
     ((''GET'', [''jobs'']), ApiJobs (in_jobs input)), ((''GET'', [''stats'']), ApiStats (in_stats input)),
     ((''GET'', [''media'', ''roots'']), ApiRoots),
     ((''GET'', [''media'', ''browse'']), (case in_browse input of (rt, p, offset) \<Rightarrow> ApiBrowse rt p offset)),
     ((''POST'', [''media'', ''scans'']), ApiScan (in_filters input)), ((''POST'', [''media'', ''batches'']), ApiBatch (in_batch input))]
    (method, parts)"

definition object_route :: "string \<Rightarrow> string list \<Rightarrow> api_input \<Rightarrow> api_call option" where
  "object_route method parts input = (case parts of
      [area, a, b] \<Rightarrow> if area = ''media'' then media_object method a b input
        else if area = ''workers'' then worker_object method a b input else None
    | _ \<Rightarrow> None)"

definition api_route :: "string \<Rightarrow> string \<Rightarrow> api_input \<Rightarrow> api_call option" where
  "api_route method path input = (case split_on sep path of
      a # b # c # parts \<Rightarrow> if a = [] \<and> b = ''dashboard'' \<and> c = ''api''
        then (case plain_route method parts input of Some r \<Rightarrow> Some r | None \<Rightarrow> object_route method parts input) else None
    | _ \<Rightarrow> None)"

text \<open>A request to the API.\<close>

definition api_serve :: "api_env \<Rightarrow> dash_request \<Rightarrow> api_input \<Rightarrow> api_handler" where
  "api_serve env q input = (case api_route (dq_method q) (dq_path q) input of
      None \<Rightarrow> reply 404 EmptyBody | Some c \<Rightarrow> api_handle env q c)"

end
