(* ===== verification/Frontend.thy ===== *)
theory Frontend
  imports Dashboard_Api
begin

text \<open>
  The web frontend (\<open>frontend/web/server.go\<close>, \<open>oidc.go\<close>): which calls it passes on to the API and with which credentials,
  the pages, and the sign-in through an OpenID provider. It keeps no state of its own: what it knows of a browser is in
  cookies it seals. AES-GCM, the JSON of the sealed payload, \<open>url.Parse\<close> and the OpenID libraries (discovery, the exchange
  of a code, the verification of an identity token) are parameters; the clock counts whole seconds; random values are
  given with the call. A value the runtime draws is never refused, so the errors of sealing are left out.
\<close>

section \<open>Configuration\<close>

record oidc_auth =
  oa_binding :: string
  oa_client :: string
  oa_api_token :: string
  oa_groups :: "string list"

record display_identity =
  di_name :: string
  di_username :: string
  di_email :: string
  di_subject :: string

record auth_payload =
  pl_identity :: "display_identity option"
  pl_expires :: int
  pl_session :: string
  pl_state :: string
  pl_nonce :: string
  pl_pkce :: string

text \<open>A verified identity token; a group of claims is \<open>None\<close> where it does not decode.\<close>

record id_token =
  it_subject :: string
  it_issued_at :: int
  it_nonce :: string
  it_audience :: "string list"
  it_party :: "string option"
  it_groups :: "string list option"
  it_names :: "(string \<times> string \<times> string) option"

record front_env =
  fe_api :: api_env
  fe_api_host :: string
  fe_api_tls :: bool
  fe_reaches :: bool
  fe_public :: "web_url option"
  fe_oidc :: "oidc_auth option"
  fe_parse_url :: "string \<Rightarrow> web_url option"
  fe_host_parts :: "string \<Rightarrow> string \<times> string"
  fe_seal :: "string \<Rightarrow> string \<Rightarrow> string \<Rightarrow> string"
  fe_open :: "string \<Rightarrow> string \<Rightarrow> string \<Rightarrow> string option"
  fe_marshal :: "auth_payload \<Rightarrow> string"
  fe_unmarshal :: "string \<Rightarrow> auth_payload option"
  fe_exchange :: "string \<Rightarrow> string \<Rightarrow> string option"
  fe_verify :: "string \<Rightarrow> id_token option"
  fe_auth_url :: "string \<Rightarrow> string \<Rightarrow> string \<Rightarrow> string"
  fe_now :: int
  fe_state :: string
  fe_nonce :: string
  fe_pkce :: string
  fe_iv :: string

definition parse_origin :: "(string \<Rightarrow> web_url option) \<Rightarrow> string \<Rightarrow> web_url option" where
  "parse_origin parse raw = (case parse raw of
      None \<Rightarrow> None
    | Some u \<Rightarrow> if (wu_scheme u \<noteq> ''http'' \<and> wu_scheme u \<noteq> ''https'') \<or> wu_hostname u = [] \<or> wu_user u \<or>
         (wu_path u \<noteq> [] \<and> wu_path u \<noteq> [sep]) \<or> wu_query u \<noteq> [] \<or> wu_force_query u \<or> CHR ''#'' \<in> set raw \<or> wu_opaque u \<noteq> []
        then None else Some (u\<lparr>wu_path := []\<rparr>))"

definition secure_oidc_url :: "(string \<Rightarrow> web_url option) \<Rightarrow> (string \<Rightarrow> bool) \<Rightarrow> string \<Rightarrow> bool" where
  "secure_oidc_url parse loopback raw = (case parse raw of
      None \<Rightarrow> False
    | Some u \<Rightarrow> \<not> (wu_hostname u = [] \<or> wu_user u \<or> wu_query u \<noteq> [] \<or> wu_force_query u \<or> CHR ''#'' \<in> set raw \<or> wu_opaque u \<noteq> []) \<and>
        (wu_scheme u = ''https'' \<or> wu_scheme u = ''http'' \<and> (wu_hostname u = ''localhost'' \<or> loopback (wu_hostname u))))"

text \<open>What single sign-on needs before the server starts: \<open>None\<close> for an error, \<open>Some None\<close> for the mode without it. The key, the
  text of the public URL and what discovery found (authorization, token and key endpoints) are given.\<close>

record auth_config =
  ac_mode :: string
  ac_session_key :: string
  ac_issuer :: string
  ac_client :: string
  ac_secret :: string
  ac_groups :: "string list"

definition rune_count :: "string \<Rightarrow> nat" where
  "rune_count s = length (filter (\<lambda>c. \<not> continuation c) s)"

definition configure_auth :: "(string \<Rightarrow> web_url option) \<Rightarrow> (string \<Rightarrow> bool) \<Rightarrow> (string \<Rightarrow> string option) \<Rightarrow>
    (string \<Rightarrow> (string \<times> string \<times> string) option) \<Rightarrow> string option \<Rightarrow> string \<Rightarrow> auth_config \<Rightarrow> oidc_auth option option" where
  "configure_auth parse loopback decode_key find_provider public token cfg =
    (if ac_mode cfg = [] \<or> ac_mode cfg = ''token'' then Some None
     else if ac_mode cfg \<noteq> ''oidc'' then None
     else (case public of
         None \<Rightarrow> None
       | Some url \<Rightarrow>
           if \<not> secure_oidc_url parse loopback url \<or> rune_count token < 32 \<or> trim_space token \<noteq> token \<or>
              map_option length (decode_key (ac_session_key cfg)) \<noteq> Some 32 \<or>
              \<not> secure_oidc_url parse loopback (ac_issuer cfg) \<or> trim_space (ac_client cfg) = [] \<or> trim_space (ac_secret cfg) = []
           then None
           else (case find_provider (ac_issuer cfg) of
               None \<Rightarrow> None
             | Some (auth, tok, keys) \<Rightarrow>
                 if secure_oidc_url parse loopback keys \<and> secure_oidc_url parse loopback auth \<and> secure_oidc_url parse loopback tok
                 then Some (Some \<lparr>oa_binding = url @ [CHR 0x00] @ ac_issuer cfg @ [CHR 0x00] @ ac_client cfg, oa_client = ac_client cfg,
                     oa_api_token = token, oa_groups = ac_groups cfg\<rparr>)
                 else None)))"

section \<open>Sealed cookies\<close>

definition session_cookie :: string where
  "session_cookie = ''transcoderd_dashboard''"

definition frontend_cookie :: string where
  "frontend_cookie = ''transcoderd_frontend''"

definition login_cookie :: string where
  "login_cookie = ''transcoderd_oidc_login''"

definition sealed_for :: "oidc_auth \<Rightarrow> string \<Rightarrow> string" where
  "sealed_for oa purpose = purpose @ [CHR 0x00] @ oa_binding oa"

definition oidc_encode :: "front_env \<Rightarrow> oidc_auth \<Rightarrow> string \<Rightarrow> auth_payload \<Rightarrow> string" where
  "oidc_encode env oa purpose p = b64_encode (fe_iv env @ fe_seal env (fe_iv env) (fe_marshal env p) (sealed_for oa purpose))"

definition unseal :: "front_env \<Rightarrow> oidc_auth \<Rightarrow> string \<Rightarrow> string \<Rightarrow> auth_payload option" where
  "unseal env oa purpose raw =
    (if length raw < 12 then None
     else (case fe_open env (take 12 raw) (drop 12 raw) (sealed_for oa purpose) of
         None \<Rightarrow> None | Some plain \<Rightarrow> fe_unmarshal env plain))"

definition oidc_decode :: "front_env \<Rightarrow> oidc_auth \<Rightarrow> dash_request \<Rightarrow> string \<Rightarrow> auth_payload option" where
  "oidc_decode env oa q name = (case request_cookie q name of
      None \<Rightarrow> None
    | Some v \<Rightarrow> if 4096 < length v then None
        else (case b64_decode v of
            None \<Rightarrow> None
          | Some raw \<Rightarrow> (case unseal env oa name raw of
              None \<Rightarrow> None | Some p \<Rightarrow> if pl_expires p \<le> fe_now env then None else Some p)))"

definition oidc_session :: "front_env \<Rightarrow> oidc_auth \<Rightarrow> dash_request \<Rightarrow> auth_payload option" where
  "oidc_session env oa q = (case oidc_decode env oa q frontend_cookie of
      None \<Rightarrow> None | Some p \<Rightarrow> if pl_session p = [] \<or> 128 < length (pl_session p) then None else Some p)"

section \<open>The proxy\<close>

definition secure_request :: "front_env \<Rightarrow> dash_request \<Rightarrow> bool" where
  "secure_request env q \<longleftrightarrow> (case fe_public env of None \<Rightarrow> False | Some u \<Rightarrow> wu_scheme u = ''https'') \<or> dq_tls q"

definition auth_cookie :: "front_env \<Rightarrow> dash_request \<Rightarrow> string \<Rightarrow> string \<Rightarrow> int \<Rightarrow> int \<Rightarrow> dash_cookie" where
  "auth_cookie env q name v expires max_age = \<lparr>ck_name = name, ck_value = v, ck_path = ''/dashboard/'', ck_http_only = True,
     ck_secure = secure_request env q, ck_same_site = Lax, ck_expires = expires, ck_max_age = max_age\<rparr>"

text \<open>The request as it leaves for the API: the headers that are passed on, and the credentials.\<close>

definition copy_credentials :: "front_env \<Rightarrow> dash_request \<Rightarrow> dash_request \<Rightarrow> dash_request" where
  "copy_credentials env q out = (case fe_oidc env of
      None \<Rightarrow> out\<lparr>dq_cookies := (case request_cookie q session_cookie of None \<Rightarrow> [] | Some v \<Rightarrow> [(session_cookie, v)]),
        dq_authorization := dq_authorization q\<rparr>
    | Some oa \<Rightarrow> out\<lparr>dq_authorization := [],
        dq_cookies := (case oidc_session env oa q of None \<Rightarrow> [] | Some p \<Rightarrow> [(session_cookie, pl_session p)])\<rparr>)"

definition outgoing :: "front_env \<Rightarrow> dash_request \<Rightarrow> dash_request" where
  "outgoing env q = copy_credentials env q \<lparr>dq_method = dq_method q, dq_path = dq_path q, dq_authorization = dq_authorization q,
     dq_cookies = [], dq_marker = dq_marker q, dq_site = [], dq_origin = [], dq_host = fe_api_host env, dq_tls = fe_api_tls env\<rparr>"

definition origin_port :: "web_url \<Rightarrow> string" where
  "origin_port u = (if wu_port u \<noteq> [] then wu_port u else if wu_scheme u = ''https'' then ''443'' else ''80'')"

definition wanted_origin :: "front_env \<Rightarrow> dash_request \<Rightarrow> web_url" where
  "wanted_origin env q = (case fe_public env of
      Some u \<Rightarrow> u
    | None \<Rightarrow> \<lparr>wu_scheme = (if dq_tls q then ''https'' else ''http''), wu_host = dq_host q, wu_hostname = fst (fe_host_parts env (dq_host q)),
        wu_port = snd (fe_host_parts env (dq_host q)), wu_user = False, wu_path = [], wu_query = [], wu_force_query = False,
        wu_fragment = [], wu_opaque = []\<rparr>)"

definition mutation_allowed :: "front_env \<Rightarrow> dash_request \<Rightarrow> bool" where
  "mutation_allowed env q \<longleftrightarrow> dq_marker q = ''1'' \<and> dq_site q \<noteq> ''cross-site'' \<and>
    (dq_origin q = [] \<or> (case parse_origin (fe_parse_url env) (dq_origin q) of
        None \<Rightarrow> False
      | Some u \<Rightarrow> wu_scheme u = wu_scheme (wanted_origin env q) \<and> to_lower (wu_hostname u) = to_lower (wu_hostname (wanted_origin env q)) \<and>
          origin_port u = origin_port (wanted_origin env q)))"

text \<open>The patterns of the paths, as the elements between their slashes.\<close>

definition worker_path :: "string \<Rightarrow> string \<Rightarrow> bool" where
  "worker_path what p \<longleftrightarrow> (case split_on sep p of
      [a, b, c, d, name, e] \<Rightarrow> a = [] \<and> b = ''dashboard'' \<and> c = ''api'' \<and> d = ''workers'' \<and> name \<noteq> [] \<and> e = what | _ \<Rightarrow> False)"

definition media_object_path :: "string list \<Rightarrow> string \<Rightarrow> bool" where
  "media_object_path kinds p \<longleftrightarrow> (case split_on sep p of
      [a, b, c, d, kind, i] \<Rightarrow> a = [] \<and> b = ''dashboard'' \<and> c = ''api'' \<and> d = ''media'' \<and> kind \<in> set kinds \<and> i \<noteq> [] | _ \<Rightarrow> False)"

definition api_path :: "string \<Rightarrow> string" where
  "api_path name = ''/dashboard/api/'' @ name"

definition allowed_api :: "string \<Rightarrow> string \<Rightarrow> bool" where
  "allowed_api method p =
    (if clean_path p \<noteq> p \<or> list_ex (\<lambda>c. code c \<in> {0, 10, 13}) p then False
     else if method = ''GET'' then
       p \<in> {api_path ''session'', api_path ''jobs'', api_path ''stats'', api_path ''media/roots'', api_path ''media/browse''} \<or>
       media_object_path [''info'', ''file'', ''preview'', ''jobs'', ''operations''] p
     else if method = ''HEAD'' then media_object_path [''file''] p
     else if method = ''POST'' then worker_path ''control'' p \<or>
       p \<in> {api_path ''login'', api_path ''logout'', api_path ''media/scans'', api_path ''media/batches''}
     else if method = ''PUT'' then worker_path ''settings'' p
     else if method = ''DELETE'' then media_object_path [''operations''] p
     else False)"

section \<open>Answers\<close>

datatype front_body = NoPage | Page string | IdentityOf string "display_identity option" | FromApi api_body

record front_reply =
  fr_status :: int
  fr_location :: string
  fr_cookies :: "dash_cookie list"
  fr_body :: front_body

type_synonym front_handler = "dash_world \<Rightarrow> front_reply \<times> dash_world"

definition answered :: "int \<Rightarrow> dash_cookie list \<Rightarrow> front_body \<Rightarrow> front_handler" where
  "answered st cs b = (\<lambda>w. (\<lparr>fr_status = st, fr_location = [], fr_cookies = cs, fr_body = b\<rparr>, w))"

definition redirected :: "string \<Rightarrow> dash_cookie list \<Rightarrow> front_handler" where
  "redirected loc cs = (\<lambda>w. (\<lparr>fr_status = 303, fr_location = loc, fr_cookies = cs, fr_body = NoPage\<rparr>, w))"

text \<open>The answer of the API on its way back.\<close>

definition modify_response :: "front_env \<Rightarrow> dash_request \<Rightarrow> api_reply \<Rightarrow> front_reply" where
  "modify_response env q r =
    (if 300 \<le> ar_status r \<and> ar_status r < 400 \<and> ar_status r \<noteq> 304
     then \<lparr>fr_status = 502, fr_location = [], fr_cookies = [], fr_body = NoPage\<rparr>
     else \<lparr>fr_status = ar_status r, fr_location = [],
       fr_cookies = (case fe_oidc env of
           Some _ \<Rightarrow> if dq_path q = api_path ''logout'' \<and> ar_status r = 204 then [auth_cookie env q frontend_cookie [] 1 (- 1)] else []
         | None \<Rightarrow> map (\<lambda>c. c\<lparr>ck_path := ''/dashboard/'', ck_http_only := True, ck_same_site := Strict,
             ck_secure := ck_secure c \<or> secure_request env q\<rparr>) (filter (\<lambda>c. ck_name c = session_cookie) (ar_cookies r))),
       fr_body = FromApi (ar_body r)\<rparr>)"

definition proxy :: "front_env \<Rightarrow> dash_request \<Rightarrow> api_input \<Rightarrow> front_handler" where
  "proxy env q input = (\<lambda>w. if \<not> fe_reaches env then answered 502 [] NoPage w
     else (case api_serve (fe_api env) (outgoing env q) input w of (r, w') \<Rightarrow> (modify_response env q r, w')))"

definition reading :: "string \<Rightarrow> bool" where
  "reading method \<longleftrightarrow> method = ''GET'' \<or> method = ''HEAD''"

definition serve_api :: "front_env \<Rightarrow> dash_request \<Rightarrow> api_input \<Rightarrow> front_handler" where
  "serve_api env q input =
    (if \<not> allowed_api (dq_method q) (dq_path q) then answered 404 [] NoPage
     else if \<not> reading (dq_method q) \<and> \<not> mutation_allowed env q then answered 403 [] NoPage
     else (case fe_oidc env of
         None \<Rightarrow> proxy env q input
       | Some oa \<Rightarrow> if dq_path q = api_path ''login'' then answered 403 [] NoPage
           else if oidc_session env oa q = None then answered 401 [] NoPage else proxy env q input))"

section \<open>Pages\<close>

text \<open>Whether the API knows the session of a browser: 204, 401 or, when it cannot tell, 503.\<close>

definition session_status :: "front_env \<Rightarrow> dash_request \<Rightarrow> dash_world \<Rightarrow> int \<times> dash_world" where
  "session_status env q = (\<lambda>w.
     if (case fe_oidc env of None \<Rightarrow> False | Some oa \<Rightarrow> oidc_session env oa q = None) then (401, w)
     else if \<not> fe_reaches env then (503, w)
     else (case api_handle (fe_api env) (copy_credentials env q \<lparr>dq_method = ''GET'', dq_path = api_path ''session'', dq_authorization = [],
         dq_cookies = [], dq_marker = [], dq_site = [], dq_origin = [], dq_host = fe_api_host env, dq_tls = fe_api_tls env\<rparr>) ApiSession w of
       (r, w') \<Rightarrow> (if ar_status r = 204 \<or> ar_status r = 401 then ar_status r else 503, w')))"

definition serve_dashboard :: "front_env \<Rightarrow> dash_request \<Rightarrow> front_handler" where
  "serve_dashboard env q = (\<lambda>w. case session_status env q w of (st, w') \<Rightarrow>
     (if st = 204 then answered 200 [] (Page ''index.html'')
      else if st = 401 then redirected ''/dashboard/login'' [] else answered 503 [] NoPage) w')"

definition serve_login :: "front_env \<Rightarrow> dash_request \<Rightarrow> front_handler" where
  "serve_login env q = (\<lambda>w. case session_status env q w of (st, w') \<Rightarrow>
     (if st = 204 then redirected ''/dashboard/'' []
      else answered 200 [] (Page (if fe_oidc env = None then ''login.html'' else ''login-oidc.html''))) w')"

text \<open>Who is signed in, as the sealed cookie tells; without any name the subject stands for it.\<close>

definition shown_identity :: "display_identity \<Rightarrow> display_identity" where
  "shown_identity d = (if di_name d = [] \<and> di_username d = [] \<and> di_email d = [] then d\<lparr>di_username := di_subject d\<rparr> else d)\<lparr>di_subject := []\<rparr>"

definition serve_identity :: "front_env \<Rightarrow> dash_request \<Rightarrow> front_handler" where
  "serve_identity env q = (\<lambda>w. case session_status env q w of (st, w') \<Rightarrow>
     (if st = 401 then answered 401 [] NoPage
      else if st \<noteq> 204 then answered 503 [] NoPage
      else (case fe_oidc env of
          None \<Rightarrow> answered 200 [] (IdentityOf ''token'' None)
        | Some oa \<Rightarrow> (case oidc_session env oa q of
            None \<Rightarrow> answered 401 [] NoPage
          | Some p \<Rightarrow> answered 200 [] (IdentityOf ''oidc'' (map_option shown_identity (pl_identity p)))))) w')"

section \<open>Single sign-on\<close>

definition oidc_login :: "front_env \<Rightarrow> oidc_auth \<Rightarrow> dash_request \<Rightarrow> front_handler" where
  "oidc_login env oa q =
    (let p = \<lparr>pl_identity = None, pl_expires = fe_now env + 600, pl_session = [], pl_state = fe_state env, pl_nonce = fe_nonce env,
       pl_pkce = fe_pkce env\<rparr>
     in redirected (fe_auth_url env (pl_state p) (pl_nonce p) (pl_pkce p)) [auth_cookie env q login_cookie (oidc_encode env oa login_cookie p) (fe_now env + 600) 600])"

definition identity_valid :: "front_env \<Rightarrow> oidc_auth \<Rightarrow> id_token \<Rightarrow> string \<Rightarrow> bool" where
  "identity_valid env oa i nonce \<longleftrightarrow>
    \<not> (it_subject i = [] \<or> it_issued_at i \<le> 0 \<or> fe_now env + 60 < it_issued_at i \<or> it_nonce i \<noteq> nonce) \<and>
    (case it_party i of
       None \<Rightarrow> False
     | Some party \<Rightarrow> \<not> (1 < length (it_audience i) \<and> party = []) \<and> (party = [] \<or> party = oa_client oa))"

definition group_allowed :: "oidc_auth \<Rightarrow> id_token \<Rightarrow> bool" where
  "group_allowed oa i \<longleftrightarrow> oa_groups oa = [] \<or> (case it_groups i of None \<Rightarrow> False | Some gs \<Rightarrow> list_ex (\<lambda>g. g \<in> set (oa_groups oa)) gs)"

text \<open>A session of the API for the browser: a login with the token of the frontend.\<close>

definition create_api_session :: "front_env \<Rightarrow> oidc_auth \<Rightarrow> dash_world \<Rightarrow> dash_cookie option \<times> dash_world" where
  "create_api_session env oa = (\<lambda>w. if \<not> fe_reaches env then (None, w)
     else (case api_handle (fe_api env) \<lparr>dq_method = ''POST'', dq_path = api_path ''login'', dq_authorization = [], dq_cookies = [],
         dq_marker = ''1'', dq_site = [], dq_origin = [], dq_host = fe_api_host env, dq_tls = fe_api_tls env\<rparr>
         (ApiLogin (Some (oa_api_token oa))) w of
       (r, w') \<Rightarrow> (if ar_status r \<noteq> 204 then None
         else find (\<lambda>c. ck_name c = session_cookie \<and> ck_value c \<noteq> [] \<and> length (ck_value c) \<le> 128 \<and> 0 \<le> ck_max_age c \<and>
           (ck_expires c = 0 \<or> fe_now env < ck_expires c)) (ar_cookies r), w')))"

text \<open>The names shown are cut to 200 characters and to what their JSON may take. \<open>runes\<close> reads UTF-8, a byte that is none
  becoming the replacement character.\<close>

function runes :: "string \<Rightarrow> string list" where
  "runes s = (if s = [] then []
     else (case find (\<lambda>n. n \<le> length s \<and> valid_utf8 (take n s)) [1, 2, 3, 4] of
         Some n \<Rightarrow> take n s # runes (drop (max 1 n) s)
       | None \<Rightarrow> [CHR 0xEF, CHR 0xBF, CHR 0xBD] # runes (drop 1 s)))"
  by pat_completeness auto
termination by (relation "measure length") auto

declare runes.simps [simp del]

definition rune_json :: "string \<Rightarrow> nat" where
  "rune_json r = (case r of
      [c] \<Rightarrow> if code c \<in> {34, 92, 8, 9, 10, 12, 13} then 2 else if code c < 32 \<or> code c \<in> {38, 60, 62} then 6 else 1
    | _ \<Rightarrow> if r \<in> {[CHR 0xE2, CHR 0x80, CHR 0xA8], [CHR 0xE2, CHR 0x80, CHR 0xA9]} then 6 else length r)"

function shrink_name :: "string list \<Rightarrow> string list" where
  "shrink_name rs = (if rs = [] \<or> 2 + sum_list (map rune_json rs) \<le> 384 then rs else shrink_name (butlast rs))"
  by pat_completeness auto
termination by (relation "measure length") auto

declare shrink_name.simps [simp del]

definition bounded_name :: "string \<Rightarrow> string" where
  "bounded_name v = concat (shrink_name (take 200 (runes (trim_space v))))"

definition sealed_session :: "front_env \<Rightarrow> oidc_auth \<Rightarrow> dash_request \<Rightarrow> id_token \<Rightarrow> string \<times> string \<times> string \<Rightarrow> dash_cookie \<Rightarrow>
    dash_cookie" where
  "sealed_session env oa q i = (\<lambda>(name, username, email) session.
    (let expires = fe_now env + 12 * 3600;
         expires = (if ck_expires session \<noteq> 0 \<and> ck_expires session < expires then ck_expires session else expires)
     in auth_cookie env q frontend_cookie (oidc_encode env oa frontend_cookie \<lparr>pl_identity = Some \<lparr>di_name = bounded_name name,
          di_username = bounded_name username, di_email = bounded_name email, di_subject = bounded_name (it_subject i)\<rparr>,
          pl_expires = expires, pl_session = ck_value session, pl_state = [], pl_nonce = [], pl_pkce = []\<rparr>) expires (expires - fe_now env)))"

text \<open>The parameters a provider sends back: an error, a code, the state.\<close>

definition callback_transaction :: "front_env \<Rightarrow> oidc_auth \<Rightarrow> dash_request \<Rightarrow> string \<times> string \<times> string \<Rightarrow> auth_payload option" where
  "callback_transaction env oa q = (\<lambda>(err, authcode, state). case oidc_decode env oa q login_cookie of
      None \<Rightarrow> None
    | Some p \<Rightarrow> if pl_state p = [] \<or> pl_nonce p = [] \<or> pl_pkce p = [] \<or> err \<noteq> [] \<or> authcode = [] \<or> state \<noteq> pl_state p then None else Some p)"

definition callback_identity :: "front_env \<Rightarrow> oidc_auth \<Rightarrow> string \<Rightarrow> auth_payload \<Rightarrow> id_token option" where
  "callback_identity env oa authcode p = (case fe_exchange env authcode (pl_pkce p) of
      None \<Rightarrow> None
    | Some raw \<Rightarrow> (case fe_verify env raw of
        None \<Rightarrow> None | Some i \<Rightarrow> if identity_valid env oa i (pl_nonce p) then Some i else None))"

definition oidc_callback :: "front_env \<Rightarrow> oidc_auth \<Rightarrow> dash_request \<Rightarrow> string \<times> string \<times> string \<Rightarrow> front_handler" where
  "oidc_callback env oa q params =
    (let cleared = auth_cookie env q login_cookie [] 1 (- 1) in
     case callback_transaction env oa q params of
       None \<Rightarrow> answered 401 [cleared] NoPage
     | Some p \<Rightarrow> (case callback_identity env oa (fst (snd params)) p of
         None \<Rightarrow> answered 401 [cleared] NoPage
       | Some i \<Rightarrow> if \<not> group_allowed oa i then answered 403 [cleared] NoPage
           else (\<lambda>w. case create_api_session env oa w of
               (None, w') \<Rightarrow> answered 502 [cleared] NoPage w'
             | (Some session, w') \<Rightarrow> (case it_names i of
                 None \<Rightarrow> answered 401 [cleared] NoPage w'
               | Some shown \<Rightarrow> redirected ''/dashboard/'' [cleared, sealed_session env oa q i shown session] w'))))"

section \<open>The frontend\<close>

datatype front_call = CallHome | CallHealth | CallDashboard | CallLogin | CallSignIn | CallCallback "string \<times> string \<times> string"
  | CallIdentity | CallApi api_input

fun front_handle :: "front_env \<Rightarrow> dash_request \<Rightarrow> front_call \<Rightarrow> front_handler" where
  "front_handle env q CallHome = redirected ''/dashboard/'' []"
| "front_handle env q CallHealth = answered 204 [] NoPage"
| "front_handle env q CallDashboard = serve_dashboard env q"
| "front_handle env q CallLogin = serve_login env q"
| "front_handle env q CallSignIn = (case fe_oidc env of None \<Rightarrow> answered 404 [] NoPage | Some oa \<Rightarrow> oidc_login env oa q)"
| "front_handle env q (CallCallback params) = (case fe_oidc env of None \<Rightarrow> answered 404 [] NoPage | Some oa \<Rightarrow> oidc_callback env oa q params)"
| "front_handle env q CallIdentity = serve_identity env q"
| "front_handle env q (CallApi input) = serve_api env q input"

end
