(* ===== verification/Frontend_Claims.thy ===== *)
theory Frontend_Claims
  imports Frontend
begin

text \<open>
  The calls of the frontend and of the API: the patterns the frontend tests a request with and the routes of the API are
  two lists kept by hand in two programs, and they describe the same requests.
\<close>

section \<open>Routes\<close>

lemma split_on_inject: "split_on c p = split_on c q \<longleftrightarrow> p = q"
  by (metis join_split_on)

lemma api_path_parts:
  "p = api_path ''session'' \<longleftrightarrow> split_on sep p = [[], ''dashboard'', ''api'', ''session'']"
  "p = api_path ''jobs'' \<longleftrightarrow> split_on sep p = [[], ''dashboard'', ''api'', ''jobs'']"
  "p = api_path ''stats'' \<longleftrightarrow> split_on sep p = [[], ''dashboard'', ''api'', ''stats'']"
  "p = api_path ''media/roots'' \<longleftrightarrow> split_on sep p = [[], ''dashboard'', ''api'', ''media'', ''roots'']"
  "p = api_path ''media/browse'' \<longleftrightarrow> split_on sep p = [[], ''dashboard'', ''api'', ''media'', ''browse'']"
  "p = api_path ''login'' \<longleftrightarrow> split_on sep p = [[], ''dashboard'', ''api'', ''login'']"
  "p = api_path ''logout'' \<longleftrightarrow> split_on sep p = [[], ''dashboard'', ''api'', ''logout'']"
  "p = api_path ''media/scans'' \<longleftrightarrow> split_on sep p = [[], ''dashboard'', ''api'', ''media'', ''scans'']"
  "p = api_path ''media/batches'' \<longleftrightarrow> split_on sep p = [[], ''dashboard'', ''api'', ''media'', ''batches'']"
proof -
  have *: "p = x \<longleftrightarrow> split_on sep p = ws" if "split_on sep x = ws" for x ws
    using split_on_inject[of sep p x] that by metis
  show "p = api_path ''session'' \<longleftrightarrow> split_on sep p = [[], ''dashboard'', ''api'', ''session'']"
    "p = api_path ''jobs'' \<longleftrightarrow> split_on sep p = [[], ''dashboard'', ''api'', ''jobs'']"
    "p = api_path ''stats'' \<longleftrightarrow> split_on sep p = [[], ''dashboard'', ''api'', ''stats'']"
    "p = api_path ''media/roots'' \<longleftrightarrow> split_on sep p = [[], ''dashboard'', ''api'', ''media'', ''roots'']"
    "p = api_path ''media/browse'' \<longleftrightarrow> split_on sep p = [[], ''dashboard'', ''api'', ''media'', ''browse'']"
    "p = api_path ''login'' \<longleftrightarrow> split_on sep p = [[], ''dashboard'', ''api'', ''login'']"
    "p = api_path ''logout'' \<longleftrightarrow> split_on sep p = [[], ''dashboard'', ''api'', ''logout'']"
    "p = api_path ''media/scans'' \<longleftrightarrow> split_on sep p = [[], ''dashboard'', ''api'', ''media'', ''scans'']"
    "p = api_path ''media/batches'' \<longleftrightarrow> split_on sep p = [[], ''dashboard'', ''api'', ''media'', ''batches'']"
    by (rule *, code_simp)+
qed

definition served :: "string \<Rightarrow> string list \<Rightarrow> bool" where
  "served method parts \<longleftrightarrow>
    (method, parts) \<in> {(''POST'', [''login'']), (''POST'', [''logout'']), (''GET'', [''session'']), (''GET'', [''jobs'']), (''GET'', [''stats'']),
      (''GET'', [''media'', ''roots'']), (''GET'', [''media'', ''browse'']), (''POST'', [''media'', ''scans'']), (''POST'', [''media'', ''batches''])} \<or>
    (\<exists>kind i. parts = [''media'', kind, i] \<and> i \<noteq> [] \<and> (method, kind) \<in> {(''GET'', ''info''), (''GET'', ''file''), (''HEAD'', ''file''),
      (''GET'', ''preview''), (''GET'', ''jobs''), (''GET'', ''operations''), (''DELETE'', ''operations'')}) \<or>
    (\<exists>name what. parts = [''workers'', name, what] \<and> name \<noteq> [] \<and> (method, what) \<in> {(''POST'', ''control''), (''PUT'', ''settings'')})"

lemma plain_route_iff: "plain_route method parts input \<noteq> None \<longleftrightarrow>
    (method, parts) \<in> {(''POST'', [''login'']), (''POST'', [''logout'']), (''GET'', [''session'']), (''GET'', [''jobs'']), (''GET'', [''stats'']),
      (''GET'', [''media'', ''roots'']), (''GET'', [''media'', ''browse'']), (''POST'', [''media'', ''scans'']), (''POST'', [''media'', ''batches''])}"
  unfolding plain_route_def by (simp add: map_of_eq_None_iff)

lemma object_route_iff: "object_route method parts input \<noteq> None \<longleftrightarrow>
    (\<exists>kind i. parts = [''media'', kind, i] \<and> i \<noteq> [] \<and> (method, kind) \<in> {(''GET'', ''info''), (''GET'', ''file''), (''HEAD'', ''file''),
      (''GET'', ''preview''), (''GET'', ''jobs''), (''GET'', ''operations''), (''DELETE'', ''operations'')}) \<or>
    (\<exists>name what. parts = [''workers'', name, what] \<and> name \<noteq> [] \<and> (method, what) \<in> {(''POST'', ''control''), (''PUT'', ''settings'')})"
proof (cases "\<exists>area a b. parts = [area, a, b]")
  case True
  then obtain area a b where p: "parts = [area, a, b]" by blast
  have m: "media_object method a b input \<noteq> None \<longleftrightarrow> b \<noteq> [] \<and> (method, a) \<in> {(''GET'', ''info''), (''GET'', ''file''), (''HEAD'', ''file''),
      (''GET'', ''preview''), (''GET'', ''jobs''), (''GET'', ''operations''), (''DELETE'', ''operations'')}"
    unfolding media_object_def by (simp add: map_of_eq_None_iff)
  have w: "worker_object method a b input \<noteq> None \<longleftrightarrow> a \<noteq> [] \<and> (method, b) \<in> {(''POST'', ''control''), (''PUT'', ''settings'')}"
    unfolding worker_object_def by (simp add: map_of_eq_None_iff)
  consider "area = ''media''" | "area = ''workers''" | "area \<noteq> ''media''" "area \<noteq> ''workers''" by blast
  then show ?thesis
  proof cases
    case 1
    with p have "object_route method parts input = media_object method a b input" by (simp add: object_route_def)
    with 1 p m show ?thesis by (simp del: insert_iff)
  next
    case 2
    with p have "object_route method parts input = worker_object method a b input" by (simp add: object_route_def)
    with 2 p w show ?thesis by (simp del: insert_iff)
  next
    case 3
    with p show ?thesis by (simp add: object_route_def)
  qed
next
  case False
  then have "object_route method parts input = None" unfolding object_route_def by (auto split: list.splits)
  with False show ?thesis by auto
qed

lemma api_route_iff: "api_route method p input \<noteq> None \<longleftrightarrow>
    (\<exists>parts. split_on sep p = [] # ''dashboard'' # ''api'' # parts \<and> served method parts)"
proof (cases "\<exists>parts. split_on sep p = [] # ''dashboard'' # ''api'' # parts")
  case False
  then have "api_route method p input = None"
    unfolding api_route_def by (auto split: list.splits simp del: list.inject)
  with False show ?thesis by blast
next
  case True
  then obtain parts where parts: "split_on sep p = [] # ''dashboard'' # ''api'' # parts" by blast
  then have "api_route method p input =
      (case plain_route method parts input of Some r \<Rightarrow> Some r | None \<Rightarrow> object_route method parts input)"
    by (simp add: api_route_def)
  then have "api_route method p input \<noteq> None \<longleftrightarrow> plain_route method parts input \<noteq> None \<or> object_route method parts input \<noteq> None"
    by (cases "plain_route method parts input") simp_all
  also have "\<dots> \<longleftrightarrow> served method parts" unfolding plain_route_iff object_route_iff served_def ..
  finally show ?thesis using parts by simp
qed

lemma worker_path_iff: "worker_path what p \<longleftrightarrow>
    (\<exists>name. split_on sep p = [[], ''dashboard'', ''api'', ''workers'', name, what] \<and> name \<noteq> [])"
  unfolding worker_path_def by (auto split: list.splits)

lemma media_object_path_iff: "media_object_path kinds p \<longleftrightarrow>
    (\<exists>kind i. split_on sep p = [[], ''dashboard'', ''api'', ''media'', kind, i] \<and> kind \<in> set kinds \<and> i \<noteq> [])"
  unfolding media_object_path_def by (auto split: list.splits)

definition plain_path :: "string \<Rightarrow> bool" where
  "plain_path p \<longleftrightarrow> clean_path p = p \<and> \<not> list_ex (\<lambda>c. code c \<in> {0, 10, 13}) p"

lemma served_methods:
  "served ''GET'' parts \<longleftrightarrow> parts \<in> {[''session''], [''jobs''], [''stats''], [''media'', ''roots''], [''media'', ''browse'']} \<or>
     (\<exists>kind i. parts = [''media'', kind, i] \<and> i \<noteq> [] \<and> kind \<in> {''info'', ''file'', ''preview'', ''jobs'', ''operations''})"
  "served ''HEAD'' parts \<longleftrightarrow> (\<exists>i. parts = [''media'', ''file'', i] \<and> i \<noteq> [])"
  "served ''POST'' parts \<longleftrightarrow> parts \<in> {[''login''], [''logout''], [''media'', ''scans''], [''media'', ''batches'']} \<or>
     (\<exists>name. parts = [''workers'', name, ''control''] \<and> name \<noteq> [])"
  "served ''PUT'' parts \<longleftrightarrow> (\<exists>name. parts = [''workers'', name, ''settings''] \<and> name \<noteq> [])"
  "served ''DELETE'' parts \<longleftrightarrow> (\<exists>i. parts = [''media'', ''operations'', i] \<and> i \<noteq> [])"
  "method \<notin> {''GET'', ''HEAD'', ''POST'', ''PUT'', ''DELETE''} \<Longrightarrow> \<not> served method parts"
  unfolding served_def by auto

lemma allowed_methods:
  assumes "plain_path p"
  shows "allowed_api ''GET'' p = (p \<in> {api_path ''session'', api_path ''jobs'', api_path ''stats'', api_path ''media/roots'', api_path ''media/browse''} \<or>
       media_object_path [''info'', ''file'', ''preview'', ''jobs'', ''operations''] p)"
    "allowed_api ''HEAD'' p = media_object_path [''file''] p"
    "allowed_api ''POST'' p = (worker_path ''control'' p \<or>
       p \<in> {api_path ''login'', api_path ''logout'', api_path ''media/scans'', api_path ''media/batches''})"
    "allowed_api ''PUT'' p = worker_path ''settings'' p"
    "allowed_api ''DELETE'' p = media_object_path [''operations''] p"
proof -
  have plain: "\<not> (clean_path p \<noteq> p \<or> list_ex (\<lambda>c. code c \<in> {0, 10, 13}) p)" using assms by (simp add: plain_path_def)
  show "allowed_api ''GET'' p = (p \<in> {api_path ''session'', api_path ''jobs'', api_path ''stats'', api_path ''media/roots'', api_path ''media/browse''} \<or>
       media_object_path [''info'', ''file'', ''preview'', ''jobs'', ''operations''] p)"
    "allowed_api ''HEAD'' p = media_object_path [''file''] p"
    "allowed_api ''POST'' p = (worker_path ''control'' p \<or>
       p \<in> {api_path ''login'', api_path ''logout'', api_path ''media/scans'', api_path ''media/batches''})"
    "allowed_api ''PUT'' p = worker_path ''settings'' p"
    "allowed_api ''DELETE'' p = media_object_path [''operations''] p"
    unfolding allowed_api_def if_not_P[OF plain] by (simp_all del: insert_iff)
qed

lemma ex_conj_disj: "(\<exists>x. P x \<and> (A x \<or> B x)) \<longleftrightarrow> (\<exists>x. P x \<and> A x) \<or> (\<exists>x. P x \<and> B x)"
  by blast

lemma media_object_served: "media_object_path kinds p \<longleftrightarrow> (\<exists>parts. split_on sep p = [] # ''dashboard'' # ''api'' # parts \<and>
    (\<exists>kind i. parts = [''media'', kind, i] \<and> i \<noteq> [] \<and> kind \<in> set kinds))"
  unfolding media_object_path_iff by blast

lemma allowed_api_iff: "allowed_api method p \<longleftrightarrow> plain_path p \<and>
    (\<exists>parts. split_on sep p = [] # ''dashboard'' # ''api'' # parts \<and> served method parts)"
proof (cases "plain_path p")
  case False
  then have bad: "clean_path p \<noteq> p \<or> list_ex (\<lambda>c. code c \<in> {0, 10, 13}) p" unfolding plain_path_def by blast
  show ?thesis using False unfolding allowed_api_def if_P[OF bad] by blast
next
  case True
  note am = allowed_methods[OF True]
  have GET: "p \<in> {api_path ''session'', api_path ''jobs'', api_path ''stats'', api_path ''media/roots'', api_path ''media/browse''} \<longleftrightarrow>
      (\<exists>parts. split_on sep p = [] # ''dashboard'' # ''api'' # parts \<and>
        parts \<in> {[''session''], [''jobs''], [''stats''], [''media'', ''roots''], [''media'', ''browse'']})"
    unfolding insert_iff empty_iff api_path_parts by blast
  have POST: "p \<in> {api_path ''login'', api_path ''logout'', api_path ''media/scans'', api_path ''media/batches''} \<longleftrightarrow>
      (\<exists>parts. split_on sep p = [] # ''dashboard'' # ''api'' # parts \<and>
        parts \<in> {[''login''], [''logout''], [''media'', ''scans''], [''media'', ''batches'']})"
    unfolding insert_iff empty_iff api_path_parts by blast
  have kinds: "set [''info'', ''file'', ''preview'', ''jobs'', ''operations''] = {''info'', ''file'', ''preview'', ''jobs'', ''operations''}"
    "set [''file''] = {''file''}" "set [''operations''] = {''operations''}" by simp_all
  consider "method = ''GET''" | "method = ''HEAD''" | "method = ''POST''" | "method = ''PUT''" | "method = ''DELETE''"
    | "method \<notin> {''GET'', ''HEAD'', ''POST'', ''PUT'', ''DELETE''}" by blast
  then show ?thesis
  proof cases
    case 1
    show ?thesis unfolding 1 am GET media_object_served kinds served_methods(1) ex_conj_disj using True by (simp only: simp_thms)
  next
    case 2
    show ?thesis unfolding 2 am media_object_path_iff kinds served_methods(2) using True by blast
  next
    case 3
    show ?thesis unfolding 3 am POST worker_path_iff served_methods(3) using True by blast
  next
    case 4
    show ?thesis unfolding 4 am worker_path_iff served_methods(4) using True by blast
  next
    case 5
    show ?thesis unfolding 5 am media_object_path_iff kinds served_methods(5) using True by blast
  next
    case 6
    then have "\<not> allowed_api method p" by (simp add: allowed_api_def)
    with 6 served_methods(6) show ?thesis by blast
  qed
qed

text \<open>C15: The list of calls the frontend passes on and the table of routes of the API agree: a request is passed on exactly
  when its path is clean and the API has a handler for it.\<close>

theorem frontend_passes_what_the_api_serves:
  "allowed_api method p = (clean_path p = p \<and> \<not> list_ex (\<lambda>c. code c \<in> {0, 10, 13}) p \<and> api_route method p input \<noteq> None)"
  unfolding allowed_api_iff api_route_iff plain_path_def by blast

end
