(* ===== verification/Session_Claims.thy ===== *)
theory Session_Claims
  imports Dashboard_Api Media_Claims
begin

text \<open>
  What the API of the dashboard guarantees over a history of calls: a cookie is worth what a login with the token made it
  worth, for twelve hours at most and until a logout, and no more than 1024 sessions are kept.
\<close>

section \<open>The sessions under a call\<close>

definition session_step :: "dash_env \<Rightarrow> dash_request \<Rightarrow> api_call \<Rightarrow> sessions \<Rightarrow> sessions" where
  "session_step env q call ss = (case call of
      ApiLogin token \<Rightarrow> snd (dashboard_login env q token ss)
    | _ \<Rightarrow> (case dashboard_authenticated env q ss of (ok, ss) \<Rightarrow>
        if ok \<and> call = ApiLogout then snd (dashboard_logout env q ss) else ss))"

lemma reply_world [simp]: "snd (reply st b w) = w"
  by (simp add: reply_def)

lemma on_media_sessions [simp]: "dw_sessions (snd (on_media m e k b w)) = dw_sessions w"
  by (simp add: on_media_def split: prod.splits sum.splits)

lemma on_database_sessions [simp]: "dw_sessions (snd (on_database m e k b w)) = dw_sessions w"
  by (simp add: on_database_def)

lemma media_ready_sessions [simp]: "dw_sessions (snd (h w)) = dw_sessions w \<Longrightarrow> dw_sessions (snd (media_ready env h w)) = dw_sessions w"
  by (simp add: media_ready_def)

lemma protected_sessions:
  assumes "call \<noteq> ApiLogout" "\<And>token. call \<noteq> ApiLogin token"
  shows "dw_sessions (snd (protected_call env q call w)) = dw_sessions w"
  using assms
  by (cases call) (auto simp: dashboard_jobs_def dashboard_stats_def dashboard_worker_control_def dashboard_worker_settings_def Let_def
      media_browse_call_def media_preview_call_def media_start_scan_def media_start_batch_def media_cancel_def split: option.splits prod.splits sum.splits)

lemma on_sessions_run [simp]: "dw_sessions (snd (on_sessions m w)) = snd (m (dw_sessions w))" "dw_media (snd (on_sessions m w)) = dw_media w"
  by (simp_all add: on_sessions_def split: prod.splits)

lemma api_handle_sessions: "dw_sessions (snd (api_handle env q call w)) = session_step (ap_dash env) q call (dw_sessions w)"
proof (cases "call = ApiLogout \<or> (\<exists>token. call = ApiLogin token)")
  case True
  then show ?thesis
    by (auto simp: api_handle_def session_step_def protect_dashboard_def split: prod.splits)
next
  case False
  then have "api_handle env q call w = protect_dashboard env q (protected_call env q call) w"
    "session_step (ap_dash env) q call (dw_sessions w) = snd (dashboard_authenticated (ap_dash env) q (dw_sessions w))"
    by (cases call; simp add: api_handle_def session_step_def split: prod.splits)+
  moreover have "dw_sessions (snd (protected_call env q call v)) = dw_sessions v" for v
    using False by (intro protected_sessions) auto
  ultimately show ?thesis by (simp add: protect_dashboard_def split: prod.splits)
qed

section \<open>Histories\<close>

type_synonym api_event = "api_env \<times> dash_request \<times> api_call"

definition after_calls :: "api_event list \<Rightarrow> dash_world \<Rightarrow> dash_world" where
  "after_calls = fold (\<lambda>(env, q, call) w. snd (api_handle env q call w))"

lemma after_calls_snoc: "after_calls (h @ [(env, q, call)]) w = snd (api_handle env q call (after_calls h w))"
  by (simp add: after_calls_def)

text \<open>A login of the history that made the session \<open>k\<close>, ending at \<open>e\<close>, and that no accepted logout has ended.\<close>

definition logged_in :: "(string \<Rightarrow> string) \<Rightarrow> dash_world \<Rightarrow> api_event list \<Rightarrow> string \<Rightarrow> int \<Rightarrow> bool" where
  "logged_in digest w h k e \<longleftrightarrow> (\<exists>h1 env q token h2. h = h1 @ (env, q, ApiLogin (Some token)) # h2 \<and>
     valid_dashboard_token (ap_dash env) token \<and> dashboard_mutation_allowed (ap_dash env) q \<and>
     digest (de_random (ap_dash env)) = k \<and> e = de_now (ap_dash env) + 12 * 3600 \<and>
     (\<forall>a env2 q2 b v. h2 = a @ (env2, q2, ApiLogout) # b \<and> request_cookie q2 dashboard_cookie = Some v \<and>
        ar_status (fst (api_handle env2 q2 ApiLogout (after_calls (h1 @ (env, q, ApiLogin (Some token)) # a) w))) = 204 \<longrightarrow> digest v \<noteq> k))"

definition sessions_ok :: "(string \<Rightarrow> string) \<Rightarrow> dash_world \<Rightarrow> api_event list \<Rightarrow> sessions \<Rightarrow> bool" where
  "sessions_ok digest w h ss \<longleftrightarrow> distinct (map fst ss) \<and> length ss \<le> 1024 \<and> (\<forall>(k, e) \<in> set ss. logged_in digest w h k e)"

lemma append_snoc_split: "h @ [x] = h1 @ y # h2 \<longleftrightarrow> (h2 = [] \<and> h1 = h \<and> y = x) \<or> (\<exists>h3. h2 = h3 @ [x] \<and> h = h1 @ y # h3)"
proof (cases h2 rule: rev_cases)
  case (snoc h3 z)
  have "h1 @ y # h2 = (h1 @ y # h3) @ [z]" using snoc by simp
  then show ?thesis using snoc by (simp only: append1_eq_conv) auto
qed auto

lemma logged_in_snoc:
  assumes "logged_in digest w h k e"
    and "\<And>v. call = ApiLogout \<Longrightarrow> request_cookie q dashboard_cookie = Some v \<Longrightarrow>
      ar_status (fst (api_handle env q ApiLogout (after_calls h w))) = 204 \<Longrightarrow> digest v \<noteq> k"
  shows "logged_in digest w (h @ [(env, q, call)]) k e"
proof -
  from assms(1) obtain h1 env1 q1 token h2 where l: "h = h1 @ (env1, q1, ApiLogin (Some token)) # h2"
    "valid_dashboard_token (ap_dash env1) token" "dashboard_mutation_allowed (ap_dash env1) q1"
    "digest (de_random (ap_dash env1)) = k" "e = de_now (ap_dash env1) + 12 * 3600"
    "\<And>a env2 q2 b v. h2 = a @ (env2, q2, ApiLogout) # b \<Longrightarrow> request_cookie q2 dashboard_cookie = Some v \<Longrightarrow>
        ar_status (fst (api_handle env2 q2 ApiLogout (after_calls (h1 @ (env1, q1, ApiLogin (Some token)) # a) w))) = 204 \<Longrightarrow> digest v \<noteq> k"
    unfolding logged_in_def by blast
  have "digest v \<noteq> k" if "h2 @ [(env, q, call)] = a @ (env2, q2, ApiLogout) # b" "request_cookie q2 dashboard_cookie = Some v"
      "ar_status (fst (api_handle env2 q2 ApiLogout (after_calls (h1 @ (env1, q1, ApiLogin (Some token)) # a) w))) = 204" for a env2 q2 b v
    using that(1) unfolding append_snoc_split
    using l(6) assms(2) that(2,3) l(1) by blast
  moreover have "h @ [(env, q, call)] = h1 @ (env1, q1, ApiLogin (Some token)) # (h2 @ [(env, q, call)])" using l(1) by simp
  ultimately show ?thesis using l(2-5) unfolding logged_in_def by blast
qed

lemma set_drop_session: "set (drop_session k ss) = {(k', e) \<in> set ss. k' \<noteq> k}"
  by (auto simp: drop_session_def)

lemma sessions_ok_subset:
  assumes "sessions_ok digest w h ss" "ss' = filter P ss"
    and "\<And>v k e. call = ApiLogout \<Longrightarrow> request_cookie q dashboard_cookie = Some v \<Longrightarrow>
      ar_status (fst (api_handle env q ApiLogout (after_calls h w))) = 204 \<Longrightarrow> (k, e) \<in> set ss' \<Longrightarrow> digest v \<noteq> k"
  shows "sessions_ok digest w (h @ [(env, q, call)]) ss'"
proof -
  have "logged_in digest w (h @ [(env, q, call)]) k e" if "(k, e) \<in> set ss'" for k e
    using assms that by (intro logged_in_snoc) (auto simp: sessions_ok_def)
  moreover have "length ss' \<le> 1024" using assms(1,2) le_trans[OF length_filter_le[of P ss]] by (simp add: sessions_ok_def)
  ultimately show ?thesis using assms(1,2) by (auto simp: sessions_ok_def distinct_map_filter)
qed

lemma login_cases:
  assumes "de_digest env = digest"
  obtains "snd (dashboard_login env q token ss) = ss"
  | "snd (dashboard_login env q token ss) = filter (\<lambda>(_, expiry). \<not> expiry < de_now env) ss"
  | tok where "token = Some tok" "dashboard_mutation_allowed env q" "valid_dashboard_token env tok"
      "length (filter (\<lambda>(_, expiry). \<not> expiry < de_now env) ss) < 1024"
      "snd (dashboard_login env q token ss) = (digest (de_random env), de_now env + 12 * 3600) #
         drop_session (digest (de_random env)) (filter (\<lambda>(_, expiry). \<not> expiry < de_now env) ss)"
proof (cases "dashboard_mutation_allowed env q \<and> (\<exists>tok. token = Some tok \<and> valid_dashboard_token env tok)")
  case False
  then have "snd (dashboard_login env q token ss) = ss" by (auto simp: dashboard_login_def split: option.splits)
  then show thesis by (rule that(1))
next
  case True
  then obtain tok where tok: "token = Some tok" "dashboard_mutation_allowed env q" "valid_dashboard_token env tok" by blast
  show thesis
  proof (cases "1024 \<le> length (filter (\<lambda>(_, expiry). \<not> expiry < de_now env) ss)")
    case True
    with tok have "snd (dashboard_login env q token ss) = filter (\<lambda>(_, expiry). \<not> expiry < de_now env) ss"
      by (simp add: dashboard_login_def Let_def)
    then show thesis by (rule that(2))
  next
    case False
    with tok assms show thesis by (intro that(3)[of tok]) (simp_all add: dashboard_login_def Let_def session_lifetime_def)
  qed
qed

lemma login_keeps_sessions:
  assumes ok: "sessions_ok digest w h ss" and dig: "de_digest (ap_dash env) = digest"
  shows "sessions_ok digest w (h @ [(env, q, ApiLogin token)]) (snd (dashboard_login (ap_dash env) q token ss))"
proof -
  let ?live = "filter (\<lambda>(_, expiry). \<not> expiry < de_now (ap_dash env)) ss"
  let ?k = "digest (de_random (ap_dash env))"
  note frame = sessions_ok_subset[OF ok refl, where call = "ApiLogin token" and env = env and q = q, simplified]
  show ?thesis
  proof (cases rule: login_cases[OF dig, of q token ss])
    case 1
    then show ?thesis using frame[of "\<lambda>_. True"] by simp
  next
    case 2
    then show ?thesis using frame by simp
  next
    case 3
    have old: "sessions_ok digest w (h @ [(env, q, ApiLogin token)]) (drop_session ?k ?live)"
      unfolding drop_session_def filter_filter by (rule frame)
    have "logged_in digest w (h @ [(env, q, ApiLogin token)]) ?k (de_now (ap_dash env) + 12 * 3600)"
      unfolding logged_in_def using 3(1-3) by blast
    moreover have "length (drop_session ?k ?live) < 1024" using 3(4) length_drop_session[of ?k ?live] by simp
    ultimately show ?thesis unfolding 3(5) using old distinct_drop[of ?live ?k] ok
      by (auto simp: sessions_ok_def set_drop_session distinct_map_filter)
  qed
qed

lemma authenticated_filter: "\<exists>P. snd (dashboard_authenticated env q ss) = filter P ss"
  using authenticated_sessions[of env q ss] by (metis drop_session_def filter_True)

lemma call_keeps_sessions:
  assumes ok: "sessions_ok digest w h (dw_sessions (after_calls h w))" and dig: "de_digest (ap_dash env) = digest"
  shows "sessions_ok digest w (h @ [(env, q, call)]) (dw_sessions (after_calls (h @ [(env, q, call)]) w))"
proof -
  let ?ss = "dw_sessions (after_calls h w)"
  have step: "dw_sessions (after_calls (h @ [(env, q, call)]) w) = session_step (ap_dash env) q call ?ss"
    by (simp add: after_calls_snoc api_handle_sessions)
  obtain P where P: "snd (dashboard_authenticated (ap_dash env) q ?ss) = filter P ?ss" using authenticated_filter by blast
  consider token where "call = ApiLogin token" | "call = ApiLogout" | "call \<noteq> ApiLogout" "\<And>token. call \<noteq> ApiLogin token" by blast
  then show ?thesis
  proof cases
    case 1
    then show ?thesis using login_keeps_sessions[OF ok dig] step by (simp add: session_step_def)
  next
    case 3
    then have "session_step (ap_dash env) q call ?ss = filter P ?ss" using P by (cases call) (auto simp: session_step_def split: prod.splits)
    then show ?thesis unfolding step by (rule sessions_ok_subset[OF ok]) (use 3(1) in blast)
  next
    case 2
    obtain okay ss where a: "dashboard_authenticated (ap_dash env) q ?ss = (okay, ss)" by fastforce
    have filtered: "\<exists>Q. session_step (ap_dash env) q call ?ss = filter Q ?ss"
      using a P 2 by (auto simp: session_step_def dashboard_logout_def drop_session_def split: option.splits)
    have gone: "digest v \<noteq> k" if "request_cookie q dashboard_cookie = Some v"
        "ar_status (fst (api_handle env q ApiLogout (after_calls h w))) = 204" "(k, e) \<in> set (session_step (ap_dash env) q call ?ss)" for v k e
      using that a 2 dig by (auto simp: api_handle_def protect_dashboard_def on_sessions_def reply_def session_step_def dashboard_logout_def
          drop_session_def split: if_splits)
    from filtered obtain Q where "session_step (ap_dash env) q call ?ss = filter Q ?ss" by blast
    then show ?thesis unfolding step using sessions_ok_subset[OF ok, of _ Q call q env] gone by metis
  qed
qed

lemma history_sessions:
  assumes "dw_sessions w = []" "\<And>env q call. (env, q, call) \<in> set h \<Longrightarrow> de_digest (ap_dash env) = digest"
  shows "sessions_ok digest w h (dw_sessions (after_calls h w))"
  using assms(2)
proof (induction h rule: rev_induct)
  case Nil
  then show ?case by (simp add: sessions_ok_def after_calls_def assms(1))
next
  case (snoc x h)
  obtain env q call where x: "x = (env, q, call)" by (cases x)
  have ok: "sessions_ok digest w h (dw_sessions (after_calls h w))" using snoc by (metis Un_iff set_append)
  show ?case unfolding x by (rule call_keeps_sessions[OF ok]) (use snoc(2)[of env q call] x in simp)
qed

text \<open>However the API has been called since it started with no session, it keeps at most 1024 of them, under different
  digests.\<close>

theorem sessions_bounded:
  assumes "dw_sessions w = []" "\<forall>(env, q, call) \<in> set h. de_digest (ap_dash env) = digest"
  shows "length (dw_sessions (after_calls h w)) \<le> 1024 \<and> distinct (map fst (dw_sessions (after_calls h w)))"
proof -
  have "\<And>env q call. (env, q, call) \<in> set h \<Longrightarrow> de_digest (ap_dash env) = digest" using assms(2) by blast
  from history_sessions[OF assms(1) this] show ?thesis by (simp add: sessions_ok_def)
qed

text \<open>C13: A request without a token is let in only by a cookie whose digest is that of a value the API drew at a login with the
  valid token and the marker of the dashboard, less than twelve hours ago, and no logout accepted since then came with a
  cookie of that digest.\<close>

theorem cookie_needs_a_login:
  assumes "dw_sessions w = []" "\<forall>(env, q, call) \<in> set h. de_digest (ap_dash env) = de_digest now"
    and "dashboard_authenticated now q (dw_sessions (after_calls h w)) = (True, ss)" "dq_authorization q = []"
  shows "\<exists>v h1 env login token h2. request_cookie q dashboard_cookie = Some v \<and> length v \<le> 128 \<and>
    h = h1 @ (env, login, ApiLogin (Some token)) # h2 \<and> valid_dashboard_token (ap_dash env) token \<and>
    dashboard_mutation_allowed (ap_dash env) login \<and> de_digest now (de_random (ap_dash env)) = de_digest now v \<and>
    de_now now < de_now (ap_dash env) + 12 * 3600 \<and>
    (\<forall>a env2 q2 b v2. h2 = a @ (env2, q2, ApiLogout) # b \<and> request_cookie q2 dashboard_cookie = Some v2 \<and>
      ar_status (fst (api_handle env2 q2 ApiLogout (after_calls (h1 @ (env, login, ApiLogin (Some token)) # a) w))) = 204 \<longrightarrow>
      de_digest now v2 \<noteq> de_digest now v)"
proof -
  from authenticated_by_cookie[OF assms(3,4)] obtain v e where v: "request_cookie q dashboard_cookie = Some v" "length v \<le> 128"
    "map_of (dw_sessions (after_calls h w)) (de_digest now v) = Some e" "de_now now < e" unfolding session_live_def by blast
  have dig: "\<And>env q call. (env, q, call) \<in> set h \<Longrightarrow> de_digest (ap_dash env) = de_digest now" using assms(2) by blast
  have "logged_in (de_digest now) w h (de_digest now v) e"
    using history_sessions[OF assms(1), of h "de_digest now"] dig map_of_SomeD[OF v(3)] unfolding sessions_ok_def by blast
  with v(1,2,4) show ?thesis unfolding logged_in_def by blast
qed

section \<open>An example server\<close>

definition sample_api :: "int \<Rightarrow> string \<Rightarrow> api_env" where
  "sample_api now random = \<lparr>ap_dash = \<lparr>de_token = ''secret'', de_domain = [], de_parse_url = (\<lambda>_. None), de_digest = rev, de_now = now,
     de_random = random\<rparr>, ap_config = demo_config, ap_clock = now * 1000000000, ap_fresh = ''u1'', ap_parse_uuid = (\<lambda>s. Some s),
     ap_parse_time = (\<lambda>_. None), ap_library = True, ap_ffprobe = (\<lambda>_. None), ap_root_digest = (\<lambda>s. s), ap_ffmpeg = (\<lambda>_ _. ([], True)),
     ap_slot = True\<rparr>"

definition dash_call :: "string \<Rightarrow> string \<Rightarrow> (string \<times> string) list \<Rightarrow> dash_request" where
  "dash_call method path cookies = \<lparr>dq_method = method, dq_path = path, dq_authorization = [], dq_cookies = cookies, dq_marker = ''1'',
     dq_site = [], dq_origin = [], dq_host = ''server'', dq_tls = False\<rparr>"

definition dash_sample :: dash_world where
  "dash_sample = \<lparr>dw_sessions = [], dw_media = sample_library\<rparr>"

definition one_login :: "api_event list" where
  "one_login = [(sample_api 100 ''cookie'', dash_call ''POST'' ''/dashboard/api/login'' [], ApiLogin (Some ''secret''))]"

lemma one_login_sessions: "dw_sessions (after_calls one_login dash_sample) = [(''eikooc'', 43300)]"
  by code_simp

lemma sessions_bounded_witness:
  "length (dw_sessions (after_calls one_login dash_sample)) \<le> 1024 \<and> distinct (map fst (dw_sessions (after_calls one_login dash_sample)))"
  by (rule sessions_bounded[of _ _ rev]) (simp_all add: dash_sample_def one_login_def sample_api_def)

lemma cookie_needs_a_login_witness:
  "\<exists>v h1 env login token h2. request_cookie (dash_call ''GET'' ''/dashboard/api/jobs'' [(dashboard_cookie, ''cookie'')]) dashboard_cookie = Some v \<and>
    one_login = h1 @ (env, login, ApiLogin (Some token)) # h2 \<and> valid_dashboard_token (ap_dash env) token \<and>
    rev (de_random (ap_dash env)) = rev v"
proof -
  let ?q = "dash_call ''GET'' ''/dashboard/api/jobs'' [(dashboard_cookie, ''cookie'')]" and ?now = "ap_dash (sample_api 43299 ''other'')"
  have digest: "de_digest ?now = rev" by (simp add: sample_api_def)
  have "dw_sessions dash_sample = []" by (simp add: dash_sample_def)
  moreover have "\<forall>(env, q, call) \<in> set one_login. de_digest (ap_dash env) = de_digest ?now"
    by (auto simp: one_login_def sample_api_def)
  moreover have "dashboard_authenticated ?now ?q (dw_sessions (after_calls one_login dash_sample)) = (True, [(''eikooc'', 43300)])"
    unfolding one_login_sessions by code_simp
  moreover have "dq_authorization ?q = []" by (simp add: dash_call_def)
  ultimately show ?thesis using cookie_needs_a_login[of dash_sample one_login ?now ?q] unfolding digest by blast
qed

end
