(* ===== verification/Reading_Claims.thy ===== *)
theory Reading_Claims
  imports Session_Claims Server_Steps
begin

text \<open>
  What a call of the dashboard may write. A call that only reads leaves the records of the server, its files and the
  operations of the library as they are, but for the cache of probes, the injected faults that it uses up and expired
  operations that it drops; a call another site made is such a call or is refused.
\<close>

section \<open>Worlds that differ only by what reading leaves\<close>

definition same_rows :: "sql_db \<Rightarrow> sql_db \<Rightarrow> bool" where
  "same_rows d0 d \<longleftrightarrow> (\<exists>fs ps. d = d0\<lparr>probes_t := ps, faults := fs\<rparr>)"

definition same_files :: "file_system \<Rightarrow> file_system \<Rightarrow> bool" where
  "same_files f0 f \<longleftrightarrow> (\<exists>fs. f = f0\<lparr>io_faults := fs\<rparr>)"

definition same_server :: "server \<Rightarrow> server \<Rightarrow> bool" where
  "same_server s0 s \<longleftrightarrow> same_rows (sdb s0) (sdb s) \<and> same_files (sfs s0) (sfs s) \<and> checksums s = checksums s0"

definition only_read :: "media_world \<Rightarrow> media_world \<Rightarrow> bool" where
  "only_read w0 w \<longleftrightarrow> same_server (mw_server w0) (mw_server w) \<and> (\<exists>P. mw_ops w = filter P (mw_ops w0)) \<and>
     mw_canceled w = mw_canceled w0 \<and> mw_between w = []"

lemma same_rows_faults [simp]: "same_rows d0 (d\<lparr>faults := fs\<rparr>) = same_rows d0 d"
proof -
  have "same_rows d0 d" if "same_rows d0 (d\<lparr>faults := fs\<rparr>)" for d fs
  proof -
    from that obtain gs ps where d: "d\<lparr>faults := fs\<rparr> = d0\<lparr>probes_t := ps, faults := gs\<rparr>" unfolding same_rows_def by blast
    have "d = (d\<lparr>faults := fs\<rparr>)\<lparr>faults := faults d\<rparr>" by simp
    also have "\<dots> = d0\<lparr>probes_t := ps, faults := faults d\<rparr>" unfolding d by simp
    finally show ?thesis unfolding same_rows_def by blast
  qed
  moreover have "same_rows d0 (d\<lparr>faults := fs\<rparr>)" if "same_rows d0 d" for d fs
    using that unfolding same_rows_def by (metis sql_db.surjective sql_db.update_convs(8,9))
  ultimately show ?thesis by blast
qed

lemma same_refl [simp]: "same_rows d d" "same_files f f" "same_server s s"
proof -
  have "d = d\<lparr>probes_t := probes_t d, faults := faults d\<rparr>" "f = f\<lparr>io_faults := io_faults f\<rparr>" for d :: sql_db and f :: file_system by simp_all
  then show "same_rows d d" "same_files f f" for d f unfolding same_rows_def same_files_def by blast+
  then show "same_server s s" by (simp add: same_server_def)
qed

lemma only_read_refl: "mw_between w = [] \<Longrightarrow> only_read w w"
  by (simp add: only_read_def) (rule exI[of _ "\<lambda>_. True"], simp)

named_theorems reading \<open>calls that only read\<close>

lemmas [reading] = keeps_ret keeps_fail keeps_read keeps_lift keeps_try keeps_bind keeps_for keeps_if keeps_option keeps_sum keeps_prod

section \<open>The database\<close>

lemma reading_statement [reading]: "keeps (same_rows d0) m \<Longrightarrow> keeps (same_rows d0) (statement m)"
  by (rule keeps_statement_any) simp

lemma reading_transaction [reading]: "keeps (same_rows d0) m \<Longrightarrow> keeps (same_rows d0) (with_transaction m)"
proof (rule keepsI)
  fix s r t assume m: "keeps (same_rows d0) m" and s: "same_rows d0 s" and t: "with_transaction m s = (r, t)"
  show "same_rows d0 t"
  proof (cases r)
    case (Inl e)
    with transaction_failed t s show ?thesis by (metis same_rows_faults)
  next
    case (Inr x)
    with t obtain fs u fs' where "m (s\<lparr>faults := fs\<rparr>) = (Inr x, u)" "t = u\<lparr>faults := fs'\<rparr>" by (metis transaction_committed)
    with keepsD[OF m, of "s\<lparr>faults := fs\<rparr>"] s show ?thesis by simp
  qed
qed

lemma reading_queries [reading]:
  "keeps (same_rows d0) (get_media_job_states ps)" "keeps (same_rows d0) (get_job j)" "keeps (same_rows d0) (get_media_probe rt p sz t)"
  "keeps (same_rows d0) (get_dashboard_jobs now q)" "keeps (same_rows d0) (get_dashboard hours now given)"
  unfolding get_media_job_states_def get_job_def fill_job_def get_task_events_def get_job_status_def get_media_probe_def
    get_dashboard_jobs_def read_job_page_def read_dashboard_jobs_def get_dashboard_def read_dashboard_def
  by (intro reading)+

lemma reading_put [reading]: "keeps (same_rows d0) (put_media_probe rt p sz t m)"
proof -
  have "keeps (same_rows d0) (writeP (\<lambda>s. s\<lparr>probes_t := g s\<rparr>))" for g
  proof (rule keepsI)
    fix s r t assume "same_rows d0 s" "writeP (\<lambda>s. s\<lparr>probes_t := g s\<rparr>) s = (r, t)"
    then obtain fs ps where "t = (d0\<lparr>probes_t := ps, faults := fs\<rparr>)\<lparr>probes_t := g s\<rparr>" by (auto simp: same_rows_def writeP_def)
    then have "t = d0\<lparr>probes_t := g s, faults := fs\<rparr>" by simp
    then show "same_rows d0 t" unfolding same_rows_def by blast
  qed
  then show ?thesis unfolding put_media_probe_def Let_def by (intro reading)
qed

section \<open>Files\<close>

lemma reading_io: "keeps (same_files f0) m \<Longrightarrow> keeps (same_files f0) (io_call m)"
proof (rule keepsI)
  fix f r g assume m: "keeps (same_files f0) m" and f: "same_files f0 f" and g: "io_call m f = (r, g)"
  have "same_files f0 (f\<lparr>io_faults := fs\<rparr>)" for fs using f by (auto simp: same_files_def)
  with m f g show "same_files f0 g" by (auto simp: io_call_def split: list.splits if_splits dest: keepsD)
qed

lemma reading_files [reading]:
  "keeps (same_files f0) (os_stat p)" "keeps (same_files f0) (os_open p)" "keeps (same_files f0) (os_read n)"
proof -
  have "keeps (same_files f0) (\<lambda>s. case node_at s p of None \<Rightarrow> (Inl FileNotExist, s) | Some n \<Rightarrow> (Inr n, s))"
    "keeps (same_files f0) (\<lambda>s. case n of Directory \<Rightarrow> (Inl OtherFileError, s) | File i \<Rightarrow> (Inr (contents s i), s))"
    by (simp_all add: keeps_def split: option.splits node.splits)
  then show "keeps (same_files f0) (os_stat p)" "keeps (same_files f0) (os_open p)" "keeps (same_files f0) (os_read n)"
    unfolding os_open_def os_stat_def os_read_def by (simp_all only: reading_io)
qed

lemma reading_parts: "keeps (same_files f0) (stat_parts dir ws vs)"
  by (induction vs arbitrary: ws) (auto intro!: reading)

lemma reading_path [reading]: "keeps (same_files f0) (check_media_path dir p b)"
  unfolding check_media_path_def by (intro reading reading_parts)

section \<open>The library\<close>

lemma reading_db [reading]: "(\<And>d0. keeps (same_rows d0) m) \<Longrightarrow> keeps (only_read w0) (on_server (on_db m))"
proof (rule keepsI)
  fix w r w' assume m: "\<And>d0. keeps (same_rows d0) m" and w: "only_read w0 w" "on_server (on_db m) w = (r, w')"
  obtain q d where q: "m (sdb (mw_server w)) = (q, d)" by fastforce
  with m[of "sdb (mw_server w0)"] w(1) have "same_rows (sdb (mw_server w0)) d"
    unfolding only_read_def same_server_def by (blast dest: keepsD)
  with w q show "only_read w0 w'" by (auto simp: only_read_def same_server_def on_server_def on_db_def)
qed

lemma reading_fs [reading]: "(\<And>f0. keeps (same_files f0) m) \<Longrightarrow> keeps (only_read w0) (on_server (on_fs m))"
proof (rule keepsI)
  fix w r w' assume m: "\<And>f0. keeps (same_files f0) m" and w: "only_read w0 w" "on_server (on_fs m) w = (r, w')"
  obtain q f where q: "m (sfs (mw_server w)) = (q, f)" by fastforce
  with m[of "sfs (mw_server w0)"] w(1) have "same_files (sfs (mw_server w0)) f"
    unfolding only_read_def same_server_def by (blast dest: keepsD)
  with w q show "only_read w0 w'" by (auto simp: only_read_def same_server_def on_server_def on_fs_def)
qed

lemma reading_root [reading]: "keeps (only_read w0) (open_root rt)"
proof (rule keepsI)
  fix w r w' assume w: "only_read w0 w" and r: "open_root rt w = (r, w')"
  have "w' = w \<or> (\<exists>dir. w' = snd (on_server (on_fs (os_stat dir)) w))"
    using r by (auto simp: open_root_def split: option.splits if_splits prod.splits sum.splits node.splits) (metis snd_conv)+
  with w reading_fs[OF reading_files(1)] show "only_read w0 w'" by (auto simp: keeps_def)
qed

lemma reading_open [reading]: "keeps (only_read w0) (media_open i)"
proof -
  have "keeps (only_read w0) (\<lambda>w. if \<not> regular n then (Inl MeInvalidPath, w) else (Inr (n, media_file_of rt p n (sfs (mw_server w))), w))"
    for n rt p by (simp add: keeps_def)
  then show ?thesis unfolding media_open_def by (intro reading)
qed

lemma reading_annotate [reading]: "keeps (only_read w0) (annotate cfg filters fs)"
  unfolding annotate_def by (intro reading)

lemma reading_others [reading]: "keeps (only_read w0) others_act"
  by (auto simp: keeps_def others_act_def writeP_def only_read_def)

lemma reading_get [reading]: "keeps (only_read w0) (get_operation i)"
  by (rule keepsI) (auto simp: get_operation_def only_read_def filter_filter split: option.splits if_splits)

lemma reading_info [reading]: "keeps (only_read w0) (media_info ffprobe digest i)"
  unfolding media_info_def by (intro reading)

lemma reading_browse [reading]: "keeps (only_read w0) (media_browse cfg rt p offset limit)"
  unfolding media_browse_def Let_def by (intro reading)

lemma reading_first: "keeps (only_read w0) (first_asset p rts)"
  by (induction rts) (auto intro!: reading)

lemma reading_assets [reading]: "keeps (only_read w0) (job_assets j)"
  unfolding job_assets_def by (intro reading reading_first)

lemma reading_shown [reading]: "keeps (only_read w0) (media_info_shown env i)" "keeps (only_read w0) (media_content i)"
  "keeps (only_read w0) (media_preview env i start)"
  unfolding media_info_shown_def media_content_def media_preview_def by (intro reading)+

lemma reading_roots [reading]: "keeps (only_read w0) media_roots"
proof (rule keepsI)
  fix w r w' assume w: "only_read w0 w" "media_roots w = (r, w')"
  have "only_read w0 (snd (fold (\<lambda>(i, dir) (r, w). case open_root i w of (opened, w') \<Rightarrow> (f i opened r, w')) rts (q, v)))"
    if "only_read w0 v" for f :: "string \<Rightarrow> media_error + string \<Rightarrow> 'z \<Rightarrow> 'z" and rts :: "(string \<times> string) list" and q v
    using that
  proof (induction rts arbitrary: q v)
    case (Cons x rts)
    obtain o1 v' where o: "open_root (fst x) v = (o1, v')" by fastforce
    with keepsD[OF reading_root Cons.prems o] Cons.IH show ?case by (simp add: split_beta)
  qed simp
  from this[OF w(1), of "\<lambda>i opened. map_sum id (\<lambda>rs. rs @ [(i, if i = ''source'' then ''Source'' else if i = ''encoded'' then ''Encoded files'' else i,
      i = ''source'', opened \<noteq> Inl MeUnavailable \<and> opened \<noteq> Inl MeInvalidPath)])" "sort_slice root_order (mw_roots w)" "Inr []"]
  have "only_read w0 (snd (media_roots w))" unfolding media_roots_def .
  with w(2) show "only_read w0 w'" by simp
qed

section \<open>The calls\<close>

definition reading_call :: "api_call \<Rightarrow> bool" where
  "reading_call call \<longleftrightarrow> (case call of ApiLogin _ \<Rightarrow> False | ApiLogout \<Rightarrow> False | ApiControl _ _ \<Rightarrow> False | ApiSettings _ _ \<Rightarrow> False
     | ApiScan _ \<Rightarrow> False | ApiBatch _ \<Rightarrow> False | ApiCancel _ \<Rightarrow> False | _ \<Rightarrow> True)"

definition only_reads :: "api_handler \<Rightarrow> bool" where
  "only_reads h \<longleftrightarrow> (\<forall>w. mw_between (dw_media w) = [] \<longrightarrow> only_read (dw_media w) (dw_media (snd (h w))) \<and> ar_cookies (fst (h w)) = [])"

lemma reads_reply [reading]: "only_reads (reply st b)"
  by (simp add: only_reads_def reply_def only_read_refl)

lemma reads_media [reading]: "(\<And>w0. keeps (only_read w0) m) \<Longrightarrow> only_reads (on_media m e k b)"
proof -
  assume m: "\<And>w0. keeps (only_read w0) m"
  have "only_read (dw_media w) v" if "mw_between (dw_media w) = []" "m (dw_media w) = (q, v)" for w q v
    using keepsD[OF m only_read_refl[OF that(1)] that(2)] .
  then show ?thesis unfolding only_reads_def on_media_def reply_def by (simp split: prod.splits sum.splits) blast
qed

lemma reads_database [reading]: "(\<And>d0. keeps (same_rows d0) m) \<Longrightarrow> only_reads (on_database m e k b)"
  unfolding on_database_def by (intro reading)

lemma reads_cases [reading]:
  "(b \<Longrightarrow> only_reads h) \<Longrightarrow> (\<not> b \<Longrightarrow> only_reads k) \<Longrightarrow> only_reads (if b then h else k)"
  "only_reads h \<Longrightarrow> (\<And>x. only_reads (f x)) \<Longrightarrow> only_reads (case z of None \<Rightarrow> h | Some x \<Rightarrow> f x)"
  by (simp_all split: option.splits)

lemma reads_calls [reading]: "only_reads (dashboard_jobs env p)" "only_reads (dashboard_stats env s)"
  "only_reads (media_browse_call env rt x offset)" "only_reads (media_preview_call env i start)"
proof -
  have "only_reads (\<lambda>w. case media_preview env i x (dw_media w) of
           (Inl e, mw) \<Rightarrow> reply (media_code e) EmptyBody (w\<lparr>dw_media := mw\<rparr>)
         | (Inr (bytes, fine), mw) \<Rightarrow> reply (if \<not> fine \<and> bytes = [] then 500 else 200) (PreviewBody bytes) (w\<lparr>dw_media := mw\<rparr>))" for x
    using keepsD[OF reading_shown(3) only_read_refl, of _ env i x]
    by (auto simp: only_reads_def reply_def split: prod.splits sum.splits)
  then show "only_reads (dashboard_jobs env p)" "only_reads (dashboard_stats env s)"
    "only_reads (media_browse_call env rt x offset)" "only_reads (media_preview_call env i start)"
    unfolding dashboard_jobs_def dashboard_stats_def media_browse_call_def media_preview_call_def Let_def by (intro reading; assumption?)+
qed

lemma reads_ready [reading]: "only_reads h \<Longrightarrow> only_reads (media_ready env h)"
  unfolding media_ready_def by (intro reading)

lemma reading_protected: "reading_call call \<Longrightarrow> only_reads (protected_call env q call)"
  by (cases call) (simp_all add: reading_call_def, (intro reading)+)

lemma refused_protected:
  assumes "\<not> reading_call call" "\<not> dashboard_mutation_allowed (ap_dash env) q"
  shows "only_reads (protected_call env q call)"
proof -
  have sessions: "only_reads (on_sessions (\<lambda>ss. ((st, []), ss)))" for st
    by (simp add: only_reads_def on_sessions_def only_read_refl)
  have "dashboard_login (ap_dash env) q token = (\<lambda>ss. ((403, []), ss))" "dashboard_logout (ap_dash env) q = (\<lambda>ss. ((403, []), ss))" for token
    using assms(2) by (auto simp: dashboard_login_def dashboard_logout_def)
  with assms sessions show ?thesis by (cases call) (simp_all add: reading_call_def dashboard_worker_control_def dashboard_worker_settings_def
      media_start_scan_def media_start_batch_def media_cancel_def reads_reply reads_ready)
qed

lemma api_handle_reads:
  assumes "only_reads (protected_call env q call)"
  shows "only_reads (api_handle env q call)"
proof -
  have "only_reads (protect_dashboard env q h)" if "only_reads h" for h
  proof -
    have "only_read (dw_media w) (dw_media (snd (k (w\<lparr>dw_sessions := ss\<rparr>)))) \<and> ar_cookies (fst (k (w\<lparr>dw_sessions := ss\<rparr>))) = []"
      if "only_reads k" "mw_between (dw_media w) = []" for k w ss
      using that(1)[unfolded only_reads_def, rule_format, of "w\<lparr>dw_sessions := ss\<rparr>"] that(2) by simp
    from this[OF \<open>only_reads h\<close>] this[OF reads_reply[of 401 EmptyBody]]
    show ?thesis by (simp add: only_reads_def protect_dashboard_def split: prod.splits)
  qed
  moreover have "api_handle env q call = protected_call env q call \<or> api_handle env q call = protect_dashboard env q (protected_call env q call)"
    by (cases call) (simp_all only: api_handle_def api_call.case simp_thms)
  ultimately show ?thesis using assms by metis
qed

lemma reading_methods:
  assumes "method = ''GET'' \<or> method = ''HEAD''" "api_route method path input = Some call"
  shows "reading_call call"
proof -
  have "reading_call call" if "plain_route method parts input = Some call" for parts
    using assms(1) map_of_SomeD[OF that[unfolded plain_route_def]] by (auto simp: reading_call_def split: prod.splits)
  moreover have "reading_call call" if "media_object method kind i input = Some call" for kind i
    using assms(1) that map_of_SomeD[of _ "(method, kind)" call] unfolding media_object_def by (auto simp: reading_call_def split: if_splits)
  moreover have "worker_object method name what input = None" for name what
    using assms(1) by (auto simp: worker_object_def)
  ultimately show ?thesis using assms(2)
    by (auto simp: api_route_def object_route_def split: list.splits if_splits option.splits)
qed

text \<open>C14: A request with GET or HEAD, or one that fails the test against other sites, changes no job, event, worker, setting,
  command, file or checksum, starts or cancels no operation of the library, opens no session and sets no cookie, when nobody
  else acts on the server meanwhile. What it may do is fill the cache of media probes, and drop operations and sessions that
  have expired.\<close>

theorem other_sites_write_nothing:
  assumes "dq_method q = ''GET'' \<or> dq_method q = ''HEAD'' \<or> \<not> dashboard_mutation_allowed (ap_dash env) q"
    "mw_between (dw_media w) = []" "api_serve env q input w = (r, w')"
  shows "only_read (dw_media w) (dw_media w') \<and> set (dw_sessions w') \<subseteq> set (dw_sessions w) \<and> ar_cookies r = []"
proof (cases "api_route (dq_method q) (dq_path q) input")
  case None
  with assms show ?thesis by (auto simp: api_serve_def reply_def only_read_refl)
next
  case (Some call)
  have h: "api_handle env q call w = (r, w')" using assms(3) Some by (simp add: api_serve_def)
  have only: "only_reads (protected_call env q call)"
    using assms(1) reading_methods[OF _ Some] reading_protected refused_protected by blast
  obtain ok ss where auth: "dashboard_authenticated (ap_dash env) q (dw_sessions w) = (ok, ss)" by fastforce
  with authenticated_filter[of "ap_dash env" q "dw_sessions w"] have less: "set ss \<subseteq> set (dw_sessions w)" by auto
  have "session_step (ap_dash env) q call (dw_sessions w) \<in> {ss, dw_sessions w}"
  proof (cases "reading_call call")
    case True
    then show ?thesis using auth by (cases call) (simp_all add: session_step_def reading_call_def)
  next
    case False
    then have "\<not> dashboard_mutation_allowed (ap_dash env) q" using assms(1) reading_methods[OF _ Some] by blast
    then show ?thesis using auth by (cases call) (simp_all add: session_step_def dashboard_login_def dashboard_logout_def)
  qed
  then have "set (session_step (ap_dash env) q call (dw_sessions w)) \<subseteq> set (dw_sessions w)" using less by auto
  with api_handle_sessions[of env q call w] h have "set (dw_sessions w') \<subseteq> set (dw_sessions w)" by simp
  moreover have "only_read (dw_media w) (dw_media w') \<and> ar_cookies r = []"
    using api_handle_reads[OF only] assms(2) h unfolding only_reads_def by (metis fst_conv snd_conv)
  ultimately show ?thesis by blast
qed

section \<open>An example\<close>

text \<open>A scan that a page of another site asks for with the cookie of the browser.\<close>

definition foreign_input :: api_input where
  "foreign_input = \<lparr>in_token = Some ''secret'', in_jobs = \<lparr>qp_state = [], qp_search = [], qp_offset = None, qp_limit = None\<rparr>,
     in_stats = \<lparr>sp_start = None, sp_end = None, sp_hours = None\<rparr>, in_control = None, in_settings = None, in_browse = ([], [], []),
     in_start = [], in_filters = Some no_filters, in_batch = None\<rparr>"

definition foreign_request :: dash_request where
  "foreign_request = (dash_call ''POST'' ''/dashboard/api/media/scans'' [(dashboard_cookie, ''cookie'')])\<lparr>dq_site := ''cross-site''\<rparr>"

definition logged_in_world :: dash_world where
  "logged_in_world = dash_sample\<lparr>dw_sessions := [(''eikooc'', 43300)]\<rparr>"

lemma other_sites_write_nothing_witness:
  "\<exists>r w'. api_serve (sample_api 200 []) foreign_request foreign_input logged_in_world = (r, w') \<and> ar_status r = 403 \<and>
    only_read sample_library (dw_media w') \<and> set (dw_sessions w') \<subseteq> {(''eikooc'', 43300)}"
proof -
  obtain r w' where h: "api_serve (sample_api 200 []) foreign_request foreign_input logged_in_world = (r, w')" by fastforce
  have "ar_status (fst (api_serve (sample_api 200 []) foreign_request foreign_input logged_in_world)) = 403" by code_simp
  moreover have "\<not> dashboard_mutation_allowed (ap_dash (sample_api 200 [])) foreign_request"
    by (simp add: dashboard_mutation_allowed_def foreign_request_def)
  moreover have "dw_media logged_in_world = sample_library" "dw_sessions logged_in_world = [(''eikooc'', 43300)]"
    by (simp_all add: logged_in_world_def dash_sample_def)
  moreover have "mw_between sample_library = []" by (simp add: sample_library_def)
  ultimately show ?thesis using other_sites_write_nothing[OF _ _ h] h by simp
qed

end
