(* ===== verification/Sign_In_Claims.thy ===== *)
theory Sign_In_Claims
  imports Frontend Reading_Claims
begin

text \<open>
  What single sign-on guarantees over a history of requests to the frontend, whatever else happens to the server between
  them: nothing of the API is reached but for a browser that presents a cookie of a completed sign-in, and a sign-in is
  completed only for a verified, allowed identity whose nonce, state and PKCE verifier the frontend drew itself.
\<close>

section \<open>Histories\<close>

text \<open>A request, with what others did to the server before it.\<close>

type_synonym front_event = "(dash_world \<Rightarrow> dash_world) \<times> front_env \<times> dash_request \<times> front_call"

definition front_step :: "front_event \<Rightarrow> dash_world \<Rightarrow> front_reply \<times> dash_world" where
  "front_step = (\<lambda>(others, env, q, call) w. front_handle env q call (others w))"

definition front_after :: "front_event list \<Rightarrow> dash_world \<Rightarrow> dash_world" where
  "front_after = fold (\<lambda>x w. snd (front_step x w))"

lemma front_after_snoc: "front_after (xs @ [x]) w = snd (front_step x (front_after xs w))"
  by (simp add: front_after_def)

text \<open>A cookie set by a reply, read back.\<close>

definition issued :: "front_env \<Rightarrow> oidc_auth \<Rightarrow> string \<Rightarrow> dash_cookie \<Rightarrow> auth_payload \<Rightarrow> bool" where
  "issued env oa name c p \<longleftrightarrow> (\<exists>raw. b64_decode (ck_value c) = Some raw \<and> unseal env oa name raw = Some p)"

text \<open>What is relied on of AES-GCM, of the JSON library and of the random texts: what was sealed opens under its own purpose
  only, the number and the ASCII texts of a payload survive, and the random vector has twelve bytes.\<close>

definition ascii :: "string \<Rightarrow> bool" where
  "ascii = list_all (\<lambda>c. code c < 128)"

definition survives :: "auth_payload \<Rightarrow> auth_payload \<Rightarrow> bool" where
  "survives p p' \<longleftrightarrow> pl_expires p' = pl_expires p \<and>
     (ascii (pl_state p) \<and> ascii (pl_nonce p) \<and> ascii (pl_pkce p) \<longrightarrow>
       pl_state p' = pl_state p \<and> pl_nonce p' = pl_nonce p \<and> pl_pkce p' = pl_pkce p)"

definition sound_seal :: "front_env \<Rightarrow> bool" where
  "sound_seal env \<longleftrightarrow> (\<forall>iv m ad ad'. fe_open env iv (fe_seal env iv m ad) ad' = (if ad' = ad then Some m else None)) \<and>
     (\<forall>p. \<exists>p'. fe_unmarshal env (fe_marshal env p) = Some p' \<and> survives p p') \<and> length (fe_iv env) = 12 \<and>
     ascii (fe_state env) \<and> ascii (fe_nonce env) \<and> ascii (fe_pkce env)"

lemma sealed_for_inject [simp]: "sealed_for oa frontend_cookie \<noteq> sealed_for oa login_cookie" "sealed_for oa login_cookie \<noteq> sealed_for oa frontend_cookie"
  by (simp_all add: sealed_for_def frontend_cookie_def login_cookie_def)

lemma issued_encode:
  assumes "sound_seal env" "ck_value c = oidc_encode env oa purpose p" "issued env oa name c p'"
  shows "sealed_for oa name = sealed_for oa purpose \<and> survives p p'"
proof -
  obtain p1 where p1: "fe_unmarshal env (fe_marshal env p) = Some p1" "survives p p1" using assms(1) unfolding sound_seal_def by blast
  have "length (fe_iv env) = 12" "\<And>iv m ad ad'. fe_open env iv (fe_seal env iv m ad) ad' = (if ad' = ad then Some m else None)"
    using assms(1) unfolding sound_seal_def by blast+
  with assms(2,3) p1 show ?thesis by (auto simp: issued_def oidc_encode_def unseal_def b64_roundtrip split: if_splits)
qed

section \<open>What a reply sets\<close>

text \<open>The three kinds of cookies single sign-on sets.\<close>

lemma serve_api_cookies:
  assumes "fe_oidc env = Some oa" "serve_api env q input w = (r, w')" "c \<in> set (fr_cookies r)"
  shows "ck_value c = []"
  using assms by (auto simp: serve_api_def answered_def proxy_def modify_response_def auth_cookie_def split: if_splits prod.splits)

lemma callback_cookies:
  assumes "oidc_callback env oa q params w = (r, w')" "c \<in> set (fr_cookies r)" "ck_value c \<noteq> []"
  obtains p i shown session where "callback_transaction env oa q params = Some p" "callback_identity env oa (fst (snd params)) p = Some i"
    "group_allowed oa i" "c = sealed_session env oa q i shown session" "fst (create_api_session env oa w) = Some session" "fr_status r = 303"
  using assms unfolding oidc_callback_def
  by (auto simp: Let_def answered_def redirected_def auth_cookie_def split: option.splits if_splits prod.splits)

lemma sealed_session_payload:
  "\<exists>p. ck_value (sealed_session env oa q i shown session) = oidc_encode env oa frontend_cookie p \<and>
    pl_expires p \<le> fe_now env + 12 * 3600 \<and> pl_session p = ck_value session"
  by (cases shown) (auto simp: sealed_session_def auth_cookie_def Let_def)

lemma pages_cookies:
  assumes "front_handle env q call w = (r, w')" "call \<in> {CallHome, CallHealth, CallDashboard, CallLogin, CallIdentity}"
  shows "fr_cookies r = []"
  using assms by (auto simp: redirected_def answered_def serve_dashboard_def serve_login_def serve_identity_def split: prod.splits option.splits if_splits)

lemma issued_needs_value: "issued env oa name c p \<Longrightarrow> ck_value c \<noteq> []"
  by (auto simp: issued_def unseal_def b64_decode_def split: if_splits)

text \<open>A session cookie comes from a completed callback, a transaction cookie from a sign-in.\<close>

lemma issued_session:
  assumes oa: "fe_oidc env = Some oa" and seal: "sound_seal env" and h: "front_handle env q call w = (r, w')"
    and c: "c \<in> set (fr_cookies r)" "issued env oa frontend_cookie c p"
  obtains params p1 i where "call = CallCallback params" "callback_transaction env oa q params = Some p1"
    "callback_identity env oa (fst (snd params)) p1 = Some i" "group_allowed oa i" "pl_expires p \<le> fe_now env + 12 * 3600" "fr_status r = 303"
proof (cases call)
  case (CallCallback params)
  then have "oidc_callback env oa q params w = (r, w')" using h oa by simp
  from callback_cookies[OF this c(1) issued_needs_value[OF c(2)]] obtain p1 i shown session where k:
    "callback_transaction env oa q params = Some p1" "callback_identity env oa (fst (snd params)) p1 = Some i"
    "group_allowed oa i" "c = sealed_session env oa q i shown session" "fr_status r = 303" by metis
  from sealed_session_payload[of env oa q i shown session] obtain p' where
    "ck_value c = oidc_encode env oa frontend_cookie p'" "pl_expires p' \<le> fe_now env + 12 * 3600" unfolding k(4) by blast
  with issued_encode[OF seal _ c(2)] have "pl_expires p \<le> fe_now env + 12 * 3600" unfolding survives_def by metis
  then show thesis by (rule that[OF CallCallback k(1-3) _ k(5)])
next
  case CallSignIn
  then have "ck_value c = oidc_encode env oa login_cookie \<lparr>pl_identity = None, pl_expires = fe_now env + 600, pl_session = [],
      pl_state = fe_state env, pl_nonce = fe_nonce env, pl_pkce = fe_pkce env\<rparr>"
    using h oa c(1) by (auto simp: oidc_login_def redirected_def auth_cookie_def)
  from issued_encode[OF seal this c(2)] show thesis by simp
next
  case (CallApi input)
  then show thesis using serve_api_cookies[OF oa _ c(1)] h issued_needs_value[OF c(2)] by (metis front_handle.simps(8))
qed (use pages_cookies[OF h] c(1) in auto)

lemma issued_transaction:
  assumes oa: "fe_oidc env = Some oa" and seal: "sound_seal env" and h: "front_handle env q call w = (r, w')"
    and c: "c \<in> set (fr_cookies r)" "issued env oa login_cookie c p"
  shows "call = CallSignIn \<and> pl_state p = fe_state env \<and> pl_nonce p = fe_nonce env \<and> pl_pkce p = fe_pkce env \<and> pl_expires p = fe_now env + 600"
proof (cases call)
  case (CallCallback params)
  then have "oidc_callback env oa q params w = (r, w')" using h oa by simp
  from callback_cookies[OF this c(1) issued_needs_value[OF c(2)]] obtain i shown session where
    "c = sealed_session env oa q i shown session" by metis
  with sealed_session_payload[of env oa q i shown session] obtain p' where "ck_value c = oidc_encode env oa frontend_cookie p'" by blast
  from issued_encode[OF seal this c(2)] show ?thesis by simp
next
  case CallSignIn
  then have "ck_value c = oidc_encode env oa login_cookie \<lparr>pl_identity = None, pl_expires = fe_now env + 600, pl_session = [],
      pl_state = fe_state env, pl_nonce = fe_nonce env, pl_pkce = fe_pkce env\<rparr>"
    using h oa c(1) by (auto simp: oidc_login_def redirected_def auth_cookie_def)
  from issued_encode[OF seal this c(2)] CallSignIn seal show ?thesis by (simp add: survives_def sound_seal_def)
next
  case (CallApi input)
  then show ?thesis using serve_api_cookies[OF oa _ c(1)] h issued_needs_value[OF c(2)] by (metis front_handle.simps(8))
qed (use pages_cookies[OF h] c(1) in auto)

section \<open>Unforged cookies\<close>

text \<open>The bytes of a cookie that opens under its name. Nobody but the frontend can make them: every one presented was set, under
  whatever name, by an earlier reply.\<close>

definition presented :: "front_env \<Rightarrow> oidc_auth \<Rightarrow> dash_request \<Rightarrow> string \<Rightarrow> string option" where
  "presented env oa q name = (case request_cookie q name of
      None \<Rightarrow> None
    | Some v \<Rightarrow> (case b64_decode v of
        None \<Rightarrow> None
      | Some raw \<Rightarrow> (case unseal env oa name raw of None \<Rightarrow> None | Some _ \<Rightarrow> Some raw)))"

definition known_values :: "oidc_auth \<Rightarrow> string list \<Rightarrow> front_event \<Rightarrow> bool" where
  "known_values oa vs = (\<lambda>(others, env, q, call). list_all (\<lambda>name. case presented env oa q name of
      None \<Rightarrow> True | Some raw \<Rightarrow> list_ex (\<lambda>v. b64_decode v = Some raw) vs) [frontend_cookie, login_cookie])"

fun unforged :: "oidc_auth \<Rightarrow> string list \<Rightarrow> front_event list \<Rightarrow> dash_world \<Rightarrow> bool" where
  "unforged oa vs [] w = True"
| "unforged oa vs (x # xs) w = (known_values oa vs x \<and>
     (case front_step x w of (r, w') \<Rightarrow> unforged oa (vs @ map ck_value (fr_cookies r)) xs w'))"

lemma unforged_origin:
  assumes "unforged oa vs (before @ (others, env, q, call) # rest) w" "presented env oa q name = Some raw"
    "name = frontend_cookie \<or> name = login_cookie"
  shows "(\<exists>v \<in> set vs. b64_decode v = Some raw) \<or>
    (\<exists>h1 x h2 c. before = h1 @ x # h2 \<and> c \<in> set (fr_cookies (fst (front_step x (front_after h1 w)))) \<and> b64_decode (ck_value c) = Some raw)"
  using assms(1)
proof (induction before arbitrary: vs w)
  case Nil
  with assms(2,3) show ?case by (auto simp: known_values_def list_ex_iff)
next
  case (Cons y before)
  obtain r w' where y: "front_step y w = (r, w')" by fastforce
  with Cons.prems have "unforged oa (vs @ map ck_value (fr_cookies r)) (before @ (others, env, q, call) # rest) w'" by simp
  from Cons.IH[OF this] consider v where "v \<in> set vs" "b64_decode v = Some raw" | c where "c \<in> set (fr_cookies r)" "b64_decode (ck_value c) = Some raw"
    | h1 x h2 c where "before = h1 @ x # h2" "c \<in> set (fr_cookies (fst (front_step x (front_after h1 w'))))" "b64_decode (ck_value c) = Some raw"
    by auto
  then show ?case
  proof cases
    case 1
    then show ?thesis by blast
  next
    case 2
    have "y # before = [] @ y # before" "front_step y (front_after [] w) = (r, w')" using y by (simp_all add: front_after_def)
    with 2 show ?thesis by (metis fst_conv)
  next
    case 3
    have "y # before = (y # h1) @ x # h2" "front_after (y # h1) w = front_after h1 w'" using 3(1) y by (simp_all add: front_after_def)
    with 3 show ?thesis by metis
  qed
qed

lemma decode_presented:
  assumes "oidc_decode env oa q name = Some p"
  obtains raw where "presented env oa q name = Some raw" "unseal env oa name raw = Some p" "fe_now env < pl_expires p"
  using assms by (auto simp: oidc_decode_def presented_def split: option.splits if_splits)

text \<open>The histories of one frontend: its configuration, its key and its libraries stay the same.\<close>

definition same_frontend :: "oidc_auth \<Rightarrow> front_env \<Rightarrow> front_event list \<Rightarrow> bool" where
  "same_frontend oa env0 h \<longleftrightarrow> (\<forall>(others, env, q, call) \<in> set h. fe_oidc env = Some oa \<and> sound_seal env \<and>
     fe_open env = fe_open env0 \<and> fe_unmarshal env = fe_unmarshal env0)"

lemma cookie_origin:
  assumes same: "same_frontend oa env0 (before @ (others, env, q, call) # rest)"
    and unforged: "unforged oa [] (before @ (others, env, q, call) # rest) w"
    and p: "oidc_decode env oa q name = Some p" "name = frontend_cookie \<or> name = login_cookie"
  obtains h1 others1 env1 q1 call1 h2 c r w' where "before = h1 @ (others1, env1, q1, call1) # h2"
    "front_handle env1 q1 call1 (others1 (front_after h1 w)) = (r, w')" "c \<in> set (fr_cookies r)" "issued env1 oa name c p"
    "fe_now env < pl_expires p" "fe_oidc env1 = Some oa" "sound_seal env1"
proof -
  from decode_presented[OF p(1)] obtain raw where raw: "presented env oa q name = Some raw" "unseal env oa name raw = Some p"
    "fe_now env < pl_expires p" by blast
  from unforged_origin[OF unforged raw(1) p(2)] obtain h1 x h2 c where x: "before = h1 @ x # h2"
    "c \<in> set (fr_cookies (fst (front_step x (front_after h1 w))))" "b64_decode (ck_value c) = Some raw" by auto
  obtain others1 env1 q1 call1 where e: "x = (others1, env1, q1, call1)" by (cases x)
  obtain r w' where r: "front_handle env1 q1 call1 (others1 (front_after h1 w)) = (r, w')" by fastforce
  have "fe_open env1 = fe_open env" "fe_unmarshal env1 = fe_unmarshal env" using same e x(1) by (simp_all add: same_frontend_def)
  then have "unseal env1 oa name raw = unseal env oa name raw" by (simp add: unseal_def cong: option.case_cong)
  then have "issued env1 oa name c p" using raw(2) x(3) by (auto simp: issued_def)
  then show thesis using that[of h1 others1 env1 q1 call1 h2 r w' c] x e r raw(3) same by (simp add: front_step_def same_frontend_def)
qed

section \<open>Single sign-on guards the API\<close>

lemma reached_needs_session:
  assumes "fe_oidc env = Some oa" "serve_api env q input w = (r, w')" "fr_body r \<noteq> NoPage \<or> w' \<noteq> w"
  shows "\<exists>p. oidc_decode env oa q frontend_cookie = Some p"
proof -
  have "oidc_session env oa q \<noteq> None" using assms by (auto simp: serve_api_def answered_def split: if_splits)
  then show ?thesis by (auto simp: oidc_session_def split: option.splits)
qed

text \<open>C12: With single sign-on, a request gets an answer of the API or changes anything only if a cookie in it was set by a
  callback less than twelve hours ago, of an identity that the provider verified and that is allowed, for the state,
  the nonce and the PKCE verifier of a sign-in started less than ten minutes before it.\<close>

theorem api_is_behind_the_sign_in:
  assumes same: "same_frontend oa env (before @ [(others, env, q, CallApi input)])"
    and unforged: "unforged oa [] (before @ [(others, env, q, CallApi input)]) w"
    and answer: "front_handle env q (CallApi input) (others (front_after before w)) = (r, w')"
    and reached: "fr_body r \<noteq> NoPage \<or> w' \<noteq> others (front_after before w)"
  shows "\<exists>h1 others1 env1 q1 h2 others2 env2 q2 authcode state h3 token i.
    before = h1 @ (others1, env1, q1, CallSignIn) # h2 @ (others2, env2, q2, CallCallback ([], authcode, state)) # h3 \<and>
    fe_now env < fe_now env2 + 12 * 3600 \<and> fe_now env2 < fe_now env1 + 600 \<and> state = fe_state env1 \<and>
    fe_exchange env2 authcode (fe_pkce env1) = Some token \<and> fe_verify env2 token = Some i \<and>
    it_nonce i = fe_nonce env1 \<and> it_subject i \<noteq> [] \<and> identity_valid env2 oa i (fe_nonce env1) \<and> group_allowed oa i"
proof -
  have oa: "fe_oidc env = Some oa" using same by (simp add: same_frontend_def)
  from answer have "serve_api env q input (others (front_after before w)) = (r, w')" by simp
  from reached_needs_session[OF oa this reached] obtain p where p: "oidc_decode env oa q frontend_cookie = Some p" by blast
  obtain g others2 env2 q2 call2 h3 c r2 w2 where e2: "before = g @ (others2, env2, q2, call2) # h3"
    "front_handle env2 q2 call2 (others2 (front_after g w)) = (r2, w2)" "c \<in> set (fr_cookies r2)" "issued env2 oa frontend_cookie c p"
    "fe_now env < pl_expires p" "fe_oidc env2 = Some oa" "sound_seal env2"
    by (rule cookie_origin[OF same unforged p]) simp_all
  obtain params p1 i where cb: "call2 = CallCallback params"
    "callback_transaction env2 oa q2 params = Some p1" "callback_identity env2 oa (fst (snd params)) p1 = Some i" "group_allowed oa i"
    "pl_expires p \<le> fe_now env2 + 12 * 3600" by (rule issued_session[OF e2(6,7,2,3,4)])
  obtain err authcode state where params: "params = (err, authcode, state)" by (cases params)
  from cb(2) have t: "oidc_decode env2 oa q2 login_cookie = Some p1" "err = []" "state = pl_state p1"
    by (auto simp: callback_transaction_def params split: option.splits if_splits)
  have whole: "before @ [(others, env, q, CallApi input)] = g @ (others2, env2, q2, call2) # h3 @ [(others, env, q, CallApi input)]"
    using e2(1) by simp
  obtain h1 others1 env1 q1 call1 h2 c1 r1 w1 where
    e1: "g = h1 @ (others1, env1, q1, call1) # h2" "front_handle env1 q1 call1 (others1 (front_after h1 w)) = (r1, w1)"
    "c1 \<in> set (fr_cookies r1)" "issued env1 oa login_cookie c1 p1" "fe_now env2 < pl_expires p1" "fe_oidc env1 = Some oa" "sound_seal env1"
    by (rule cookie_origin[OF same[unfolded whole] unforged[unfolded whole] t(1)]) simp_all
  from issued_transaction[OF e1(6,7,2,3,4)] have s: "call1 = CallSignIn" "pl_state p1 = fe_state env1" "pl_nonce p1 = fe_nonce env1"
    "pl_pkce p1 = fe_pkce env1" "pl_expires p1 = fe_now env1 + 600" by simp_all
  from cb(3) obtain token where tok: "fe_exchange env2 authcode (fe_pkce env1) = Some token" "fe_verify env2 token = Some i"
    "identity_valid env2 oa i (fe_nonce env1)"
    by (auto simp: callback_identity_def params s split: option.splits if_splits)
  have "it_nonce i = fe_nonce env1" "it_subject i \<noteq> []" using tok(3) by (simp_all add: identity_valid_def)
  moreover have "fe_now env < fe_now env2 + 12 * 3600" using e2(5) cb(5) by simp
  moreover have "fe_now env2 < fe_now env1 + 600" using e1(5) s(5) by simp
  moreover have "before = h1 @ (others1, env1, q1, CallSignIn) # h2 @ (others2, env2, q2, CallCallback ([], authcode, state)) # h3"
    using e2(1) e1(1) s(1) cb(1) params t(2) by simp
  ultimately show ?thesis using tok cb(4) t(3) s(2) by blast
qed

section \<open>An example provider\<close>

text \<open>A toy cipher that carries its purpose, and a payload as its number in binary and its three texts.\<close>

definition toy_seal :: "string \<Rightarrow> string \<Rightarrow> string \<Rightarrow> string" where
  "toy_seal iv m ad = replicate (length ad) CHR ''.'' @ CHR ''!'' # ad @ m"

definition toy_open :: "string \<Rightarrow> string \<Rightarrow> string \<Rightarrow> string option" where
  "toy_open iv c ad = (let n = length (takeWhile (\<lambda>x. x = CHR ''.'') c); body = drop (Suc n) c
     in if take n body = ad then Some (drop n body) else None)"

fun bits :: "nat \<Rightarrow> string" where
  "bits n = (if n = 0 then [] else (if even n then CHR ''0'' else CHR ''1'') # bits (n div 2))"

declare bits.simps [simp del]

fun of_bits :: "string \<Rightarrow> nat" where
  "of_bits [] = 0"
| "of_bits (c # cs) = (if c = CHR ''1'' then 1 else 0) + 2 * of_bits cs"

definition toy_marshal :: "auth_payload \<Rightarrow> string" where
  "toy_marshal p = join_with (CHR 0xFF) [(if pl_expires p < 0 then CHR ''-'' else CHR ''+'') # bits (nat \<bar>pl_expires p\<bar>),
     pl_state p, pl_nonce p, pl_pkce p, pl_session p]"

definition toy_unmarshal :: "string \<Rightarrow> auth_payload option" where
  "toy_unmarshal s = (case split_on (CHR 0xFF) s of
      e # ws \<Rightarrow> (let text = (\<lambda>i. if i < length ws then ws ! i else [])
        in Some \<lparr>pl_identity = None, pl_expires = (if take 1 e = ''-'' then -1 else 1) * int (of_bits (drop 1 e)), pl_session = text 3,
          pl_state = text 0, pl_nonce = text 1, pl_pkce = text 2\<rparr>)
    | [] \<Rightarrow> None)"

definition sample_oa :: oidc_auth where
  "sample_oa = \<lparr>oa_binding = ''b'', oa_client = ''dash'', oa_api_token = ''secret'', oa_groups = [''admins'']\<rparr>"

definition sample_front :: "int \<Rightarrow> front_env" where
  "sample_front now = \<lparr>fe_api = sample_api now ''cookie'', fe_api_host = ''api'', fe_api_tls = False, fe_reaches = True, fe_public = None,
     fe_oidc = Some sample_oa,
     fe_parse_url = (\<lambda>_. None), fe_host_parts = (\<lambda>h. (h, [])), fe_seal = toy_seal, fe_open = toy_open, fe_marshal = toy_marshal,
     fe_unmarshal = toy_unmarshal, fe_exchange = (\<lambda>c v. if c = ''code'' \<and> v = ''verifier'' then Some ''jwt'' else None),
     fe_verify = (\<lambda>t. if t = ''jwt'' then Some \<lparr>it_subject = ''42'', it_issued_at = 1000, it_nonce = ''nonce'', it_audience = [''dash''],
       it_party = Some [], it_groups = Some [''admins''], it_names = Some ([], [], [])\<rparr> else None),
     fe_auth_url = (\<lambda>_ _ _. ''https://idp''), fe_now = now, fe_state = ''state'', fe_nonce = ''nonce'', fe_pkce = ''verifier'', fe_iv = ''twelve bytes''\<rparr>"

lemma sample_front_fields [simp]: "fe_oidc (sample_front now) = Some sample_oa" "fe_now (sample_front now) = now"
  "fe_state (sample_front now) = ''state''" "fe_nonce (sample_front now) = ''nonce''" "fe_pkce (sample_front now) = ''verifier''"
  by (simp_all add: sample_front_def sample_oa_def)

text \<open>A sign-in, its callback and a request with the cookies they set.\<close>

definition transaction_payload :: auth_payload where
  "transaction_payload = \<lparr>pl_identity = None, pl_expires = 1600, pl_session = [], pl_state = ''state'', pl_nonce = ''nonce'', pl_pkce = ''verifier''\<rparr>"

definition session_payload :: auth_payload where
  "session_payload = \<lparr>pl_identity = Some \<lparr>di_name = bounded_name [], di_username = bounded_name [], di_email = bounded_name [],
     di_subject = bounded_name ''42''\<rparr>, pl_expires = 44205, pl_session = ''cookie'', pl_state = [], pl_nonce = [], pl_pkce = []\<rparr>"

definition transaction_value :: string where
  "transaction_value = oidc_encode (sample_front 1000) sample_oa login_cookie transaction_payload"

definition session_value :: string where
  "session_value = oidc_encode (sample_front 1005) sample_oa frontend_cookie session_payload"

definition sign_in_event :: front_event where
  "sign_in_event = (\<lambda>w. w, sample_front 1000, dash_call ''GET'' ''/dashboard/auth/login'' [], CallSignIn)"

definition callback_event :: front_event where
  "callback_event = (\<lambda>w. w, sample_front 1005, dash_call ''GET'' ''/dashboard/auth/callback'' [(login_cookie, transaction_value)],
     CallCallback ([], ''code'', ''state''))"

definition sample_request :: dash_request where
  "sample_request = dash_call ''GET'' ''/dashboard/api/session'' [(frontend_cookie, session_value)]"

lemma toy_bits: "of_bits (bits n) = n" "CHR 0xFF \<notin> set (bits n)"
proof -
  show "of_bits (bits n) = n"
    by (induction n rule: bits.induct) (subst bits.simps, auto elim!: oddE)
  show "CHR 0xFF \<notin> set (bits n)"
    by (induction n rule: bits.induct) (subst bits.simps, auto)
qed

lemma toy_open_seal: "toy_open iv (toy_seal iv m ad) ad' = (if ad' = ad then Some m else None)"
proof -
  have "takeWhile (\<lambda>x. x = CHR ''.'') (replicate k CHR ''.'' @ CHR ''!'' # ys) = replicate k CHR ''.''" for k ys
    by (induction k) simp_all
  then show ?thesis by (auto simp: toy_open_def toy_seal_def Let_def)
qed

definition toy_number :: "auth_payload \<Rightarrow> string" where
  "toy_number p = (if pl_expires p < 0 then CHR ''-'' else CHR ''+'') # bits (nat \<bar>pl_expires p\<bar>)"

lemma toy_number_free: "CHR 0xFF \<notin> set (toy_number p)"
  using toy_bits(2) by (simp add: toy_number_def)

lemma split_on_field: "CHR 0xFF \<notin> set w \<Longrightarrow> split_on (CHR 0xFF) (w @ CHR 0xFF # t) = w # split_on (CHR 0xFF) t"
  by (simp add: split_on_append split_on_atom)

lemma toy_fields: "split_on (CHR 0xFF) (toy_marshal p) =
    toy_number p # split_on (CHR 0xFF) (pl_state p @ CHR 0xFF # pl_nonce p @ CHR 0xFF # pl_pkce p @ CHR 0xFF # pl_session p)"
  unfolding toy_marshal_def join_with.simps toy_number_def[symmetric] split_on_field[OF toy_number_free] ..

lemma ascii_free: "ascii s \<Longrightarrow> CHR 0xFF \<notin> set s"
proof
  have "\<not> code (CHR 0xFF) < 128" by code_simp
  moreover assume "ascii s" "CHR 0xFF \<in> set s"
  ultimately show False by (auto simp: ascii_def list_all_iff)
qed

lemma toy_survives: "\<exists>p'. toy_unmarshal (toy_marshal p) = Some p' \<and> survives p p'"
proof -
  define ws where "ws = split_on (CHR 0xFF) (pl_state p @ CHR 0xFF # pl_nonce p @ CHR 0xFF # pl_pkce p @ CHR 0xFF # pl_session p)"
  have fields: "split_on (CHR 0xFF) (toy_marshal p) = toy_number p # ws" unfolding ws_def by (rule toy_fields)
  obtain p' where p': "toy_unmarshal (toy_marshal p) = Some p'" "pl_expires p' = pl_expires p"
    "pl_state p' = (if 0 < length ws then ws ! 0 else [])" "pl_nonce p' = (if 1 < length ws then ws ! 1 else [])"
    "pl_pkce p' = (if 2 < length ws then ws ! 2 else [])"
    by (simp add: toy_unmarshal_def fields Let_def toy_bits(1) toy_number_def)
  have "ws ! 0 = pl_state p \<and> ws ! 1 = pl_nonce p \<and> ws ! 2 = pl_pkce p \<and> 2 < length ws"
    if "ascii (pl_state p)" "ascii (pl_nonce p)" "ascii (pl_pkce p)"
    unfolding ws_def using that[THEN ascii_free] by (simp add: split_on_field)
  with p' show ?thesis by (auto simp: survives_def)
qed

lemma sample_sound: "sound_seal (sample_front now)"
proof -
  have "ascii ''state''" "ascii ''nonce''" "ascii ''verifier''" by code_simp+
  then show ?thesis using toy_open_seal toy_survives by (simp add: sound_seal_def sample_front_def)
qed

lemma sample_same: "same_frontend sample_oa (sample_front 2000)
    ([sign_in_event, callback_event] @ [(\<lambda>w. w, sample_front 2000, sample_request, CallApi foreign_input)])"
  unfolding same_frontend_def sign_in_event_def callback_event_def by (simp add: sample_sound) (simp add: sample_front_def)


lemma sample_decode:
  assumes "request_cookie q name = Some (oidc_encode (sample_front t) sample_oa name p)" "length (oidc_encode (sample_front t) sample_oa name p) \<le> 4096"
    "toy_unmarshal (toy_marshal p) = Some p'" "now < pl_expires p'"
  shows "oidc_decode (sample_front now) sample_oa q name = Some p'"
proof -
  have "fe_iv (sample_front t) = ''twelve bytes''" "fe_seal (sample_front t) = toy_seal" "fe_open (sample_front t) = toy_open"
    "fe_marshal (sample_front t) = toy_marshal" "fe_unmarshal (sample_front t) = toy_unmarshal" for t by (simp_all add: sample_front_def)
  with assms show ?thesis
    by (simp add: oidc_decode_def) (simp add: oidc_encode_def b64_roundtrip unseal_def toy_open_seal)
qed

lemma toy_reads:
  assumes "ascii (pl_state p)" "ascii (pl_nonce p)" "ascii (pl_pkce p)" "ascii (pl_session p)"
  shows "toy_unmarshal (toy_marshal p) = Some (p\<lparr>pl_identity := None\<rparr>)"
  using assms[THEN ascii_free]
  by (simp add: toy_unmarshal_def toy_fields split_on_field split_on_atom Let_def toy_bits(1) toy_number_def numeral_3_eq_3 numeral_2_eq_2)

lemma sample_texts: "ascii []" "ascii ''state''" "ascii ''nonce''" "ascii ''verifier''" "ascii ''cookie''"
  by code_simp+

lemma sample_length:
  assumes "length (toy_marshal p) \<le> 100" "purpose = frontend_cookie \<or> purpose = login_cookie"
  shows "length (oidc_encode (sample_front t) sample_oa purpose p) \<le> 4096"
proof -
  have "length (b64_encode x) * 3 \<le> 4 * length x + 2" for x using sextets_length[of "map code x"] by (simp add: b64_encode_def)
  moreover have "length (fe_iv (sample_front t) @ fe_seal (sample_front t) (fe_iv (sample_front t)) (fe_marshal (sample_front t) p)
      (sealed_for sample_oa purpose)) \<le> 1000"
    using assms by (auto simp: sample_front_def toy_seal_def sealed_for_def frontend_cookie_def login_cookie_def sample_oa_def)
  moreover have "3 * k \<le> 4 * n + 2 \<Longrightarrow> n \<le> 1000 \<Longrightarrow> k \<le> 4096" for k n :: nat by simp
  ultimately show ?thesis unfolding oidc_encode_def by (metis mult.commute)
qed

lemma sample_bits: "length (bits 1600) \<le> 20" "length (bits 44205) \<le> 20"
  by (simp_all add: bits.simps)

lemma sample_payloads: "length transaction_value \<le> 4096" "length session_value \<le> 4096"
  "toy_unmarshal (toy_marshal transaction_payload) = Some transaction_payload"
  "toy_unmarshal (toy_marshal session_payload) = Some (session_payload\<lparr>pl_identity := None\<rparr>)"
proof -
  have "length (toy_marshal transaction_payload) \<le> 100" "length (toy_marshal session_payload) \<le> 100"
    using sample_bits by (simp_all add: toy_marshal_def transaction_payload_def session_payload_def)
  then show "length transaction_value \<le> 4096" "length session_value \<le> 4096"
    unfolding transaction_value_def session_value_def by (blast intro: sample_length)+
  show "toy_unmarshal (toy_marshal transaction_payload) = Some transaction_payload"
    using toy_reads[of transaction_payload] sample_texts by (simp add: transaction_payload_def)
  show "toy_unmarshal (toy_marshal session_payload) = Some (session_payload\<lparr>pl_identity := None\<rparr>)"
    using sample_texts by (intro toy_reads) (simp_all add: session_payload_def)
qed

lemma presented_known:
  assumes "\<And>name v. request_cookie q name = Some v \<Longrightarrow> v \<in> set vs"
  shows "known_values oa vs (others, env, q, call)"
  using assms by (auto simp: known_values_def presented_def list_ex_iff split: option.splits)

lemma sign_in_reply: "map ck_value (fr_cookies (fst (front_step sign_in_event w))) = [transaction_value]" "snd (front_step sign_in_event w) = w"
  by (simp_all add: front_step_def sign_in_event_def oidc_login_def redirected_def auth_cookie_def transaction_value_def transaction_payload_def)

lemma callback_reply: "map ck_value (fr_cookies (fst (front_step callback_event dash_sample))) = [[], session_value]"
  "dw_sessions (snd (front_step callback_event dash_sample)) = [(''eikooc'', 44205)]"
proof -
  let ?q = "dash_call ''GET'' ''/dashboard/auth/callback'' [(login_cookie, transaction_value)]"
  have "oidc_decode (sample_front 1005) sample_oa ?q login_cookie = Some transaction_payload"
    using sample_payloads(1,3) unfolding transaction_value_def
    by (intro sample_decode) (simp_all add: request_cookie_def dash_call_def transaction_payload_def)
  then have t: "callback_transaction (sample_front 1005) sample_oa ?q ([], ''code'', ''state'') = Some transaction_payload"
    by (simp add: callback_transaction_def transaction_payload_def)
  obtain i where i: "callback_identity (sample_front 1005) sample_oa ''code'' transaction_payload = Some i" "group_allowed sample_oa i"
    "it_names i = Some ([], [], [])" "it_subject i = ''42''"
    by (simp add: callback_identity_def sample_front_def sample_oa_def transaction_payload_def identity_valid_def group_allowed_def)
  obtain session where c: "create_api_session (sample_front 1005) sample_oa dash_sample = (Some session, dash_sample\<lparr>dw_sessions := [(''eikooc'', 44205)]\<rparr>)"
    "ck_value session = ''cookie''" "ck_expires session = 44205"
    by (simp add: create_api_session_def sample_front_def sample_oa_def sample_api_def api_handle_def on_sessions_def dashboard_login_def
        dashboard_mutation_allowed_def valid_dashboard_token_def dashboard_token_def dash_sample_def drop_session_def session_lifetime_def
        dashboard_session_cookie_def session_cookie_def dashboard_cookie_def Let_def)
  have "front_step callback_event dash_sample = redirected ''/dashboard/'' [auth_cookie (sample_front 1005) ?q login_cookie [] 1 (- 1),
      sealed_session (sample_front 1005) sample_oa ?q i ([], [], []) session] (dash_sample\<lparr>dw_sessions := [(''eikooc'', 44205)]\<rparr>)"
    using t i c by (simp add: front_step_def callback_event_def oidc_callback_def Let_def)
  with i(4) c(2,3) show "map ck_value (fr_cookies (fst (front_step callback_event dash_sample))) = [[], session_value]"
    "dw_sessions (snd (front_step callback_event dash_sample)) = [(''eikooc'', 44205)]"
    by (simp_all add: redirected_def auth_cookie_def sealed_session_def Let_def session_value_def session_payload_def)
qed

lemma sample_session:
  "unforged sample_oa [] ([sign_in_event, callback_event] @ [(\<lambda>w. w, sample_front 2000, sample_request, CallApi foreign_input)]) dash_sample"
proof -
  obtain r w' where cb: "front_step callback_event dash_sample = (r, w')" by fastforce
  with callback_reply(1) have vs: "map ck_value (fr_cookies r) = [[], session_value]" by simp
  obtain r1 where "front_step sign_in_event dash_sample = (r1, dash_sample)" "map ck_value (fr_cookies r1) = [transaction_value]"
    using sign_in_reply[of dash_sample] by (metis prod.collapse)
  moreover have "known_values sample_oa [] sign_in_event" "known_values sample_oa [transaction_value] callback_event"
    "known_values sample_oa [transaction_value, [], session_value] (\<lambda>w. w, sample_front 2000, sample_request, CallApi foreign_input)"
    unfolding sign_in_event_def callback_event_def sample_request_def
    by (rule presented_known, simp add: request_cookie_def dash_call_def split: if_splits)+
  ultimately show
    "unforged sample_oa [] ([sign_in_event, callback_event] @ [(\<lambda>w. w, sample_front 2000, sample_request, CallApi foreign_input)]) dash_sample"
    using cb vs by (simp split: prod.splits)
qed

lemma sample_answer:
  assumes "dw_sessions w = [(''eikooc'', 44205)]"
  shows "\<exists>w'. front_handle (sample_front 2000) sample_request (CallApi foreign_input) w =
    (\<lparr>fr_status = 204, fr_location = [], fr_cookies = [], fr_body = FromApi EmptyBody\<rparr>, w')"
proof -
  have route: "allowed_api ''GET'' ''/dashboard/api/session''" "api_route ''GET'' ''/dashboard/api/session'' foreign_input = Some ApiSession"
    by code_simp+
  have "oidc_decode (sample_front 2000) sample_oa sample_request frontend_cookie = Some (session_payload\<lparr>pl_identity := None\<rparr>)"
    using sample_payloads(2,4) unfolding session_value_def
    by (intro sample_decode[where t = 1005 and p = session_payload])
      (simp_all add: sample_request_def request_cookie_def dash_call_def session_payload_def session_value_def)
  then have session: "oidc_session (sample_front 2000) sample_oa sample_request = Some (session_payload\<lparr>pl_identity := None\<rparr>)"
    by (simp add: oidc_session_def session_payload_def)
  have out: "outgoing (sample_front 2000) sample_request = \<lparr>dq_method = ''GET'', dq_path = ''/dashboard/api/session'', dq_authorization = [],
      dq_cookies = [(session_cookie, ''cookie'')], dq_marker = ''1'', dq_site = [], dq_origin = [], dq_host = ''api'', dq_tls = False\<rparr>"
    using session by (simp add: outgoing_def copy_credentials_def sample_request_def dash_call_def session_payload_def) (simp add: sample_front_def)
  have "fst (api_serve (fe_api (sample_front 2000)) (outgoing (sample_front 2000) sample_request) foreign_input w) =
      \<lparr>ar_status = 204, ar_cookies = [], ar_body = EmptyBody\<rparr>"
    unfolding out using assms route by (simp add: api_serve_def api_handle_def protect_dashboard_def dashboard_authenticated_def request_cookie_def
        session_cookie_def dashboard_cookie_def sample_front_def sample_api_def reply_def)
  then obtain w' where served: "api_serve (fe_api (sample_front 2000)) (outgoing (sample_front 2000) sample_request) foreign_input w =
      (\<lparr>ar_status = 204, ar_cookies = [], ar_body = EmptyBody\<rparr>, w')" by (metis prod.collapse)
  have "dq_method sample_request = ''GET''" "dq_path sample_request = ''/dashboard/api/session''" "fe_reaches (sample_front 2000)"
    by (simp_all add: sample_request_def dash_call_def sample_front_def)
  then show ?thesis using route(1) session served
    by (simp add: serve_api_def reading_def proxy_def modify_response_def api_path_def)
qed

lemma api_is_behind_the_sign_in_witness:
  "\<exists>r w'. front_handle (sample_front 2000) sample_request (CallApi foreign_input) (front_after [sign_in_event, callback_event] dash_sample) = (r, w') \<and>
     fr_status r = 204 \<and>
     (\<exists>h1 others1 env1 q1 h2 others2 env2 q2 authcode state h3 token i.
       [sign_in_event, callback_event] = h1 @ (others1, env1, q1, CallSignIn) # h2 @ (others2, env2, q2, CallCallback ([], authcode, state)) # h3 \<and>
       2000 < fe_now env2 + 12 * 3600 \<and> fe_verify env2 token = Some i \<and> it_nonce i = fe_nonce env1)"
proof -
  let ?w = "front_after [sign_in_event, callback_event] dash_sample"
  have "?w = snd (front_step callback_event dash_sample)" by (simp add: front_after_def sign_in_reply(2))
  with callback_reply(2) have "dw_sessions ?w = [(''eikooc'', 44205)]" by simp
  from sample_answer[OF this] obtain w' where h: "front_handle (sample_front 2000) sample_request (CallApi foreign_input) ?w =
    (\<lparr>fr_status = 204, fr_location = [], fr_cookies = [], fr_body = FromApi EmptyBody\<rparr>, w')" by blast
  from api_is_behind_the_sign_in[where others = "\<lambda>w. w", OF sample_same sample_session h] h show ?thesis by simp blast
qed

end
