(* ===== verification/Spec2Isabelle.thy ===== *)
theory Spec2Isabelle
  imports Worker_Server_Claims Job_Transfer_Claims Update_Witness Media_Claims Control_Socket
    Dashboard_Claims Frontend_Claims Sign_In_Claims
begin

text \<open>
  \<^bold>\<open>transcoderd\<close> transcodes a video library on a fleet of workers. This library models the program and proves what makes
  it correct; it can be read beside the code, component by component. File names are below \<open>src/\<close>.

  \<^bold>\<open>The program.\<close> A server (\<open>server/\<close>) keeps jobs, their events, worker settings and commands in PostgreSQL and owns the
  files of the library. Workers (\<open>worker/\<close>) ask it for jobs over HTTP, download the source, run ffmpeg and its helpers,
  verify the result, upload it and report every step as an event. The server stages an upload, checks it and publishes
  it beside the source when the event of completion arrives. A dashboard (\<open>frontend/\<close>, \<open>server/web\<close>, \<open>server/library\<close>)
  shows the fleet, commands workers and queues files. On Windows the worker updates itself (\<open>update/managed\<close>).

  \<^bold>\<open>Shared vocabulary.\<close> \<open>Prelude\<close>: fallible stateful procedures \<open>('s, 'e, 'a) procedure\<close> with \<open>bindP\<close>, \<open>tryP\<close>, \<open>forP\<close>, the
  predicate \<open>keeps I m\<close> and its rules \<open>keeps_intros\<close>, \<open>sort_slice\<close>, tables as lists of rows. \<open>Go_Lib\<close>, \<open>Go_Float\<close>: what is used of
  \<open>strings\<close>, \<open>strconv\<close>, \<open>path\<close> and \<open>float64\<close>. \<open>Path_Facts\<close>: paths as lists of elements.

  \<^bold>\<open>Server.\<close>
  \<^item> \<open>Events\<close>, \<open>Settings\<close> (\<open>model/model.go\<close>, \<open>workerSettings.go\<close>, \<open>workerControl.go\<close>): jobs, logs of events, settings, commands.
  \<^item> \<open>Sql_Repository\<close> (\<open>server/repository\<close>): the tables as \<open>sql_db\<close>, one procedure per statement, transactions, the failures of
    statements as the list \<open>faults\<close>. \<open>Sql_Invariant\<close>, \<open>Sql_Reading\<close>: the invariant \<open>db_inv\<close> and what queries return.
    \<open>Event_Log\<close>, \<open>Worker_Stores\<close>: the interfaces \<open>event_log\<close>, \<open>settings_store\<close>, \<open>command_store\<close> as locales, interpreted on it.
  \<^item> \<open>File_System\<close>, \<open>Output_Naming\<close>, \<open>Output_Location\<close> (\<open>server/scheduler/outputNaming.go\<close>): the files of the library with hard
    links, the names of outputs and the reservation of the final one.
  \<^item> \<open>Scheduler\<close>, \<open>Publication\<close>, \<open>Maintenance\<close> (\<open>server/scheduler\<close>): intake, assignment, cancellation, commands; uploads, their
    publication and the handling of events; streams and the maintenance passes. \<open>Scheduler_Correct\<close>, \<open>Publication_Correct\<close> and
    \<open>Server_Steps\<close> carry the proofs (the last as a step relation over whole calls), \<open>Scheduler_Claims\<close>, \<open>Publication_Claims\<close>
    and \<open>Server_Claims\<close> state them: an intake changes one log, the oldest job is assigned once, publication verifies and
    overwrites nothing, logs only grow.
  \<^item> \<open>Web_Api\<close>, \<open>Web_Claims\<close> (\<open>server/web/web.go\<close>): the handlers for workers; what an acknowledged upload means.
  \<^item> \<open>Media_Path\<close>, \<open>Media_Library\<close>, \<open>Media_Operations\<close>, \<open>Media_Claims\<close> (\<open>server/library\<close>, \<open>scheduler/media.go\<close>): identifiers, browsing,
    scans and batches with the registry of operations.
  \<^item> \<open>Dashboard_Query\<close>, \<open>Dashboard_Claims\<close> (\<open>server/repository/dashboard.go\<close>, \<open>model/dashboard.go\<close>): the report and the pages of jobs.
  \<^item> \<open>Dashboard_Auth\<close>, \<open>Dashboard_Api\<close>, \<open>Session_Claims\<close>, \<open>Reading_Claims\<close> (\<open>server/web/dashboardAuth.go\<close>, \<open>dashboard.go\<close>, \<open>media.go\<close>):
    sessions, routes and handlers; who is let in, and what reading or a foreign site can change.

  \<^bold>\<open>Frontend.\<close> \<open>Frontend\<close>, \<open>Frontend_Claims\<close>, \<open>Sign_In_Claims\<close> (\<open>frontend/web/server.go\<close>, \<open>oidc.go\<close>): the proxy with its list of
  calls, sealed cookies, the sign-in through an OpenID provider. The list agrees with the routes of the API, and with
  single sign-on the API is only reached after a verified sign-in.

  \<^bold>\<open>Worker.\<close>
  \<^item> \<open>Encode_Pool\<close>, \<open>Pause_Controller\<close>, \<open>Worker_Config\<close>, \<open>Worker_Admission\<close> (\<open>worker/worker/encodeConcurrency.go\<close>,
    \<open>helper/command/pause.go\<close>, \<open>worker/config\<close>, \<open>executor.go\<close>): encode slots and their queue as a step relation, suspended
    processes, schedules and codecs, every control of the executor. \<open>Encode_Pool_Correct\<close> and the theories \<open>..._Claims\<close>: no
    lost wake-up, counters, holds that follow the controls, bounds on accepted jobs, schedules as sets of minutes.
  \<^item> \<open>Worker_Registry\<close>, \<open>Server_Client\<close>, \<open>Coordinator\<close>, \<open>Coordinator_Claims\<close>, \<open>Control_Socket\<close> (\<open>desktop_jobs.go\<close>, \<open>progress.go\<close>,
    \<open>worker/serverclient\<close>, \<open>coordinator.go\<close>, \<open>remoteControl.go\<close>, \<open>worker/control\<close>): telemetry, the client, synchronisation and
    remote commands, the local socket.
  \<^item> \<open>Probe_Data\<close>, \<open>Encode_Command\<close> (\<open>worker/ffmpeg\<close>, \<open>worker/step\<close>): the choice of tracks, the command lines, the verification.
  \<^item> \<open>Pipeline\<close>, \<open>Pipeline_Claims\<close> (\<open>worker/worker/executor.go\<close>, \<open>worker/job\<close>): one job through its phases, with restarts and
    clean-ups that fail.

  \<^bold>\<open>Worker and server together.\<close> \<open>Worker_Server\<close>, \<open>Worker_Server_Claims\<close>: each call of the client answered by its handler, with
  failed, repeated and lost attempts, and steps of others in between. \<open>Job_Transfer\<close>, \<open>Job_Transfer_Claims\<close> (\<open>downloadStep.go\<close>, \<open>uploadStep.go\<close>): transfers end to end.

  \<^bold>\<open>Managed updates.\<close> \<open>Update_Manifest\<close>, \<open>Update_Client\<close>, \<open>Update_Manager\<close>, \<open>Update_Helper\<close> (\<open>update/managed\<close>,
  \<open>cmd/windows-service/updates_windows.go\<close>): the signed manifest, the release client, the manager and the helper over a
  world where each call works, fails half-way or is the last of its process. \<open>Update_Rules\<close> (triples), \<open>Update_Helper_Claims\<close>,
  \<open>Update_Recovery\<close>, \<open>Update_Barrier\<close>, \<open>Update_Claims\<close>, \<open>Update_Witness\<close>: an installation survives, a pending update
  stays locked until that very update is installed, recovery works.

  \<^bold>\<open>How the code is represented.\<close> A Go method that changes its receiver and returns an error is a procedure; a struct is a
  record, an error a value; a mutex makes a method one step; goroutines and channels that matter (the encoder queue, the
  server's calls, a batch beside other clients) are interleavings of such steps. Go's \<open>int\<close> is \<open>int\<close> where the code bounds it
  and a word where it can wrap (counters of the job slots, ids of streams). A string is its bytes.

  \<^bold>\<open>Fuel and bounds.\<close> The loop that reserves an output name gets \<open>length names + 4\<close> rounds, enough since every round
  that fails meets another existing name; the day mask is built in 7 passes; a job ends within 25 steps of its pipeline;
  the recovery of the helper observes at most as many attempts as its argument says. Loops over lists of outcomes
  (faults, plans, deliveries) end with the list. The recursions on times, chunks and runes carry a measure.

  \<^bold>\<open>Parameters\<close> (code that is not in the repository): ffprobe, ffmpeg, the OCR and \<open>Setup\<close>; SHA-256, Ed25519 and AES-GCM; the
  decoders of JSON, base64 with padding and URLs; UUIDs and semantic versions; the OpenID libraries; the router, of which the
  documented reading of its templates is used; HTTP transports and the retrying client; the zone database; the order of
  a Go map (\<open>shuffle\<close>); the clock, random texts and the wording of errors.

  \<^bold>\<open>Not modelled.\<close> Reading and writing sockets, pipes and consoles; starting processes and reading their output; the
  schema migrations; samplers of CPU, GPU and memory; the Windows API behind the helper and the service; build and release
  tools (\<open>magefiles\<close>, \<open>cmd/windows-update-manifest\<close>); the in-memory repository used by tests; static assets. Symbolic links are
  outside the file model; a tree is a list of its names in the order of a walk. Decimal fractions are exact rationals. The checksum of
  a stream is published when the stream ends; the two probing goroutines of a scan run one after the other.
\<close>

end
